(* ===== verification/Prelude.thy ===== *)
theory Prelude
  imports Main "HOL-Library.Char_ord" "HOL-Library.List_Lexorder" "HOL-Library.Sublist"
begin

text \<open>
  The vocabulary the components share.  A Go string is its list of bytes, so it is an
  Isabelle \<^typ>\<open>string\<close> (a list of 8-bit characters) and \<open><\<close> on it is the bytewise
  lexicographic order.  A function of the source that returns \<open>(value, error)\<close> is a sum
  \<^typ>\<open>'e + 'a\<close> with the error on the left.  The functions of package \<open>strings\<close>,
  \<open>strconv\<close> and \<open>path\<close> that the source calls are written out here; the case mapping of
  a string with bytes above 127 is an argument of the definitions that use it.
\<close>

section \<open>Results\<close>

named_theorems result_simps \<open>rewriting of the error monad\<close>

definition bindE :: "'e + 'a \<Rightarrow> ('a \<Rightarrow> 'e + 'b) \<Rightarrow> 'e + 'b" where
  "bindE r f = (case r of Inl e \<Rightarrow> Inl e | Inr a \<Rightarrow> f a)"

definition mapErr :: "('e \<Rightarrow> 'f) \<Rightarrow> 'e + 'a \<Rightarrow> 'f + 'a" where
  "mapErr g r = (case r of Inl e \<Rightarrow> Inl (g e) | Inr a \<Rightarrow> Inr a)"

definition guardE :: "bool \<Rightarrow> 'e \<Rightarrow> 'e + unit" where
  "guardE ok e = (if ok then Inr () else Inl e)"

abbreviation isOk :: "'e + 'a \<Rightarrow> bool" where
  "isOk r \<equiv> \<not> isl r"

lemma bindE_simps [simp, result_simps]:
  "bindE (Inl e) f = Inl e"
  "bindE (Inr a) f = f a"
  by (simp_all add: bindE_def)

lemma bindE_Inr_iff [result_simps]:
  "bindE r f = Inr b \<longleftrightarrow> (\<exists>a. r = Inr a \<and> f a = Inr b)"
  by (cases r) simp_all

lemma bindE_Inl_iff [result_simps]:
  "bindE r f = Inl e \<longleftrightarrow> r = Inl e \<or> (\<exists>a. r = Inr a \<and> f a = Inl e)"
  by (cases r) simp_all

lemma mapErr_simps [simp, result_simps]:
  "mapErr g (Inl e) = Inl (g e)"
  "mapErr g (Inr a) = Inr a"
  by (simp_all add: mapErr_def)

lemma mapErr_Inr_iff [result_simps]: "mapErr g r = Inr a \<longleftrightarrow> r = Inr a"
  by (cases r) simp_all

lemma guardE_Inr_iff [simp, result_simps]: "guardE ok e = Inr u \<longleftrightarrow> ok"
  by (simp add: guardE_def)

lemma guardE_Inl_iff [simp, result_simps]: "guardE ok e = Inl e' \<longleftrightarrow> \<not> ok \<and> e' = e"
  by (auto simp: guardE_def)

section \<open>Package strings\<close>

definition containsAny :: "string \<Rightarrow> string \<Rightarrow> bool" where
  "containsAny s chars = list_ex (\<lambda>c. List.member chars c) s"

definition containsByte :: "string \<Rightarrow> char \<Rightarrow> bool" where
  "containsByte s c = List.member s c"

definition hasPrefix :: "string \<Rightarrow> string \<Rightarrow> bool" where
  "hasPrefix s p = (take (length p) s = p)"

definition hasSuffix :: "string \<Rightarrow> string \<Rightarrow> bool" where
  "hasSuffix s p = (length p \<le> length s \<and> drop (length s - length p) s = p)"

definition trimPrefix :: "string \<Rightarrow> string \<Rightarrow> string" where
  "trimPrefix s p = (if hasPrefix s p then drop (length p) s else s)"

definition trimSuffix :: "string \<Rightarrow> string \<Rightarrow> string" where
  "trimSuffix s p = (if hasSuffix s p then take (length s - length p) s else s)"

text \<open>\<open>strings.Cut\<close> at a one-byte separator: the parts around its first occurrence.\<close>

definition cut :: "char \<Rightarrow> string \<Rightarrow> (string \<times> string) option" where
  "cut c s = (case dropWhile (\<lambda>x. x \<noteq> c) s of
       [] \<Rightarrow> None
     | _ # rest \<Rightarrow> Some (takeWhile (\<lambda>x. x \<noteq> c) s, rest))"

fun joinStrings :: "string \<Rightarrow> string list \<Rightarrow> string" where
  "joinStrings sep [] = []"
| "joinStrings sep [x] = x"
| "joinStrings sep (x # y # ys) = x @ sep @ joinStrings sep (y # ys)"

text \<open>The UTF-8 encodings of the code points of Unicode's White_Space property, which is
  what \<open>unicode.IsSpace\<close> and so \<open>strings.TrimSpace\<close> recognise.\<close>

definition spaceSeqs :: "string list" where
  "spaceSeqs =
     [[CHR 0x09], [CHR 0x0A], [CHR 0x0B], [CHR 0x0C], [CHR 0x0D], [CHR 0x20],
      [CHR 0xC2, CHR 0x85], [CHR 0xC2, CHR 0xA0], [CHR 0xE1, CHR 0x9A, CHR 0x80],
      [CHR 0xE2, CHR 0x80, CHR 0x80], [CHR 0xE2, CHR 0x80, CHR 0x81],
      [CHR 0xE2, CHR 0x80, CHR 0x82], [CHR 0xE2, CHR 0x80, CHR 0x83],
      [CHR 0xE2, CHR 0x80, CHR 0x84], [CHR 0xE2, CHR 0x80, CHR 0x85],
      [CHR 0xE2, CHR 0x80, CHR 0x86], [CHR 0xE2, CHR 0x80, CHR 0x87],
      [CHR 0xE2, CHR 0x80, CHR 0x88], [CHR 0xE2, CHR 0x80, CHR 0x89],
      [CHR 0xE2, CHR 0x80, CHR 0x8A], [CHR 0xE2, CHR 0x80, CHR 0xA8],
      [CHR 0xE2, CHR 0x80, CHR 0xA9], [CHR 0xE2, CHR 0x80, CHR 0xAF],
      [CHR 0xE2, CHR 0x81, CHR 0x9F], [CHR 0xE3, CHR 0x80, CHR 0x80]]"

function stripFront :: "string list \<Rightarrow> string \<Rightarrow> string" where
  "stripFront seqs s =
     (case find (\<lambda>p. p \<noteq> [] \<and> hasPrefix s p) seqs of
        None \<Rightarrow> s
      | Some p \<Rightarrow> stripFront seqs (drop (length p) s))"
  by pat_completeness auto
termination
proof (relation "measure (length \<circ> snd)")
  fix seqs :: "string list" and s p :: string
  assume "find (\<lambda>p. p \<noteq> [] \<and> hasPrefix s p) seqs = Some p"
  then have "p \<noteq> [] \<and> hasPrefix s p"
    by (auto simp: find_Some_iff)
  then show "((seqs, drop (length p) s), seqs, s) \<in> measure (length \<circ> snd)"
    by (cases s; cases p) (auto simp: hasPrefix_def)
qed simp

declare stripFront.simps [simp del]

definition trimSpace :: "string \<Rightarrow> string" where
  "trimSpace s = rev (stripFront (map rev spaceSeqs) (rev (stripFront spaceSeqs s)))"

text \<open>Case mapping: byte by byte on ASCII strings, and on the others the argument \<open>uni\<close>,
  which stands for the Unicode tables of the standard library.\<close>

type_synonym case_map = "string \<Rightarrow> string"

definition isASCII :: "string \<Rightarrow> bool" where
  "isASCII s = list_all (\<lambda>c. of_char c < (128::nat)) s"

definition lowerByte :: "char \<Rightarrow> char" where
  "lowerByte c = (let n = of_char c :: nat in if 65 \<le> n \<and> n \<le> 90 then char_of (n + 32) else c)"

definition upperByte :: "char \<Rightarrow> char" where
  "upperByte c = (let n = of_char c :: nat in if 97 \<le> n \<and> n \<le> 122 then char_of (n - 32) else c)"

definition toLower :: "case_map \<Rightarrow> string \<Rightarrow> string" where
  "toLower uni s = (if isASCII s then map lowerByte s else uni s)"

definition toUpper :: "case_map \<Rightarrow> string \<Rightarrow> string" where
  "toUpper uni s = (if isASCII s then map upperByte s else uni s)"

text \<open>\<open>strings.EqualFold\<close>: on ASCII strings equality of the lower-case forms; on the others the
  argument, which stands for simple Unicode folding.\<close>

definition equalFold :: "(string \<Rightarrow> string \<Rightarrow> bool) \<Rightarrow> string \<Rightarrow> string \<Rightarrow> bool" where
  "equalFold uni s t =
     (if isASCII s \<and> isASCII t then map lowerByte s = map lowerByte t else uni s t)"

section \<open>Package time\<close>

text \<open>Durations are nanoseconds; the difference of two instants saturates at 64 bits.  Unix seconds
  are the floor of the nanoseconds since year 1, less the seconds from year 1 to 1970.\<close>

definition saturate64 :: "int \<Rightarrow> int" where
  "saturate64 n = max (- (2 ^ 63)) (min (2 ^ 63 - 1) n)"

definition timeSub :: "int \<Rightarrow> int \<Rightarrow> int" where
  "timeSub t u = saturate64 (t - u)"

definition unixSeconds :: "int \<Rightarrow> int" where
  "unixSeconds t = t div 1000000000 - 62135596800"

section \<open>Package strconv: decimal rendering\<close>

definition digitChar :: "nat \<Rightarrow> char" where
  "digitChar d = char_of (48 + d)"

fun itoaNat :: "nat \<Rightarrow> string" where
  "itoaNat n = (if n < 10 then [digitChar n] else itoaNat (n div 10) @ [digitChar (n mod 10)])"

declare itoaNat.simps [simp del]

definition itoa :: "int \<Rightarrow> string" where
  "itoa n = (if n < 0 then CHR ''-'' # itoaNat (nat (- n)) else itoaNat (nat n))"

section \<open>Package path (and path/filepath on Unix)\<close>

fun splitOn :: "char \<Rightarrow> string \<Rightarrow> string list" where
  "splitOn c [] = [[]]"
| "splitOn c (x # xs) =
     (if x = c then [] # splitOn c xs
      else (case splitOn c xs of [] \<Rightarrow> [[x]] | p # ps \<Rightarrow> (x # p) # ps))"

text \<open>One element of the path against the elements kept so far (in reverse): empty and \<open>.\<close>
  elements vanish, \<open>..\<close> removes the previous real element, and with none left it stays
  in a relative path and vanishes in a rooted one.\<close>

fun cleanStep :: "bool \<Rightarrow> string list \<Rightarrow> string \<Rightarrow> string list" where
  "cleanStep rooted acc e =
     (if e = [] \<or> e = ''.'' then acc
      else if e = ''..'' then
        (case acc of
           [] \<Rightarrow> (if rooted then [] else [''..''])
         | a # rest \<Rightarrow> (if a = ''..'' then ''..'' # acc else rest))
      else e # acc)"

definition isAbs :: "string \<Rightarrow> bool" where
  "isAbs p = hasPrefix p ''/''"

definition cleanElems :: "string \<Rightarrow> string list" where
  "cleanElems p = rev (foldl (cleanStep (isAbs p)) [] (splitOn (CHR ''/'') p))"

definition pathClean :: "string \<Rightarrow> string" where
  "pathClean p =
     (let es = cleanElems p in
      if isAbs p then CHR ''/'' # joinStrings ''/'' es
      else if es = [] then ''.'' else joinStrings ''/'' es)"

text \<open>\<open>Join\<close> of two elements: empty ones are ignored and the result is cleaned.\<close>

definition pathJoin :: "string \<Rightarrow> string \<Rightarrow> string" where
  "pathJoin a b =
     (if a = [] \<and> b = [] then []
      else if a = [] then pathClean b
      else if b = [] then pathClean a
      else pathClean (a @ ''/'' @ b))"

text \<open>\<open>Dir\<close>: everything up to the last separator, cleaned.\<close>

definition pathDir :: "string \<Rightarrow> string" where
  "pathDir p = pathClean (rev (dropWhile (\<lambda>c. c \<noteq> CHR ''/'') (rev p)))"

section \<open>Facts about strings\<close>

lemma containsByte_iff [simp]: "containsByte s c \<longleftrightarrow> c \<in> set s"
  by (simp add: containsByte_def)

lemma containsAny_iff [simp]: "containsAny s cs \<longleftrightarrow> (\<exists>c\<in>set s. c \<in> set cs)"
  by (auto simp: containsAny_def list_ex_iff)

lemma hasPrefix_iff [simp]: "hasPrefix s p \<longleftrightarrow> prefix p s"
  by (auto simp: hasPrefix_def prefix_def) (metis append_take_drop_id)

lemma hasSuffix_iff [simp]: "hasSuffix s p \<longleftrightarrow> suffix p s"
  unfolding hasSuffix_def suffix_def
  by (metis append_take_drop_id length_append le_add2 diff_add_inverse2 append_eq_conv_conj)

lemma cut_append [simp]: "c \<notin> set a \<Longrightarrow> cut c (a @ c # b) = Some (a, b)"
  unfolding cut_def by (subst dropWhile_append2, force, subst takeWhile_append2, force, simp)

lemma cut_None_iff: "cut c s = None \<longleftrightarrow> c \<notin> set s"
proof -
  have "cut c s = None \<longleftrightarrow> dropWhile (\<lambda>x. x \<noteq> c) s = []"
    by (cases "dropWhile (\<lambda>x. x \<noteq> c) s") (simp_all add: cut_def del: dropWhile_eq_Nil_conv)
  then show ?thesis by auto
qed

lemma cut_SomeD: "cut c s = Some (a, b) \<Longrightarrow> s = a @ c # b \<and> c \<notin> set a"
proof -
  assume h: "cut c s = Some (a, b)"
  then have "c \<in> set s"
    using cut_None_iff[of c s] by auto
  then obtain u v where "s = u @ c # v" "c \<notin> set u"
    using split_list_first by metis
  with h show ?thesis by simp
qed

lemma stripFront_suffix: "suffix (stripFront seqs s) s"
proof (induction seqs s rule: stripFront.induct)
  case (1 seqs s)
  show ?case
  proof (cases "find (\<lambda>p. p \<noteq> [] \<and> hasPrefix s p) seqs")
    case None
    then show ?thesis by (simp add: stripFront.simps)
  next
    case (Some p)
    then have "suffix (stripFront seqs (drop (length p) s)) (drop (length p) s)"
      using 1 by simp
    with Some show ?thesis
      by (subst stripFront.simps) (auto intro: suffix_order.trans suffix_drop)
  qed
qed

section \<open>Facts about searches\<close>

lemma find_append: "find P (xs @ ys) = (case find P xs of None \<Rightarrow> find P ys | Some x \<Rightarrow> Some x)"
  by (induction xs) auto

lemma find_SomeD: "find P xs = Some x \<Longrightarrow> x \<in> set xs \<and> P x"
  by (induction xs) (auto split: if_splits)

lemma find_NoneI: "(\<And>x. x \<in> set xs \<Longrightarrow> \<not> P x) \<Longrightarrow> find P xs = None"
  by (induction xs) auto

lemma find_unique:
  assumes "distinct (map f xs)" "x \<in> set xs"
  shows "find (\<lambda>y. f y = f x) xs = Some x"
  using assms by (induction xs) (auto simp: image_iff split: if_splits)

lemma find_map_inv:
  "(\<And>x. x \<in> set xs \<Longrightarrow> P (g x) = P x) \<Longrightarrow> find P (map g xs) = map_option g (find P xs)"
  by (induction xs) auto

end
