(* ===== verification/Ids.thy ===== *)
theory Ids
  imports Prelude
begin

text \<open>
  Package \<open>model\<close>, the identities (\<open>core/internal/model/ids.go\<close>, \<open>identity.go\<close>): the
  validated names of backup sets and artifacts, and the comparison that decides, just before a
  remote delete, whether the object at the path is still the object that was discovered.
  \<open>%w\<close>-wrapped message texts are the constructors of error types; the reason of a comparison
  is a constructor carrying the values its text prints.
\<close>

section \<open>Backup set and artifact identities\<close>

record BackupSetID =
  bs_Source :: string
  bs_Set :: string

datatype partError = PartEmpty | PartSeparator | PartWhitespace | PartControl

datatype setIDError =
    BadSource partError
  | BadSet partError
  | NoSeparator

definition validPart :: "string \<Rightarrow> partError option" where
  "validPart v =
     (if v = [] then Some PartEmpty
      else if containsByte v (CHR ''/'') then Some PartSeparator
      else if trimSpace v \<noteq> v then Some PartWhitespace
      else if containsAny v [CHR 0x00, CHR 0x0A, CHR 0x0D] then Some PartControl
      else None)"

definition NewBackupSetID :: "string \<Rightarrow> string \<Rightarrow> setIDError + BackupSetID" where
  "NewBackupSetID source st =
     (case validPart source of Some e \<Rightarrow> Inl (BadSource e)
      | None \<Rightarrow>
        (case validPart st of Some e \<Rightarrow> Inl (BadSet e)
         | None \<Rightarrow> Inr \<lparr>bs_Source = source, bs_Set = st\<rparr>))"

definition ParseBackupSetID :: "string \<Rightarrow> setIDError + BackupSetID" where
  "ParseBackupSetID s =
     (case cut (CHR ''/'') s of None \<Rightarrow> Inl NoSeparator
      | Some (source, st) \<Rightarrow> NewBackupSetID source st)"

definition setString :: "BackupSetID \<Rightarrow> string" where
  "setString b = bs_Source b @ ''/'' @ bs_Set b"

definition setIsZero :: "BackupSetID \<Rightarrow> bool" where
  "setIsZero b = (bs_Source b = [] \<and> bs_Set b = [])"

record ArtifactID =
  ar_Set :: BackupSetID
  ar_Name :: string

datatype artifactIDError =
    ArtNoSet | ArtEmpty | ArtDirRef | ArtNotBasename | ArtWhitespace

definition NewArtifactID :: "BackupSetID \<Rightarrow> string \<Rightarrow> artifactIDError + ArtifactID" where
  "NewArtifactID st name =
     (if setIsZero st then Inl ArtNoSet
      else if name = [] then Inl ArtEmpty
      else if name = ''.'' \<or> name = ''..'' then Inl ArtDirRef
      else if containsAny name [CHR ''/'', CHR 0x5C, CHR 0x00, CHR 0x0A, CHR 0x0D]
      then Inl ArtNotBasename
      else if trimSpace name \<noteq> name then Inl ArtWhitespace
      else Inr \<lparr>ar_Set = st, ar_Name = name\<rparr>)"

definition artifactString :: "ArtifactID \<Rightarrow> string" where
  "artifactString a = setString (ar_Set a) @ ''/'' @ ar_Name a"

section \<open>Remote identity\<close>

text \<open>\<open>Size\<close> and \<open>ModTime\<close> are only compared for equality, never computed with.\<close>

record RemoteIdentity =
  ri_Path :: string
  ri_Size :: int
  ri_ModTime :: int
  ri_Hash :: string
  ri_HashAlg :: string
  ri_StableID :: string

definition hasHash :: "RemoteIdentity \<Rightarrow> bool" where
  "hasHash r = (ri_Hash r \<noteq> [] \<and> ri_HashAlg r \<noteq> [])"

definition hasModTime :: "RemoteIdentity \<Rightarrow> bool" where
  "hasModTime r = (ri_ModTime r \<noteq> 0)"

definition hasStableID :: "RemoteIdentity \<Rightarrow> bool" where
  "hasStableID r = (ri_StableID r \<noteq> [])"

datatype Confidence = ConfidenceNone | ConfidenceWeak | ConfidenceStrong

fun confidenceString :: "Confidence \<Rightarrow> string" where
  "confidenceString ConfidenceNone = ''none''"
| "confidenceString ConfidenceWeak = ''weak''"
| "confidenceString ConfidenceStrong = ''strong''"

datatype Verdict = VerdictUnconfirmed | VerdictUnchanged | VerdictChanged

fun verdictString :: "Verdict \<Rightarrow> string" where
  "verdictString VerdictUnconfirmed = ''unconfirmed''"
| "verdictString VerdictUnchanged = ''unchanged''"
| "verdictString VerdictChanged = ''changed''"

datatype identityReason =
    PathChanged string string
  | HashMismatch string
  | HashMatches string
  | StableIDMismatch
  | StableIDMatches
  | SizeChanged int int
  | ModTimeChanged int int
  | OnlyWeakEvidence "(string \<times> string) option"
  | NoEvidence "(string \<times> string) option"

record IdentityComparison =
  ic_Verdict :: Verdict
  ic_Confidence :: Confidence
  ic_Reason :: identityReason

definition Preserve :: "IdentityComparison \<Rightarrow> bool" where
  "Preserve c = (ic_Verdict c \<noteq> VerdictUnchanged \<or> ic_Confidence c \<noteq> ConfidenceStrong)"

text \<open>The tail of the comparison, after the hash step; \<open>note\<close> is the incomparable pair of
  algorithms it may have left behind.\<close>

definition comparison :: "Verdict \<Rightarrow> Confidence \<Rightarrow> identityReason \<Rightarrow> IdentityComparison" where
  "comparison v c r = \<lparr>ic_Verdict = v, ic_Confidence = c, ic_Reason = r\<rparr>"

definition CompareIdentity :: "RemoteIdentity \<Rightarrow> RemoteIdentity \<Rightarrow> IdentityComparison" where
  "CompareIdentity discovered current =
     (if ri_Path discovered \<noteq> ri_Path current
      then comparison VerdictChanged ConfidenceStrong
             (PathChanged (ri_Path discovered) (ri_Path current))
      else
        let bothHash = hasHash discovered \<and> hasHash current;
            sameAlg = ri_HashAlg discovered = ri_HashAlg current;
            algNote = (if bothHash \<and> \<not> sameAlg
                       then Some (ri_HashAlg discovered, ri_HashAlg current) else None)
        in
        if bothHash \<and> sameAlg then
          (if ri_Hash discovered \<noteq> ri_Hash current
           then comparison VerdictChanged ConfidenceStrong (HashMismatch (ri_HashAlg discovered))
           else comparison VerdictUnchanged ConfidenceStrong (HashMatches (ri_HashAlg discovered)))
        else if hasStableID discovered \<and> hasStableID current then
          (if ri_StableID discovered \<noteq> ri_StableID current
           then comparison VerdictChanged ConfidenceStrong StableIDMismatch
           else comparison VerdictUnchanged ConfidenceStrong StableIDMatches)
        else if ri_Size discovered \<noteq> ri_Size current
        then comparison VerdictChanged ConfidenceStrong
               (SizeChanged (ri_Size discovered) (ri_Size current))
        else if hasModTime discovered \<and> hasModTime current then
          (if ri_ModTime discovered \<noteq> ri_ModTime current
           then comparison VerdictChanged ConfidenceStrong
                  (ModTimeChanged (ri_ModTime discovered) (ri_ModTime current))
           else comparison VerdictUnconfirmed ConfidenceWeak (OnlyWeakEvidence algNote))
        else comparison VerdictUnconfirmed ConfidenceNone (NoEvidence algNote))"

section \<open>Lemmas\<close>

lemma comparison_simps [simp]:
  "ic_Verdict (comparison v c r) = v"
  "ic_Confidence (comparison v c r) = c"
  "ic_Reason (comparison v c r) = r"
  by (simp_all add: comparison_def)

lemma validPart_None_iff:
  "validPart v = None \<longleftrightarrow>
     v \<noteq> [] \<and> CHR ''/'' \<notin> set v \<and> trimSpace v = v \<and>
     CHR 0x00 \<notin> set v \<and> CHR 0x0A \<notin> set v \<and> CHR 0x0D \<notin> set v"
  by (auto simp: validPart_def)

lemma NewBackupSetID_Inr_iff:
  "NewBackupSetID s t = Inr b \<longleftrightarrow>
     b = \<lparr>bs_Source = s, bs_Set = t\<rparr> \<and> validPart s = None \<and> validPart t = None"
  by (auto simp: NewBackupSetID_def split: option.splits)

definition validSetID :: "BackupSetID \<Rightarrow> bool" where
  "validSetID b = (validPart (bs_Source b) = None \<and> validPart (bs_Set b) = None)"

lemma NewBackupSetID_valid:
  "NewBackupSetID (bs_Source b) (bs_Set b) = Inr b \<longleftrightarrow> validSetID b"
  by (auto simp: NewBackupSetID_Inr_iff validSetID_def)

lemma validSetID_not_zero: "validSetID b \<Longrightarrow> \<not> setIsZero b"
  by (auto simp: validSetID_def setIsZero_def validPart_None_iff)

lemma NewArtifactID_Inr_iff:
  "NewArtifactID st n = Inr a \<longleftrightarrow>
     a = \<lparr>ar_Set = st, ar_Name = n\<rparr> \<and> \<not> setIsZero st \<and> n \<noteq> [] \<and> n \<noteq> ''.'' \<and> n \<noteq> ''..'' \<and>
     CHR ''/'' \<notin> set n \<and> CHR 0x5C \<notin> set n \<and> CHR 0x00 \<notin> set n \<and> CHR 0x0A \<notin> set n \<and>
     CHR 0x0D \<notin> set n \<and> trimSpace n = n"
  by (auto simp: NewArtifactID_def)

lemma setString_inject:
  assumes "CHR ''/'' \<notin> set (bs_Source a)" "CHR ''/'' \<notin> set (bs_Source b)"
  shows "setString a = setString b \<longleftrightarrow> a = b"
proof
  assume "setString a = setString b"
  then have "cut (CHR ''/'') (setString a) = cut (CHR ''/'') (setString b)" by simp
  with assms show "a = b" by (simp add: setString_def)
qed simp

text \<open>C35: \<open>ParseBackupSetID\<close> reads back exactly the renderings of the valid identities: it
  returns \<open>b\<close> on \<open>s\<close> precisely when \<open>s\<close> is the canonical form of \<open>b\<close> and \<open>b\<close> is one the
  constructor accepts.\<close>

theorem parse_string_roundtrip:
  "ParseBackupSetID s = Inr b \<longleftrightarrow>
     NewBackupSetID (bs_Source b) (bs_Set b) = Inr b \<and> s = setString b"
proof
  assume h: "ParseBackupSetID s = Inr b"
  then obtain u v where c: "cut (CHR ''/'') s = Some (u, v)" and n: "NewBackupSetID u v = Inr b"
    by (auto simp: ParseBackupSetID_def split: option.splits)
  from n have "b = \<lparr>bs_Source = u, bs_Set = v\<rparr>" by (simp add: NewBackupSetID_Inr_iff)
  with c n show "NewBackupSetID (bs_Source b) (bs_Set b) = Inr b \<and> s = setString b"
    using cut_SomeD[OF c] by (simp add: setString_def)
next
  assume "NewBackupSetID (bs_Source b) (bs_Set b) = Inr b \<and> s = setString b"
  then show "ParseBackupSetID s = Inr b"
    by (auto simp: NewBackupSetID_Inr_iff ParseBackupSetID_def setString_def validPart_None_iff)
qed

lemma CompareIdentity_unchanged_iff:
  "\<not> Preserve (CompareIdentity d c) \<longleftrightarrow>
     ri_Path d = ri_Path c \<and>
     (if hasHash d \<and> hasHash c \<and> ri_HashAlg d = ri_HashAlg c then ri_Hash d = ri_Hash c
      else hasStableID d \<and> hasStableID c \<and> ri_StableID d = ri_StableID c)"
  by (auto simp: CompareIdentity_def Preserve_def Let_def)

end
