(* ===== verification/Vocabulary.thy ===== *)
theory Vocabulary
  imports Ids Complex_Main
begin

text \<open>
  Package \<open>model\<close>, the closed vocabularies and the policies derived from them
  (\<open>consistency.go\<close>, \<open>engine.go\<close>, \<open>verificationlevel.go\<close>, \<open>repository.go\<close>).  The Go types
  are named strings, so an unrecognised value is a value: the model keeps them strings, and
  every switch keeps its default branch.  Durations are nanoseconds.
\<close>

section \<open>Source consistency and metadata trust\<close>

abbreviation ModeLiveBestEffort :: string where "ModeLiveBestEffort \<equiv> ''live_best_effort''"
abbreviation ModeExternallyQuiesced :: string where "ModeExternallyQuiesced \<equiv> ''externally_quiesced''"
abbreviation ModeExternalSnapshot :: string where "ModeExternalSnapshot \<equiv> ''external_snapshot''"

definition consistencyModes :: "string list" where
  "consistencyModes = [ModeLiveBestEffort, ModeExternallyQuiesced, ModeExternalSnapshot]"

text \<open>The loop every parser of the package runs: the first member equal to the input.\<close>

definition parseMember :: "string list \<Rightarrow> string \<Rightarrow> string + string" where
  "parseMember vocab s = (case find (\<lambda>m. m = s) vocab of Some m \<Rightarrow> Inr m | None \<Rightarrow> Inl s)"

definition ParseConsistencyMode :: "string \<Rightarrow> string + string" where
  "ParseConsistencyMode s = parseMember consistencyModes s"

definition GuaranteesPointInTime :: "string \<Rightarrow> bool" where
  "GuaranteesPointInTime m = (m = ModeExternalSnapshot)"

definition MutationIsContractViolation :: "string \<Rightarrow> bool" where
  "MutationIsContractViolation m = (m = ModeExternallyQuiesced \<or> m = ModeExternalSnapshot)"

abbreviation TrustStrong :: string where "TrustStrong \<equiv> ''strong''"
abbreviation TrustWeak :: string where "TrustWeak \<equiv> ''weak''"
abbreviation TrustUnknown :: string where "TrustUnknown \<equiv> ''unknown''"

definition nanosecond :: int where "nanosecond = 1"
definition second :: int where "second = 1000000000"
definition hour :: int where "hour = 3600 * second"

text \<open>\<open>MTimePrecision.Resolution\<close>: the second result \<open>false\<close> is \<open>None\<close>.\<close>

definition Resolution :: "string \<Rightarrow> int option" where
  "Resolution p =
     (if p = ''1ns'' then Some nanosecond
      else if p = ''1ms'' then Some (1000000 * nanosecond)
      else if p = ''1s'' then Some second
      else if p = ''2s'' then Some (2 * second)
      else None)"

record SourceSignals =
  ss_MTimePrecision :: string
  ss_StableSize :: bool
  ss_RemoteHashAlgorithms :: "string list"
  ss_ObjectGeneration :: bool
  ss_MetadataSupport :: string

datatype trustReason =
    ReportsHash string
  | ExposesGeneration
  | NoMetadata string
  | UnstableSize
  | NoResolution string
  | SettableTimestamp int

definition ClassifyMetadataTrust :: "SourceSignals \<Rightarrow> string \<times> trustReason" where
  "ClassifyMetadataTrust s =
     (case ss_RemoteHashAlgorithms s of
        alg # _ \<Rightarrow> (TrustStrong, ReportsHash alg)
      | [] \<Rightarrow>
        if ss_ObjectGeneration s then (TrustStrong, ExposesGeneration)
        else if ss_MetadataSupport s \<noteq> ''full'' \<and> ss_MetadataSupport s \<noteq> ''partial''
        then (TrustUnknown, NoMetadata (ss_MetadataSupport s))
        else if \<not> ss_StableSize s then (TrustUnknown, UnstableSize)
        else (case Resolution (ss_MTimePrecision s) of
                None \<Rightarrow> (TrustUnknown, NoResolution (ss_MTimePrecision s))
              | Some r \<Rightarrow> (TrustWeak, SettableTimestamp r)))"

abbreviation PresetTrustMetadata :: string where "PresetTrustMetadata \<equiv> ''trust_metadata''"
abbreviation PresetConservative :: string where "PresetConservative \<equiv> ''conservative''"

abbreviation VerifyNever :: string where "VerifyNever \<equiv> ''never''"
abbreviation VerifyRemoteHash :: string where "VerifyRemoteHash \<equiv> ''remote_hash''"
abbreviation VerifySampled :: string where "VerifySampled \<equiv> ''sampled''"
abbreviation VerifyPeriodic :: string where "VerifyPeriodic \<equiv> ''periodic''"
abbreviation VerifyAlways :: string where "VerifyAlways \<equiv> ''always''"

definition remoteHashReadFloor :: int where "remoteHashReadFloor = 90 * 24 * hour"
definition strongConservativeInterval :: int where "strongConservativeInterval = 30 * 24 * hour"
definition weakSampleInterval :: int where "weakSampleInterval = 7 * 24 * hour"
definition weakSampleFraction :: rat where "weakSampleFraction = 5 / 100"

record VerificationPolicy =
  vp_Mode :: string
  vp_ReverifyInterval :: int
  vp_SampleFraction :: rat

definition MetadataMaySkipContent :: "VerificationPolicy \<Rightarrow> bool" where
  "MetadataMaySkipContent p =
     (vp_Mode p = VerifyRemoteHash \<or> vp_Mode p = VerifySampled \<or> vp_Mode p = VerifyPeriodic)"

definition VerificationPolicyFor :: "string \<Rightarrow> string \<Rightarrow> VerificationPolicy" where
  "VerificationPolicyFor cls preset =
     (let conservative = preset \<noteq> PresetTrustMetadata in
      if cls = TrustStrong then
        (if conservative
         then \<lparr>vp_Mode = VerifyPeriodic, vp_ReverifyInterval = strongConservativeInterval,
               vp_SampleFraction = 0\<rparr>
         else \<lparr>vp_Mode = VerifyRemoteHash, vp_ReverifyInterval = remoteHashReadFloor,
               vp_SampleFraction = 0\<rparr>)
      else if cls = TrustWeak then
        (if conservative
         then \<lparr>vp_Mode = VerifyAlways, vp_ReverifyInterval = 0, vp_SampleFraction = 0\<rparr>
         else \<lparr>vp_Mode = VerifySampled, vp_ReverifyInterval = weakSampleInterval,
               vp_SampleFraction = weakSampleFraction\<rparr>)
      else \<lparr>vp_Mode = VerifyAlways, vp_ReverifyInterval = 0, vp_SampleFraction = 0\<rparr>)"

section \<open>Backup engines\<close>

abbreviation EngineArtifact :: string where "EngineArtifact \<equiv> ''artifact''"
abbreviation EngineKopia :: string where "EngineKopia \<equiv> ''kopia''"

definition backupEngines :: "string list" where
  "backupEngines = [EngineArtifact, EngineKopia]"

definition ResolveBackupEngine :: "string \<Rightarrow> string + string" where
  "ResolveBackupEngine declared =
     (if declared = [] then Inr EngineArtifact else parseMember backupEngines declared)"

definition UsesRepository :: "string \<Rightarrow> bool" where
  "UsesRepository e = (e = EngineKopia)"

section \<open>Verification levels\<close>

abbreviation LevelStructural :: string where "LevelStructural \<equiv> ''structural''"
abbreviation LevelContentSample :: string where "LevelContentSample \<equiv> ''content_sample''"
abbreviation LevelContentFull :: string where "LevelContentFull \<equiv> ''content_full''"
abbreviation LevelRestoreDrill :: string where "LevelRestoreDrill \<equiv> ''restore_drill''"

definition verificationLevels :: "string list" where
  "verificationLevels = [LevelStructural, LevelContentSample, LevelContentFull, LevelRestoreDrill]"

definition joinLevels :: "string list \<Rightarrow> string" where
  "joinLevels levels = joinStrings '', '' levels"

definition ParseVerificationLevel :: "string \<Rightarrow> string + string" where
  "ParseVerificationLevel s = parseMember verificationLevels s"

fun rankFrom :: "nat \<Rightarrow> string list \<Rightarrow> string \<Rightarrow> nat" where
  "rankFrom i [] l = 0"
| "rankFrom i (x # xs) l = (if x = l then i + 1 else rankFrom (i + 1) xs l)"

definition Rank :: "string \<Rightarrow> nat" where
  "Rank l = rankFrom 0 verificationLevels l"

definition AtLeast :: "string \<Rightarrow> string \<Rightarrow> bool" where
  "AtLeast l other =
     (let mine = Rank l; theirs = Rank other in
      if mine = 0 \<or> theirs = 0 then False else mine \<ge> theirs)"

definition ReadsContent :: "string \<Rightarrow> bool" where
  "ReadsContent l = (Rank l \<ge> Rank LevelContentSample)"

definition ProvesRestorable :: "string \<Rightarrow> bool" where
  "ProvesRestorable l = (l = LevelRestoreDrill)"

section \<open>Repository domains\<close>

datatype domainIDError = DomainPart partError | DomainDirRef | DomainBackslash

definition NewRepositoryDomainID :: "string \<Rightarrow> domainIDError + string" where
  "NewRepositoryDomainID s =
     (case validPart s of Some e \<Rightarrow> Inl (DomainPart e)
      | None \<Rightarrow>
        if s = ''.'' \<or> s = ''..'' then Inl DomainDirRef
        else if containsAny s [CHR 0x5C] then Inl DomainBackslash
        else Inr s)"

abbreviation RepositoryShared :: string where "RepositoryShared \<equiv> ''shared''"
abbreviation RepositoryIsolated :: string where "RepositoryIsolated \<equiv> ''isolated''"

definition repositoryIsolations :: "string list" where
  "repositoryIsolations = [RepositoryShared, RepositoryIsolated]"

datatype isolationError = IsolationUnstated | IsolationUnknown string

definition ParseRepositoryIsolation :: "string \<Rightarrow> isolationError + string" where
  "ParseRepositoryIsolation s =
     (case parseMember repositoryIsolations s of
        Inr i \<Rightarrow> Inr i
      | Inl _ \<Rightarrow> Inl (if s = [] then IsolationUnstated else IsolationUnknown s))"

record RepositoryDomain =
  rd_ID :: string
  rd_Description :: string
  rd_Isolation :: string

record RepositoryRef =
  rr_Domain :: string
  rr_Set :: BackupSetID

datatype domainError =
    DomainNoID
  | DomainBadIsolation isolationError
  | RefNoDomain
  | RefNoSet
  | ErrForeignDomain BackupSetID string
  | ErrIsolationViolated string BackupSetID BackupSetID

definition domainValidate :: "RepositoryDomain \<Rightarrow> domainError + unit" where
  "domainValidate d =
     (if rd_ID d = [] then Inl DomainNoID
      else (case ParseRepositoryIsolation (rd_Isolation d) of
              Inl e \<Rightarrow> Inl (DomainBadIsolation e)
            | Inr _ \<Rightarrow> Inr ()))"

definition refIsZero :: "RepositoryRef \<Rightarrow> bool" where
  "refIsZero r = (rr_Domain r = [] \<and> setIsZero (rr_Set r))"

definition refValidate :: "RepositoryRef \<Rightarrow> domainError + unit" where
  "refValidate r =
     (if rr_Domain r = [] then Inl RefNoDomain
      else if setIsZero (rr_Set r) then Inl RefNoSet
      else Inr ())"

definition Admits :: "RepositoryDomain \<Rightarrow> RepositoryRef \<Rightarrow> domainError + unit" where
  "Admits d ref =
     bindE (domainValidate d) (\<lambda>_.
     bindE (refValidate ref) (\<lambda>_.
       if rr_Domain ref \<noteq> rd_ID d then Inl (ErrForeignDomain (rr_Set ref) (rr_Domain ref))
       else Inr ()))"

definition MayShare :: "RepositoryDomain \<Rightarrow> RepositoryRef \<Rightarrow> RepositoryRef \<Rightarrow> domainError + unit" where
  "MayShare d a b =
     bindE (Admits d a) (\<lambda>_.
     bindE (Admits d b) (\<lambda>_.
       if rr_Set a = rr_Set b then Inr ()
       else if rd_Isolation d = RepositoryIsolated
       then Inl (ErrIsolationViolated (rd_ID d) (rr_Set a) (rr_Set b))
       else Inr ()))"

section \<open>Lemmas\<close>

lemma parseMember_eq: "parseMember vocab s = (if s \<in> set vocab then Inr s else Inl s)"
proof -
  have "find (\<lambda>m. m = s) vocab = (if s \<in> set vocab then Some s else None)"
    by (induction vocab) auto
  then show ?thesis by (auto simp: parseMember_def)
qed

lemma parseMember_Inr_iff: "parseMember vocab s = Inr m \<longleftrightarrow> m = s \<and> s \<in> set vocab"
  by (auto simp: parseMember_eq)

text \<open>For every trust class and preset, recognised or not, the content policy is never
  "never", and whenever it lets metadata stand in for content it names a positive interval after
  which every path is read anyway; a preset other than the metadata-trusting one never shortens
  what an unproved source has read: on a class that is not strong it reads everything.\<close>

theorem verification_policy_total:
  "vp_Mode (VerificationPolicyFor cls preset) \<noteq> VerifyNever
   \<and> (MetadataMaySkipContent (VerificationPolicyFor cls preset)
        = (0 < vp_ReverifyInterval (VerificationPolicyFor cls preset)))
   \<and> (MetadataMaySkipContent (VerificationPolicyFor cls preset)
        = (cls = TrustStrong \<or> (cls = TrustWeak \<and> preset = PresetTrustMetadata)))"
  by (auto simp: VerificationPolicyFor_def Let_def MetadataMaySkipContent_def
      strongConservativeInterval_def remoteHashReadFloor_def weakSampleInterval_def hour_def second_def)

lemma Rank_zero_iff: "Rank l = 0 \<longleftrightarrow> l \<notin> set verificationLevels"
  by (auto simp: Rank_def verificationLevels_def)

lemma Rank_inject: "Rank l = Rank m \<Longrightarrow> Rank l \<noteq> 0 \<Longrightarrow> l = m"
  by (simp add: Rank_def verificationLevels_def split: if_splits)

lemma AtLeast_iff: "AtLeast l m \<longleftrightarrow> 0 < Rank m \<and> Rank m \<le> Rank l"
  by (auto simp: AtLeast_def Let_def)

lemma AtLeast_trans: "AtLeast a b \<Longrightarrow> AtLeast b c \<Longrightarrow> AtLeast a c"
  by (auto simp: AtLeast_iff)

lemma AtLeast_antisym: "AtLeast a b \<Longrightarrow> AtLeast b a \<Longrightarrow> a = b"
  by (intro Rank_inject) (auto simp: AtLeast_iff)

lemma ReadsContent_iff: "ReadsContent l \<longleftrightarrow> AtLeast l LevelContentSample"
  by (auto simp: ReadsContent_def AtLeast_iff Rank_def verificationLevels_def)

lemma ProvesRestorable_iff: "ProvesRestorable l \<longleftrightarrow> (\<forall>m \<in> set verificationLevels. AtLeast l m)"
  by (auto simp: ProvesRestorable_def AtLeast_iff Rank_def verificationLevels_def split: if_splits)

lemma domainValidate_Inr_iff:
  "domainValidate d = Inr u \<longleftrightarrow> rd_ID d \<noteq> [] \<and> rd_Isolation d \<in> set repositoryIsolations"
  by (auto simp: domainValidate_def ParseRepositoryIsolation_def parseMember_eq)

lemma Admits_Inr_iff:
  "Admits d r = Inr u \<longleftrightarrow>
     domainValidate d = Inr () \<and> rr_Domain r = rd_ID d \<and> \<not> setIsZero (rr_Set r)"
  by (auto simp: Admits_def bindE_Inr_iff refValidate_def domainValidate_Inr_iff split: if_splits)

text \<open>Two backup sets may occupy one repository domain exactly when the domain is fully
  declared, both references name it and a real set, and they are the same set or the domain is
  declared shared; so the answer never depends on which of the two is asked first.\<close>

theorem may_share_iff:
  "isOk (MayShare d a b) \<longleftrightarrow>
     rd_ID d \<noteq> [] \<and> rd_Isolation d \<in> {RepositoryShared, RepositoryIsolated}
     \<and> rr_Domain a = rd_ID d \<and> rr_Domain b = rd_ID d
     \<and> \<not> setIsZero (rr_Set a) \<and> \<not> setIsZero (rr_Set b)
     \<and> (rr_Set a = rr_Set b \<or> rd_Isolation d = RepositoryShared)"
proof -
  have ok: "isOk r \<longleftrightarrow> r = Inr ()" for r :: "domainError + unit"
    by (cases r) auto
  show ?thesis
    unfolding ok
    by (auto simp: MayShare_def bindE_Inr_iff Admits_Inr_iff domainValidate_Inr_iff
        repositoryIsolations_def split: if_splits)
qed

end
