(* ===== verification/Machine.thy ===== *)
theory Machine
  imports Prelude
begin

text \<open>
  The artifact state machine (\<open>core/internal/lifecycle/state.go\<close>, \<open>machine.go\<close>,
  \<open>statelist.go\<close>, \<open>localfootprint.go\<close>).  A Go \<open>State\<close> is a string: the thirteen names are
  constructors and \<open>Raw\<close> carries any other string, so that a corrupted journal row is a value
  of the model.  The transition table is a list, and every question is a look at that list, as
  in the source.
\<close>

section \<open>The vocabulary\<close>

datatype State =
    Discovered | Transferring | Transferred | Verifying | Verified | Committing | Committed
  | RemoteDeletePending | Complete | RemoteRetained | Failed | Quarantined | QuarantinedLost
  | Raw string

fun stateString :: "State \<Rightarrow> string" where
  "stateString Discovered = ''DISCOVERED''"
| "stateString Transferring = ''TRANSFERRING''"
| "stateString Transferred = ''TRANSFERRED''"
| "stateString Verifying = ''VERIFYING''"
| "stateString Verified = ''VERIFIED''"
| "stateString Committing = ''COMMITTING''"
| "stateString Committed = ''COMMITTED''"
| "stateString RemoteDeletePending = ''REMOTE_DELETE_PENDING''"
| "stateString Complete = ''COMPLETE''"
| "stateString RemoteRetained = ''REMOTE_RETAINED''"
| "stateString Failed = ''FAILED''"
| "stateString Quarantined = ''QUARANTINED''"
| "stateString QuarantinedLost = ''QUARANTINED_LOST''"
| "stateString (Raw s) = s"

definition AllStates :: "State list" where
  "AllStates =
     [Discovered, Transferring, Transferred, Verifying, Verified, Committing, Committed,
      RemoteDeletePending, Complete, RemoteRetained, Failed, Quarantined, QuarantinedLost]"

definition Valid :: "State \<Rightarrow> bool" where
  "Valid s = List.member AllStates s"

text \<open>The conversion \<open>State(raw)\<close>: the constructor of that name, or the string as it is.\<close>

definition stateOf :: "string \<Rightarrow> State" where
  "stateOf raw = (case find (\<lambda>s. stateString s = raw) AllStates of Some s \<Rightarrow> s | None \<Rightarrow> Raw raw)"

datatype machineError =
    UnknownStateError string
  | IllegalTransitionError State State

definition ParseState :: "string \<Rightarrow> machineError + State" where
  "ParseState raw = (let s = stateOf raw in if \<not> Valid s then Inl (UnknownStateError raw) else Inr s)"

section \<open>The transition table\<close>

definition Transitions :: "(State \<times> State) list" where
  "Transitions =
     [(Discovered, Transferring),
      (Transferring, Transferred),
      (Transferred, Verifying),
      (Verifying, Verified),
      (Verified, Committing),
      (Committing, Committed),
      (Committed, RemoteDeletePending),
      (RemoteDeletePending, Complete),
      (Committed, RemoteRetained),
      (RemoteDeletePending, RemoteRetained),
      (RemoteRetained, Committed),
      (Discovered, Failed),
      (Transferring, Failed),
      (Transferred, Failed),
      (Verifying, Failed),
      (Verified, Failed),
      (Committing, Failed),
      (Verifying, Quarantined),
      (Committed, Quarantined),
      (RemoteDeletePending, Quarantined),
      (RemoteRetained, Quarantined),
      (Complete, QuarantinedLost),
      (Failed, Discovered),
      (Failed, Quarantined),
      (Quarantined, Discovered),
      (Quarantined, Committed),
      (QuarantinedLost, Complete),
      (Quarantined, RemoteRetained)]"

definition quarantineStates :: "State list" where
  "quarantineStates = [Quarantined, QuarantinedLost]"

definition IsQuarantineState :: "State \<Rightarrow> bool" where
  "IsQuarantineState s = List.member quarantineStates s"

definition exceptionalStates :: "State list" where
  "exceptionalStates = Failed # quarantineStates"

definition IsExceptionalState :: "State \<Rightarrow> bool" where
  "IsExceptionalState s = List.member exceptionalStates s"

definition durableRestorePoints :: "State list" where
  "durableRestorePoints = [Committed, RemoteDeletePending, Complete, RemoteRetained]"

definition IsDurableRestorePoint :: "State \<Rightarrow> bool" where
  "IsDurableRestorePoint s = List.member durableRestorePoints s"

definition reinstatementEdges :: "(State \<times> State) list" where
  "reinstatementEdges =
     filter (\<lambda>(from, to). IsQuarantineState from \<and> IsDurableRestorePoint to) Transitions"

definition HasReinstatementExit :: "State \<Rightarrow> bool" where
  "HasReinstatementExit from = list_ex (\<lambda>t. fst t = from) reinstatementEdges"

definition transitionSet :: "State \<times> State \<Rightarrow> bool" where
  "transitionSet t = List.member Transitions t"

definition Validate :: "State \<Rightarrow> State \<Rightarrow> machineError option" where
  "Validate current target =
     (if \<not> Valid current then Some (UnknownStateError (stateString current))
      else if \<not> Valid target then Some (UnknownStateError (stateString target))
      else if current = target then None
      else if transitionSet (current, target) then None
      else Some (IllegalTransitionError current target))"

definition Predecessors :: "State \<Rightarrow> State list" where
  "Predecessors target = map fst (filter (\<lambda>t. snd t = target) Transitions)"

definition Successors :: "State \<Rightarrow> State list" where
  "Successors from = map snd (filter (\<lambda>t. fst t = from) Transitions)"

section \<open>The machine value\<close>

record Machine =
  m_current :: State

definition NewMachine :: "State \<Rightarrow> machineError + Machine" where
  "NewMachine current =
     (if \<not> Valid current then Inl (UnknownStateError (stateString current))
      else Inr \<lparr>m_current = current\<rparr>)"

text \<open>\<open>Apply\<close> mutates its receiver: the result is the error (if any), the \<open>changed\<close> flag and
  the machine afterwards.\<close>

definition Apply :: "Machine \<Rightarrow> State \<Rightarrow> machineError option \<times> bool \<times> Machine" where
  "Apply m target =
     (case Validate (m_current m) target of
        Some e \<Rightarrow> (Some e, False, m)
      | None \<Rightarrow> (None, m_current m \<noteq> target, m\<lparr>m_current := target\<rparr>))"

section \<open>Rendered state lists\<close>

definition joinWithOr :: "string list \<Rightarrow> string" where
  "joinWithOr names =
     (case names of [] \<Rightarrow> [] | [n] \<Rightarrow> n
      | _ \<Rightarrow> joinStrings '', '' (butlast names) @ '' or '' @ last names)"

text \<open>A Go \<open>map[State]bool\<close> is given by the list of the states it maps to true.\<close>

definition sortedUnknownMembers :: "State list \<Rightarrow> State list" where
  "sortedUnknownMembers st = sort_key stateString (filter (\<lambda>s. \<not> Valid s) st)"

definition NameSet :: "State list \<Rightarrow> string" where
  "NameSet st =
     joinWithOr (map stateString (filter (List.member st) AllStates)
                 @ map stateString (sortedUnknownMembers st))"

definition DurableRestorePointNames :: string where
  "DurableRestorePointNames = NameSet durableRestorePoints"

section \<open>Local footprint\<close>

definition StatesHoldingLocalCopy :: "State list" where
  "StatesHoldingLocalCopy =
     [Transferring, Transferred, Verifying, Verified, Committing, Committed,
      RemoteDeletePending, Complete, RemoteRetained, Quarantined, QuarantinedLost]"

definition StatesWithNoLocalCopy :: "State list" where
  "StatesWithNoLocalCopy = [Discovered, Failed]"

definition HoldsLocalCopy :: "State \<Rightarrow> bool" where
  "HoldsLocalCopy s = List.member StatesHoldingLocalCopy s"

definition StatesHoldingLocalCopyStrings :: "string list" where
  "StatesHoldingLocalCopyStrings = map stateString StatesHoldingLocalCopy"

section \<open>Lemmas on the table\<close>

named_theorems machine_defs \<open>the tables and predicates of the state machine\<close>

lemmas [machine_defs] =
  AllStates_def Valid_def Transitions_def transitionSet_def quarantineStates_def
  IsQuarantineState_def durableRestorePoints_def IsDurableRestorePoint_def
  reinstatementEdges_def exceptionalStates_def IsExceptionalState_def

lemma Valid_simps [simp]:
  "Valid Discovered" "Valid Transferring" "Valid Transferred" "Valid Verifying" "Valid Verified"
  "Valid Committing" "Valid Committed" "Valid RemoteDeletePending" "Valid Complete"
  "Valid RemoteRetained" "Valid Failed" "Valid Quarantined" "Valid QuarantinedLost"
  "\<not> Valid (Raw s)"
  by (simp_all add: machine_defs)

lemma Valid_iff: "Valid s \<longleftrightarrow> (\<nexists>r. s = Raw r)"
  by (cases s) auto

lemma IsQuarantineState_iff [simp]: "IsQuarantineState s \<longleftrightarrow> s = Quarantined \<or> s = QuarantinedLost"
  by (auto simp: machine_defs)

lemma IsDurableRestorePoint_iff [simp]:
  "IsDurableRestorePoint s \<longleftrightarrow>
     s = Committed \<or> s = RemoteDeletePending \<or> s = Complete \<or> s = RemoteRetained"
  by (auto simp: machine_defs)

lemma reinstatementEdges_eq:
  "reinstatementEdges =
     [(Quarantined, Committed), (QuarantinedLost, Complete), (Quarantined, RemoteRetained)]"
  by (simp add: machine_defs)

text \<open>The legal moves, read off the table: the simplification rule the lifecycle proofs use.\<close>

lemma Validate_None_iff:
  "Validate a b = None \<longleftrightarrow> Valid a \<and> Valid b \<and> (a = b \<or> (a, b) \<in> set Transitions)"
  by (auto simp: Validate_def transitionSet_def)

lemma Validate_same [simp]: "Valid s \<Longrightarrow> Validate s s = None"
  by (simp add: Validate_def)

lemma Transitions_valid: "(a, b) \<in> set Transitions \<Longrightarrow> Valid a \<and> Valid b"
  by (auto simp: Transitions_def)

lemma Transitions_irrefl: "(a, a) \<notin> set Transitions"
  by (auto simp: Transitions_def)

lemma Successors_set: "set (Successors a) = {b. (a, b) \<in> set Transitions}"
  by (force simp: Successors_def)

lemma Predecessors_set: "set (Predecessors b) = {a. (a, b) \<in> set Transitions}"
  by (force simp: Predecessors_def)

lemma Validate_to_RDP: "Validate a RemoteDeletePending = None \<Longrightarrow> a = Committed \<or> a = RemoteDeletePending"
  by (auto simp: Validate_None_iff Transitions_def)

lemma Validate_to_QuarantinedLost:
  "Validate a QuarantinedLost = None \<Longrightarrow> a = Complete \<or> a = QuarantinedLost"
  by (auto simp: Validate_None_iff Transitions_def)

lemma Validate_to_Complete:
  "Validate a Complete = None \<Longrightarrow> a = Complete \<or> a = RemoteDeletePending \<or> a = QuarantinedLost"
  by (auto simp: Validate_None_iff Transitions_def)

lemma Validate_to_Failed_not_durable:
  "Validate a Failed = None \<Longrightarrow> \<not> IsDurableRestorePoint a \<and> \<not> IsQuarantineState a"
  by (auto simp: Validate_None_iff Transitions_def)

section \<open>Paths\<close>

inductive reaches :: "State \<Rightarrow> State \<Rightarrow> bool" where
  here: "Valid s \<Longrightarrow> reaches s s"
| move: "reaches s t \<Longrightarrow> Validate t u = None \<Longrightarrow> reaches s u"

text \<open>Paths none of whose states is \<open>bad\<close>.\<close>

inductive reachesAvoiding :: "State \<Rightarrow> State \<Rightarrow> State \<Rightarrow> bool" for bad where
  here: "Valid s \<Longrightarrow> s \<noteq> bad \<Longrightarrow> reachesAvoiding bad s s"
| move: "reachesAvoiding bad s t \<Longrightarrow> Validate t u = None \<Longrightarrow> u \<noteq> bad \<Longrightarrow> reachesAvoiding bad s u"

lemma reachesAvoiding_closed:
  assumes "reachesAvoiding bad s t" "s \<in> S"
    and "\<And>a b. a \<in> S \<Longrightarrow> Validate a b = None \<Longrightarrow> b \<noteq> bad \<Longrightarrow> b \<in> S"
  shows "t \<in> S"
  using assms by (induction rule: reachesAvoiding.induct) auto

lemma reaches_closed:
  assumes "reaches s t" "s \<in> S"
    and "\<And>a b. a \<in> S \<Longrightarrow> Validate a b = None \<Longrightarrow> b \<in> S"
  shows "t \<in> S"
  using assms by (induction rule: reaches.induct) auto

text \<open>The graph itself keeps the remote delete behind the durable commit: no path of legal
  moves from DISCOVERED that stays out of COMMITTED ever arrives at REMOTE_DELETE_PENDING, at
  COMPLETE or at QUARANTINED_LOST.\<close>

theorem no_delete_without_commit:
  assumes "reachesAvoiding Committed Discovered t"
  shows "t \<noteq> RemoteDeletePending \<and> t \<noteq> Complete \<and> t \<noteq> QuarantinedLost"
proof -
  have "t \<in> - {Committed, RemoteDeletePending, Complete, QuarantinedLost}"
    using assms by (rule reachesAvoiding_closed) (auto simp: Validate_None_iff Transitions_def)
  then show ?thesis by simp
qed

theorem no_delete_without_commit_witness:
  "Failed \<noteq> RemoteDeletePending \<and> Failed \<noteq> Complete \<and> Failed \<noteq> QuarantinedLost"
  by (rule no_delete_without_commit, rule reachesAvoiding.move[OF reachesAvoiding.here])
    (simp_all add: Validate_None_iff Transitions_def)

text \<open>An artifact that is COMPLETE can only ever be COMPLETE or QUARANTINED_LOST again:
  no sequence of legal moves brings it back into the pipeline, so a copy whose source is
  confirmed gone cannot livelock through discovery; and no state of the graph is a dead end.\<close>

theorem complete_is_absorbing:
  "reaches Complete t \<longleftrightarrow> t = Complete \<or> t = QuarantinedLost"
proof
  assume "reaches Complete t"
  then have "t \<in> {Complete, QuarantinedLost}"
    by (rule reaches_closed) (auto simp: Validate_None_iff Transitions_def)
  then show "t = Complete \<or> t = QuarantinedLost" by simp
next
  have c: "reaches Complete Complete" by (simp add: reaches.here)
  have "reaches Complete QuarantinedLost"
    by (rule reaches.move[OF c]) (simp add: Validate_None_iff Transitions_def)
  then show "t = Complete \<or> t = QuarantinedLost \<Longrightarrow> reaches Complete t"
    using c by auto
qed

lemma no_dead_end: "Valid s \<Longrightarrow> \<exists>t \<in> set (Successors s). t \<noteq> s"
  by (cases s) (auto simp: Successors_set Transitions_def)

lemma Apply_moves:
  "Apply m t = (None, c, m') \<longleftrightarrow>
     Validate (m_current m) t = None \<and> c = (m_current m \<noteq> t) \<and> m' = m\<lparr>m_current := t\<rparr>"
  by (auto simp: Apply_def split: option.splits)

lemma Apply_refused: "Apply m t = (Some e, c, m') \<Longrightarrow> m' = m \<and> \<not> c \<and> Validate (m_current m) t = Some e"
  by (auto simp: Apply_def split: option.splits)

lemma stateOf_stateString: "Valid s \<Longrightarrow> stateOf (stateString s) = s"
  by (cases s) (auto simp: stateOf_def AllStates_def)

lemma ParseState_Inr_iff: "ParseState raw = Inr s \<longleftrightarrow> Valid s \<and> raw = stateString s"
proof
  assume h: "ParseState raw = Inr s"
  then have s: "s = stateOf raw" "Valid (stateOf raw)"
    by (auto simp: ParseState_def Let_def split: if_splits)
  then have "stateString (stateOf raw) = raw"
    by (auto simp: stateOf_def find_Some_iff split: option.splits)
  with s show "Valid s \<and> raw = stateString s" by simp
next
  assume "Valid s \<and> raw = stateString s"
  then show "ParseState raw = Inr s" by (auto simp: ParseState_def stateOf_stateString)
qed

lemma footprint_partition:
  "Valid s \<Longrightarrow> HoldsLocalCopy s \<longleftrightarrow> s \<notin> set StatesWithNoLocalCopy"
  by (cases s) (auto simp: HoldsLocalCopy_def StatesHoldingLocalCopy_def StatesWithNoLocalCopy_def)

lemma durable_holds_copy: "IsDurableRestorePoint s \<Longrightarrow> HoldsLocalCopy s"
  by (auto simp: HoldsLocalCopy_def StatesHoldingLocalCopy_def)

end
