(* ===== verification/MovePhase.thy ===== *)
theory MovePhase
  imports Prelude
begin

text \<open>
  The phases of a placement move (\<open>core/internal/placement/phases.go\<close>, with the strings of
  \<open>core/internal/state/moves.go\<close>): the vocabulary, the table of legal changes and the questions
  asked of it.  As with lifecycle states, \<open>RawPhase\<close> carries a string that is no phase.
\<close>

datatype Phase =
    MovePlanned | MoveCopying | MoveCopied | MoveVerifying | MoveVerified
  | MoveSourceDeletePending | MoveDone | MoveAbandoned
  | RawPhase string

fun phaseString :: "Phase \<Rightarrow> string" where
  "phaseString MovePlanned = ''PLANNED''"
| "phaseString MoveCopying = ''COPYING''"
| "phaseString MoveCopied = ''COPIED''"
| "phaseString MoveVerifying = ''VERIFYING''"
| "phaseString MoveVerified = ''VERIFIED''"
| "phaseString MoveSourceDeletePending = ''SOURCE_DELETE_PENDING''"
| "phaseString MoveDone = ''DONE''"
| "phaseString MoveAbandoned = ''ABANDONED''"
| "phaseString (RawPhase s) = s"

definition Phases :: "Phase list" where
  "Phases = [MovePlanned, MoveCopying, MoveCopied, MoveVerifying, MoveVerified,
             MoveSourceDeletePending, MoveDone, MoveAbandoned]"

definition PhaseTransitions :: "(Phase \<times> Phase) list" where
  "PhaseTransitions =
     [(MovePlanned, MoveCopying),
      (MoveCopying, MoveCopied),
      (MoveCopied, MoveVerifying),
      (MoveVerifying, MoveVerified),
      (MoveVerified, MoveSourceDeletePending),
      (MoveSourceDeletePending, MoveDone),
      (MoveSourceDeletePending, MoveCopying),
      (MoveVerifying, MoveCopying),
      (MovePlanned, MoveAbandoned),
      (MoveCopying, MoveAbandoned),
      (MoveCopied, MoveAbandoned),
      (MoveVerifying, MoveAbandoned)]"

definition terminalPhases :: "Phase list" where
  "terminalPhases = [MoveDone, MoveAbandoned]"

definition IsTerminal :: "Phase \<Rightarrow> bool" where
  "IsTerminal p = List.member terminalPhases p"

definition NonTerminalPhases :: "Phase list" where
  "NonTerminalPhases = filter (\<lambda>p. \<not> IsTerminal p) Phases"

definition ValidPhase :: "Phase \<Rightarrow> bool" where
  "ValidPhase p = list_ex (\<lambda>known. p = known) Phases"

datatype phaseError = NotAPhase Phase | IllegalPhaseChange Phase Phase

definition ValidatePhaseChange :: "Phase \<Rightarrow> Phase \<Rightarrow> phaseError option" where
  "ValidatePhaseChange fr to =
     (if \<not> ValidPhase fr then Some (NotAPhase fr)
      else if \<not> ValidPhase to then Some (NotAPhase to)
      else if fr = to then None
      else if list_ex (\<lambda>t. fst t = fr \<and> snd t = to) PhaseTransitions then None
      else Some (IllegalPhaseChange fr to))"

section \<open>Lemmas\<close>

lemma ValidPhase_simps [simp]:
  "ValidPhase MovePlanned" "ValidPhase MoveCopying" "ValidPhase MoveCopied" "ValidPhase MoveVerifying"
  "ValidPhase MoveVerified" "ValidPhase MoveSourceDeletePending" "ValidPhase MoveDone"
  "ValidPhase MoveAbandoned" "\<not> ValidPhase (RawPhase s)"
  by (simp_all add: ValidPhase_def Phases_def)

lemma IsTerminal_iff [simp]: "IsTerminal p \<longleftrightarrow> p = MoveDone \<or> p = MoveAbandoned"
  by (auto simp: IsTerminal_def terminalPhases_def)

lemma ValidatePhaseChange_None_iff:
  "ValidatePhaseChange a b = None \<longleftrightarrow>
     ValidPhase a \<and> ValidPhase b \<and> (a = b \<or> (a, b) \<in> set PhaseTransitions)"
  by (auto simp: ValidatePhaseChange_def list_ex_iff)

text \<open>The only way into the phase that may delete a source, and the only way out of it to the end.\<close>

lemma into_SourceDeletePending:
  "ValidatePhaseChange a MoveSourceDeletePending = None \<Longrightarrow> a = MoveVerified \<or> a = MoveSourceDeletePending"
  by (auto simp: ValidatePhaseChange_None_iff PhaseTransitions_def)

lemma into_Verified: "ValidatePhaseChange a MoveVerified = None \<Longrightarrow> a = MoveVerifying \<or> a = MoveVerified"
  by (auto simp: ValidatePhaseChange_None_iff PhaseTransitions_def)

lemma into_Done: "ValidatePhaseChange a MoveDone = None \<Longrightarrow> a = MoveSourceDeletePending \<or> a = MoveDone"
  by (auto simp: ValidatePhaseChange_None_iff PhaseTransitions_def)

lemma no_abandon_after_verify:
  "ValidatePhaseChange a MoveAbandoned = None \<Longrightarrow> a \<noteq> MoveVerified \<and> a \<noteq> MoveSourceDeletePending \<and> a \<noteq> MoveDone"
  by (auto simp: ValidatePhaseChange_None_iff PhaseTransitions_def)

lemma terminal_stays: "IsTerminal a \<Longrightarrow> ValidatePhaseChange a b = None \<Longrightarrow> b = a"
  by (auto simp: ValidatePhaseChange_None_iff PhaseTransitions_def)

end
