(* ===== verification/Journal.thy ===== *)
theory Journal
  imports Ids Machine MovePhase
begin

text \<open>
  The durable journal of package \<open>state\<close> (\<open>types.go\<close>, \<open>journal.go\<close>, \<open>placements.go\<close>,
  \<open>query.go\<close>, \<open>localbytes.go\<close>, \<open>addresses.go\<close>).  A SQLite table is the list of its rows in
  row-id order; the \<open>CHECK\<close> and \<open>UNIQUE\<close> constraints of the migrations are written out where
  a statement can violate them; a transaction that fails leaves the journal as it was.  An
  instant is its number of nanoseconds since year 1, so Go's zero time is 0; the text form the
  columns store round-trips and is not modelled here.  The redactor is a field of the journal,
  as in the source.
\<close>

type_synonym instant = int

definition zeroTime :: instant where "zeroTime = 0"

abbreviation noState :: State where "noState \<equiv> Raw []"

section \<open>Records\<close>

abbreviation MediumLocal :: string where "MediumLocal \<equiv> ''local''"
abbreviation PlacementActive :: string where "PlacementActive \<equiv> ''ACTIVE''"
abbreviation PlacementDeletePending :: string where "PlacementDeletePending \<equiv> ''DELETE_PENDING''"
abbreviation PlacementGone :: string where "PlacementGone \<equiv> ''GONE''"
abbreviation VerificationContent :: string where "VerificationContent \<equiv> ''content''"
abbreviation VerificationAttested :: string where "VerificationAttested \<equiv> ''attested''"
abbreviation VerificationExistence :: string where "VerificationExistence \<equiv> ''existence''"

record Placement =
  p_Medium :: string
  p_Location :: string
  p_Size :: "int option"
  p_Hash :: string
  p_HashAlg :: string
  p_VerificationClass :: string
  p_VerifiedAt :: "instant option"
  p_Status :: string
  p_CreatedAt :: instant
  p_UpdatedAt :: instant

record PlacementUpdate =
  pu_Medium :: string
  pu_Location :: string
  pu_Size :: "int option"
  pu_Hash :: string
  pu_HashAlg :: string
  pu_VerificationClass :: string
  pu_VerifiedAt :: "instant option"
  pu_Status :: string

record RemoteFacts =
  rf_Size :: "int option"
  rf_ModTime :: "instant option"
  rf_Hash :: string
  rf_HashAlg :: string
  rf_BackendID :: string

record TransferResult =
  tr_BytesTransferred :: int
  tr_Checksummed :: bool

record HashUpdate =
  hu_Hash :: string
  hu_Alg :: string

record ValidationUpdate =
  vu_Passed :: bool
  vu_Detail :: string

record RetryUpdate =
  ru_Count :: int
  ru_LastError :: string
  ru_NextAttempt :: "instant option"

record DeletionUpdate =
  du_DeletedAt :: "instant option"
  du_Error :: string

record RetentionUpdate =
  tu_Tier :: string
  tu_ExpiresAt :: "instant option"

record Record =
  r_Artifact :: ArtifactID
  r_RemotePath :: string
  r_LocalPath :: string
  r_State :: State
  r_DiscoveredAt :: instant
  r_UpdatedAt :: instant
  r_Remote :: RemoteFacts
  r_Transfer :: "TransferResult option"
  r_LocalHash :: string
  r_LocalHashAlg :: string
  r_ValidationPassed :: "bool option"
  r_ValidationDetail :: string
  r_RetryCount :: int
  r_LastError :: string
  r_NextRetryAt :: "instant option"
  r_RemoteDeletedAt :: "instant option"
  r_RemoteDeleteError :: string
  r_RetentionTier :: string
  r_RetentionExpiresAt :: "instant option"
  r_Placements :: "Placement list"

record Transition =
  t_Artifact :: ArtifactID
  t_Key :: string
  t_From :: State
  t_To :: State
  t_OccurredAt :: instant
  t_Detail :: string
  t_RemotePath :: string
  t_LocalPath :: "string option"
  t_Remote :: "RemoteFacts option"
  t_Transfer :: "TransferResult option"
  t_Hashes :: "HashUpdate option"
  t_Validation :: "ValidationUpdate option"
  t_Retry :: "RetryUpdate option"
  t_Deletion :: "DeletionUpdate option"
  t_Retention :: "RetentionUpdate option"
  t_Placement :: "PlacementUpdate option"

record Outcome =
  o_Applied :: bool
  o_Record :: Record
  o_Detail :: string

section \<open>Tables\<close>

record LogRow =
  lg_ID :: nat
  lg_Artifact :: nat
  lg_Key :: string
  lg_From :: State
  lg_To :: State
  lg_OccurredAt :: instant
  lg_Detail :: string

record PlacementRow =
  plr_ID :: nat
  plr_Artifact :: nat
  plr_Placement :: Placement

record BackupSetAddress =
  ad_Set :: BackupSetID
  ad_Host :: string
  ad_RemotePath :: string
  ad_LocalPath :: string
  ad_RecordedAt :: instant

record MoveRow =
  mvr_ID :: nat
  mvr_Artifact :: nat
  mvr_SourcePlacementID :: "nat option"
  mvr_DestinationMedium :: string
  mvr_DestinationKey :: string
  mvr_Phase :: Phase
  mvr_BytesCopied :: "int option"
  mvr_Error :: string
  mvr_CreatedAt :: instant
  mvr_UpdatedAt :: instant

record JournalDB =
  j_artifacts :: "(nat \<times> Record) list"
  j_log :: "LogRow list"
  j_placements :: "PlacementRow list"
  j_addresses :: "BackupSetAddress list"
  j_moves :: "MoveRow list"
  j_redact :: "string \<Rightarrow> string"

datatype journalError =
    NoKey | NoTarget | BadArtifact | NoOccurredAt | NoRemotePath
  | ErrIdempotencyKeyReused string
  | ErrAlreadyDiscovered ArtifactID
  | ErrArtifactNotFound
  | ErrStateMismatch State State
  | CheckConstraint
  | PlacementNoMedium
  | PlacementNoLocation string
  | StoredIDInvalid
  | NonPositiveLimit int
  | NoEdges
  | NoStates
  | NegativeTotal
  | AddressNoSet | AddressNoTime
  | JournalUnavailable
  | PlanNoSource | PlanNoDestination | PlanNoKey | PlanToItself string
  | NoActiveSource string
  | MoveInFlight nat
  | AdvanceNoID | AdvanceNoFrom | AdvanceNoTo
  | ErrMoveNotFound
  | ErrMovePhaseConflict Phase Phase

text \<open>\<open>INTEGER PRIMARY KEY\<close> gives a new row one more than the largest id in use; no statement
  of this package deletes a row.\<close>

definition nextID :: "nat list \<Rightarrow> nat" where
  "nextID ids = fold max ids 0 + 1"

section \<open>Reading a row\<close>

definition scanRecord :: "Record \<Rightarrow> journalError + Record" where
  "scanRecord r =
     (case NewBackupSetID (bs_Source (ar_Set (r_Artifact r))) (bs_Set (ar_Set (r_Artifact r))) of
        Inl _ \<Rightarrow> Inl StoredIDInvalid
      | Inr st \<Rightarrow>
        (case NewArtifactID st (ar_Name (r_Artifact r)) of
           Inl _ \<Rightarrow> Inl StoredIDInvalid
         | Inr a \<Rightarrow> Inr (r\<lparr>r_Artifact := a\<rparr>)))"

definition loadPlacements :: "JournalDB \<Rightarrow> nat \<Rightarrow> Placement list" where
  "loadPlacements j row =
     sort_key p_Medium (map plr_Placement (filter (\<lambda>p. plr_Artifact p = row) (j_placements j)))"

definition withPlacements :: "JournalDB \<Rightarrow> nat \<Rightarrow> Record \<Rightarrow> Record" where
  "withPlacements j row r = r\<lparr>r_Placements := loadPlacements j row\<rparr>"

definition getByRowID :: "JournalDB \<Rightarrow> nat \<Rightarrow> journalError + Record" where
  "getByRowID j row =
     (case find (\<lambda>ar. fst ar = row) (j_artifacts j) of
        None \<Rightarrow> Inl ErrArtifactNotFound
      | Some (_, r) \<Rightarrow> bindE (scanRecord r) (\<lambda>rec. Inr (withPlacements j row rec)))"

definition findArtifact :: "JournalDB \<Rightarrow> ArtifactID \<Rightarrow> (nat \<times> Record) option" where
  "findArtifact j a = find (\<lambda>ar. r_Artifact (snd ar) = a) (j_artifacts j)"

definition Get :: "JournalDB \<Rightarrow> ArtifactID \<Rightarrow> journalError + Record" where
  "Get j a =
     (case findArtifact j a of
        None \<Rightarrow> Inl ErrArtifactNotFound
      | Some (row, r) \<Rightarrow> bindE (scanRecord r) (\<lambda>rec. Inr (withPlacements j row rec)))"

section \<open>Placements\<close>

definition IsLocal :: "Placement \<Rightarrow> bool" where
  "IsLocal p = (p_Medium p = MediumLocal)"

definition LocalPlacement :: "Record \<Rightarrow> Placement option" where
  "LocalPlacement r = find (\<lambda>p. IsLocal p \<and> p_Status p = PlacementActive) (r_Placements r)"

text \<open>The second result \<open>false\<close> of \<open>ReadableLocalPath\<close> is \<open>None\<close>; the source then returns the
  empty path.\<close>

definition ReadableLocalPath :: "Record \<Rightarrow> string option" where
  "ReadableLocalPath r =
     (case LocalPlacement r of
        Some p \<Rightarrow> (if p_Location p \<noteq> [] then Some (p_Location p) else None)
      | None \<Rightarrow>
        if length (r_Placements r) > 0 then None
        else if r_LocalPath r \<noteq> [] then Some (r_LocalPath r) else None)"

definition ActiveMediumPlacements :: "Record \<Rightarrow> Placement list" where
  "ActiveMediumPlacements r =
     filter (\<lambda>p. \<not> IsLocal p \<and> p_Status p = PlacementActive) (r_Placements r)"

definition placementUpdate :: "Placement \<Rightarrow> PlacementUpdate" where
  "placementUpdate p =
     \<lparr>pu_Medium = p_Medium p, pu_Location = p_Location p, pu_Size = p_Size p, pu_Hash = p_Hash p,
      pu_HashAlg = p_HashAlg p, pu_VerificationClass = p_VerificationClass p,
      pu_VerifiedAt = p_VerifiedAt p, pu_Status = p_Status p\<rparr>"

definition WithStatus :: "PlacementUpdate \<Rightarrow> string \<Rightarrow> PlacementUpdate" where
  "WithStatus u status = u\<lparr>pu_Status := status\<rparr>"

definition buildPlacement :: "PlacementUpdate \<Rightarrow> string \<Rightarrow> instant \<Rightarrow> instant \<Rightarrow> Placement" where
  "buildPlacement p status created updated =
     \<lparr>p_Medium = pu_Medium p, p_Location = pu_Location p, p_Size = pu_Size p, p_Hash = pu_Hash p,
      p_HashAlg = pu_HashAlg p, p_VerificationClass = pu_VerificationClass p,
      p_VerifiedAt = pu_VerifiedAt p, p_Status = status, p_CreatedAt = created,
      p_UpdatedAt = updated\<rparr>"

definition placementChecks :: "Placement \<Rightarrow> bool" where
  "placementChecks p =
     (List.member ['''', VerificationContent, VerificationAttested, VerificationExistence]
        (p_VerificationClass p)
      \<and> List.member [PlacementActive, PlacementDeletePending, PlacementGone] (p_Status p))"

text \<open>The statement \<open>INSERT ... ON CONFLICT (artifact_id, medium) DO UPDATE\<close>: every column is
  overwritten except the row id and \<open>created_at\<close>.\<close>

fun upsertRows :: "nat \<Rightarrow> nat \<Rightarrow> Placement \<Rightarrow> PlacementRow list \<Rightarrow> PlacementRow list" where
  "upsertRows newid row p [] = [\<lparr>plr_ID = newid, plr_Artifact = row, plr_Placement = p\<rparr>]"
| "upsertRows newid row p (q # qs) =
     (if plr_Artifact q = row \<and> p_Medium (plr_Placement q) = p_Medium p
      then q\<lparr>plr_Placement := p\<lparr>p_CreatedAt := p_CreatedAt (plr_Placement q)\<rparr>\<rparr> # qs
      else q # upsertRows newid row p qs)"

definition upsertPlacement ::
  "JournalDB \<Rightarrow> nat \<Rightarrow> PlacementUpdate \<Rightarrow> instant \<Rightarrow> journalError + JournalDB" where
  "upsertPlacement j row p now =
     (if pu_Medium p = [] then Inl PlacementNoMedium
      else if pu_Location p = [] then Inl (PlacementNoLocation (pu_Medium p))
      else
        let status = (if pu_Status p = [] then PlacementActive else pu_Status p);
            np = buildPlacement p status now now
        in if \<not> placementChecks np then Inl CheckConstraint
           else Inr (j\<lparr>j_placements :=
                   upsertRows (nextID (map plr_ID (j_placements j))) row np (j_placements j)\<rparr>))"

section \<open>Recording a transition\<close>

definition validateTransition :: "Transition \<Rightarrow> journalError option" where
  "validateTransition t =
     (if t_Key t = [] then Some NoKey
      else if t_To t = noState then Some NoTarget
      else if ar_Name (t_Artifact t) = [] \<or> setIsZero (ar_Set (t_Artifact t)) then Some BadArtifact
      else if t_OccurredAt t = zeroTime then Some NoOccurredAt
      else if t_From t = noState \<and> t_RemotePath t = [] then Some NoRemotePath
      else None)"

definition findByIdempotencyKey :: "JournalDB \<Rightarrow> string \<Rightarrow> (nat \<times> State) option" where
  "findByIdempotencyKey j key =
     map_option (\<lambda>l. (lg_Artifact l, lg_To l)) (find (\<lambda>l. lg_Key l = key) (j_log j))"

definition emptyRemote :: RemoteFacts where
  "emptyRemote = \<lparr>rf_Size = None, rf_ModTime = None, rf_Hash = [], rf_HashAlg = [], rf_BackendID = []\<rparr>"

definition newRecord :: "Transition \<Rightarrow> Record" where
  "newRecord t =
     \<lparr>r_Artifact = t_Artifact t, r_RemotePath = t_RemotePath t,
      r_LocalPath = (case t_LocalPath t of Some p \<Rightarrow> p | None \<Rightarrow> []),
      r_State = t_To t, r_DiscoveredAt = t_OccurredAt t, r_UpdatedAt = t_OccurredAt t,
      r_Remote = (case t_Remote t of Some f \<Rightarrow> f | None \<Rightarrow> emptyRemote),
      r_Transfer = None, r_LocalHash = [], r_LocalHashAlg = [],
      r_ValidationPassed = None, r_ValidationDetail = [],
      r_RetryCount = 0, r_LastError = [], r_NextRetryAt = None,
      r_RemoteDeletedAt = None, r_RemoteDeleteError = [],
      r_RetentionTier = [], r_RetentionExpiresAt = None, r_Placements = []\<rparr>"

definition insertArtifact :: "JournalDB \<Rightarrow> Transition \<Rightarrow> journalError + nat \<times> JournalDB" where
  "insertArtifact j t =
     (if \<not> Valid (t_To t) then Inl CheckConstraint
      else if findArtifact j (t_Artifact t) \<noteq> None then Inl (ErrAlreadyDiscovered (t_Artifact t))
      else let row = nextID (map fst (j_artifacts j)) in
           Inr (row, j\<lparr>j_artifacts := j_artifacts j @ [(row, newRecord t)]\<rparr>))"

definition setOpt :: "('v \<Rightarrow> 'r \<Rightarrow> 'r) \<Rightarrow> 'v option \<Rightarrow> 'r \<Rightarrow> 'r" where
  "setOpt f v r = (case v of None \<Rightarrow> r | Some x \<Rightarrow> f x r)"

text \<open>The variable \<open>SET\<close> clause: only the facts the transition carries are written.\<close>

definition updateRecord :: "(string \<Rightarrow> string) \<Rightarrow> Transition \<Rightarrow> Record \<Rightarrow> Record" where
  "updateRecord redact t r =
     (setOpt (\<lambda>u r. r\<lparr>r_RetentionTier := tu_Tier u, r_RetentionExpiresAt := tu_ExpiresAt u\<rparr>) (t_Retention t) \<circ>
      setOpt (\<lambda>u r. r\<lparr>r_RemoteDeletedAt := du_DeletedAt u, r_RemoteDeleteError := redact (du_Error u)\<rparr>) (t_Deletion t) \<circ>
      setOpt (\<lambda>u r. r\<lparr>r_RetryCount := ru_Count u, r_LastError := ru_LastError u, r_NextRetryAt := ru_NextAttempt u\<rparr>) (t_Retry t) \<circ>
      setOpt (\<lambda>u r. r\<lparr>r_ValidationPassed := Some (vu_Passed u), r_ValidationDetail := vu_Detail u\<rparr>) (t_Validation t) \<circ>
      setOpt (\<lambda>u r. r\<lparr>r_LocalHash := hu_Hash u, r_LocalHashAlg := hu_Alg u\<rparr>) (t_Hashes t) \<circ>
      setOpt (\<lambda>u r. r\<lparr>r_Transfer := Some u\<rparr>) (t_Transfer t) \<circ>
      setOpt (\<lambda>u r. r\<lparr>r_Remote := u\<rparr>) (t_Remote t) \<circ>
      setOpt (\<lambda>u r. r\<lparr>r_LocalPath := u\<rparr>) (t_LocalPath t))
     (r\<lparr>r_State := t_To t, r_UpdatedAt := t_OccurredAt t\<rparr>)"

definition updateArtifact :: "JournalDB \<Rightarrow> Transition \<Rightarrow> journalError + nat \<times> JournalDB" where
  "updateArtifact j t =
     (case findArtifact j (t_Artifact t) of
        None \<Rightarrow> Inl ErrArtifactNotFound
      | Some (row, r) \<Rightarrow>
        if r_State r \<noteq> t_From t then Inl (ErrStateMismatch (r_State r) (t_From t))
        else if \<not> Valid (t_To t) then Inl CheckConstraint
        else Inr (row, j\<lparr>j_artifacts :=
               map (\<lambda>ar. if fst ar = row then (row, updateRecord (j_redact j) t (snd ar)) else ar)
                 (j_artifacts j)\<rparr>))"

definition appendLog :: "JournalDB \<Rightarrow> nat \<Rightarrow> Transition \<Rightarrow> JournalDB" where
  "appendLog j row t =
     j\<lparr>j_log := j_log j @
        [\<lparr>lg_ID = nextID (map lg_ID (j_log j)), lg_Artifact = row, lg_Key = t_Key t,
          lg_From = t_From t, lg_To = t_To t, lg_OccurredAt = t_OccurredAt t,
          lg_Detail = j_redact j (t_Detail t)\<rparr>]\<rparr>"

definition applyTransition :: "JournalDB \<Rightarrow> Transition \<Rightarrow> journalError + Outcome \<times> JournalDB" where
  "applyTransition j t =
     bindE (if t_From t = noState then insertArtifact j t else updateArtifact j t) (\<lambda>(row, j1).
       let j2 = appendLog j1 row t in
       bindE (case t_Placement t of None \<Rightarrow> Inr j2
              | Some p \<Rightarrow> upsertPlacement j2 row p (t_OccurredAt t)) (\<lambda>j3.
       bindE (getByRowID j3 row) (\<lambda>rec.
       Inr (\<lparr>o_Applied = True, o_Record = rec, o_Detail = t_Detail t\<rparr>, j3))))"

definition replayTransition ::
  "JournalDB \<Rightarrow> Transition \<Rightarrow> nat \<times> State \<Rightarrow> journalError + Outcome" where
  "replayTransition j t rp =
     bindE (getByRowID j (fst rp)) (\<lambda>rec.
       if snd rp \<noteq> t_To t \<or> r_Artifact rec \<noteq> t_Artifact t
       then Inl (ErrIdempotencyKeyReused (t_Key t))
       else Inr \<lparr>o_Applied = False, o_Record = rec, o_Detail = t_Detail t\<rparr>)"

definition RecordTransition ::
  "JournalDB \<Rightarrow> Transition \<Rightarrow> (journalError + Outcome) \<times> JournalDB" where
  "RecordTransition j t =
     (case validateTransition t of
        Some e \<Rightarrow> (Inl e, j)
      | None \<Rightarrow>
        (case findByIdempotencyKey j (t_Key t) of
           Some rp \<Rightarrow> (replayTransition j t rp, j)
         | None \<Rightarrow>
           (case applyTransition j t of
              Inl e \<Rightarrow> (Inl e, j)
            | Inr (out, j') \<Rightarrow> (Inr out, j'))))"

definition emptyTransition :: "ArtifactID \<Rightarrow> string \<Rightarrow> State \<Rightarrow> State \<Rightarrow> Transition" where
  "emptyTransition a key from to =
     \<lparr>t_Artifact = a, t_Key = key, t_From = from, t_To = to, t_OccurredAt = zeroTime,
      t_Detail = [], t_RemotePath = [], t_LocalPath = None, t_Remote = None, t_Transfer = None,
      t_Hashes = None, t_Validation = None, t_Retry = None, t_Deletion = None,
      t_Retention = None, t_Placement = None\<rparr>"

definition Discover ::
  "JournalDB \<Rightarrow> ArtifactID \<Rightarrow> string \<Rightarrow> string \<Rightarrow> RemoteFacts \<Rightarrow> instant \<Rightarrow>
   (journalError + Outcome) \<times> JournalDB" where
  "Discover j a key remotePath remote occurredAt =
     RecordTransition j ((emptyTransition a key noState Discovered)
       \<lparr>t_OccurredAt := occurredAt, t_RemotePath := remotePath, t_Remote := Some remote\<rparr>)"

end
