(* ===== verification/JournalQueries.thy ===== *)
theory JournalQueries
  imports Journal
begin

text \<open>
  The read side of the journal (\<open>query.go\<close>, \<open>localbytes.go\<close>) and the backup set addresses
  (\<open>addresses.go\<close>).  The log is kept in row-id order, so \<open>ORDER BY t.id DESC LIMIT 1\<close> is the
  first match of the reversed list.
\<close>

definition logRowsOf :: "JournalDB \<Rightarrow> ArtifactID \<Rightarrow> LogRow list" where
  "logRowsOf j a =
     (case findArtifact j a of None \<Rightarrow> []
      | Some (row, _) \<Rightarrow> filter (\<lambda>l. lg_Artifact l = row) (j_log j))"

definition newestRow :: "JournalDB \<Rightarrow> ArtifactID \<Rightarrow> (LogRow \<Rightarrow> bool) \<Rightarrow> LogRow option" where
  "newestRow j a p = find p (rev (logRowsOf j a))"

definition LastEnteredAt :: "JournalDB \<Rightarrow> ArtifactID \<Rightarrow> State \<Rightarrow> instant option" where
  "LastEnteredAt j a st =
     map_option lg_OccurredAt (newestRow j a (\<lambda>l. lg_To l = st \<and> lg_From l \<noteq> st))"

definition LastEnteredDetail :: "JournalDB \<Rightarrow> ArtifactID \<Rightarrow> State \<Rightarrow> (string \<times> instant) option" where
  "LastEnteredDetail j a st =
     map_option (\<lambda>l. (lg_Detail l, lg_OccurredAt l))
       (newestRow j a (\<lambda>l. lg_To l = st \<and> lg_From l \<noteq> st))"

definition LastTransition :: "JournalDB \<Rightarrow> ArtifactID \<Rightarrow> State \<Rightarrow> State \<Rightarrow> instant option" where
  "LastTransition j a from to =
     map_option lg_OccurredAt (newestRow j a (\<lambda>l. lg_From l = from \<and> lg_To l = to))"

text \<open>The loops over a result set: the first row that does not scan fails the whole read.\<close>

fun mapResult :: "('a \<Rightarrow> 'e + 'b) \<Rightarrow> 'a list \<Rightarrow> 'e + 'b list" where
  "mapResult f [] = Inr []"
| "mapResult f (x # xs) = bindE (f x) (\<lambda>y. bindE (mapResult f xs) (\<lambda>ys. Inr (y # ys)))"

definition listRecords :: "JournalDB \<Rightarrow> (Record \<Rightarrow> bool) \<Rightarrow> journalError + Record list" where
  "listRecords j p =
     mapResult (\<lambda>(row, r). bindE (scanRecord r) (\<lambda>rec. Inr (withPlacements j row rec)))
       (filter (\<lambda>ar. p (snd ar)) (j_artifacts j))"

definition ListByState :: "JournalDB \<Rightarrow> State \<Rightarrow> journalError + Record list" where
  "ListByState j st = listRecords j (\<lambda>r. r_State r = st)"

definition ListByBackupSet :: "JournalDB \<Rightarrow> BackupSetID \<Rightarrow> journalError + Record list" where
  "ListByBackupSet j st = listRecords j (\<lambda>r. ar_Set (r_Artifact r) = st)"

definition ListBackupSetIDs :: "JournalDB \<Rightarrow> journalError + BackupSetID list" where
  "ListBackupSetIDs j =
     mapResult
       (\<lambda>(s, t). case NewBackupSetID s t of Inl _ \<Rightarrow> Inl StoredIDInvalid | Inr b \<Rightarrow> Inr b)
       (sort_key snd (sort_key fst (remdups
          (map (\<lambda>ar. (bs_Source (ar_Set (r_Artifact (snd ar))), bs_Set (ar_Set (r_Artifact (snd ar)))))
             (j_artifacts j)))))"

record ActivityRecord =
  ac_ID :: nat
  ac_Artifact :: ArtifactID
  ac_From :: State
  ac_To :: State
  ac_OccurredAt :: instant
  ac_Detail :: string

definition activityRow :: "JournalDB \<Rightarrow> LogRow \<Rightarrow> (Record \<times> LogRow) list" where
  "activityRow j l =
     (case find (\<lambda>ar. fst ar = lg_Artifact l) (j_artifacts j) of
        None \<Rightarrow> [] | Some (_, r) \<Rightarrow> [(r, l)])"

definition scanActivity :: "Record \<times> LogRow \<Rightarrow> journalError + ActivityRecord" where
  "scanActivity rl =
     bindE (scanRecord (fst rl)) (\<lambda>rec.
       Inr \<lparr>ac_ID = lg_ID (snd rl), ac_Artifact = r_Artifact rec, ac_From = lg_From (snd rl),
            ac_To = lg_To (snd rl), ac_OccurredAt = lg_OccurredAt (snd rl),
            ac_Detail = lg_Detail (snd rl)\<rparr>)"

definition RecentActivityBefore :: "JournalDB \<Rightarrow> int \<Rightarrow> int \<Rightarrow> journalError + ActivityRecord list" where
  "RecentActivityBefore j before limit =
     (if limit \<le> 0 then Inl (NonPositiveLimit limit)
      else mapResult scanActivity
             (take (nat limit)
               (concat (map (activityRow j)
                 (filter (\<lambda>l. before > 0 \<longrightarrow> int (lg_ID l) < before) (rev (j_log j)))))))"

definition RecentActivity :: "JournalDB \<Rightarrow> int \<Rightarrow> journalError + ActivityRecord list" where
  "RecentActivity j limit = RecentActivityBefore j 0 limit"

definition ArtifactsWithAnyTransition ::
  "JournalDB \<Rightarrow> BackupSetID \<Rightarrow> (State \<times> State) list \<Rightarrow> journalError + ArtifactID list" where
  "ArtifactsWithAnyTransition j st edges =
     (if edges = [] then Inl NoEdges
      else mapResult
             (\<lambda>(row, r). case NewArtifactID st (ar_Name (r_Artifact r)) of
                Inl _ \<Rightarrow> Inl StoredIDInvalid | Inr a \<Rightarrow> Inr a)
             (filter (\<lambda>(row, r). ar_Set (r_Artifact r) = st \<and>
                list_ex (\<lambda>l. lg_Artifact l = row \<and> List.member edges (lg_From l, lg_To l)) (j_log j))
              (j_artifacts j)))"

text \<open>\<open>ReinstatedArtifacts\<close> of package \<open>lifecycle\<close> (\<open>reinstated.go\<close>) is one such query.\<close>

definition ReinstatedArtifacts :: "JournalDB \<Rightarrow> BackupSetID \<Rightarrow> journalError + ArtifactID list" where
  "ReinstatedArtifacts j st = ArtifactsWithAnyTransition j st reinstatementEdges"

text \<open>The sum of \<open>COALESCE(transfer_bytes, remote_size, 0)\<close>; SQLite reports a sum outside 64
  bits as an error, and so does the function.\<close>

definition rowBytes :: "Record \<Rightarrow> int" where
  "rowBytes r =
     (case r_Transfer r of Some t \<Rightarrow> tr_BytesTransferred t
      | None \<Rightarrow> (case rf_Size (r_Remote r) of Some n \<Rightarrow> n | None \<Rightarrow> 0))"

definition LocalBytesInUse :: "JournalDB \<Rightarrow> State list \<Rightarrow> journalError + int" where
  "LocalBytesInUse j states =
     (if states = [] then Inl NoStates
      else
        let total = sum_list (map (\<lambda>ar. rowBytes (snd ar))
                      (filter (\<lambda>ar. List.member states (r_State (snd ar))) (j_artifacts j)))
        in if total \<ge> 2 ^ 63 then Inl JournalUnavailable
           else if total < 0 then Inl NegativeTotal
           else Inr total)"

section \<open>Addresses\<close>

fun upsertAddress :: "BackupSetAddress \<Rightarrow> BackupSetAddress list \<Rightarrow> BackupSetAddress list" where
  "upsertAddress a [] = [a]"
| "upsertAddress a (b # bs) = (if ad_Set b = ad_Set a then a # bs else b # upsertAddress a bs)"

definition RecordBackupSetAddress ::
  "JournalDB \<Rightarrow> BackupSetAddress \<Rightarrow> journalError + JournalDB" where
  "RecordBackupSetAddress j addr =
     (if setIsZero (ad_Set addr) then Inl AddressNoSet
      else if ad_RecordedAt addr = zeroTime then Inl AddressNoTime
      else Inr (j\<lparr>j_addresses := upsertAddress addr (j_addresses j)\<rparr>))"

definition ReadBackupSetAddress ::
  "JournalDB \<Rightarrow> BackupSetID \<Rightarrow> journalError + BackupSetAddress option" where
  "ReadBackupSetAddress j st =
     (if setIsZero st then Inl AddressNoSet
      else Inr (find (\<lambda>a. ad_Set a = st) (j_addresses j)))"

section \<open>Lemmas\<close>

lemma find_upsertAddress:
  "find (\<lambda>b. ad_Set b = s) (upsertAddress a as) =
     (if s = ad_Set a then Some a else find (\<lambda>b. ad_Set b = s) as)"
  by (induction a as rule: upsertAddress.induct) auto

lemma mapResult_Inr: "mapResult f xs = Inr ys \<Longrightarrow> length ys = length xs \<and> (\<forall>i<length xs. f (xs ! i) = Inr (ys ! i))"
  by (induction xs arbitrary: ys) (auto simp: bindE_Inr_iff nth_Cons split: nat.split)

lemma mapResult_Inr_map: "(\<And>x. x \<in> set xs \<Longrightarrow> f x = Inr (g x)) \<Longrightarrow> mapResult f xs = Inr (map g xs)"
  by (induction xs) auto

lemma newestRow_None_iff: "newestRow j a p = None \<longleftrightarrow> (\<forall>l \<in> set (logRowsOf j a). \<not> p l)"
  by (auto simp: newestRow_def find_None_iff)

lemma newestRow_SomeD: "newestRow j a p = Some l \<Longrightarrow> l \<in> set (logRowsOf j a) \<and> p l"
  by (auto simp: newestRow_def find_Some_iff) (metis nth_mem set_rev length_rev)

lemma LastTransition_None_iff:
  "LastTransition j a f t = None \<longleftrightarrow> (f, t) \<notin> set (map (\<lambda>l. (lg_From l, lg_To l)) (logRowsOf j a))"
  by (auto simp: LastTransition_def newestRow_None_iff)

text \<open>An address read back for a backup set is the one recorded for it last, and recording
  one never changes the answer for another set.\<close>

theorem address_last_writer_wins:
  assumes "RecordBackupSetAddress j addr = Inr j'"
  shows "ReadBackupSetAddress j' st =
     (if st = ad_Set addr then Inr (Some addr) else ReadBackupSetAddress j st)"
  using assms
  by (auto simp: RecordBackupSetAddress_def ReadBackupSetAddress_def find_upsertAddress split: if_splits)

theorem address_last_writer_wins_witness:
  "\<exists>j'. ReadBackupSetAddress j' \<lparr>bs_Source = ''s'', bs_Set = ''b''\<rparr> =
     Inr (Some \<lparr>ad_Set = \<lparr>bs_Source = ''s'', bs_Set = ''b''\<rparr>, ad_Host = ''h'', ad_RemotePath = ''/r'',
               ad_LocalPath = ''/l'', ad_RecordedAt = 1\<rparr>)"
  using address_last_writer_wins[of "\<lparr>j_artifacts = [], j_log = [], j_placements = [], j_addresses = [], j_moves = [], j_redact = id\<rparr>"
      "\<lparr>ad_Set = \<lparr>bs_Source = ''s'', bs_Set = ''b''\<rparr>, ad_Host = ''h'', ad_RemotePath = ''/r'', ad_LocalPath = ''/l'', ad_RecordedAt = 1\<rparr>"
      _ "\<lparr>bs_Source = ''s'', bs_Set = ''b''\<rparr>"]
  by (fastforce simp: RecordBackupSetAddress_def setIsZero_def zeroTime_def)

end
