(* ===== verification/JournalInv.thy ===== *)
theory JournalInv
  imports JournalQueries
begin

text \<open>
  What the journal promises: an invariant tying the artifact rows to the append-only log, kept
  by every write; exactly-once application of a keyed transition; and the artifact histories
  the lifecycle theories reason about.
\<close>

section \<open>Row ids\<close>

lemma fold_max_init: "(n::nat) \<le> fold max ids n"
proof (induction ids arbitrary: n)
  case (Cons a ids)
  have "n \<le> max a n" by simp
  also have "\<dots> \<le> fold max ids (max a n)" by (rule Cons.IH)
  finally show ?case by simp
qed simp

lemma fold_max_ge: "m \<in> set ids \<Longrightarrow> (m::nat) \<le> fold max ids n"
proof (induction ids arbitrary: n)
  case (Cons a ids)
  then show ?case
    using fold_max_init[of "max a n" ids] by auto
qed simp

lemma nextID_fresh: "m \<in> set ids \<Longrightarrow> m < nextID ids"
  using fold_max_ge[of m ids 0] by (simp add: nextID_def)

lemma nextID_notin [simp]: "nextID ids \<notin> set ids"
  using nextID_fresh by blast

section \<open>Histories\<close>

definition edge :: "LogRow \<Rightarrow> State \<times> State" where
  "edge l = (lg_From l, lg_To l)"

text \<open>The edges the log records for one artifact, oldest first.\<close>

definition rowHistory :: "JournalDB \<Rightarrow> nat \<Rightarrow> (State \<times> State) list" where
  "rowHistory j row = map edge (filter (\<lambda>l. lg_Artifact l = row) (j_log j))"

definition history :: "JournalDB \<Rightarrow> ArtifactID \<Rightarrow> (State \<times> State) list" where
  "history j a = (case findArtifact j a of None \<Rightarrow> [] | Some (row, _) \<Rightarrow> rowHistory j row)"

fun chained :: "State \<Rightarrow> (State \<times> State) list \<Rightarrow> bool" where
  "chained s [] = True"
| "chained s ((f, t) # es) = (f = s \<and> chained t es)"

definition endState :: "State \<Rightarrow> (State \<times> State) list \<Rightarrow> State" where
  "endState s es = (if es = [] then s else snd (last es))"

lemma chained_append [simp]: "chained s (es @ fs) \<longleftrightarrow> chained s es \<and> chained (endState s es) fs"
  by (induction s es rule: chained.induct) (auto simp: endState_def)

lemma endState_snoc [simp]: "endState s (es @ [e]) = snd e"
  by (simp add: endState_def)

section \<open>The invariant\<close>

definition wfRow :: "JournalDB \<Rightarrow> nat \<times> Record \<Rightarrow> bool" where
  "wfRow j ar =
     (scanRecord (snd ar) = Inr (snd ar) \<and> Valid (r_State (snd ar)) \<and>
      rowHistory j (fst ar) \<noteq> [] \<and> chained noState (rowHistory j (fst ar)) \<and>
      endState noState (rowHistory j (fst ar)) = r_State (snd ar))"

definition wfJournal :: "JournalDB \<Rightarrow> bool" where
  "wfJournal j =
     (distinct (map fst (j_artifacts j)) \<and>
      distinct (map (\<lambda>ar. r_Artifact (snd ar)) (j_artifacts j)) \<and>
      (\<forall>ar \<in> set (j_artifacts j). wfRow j ar) \<and>
      distinct (map lg_Key (j_log j)) \<and>
      sorted_wrt (<) (map lg_ID (j_log j)) \<and>
      (\<forall>l \<in> set (j_log j). lg_Artifact l \<in> fst ` set (j_artifacts j) \<and> lg_To l \<noteq> noState) \<and>
      distinct (map (\<lambda>p. (plr_Artifact p, p_Medium (plr_Placement p))) (j_placements j)) \<and>
      (\<forall>p \<in> set (j_placements j). placementChecks (plr_Placement p)))"

definition emptyJournal :: "(string \<Rightarrow> string) \<Rightarrow> JournalDB" where
  "emptyJournal redact =
     \<lparr>j_artifacts = [], j_log = [], j_placements = [], j_addresses = [], j_moves = [], j_redact = redact\<rparr>"

lemma wfJournal_empty [simp]: "wfJournal (emptyJournal red)"
  by (simp add: wfJournal_def emptyJournal_def)

lemma findArtifact_Some:
  "findArtifact j a = Some (row, r) \<Longrightarrow> (row, r) \<in> set (j_artifacts j) \<and> r_Artifact r = a"
  by (auto simp: findArtifact_def find_Some_iff) (metis nth_mem snd_conv)+

lemma findArtifact_None: "findArtifact j a = None \<longleftrightarrow> (\<forall>ar \<in> set (j_artifacts j). r_Artifact (snd ar) \<noteq> a)"
  by (fastforce simp: findArtifact_def find_None_iff)

lemma wf_findArtifact:
  assumes "wfJournal j" "ar \<in> set (j_artifacts j)"
  shows "findArtifact j (r_Artifact (snd ar)) = Some ar"
  using assms find_unique[of "\<lambda>ar. r_Artifact (snd ar)" "j_artifacts j" ar]
  by (simp add: wfJournal_def findArtifact_def)

lemma wf_findRow:
  assumes "wfJournal j" "(row, r) \<in> set (j_artifacts j)"
  shows "find (\<lambda>ar. fst ar = row) (j_artifacts j) = Some (row, r)"
  using assms find_unique[of fst "j_artifacts j" "(row, r)"] by (simp add: wfJournal_def)

lemma history_eq_map: "history j a = map edge (logRowsOf j a)"
  by (auto simp: history_def logRowsOf_def rowHistory_def split: option.splits)

lemma history_rows:
  "wfJournal j \<Longrightarrow> (row, r) \<in> set (j_artifacts j) \<Longrightarrow> history j (r_Artifact r) = rowHistory j row"
  using wf_findArtifact[of j "(row, r)"] by (simp add: history_def)

lemma history_findArtifact: "findArtifact j a = Some (row, r) \<Longrightarrow> history j a = rowHistory j row"
  by (simp add: history_def)

lemma wf_row: "wfJournal j \<Longrightarrow> ar \<in> set (j_artifacts j) \<Longrightarrow> wfRow j ar"
  by (simp add: wfJournal_def)

lemma wf_chained: "wfJournal j \<Longrightarrow> chained noState (history j a)"
  by (auto simp: history_def wfRow_def split: option.splits dest!: findArtifact_Some wf_row)

lemma wf_history_Nil_iff: "wfJournal j \<Longrightarrow> history j a = [] \<longleftrightarrow> findArtifact j a = None"
  by (auto simp: history_def wfRow_def split: option.splits dest!: findArtifact_Some wf_row)

lemma Get_Inr:
  assumes "wfJournal j" "Get j a = Inr rec"
  shows "r_Artifact rec = a \<and> history j a \<noteq> [] \<and> r_State rec = endState noState (history j a)
    \<and> Valid (r_State rec)"
proof -
  from assms(2) obtain row r where f: "findArtifact j a = Some (row, r)"
    and b: "bindE (scanRecord r) (\<lambda>rec. Inr (withPlacements j row rec)) = (Inr rec :: journalError + Record)"
    by (auto simp: Get_def split: option.splits)
  have "(row, r) \<in> set (j_artifacts j)" "r_Artifact r = a" using findArtifact_Some[OF f] by auto
  with assms(1) have "wfRow j (row, r)" by (blast intro: wf_row)
  with b f \<open>r_Artifact r = a\<close> show ?thesis
    by (auto simp: wfRow_def withPlacements_def history_findArtifact)
qed

lemma Get_wf:
  assumes "wfJournal j" "findArtifact j a = Some (row, r)"
  shows "Get j a = Inr (withPlacements j row r)"
proof -
  have "scanRecord r = Inr r"
    using assms findArtifact_Some[OF assms(2)] wf_row[OF assms(1), of "(row, r)"] by (simp add: wfRow_def)
  with assms(2) show ?thesis by (simp add: Get_def)
qed

section \<open>Placement rows\<close>

lemma upsertRows_keys:
  "set (map (\<lambda>p. (plr_Artifact p, p_Medium (plr_Placement p))) (upsertRows i row p qs))
   = insert (row, p_Medium p) (set (map (\<lambda>p. (plr_Artifact p, p_Medium (plr_Placement p))) qs))"
  by (induction i row p qs rule: upsertRows.induct) auto

lemma upsertRows_distinct:
  "distinct (map (\<lambda>p. (plr_Artifact p, p_Medium (plr_Placement p))) qs) \<Longrightarrow>
   distinct (map (\<lambda>p. (plr_Artifact p, p_Medium (plr_Placement p))) (upsertRows i row p qs))"
proof (induction i row p qs rule: upsertRows.induct)
  case (2 i row p q qs)
  then show ?case
    using upsertRows_keys[of i row p qs] by auto
qed simp

lemma upsertRows_checks:
  "placementChecks p \<Longrightarrow> \<forall>q \<in> set qs. placementChecks (plr_Placement q) \<Longrightarrow>
   \<forall>q \<in> set (upsertRows i row p qs). placementChecks (plr_Placement q)"
  by (induction i row p qs rule: upsertRows.induct) (auto simp: placementChecks_def)

text \<open>The characteristic property of the upsert: one medium of one artifact is overwritten, and
  a copy already recorded there keeps its creation time.\<close>

definition placementAt :: "JournalDB \<Rightarrow> nat \<Rightarrow> string \<Rightarrow> Placement option" where
  "placementAt j row medium =
     map_option plr_Placement
       (find (\<lambda>q. plr_Artifact q = row \<and> p_Medium (plr_Placement q) = medium) (j_placements j))"

lemma find_upsertRows:
  "map_option plr_Placement
     (find (\<lambda>q. plr_Artifact q = row' \<and> p_Medium (plr_Placement q) = medium) (upsertRows i row p qs)) =
   (if row' = row \<and> medium = p_Medium p
    then Some (case map_option plr_Placement
                 (find (\<lambda>q. plr_Artifact q = row \<and> p_Medium (plr_Placement q) = medium) qs) of
                 None \<Rightarrow> p | Some old \<Rightarrow> p\<lparr>p_CreatedAt := p_CreatedAt old\<rparr>)
    else map_option plr_Placement
           (find (\<lambda>q. plr_Artifact q = row' \<and> p_Medium (plr_Placement q) = medium) qs))"
  by (induction i row p qs rule: upsertRows.induct) auto

lemma upsertPlacement_Inr:
  assumes "upsertPlacement j row u now = Inr j'"
  obtains p where
    "p = buildPlacement u (if pu_Status u = [] then PlacementActive else pu_Status u) now now"
    "pu_Medium u \<noteq> []" "pu_Location u \<noteq> []" "placementChecks p"
    "j' = j\<lparr>j_placements := upsertRows (nextID (map plr_ID (j_placements j))) row p (j_placements j)\<rparr>"
  using assms by (auto simp: upsertPlacement_def Let_def split: if_splits)

lemma placementAt_upsert:
  assumes "upsertPlacement j row u now = Inr j'"
  shows "placementAt j' row' m =
    (if row' = row \<and> m = pu_Medium u
     then Some (buildPlacement u (if pu_Status u = [] then PlacementActive else pu_Status u)
                 (case placementAt j row m of None \<Rightarrow> now | Some old \<Rightarrow> p_CreatedAt old) now)
     else placementAt j row' m)"
  using assms
  by (elim upsertPlacement_Inr)
    (auto simp: placementAt_def find_upsertRows buildPlacement_def split: option.splits)

lemma upsertPlacement_frame:
  "upsertPlacement j row u now = Inr j' \<Longrightarrow>
     j_artifacts j' = j_artifacts j \<and> j_log j' = j_log j \<and> j_redact j' = j_redact j
     \<and> j_addresses j' = j_addresses j \<and> j_moves j' = j_moves j"
  by (elim upsertPlacement_Inr) auto

lemma rowHistory_simps [simp]:
  "rowHistory (j\<lparr>j_artifacts := x\<rparr>) row = rowHistory j row"
  "rowHistory (j\<lparr>j_placements := y\<rparr>) row = rowHistory j row"
  "rowHistory (j\<lparr>j_addresses := z\<rparr>) row = rowHistory j row"
  "rowHistory (j\<lparr>j_moves := m\<rparr>) row = rowHistory j row"
  by (simp_all add: rowHistory_def)

lemma rowHistory_cong: "j_log j' = j_log j \<Longrightarrow> rowHistory j' row = rowHistory j row"
  by (simp add: rowHistory_def)

lemma wfJournal_upsertPlacement:
  assumes "wfJournal j" "upsertPlacement j row u now = Inr j'"
  shows "wfJournal j'"
proof -
  have fr: "j_artifacts j' = j_artifacts j" "j_log j' = j_log j"
    using upsertPlacement_frame[OF assms(2)] by auto
  have "wfRow j' = wfRow j" by (simp add: fun_eq_iff wfRow_def rowHistory_cong[OF fr(2)])
  with assms(1) fr show ?thesis
    using assms(2)
    by (elim upsertPlacement_Inr)
      (auto simp: wfJournal_def intro: upsertRows_distinct dest!: upsertRows_checks)
qed

section \<open>Recording a transition\<close>

lemma RecordTransition_Inl: "RecordTransition j t = (Inl e, j') \<Longrightarrow> j' = j"
  by (auto simp: RecordTransition_def split: option.splits sum.splits)

lemma updateRecord_id [simp]: "r_Artifact (updateRecord red t r) = r_Artifact r"
  by (simp add: updateRecord_def setOpt_def split: option.split)

lemma updateRecord_state [simp]: "r_State (updateRecord red t r) = t_To t"
  by (simp add: updateRecord_def setOpt_def split: option.split)

lemma scanRecord_eq: "scanRecord r = Inr r' \<Longrightarrow> r' = r"
  by (cases r; cases "r_Artifact r"; cases "ar_Set (r_Artifact r)")
    (auto simp: scanRecord_def NewBackupSetID_Inr_iff NewArtifactID_Inr_iff split: sum.splits)

lemma scanRecord_ok: "scanRecord r = Inr r \<longleftrightarrow> isOk (scanRecord r)"
  by (cases "scanRecord r") (auto dest: scanRecord_eq)

lemma scanRecord_cong:
  "r_Artifact r = r_Artifact s \<Longrightarrow> scanRecord r = Inr r \<longleftrightarrow> scanRecord s = Inr s"
  unfolding scanRecord_ok by (simp add: scanRecord_def split: sum.split)

lemma appendLog_sel [simp]:
  "j_artifacts (appendLog j row t) = j_artifacts j"
  "j_placements (appendLog j row t) = j_placements j"
  "j_redact (appendLog j row t) = j_redact j"
  "j_moves (appendLog j row t) = j_moves j"
  "rowHistory (appendLog j row t) row' =
     rowHistory j row' @ (if row' = row then [(t_From t, t_To t)] else [])"
  by (simp_all add: appendLog_def rowHistory_def edge_def)

lemma appendLog_log:
  "j_log (appendLog j row t) = j_log j @
     [\<lparr>lg_ID = nextID (map lg_ID (j_log j)), lg_Artifact = row, lg_Key = t_Key t,
       lg_From = t_From t, lg_To = t_To t, lg_OccurredAt = t_OccurredAt t,
       lg_Detail = j_redact j (t_Detail t)\<rparr>]"
  by (simp add: appendLog_def)

text \<open>The log part of the invariant survives an append under a new key.\<close>

lemma appendLog_logOK:
  assumes "wfJournal j" "findByIdempotencyKey j (t_Key t) = None" "t_To t \<noteq> noState"
    and "fst ` set (j_artifacts j) \<subseteq> rows" "row \<in> rows"
  shows "distinct (map lg_Key (j_log (appendLog j row t)))
    \<and> sorted_wrt (<) (map lg_ID (j_log (appendLog j row t)))
    \<and> (\<forall>l \<in> set (j_log (appendLog j row t)). lg_Artifact l \<in> rows \<and> lg_To l \<noteq> noState)"
proof -
  have k: "t_Key t \<notin> lg_Key ` set (j_log j)"
    using assms(2) by (auto simp: findByIdempotencyKey_def find_None_iff)
  have i: "\<forall>x \<in> set (map lg_ID (j_log j)). x < nextID (map lg_ID (j_log j))"
    using nextID_fresh by blast
  show ?thesis
    using assms(1,3-) k i by (auto simp: wfJournal_def appendLog_log sorted_wrt_append)
qed

lemma rowHistory_fresh:
  assumes "wfJournal j" "row \<notin> fst ` set (j_artifacts j)"
  shows "rowHistory j row = []"
  using assms by (auto simp: wfJournal_def rowHistory_def filter_empty_conv)

lemma insertArtifact_Inr:
  assumes "insertArtifact j t = Inr (row, j1)"
  shows "row = nextID (map fst (j_artifacts j)) \<and> findArtifact j (t_Artifact t) = None \<and> Valid (t_To t)
    \<and> j1 = j\<lparr>j_artifacts := j_artifacts j @ [(row, newRecord t)]\<rparr>"
  using assms by (cases "findArtifact j (t_Artifact t)") (auto simp: insertArtifact_def Let_def split: if_splits)

lemma updateArtifact_Inr:
  assumes "updateArtifact j t = Inr (row, j1)"
  obtains r where "findArtifact j (t_Artifact t) = Some (row, r)" "r_State r = t_From t" "Valid (t_To t)"
    "j1 = j\<lparr>j_artifacts := map (\<lambda>ar. if fst ar = row then (row, updateRecord (j_redact j) t (snd ar)) else ar)
            (j_artifacts j)\<rparr>"
  using assms by (auto simp: updateArtifact_def split: if_splits option.splits)

lemma emptyTransition_sel [simp]:
  "t_Artifact (emptyTransition a k f t) = a" "t_Key (emptyTransition a k f t) = k"
  "t_From (emptyTransition a k f t) = f" "t_To (emptyTransition a k f t) = t"
  "t_OccurredAt (emptyTransition a k f t) = zeroTime"
  by (simp_all add: emptyTransition_def)

lemma newRecord_sel [simp]:
  "r_Artifact (newRecord t) = t_Artifact t" "r_State (newRecord t) = t_To t"
  by (simp_all add: newRecord_def)

lemma wf_insert:
  assumes wf: "wfJournal j" and ins: "insertArtifact j t = Inr (row, j1)"
    and key: "findByIdempotencyKey j (t_Key t) = None" and frm: "t_From t = noState"
    and to: "t_To t \<noteq> noState" and scan: "scanRecord (newRecord t) = Inr (newRecord t)"
  shows "wfJournal (appendLog j1 row t)"
proof -
  let ?j = "appendLog j1 row t"
  note i = insertArtifact_Inr[OF ins]
  have fresh: "row \<notin> fst ` set (j_artifacts j)"
    using i nextID_notin[of "map fst (j_artifacts j)"] by auto
  have hist: "rowHistory j1 row' = rowHistory j row'" for row'
    using i by simp
  have arts: "j_artifacts ?j = j_artifacts j @ [(row, newRecord t)]" using i by simp
  have new: "wfRow ?j (row, newRecord t)"
    using scan i frm rowHistory_fresh[OF wf fresh] by (simp add: wfRow_def hist endState_def)
  have old: "wfRow ?j ar" if "ar \<in> set (j_artifacts j)" for ar
  proof -
    have "fst ar \<noteq> row" using that fresh by auto
    with wf_row[OF wf that] show ?thesis by (simp add: wfRow_def hist)
  qed
  have logeq: "j_log ?j = j_log (appendLog j row t)" using i by (simp add: appendLog_log)
  have log: "distinct (map lg_Key (j_log ?j)) \<and> sorted_wrt (<) (map lg_ID (j_log ?j))
    \<and> (\<forall>l \<in> set (j_log ?j). lg_Artifact l \<in> fst ` set (j_artifacts ?j) \<and> lg_To l \<noteq> noState)"
    unfolding logeq using appendLog_logOK[OF wf key to, of "fst ` set (j_artifacts ?j)" row] arts by auto
  have ids: "distinct (map fst (j_artifacts ?j))" "distinct (map (\<lambda>ar. r_Artifact (snd ar)) (j_artifacts ?j))"
    using wf fresh i by (auto simp: wfJournal_def arts findArtifact_None)
  show ?thesis
    unfolding wfJournal_def using ids log new old wf i by (auto simp: arts wfJournal_def)
qed

lemma wf_update:
  assumes wf: "wfJournal j" and upd: "updateArtifact j t = Inr (row, j1)"
    and key: "findByIdempotencyKey j (t_Key t) = None" and to: "t_To t \<noteq> noState"
  shows "wfJournal (appendLog j1 row t)"
proof -
  let ?j = "appendLog j1 row t"
  obtain r where f: "findArtifact j (t_Artifact t) = Some (row, r)" "r_State r = t_From t" "Valid (t_To t)"
    and j1: "j1 = j\<lparr>j_artifacts := map (\<lambda>ar. if fst ar = row then (row, updateRecord (j_redact j) t (snd ar)) else ar)
              (j_artifacts j)\<rparr>"
    using upd by (rule updateArtifact_Inr)
  let ?g = "\<lambda>ar. if fst ar = row then (row, updateRecord (j_redact j) t (snd ar)) else ar"
  have mem: "(row, r) \<in> set (j_artifacts j)" using findArtifact_Some[OF f(1)] by auto
  have arts: "j_artifacts ?j = map ?g (j_artifacts j)" by (simp add: j1)
  have hist: "rowHistory j1 row' = rowHistory j row'" for row'
    by (simp add: j1)
  have fsts: "map fst (j_artifacts ?j) = map fst (j_artifacts j)"
    by (auto simp: j1)
  have arids: "map (\<lambda>ar. r_Artifact (snd ar)) (j_artifacts ?j) = map (\<lambda>ar. r_Artifact (snd ar)) (j_artifacts j)"
    by (auto simp: j1)
  have rows: "wfRow ?j (?g ar)" if "ar \<in> set (j_artifacts j)" for ar
  proof (cases "fst ar = row")
    case True
    have "find (\<lambda>ar. fst ar = row) (j_artifacts j) = Some (row, r)" by (rule wf_findRow[OF wf mem])
    then have eq: "ar = (row, r)"
      using that True wf find_unique[of fst "j_artifacts j" ar] by (auto simp: wfJournal_def)
    have "wfRow j (row, r)" using wf mem by (rule wf_row)
    moreover have "scanRecord (updateRecord (j_redact j) t r) = Inr (updateRecord (j_redact j) t r)
        \<longleftrightarrow> scanRecord r = Inr r"
      by (rule scanRecord_cong) simp
    ultimately show ?thesis using f by (simp add: eq wfRow_def hist)
  next
    case False
    with wf_row[OF wf that] show ?thesis by (simp add: wfRow_def hist)
  qed
  have logeq: "j_log ?j = j_log (appendLog j row t)" by (simp add: j1 appendLog_log)
  have img: "fst ` set (j_artifacts ?j) = fst ` set (j_artifacts j)"
    using fsts by (metis list.set_map)
  have log: "distinct (map lg_Key (j_log ?j)) \<and> sorted_wrt (<) (map lg_ID (j_log ?j))
    \<and> (\<forall>l \<in> set (j_log ?j). lg_Artifact l \<in> fst ` set (j_artifacts ?j) \<and> lg_To l \<noteq> noState)"
    unfolding logeq img
    by (rule appendLog_logOK[OF wf key to]) (use mem in \<open>auto simp: image_iff intro: bexI[of _ "(row, r)"]\<close>)
  have rows': "\<forall>ar \<in> set (j_artifacts ?j). wfRow ?j ar"
    unfolding arts using rows by (metis (no_types, lifting) imageE list.set_map)
  have ids: "distinct (map fst (j_artifacts ?j))" "distinct (map (\<lambda>ar. r_Artifact (snd ar)) (j_artifacts ?j))"
    unfolding fsts arids using wf by (simp_all add: wfJournal_def)
  show ?thesis
    unfolding wfJournal_def using ids log rows' wf by (simp add: wfJournal_def j1)
qed

text \<open>One applied transition: what the journal holds afterwards.\<close>

lemma getByRowID_scan:
  assumes "getByRowID j row = Inr rec"
  obtains r where "find (\<lambda>ar. fst ar = row) (j_artifacts j) = Some (row, r)" "scanRecord r = Inr r"
    "rec = withPlacements j row r"
proof -
  obtain ar where f: "find (\<lambda>ar. fst ar = row) (j_artifacts j) = Some ar"
    using assms by (cases "find (\<lambda>ar. fst ar = row) (j_artifacts j)") (auto simp: getByRowID_def)
  obtain r where ar: "ar = (row, r)" using find_SomeD[OF f] by (cases ar) auto
  from assms f ar obtain r' where "scanRecord r = Inr r'" "rec = withPlacements j row r'"
    by (auto simp: getByRowID_def bindE_Inr_iff)
  with that f ar show thesis using scanRecord_eq by blast
qed

lemma optPlacement_frame:
  assumes "(case u of None \<Rightarrow> Inr j | Some p \<Rightarrow> upsertPlacement j row p now) = Inr j'"
  shows "j_artifacts j' = j_artifacts j \<and> j_log j' = j_log j \<and> j_moves j' = j_moves j \<and> (wfJournal j \<longrightarrow> wfJournal j')"
  using assms by (auto split: option.splits dest: upsertPlacement_frame wfJournal_upsertPlacement)

lemma applyTransition_parts:
  assumes "applyTransition j t = Inr (out, j')"
  obtains row j1 rec where
    "(if t_From t = noState then insertArtifact j t else updateArtifact j t) = Inr (row, j1)"
    "(case t_Placement t of None \<Rightarrow> Inr (appendLog j1 row t)
      | Some p \<Rightarrow> upsertPlacement (appendLog j1 row t) row p (t_OccurredAt t)) = Inr j'"
    "getByRowID j' row = Inr rec"
    "out = \<lparr>o_Applied = True, o_Record = rec, o_Detail = t_Detail t\<rparr>"
  using assms by (auto simp: applyTransition_def bindE_Inr_iff Let_def split: prod.splits)

lemma applyTransition_Inr:
  assumes wf: "wfJournal j" and key: "findByIdempotencyKey j (t_Key t) = None"
    and to: "t_To t \<noteq> noState" and app: "applyTransition j t = Inr (out, j')"
  obtains row j1 where
    "(if t_From t = noState then insertArtifact j t else updateArtifact j t) = Inr (row, j1)"
    "wfJournal (appendLog j1 row t)" "wfJournal j'"
    "j_artifacts j' = j_artifacts j1" "j_log j' = j_log (appendLog j1 row t)"
    "o_Applied out" "getByRowID j' row = Inr (o_Record out)" "o_Detail out = t_Detail t"
proof -
  from app obtain row j1 rec where
    g: "(if t_From t = noState then insertArtifact j t else updateArtifact j t) = Inr (row, j1)"
    and p: "(case t_Placement t of None \<Rightarrow> Inr (appendLog j1 row t)
              | Some p \<Rightarrow> upsertPlacement (appendLog j1 row t) row p (t_OccurredAt t)) = Inr j'"
    and r: "getByRowID j' row = Inr rec"
    and o: "out = \<lparr>o_Applied = True, o_Record = rec, o_Detail = t_Detail t\<rparr>"
    by (rule applyTransition_parts)
  note fr = optPlacement_frame[OF p]
  have wf2: "wfJournal (appendLog j1 row t)"
  proof (cases "t_From t = noState")
    case True
    with g have ins: "insertArtifact j t = Inr (row, j1)" by simp
    note i = insertArtifact_Inr[OF ins]
    obtain r0 where f: "find (\<lambda>ar. fst ar = row) (j_artifacts j') = Some (row, r0)" "scanRecord r0 = Inr r0"
      using r by (rule getByRowID_scan)
    have "find (\<lambda>ar. fst ar = row) (j_artifacts j') = Some (row, newRecord t)"
    proof -
      have "find (\<lambda>ar. fst ar = row) (j_artifacts j) = None"
        using i nextID_notin[of "map fst (j_artifacts j)"] by (intro find_NoneI) force
      with fr i show ?thesis by (simp add: find_append)
    qed
    with f have "scanRecord (newRecord t) = Inr (newRecord t)" by simp
    then show ?thesis by (rule wf_insert[OF wf ins key True to])
  next
    case False
    with g show ?thesis using wf_update[OF wf _ key to] by simp
  qed
  show thesis
    using that[OF g wf2] fr wf2 r o by simp
qed

section \<open>What one call does\<close>

definition applied :: "'e + Outcome \<Rightarrow> bool" where
  "applied res = (case res of Inl _ \<Rightarrow> False | Inr out \<Rightarrow> o_Applied out)"

lemma applied_simps [simp]: "\<not> applied (Inl e)" "applied (Inr out) = o_Applied out"
  by (simp_all add: applied_def)

lemma validateTransition_None:
  "validateTransition t = None \<Longrightarrow>
     t_Key t \<noteq> [] \<and> t_To t \<noteq> noState \<and> ar_Name (t_Artifact t) \<noteq> [] \<and>
     \<not> setIsZero (ar_Set (t_Artifact t)) \<and> t_OccurredAt t \<noteq> zeroTime"
  by (auto simp: validateTransition_def split: if_splits)

lemma RecordTransition_cases:
  assumes "RecordTransition j t = (res, j')"
  obtains
    (same) "j' = j" "\<not> applied res"
  | (new) out where "validateTransition t = None" "findByIdempotencyKey j (t_Key t) = None"
      "applyTransition j t = Inr (out, j')" "res = Inr out"
proof -
  have rep: "\<not> applied (replayTransition j t rp)" for rp
    by (auto simp: replayTransition_def bindE_def applied_def split: sum.splits)
  from assms rep that show thesis
    by (auto simp: RecordTransition_def split: option.splits sum.splits prod.splits)
qed

lemma applyTransition_applied: "applyTransition j t = Inr (out, j') \<Longrightarrow> o_Applied out"
  by (auto simp: applyTransition_def bindE_Inr_iff Let_def split: prod.splits)

lemma logged_history:
  assumes wf: "wfJournal j" and g: "(if t_From t = noState then insertArtifact j t else updateArtifact j t) = Inr (row, j1)"
    and a: "j_artifacts j' = j_artifacts j1" "j_log j' = j_log (appendLog j1 row t)"
  shows "history j' x = history j x @ (if x = t_Artifact t then [(t_From t, t_To t)] else [])
    \<and> (\<exists>r. findArtifact j' (t_Artifact t) = Some (row, r) \<and> r_State r = t_To t)"
proof (cases "t_From t = noState")
  case True
  with g have i: "row = nextID (map fst (j_artifacts j))" "findArtifact j (t_Artifact t) = None"
    "j1 = j\<lparr>j_artifacts := j_artifacts j @ [(row, newRecord t)]\<rparr>"
    by (auto dest: insertArtifact_Inr)
  have hist: "rowHistory j' row' = rowHistory j row' @ (if row' = row then [(t_From t, t_To t)] else [])" for row'
    using rowHistory_cong[OF a(2)] i(3) by simp
  have fresh: "row \<notin> fst ` set (j_artifacts j)" using i(1) nextID_notin[of "map fst (j_artifacts j)"] by auto
  have "findArtifact j' x = (case findArtifact j x of None \<Rightarrow> if x = t_Artifact t then Some (row, newRecord t) else None | Some y \<Rightarrow> Some y)" for x
    using i by (cases "x = t_Artifact t") (auto simp: findArtifact_def a find_append split: option.split)
  note fa = this
  show ?thesis
  proof (cases "x = t_Artifact t")
    case True
    with fa i(2) rowHistory_fresh[OF wf fresh] show ?thesis by (simp add: history_def hist)
  next
    case False
    have "row' \<noteq> row" if "findArtifact j x = Some (row', r)" for row' r
      using findArtifact_Some[OF that] fresh by force
    with False fa i(2) show ?thesis by (auto simp: history_def hist split: option.split)
  qed
next
  case False
  with g have "updateArtifact j t = Inr (row, j1)" by simp
  then obtain r where f: "findArtifact j (t_Artifact t) = Some (row, r)"
    and j1: "j1 = j\<lparr>j_artifacts := map (\<lambda>ar. if fst ar = row then (row, updateRecord (j_redact j) t (snd ar)) else ar)
              (j_artifacts j)\<rparr>" by (rule updateArtifact_Inr)
  have hist: "rowHistory j' row' = rowHistory j row' @ (if row' = row then [(t_From t, t_To t)] else [])" for row'
    using rowHistory_cong[OF a(2)] j1 by simp
  have fa: "findArtifact j' x = map_option (\<lambda>ar. if fst ar = row then (row, updateRecord (j_redact j) t (snd ar)) else ar)
      (findArtifact j x)" for x
    by (simp add: findArtifact_def a j1) (rule find_map_inv, auto)
  have uniq: "x = t_Artifact t" if "findArtifact j x = Some (row, r')" for x r'
  proof -
    have "Some (row, r') = Some (row, r)"
      using wf_findRow[OF wf, of row r'] wf_findRow[OF wf, of row r] findArtifact_Some[OF that]
        findArtifact_Some[OF f] by simp
    then show ?thesis using findArtifact_Some[OF that] findArtifact_Some[OF f] by simp
  qed
  show ?thesis
  proof (cases "x = t_Artifact t")
    case True
    with f show ?thesis by (simp add: history_def fa hist)
  next
    case False
    have "row' \<noteq> row" if "findArtifact j x = Some (row', r')" for row' r'
      using uniq that False by blast
    with False f show ?thesis by (auto simp: history_def fa hist split: option.split)
  qed
qed

lemma record_transition_facts:
  assumes wf: "wfJournal j" and r: "RecordTransition j t = (res, j')"
  shows "wfJournal j' \<and>
    (\<forall>a. history j' a = history j a @ (if applied res \<and> a = t_Artifact t then [(t_From t, t_To t)] else [])) \<and>
    (applied res \<or> j' = j)"
  using r
proof (cases rule: RecordTransition_cases)
  case same
  with wf show ?thesis by simp
next
  case (new out)
  have to: "t_To t \<noteq> noState" using validateTransition_None[OF new(1)] by simp
  from applyTransition_Inr[OF wf new(2) to new(3)] obtain row j1 where
    "(if t_From t = noState then insertArtifact j t else updateArtifact j t) = Inr (row, j1)"
    "wfJournal j'" "j_artifacts j' = j_artifacts j1" "j_log j' = j_log (appendLog j1 row t)" "o_Applied out"
    by metis
  then show ?thesis using logged_history[OF wf] new(4) by simp
qed

text \<open>C19: a call of \<open>RecordTransition\<close> on a well-formed journal leaves a well-formed journal; it
  extends the artifact's history by exactly the edge it was given when it reports the transition
  applied, and otherwise (every refusal and every replay) it leaves the journal as it was; the
  histories of the other artifacts never change.\<close>

theorem record_transition_effect:
  assumes wf: "wfJournal j" and r: "RecordTransition j t = (res, j')"
  shows "wfJournal j' \<and>
    (\<forall>a. history j' a = history j a @ (if applied res \<and> a = t_Artifact t then [(t_From t, t_To t)] else [])) \<and>
    (applied res \<or> j' = j)"
  using assms by (rule record_transition_facts)

theorem record_transition_effect_witness:
  "wfJournal (emptyJournal id) \<and>
   (let a = \<lparr>ar_Set = \<lparr>bs_Source = ''s'', bs_Set = ''b''\<rparr>, ar_Name = ''d''\<rparr>;
        r = Discover (emptyJournal id) a ''k'' ''/d'' emptyRemote 1
    in applied (fst r) \<and> history (snd r) a = [(noState, Discovered)])"
proof -
  let ?a = "\<lparr>ar_Set = \<lparr>bs_Source = ''s'', bs_Set = ''b''\<rparr>, ar_Name = ''d''\<rparr>"
  let ?t = "(emptyTransition ?a ''k'' noState Discovered)
       \<lparr>t_OccurredAt := 1, t_RemotePath := ''/d'', t_Remote := Some emptyRemote\<rparr>"
  have ok: "applied (fst (RecordTransition (emptyJournal id) ?t))" by code_simp
  have nil: "history (emptyJournal id) ?a = []" by code_simp
  show ?thesis
    using record_transition_effect[OF wfJournal_empty, of id ?t, OF surjective_pairing] ok nil
    by (simp add: Discover_def Let_def emptyTransition_def)
qed

section \<open>Exactly once\<close>

text \<open>The journal remembers that a transition of this artifact into this state was recorded under
  this key.\<close>

definition recorded :: "JournalDB \<Rightarrow> Transition \<Rightarrow> bool" where
  "recorded j t =
     (\<exists>row r. findByIdempotencyKey j (t_Key t) = Some (row, t_To t) \<and>
        (row, r) \<in> set (j_artifacts j) \<and> r_Artifact r = t_Artifact t)"

definition runJournal :: "JournalDB \<Rightarrow> Transition list \<Rightarrow> JournalDB" where
  "runJournal j ts = foldl (\<lambda>j t. snd (RecordTransition j t)) j ts"

lemma findByIdempotencyKey_append:
  "j_log j' = j_log j @ ls \<Longrightarrow> findByIdempotencyKey j k = Some x \<Longrightarrow> findByIdempotencyKey j' k = Some x"
  by (auto simp: findByIdempotencyKey_def find_append)

lemma stored_rows_grow:
  assumes "(if t_From t = noState then insertArtifact j t else updateArtifact j t) = Inr (row, j1)"
    and "(row', r) \<in> set (j_artifacts j)"
  shows "j_log j1 = j_log j \<and> (\<exists>r'. (row', r') \<in> set (j_artifacts j1) \<and> r_Artifact r' = r_Artifact r)"
proof (cases "t_From t = noState")
  case True
  with assms show ?thesis by (auto dest!: insertArtifact_Inr)
next
  case False
  with assms(1) have "updateArtifact j t = Inr (row, j1)" by simp
  then obtain r0 where "j1 = j\<lparr>j_artifacts := map (\<lambda>ar. if fst ar = row then (row, updateRecord (j_redact j) t (snd ar)) else ar)
              (j_artifacts j)\<rparr>" by (rule updateArtifact_Inr)
  with assms(2) show ?thesis
    by (cases "row' = row") (force simp: image_iff)+
qed

lemma recorded_step:
  assumes wf: "wfJournal j" and rec: "recorded j t" and r: "RecordTransition j u = (res, j')"
  shows "recorded j' t"
  using r
proof (cases rule: RecordTransition_cases)
  case same
  with rec show ?thesis by simp
next
  case (new out)
  have to: "t_To u \<noteq> noState" using validateTransition_None[OF new(1)] by simp
  from applyTransition_Inr[OF wf new(2) to new(3)] obtain row j1 where
    g: "(if t_From u = noState then insertArtifact j u else updateArtifact j u) = Inr (row, j1)"
    and a: "j_artifacts j' = j_artifacts j1" "j_log j' = j_log (appendLog j1 row u)"
    by metis
  from rec obtain row' r where k: "findByIdempotencyKey j (t_Key t) = Some (row', t_To t)"
    "(row', r) \<in> set (j_artifacts j)" "r_Artifact r = t_Artifact t" by (auto simp: recorded_def)
  note g' = stored_rows_grow[OF g k(2)]
  then have "findByIdempotencyKey j' (t_Key t) = Some (row', t_To t)"
    by (intro findByIdempotencyKey_append[OF _ k(1)]) (simp add: a appendLog_log)
  then show ?thesis using g' a k(3) by (auto simp: recorded_def)
qed

lemma recorded_run:
  "wfJournal j \<Longrightarrow> recorded j t \<Longrightarrow> wfJournal (runJournal j us) \<and> recorded (runJournal j us) t"
proof (induction us arbitrary: j)
  case (Cons u us)
  obtain res j' where r: "RecordTransition j u = (res, j')" by fastforce
  show ?case
    using Cons.IH[of j'] recorded_step[OF Cons.prems r] record_transition_facts[OF Cons.prems(1) r]
    by (simp add: runJournal_def r)
qed (simp add: runJournal_def)

lemma getByRowID_wf:
  "wfJournal j \<Longrightarrow> (row, r) \<in> set (j_artifacts j) \<Longrightarrow> getByRowID j row = Inr (withPlacements j row r)"
  using wf_row[of j "(row, r)"] by (simp add: getByRowID_def wf_findRow wfRow_def)

lemma recorded_replay:
  assumes "wfJournal j" "recorded j t" "validateTransition t = None"
  shows "\<exists>out. RecordTransition j t = (Inr out, j) \<and> \<not> o_Applied out"
proof -
  from assms(2) obtain row r where k: "findByIdempotencyKey j (t_Key t) = Some (row, t_To t)"
    "(row, r) \<in> set (j_artifacts j)" "r_Artifact r = t_Artifact t" by (auto simp: recorded_def)
  with assms show ?thesis
    by (simp add: RecordTransition_def replayTransition_def getByRowID_wf withPlacements_def)
qed

lemma RecordTransition_recorded:
  assumes wf: "wfJournal j" and r: "RecordTransition j t = (Inr out, j')"
  shows "recorded j' t \<and> validateTransition t = None"
proof (cases "findByIdempotencyKey j (t_Key t)")
  case (Some rp)
  from r have v: "validateTransition t = None"
    by (auto simp: RecordTransition_def split: option.splits)
  with r Some have rp: "replayTransition j t rp = Inr out" "j' = j"
    by (auto simp: RecordTransition_def split: option.splits)
  then obtain rec where g: "getByRowID j (fst rp) = Inr rec" "snd rp = t_To t" "r_Artifact rec = t_Artifact t"
    by (auto simp: replayTransition_def bindE_Inr_iff split: if_splits)
  from g(1) obtain r0 where "find (\<lambda>ar. fst ar = fst rp) (j_artifacts j) = Some (fst rp, r0)"
    "rec = withPlacements j (fst rp) r0" by (rule getByRowID_scan)
  then have "(fst rp, r0) \<in> set (j_artifacts j)" "r_Artifact r0 = t_Artifact t"
    using g(3) by (auto dest: find_SomeD simp: withPlacements_def)
  with v Some g(2) rp(2) show ?thesis by (cases rp) (auto simp: recorded_def)
next
  case None
  with r have v: "validateTransition t = None" and app: "applyTransition j t = Inr (out, j')"
    by (auto simp: RecordTransition_def split: option.splits sum.splits)
  have to: "t_To t \<noteq> noState" using validateTransition_None[OF v] by simp
  from applyTransition_Inr[OF wf None to app] obtain row j1 where
    g: "(if t_From t = noState then insertArtifact j t else updateArtifact j t) = Inr (row, j1)"
    and a: "j_artifacts j' = j_artifacts j1" "j_log j' = j_log (appendLog j1 row t)"
    by metis
  have l: "j_log j1 = j_log j"
    using g by (cases "t_From t = noState") (auto dest!: insertArtifact_Inr elim: updateArtifact_Inr)
  obtain r0 where "findArtifact j' (t_Artifact t) = Some (row, r0)"
    using logged_history[OF wf g a] by blast
  then have "(row, r0) \<in> set (j_artifacts j')" "r_Artifact r0 = t_Artifact t"
    using findArtifact_Some by blast+
  moreover have "findByIdempotencyKey j' (t_Key t) = Some (row, t_To t)"
    using None by (simp add: findByIdempotencyKey_def a appendLog_log l find_append)
  ultimately show ?thesis using v by (auto simp: recorded_def)
qed

lemma recorded_entered:
  assumes "wfJournal j" "recorded j t"
  shows "t_To t \<in> set (map snd (history j (t_Artifact t)))"
proof -
  from assms(2) obtain row r where k: "findByIdempotencyKey j (t_Key t) = Some (row, t_To t)"
    "(row, r) \<in> set (j_artifacts j)" "r_Artifact r = t_Artifact t" by (auto simp: recorded_def)
  then obtain l where l: "l \<in> set (j_log j)" "lg_Artifact l = row" "lg_To l = t_To t"
    by (auto simp: findByIdempotencyKey_def dest!: find_SomeD)
  have "history j (t_Artifact t) = rowHistory j row"
    using history_rows[OF assms(1) k(2)] k(3) by simp
  moreover have "edge l \<in> set (rowHistory j row)" using l by (simp add: rowHistory_def)
  moreover have "snd (edge l) = t_To t" using l by (simp add: edge_def)
  ultimately show ?thesis by (force simp: image_iff)
qed

lemma RecordTransition_entered:
  assumes "wfJournal j" "RecordTransition j t = (Inr out, j')"
  shows "t_To t \<in> set (map snd (history j' (t_Artifact t)))"
  by (rule recorded_entered)
    (use record_transition_facts[OF assms] RecordTransition_recorded[OF assms] in auto)

text \<open>C18: exactly once: when a transition has been recorded, then whatever further transitions are
  recorded afterwards, calling again with the same request is recognised as a replay: it reports
  success without applying anything and leaves the journal untouched.\<close>

theorem record_transition_exactly_once:
  assumes "wfJournal j" "RecordTransition j t = (Inr out, j1)"
  shows "\<exists>out'. RecordTransition (runJournal j1 us) t = (Inr out', runJournal j1 us) \<and> \<not> o_Applied out'"
proof -
  have "wfJournal j1" using record_transition_facts[OF assms] by simp
  with RecordTransition_recorded[OF assms] recorded_run[of j1 t us] show ?thesis
    by (auto intro: recorded_replay)
qed

theorem record_transition_exactly_once_witness:
  "\<exists>t out' j. RecordTransition j t = (Inr out', j) \<and> \<not> o_Applied out' \<and> j_log j \<noteq> []"
proof -
  let ?a = "\<lparr>ar_Set = \<lparr>bs_Source = ''s'', bs_Set = ''b''\<rparr>, ar_Name = ''d''\<rparr>"
  let ?t = "(emptyTransition ?a ''k'' noState Discovered)\<lparr>t_OccurredAt := 1, t_RemotePath := ''/d''\<rparr>"
  let ?u = "(emptyTransition ?a ''k2'' Discovered Transferring)\<lparr>t_OccurredAt := 2\<rparr>"
  let ?j1 = "snd (RecordTransition (emptyJournal id) ?t)"
  have ok: "isOk (fst (RecordTransition (emptyJournal id) ?t))" by code_simp
  then obtain out where "RecordTransition (emptyJournal id) ?t = (Inr out, ?j1)"
    by (cases "RecordTransition (emptyJournal id) ?t"; cases "fst (RecordTransition (emptyJournal id) ?t)") auto
  from record_transition_exactly_once[OF wfJournal_empty this, of "[?u]"]
  obtain out' where "RecordTransition (runJournal ?j1 [?u]) ?t = (Inr out', runJournal ?j1 [?u])" "\<not> o_Applied out'"
    by blast
  moreover have "j_log (runJournal ?j1 [?u]) \<noteq> []" by code_simp
  ultimately show ?thesis by blast
qed

section \<open>A transition that applies\<close>

definition placementOK :: "Transition \<Rightarrow> bool" where
  "placementOK t = (case t_Placement t of None \<Rightarrow> True
     | Some p \<Rightarrow> pu_Medium p \<noteq> [] \<and> pu_Location p \<noteq> [] \<and>
         placementChecks (buildPlacement p (if pu_Status p = [] then PlacementActive else pu_Status p)
           (t_OccurredAt t) (t_OccurredAt t)))"

lemma RecordTransition_stores:
  assumes wf: "wfJournal j" and f: "findArtifact j (t_Artifact t) = Some (row, r)" and st: "r_State r = t_From t"
    and ok: "Valid (t_To t)" "t_Key t \<noteq> []" "t_OccurredAt t \<noteq> zeroTime" "placementOK t"
    and key: "findByIdempotencyKey j (t_Key t) = None"
  obtains out j' where "RecordTransition j t = (Inr out, j')" "wfJournal j'" "o_Applied out"
    "o_Record out = withPlacements j' row (updateRecord (j_redact j) t r)"
    "findArtifact j' (t_Artifact t) = Some (row, updateRecord (j_redact j) t r)"
    "findByIdempotencyKey j' (t_Key t) = Some (row, t_To t)"
    "\<And>k. k \<noteq> t_Key t \<Longrightarrow> findByIdempotencyKey j' k = findByIdempotencyKey j k"
proof -
  note mem = findArtifact_Some[OF f]
  have w: "scanRecord r = Inr r" "Valid (r_State r)" using wf_row[OF wf conjunct1[OF mem]] by (auto simp: wfRow_def)
  have from_ok: "t_From t \<noteq> noState" using w(2) st by auto
  have v: "validateTransition t = None"
    using ok from_ok w(1) conjunct2[OF mem]
    by (auto simp: validateTransition_def scanRecord_def NewArtifactID_Inr_iff NewBackupSetID_Inr_iff
        setIsZero_def validPart_None_iff split: sum.splits)
  let ?r = "updateRecord (j_redact j) t r"
  let ?up = "\<lambda>ar. if fst ar = row then (row, updateRecord (j_redact j) t (snd ar)) else ar"
  let ?j1 = "j\<lparr>j_artifacts := map ?up (j_artifacts j)\<rparr>"
  let ?j2 = "appendLog ?j1 row t"
  have u: "updateArtifact j t = Inr (row, ?j1)" using f st ok(1) by (simp add: updateArtifact_def)
  obtain j' where pl: "(case t_Placement t of None \<Rightarrow> Inr ?j2 | Some p \<Rightarrow> upsertPlacement ?j2 row p (t_OccurredAt t)) = Inr j'"
    using ok(4) by (cases "t_Placement t") (auto simp: placementOK_def upsertPlacement_def Let_def)
  have fr: "j_artifacts j' = j_artifacts ?j2" "j_log j' = j_log ?j2" using optPlacement_frame[OF pl] by simp_all
  have "find (\<lambda>ar. fst ar = row) (map ?up (j_artifacts j)) = Some (?up (row, r))"
    using wf_findRow[OF wf conjunct1[OF mem]] by (subst find_map_inv) auto
  moreover have "scanRecord ?r = Inr ?r" using w(1) scanRecord_cong[of ?r r] by simp
  ultimately have g: "getByRowID j' row = Inr (withPlacements j' row ?r)" by (simp add: getByRowID_def fr)
  let ?out = "\<lparr>o_Applied = True, o_Record = withPlacements j' row ?r, o_Detail = t_Detail t\<rparr>"
  have R: "RecordTransition j t = (Inr ?out, j')"
    using v key from_ok u g pl by (simp add: RecordTransition_def applyTransition_def Let_def)
  have "find (\<lambda>ar. r_Artifact (snd ar) = t_Artifact t) (map ?up (j_artifacts j))
      = map_option ?up (find (\<lambda>ar. r_Artifact (snd ar) = t_Artifact t) (j_artifacts j))"
    by (rule find_map_inv) auto
  then have "findArtifact j' (t_Artifact t) = Some (row, ?r)" using f by (simp add: findArtifact_def fr)
  moreover have "findByIdempotencyKey j' k = findByIdempotencyKey j k" if "k \<noteq> t_Key t" for k
    using that by (simp add: findByIdempotencyKey_def fr appendLog_log find_append split: option.split)
  moreover have "findByIdempotencyKey j' (t_Key t) = Some (row, t_To t)"
    using key by (simp add: findByIdempotencyKey_def fr appendLog_log find_append)
  moreover have "wfJournal j'" using record_transition_facts[OF wf R] by simp
  ultimately show thesis using that R by simp
qed

lemma RecordTransition_again:
  assumes wf: "wfJournal j" and f: "findArtifact j (t_Artifact t) = Some (row, r)"
    and ok: "t_From t \<noteq> noState" "t_To t \<noteq> noState" "t_Key t \<noteq> []" "t_OccurredAt t \<noteq> zeroTime"
    and key: "findByIdempotencyKey j (t_Key t) = Some (row, t_To t)"
  shows "RecordTransition j t = (Inr \<lparr>o_Applied = False, o_Record = withPlacements j row r, o_Detail = t_Detail t\<rparr>, j)"
proof -
  note mem = findArtifact_Some[OF f]
  have w: "scanRecord r = Inr r" using wf_row[OF wf conjunct1[OF mem]] by (auto simp: wfRow_def)
  have v: "validateTransition t = None"
    using ok w conjunct2[OF mem]
    by (auto simp: validateTransition_def scanRecord_def NewArtifactID_Inr_iff NewBackupSetID_Inr_iff
        setIsZero_def validPart_None_iff split: sum.splits)
  show ?thesis using v key mem getByRowID_wf[OF wf conjunct1[OF mem]]
    by (simp add: RecordTransition_def replayTransition_def withPlacements_def)
qed

lemma RecordTransition_artifact:
  assumes wf: "wfJournal j" and r: "RecordTransition j t = (Inr out, j')"
  shows "r_Artifact (o_Record out) = t_Artifact t"
proof (cases "findByIdempotencyKey j (t_Key t)")
  case (Some rp)
  with r show ?thesis
    by (auto simp: RecordTransition_def replayTransition_def bindE_Inr_iff split: option.splits if_splits)
next
  case None
  with r have v: "validateTransition t = None" and app: "applyTransition j t = Inr (out, j')"
    by (auto simp: RecordTransition_def split: option.splits sum.splits)
  have to: "t_To t \<noteq> noState" using validateTransition_None[OF v] by simp
  from applyTransition_Inr[OF wf None to app] obtain row j1 where
    g: "(if t_From t = noState then insertArtifact j t else updateArtifact j t) = Inr (row, j1)"
    and a: "j_artifacts j' = j_artifacts j1" "j_log j' = j_log (appendLog j1 row t)" and wf': "wfJournal j'"
    and b: "getByRowID j' row = Inr (o_Record out)" by metis
  obtain r0 where f: "findArtifact j' (t_Artifact t) = Some (row, r0)" using logged_history[OF wf g a] by blast
  note mem = findArtifact_Some[OF f]
  from getByRowID_wf[OF wf' conjunct1[OF mem]] b have "o_Record out = withPlacements j' row r0" by simp
  with mem show ?thesis by (simp add: withPlacements_def)
qed

lemma discovery_row:
  assumes "RecordTransition j t = (Inr out, j')" "t_From t = noState"
  shows "r_Artifact (o_Record out) = t_Artifact t \<and> (o_Applied out \<longrightarrow> r_RemotePath (o_Record out) = t_RemotePath t)"
  using assms(1)
proof (cases rule: RecordTransition_cases)
  case same
  with assms(1) show ?thesis
    by (auto simp: RecordTransition_def replayTransition_def applyTransition_def Let_def bindE_Inr_iff split: option.splits if_splits sum.splits prod.splits)
next
  case (new out')
  with assms have "applyTransition j t = Inr (out, j')" by simp
  then obtain row j1 rec where p: "(if t_From t = noState then insertArtifact j t else updateArtifact j t) = Inr (row, j1)"
      "(case t_Placement t of None \<Rightarrow> Inr (appendLog j1 row t)
        | Some p \<Rightarrow> upsertPlacement (appendLog j1 row t) row p (t_OccurredAt t)) = Inr j'"
      "getByRowID j' row = Inr rec" "out = \<lparr>o_Applied = True, o_Record = rec, o_Detail = t_Detail t\<rparr>"
    by (rule applyTransition_parts)
  have a: "insertArtifact j t = Inr (row, j1)" "getByRowID j' row = Inr rec" "out = \<lparr>o_Applied = True, o_Record = rec, o_Detail = t_Detail t\<rparr>"
    "j_artifacts j' = j_artifacts j1"
    using p assms(2) optPlacement_frame[OF p(2)] by (simp_all add: appendLog_def)
  note i = insertArtifact_Inr[OF a(1)]
  from a(2) obtain r where r: "find (\<lambda>ar. fst ar = row) (j_artifacts j') = Some (row, r)" "rec = withPlacements j' row r"
    by (rule getByRowID_scan)
  have "find (\<lambda>ar. fst ar = row) (j_artifacts j) = None"
    using i nextID_notin[of "map fst (j_artifacts j)"] by (force simp: find_None_iff)
  with r(1) a(4) i have "r = newRecord t" by (simp add: find_append)
  with r(2) a(3) show ?thesis by (simp add: newRecord_def withPlacements_def)
qed

lemma stored_transition_valid:
  assumes "wfJournal j" "findArtifact j (t_Artifact t) = Some (row, r)" "t_Key t \<noteq> []" "t_To t \<noteq> noState"
    "t_OccurredAt t \<noteq> zeroTime" "t_From t \<noteq> noState"
  shows "validateTransition t = None"
proof -
  note mem = findArtifact_Some[OF assms(2)]
  have "scanRecord r = Inr r" using wf_row[OF assms(1) conjunct1[OF mem]] by (auto simp: wfRow_def)
  with assms conjunct2[OF mem] show ?thesis
    by (auto simp: validateTransition_def scanRecord_def NewArtifactID_Inr_iff NewBackupSetID_Inr_iff
        setIsZero_def validPart_None_iff split: sum.splits)
qed

lemma record_mismatch:
  assumes "validateTransition t = None" "findByIdempotencyKey j (t_Key t) = None" "t_From t \<noteq> noState"
    "findArtifact j (t_Artifact t) = Some (row, r)" "r_State r \<noteq> t_From t"
  shows "RecordTransition j t = (Inl (ErrStateMismatch (r_State r) (t_From t)), j)"
  using assms by (simp add: RecordTransition_def applyTransition_def updateArtifact_def bindE_def)

end
