(* ===== verification/Lifecycle.thy ===== *)
theory Lifecycle
  imports JournalInv
begin

text \<open>
  The lifecycle steps that only move the journal (\<open>core/internal/lifecycle/engine.go\<close>,
  \<open>retainremote.go\<close>, \<open>retryfailed.go\<close>, \<open>quarantine.go\<close>).  \<open>Deps\<close> is the source's struct: its
  journal is an interface, so it is a record of operations over an arbitrary world \<open>'j\<close>, and the
  locale \<open>lifecycle_journal\<close> states what the steps rely on; \<open>sqlJournal\<close> is the implementation of
  package \<open>state\<close>, on which the locale is interpreted.  The clock and the cancellation of the
  context are read from the world.  Errors that only wrap another one are that error.
\<close>

section \<open>The interface of a step\<close>

record 'j JournalOps =
  jo_Get :: "'j \<Rightarrow> ArtifactID \<Rightarrow> journalError + Record"
  jo_RecordTransition :: "'j \<Rightarrow> Transition \<Rightarrow> (journalError + Outcome) \<times> 'j"
  jo_LastEnteredAt :: "'j \<Rightarrow> ArtifactID \<Rightarrow> State \<Rightarrow> journalError + instant option"
  jo_LastTransition :: "'j \<Rightarrow> ArtifactID \<Rightarrow> State \<Rightarrow> State \<Rightarrow> journalError + instant option"

record 'j Deps =
  d_Journal :: "'j JournalOps option"
  d_Now :: "'j \<Rightarrow> instant"
  d_Cancelled :: "'j \<Rightarrow> bool"

definition sqlJournal :: "JournalDB JournalOps" where
  "sqlJournal =
     \<lparr>jo_Get = Get, jo_RecordTransition = RecordTransition,
      jo_LastEnteredAt = (\<lambda>j a st. Inr (LastEnteredAt j a st)),
      jo_LastTransition = (\<lambda>j a from to. Inr (LastTransition j a from to))\<rparr>"

datatype evidenceGap = CheckFailed | NothingChecked | ValidatorNotRerun

datatype lifecycleError =
    NeedsJournal
  | NeedsAttemptKey
  | Cancelled
  | JournalError journalError
  | RefusedMove State State machineError
  | UnknownTarget State
  | NotRetainable State
  | NotRemoteRetained State
  | NotFailed State
  | NotQuarantined State
  | QuarantinedLostIsTerminal
  | InsufficientEvidence evidenceGap string
  | NeverHeldTargetState State

type_synonym 'j stepResult = "(lifecycleError + Outcome) \<times> 'j"

definition Advance :: "'j Deps \<Rightarrow> 'j \<Rightarrow> Transition \<Rightarrow> 'j stepResult" where
  "Advance d w t =
     (case d_Journal d of None \<Rightarrow> (Inl NeedsJournal, w)
      | Some ops \<Rightarrow>
        (case (if t_From t \<noteq> noState
               then map_option (RefusedMove (t_From t) (t_To t)) (Validate (t_From t) (t_To t))
               else if \<not> Valid (t_To t) then Some (UnknownTarget (t_To t)) else None) of
           Some e \<Rightarrow> (Inl e, w)
         | None \<Rightarrow>
           let t' = (if t_OccurredAt t = zeroTime then t\<lparr>t_OccurredAt := d_Now d w\<rparr> else t) in
           (case jo_RecordTransition ops w t' of (r, w') \<Rightarrow> (mapErr JournalError r, w'))))"

section \<open>Retaining a remote source\<close>

record RetainRemoteRequest =
  rq_Artifact :: ArtifactID
  rq_AttemptKey :: string

definition retainDetail :: string where
  "retainDetail = ''issue #282: this backup set is declared read-only; the remote source is retained by policy and transport.Transport.DeleteRemote is never called for it''"

definition RetainRemote :: "'j Deps \<Rightarrow> 'j \<Rightarrow> RetainRemoteRequest \<Rightarrow> 'j stepResult" where
  "RetainRemote d w req =
     (case d_Journal d of None \<Rightarrow> (Inl NeedsJournal, w)
      | Some ops \<Rightarrow>
        if rq_AttemptKey req = [] then (Inl NeedsAttemptKey, w)
        else (case jo_Get ops w (rq_Artifact req) of
            Inl e \<Rightarrow> (Inl (JournalError e), w)
          | Inr rec \<Rightarrow>
            if \<not> List.member [Committed, RemoteDeletePending, RemoteRetained] (r_State rec)
            then (Inl (NotRetainable (r_State rec)), w)
            else Advance d w
                   ((emptyTransition (rq_Artifact req) (rq_AttemptKey req) (r_State rec) RemoteRetained)
                     \<lparr>t_Detail := retainDetail\<rparr>)))"

record ReleaseFromRetentionRequest =
  rl_Artifact :: ArtifactID
  rl_AttemptKey :: string
  rl_Note :: string

definition releaseRetentionDetail :: "string \<Rightarrow> string" where
  "releaseRetentionDetail note =
     ''issue #282: an operator released this artifact from read-only retention; it re-enters the ordinary FR-15 delete-eligible pipeline''
     @ (if note \<noteq> [] then '': '' @ note else [])"

definition ReleaseFromRetention :: "'j Deps \<Rightarrow> 'j \<Rightarrow> ReleaseFromRetentionRequest \<Rightarrow> 'j stepResult" where
  "ReleaseFromRetention d w req =
     (case d_Journal d of None \<Rightarrow> (Inl NeedsJournal, w)
      | Some ops \<Rightarrow>
        if rl_AttemptKey req = [] then (Inl NeedsAttemptKey, w)
        else (case jo_Get ops w (rl_Artifact req) of
            Inl e \<Rightarrow> (Inl (JournalError e), w)
          | Inr rec \<Rightarrow>
            if r_State rec \<noteq> RemoteRetained then (Inl (NotRemoteRetained (r_State rec)), w)
            else Advance d w
                   ((emptyTransition (rl_Artifact req) (rl_AttemptKey req) RemoteRetained Committed)
                     \<lparr>t_Detail := releaseRetentionDetail (rl_Note req)\<rparr>)))"

section \<open>Retrying a failed artifact\<close>

record RetryFailedParams =
  rp_Artifact :: ArtifactID
  rp_AttemptKey :: string
  rp_RecoveringFrom :: string
  rp_Note :: string

definition keyRetryFailedSuffix :: string where "keyRetryFailedSuffix = '':retry-failed''"

definition retryDetail :: "int \<Rightarrow> string \<Rightarrow> string" where
  "retryDetail attempt note =
     ''operator-triggered retry from '' @ stateString Failed @ '', attempt '' @ itoa attempt
     @ (if note \<noteq> [] then '': '' @ note else [])"

definition RetryFailed :: "'j Deps \<Rightarrow> 'j \<Rightarrow> RetryFailedParams \<Rightarrow> 'j stepResult" where
  "RetryFailed d w p =
     (case d_Journal d of None \<Rightarrow> (Inl NeedsJournal, w)
      | Some ops \<Rightarrow>
        if rp_AttemptKey p = [] then (Inl NeedsAttemptKey, w)
        else if d_Cancelled d w then (Inl Cancelled, w)
        else (case jo_Get ops w (rp_Artifact p) of
            Inl e \<Rightarrow> (Inl (JournalError e), w)
          | Inr rec \<Rightarrow>
            if r_State rec \<noteq> Failed then (Inl (NotFailed (r_State rec)), w)
            else Advance d w
                   ((emptyTransition (rp_Artifact p) (rp_AttemptKey p @ keyRetryFailedSuffix) Failed Discovered)
                     \<lparr>t_Detail := retryDetail (r_RetryCount rec + 1) (rp_Note p),
                      t_Retry := Some \<lparr>ru_Count = r_RetryCount rec + 1,
                                       ru_LastError = rp_RecoveringFrom p, ru_NextAttempt = None\<rparr>\<rparr>)))"

section \<open>Leaving quarantine for discovery\<close>

record QuarantineReleaseParams =
  qr_Artifact :: ArtifactID
  qr_AttemptKey :: string
  qr_Note :: string

definition keyQuarantineReleaseSuffix :: string where
  "keyQuarantineReleaseSuffix = '':quarantine-release''"

definition orUnknownAlg :: "string \<Rightarrow> string" where
  "orUnknownAlg alg = (if alg = [] then ''unknown-algorithm'' else alg)"

definition QuarantineReason :: "Record \<Rightarrow> string" where
  "QuarantineReason rec =
     (if r_ValidationPassed rec = Some False then
        (if r_ValidationDetail rec \<noteq> []
         then ''application validator rejected the artifact: '' @ r_ValidationDetail rec
         else ''application validator rejected the artifact'')
      else if r_LocalHash rec \<noteq> [] then
        ''the durable local copy failed a content check (recorded '' @ orUnknownAlg (r_LocalHashAlg rec)
        @ '' hash: '' @ r_LocalHash rec
        @ ''); see the journal's transition log for exactly which check caught it and why''
      else if r_LastError rec \<noteq> [] then
        r_LastError rec @ '' (this is not a finding about the backup's contents: ''
        @ itoa (r_RetryCount rec)
        @ '' attempt(s) were spent and none of them completed, so nothing has been proved about these bytes either way)''
      else ''content found invalid; no further detail is persisted on this record (see the journal's transition log for the transition that caused it)'')"

definition releaseDetail :: "int \<Rightarrow> string \<Rightarrow> string" where
  "releaseDetail attempt note =
     ''operator released from quarantine, attempt '' @ itoa attempt
     @ (if note \<noteq> [] then '': '' @ note else [])"

definition ReleaseFromQuarantine :: "'j Deps \<Rightarrow> 'j \<Rightarrow> QuarantineReleaseParams \<Rightarrow> 'j stepResult" where
  "ReleaseFromQuarantine d w p =
     (case d_Journal d of None \<Rightarrow> (Inl NeedsJournal, w)
      | Some ops \<Rightarrow>
        if qr_AttemptKey p = [] then (Inl NeedsAttemptKey, w)
        else if d_Cancelled d w then (Inl Cancelled, w)
        else (case jo_Get ops w (qr_Artifact p) of
            Inl e \<Rightarrow> (Inl (JournalError e), w)
          | Inr rec \<Rightarrow>
            if r_State rec = QuarantinedLost then (Inl QuarantinedLostIsTerminal, w)
            else if r_State rec \<noteq> Quarantined then (Inl (NotQuarantined (r_State rec)), w)
            else Advance d w
                   ((emptyTransition (qr_Artifact p) (qr_AttemptKey p @ keyQuarantineReleaseSuffix)
                       Quarantined Discovered)
                     \<lparr>t_Detail := releaseDetail (r_RetryCount rec + 1) (qr_Note p),
                      t_Retry := Some \<lparr>ru_Count = r_RetryCount rec + 1,
                                       ru_LastError = QuarantineReason rec, ru_NextAttempt = None\<rparr>\<rparr>)))"

section \<open>Reinstatement\<close>

record ReinstatementEvidence =
  ev_HashMatched :: bool
  ev_ValidatorPassed :: bool
  ev_AnyCheckFailed :: bool
  ev_Summary :: string

definition conclusive :: "ReinstatementEvidence \<Rightarrow> bool" where
  "conclusive e = (ev_HashMatched e \<or> ev_ValidatorPassed e)"

record QuarantineReinstateParams =
  qi_Artifact :: ArtifactID
  qi_AttemptKey :: string
  qi_Evidence :: ReinstatementEvidence
  qi_Note :: string

definition keyQuarantineReinstateSuffix :: string where
  "keyQuarantineReinstateSuffix = '':quarantine-reinstate''"

definition quarantineOrigins :: "(State \<times> State) list" where
  "quarantineOrigins =
     [(Committed, Committed), (RemoteDeletePending, Committed), (RemoteRetained, RemoteRetained)]"

text \<open>The loop over the origins: the target of the newest recorded edge so far, with its time.\<close>

fun resolveOrigin ::
  "'j JournalOps \<Rightarrow> 'j \<Rightarrow> ArtifactID \<Rightarrow> (State \<times> State) list \<Rightarrow> (State \<times> instant) option \<Rightarrow>
   journalError + (State \<times> instant) option" where
  "resolveOrigin ops w a [] best = Inr best"
| "resolveOrigin ops w a ((from, target) # os) best =
     bindE (jo_LastTransition ops w a from Quarantined) (\<lambda>found.
       resolveOrigin ops w a os
         (case found of None \<Rightarrow> best
          | Some at \<Rightarrow>
            (case best of None \<Rightarrow> Some (target, at)
             | Some (_, newest) \<Rightarrow> if at > newest then Some (target, at) else best)))"

definition reinstatementTargetForArtifact ::
  "'j JournalOps \<Rightarrow> 'j \<Rightarrow> ArtifactID \<Rightarrow> State \<Rightarrow> journalError + State option" where
  "reinstatementTargetForArtifact ops w a current =
     (if current = QuarantinedLost then Inr (Some Complete)
      else bindE (resolveOrigin ops w a quarantineOrigins None) (\<lambda>best. Inr (map_option fst best)))"

definition summarySuffix :: "string \<Rightarrow> string" where
  "summarySuffix summary = (if summary = [] then [] else ''. What was checked: '' @ summary)"

definition reinstateDetail :: "State \<Rightarrow> State \<Rightarrow> string \<Rightarrow> string \<Rightarrow> string" where
  "reinstateDetail current target summary note =
     ''operator reinstated from '' @ stateString current @ '' to '' @ stateString target
     @ '' on re-checked evidence: '' @ summary
     @ (if note \<noteq> [] then '' (operator note: '' @ note @ '')'' else [])
     @ ''. The remote source is preserved from here on: a reinstated artifact never authorises a remote delete.''"

definition evidenceRefusal :: "Record \<Rightarrow> ReinstatementEvidence \<Rightarrow> evidenceGap option" where
  "evidenceRefusal rec e =
     (if ev_AnyCheckFailed e then Some CheckFailed
      else if \<not> conclusive e then Some NothingChecked
      else if r_ValidationPassed rec = Some False \<and> \<not> ev_ValidatorPassed e then Some ValidatorNotRerun
      else None)"

definition ReinstateFromQuarantine :: "'j Deps \<Rightarrow> 'j \<Rightarrow> QuarantineReinstateParams \<Rightarrow> 'j stepResult" where
  "ReinstateFromQuarantine d w p =
     (case d_Journal d of None \<Rightarrow> (Inl NeedsJournal, w)
      | Some ops \<Rightarrow>
        if qi_AttemptKey p = [] then (Inl NeedsAttemptKey, w)
        else if d_Cancelled d w then (Inl Cancelled, w)
        else (case jo_Get ops w (qi_Artifact p) of
            Inl e \<Rightarrow> (Inl (JournalError e), w)
          | Inr rec \<Rightarrow>
            let current = r_State rec; ev = qi_Evidence p in
            if \<not> IsQuarantineState current then (Inl (NotQuarantined current), w)
            else (case evidenceRefusal rec ev of
                Some gap \<Rightarrow> (Inl (InsufficientEvidence gap (summarySuffix (ev_Summary ev))), w)
              | None \<Rightarrow>
                (case reinstatementTargetForArtifact ops w (qi_Artifact p) current of
                   Inl e \<Rightarrow> (Inl (JournalError e), w)
                 | Inr None \<Rightarrow> (Inl (NeverHeldTargetState Committed), w)
                 | Inr (Some target) \<Rightarrow>
                   Advance d w
                     ((emptyTransition (qi_Artifact p) (qi_AttemptKey p @ keyQuarantineReinstateSuffix)
                         current target)
                       \<lparr>t_Detail := reinstateDetail current target (ev_Summary ev) (qi_Note p),
                        t_Validation := (if ev_ValidatorPassed ev
                          then Some \<lparr>vu_Passed = True, vu_Detail = ev_Summary ev\<rparr> else None)\<rparr>)))))"

end
