(* ===== verification/Paths.thy ===== *)
theory Paths
  imports Prelude
begin

text \<open>
  What \<open>Join\<close>, \<open>Dir\<close> and \<open>Clean\<close> do to a rooted directory and a bare file name: the last element
  of the joined path is the name, and the directory of the joined path is the cleaned directory.
\<close>

definition basename :: "string \<Rightarrow> bool" where
  "basename n = (n \<noteq> [] \<and> n \<noteq> ''.'' \<and> n \<noteq> ''..'' \<and> CHR ''/'' \<notin> set n)"

lemma splitOn_not_Nil [simp]: "splitOn c s \<noteq> []"
  by (induction s) (auto split: list.splits)

lemma splitOn_append: "splitOn c (a @ c # b) = splitOn c a @ splitOn c b"
  by (induction a) (auto split: list.splits)

lemma splitOn_single: "c \<notin> set b \<Longrightarrow> splitOn c b = [b]"
  by (induction b) auto

lemma splitOn_elems: "e \<in> set (splitOn c s) \<Longrightarrow> c \<notin> set e"
  by (induction s arbitrary: e) (auto split: list.splits if_splits)

lemma splitOn_join:
  "es \<noteq> [] \<Longrightarrow> \<forall>e \<in> set es. c \<notin> set e \<Longrightarrow> splitOn c (joinStrings [c] es) = es"
proof (induction es rule: induct_list012)
  case (3 e f es)
  then show ?case by (simp add: splitOn_append splitOn_single)
qed (simp_all add: splitOn_single)

lemma cleanElems_join_name:
  assumes "root \<noteq> []" "basename n"
  shows "cleanElems (root @ CHR ''/'' # n) = cleanElems root @ [n]"
proof -
  have "isAbs (root @ CHR ''/'' # n) = isAbs root" using assms(1) by (cases root) (simp_all add: isAbs_def)
  moreover have "splitOn (CHR ''/'') n = [n]" using assms(2) by (simp add: basename_def splitOn_single)
  ultimately show ?thesis using assms(2)
    by (simp add: cleanElems_def splitOn_append basename_def)
qed

lemma rooted_fold:
  "\<forall>a \<in> set acc. basename a \<Longrightarrow> \<forall>e \<in> set es. CHR ''/'' \<notin> set e \<Longrightarrow>
     \<forall>a \<in> set (foldl (cleanStep True) acc es). basename a"
proof (induction es arbitrary: acc)
  case (Cons e es)
  have "\<forall>a \<in> set (cleanStep True acc e). basename a"
    using Cons.prems by (cases acc) (auto simp: basename_def)
  then show ?case using Cons.IH Cons.prems(2) by simp
qed simp

lemma cleanElems_basenames: "isAbs p \<Longrightarrow> e \<in> set (cleanElems p) \<Longrightarrow> basename e"
  using rooted_fold[of "[]" "splitOn (CHR ''/'') p"] splitOn_elems by (auto simp: cleanElems_def)

lemma fold_basenames:
  "\<forall>e \<in> set es. basename e \<Longrightarrow> foldl (cleanStep r) acc es = rev es @ acc"
  by (induction es arbitrary: acc) (auto simp: basename_def)

lemma cleanElems_rooted:
  assumes "\<forall>e \<in> set es. basename e"
  shows "cleanElems (CHR ''/'' # joinStrings ''/'' es) = es"
proof (cases "es = []")
  case False
  have "splitOn (CHR ''/'') (CHR ''/'' # joinStrings ''/'' es) = [] # es"
    using splitOn_join[OF False] assms by (simp add: basename_def)
  with assms show ?thesis by (simp add: cleanElems_def isAbs_def fold_basenames)
qed (simp add: cleanElems_def)

lemma pathClean_abs: "isAbs p \<Longrightarrow> pathClean p = CHR ''/'' # joinStrings ''/'' (cleanElems p)"
  by (simp add: pathClean_def)

lemma cleanElems_clean: "isAbs p \<Longrightarrow> cleanElems (pathClean p) = cleanElems p"
  by (simp add: pathClean_abs cleanElems_rooted cleanElems_basenames)

lemma pathClean_idem: "isAbs p \<Longrightarrow> pathClean (pathClean p) = pathClean p"
  using cleanElems_clean[of p] by (simp add: pathClean_def[of p] pathClean_def[of "CHR ''/'' # _"] isAbs_def)

lemma isAbs_Nil: "isAbs p \<Longrightarrow> p \<noteq> []"
  by (auto simp: isAbs_def)

lemma pathJoin_abs:
  "isAbs root \<Longrightarrow> basename n \<Longrightarrow> pathJoin root n = CHR ''/'' # joinStrings ''/'' (cleanElems root @ [n])"
  using cleanElems_join_name[of root n] isAbs_Nil[of root]
  by (cases root) (auto simp: pathJoin_def basename_def pathClean_def isAbs_def)

lemma cleanElems_pathJoin: "isAbs root \<Longrightarrow> basename n \<Longrightarrow> cleanElems (pathJoin root n) = cleanElems root @ [n]"
  by (simp add: pathJoin_abs cleanElems_rooted cleanElems_basenames)

lemma pathJoin_inj:
  assumes "isAbs root" "basename n" "basename m" "pathJoin root n = pathJoin root m"
  shows "n = m"
proof -
  have "cleanElems root @ [n] = cleanElems root @ [m]"
    using cleanElems_pathJoin[OF assms(1,2)] cleanElems_pathJoin[OF assms(1,3)] unfolding assms(4) by (metis)
  then show ?thesis unfolding append_same_eq same_append_eq by (rule list.inject[THEN iffD1, THEN conjunct1])
qed

lemma joinStrings_snoc: "es \<noteq> [] \<Longrightarrow> joinStrings s (es @ [n]) = joinStrings s es @ s @ n"
proof (induction es rule: induct_list012)
  case (3 e f es)
  then show ?case by simp
qed simp_all

lemma dirPart:
  assumes "CHR ''/'' \<notin> set n"
  shows "rev (dropWhile (\<lambda>c. c \<noteq> CHR ''/'') (rev (p @ CHR ''/'' # n))) = p @ ''/''"
proof -
  have "dropWhile (\<lambda>c. c \<noteq> CHR ''/'') (rev n @ CHR ''/'' # rev p) = CHR ''/'' # rev p"
    by (subst dropWhile_append2) (use assms in auto)
  then show ?thesis by simp
qed

lemma pathDir_pathJoin:
  assumes "isAbs root" "basename n"
  shows "pathDir (pathJoin root n) = pathClean root"
proof -
  let ?es = "cleanElems root"
  let ?p = "if ?es = [] then [] else CHR ''/'' # joinStrings ''/'' ?es"
  have n: "CHR ''/'' \<notin> set n" using assms(2) by (simp add: basename_def)
  have j: "pathJoin root n = ?p @ CHR ''/'' # n" using assms by (simp add: pathJoin_abs joinStrings_snoc)
  have "pathDir (pathJoin root n) = pathClean (?p @ ''/'')" unfolding pathDir_def j dirPart[OF n] ..
  also have "\<dots> = CHR ''/'' # joinStrings ''/'' ?es"
  proof (cases "?es = []")
    case False
    have "cleanElems ((CHR ''/'' # joinStrings ''/'' ?es) @ ''/'') = cleanElems (CHR ''/'' # joinStrings ''/'' ?es)"
      using splitOn_append[of "CHR ''/''" "CHR ''/'' # joinStrings ''/'' ?es" "[]"]
      by (simp add: cleanElems_def isAbs_def)
    then have "cleanElems ((CHR ''/'' # joinStrings ''/'' ?es) @ ''/'') = ?es"
      using cleanElems_rooted[of ?es] cleanElems_basenames[OF assms(1)] by simp
    with False show ?thesis by (simp add: pathClean_def isAbs_def)
  qed (simp add: pathClean_def cleanElems_def isAbs_def)
  also have "\<dots> = pathClean root" using assms(1) by (simp add: pathClean_abs)
  finally show ?thesis .
qed

end
