(* ===== verification/Store.thy ===== *)
theory Store
  imports Ids Paths
begin

text \<open>
  The local artifact store's answer to where an artifact belongs
  (\<open>core/internal/artifactstore/local.go\<close>), which retention, the lifecycle and the move engine ask.
\<close>

datatype storeError = StoreNoRoot

definition NewLocal :: "string \<Rightarrow> storeError + string" where
  "NewLocal root = (if root = [] then Inl StoreNoRoot else Inr root)"

definition localLocator :: "string \<Rightarrow> ArtifactID \<Rightarrow> string" where
  "localLocator localDir artifact = pathJoin localDir (ar_Name artifact)"

definition Locator :: "string \<Rightarrow> ArtifactID \<Rightarrow> storeError + string" where
  "Locator root artifact = (if root = [] then Inl StoreNoRoot else Inr (localLocator root artifact))"

section \<open>What the callers share\<close>

text \<open>What they read of a configured backup set, the kinds of file a stat tells apart, and the errors of
  a call on a path, of which only \<open>fs.ErrNotExist\<close> is asked for.\<close>

record SetConfig =
  sc_ID :: BackupSetID
  sc_LocalPath :: string

datatype FileMode = ModeRegular | ModeSymlink | ModeOther

datatype pathError = NotExist | PathError string

text \<open>A store opened at a root locates every artifact by joining its name.\<close>

lemma store_locator:
  "bindE (NewLocal root) (\<lambda>store. Locator store artifact) =
     (if root = [] then Inl StoreNoRoot else Inr (pathJoin root (ar_Name artifact)))"
  by (simp add: NewLocal_def Locator_def localLocator_def)

end
