(* ===== verification/Commit.thy ===== *)
theory Commit
  imports Lifecycle Store
begin

text \<open>
  Committing a verified artifact (\<open>core/internal/lifecycle/commit.go\<close>, the names of
  \<open>transfer.go\<close>, and the recovery manifest of \<open>core/internal/recovery/manifest.go\<close>).  The file
  system is a record of calls over the same world as the journal; reading calls leave it alone.
  The rendering of a manifest by \<open>encoding/json\<close> is an argument, \<open>cf_Encode\<close>.
\<close>

section \<open>Names\<close>

definition partialSuffix :: string where "partialSuffix = ''.partial''"

definition finalPath :: "string \<Rightarrow> ArtifactID \<Rightarrow> storeError + string" where
  "finalPath localDir artifact = bindE (NewLocal localDir) (\<lambda>store. Locator store artifact)"

definition FinalArtifactPath :: "string \<Rightarrow> ArtifactID \<Rightarrow> storeError + string" where
  "FinalArtifactPath localDir artifact = finalPath localDir artifact"

definition partialPath :: "string \<Rightarrow> ArtifactID \<Rightarrow> storeError + string" where
  "partialPath localDir artifact = bindE (finalPath localDir artifact) (\<lambda>final. Inr (final @ partialSuffix))"

definition IsPartialPath :: "string \<Rightarrow> bool" where
  "IsPartialPath path = hasSuffix path partialSuffix"

section \<open>The recovery manifest\<close>

record ManifestPlacement =
  mp_Medium :: string
  mp_Location :: string
  mp_SizeBytes :: "int option"
  mp_Checksum :: string
  mp_ChecksumAlgorithm :: string
  mp_VerificationClass :: string
  mp_Status :: string

record Manifest =
  mf_FormatVersion :: int
  mf_Source :: string
  mf_BackupSet :: string
  mf_ArtifactName :: string
  mf_RemotePath :: string
  mf_ProducerTimestamp :: "instant option"
  mf_ReceivedTimestamp :: instant
  mf_RetentionTimestamp :: instant
  mf_SizeBytes :: int
  mf_Checksum :: string
  mf_ChecksumAlgorithm :: string
  mf_ValidationPassed :: "bool option"
  mf_ValidationDetail :: string
  mf_Placements :: "ManifestPlacement list"

definition CurrentFormatVersion :: int where "CurrentFormatVersion = 1"
definition manifestSuffix :: string where "manifestSuffix = ''.manifest.json''"

definition ManifestPath :: "string \<Rightarrow> string \<Rightarrow> string" where
  "ManifestPath localDir artifactName = pathJoin localDir (artifactName @ manifestSuffix)"

datatype manifestError =
    VersionNotPositive int
  | VersionTooNew int
  | NoRemotePath
  | NegativeSize int
  | NoReceivedTimestamp
  | NoRetentionTimestamp
  | ManifestSet setIDError
  | ManifestArtifact artifactIDError
  | ManifestWriteFailed string string
  | ManifestRenameFailed string string string

definition validateManifest :: "Manifest \<Rightarrow> manifestError option" where
  "validateManifest m =
     (if mf_FormatVersion m \<le> 0 then Some (VersionNotPositive (mf_FormatVersion m))
      else if mf_FormatVersion m > CurrentFormatVersion then Some (VersionTooNew (mf_FormatVersion m))
      else if mf_RemotePath m = [] then Some NoRemotePath
      else if mf_SizeBytes m < 0 then Some (NegativeSize (mf_SizeBytes m))
      else if mf_ReceivedTimestamp m = zeroTime then Some NoReceivedTimestamp
      else if mf_RetentionTimestamp m = zeroTime then Some NoRetentionTimestamp
      else case NewBackupSetID (mf_Source m) (mf_BackupSet m) of
          Inl e \<Rightarrow> Some (ManifestSet e)
        | Inr st \<Rightarrow> (case NewArtifactID st (mf_ArtifactName m) of Inl e \<Rightarrow> Some (ManifestArtifact e) | Inr _ \<Rightarrow> None))"

section \<open>The calls\<close>

text \<open>Two files are the same, for \<open>os.SameFile\<close>, when their inodes are.\<close>

record FileStat =
  fst_Size :: int
  fst_Inode :: nat

datatype linkError = LinkExists | LinkError string

record 'w CommitFS =
  cf_Stat :: "'w \<Rightarrow> string \<Rightarrow> pathError + FileStat"
  cf_SyncFile :: "'w \<Rightarrow> string \<Rightarrow> string option \<times> 'w"
  cf_Link :: "'w \<Rightarrow> string \<Rightarrow> string \<Rightarrow> linkError option \<times> 'w"
  cf_Remove :: "'w \<Rightarrow> string \<Rightarrow> pathError option \<times> 'w"
  cf_SyncDir :: "'w \<Rightarrow> string \<Rightarrow> string option \<times> 'w"
  cf_HashLocal :: "'w \<Rightarrow> string \<Rightarrow> string + (int \<times> string)"
  cf_WriteFile :: "'w \<Rightarrow> string \<Rightarrow> string \<Rightarrow> string option \<times> 'w"
  cf_Rename :: "'w \<Rightarrow> string \<Rightarrow> string \<Rightarrow> string option \<times> 'w"
  cf_Encode :: "Manifest \<Rightarrow> string"

definition WriteManifest :: "'w CommitFS \<Rightarrow> 'w \<Rightarrow> string \<Rightarrow> Manifest \<Rightarrow> manifestError option \<times> 'w" where
  "WriteManifest fs w localDir m =
     (case validateManifest m of Some e \<Rightarrow> (Some e, w)
      | None \<Rightarrow>
        let path = ManifestPath localDir (mf_ArtifactName m); tmp = path @ ''.tmp'' in
        (case cf_WriteFile fs w tmp (cf_Encode fs m) of
           (Some e, w') \<Rightarrow> (Some (ManifestWriteFailed tmp e), w')
         | (None, w') \<Rightarrow>
           (case cf_Rename fs w' tmp path of
              (Some e, w'') \<Rightarrow> (Some (ManifestRenameFailed tmp path e), w'')
            | (None, w'') \<Rightarrow> (None, w''))))"

section \<open>Moving the file to its final name\<close>

datatype fileError =
    Collision string string
  | FileMissing string string
  | SyncFailed string string
  | LinkFailed string string string
  | RemoveFailedAt string pathError
  | CheckFailed string pathError
  | DirSyncFailed string string

definition sameFile :: "FileStat \<Rightarrow> FileStat \<Rightarrow> bool" where
  "sameFile a b = (fst_Inode a = fst_Inode b)"

definition removeIfExists :: "'w CommitFS \<Rightarrow> 'w \<Rightarrow> string \<Rightarrow> pathError option \<times> 'w" where
  "removeIfExists fs w path =
     (case cf_Remove fs w path of
        (Some NotExist, w') \<Rightarrow> (None, w')
      | (r, w') \<Rightarrow> (r, w'))"

definition linkWithoutClobbering :: "'w CommitFS \<Rightarrow> 'w \<Rightarrow> string \<Rightarrow> string \<Rightarrow> fileError option \<times> 'w" where
  "linkWithoutClobbering fs w partial final =
     (case cf_Link fs w partial final of
        (None, w') \<Rightarrow> (None, w')
      | (Some (LinkError e), w') \<Rightarrow> (Some (LinkFailed partial final e), w')
      | (Some LinkExists, w') \<Rightarrow>
        (case (cf_Stat fs w' final, cf_Stat fs w' partial) of
           (Inr f, Inr p) \<Rightarrow> if sameFile f p then (None, w') else (Some (Collision partial final), w')
         | _ \<Rightarrow> (Some (Collision partial final), w')))"

text \<open>The steps after which the name is in place, and then the sync of the directory.\<close>

definition placeFile :: "'w CommitFS \<Rightarrow> 'w \<Rightarrow> string \<Rightarrow> string \<Rightarrow> fileError option \<times> 'w" where
  "placeFile fs w partial final =
     (case (cf_Stat fs w final, cf_Stat fs w partial) of
        (Inr finalInfo, Inr partialInfo) \<Rightarrow>
          if \<not> sameFile finalInfo partialInfo then (Some (Collision partial final), w)
          else (case removeIfExists fs w partial of
                  (Some e, w') \<Rightarrow> (Some (RemoveFailedAt partial e), w')
                | (None, w') \<Rightarrow> (None, w'))
      | (Inr _, Inl _) \<Rightarrow> (None, w)
      | (Inl NotExist, Inr _) \<Rightarrow>
          (case cf_SyncFile fs w partial of
             (Some e, w') \<Rightarrow> (Some (SyncFailed partial e), w')
           | (None, w') \<Rightarrow>
             (case linkWithoutClobbering fs w' partial final of
                (Some e, w'') \<Rightarrow> (Some e, w'')
              | (None, w'') \<Rightarrow>
                (case removeIfExists fs w'' partial of
                   (Some e, w3) \<Rightarrow> (Some (RemoveFailedAt partial e), w3)
                 | (None, w3) \<Rightarrow> (None, w3))))
      | (Inl NotExist, Inl NotExist) \<Rightarrow> (Some (FileMissing partial final), w)
      | (Inl (PathError e), _) \<Rightarrow> (Some (CheckFailed final (PathError e)), w)
      | (Inl NotExist, Inl e) \<Rightarrow> (Some (CheckFailed partial e), w))"

definition commitFile :: "'w CommitFS \<Rightarrow> 'w \<Rightarrow> string \<Rightarrow> string \<Rightarrow> fileError option \<times> 'w" where
  "commitFile fs w partial final =
     (case placeFile fs w partial final of
        (Some e, w') \<Rightarrow> (Some e, w')
      | (None, w') \<Rightarrow>
        (case cf_SyncDir fs w' (pathDir final) of
           (Some e, w'') \<Rightarrow> (Some (DirSyncFailed final e), w'')
         | (None, w'') \<Rightarrow> (None, w'')))"

section \<open>Measuring\<close>

record commitMeasurement =
  cm_Size :: int
  cm_Hash :: string
  cm_Alg :: string
  cm_Fault :: string

datatype measureError =
    CannotStat string pathError
  | CannotHash string int int string
  | PartialRead string int int

definition SHA256Alg :: string where "SHA256Alg = ''sha256''"

definition orNone :: "string \<Rightarrow> string" where
  "orNone s = (if s = [] then ''(none)'' else s)"

definition faultText :: "Record \<Rightarrow> string \<Rightarrow> int \<Rightarrow> int \<Rightarrow> string \<Rightarrow> string" where
  "faultText rec final reported measured digest =
     ''issue #662: the transfer of this artifact reported '' @ itoa reported @ '' bytes but the committed file at '' @
     final @ '' measures '' @ itoa measured @ ''; recorded the measurement ('' @ SHA256Alg @ '' '' @ digest @
     '') instead, and the '' @ orNone (r_LocalHashAlg rec) @ '' hash recorded at verification, '' @
     orNone (r_LocalHash rec) @ '', describes neither''"

definition measureCommitted :: "'w CommitFS \<Rightarrow> 'w \<Rightarrow> string \<Rightarrow> Record \<Rightarrow> measureError + commitMeasurement" where
  "measureCommitted fs w final rec =
     (case cf_Stat fs w final of
        Inl e \<Rightarrow> Inl (CannotStat final e)
      | Inr info \<Rightarrow>
        let m = \<lparr>cm_Size = fst_Size info, cm_Hash = r_LocalHash rec, cm_Alg = r_LocalHashAlg rec, cm_Fault = []\<rparr> in
        (case r_Transfer rec of
           None \<Rightarrow> Inr m
         | Some t \<Rightarrow>
           if tr_BytesTransferred t = fst_Size info then Inr m
           else (case cf_HashLocal fs w final of
                   Inl e \<Rightarrow> Inl (CannotHash final (tr_BytesTransferred t) (fst_Size info) e)
                 | Inr (n, digest) \<Rightarrow>
                   if n \<noteq> fst_Size info then Inl (PartialRead final n (fst_Size info))
                   else Inr (m\<lparr>cm_Hash := digest, cm_Alg := SHA256Alg,
                     cm_Fault := faultText rec final (tr_BytesTransferred t) (fst_Size info) digest\<rparr>))))"

text \<open>The code reads the transfer unconditionally; it is only called where there is one.\<close>

definition recordMeasurement :: "Record \<Rightarrow> commitMeasurement" where
  "recordMeasurement rec =
     \<lparr>cm_Size = (case r_Transfer rec of Some t \<Rightarrow> tr_BytesTransferred t | None \<Rightarrow> 0),
      cm_Hash = r_LocalHash rec, cm_Alg = r_LocalHashAlg rec, cm_Fault = []\<rparr>"

definition committedTransition :: "commitMeasurement \<Rightarrow> Transition \<Rightarrow> Record \<Rightarrow> Transition" where
  "committedTransition m t prior =
     (if cm_Fault m = [] then t
      else t\<lparr>t_Detail := cm_Fault m,
             t_Transfer := Some \<lparr>tr_BytesTransferred = cm_Size m,
               tr_Checksummed = (case r_Transfer prior of Some p \<Rightarrow> tr_Checksummed p | None \<Rightarrow> False)\<rparr>,
             t_Hashes := Some \<lparr>hu_Hash = cm_Hash m, hu_Alg = cm_Alg m\<rparr>\<rparr>)"

definition localPlacementFor :: "commitMeasurement \<Rightarrow> string \<Rightarrow> PlacementUpdate" where
  "localPlacementFor m final =
     \<lparr>pu_Medium = MediumLocal, pu_Location = final, pu_Size = Some (cm_Size m), pu_Hash = cm_Hash m,
      pu_HashAlg = cm_Alg m, pu_VerificationClass = (if cm_Hash m \<noteq> [] then VerificationContent else []),
      pu_VerifiedAt = None, pu_Status = PlacementActive\<rparr>"

definition manifestPlacements :: "Record \<Rightarrow> ManifestPlacement list" where
  "manifestPlacements rec =
     map (\<lambda>p. \<lparr>mp_Medium = p_Medium p, mp_Location = p_Location p, mp_SizeBytes = p_Size p,
       mp_Checksum = p_Hash p, mp_ChecksumAlgorithm = p_HashAlg p,
       mp_VerificationClass = p_VerificationClass p, mp_Status = p_Status p\<rparr>) (r_Placements rec)"

definition manifestOf :: "Record \<Rightarrow> commitMeasurement \<Rightarrow> Manifest" where
  "manifestOf rec measured =
     \<lparr>mf_FormatVersion = CurrentFormatVersion, mf_Source = bs_Source (ar_Set (r_Artifact rec)),
      mf_BackupSet = bs_Set (ar_Set (r_Artifact rec)), mf_ArtifactName = ar_Name (r_Artifact rec),
      mf_RemotePath = r_RemotePath rec, mf_ProducerTimestamp = rf_ModTime (r_Remote rec),
      mf_ReceivedTimestamp = r_UpdatedAt rec, mf_RetentionTimestamp = r_DiscoveredAt rec,
      mf_SizeBytes = cm_Size measured, mf_Checksum = cm_Hash measured, mf_ChecksumAlgorithm = cm_Alg measured,
      mf_ValidationPassed = r_ValidationPassed rec, mf_ValidationDetail = r_ValidationDetail rec,
      mf_Placements = manifestPlacements rec\<rparr>"

definition writeRecoveryManifest ::
  "'w CommitFS \<Rightarrow> 'w \<Rightarrow> string \<Rightarrow> Record \<Rightarrow> commitMeasurement \<Rightarrow> manifestError option \<times> 'w" where
  "writeRecoveryManifest fs w localDir rec measured = WriteManifest fs w localDir (manifestOf rec measured)"

section \<open>Commit\<close>

record CommitInput =
  ci_Artifact :: ArtifactID
  ci_LocalDir :: string
  ci_CommittingKey :: string
  ci_CommittedKey :: string

datatype commitInputError = NoArtifact | NoLocalDir | NoCommittingKey | NoCommittedKey | SameKeys

datatype commitError =
    BadInput commitInputError
  | NoPath storeError
  | StepFailed lifecycleError
  | CommittedElsewhere string string
  | Unmeasured measureError
  | ManifestFailed manifestError
  | NoLongerMatches string string
  | KeyUsedFor State
  | PathDisagrees string string
  | FileStep fileError

definition validateCommit :: "CommitInput \<Rightarrow> commitInputError option" where
  "validateCommit inp =
     (if ar_Name (ci_Artifact inp) = [] \<or> setIsZero (ar_Set (ci_Artifact inp)) then Some NoArtifact
      else if ci_LocalDir inp = [] then Some NoLocalDir
      else if ci_CommittingKey inp = [] then Some NoCommittingKey
      else if ci_CommittedKey inp = [] then Some NoCommittedKey
      else if ci_CommittingKey inp = ci_CommittedKey inp then Some SameKeys
      else None)"

text \<open>A retry that finds the artifact already committed.\<close>

definition converge ::
  "'w CommitFS \<Rightarrow> 'w \<Rightarrow> CommitInput \<Rightarrow> string \<Rightarrow> Outcome \<Rightarrow> (commitError + Outcome) \<times> 'w" where
  "converge fs w inp final committing =
     (let rec = o_Record committing in
      if r_LocalPath rec \<noteq> final then (Inl (CommittedElsewhere (r_LocalPath rec) final), w)
      else case measureCommitted fs w final rec of
          Inl e \<Rightarrow> (Inl (Unmeasured e), w)
        | Inr converged \<Rightarrow>
          if cm_Fault converged \<noteq> [] then
            (case writeRecoveryManifest fs w (ci_LocalDir inp) rec (recordMeasurement rec) of
               (Some e, w') \<Rightarrow> (Inl (ManifestFailed e), w')
             | (None, w') \<Rightarrow> (Inl (NoLongerMatches final (cm_Fault converged)), w'))
          else
            (case writeRecoveryManifest fs w (ci_LocalDir inp) rec converged of
               (Some e, w') \<Rightarrow> (Inl (ManifestFailed e), w')
             | (None, w') \<Rightarrow> (Inr committing, w')))"

text \<open>From the committing row on: the file, its measurement, the row, the manifest.\<close>

definition finishCommit ::
  "'w Deps \<Rightarrow> 'w CommitFS \<Rightarrow> 'w \<Rightarrow> CommitInput \<Rightarrow> string \<Rightarrow> string \<Rightarrow> Record \<Rightarrow> (commitError + Outcome) \<times> 'w" where
  "finishCommit d fs w inp partial final rec =
     (if r_LocalPath rec \<noteq> partial then (Inl (PathDisagrees (r_LocalPath rec) partial), w)
      else case commitFile fs w partial final of
          (Some e, w') \<Rightarrow> (Inl (FileStep e), w')
        | (None, w') \<Rightarrow>
          (case measureCommitted fs w' final rec of
             Inl e \<Rightarrow> (Inl (Unmeasured e), w')
           | Inr measured \<Rightarrow>
             (case Advance d w' (committedTransition measured
                ((emptyTransition (ci_Artifact inp) (ci_CommittedKey inp) Committing Committed)
                   \<lparr>t_LocalPath := Some final, t_Placement := Some (localPlacementFor measured final)\<rparr>) rec) of
                (Inl e, w'') \<Rightarrow> (Inl (StepFailed e), w'')
              | (Inr committed, w'') \<Rightarrow>
                (case writeRecoveryManifest fs w'' (ci_LocalDir inp) (o_Record committed) measured of
                   (Some e, w3) \<Rightarrow> (Inl (ManifestFailed e), w3)
                 | (None, w3) \<Rightarrow> (Inr committed, w3)))))"

definition Commit :: "'w Deps \<Rightarrow> 'w CommitFS \<Rightarrow> 'w \<Rightarrow> CommitInput \<Rightarrow> (commitError + Outcome) \<times> 'w" where
  "Commit d fs w inp =
     (case validateCommit inp of Some e \<Rightarrow> (Inl (BadInput e), w)
      | None \<Rightarrow>
        (case (partialPath (ci_LocalDir inp) (ci_Artifact inp), finalPath (ci_LocalDir inp) (ci_Artifact inp)) of
           (Inl e, _) \<Rightarrow> (Inl (NoPath e), w)
         | (_, Inl e) \<Rightarrow> (Inl (NoPath e), w)
         | (Inr partial, Inr final) \<Rightarrow>
           (case Advance d w (emptyTransition (ci_Artifact inp) (ci_CommittingKey inp) Verified Committing) of
              (Inl e, w') \<Rightarrow> (Inl (StepFailed e), w')
            | (Inr committing, w') \<Rightarrow>
              if o_Applied committing then finishCommit d fs w' inp partial final (o_Record committing)
              else if r_State (o_Record committing) = Committed then converge fs w' inp final committing
              else if r_State (o_Record committing) = Committing then
                finishCommit d fs w' inp partial final (o_Record committing)
              else (Inl (KeyUsedFor (r_State (o_Record committing))), w'))))"

end
