(* ===== verification/LifecycleProps.thy ===== *)
theory LifecycleProps
  imports Lifecycle
begin

text \<open>
  What the journal-only lifecycle steps guarantee.  The locale \<open>lifecycle_journal\<close> is the contract
  of the Go interface \<open>lifecycle.Journal\<close>: how reads and the one write relate to the edges on
  record.  The step lemmas are proved inside it and rest on the laws alone, so they hold of the
  SQLite journal (interpreted at the end) and of any journal that may refuse or lose a write.
\<close>

section \<open>Legal histories\<close>

definition legalEdge :: "State \<times> State \<Rightarrow> bool" where
  "legalEdge e = (if fst e = noState then snd e = Discovered else Validate (fst e) (snd e) = None)"

definition legalHist :: "(State \<times> State) list \<Rightarrow> bool" where
  "legalHist h = list_all legalEdge h"

text \<open>Between two worlds, at most one edge of the set \<open>E\<close> was appended, to the history of \<open>a\<close>.\<close>

definition stepOf ::
  "('j \<Rightarrow> ArtifactID \<Rightarrow> (State \<times> State) list) \<Rightarrow> 'j \<Rightarrow> 'j \<Rightarrow> ArtifactID \<Rightarrow> (State \<times> State) set \<Rightarrow> bool" where
  "stepOf hist w w' a E =
     (\<forall>x. hist w' x = hist w x \<or> (x = a \<and> (\<exists>e \<in> E. hist w' x = hist w x @ [e])))"

lemma stepOf_same [simp, intro]: "stepOf hist w w a E"
  by (simp add: stepOf_def)

lemma stepOf_mono: "stepOf hist w w' a E \<Longrightarrow> E \<subseteq> F \<Longrightarrow> stepOf hist w w' a F"
  by (auto simp: stepOf_def)

lemma stepOf_legal:
  "stepOf hist w w' a E \<Longrightarrow> (\<And>e. e \<in> E \<Longrightarrow> legalEdge e) \<Longrightarrow> legalHist (hist w x) \<Longrightarrow> legalHist (hist w' x)"
  by (auto simp: stepOf_def legalHist_def list_all_iff) (metis Un_iff insertE list.simps(15) empty_iff list.set(1) set_append)

text \<open>In a legal chained history the durable commit precedes the intent to delete.\<close>

lemma legal_origin:
  assumes "chained s h" "legalHist h" "t \<in> set (map snd h)" "s \<noteq> t" "t \<noteq> Discovered"
  shows "\<exists>p \<in> insert s (set (map snd h)). p \<noteq> t \<and> Validate p t = None"
  using assms
proof (induction s h rule: chained.induct)
  case (2 s f t' es)
  then have f: "f = s" and l: "legalEdge (f, t')" by (auto simp: legalHist_def)
  show ?case
  proof (cases "t' = t")
    case True
    with l f 2 have "Validate s t = None" by (auto simp: legalEdge_def split: if_splits)
    with 2 show ?thesis by auto
  next
    case False
    with 2 show ?thesis by (auto simp: legalHist_def)
  qed
qed simp

lemma legal_commit_before_delete:
  assumes "chained noState h" "legalHist h"
    "RemoteDeletePending \<in> set (map snd h) \<or> Complete \<in> set (map snd h) \<or> QuarantinedLost \<in> set (map snd h)"
  shows "Committed \<in> set (map snd h)"
proof -
  have main: "Committed \<in> set (map snd h)"
    if "chained s h" "legalHist h" "s \<notin> {Committed, RemoteDeletePending, Complete, QuarantinedLost}"
      "\<exists>t \<in> set (map snd h). t \<in> {RemoteDeletePending, Complete, QuarantinedLost}" for s h
    using that
  proof (induction s h rule: chained.induct)
    case (2 s f t es)
    from 2 have f: "f = s" and l: "legalEdge (f, t)" by (auto simp: legalHist_def)
    have t: "t = Committed \<or> t \<notin> {Committed, RemoteDeletePending, Complete, QuarantinedLost}"
      using l f 2(4) by (auto simp: legalEdge_def Validate_None_iff Transitions_def split: if_splits)
    with 2 show ?case by (auto simp: legalHist_def)
  qed simp
  have "\<exists>t \<in> set (map snd h). t \<in> {RemoteDeletePending, Complete, QuarantinedLost}"
    using assms(3) by blast
  from main[OF assms(1,2) _ this] show ?thesis by simp
qed

lemma legal_reaches:
  assumes "chained s h" "legalHist h" "s = noState \<or> reaches Discovered s" "h \<noteq> []"
  shows "reaches Discovered (endState s h)"
  using assms
proof (induction s h rule: chained.induct)
  case (2 s f t es)
  have "reaches Discovered t"
    using 2(2-4) reaches.here[of Discovered] reaches.move[of Discovered s t]
    by (auto simp: legalHist_def legalEdge_def split: if_splits)
  with 2 show ?case by (cases es) (auto simp: endState_def legalHist_def)
qed simp

section \<open>The contract of the journal interface\<close>

locale lifecycle_journal =
  fixes ops :: "'j JournalOps"
    and inv :: "'j \<Rightarrow> bool"
    and hist :: "'j \<Rightarrow> ArtifactID \<Rightarrow> (State \<times> State) list"
  assumes get_state: "inv w \<Longrightarrow> jo_Get ops w a = Inr rec \<Longrightarrow>
      r_Artifact rec = a \<and> hist w a \<noteq> [] \<and> r_State rec = endState noState (hist w a)"
    and chain: "inv w \<Longrightarrow> chained noState (hist w a)"
    and record_inv: "inv w \<Longrightarrow> jo_RecordTransition ops w t = (res, w') \<Longrightarrow> inv w'"
    and record_hist: "inv w \<Longrightarrow> jo_RecordTransition ops w t = (res, w') \<Longrightarrow>
      stepOf hist w w' (t_Artifact t) {(t_From t, t_To t)}"
    and record_ok: "inv w \<Longrightarrow> jo_RecordTransition ops w t = (Inr out, w') \<Longrightarrow>
      t_To t \<in> set (map snd (hist w' (t_Artifact t)))"
    and last_none: "inv w \<Longrightarrow> jo_LastTransition ops w a f g = Inr None \<Longrightarrow> (f, g) \<notin> set (hist w a)"
    and last_some: "inv w \<Longrightarrow> jo_LastTransition ops w a f g = Inr (Some at) \<Longrightarrow> (f, g) \<in> set (hist w a)"
begin

definition usedBy :: "'j Deps \<Rightarrow> bool" where
  "usedBy d = (d_Journal d = Some ops)"

lemma Advance_step:
  assumes "inv w" "usedBy d" "t_From t \<noteq> noState" "Advance d w t = (res, w')"
  shows "inv w' \<and> stepOf hist w w' (t_Artifact t) ({(t_From t, t_To t)} \<inter> Collect legalEdge)
    \<and> (isOk res \<longrightarrow> t_To t \<in> set (map snd (hist w' (t_Artifact t))))"
proof (cases "Validate (t_From t) (t_To t)")
  case None
  let ?t = "if t_OccurredAt t = zeroTime then t\<lparr>t_OccurredAt := d_Now d w\<rparr> else t"
  obtain r where r: "jo_RecordTransition ops w ?t = (r, w')" "res = mapErr JournalError r"
    using assms None by (auto simp: Advance_def usedBy_def Let_def split: prod.splits)
  have sel: "t_From ?t = t_From t" "t_To ?t = t_To t" "t_Artifact ?t = t_Artifact t" by simp_all
  have legal: "legalEdge (t_From t, t_To t)" using None assms(3) by (simp add: legalEdge_def)
  have "isOk res \<longrightarrow> t_To t \<in> set (map snd (hist w' (t_Artifact t)))"
  proof (cases r)
    case (Inr out)
    with record_ok[OF assms(1), of ?t out w'] r sel show ?thesis by simp
  qed (use r in simp)
  with record_inv[OF assms(1) r(1)] record_hist[OF assms(1) r(1)] legal sel show ?thesis
    by (simp add: Int_absorb2)
next
  case (Some e)
  with assms show ?thesis by (auto simp: Advance_def usedBy_def)
qed

text \<open>Every step that reads the row and then advances it: a refusal leaves the world alone.\<close>

lemma RetainRemote_step:
  assumes "inv w" "usedBy d" "RetainRemote d w req = (res, w')"
  shows "inv w' \<and> stepOf hist w w' (rq_Artifact req)
      ({(Committed, RemoteRetained), (RemoteDeletePending, RemoteRetained), (RemoteRetained, RemoteRetained)}
        \<inter> Collect legalEdge)"
proof -
  let ?t = "\<lambda>st. (emptyTransition (rq_Artifact req) (rq_AttemptKey req) st RemoteRetained)\<lparr>t_Detail := retainDetail\<rparr>"
  from assms(2,3) consider "w' = w"
    | st where "st \<in> {Committed, RemoteDeletePending, RemoteRetained}" "Advance d w (?t st) = (res, w')"
    by (auto simp: RetainRemote_def usedBy_def split: if_splits sum.splits)
  then show ?thesis
  proof cases
    case 2
    then have "t_From (?t st) \<noteq> noState" by auto
    from Advance_step[OF assms(1,2) this 2(2)] 2(1) show ?thesis
      by (auto elim!: stepOf_mono)
  qed (use assms in auto)
qed

lemma ReleaseFromRetention_step:
  assumes "inv w" "usedBy d" "ReleaseFromRetention d w req = (res, w')"
  shows "inv w' \<and> stepOf hist w w' (rl_Artifact req) ({(RemoteRetained, Committed)} \<inter> Collect legalEdge)"
proof -
  let ?t = "(emptyTransition (rl_Artifact req) (rl_AttemptKey req) RemoteRetained Committed)
              \<lparr>t_Detail := releaseRetentionDetail (rl_Note req)\<rparr>"
  from assms(2,3) consider "w' = w" | "Advance d w ?t = (res, w')"
    by (auto simp: ReleaseFromRetention_def usedBy_def split: if_splits sum.splits)
  then show ?thesis
    using assms(1) Advance_step[OF assms(1,2), of ?t res w'] by cases simp_all
qed

lemma RetryFailed_step:
  assumes "inv w" "usedBy d" "RetryFailed d w p = (res, w')"
  shows "inv w' \<and> stepOf hist w w' (rp_Artifact p) ({(Failed, Discovered)} \<inter> Collect legalEdge)"
proof -
  let ?t = "\<lambda>rec :: Record. (emptyTransition (rp_Artifact p) (rp_AttemptKey p @ keyRetryFailedSuffix) Failed Discovered)
      \<lparr>t_Detail := retryDetail (r_RetryCount rec + 1) (rp_Note p),
       t_Retry := Some \<lparr>ru_Count = r_RetryCount rec + 1, ru_LastError = rp_RecoveringFrom p, ru_NextAttempt = None\<rparr>\<rparr>"
  from assms(2,3) consider "w' = w" | rec where "Advance d w (?t rec) = (res, w')"
    by (auto simp: RetryFailed_def usedBy_def split: if_splits sum.splits)
  then show ?thesis
    using assms(1) Advance_step[OF assms(1,2), of "?t _" res w'] by cases simp_all
qed

lemma ReleaseFromQuarantine_step:
  assumes "inv w" "usedBy d" "ReleaseFromQuarantine d w p = (res, w')"
  shows "inv w' \<and> stepOf hist w w' (qr_Artifact p) ({(Quarantined, Discovered)} \<inter> Collect legalEdge)"
proof -
  let ?t = "\<lambda>rec :: Record. (emptyTransition (qr_Artifact p) (qr_AttemptKey p @ keyQuarantineReleaseSuffix) Quarantined Discovered)
      \<lparr>t_Detail := releaseDetail (r_RetryCount rec + 1) (qr_Note p),
       t_Retry := Some \<lparr>ru_Count = r_RetryCount rec + 1, ru_LastError = QuarantineReason rec, ru_NextAttempt = None\<rparr>\<rparr>"
  from assms(2,3) consider "w' = w" | rec where "Advance d w (?t rec) = (res, w')"
    by (auto simp: ReleaseFromQuarantine_def usedBy_def split: if_splits sum.splits)
  then show ?thesis
    using assms(1) Advance_step[OF assms(1,2), of "?t _" res w'] by cases simp_all
qed

lemma resolveOrigin_sound:
  assumes "inv w" "resolveOrigin ops w a os best = Inr (Some (target, at))"
  shows "best = Some (target, at) \<or> (\<exists>from. (from, target) \<in> set os \<and> (from, Quarantined) \<in> set (hist w a))"
  using assms(2)
proof (induction os arbitrary: best)
  case (Cons o1 os)
  obtain from1 target1 where o1: "o1 = (from1, target1)" by fastforce
  from Cons.prems obtain found where f: "jo_LastTransition ops w a from1 Quarantined = Inr found"
    by (auto simp: o1 bindE_Inr_iff)
  with Cons.prems show ?case
    by (cases found; cases best) (auto simp: o1 dest!: Cons.IH dest: last_some[OF assms(1)] split: if_splits)
qed simp

lemma resolveOrigin_none:
  assumes "inv w" "resolveOrigin ops w a os best = Inr None"
  shows "best = None \<and> (\<forall>from target. (from, target) \<in> set os \<longrightarrow> (from, Quarantined) \<notin> set (hist w a))"
  using assms(2)
proof (induction os arbitrary: best)
  case (Cons o1 os)
  obtain from1 target1 where o1: "o1 = (from1, target1)" by fastforce
  from Cons.prems obtain found where f: "jo_LastTransition ops w a from1 Quarantined = Inr found"
    by (auto simp: o1 bindE_Inr_iff)
  with Cons.prems show ?case
    by (cases found; cases best) (auto simp: o1 dest!: Cons.IH dest: last_none[OF assms(1)] split: if_splits)
qed simp

lemma target_sound:
  assumes "inv w" "reinstatementTargetForArtifact ops w a current = Inr (Some target)" "IsQuarantineState current"
  shows "(current, target) \<in> set reinstatementEdges \<and>
    (current = Quarantined \<longrightarrow> (\<exists>from. (from, target) \<in> set quarantineOrigins \<and> (from, Quarantined) \<in> set (hist w a)))"
proof (cases "current = QuarantinedLost")
  case True
  with assms(2) show ?thesis by (simp add: reinstatementTargetForArtifact_def reinstatementEdges_eq)
next
  case False
  with assms(2) obtain at where "resolveOrigin ops w a quarantineOrigins None = Inr (Some (target, at))"
    by (auto simp: reinstatementTargetForArtifact_def bindE_Inr_iff)
  from resolveOrigin_sound[OF assms(1) this] obtain fr where
    "(fr, target) \<in> set quarantineOrigins" "(fr, Quarantined) \<in> set (hist w a)" by auto
  with False assms(3) show ?thesis by (auto simp: quarantineOrigins_def reinstatementEdges_eq)
qed

lemma ReinstateFromQuarantine_cases:
  assumes "inv w" "usedBy d" "ReinstateFromQuarantine d w p = (res, w')"
  shows "w' = w \<and> isl res \<or>
    (\<exists>current target. current = endState noState (hist w (qi_Artifact p)) \<and>
       (current, target) \<in> set reinstatementEdges \<and>
       (current = Quarantined \<longrightarrow> (\<exists>fr. (fr, target) \<in> set quarantineOrigins \<and> (fr, Quarantined) \<in> set (hist w (qi_Artifact p)))) \<and>
       inv w' \<and> stepOf hist w w' (qi_Artifact p) ({(current, target)} \<inter> Collect legalEdge) \<and>
       \<not> ev_AnyCheckFailed (qi_Evidence p) \<and> conclusive (qi_Evidence p))"
proof -
  let ?ev = "qi_Evidence p"
  let ?t = "\<lambda>(rec :: Record) target. (emptyTransition (qi_Artifact p) (qi_AttemptKey p @ keyQuarantineReinstateSuffix) (r_State rec) target)
      \<lparr>t_Detail := reinstateDetail (r_State rec) target (ev_Summary ?ev) (qi_Note p),
       t_Validation := (if ev_ValidatorPassed ?ev then Some \<lparr>vu_Passed = True, vu_Detail = ev_Summary ?ev\<rparr> else None)\<rparr>"
  from assms(2,3) consider "w' = w" "isl res"
    | rec target where "jo_Get ops w (qi_Artifact p) = Inr rec" "IsQuarantineState (r_State rec)"
        "evidenceRefusal rec ?ev = None"
        "reinstatementTargetForArtifact ops w (qi_Artifact p) (r_State rec) = Inr (Some target)"
        "Advance d w (?t rec target) = (res, w')"
    by (auto simp: ReinstateFromQuarantine_def usedBy_def Let_def simp del: IsQuarantineState_iff
        split: if_splits sum.splits option.splits)
  then show ?thesis
  proof cases
    case (2 rec target)
    note e = target_sound[OF assms(1) 2(4,2)]
    have "t_From (?t rec target) \<noteq> noState" using 2(2) by auto
    note st = Advance_step[OF assms(1,2) this 2(5)]
    have cur: "r_State rec = endState noState (hist w (qi_Artifact p))"
      using get_state[OF assms(1) 2(1)] by simp
    have ev: "\<not> ev_AnyCheckFailed ?ev \<and> conclusive ?ev"
      using 2(3) by (auto simp: evidenceRefusal_def split: if_splits)
    show ?thesis
      by (rule disjI2, rule exI[of _ "r_State rec"], rule exI[of _ target])
        (use e st cur ev in simp)
  qed simp
qed

lemma ReinstateFromQuarantine_step:
  assumes "inv w" "usedBy d" "ReinstateFromQuarantine d w p = (res, w')"
  shows "inv w' \<and> stepOf hist w w' (qi_Artifact p) (set reinstatementEdges \<inter> Collect legalEdge)"
  using ReinstateFromQuarantine_cases[OF assms] assms(1) by (auto elim!: stepOf_mono)

end

section \<open>The SQLite journal meets the contract\<close>

interpretation sql: lifecycle_journal sqlJournal wfJournal history
proof unfold_locales
  fix w a rec assume "wfJournal w" "jo_Get sqlJournal w a = Inr rec"
  then show "r_Artifact rec = a \<and> history w a \<noteq> [] \<and> r_State rec = endState noState (history w a)"
    using Get_Inr by (simp add: sqlJournal_def)
next
  fix w a assume "wfJournal w" then show "chained noState (history w a)" by (rule wf_chained)
next
  fix w t res w' assume "wfJournal w" "jo_RecordTransition sqlJournal w t = (res, w')"
  then have "wfJournal w'" "\<forall>a. history w' a = history w a @ (if applied res \<and> a = t_Artifact t then [(t_From t, t_To t)] else [])"
    using record_transition_facts by (auto simp: sqlJournal_def)
  then show "wfJournal w'" "stepOf history w w' (t_Artifact t) {(t_From t, t_To t)}"
    by (auto simp: stepOf_def)
next
  fix w t out w' assume "wfJournal w" "jo_RecordTransition sqlJournal w t = (Inr out, w')"
  then show "t_To t \<in> set (map snd (history w' (t_Artifact t)))"
    using RecordTransition_entered by (simp add: sqlJournal_def)
next
  fix w a f t assume "jo_LastTransition sqlJournal w a f t = Inr None"
  then show "(f, t) \<notin> set (history w a)"
    by (simp add: sqlJournal_def LastTransition_None_iff history_eq_map edge_def[abs_def])
next
  fix w a f t at assume "jo_LastTransition sqlJournal w a f t = Inr (Some at)"
  then show "(f, t) \<in> set (history w a)"
    using LastTransition_None_iff[of w a f t] by (simp add: sqlJournal_def history_eq_map edge_def[abs_def])
qed

section \<open>Runs\<close>

text \<open>Every journal the lifecycle can produce: discoveries, the five operator and policy steps, and
  any other step, all of which write through \<open>Advance\<close> from a named state.\<close>

inductive lifecycleRun :: "JournalDB Deps \<Rightarrow> JournalDB \<Rightarrow> bool" for d where
  start: "lifecycleRun d (emptyJournal red)"
| discover: "lifecycleRun d j \<Longrightarrow> lifecycleRun d (snd (Discover j a key path facts at))"
| advance: "lifecycleRun d j \<Longrightarrow> t_From t \<noteq> noState \<Longrightarrow> lifecycleRun d (snd (Advance d j t))"
| retain: "lifecycleRun d j \<Longrightarrow> lifecycleRun d (snd (RetainRemote d j rq))"
| releaseRetained: "lifecycleRun d j \<Longrightarrow> lifecycleRun d (snd (ReleaseFromRetention d j rl))"
| retry: "lifecycleRun d j \<Longrightarrow> lifecycleRun d (snd (RetryFailed d j rp))"
| releaseQuarantined: "lifecycleRun d j \<Longrightarrow> lifecycleRun d (snd (ReleaseFromQuarantine d j qr))"
| reinstate: "lifecycleRun d j \<Longrightarrow> lifecycleRun d (snd (ReinstateFromQuarantine d j qi))"

lemma Discover_step:
  assumes "wfJournal j" "Discover j a key path facts at = (res, j')"
  shows "wfJournal j' \<and> stepOf history j j' a {(noState, Discovered)}"
  using record_transition_facts[OF assms(1), of _ res j'] assms(2)
  by (auto simp: Discover_def stepOf_def split: if_splits)

lemma lifecycleRun_inv:
  assumes "lifecycleRun d j" "sql.usedBy d"
  shows "wfJournal j \<and> (\<forall>a. legalHist (history j a))"
  using assms(1)
proof (induction rule: lifecycleRun.induct)
  case (start red)
  show ?case by (simp add: history_def findArtifact_def emptyJournal_def legalHist_def wfJournal_def)
next
  case (discover j a key path facts at)
  then have "wfJournal (snd (Discover j a key path facts at))
     \<and> stepOf history j (snd (Discover j a key path facts at)) a {(noState, Discovered)}"
    using Discover_step[OF _ surjective_pairing] by blast
  with discover.IH show ?case by (auto simp: legalEdge_def intro: stepOf_legal)
next
  case (advance j t)
  then show ?case
    using sql.Advance_step[OF _ assms(2) advance.hyps(2) surjective_pairing, of j]
    by (auto intro: stepOf_legal)
next
  case (retain j rq)
  then show ?case
    using sql.RetainRemote_step[OF _ assms(2) surjective_pairing, of j rq] by (auto intro: stepOf_legal)
next
  case (releaseRetained j rl)
  then show ?case
    using sql.ReleaseFromRetention_step[OF _ assms(2) surjective_pairing, of j rl] by (auto intro: stepOf_legal)
next
  case (retry j rp)
  then show ?case
    using sql.RetryFailed_step[OF _ assms(2) surjective_pairing, of j rp] by (auto intro: stepOf_legal)
next
  case (releaseQuarantined j qr)
  then show ?case
    using sql.ReleaseFromQuarantine_step[OF _ assms(2) surjective_pairing, of j qr] by (auto intro: stepOf_legal)
next
  case (reinstate j qi)
  then show ?case
    using sql.ReinstateFromQuarantine_step[OF _ assms(2) surjective_pairing, of j qi] by (auto intro: stepOf_legal)
qed

lemma chained_first_entry:
  "chained s h \<Longrightarrow> t \<in> set (map snd h) \<Longrightarrow> s \<noteq> t \<Longrightarrow> \<exists>f. (f, t) \<in> set h \<and> f \<noteq> t"
proof (induction s h rule: chained.induct)
  case (2 s f u es)
  then show ?case by (cases "u = t") auto
qed simp

lemma LastEnteredAt_None_iff:
  "LastEnteredAt j a st = None \<longleftrightarrow> (\<forall>f. (f, st) \<in> set (history j a) \<longrightarrow> f = st)"
  by (auto simp: LastEnteredAt_def newestRow_None_iff history_eq_map edge_def)

lemma entered_LastEnteredAt:
  "wfJournal j \<Longrightarrow> t \<in> set (map snd (history j a)) \<Longrightarrow> t \<noteq> noState \<Longrightarrow> LastEnteredAt j a t \<noteq> None"
  using chained_first_entry[OF wf_chained, of j t a] by (auto simp: LastEnteredAt_None_iff)

lemma endState_in: "h \<noteq> [] \<Longrightarrow> endState s h \<in> set (map snd h)"
  by (simp add: endState_def)

text \<open>C13: in every journal the lifecycle can produce, an artifact whose row reads
  REMOTE_DELETE_PENDING, COMPLETE or QUARANTINED_LOST has its durable commit on record: the
  append-only log says when it entered COMMITTED.\<close>

theorem commit_recorded_before_delete:
  assumes "d_Journal d = Some sqlJournal" "lifecycleRun d j" "Get j a = Inr rec"
    and "r_State rec \<in> {RemoteDeletePending, Complete, QuarantinedLost}"
  shows "LastEnteredAt j a Committed \<noteq> None"
proof -
  note i = lifecycleRun_inv[OF assms(2)]
  have inv: "wfJournal j" "legalHist (history j a)" using i assms(1) by (auto simp: sql.usedBy_def)
  have g: "history j a \<noteq> []" "r_State rec = endState noState (history j a)"
    using Get_Inr[OF inv(1) assms(3)] by auto
  have "r_State rec \<in> set (map snd (history j a))" unfolding g(2) by (rule endState_in[OF g(1)])
  with assms(4) have "RemoteDeletePending \<in> set (map snd (history j a)) \<or> Complete \<in> set (map snd (history j a))
      \<or> QuarantinedLost \<in> set (map snd (history j a))" by (metis empty_iff insert_iff)
  then have "Committed \<in> set (map snd (history j a))"
    by (rule legal_commit_before_delete[OF wf_chained[OF inv(1)] inv(2)])
  then show ?thesis using entered_LastEnteredAt[OF inv(1)] by blast
qed

text \<open>The row an artifact has in any journal the lifecycle can produce is a state the machine
  reaches from DISCOVERED by legal moves.\<close>

theorem journal_state_reachable:
  assumes "d_Journal d = Some sqlJournal" "lifecycleRun d j" "Get j a = Inr rec"
  shows "reaches Discovered (r_State rec)"
proof -
  have inv: "wfJournal j" "legalHist (history j a)"
    using lifecycleRun_inv[OF assms(2)] assms(1) by (auto simp: sql.usedBy_def)
  with Get_Inr[OF inv(1) assms(3)] legal_reaches[OF wf_chained[OF inv(1)] inv(2)] show ?thesis by simp
qed

lemma chained_from: "chained s h \<Longrightarrow> (f, t) \<in> set h \<Longrightarrow> f = s \<or> f \<in> set (map snd h)"
  by (induction s h rule: chained.induct) auto

text \<open>C25: a reinstatement writes only on evidence: if it adds to the artifact's history, then no check
  failed, a check that could have failed on content passed, exactly one reinstatement edge was
  appended, and the state it returns the artifact to is one its log says it already held.  A
  refusal leaves the journal as it was.\<close>

theorem reinstatement_is_earned:
  assumes "d_Journal d = Some sqlJournal" "lifecycleRun d j"
    and "ReinstateFromQuarantine d j p = (res, j')"
    and "history j' (qi_Artifact p) \<noteq> history j (qi_Artifact p)"
  shows "\<not> ev_AnyCheckFailed (qi_Evidence p) \<and> conclusive (qi_Evidence p) \<and>
    (\<exists>e \<in> set reinstatementEdges. history j' (qi_Artifact p) = history j (qi_Artifact p) @ [e]
       \<and> LastEnteredAt j (qi_Artifact p) (snd e) \<noteq> None)"
proof -
  let ?h = "history j (qi_Artifact p)"
  have inv: "wfJournal j" "legalHist ?h" "sql.usedBy d"
    using lifecycleRun_inv[OF assms(2)] assms(1) by (auto simp: sql.usedBy_def)
  note ch = wf_chained[OF inv(1), of "qi_Artifact p"]
  from sql.ReinstateFromQuarantine_cases[OF inv(1,3) assms(3)] assms(4) obtain target where
    t: "(endState noState ?h, target) \<in> set reinstatementEdges"
    and fr: "endState noState ?h = Quarantined \<longrightarrow>
       (\<exists>fr. (fr, target) \<in> set quarantineOrigins \<and> (fr, Quarantined) \<in> set ?h)"
    and st: "stepOf history j j' (qi_Artifact p) ({(endState noState ?h, target)} \<inter> Collect legalEdge)"
    and ev: "\<not> ev_AnyCheckFailed (qi_Evidence p)" "conclusive (qi_Evidence p)"
    by auto
  from st assms(4) have app: "history j' (qi_Artifact p) = ?h @ [(endState noState ?h, target)]"
    by (auto simp: stepOf_def)
  have "target \<in> set (map snd ?h)"
  proof (cases "endState noState ?h = QuarantinedLost")
    case True
    then have "QuarantinedLost \<in> set (map snd ?h)"
      using endState_in[of ?h noState] by (cases "?h = []") (auto simp: endState_def)
    from legal_origin[OF ch inv(2) this] obtain q where
      "q \<in> insert noState (set (map snd ?h))" "q \<noteq> QuarantinedLost" "Validate q QuarantinedLost = None" by auto
    moreover from this have "q = Complete" using Validate_to_QuarantinedLost by blast
    ultimately have "Complete \<in> set (map snd ?h)" by simp
    with t True show ?thesis by (auto simp: reinstatementEdges_eq)
  next
    case False
    with t have "endState noState ?h = Quarantined" by (auto simp: reinstatementEdges_eq)
    with fr obtain f where f: "(f, target) \<in> set quarantineOrigins" "(f, Quarantined) \<in> set ?h" by blast
    then have "f \<in> set (map snd ?h)"
      using chained_from[OF ch f(2)] by (auto simp: quarantineOrigins_def)
    moreover have "f = target \<or> (f = RemoteDeletePending \<and> target = Committed)"
      using f(1) by (auto simp: quarantineOrigins_def)
    ultimately show ?thesis using legal_commit_before_delete[OF ch inv(2)] by metis
  qed
  then have "LastEnteredAt j (qi_Artifact p) target \<noteq> None"
    using t by (intro entered_LastEnteredAt[OF inv(1)]) (auto simp: reinstatementEdges_eq)
  with t app ev show ?thesis by fastforce
qed

section \<open>Concrete runs\<close>

definition exampleID :: ArtifactID where
  "exampleID = \<lparr>ar_Set = \<lparr>bs_Source = ''prod'', bs_Set = ''pg''\<rparr>, ar_Name = ''d.dump''\<rparr>"

definition exampleDeps :: "JournalDB Deps" where
  "exampleDeps = \<lparr>d_Journal = Some sqlJournal, d_Now = (\<lambda>j. int (length (j_log j)) + 2), d_Cancelled = (\<lambda>_. False)\<rparr>"

text \<open>The journal after a discovery and a list of moves, each under its own key.\<close>

definition exampleMove :: "nat \<Rightarrow> State \<times> State \<Rightarrow> Transition" where
  "exampleMove n e = emptyTransition exampleID (''k'' @ itoa (int n)) (fst e) (snd e)"

definition exampleStart :: JournalDB where
  "exampleStart = snd (Discover (emptyJournal id) exampleID ''d'' ''/d.dump'' emptyRemote 1)"

fun exampleRun :: "nat \<Rightarrow> (State \<times> State) list \<Rightarrow> JournalDB \<Rightarrow> JournalDB" where
  "exampleRun n [] j = j"
| "exampleRun n (e # es) j = exampleRun (n + 1) es (snd (Advance exampleDeps j (exampleMove n e)))"

lemma exampleRun_run:
  "lifecycleRun exampleDeps j \<Longrightarrow> \<forall>e \<in> set es. fst e \<noteq> noState \<Longrightarrow> lifecycleRun exampleDeps (exampleRun n es j)"
proof (induction n es j rule: exampleRun.induct)
  case (2 n e es j)
  have "lifecycleRun exampleDeps (snd (Advance exampleDeps j (exampleMove n e)))"
    by (rule lifecycleRun.advance) (use 2 in \<open>auto simp: exampleMove_def\<close>)
  with 2 show ?case by simp
qed simp

lemma exampleStart_run: "lifecycleRun exampleDeps exampleStart"
  unfolding exampleStart_def by (rule lifecycleRun.discover[OF lifecycleRun.start])

definition pathToCommitted :: "(State \<times> State) list" where
  "pathToCommitted =
     [(Discovered, Transferring), (Transferring, Transferred), (Transferred, Verifying),
      (Verifying, Verified), (Verified, Committing), (Committing, Committed)]"

definition exampleQuarantined :: JournalDB where
  "exampleQuarantined = exampleRun 0 (pathToCommitted @ [(Committed, Quarantined)]) exampleStart"

lemma exampleQuarantined_run: "lifecycleRun exampleDeps exampleQuarantined"
  unfolding exampleQuarantined_def
  by (rule exampleRun_run[OF exampleStart_run]) (simp add: pathToCommitted_def)

definition exampleEvidence :: QuarantineReinstateParams where
  "exampleEvidence =
     \<lparr>qi_Artifact = exampleID, qi_AttemptKey = ''a'',
      qi_Evidence = \<lparr>ev_HashMatched = True, ev_ValidatorPassed = False, ev_AnyCheckFailed = False,
                    ev_Summary = ''hash''\<rparr>, qi_Note = []\<rparr>"

theorem reinstatement_is_earned_witness:
  "LastEnteredAt exampleQuarantined exampleID Committed \<noteq> None \<and> conclusive (qi_Evidence exampleEvidence)"
proof -
  let ?r = "ReinstateFromQuarantine exampleDeps exampleQuarantined exampleEvidence"
  have h: "history (snd ?r) (qi_Artifact exampleEvidence) = history exampleQuarantined (qi_Artifact exampleEvidence) @ [(Quarantined, Committed)]"
    by code_simp
  have d: "d_Journal exampleDeps = Some sqlJournal" by (simp add: exampleDeps_def)
  have ne: "history (snd ?r) (qi_Artifact exampleEvidence) \<noteq> history exampleQuarantined (qi_Artifact exampleEvidence)"
    by (simp add: h)
  from reinstatement_is_earned[OF d exampleQuarantined_run surjective_pairing ne]
  show ?thesis by (auto simp: h) (simp add: exampleEvidence_def)
qed

theorem commit_recorded_before_delete_witness:
  "LastEnteredAt (exampleRun 0 (pathToCommitted @ [(Committed, RemoteDeletePending)]) exampleStart) exampleID Committed \<noteq> None"
proof -
  let ?j = "exampleRun 0 (pathToCommitted @ [(Committed, RemoteDeletePending)]) exampleStart"
  have run: "lifecycleRun exampleDeps ?j"
    by (rule exampleRun_run[OF exampleStart_run]) (simp add: pathToCommitted_def)
  have s: "map_sum id r_State (Get ?j exampleID) = Inr RemoteDeletePending" by code_simp
  then obtain rec where "Get ?j exampleID = Inr rec" "r_State rec = RemoteDeletePending"
    by (cases "Get ?j exampleID") auto
  then show ?thesis
    using commit_recorded_before_delete[of exampleDeps ?j exampleID rec] run by (simp add: exampleDeps_def)
qed

theorem journal_state_reachable_witness:
  "reaches Discovered Quarantined"
proof -
  have s: "map_sum id r_State (Get exampleQuarantined exampleID) = Inr Quarantined" by code_simp
  then obtain rec where "Get exampleQuarantined exampleID = Inr rec" "r_State rec = Quarantined"
    by (cases "Get exampleQuarantined exampleID") auto
  then show ?thesis
    using journal_state_reachable[of exampleDeps exampleQuarantined exampleID rec] exampleQuarantined_run
    by (simp add: exampleDeps_def)
qed

definition exampleRequarantined :: JournalDB where
  "exampleRequarantined =
     exampleRun 0 (pathToCommitted @
       [(Committed, Quarantined), (Quarantined, Discovered), (Discovered, Transferring),
        (Transferring, Transferred), (Transferred, Verifying), (Verifying, Quarantined)]) exampleStart"

text \<open>An artifact committed, quarantined, released, and quarantined again out of VERIFYING - whose
  local file is then a \<open>.partial\<close> of the second transfer - is reinstated to COMMITTED: the origin is
  looked up as the newest of the durable origins ever recorded, not as the edge that carried the
  artifact into quarantine this time.\<close>

theorem reinstated_out_of_verifying:
  "last (history exampleRequarantined exampleID) = (Verifying, Quarantined) \<and>
   last (history (snd (ReinstateFromQuarantine exampleDeps exampleRequarantined exampleEvidence)) exampleID)
     = (Quarantined, Committed)"
  by code_simp

end
