(* ===== verification/RemoteDelete.thy ===== *)
theory RemoteDelete
  imports LifecycleProps
begin

text \<open>
  \<open>core/internal/lifecycle/remotedelete.go\<close>: the one place that deletes a source object.  The
  transport, the local filesystem and the clock are read from the world \<open>'w\<close>; the transport's
  delete changes it.  The text of an error is the function \<open>rd_Text\<close> of the dependencies, because
  it is stored in the journal; everything a decision rests on is kept as a value.
\<close>

text \<open>The source's \<open>EntryKind\<close> is a string type; the empty string is "nobody said".\<close>

type_synonym EntryKind = string

record RemoteArtifact =
  ra_Path :: string
  ra_Size :: int
  ra_ModTime :: int
  ra_Hash :: string
  ra_HashAlg :: string
  ra_ID :: string
  ra_Kind :: EntryKind

record FileInfo =
  fi_Size :: int
  fi_IsDir :: bool

record DeleteRemoteRequest =
  dq_Source :: string
  dq_Artifact :: ArtifactID
  dq_AttemptKey :: string
  dq_CompletionStrategy :: string
  dq_DeleteSafetyDelay :: int

datatype localError =
    OnMedium "string list" State
  | NoActiveCopy
  | NoLocalPath
  | LocalStatFailed string
  | LocalIsDir string
  | SizesDisagree int int
  | NoRecordedSize
  | WrongSize string int int
  | UnsupportedAlg string
  | LocalHashFailed string
  | HashDiffers string string string

datatype refusalReason =
    WrongState State
  | ReinstatedAt instant
  | LocalBad localError
  | UnknownStrategy string
  | DelayNotPositive int
  | NoCommitRecorded
  | DelayNotElapsed int int
  | NoDiscoveredSize
  | StatFailed string
  | IdentityNotKept IdentityComparison

datatype deleteError =
    StepError lifecycleError
  | NeedsTransport
  | Refused refusalReason
  | RefusedUnrecorded refusalReason lifecycleError
  | DeleteCallFailed string
  | DeleteCallFailedUnrecorded string lifecycleError
  | CompleteUnrecorded lifecycleError

record 'w Transport =
  tp_Stat :: "'w \<Rightarrow> string \<Rightarrow> string \<Rightarrow> string + RemoteArtifact"
  tp_DeleteRemote :: "'w \<Rightarrow> string \<Rightarrow> string \<Rightarrow> string option \<times> 'w"

record 'w RemoteDeps =
  rd_Deps :: "'w Deps"
  rd_Transport :: "'w Transport option"
  rd_Stat :: "'w \<Rightarrow> string \<Rightarrow> string + FileInfo"
  rd_SHA256File :: "'w \<Rightarrow> string \<Rightarrow> string + string"
  rd_Fold :: "string \<Rightarrow> string \<Rightarrow> bool"
  rd_Text :: "ArtifactID \<Rightarrow> refusalReason \<Rightarrow> string"

definition SHA256 :: string where "SHA256 = ''sha256''"

definition deleteAttemptTagIntent :: string where "deleteAttemptTagIntent = ''remote-delete-pending''"
definition deleteAttemptTagRefused :: string where "deleteAttemptTagRefused = ''remote-delete-refused''"
definition deleteAttemptTagComplete :: string where "deleteAttemptTagComplete = ''remote-delete-complete''"

definition requestKey :: "DeleteRemoteRequest \<Rightarrow> string \<Rightarrow> string" where
  "requestKey r tag = dq_AttemptKey r @ '':'' @ tag"

section \<open>The local copy\<close>

definition expectedLocalSize :: "Record \<Rightarrow> localError + int" where
  "expectedLocalSize rec =
     (case (rf_Size (r_Remote rec), r_Transfer rec) of
        (Some n, Some t) \<Rightarrow>
          if n \<noteq> tr_BytesTransferred t then Inl (SizesDisagree n (tr_BytesTransferred t)) else Inr n
      | (Some n, None) \<Rightarrow> Inr n
      | (None, Some t) \<Rightarrow> Inr (tr_BytesTransferred t)
      | (None, None) \<Rightarrow> Inl NoRecordedSize)"

definition noReadablePath :: "Record \<Rightarrow> localError" where
  "noReadablePath rec =
     (let mediums = ActiveMediumPlacements rec in
      if length mediums > 0 then OnMedium (map p_Medium mediums) (r_State rec)
      else if length (r_Placements rec) > 0 then NoActiveCopy
      else NoLocalPath)"

definition verifyLocalFinal :: "'w RemoteDeps \<Rightarrow> 'w \<Rightarrow> Record \<Rightarrow> localError option" where
  "verifyLocalFinal d w rec =
     (case ReadableLocalPath rec of
        None \<Rightarrow> Some (noReadablePath rec)
      | Some path \<Rightarrow>
        (case rd_Stat d w path of
           Inl e \<Rightarrow> Some (LocalStatFailed e)
         | Inr info \<Rightarrow>
           if fi_IsDir info then Some (LocalIsDir path)
           else (case expectedLocalSize rec of
                   Inl e \<Rightarrow> Some e
                 | Inr expected \<Rightarrow>
                   if fi_Size info \<noteq> expected then Some (WrongSize path (fi_Size info) expected)
                   else if r_LocalHashAlg rec \<noteq> [] then
                     (if \<not> equalFold (rd_Fold d) (r_LocalHashAlg rec) SHA256
                      then Some (UnsupportedAlg (r_LocalHashAlg rec))
                      else (case rd_SHA256File d w path of
                              Inl e \<Rightarrow> Some (LocalHashFailed e)
                            | Inr digest \<Rightarrow>
                              if \<not> equalFold (rd_Fold d) digest (r_LocalHash rec)
                              then Some (HashDiffers path digest (r_LocalHash rec)) else None))
                   else None)))"

section \<open>The remote object\<close>

definition discoveredIdentity :: "Record \<Rightarrow> refusalReason + RemoteIdentity" where
  "discoveredIdentity rec =
     (case rf_Size (r_Remote rec) of
        None \<Rightarrow> Inl NoDiscoveredSize
      | Some n \<Rightarrow>
        Inr \<lparr>ri_Path = r_RemotePath rec, ri_Size = n,
             ri_ModTime = (case rf_ModTime (r_Remote rec) of None \<Rightarrow> 0 | Some t \<Rightarrow> unixSeconds t),
             ri_Hash = rf_Hash (r_Remote rec), ri_HashAlg = rf_HashAlg (r_Remote rec),
             ri_StableID = rf_BackendID (r_Remote rec)\<rparr>)"

definition currentIdentity :: "RemoteArtifact \<Rightarrow> RemoteIdentity" where
  "currentIdentity art =
     \<lparr>ri_Path = ra_Path art, ri_Size = ra_Size art, ri_ModTime = ra_ModTime art,
      ri_Hash = ra_Hash art, ri_HashAlg = ra_HashAlg art, ri_StableID = ra_ID art\<rparr>"

section \<open>The gates before the intent\<close>

fun newestOf :: "'j JournalOps \<Rightarrow> 'j \<Rightarrow> ArtifactID \<Rightarrow> (State \<times> State) list \<Rightarrow> instant option \<Rightarrow>
    journalError + instant option" where
  "newestOf ops w a [] best = Inr best"
| "newestOf ops w a (e # es) best =
     bindE (jo_LastTransition ops w a (fst e) (snd e)) (\<lambda>found.
       newestOf ops w a es
         (case found of None \<Rightarrow> best
          | Some at \<Rightarrow> (case best of None \<Rightarrow> Some at
                        | Some newest \<Rightarrow> if at > newest then Some at else best)))"

definition lastReinstatement :: "'j JournalOps \<Rightarrow> 'j \<Rightarrow> ArtifactID \<Rightarrow> journalError + instant option" where
  "lastReinstatement ops w a = newestOf ops w a reinstatementEdges None"

definition checkStableSafetyDelay ::
  "'w RemoteDeps \<Rightarrow> 'w JournalOps \<Rightarrow> 'w \<Rightarrow> DeleteRemoteRequest \<Rightarrow> deleteError option" where
  "checkStableSafetyDelay d ops w req =
     (if dq_DeleteSafetyDelay req \<le> 0 then Some (Refused (DelayNotPositive (dq_DeleteSafetyDelay req)))
      else (case jo_LastEnteredAt ops w (dq_Artifact req) Committed of
              Inl e \<Rightarrow> Some (StepError (JournalError e))
            | Inr None \<Rightarrow> Some (Refused NoCommitRecorded)
            | Inr (Some confirmedAt) \<Rightarrow>
              let elapsed = timeSub (d_Now (rd_Deps d) w) confirmedAt in
              if elapsed < dq_DeleteSafetyDelay req
              then Some (Refused (DelayNotElapsed elapsed (dq_DeleteSafetyDelay req)))
              else None))"

definition checkCompletion ::
  "'w RemoteDeps \<Rightarrow> 'w JournalOps \<Rightarrow> 'w \<Rightarrow> DeleteRemoteRequest \<Rightarrow> deleteError option" where
  "checkCompletion d ops w req =
     (if dq_CompletionStrategy req = ''rename'' \<or> dq_CompletionStrategy req = ''marker'' then None
      else if dq_CompletionStrategy req = ''stable'' then checkStableSafetyDelay d ops w req
      else Some (Refused (UnknownStrategy (dq_CompletionStrategy req))))"

section \<open>The delete\<close>

type_synonym 'w deleteResult = "(deleteError + Outcome) \<times> 'w"

definition persistDeleteOutcome ::
  "'w RemoteDeps \<Rightarrow> 'w \<Rightarrow> DeleteRemoteRequest \<Rightarrow> string \<Rightarrow> string \<Rightarrow> string \<Rightarrow> instant option \<Rightarrow> 'w stepResult" where
  "persistDeleteOutcome d w req key detail deleteErr deletedAt =
     Advance (rd_Deps d) w
       ((emptyTransition (dq_Artifact req) key RemoteDeletePending RemoteDeletePending)
          \<lparr>t_Detail := detail,
           t_Deletion := Some \<lparr>du_DeletedAt = deletedAt, du_Error = deleteErr\<rparr>\<rparr>)"

definition refuseRemoteIdentity ::
  "'w RemoteDeps \<Rightarrow> 'w \<Rightarrow> DeleteRemoteRequest \<Rightarrow> refusalReason \<Rightarrow> 'w deleteResult" where
  "refuseRemoteIdentity d w req reason =
     (case persistDeleteOutcome d w req (requestKey req deleteAttemptTagRefused)
             ''FR-15: refusing to delete, remote identity could not be reconfirmed''
             (rd_Text d (dq_Artifact req) reason) None of
        (Inl e, w') \<Rightarrow> (Inl (RefusedUnrecorded reason e), w')
      | (Inr _, w') \<Rightarrow> (Inl (Refused reason), w'))"

definition recordIntent :: "'w RemoteDeps \<Rightarrow> 'w \<Rightarrow> DeleteRemoteRequest \<Rightarrow> State \<Rightarrow> lifecycleError option \<times> 'w" where
  "recordIntent d w req current =
     (if current = Committed then
        (case Advance (rd_Deps d) w
                ((emptyTransition (dq_Artifact req) (requestKey req deleteAttemptTagIntent) current RemoteDeletePending)
                  \<lparr>t_Detail := ''FR-15: recording intent to delete the remote object before revalidating its identity''\<rparr>) of
           (Inl e, w') \<Rightarrow> (Some e, w')
         | (Inr _, w') \<Rightarrow> (None, w'))
      else (None, w))"

text \<open>From the identity check on: \<open>w\<close> is the world after the intent is on record.\<close>

definition confirmAndDelete ::
  "'w RemoteDeps \<Rightarrow> 'w Transport \<Rightarrow> 'w \<Rightarrow> DeleteRemoteRequest \<Rightarrow> Record \<Rightarrow> 'w deleteResult" where
  "confirmAndDelete d tp w req rec =
     (case discoveredIdentity rec of
        Inl reason \<Rightarrow> refuseRemoteIdentity d w req reason
      | Inr discovered \<Rightarrow>
        (case tp_Stat tp w (dq_Source req) (r_RemotePath rec) of
           Inl e \<Rightarrow> refuseRemoteIdentity d w req (StatFailed e)
         | Inr remote \<Rightarrow>
           let comparison = CompareIdentity discovered (currentIdentity remote) in
           if Preserve comparison then refuseRemoteIdentity d w req (IdentityNotKept comparison)
           else
             (case tp_DeleteRemote tp w (dq_Source req) (r_RemotePath rec) of
                (Some e, w1) \<Rightarrow>
                  (case persistDeleteOutcome d w1 req (requestKey req deleteAttemptTagRefused)
                          ''FR-15: the remote delete call itself failed'' e None of
                     (Inl pe, w2) \<Rightarrow> (Inl (DeleteCallFailedUnrecorded e pe), w2)
                   | (Inr _, w2) \<Rightarrow> (Inl (DeleteCallFailed e), w2))
              | (None, w1) \<Rightarrow>
                  let now = d_Now (rd_Deps d) w1 in
                  (case Advance (rd_Deps d) w1
                          ((emptyTransition (dq_Artifact req) (requestKey req deleteAttemptTagComplete)
                              RemoteDeletePending Complete)
                            \<lparr>t_Detail := ''FR-15: remote object confirmed unchanged since discovery and deleted'',
                             t_Deletion := Some \<lparr>du_DeletedAt = Some now, du_Error = []\<rparr>\<rparr>) of
                     (Inl e, w2) \<Rightarrow> (Inl (CompleteUnrecorded e), w2)
                   | (Inr out, w2) \<Rightarrow> (Inr out, w2)))))"

text \<open>The revalidations that run before anything is written, in the source's order.\<close>

definition revalidate ::
  "'w RemoteDeps \<Rightarrow> 'w JournalOps \<Rightarrow> 'w \<Rightarrow> DeleteRemoteRequest \<Rightarrow> deleteError + Record" where
  "revalidate d ops w req =
     bindE (mapErr (StepError \<circ> JournalError) (jo_Get ops w (dq_Artifact req))) (\<lambda>rec.
     bindE (guardE (r_State rec = Committed \<or> r_State rec = RemoteDeletePending)
              (Refused (WrongState (r_State rec)))) (\<lambda>_.
     bindE (mapErr (StepError \<circ> JournalError) (lastReinstatement ops w (dq_Artifact req))) (\<lambda>reinstated.
     bindE (case reinstated of Some at \<Rightarrow> Inl (Refused (ReinstatedAt at)) | None \<Rightarrow> Inr ()) (\<lambda>_.
     bindE (case verifyLocalFinal d w rec of Some e \<Rightarrow> Inl (Refused (LocalBad e)) | None \<Rightarrow> Inr ()) (\<lambda>_.
     bindE (case checkCompletion d ops w req of Some e \<Rightarrow> Inl e | None \<Rightarrow> Inr ()) (\<lambda>_.
     Inr rec))))))"

definition DeleteRemote :: "'w RemoteDeps \<Rightarrow> 'w \<Rightarrow> DeleteRemoteRequest \<Rightarrow> 'w deleteResult" where
  "DeleteRemote d w req =
     (case d_Journal (rd_Deps d) of None \<Rightarrow> (Inl (StepError NeedsJournal), w)
      | Some ops \<Rightarrow>
        (case rd_Transport d of None \<Rightarrow> (Inl NeedsTransport, w)
         | Some tp \<Rightarrow>
           if dq_AttemptKey req = [] then (Inl (StepError NeedsAttemptKey), w)
           else (case revalidate d ops w req of Inl e \<Rightarrow> (Inl e, w)
             | Inr rec \<Rightarrow>
               (case recordIntent d w req (r_State rec) of
                  (Some e, w1) \<Rightarrow> (Inl (StepError e), w1)
                | (None, w1) \<Rightarrow> confirmAndDelete d tp w1 req rec))))"

lemma revalidate_Inr_iff:
  "revalidate d ops w req = Inr rec \<longleftrightarrow>
     jo_Get ops w (dq_Artifact req) = Inr rec \<and> r_State rec \<in> {Committed, RemoteDeletePending} \<and>
     lastReinstatement ops w (dq_Artifact req) = Inr None \<and> verifyLocalFinal d w rec = None \<and>
     checkCompletion d ops w req = None"
  by (auto simp: revalidate_def bindE_Inr_iff mapErr_Inr_iff split: option.splits)

end
