(* ===== verification/RemoteDeleteProps.thy ===== *)
theory RemoteDeleteProps
  imports RemoteDelete
begin

text \<open>
  What \<open>DeleteRemote\<close> guarantees.  The locale \<open>source_deleter\<close> adds to the journal's contract what
  the step relies on of its transport: a call of the transport's delete leaves one entry on a trail
  and does not touch the journal, and nothing else leaves one.  It is interpreted on a world that
  holds the real journal, a remote store, a local filesystem and a script of failures.
\<close>

section \<open>The contract of the transport\<close>

text \<open>\<open>a\<close>'s history grew by edges of \<open>E\<close> only, and no other history changed.\<close>

definition grows ::
  "('j \<Rightarrow> ArtifactID \<Rightarrow> (State \<times> State) list) \<Rightarrow> 'j \<Rightarrow> 'j \<Rightarrow> ArtifactID \<Rightarrow> (State \<times> State) set \<Rightarrow> bool" where
  "grows hist w w' a E =
     (\<forall>x. \<exists>es. hist w' x = hist w x @ es \<and> set es \<subseteq> E \<and> (x \<noteq> a \<longrightarrow> es = []))"

lemma grows_same [simp, intro]: "grows hist w w a E"
  by (simp add: grows_def)

lemma grows_stepOf: "stepOf hist w w' a E \<Longrightarrow> grows hist w w' a E"
  unfolding stepOf_def grows_def
  by (metis append_Nil2 empty_set empty_subsetI insert_subset list.simps(15))

lemma grows_trans:
  assumes "grows hist w w1 a E" "grows hist w1 w2 a E"
  shows "grows hist w w2 a E"
  unfolding grows_def
proof
  fix x
  obtain es fs where "hist w1 x = hist w x @ es" "set es \<subseteq> E" "x \<noteq> a \<longrightarrow> es = []"
    "hist w2 x = hist w1 x @ fs" "set fs \<subseteq> E" "x \<noteq> a \<longrightarrow> fs = []"
    using assms unfolding grows_def by metis
  then show "\<exists>es. hist w2 x = hist w x @ es \<and> set es \<subseteq> E \<and> (x \<noteq> a \<longrightarrow> es = [])"
    by (intro exI[of _ "es @ fs"]) auto
qed

lemma grows_legal:
  assumes "grows hist w w' a E" "E \<subseteq> Collect legalEdge" "legalHist (hist w x)"
  shows "legalHist (hist w' x)"
proof -
  obtain es where "hist w' x = hist w x @ es" "set es \<subseteq> E" using assms(1) unfolding grows_def by metis
  with assms show ?thesis by (auto simp: legalHist_def list_all_iff)
qed

lemma grows_mem: "grows hist w w' a E \<Longrightarrow> s \<in> set (map snd (hist w x)) \<Longrightarrow> s \<in> set (map snd (hist w' x))"
  unfolding grows_def by (metis Un_iff map_append set_append)

definition deleteEdges :: "(State \<times> State) set" where
  "deleteEdges = {(Committed, RemoteDeletePending), (RemoteDeletePending, RemoteDeletePending),
                  (RemoteDeletePending, Complete)}"

lemma deleteEdges_legal: "deleteEdges \<subseteq> Collect legalEdge"
  by (auto simp: deleteEdges_def legalEdge_def Validate_None_iff Transitions_def)

text \<open>Everything \<open>DeleteRemote\<close> asks of the remote object before it deletes it.\<close>

definition confirmed :: "'w Transport \<Rightarrow> 'w \<Rightarrow> DeleteRemoteRequest \<Rightarrow> Record \<Rightarrow> bool" where
  "confirmed tp w req rec =
     (\<exists>discovered remote. discoveredIdentity rec = Inr discovered \<and>
        tp_Stat tp w (dq_Source req) (r_RemotePath rec) = Inr remote \<and>
        \<not> Preserve (CompareIdentity discovered (currentIdentity remote)))"

locale source_deleter = lifecycle_journal ops inv hist
  for ops :: "'w JournalOps" and inv :: "'w \<Rightarrow> bool" and hist :: "'w \<Rightarrow> ArtifactID \<Rightarrow> (State \<times> State) list" +
  fixes tp :: "'w Transport" and deletes :: "'w \<Rightarrow> (string \<times> string) list"
  assumes record_trail: "jo_RecordTransition ops w t = (res, w') \<Longrightarrow> deletes w' = deletes w"
    and delete_trail: "tp_DeleteRemote tp w s p = (err, w') \<Longrightarrow> deletes w' = deletes w @ [(s, p)]"
    and delete_inv: "inv w \<Longrightarrow> tp_DeleteRemote tp w s p = (err, w') \<Longrightarrow> inv w'"
    and delete_hist: "tp_DeleteRemote tp w s p = (err, w') \<Longrightarrow> hist w' = hist w"
begin

definition wired :: "'w RemoteDeps \<Rightarrow> bool" where
  "wired d = (usedBy (rd_Deps d) \<and> rd_Transport d = Some tp)"

lemma Advance_trail:
  assumes "usedBy d" "Advance d w t = (res, w')"
  shows "deletes w' = deletes w"
  using assms by (auto simp: Advance_def usedBy_def Let_def split: if_splits option.splits prod.splits
      dest: record_trail)

lemma delete_edge_step:
  assumes "inv w" "wired d" "Advance (rd_Deps d) w t = (res, w')" "(t_From t, t_To t) \<in> deleteEdges"
    "t_Artifact t = a"
  shows "inv w' \<and> grows hist w w' a deleteEdges \<and> deletes w' = deletes w \<and>
    (isOk res \<longrightarrow> t_To t \<in> set (map snd (hist w' a)))"
proof -
  have u: "usedBy (rd_Deps d)" using assms(2) by (simp add: wired_def)
  have "t_From t \<noteq> noState" using assms(4) by (auto simp: deleteEdges_def)
  from Advance_step[OF assms(1) u this assms(3)] Advance_trail[OF u assms(3)] assms(4,5) show ?thesis
    by (auto intro!: grows_stepOf elim!: stepOf_mono)
qed

lemma persist_step:
  assumes "inv w" "wired d" "persistDeleteOutcome d w req key detail err at = (res, w')"
  shows "inv w' \<and> grows hist w w' (dq_Artifact req) deleteEdges \<and> deletes w' = deletes w"
  using delete_edge_step[OF assms(1,2) assms(3)[unfolded persistDeleteOutcome_def]]
  by (simp add: deleteEdges_def)

lemma refuse_step:
  assumes "inv w" "wired d" "refuseRemoteIdentity d w req reason = (res, w')"
  shows "inv w' \<and> grows hist w w' (dq_Artifact req) deleteEdges \<and> deletes w' = deletes w \<and> isl res"
  using assms(3) persist_step[OF assms(1,2)]
  by (auto simp: refuseRemoteIdentity_def split: prod.splits sum.splits)

lemma intent_step:
  assumes "inv w" "wired d" "recordIntent d w req current = (err, w')"
    and "current \<in> {Committed, RemoteDeletePending}"
    and "current = RemoteDeletePending \<Longrightarrow> RemoteDeletePending \<in> set (map snd (hist w (dq_Artifact req)))"
  shows "inv w' \<and> grows hist w w' (dq_Artifact req) deleteEdges \<and> deletes w' = deletes w \<and>
    (err = None \<longrightarrow> RemoteDeletePending \<in> set (map snd (hist w' (dq_Artifact req))))"
proof (cases "current = Committed")
  case True
  let ?t = "(emptyTransition (dq_Artifact req) (requestKey req deleteAttemptTagIntent) current RemoteDeletePending)
      \<lparr>t_Detail := ''FR-15: recording intent to delete the remote object before revalidating its identity''\<rparr>"
  obtain res where r: "Advance (rd_Deps d) w ?t = (res, w')" "err = None \<longrightarrow> isOk res"
    using assms(3) True by (auto simp: recordIntent_def split: prod.splits sum.splits)
  with delete_edge_step[OF assms(1,2) r(1), of "dq_Artifact req"] True show ?thesis
    by (simp add: deleteEdges_def)
next
  case False
  with assms show ?thesis by (auto simp: recordIntent_def)
qed

text \<open>The tail: at most one call of the transport's delete, and only on a confirmed identity.\<close>

lemma confirm_step:
  assumes "inv w" "wired d" "confirmAndDelete d tp w req rec = (res, w')"
  shows "inv w' \<and> grows hist w w' (dq_Artifact req) deleteEdges \<and>
    (deletes w' = deletes w \<and> isl res \<or>
     deletes w' = deletes w @ [(dq_Source req, r_RemotePath rec)] \<and> confirmed tp w req rec \<and>
       (isOk res \<longrightarrow> Complete \<in> set (map snd (hist w' (dq_Artifact req)))))"
proof (cases "confirmed tp w req rec")
  case False
  then obtain reason where "refuseRemoteIdentity d w req reason = (res, w')"
    using assms(3) by (auto simp: confirmAndDelete_def confirmed_def Let_def split: sum.splits if_splits)
  from refuse_step[OF assms(1,2) this] show ?thesis by simp
next
  case True
  obtain e w1 where del: "tp_DeleteRemote tp w (dq_Source req) (r_RemotePath rec) = (e, w1)" by fastforce
  have w1: "inv w1" "deletes w1 = deletes w @ [(dq_Source req, r_RemotePath rec)]" "hist w1 = hist w"
    using delete_inv[OF assms(1) del] delete_trail[OF del] delete_hist[OF del] by auto
  have g1: "grows hist w w' a E" if "grows hist w1 w' a E" for a E
    using that w1(3) by (simp add: grows_def)
  show ?thesis
  proof (cases e)
    case None
    let ?t = "(emptyTransition (dq_Artifact req) (requestKey req deleteAttemptTagComplete) RemoteDeletePending Complete)
       \<lparr>t_Detail := ''FR-15: remote object confirmed unchanged since discovery and deleted'',
        t_Deletion := Some \<lparr>du_DeletedAt = Some (d_Now (rd_Deps d) w1), du_Error = []\<rparr>\<rparr>"
    obtain r where r: "Advance (rd_Deps d) w1 ?t = (r, w')" "isOk res \<longrightarrow> isOk r"
      using assms(3) True del None
      by (auto simp: confirmAndDelete_def confirmed_def Let_def split: prod.splits sum.splits)
    from delete_edge_step[OF w1(1) assms(2) r(1), of "dq_Artifact req"] True w1 g1 r(2) show ?thesis
      by (simp add: deleteEdges_def)
  next
    case (Some msg)
    then obtain r where r: "persistDeleteOutcome d w1 req (requestKey req deleteAttemptTagRefused)
        ''FR-15: the remote delete call itself failed'' msg None = (r, w')" "isl res"
      using assms(3) True del
      by (auto simp: confirmAndDelete_def confirmed_def Let_def split: prod.splits sum.splits)
    from persist_step[OF w1(1) assms(2) r(1)] True w1 g1 r(2) show ?thesis by simp
  qed
qed

lemma DeleteRemote_cases:
  assumes "inv w" "wired d" "DeleteRemote d w req = (res, w')"
  obtains (refused) "w' = w" "isl res"
  | (intent) rec err where "revalidate d ops w req = Inr rec" "recordIntent d w req (r_State rec) = (Some err, w')" "isl res"
  | (tail) rec w1 where "revalidate d ops w req = Inr rec" "recordIntent d w req (r_State rec) = (None, w1)"
      "confirmAndDelete d tp w1 req rec = (res, w')"
proof -
  note D = assms(3)[unfolded DeleteRemote_def]
  have d: "d_Journal (rd_Deps d) = Some ops" "rd_Transport d = Some tp"
    using assms(2) by (auto simp: wired_def usedBy_def)
  show thesis
  proof (cases "dq_AttemptKey req = [] \<or> isl (revalidate d ops w req)")
    case True
    with D d have "w' = w \<and> isl res" by (cases "revalidate d ops w req") (simp_all split: if_splits, auto)
    then show thesis using refused by blast
  next
    case False
    then obtain rec where v: "revalidate d ops w req = Inr rec" by (cases "revalidate d ops w req") auto
    obtain err w1 where r: "recordIntent d w req (r_State rec) = (err, w1)" by fastforce
    show thesis
    proof (cases err)
      case None
      with D d v r False show thesis by (intro tail[of rec w1]) simp_all
    next
      case (Some e)
      with D d v r False show thesis by (intro intent[of rec e]) auto
    qed
  qed
qed

lemma revalidate_pending:
  assumes "inv w" "revalidate d ops w req = Inr rec" "r_State rec = RemoteDeletePending"
  shows "RemoteDeletePending \<in> set (map snd (hist w (dq_Artifact req)))"
proof -
  have "jo_Get ops w (dq_Artifact req) = Inr rec" using assms(2) by (simp add: revalidate_Inr_iff)
  from get_state[OF assms(1) this] assms(3) have
    "hist w (dq_Artifact req) \<noteq> []" "snd (last (hist w (dq_Artifact req))) = RemoteDeletePending"
    by (auto simp: endState_def split: if_splits)
  then show ?thesis by (metis last_in_set image_eqI set_map)
qed

lemma DeleteRemote_step:
  assumes "inv w" "wired d" "DeleteRemote d w req = (res, w')"
  shows "inv w' \<and> grows hist w w' (dq_Artifact req) deleteEdges \<and>
    (deletes w' = deletes w \<and> isl res \<or>
     (\<exists>rec w1. revalidate d ops w req = Inr rec \<and> recordIntent d w req (r_State rec) = (None, w1) \<and>
        confirmed tp w1 req rec \<and> deletes w' = deletes w @ [(dq_Source req, r_RemotePath rec)] \<and>
        RemoteDeletePending \<in> set (map snd (hist w1 (dq_Artifact req))) \<and> grows hist w1 w' (dq_Artifact req) deleteEdges \<and>
        (isOk res \<longrightarrow> Complete \<in> set (map snd (hist w' (dq_Artifact req))))))"
  using assms
proof (cases rule: DeleteRemote_cases)
  case refused
  with assms(1) show ?thesis by simp
next
  case (intent rec err)
  have "r_State rec \<in> {Committed, RemoteDeletePending}" using intent(1) by (simp add: revalidate_Inr_iff)
  from intent_step[OF assms(1,2) intent(2) this revalidate_pending[OF assms(1) intent(1)]] intent(3)
  show ?thesis by simp
next
  case (tail rec w1)
  have "r_State rec \<in> {Committed, RemoteDeletePending}" using tail(1) by (simp add: revalidate_Inr_iff)
  note i = intent_step[OF assms(1,2) tail(2) this revalidate_pending[OF assms(1) tail(1)]]
  then have w1: "inv w1" by simp
  note c = confirm_step[OF w1 assms(2) tail(3)]
  have g: "grows hist w w' (dq_Artifact req) deleteEdges" by (rule grows_trans[of hist w w1]) (use i c in simp_all)
  have p: "RemoteDeletePending \<in> set (map snd (hist w1 (dq_Artifact req)))" using i by simp
  from c consider "deletes w' = deletes w1" "isl res"
    | "deletes w' = deletes w1 @ [(dq_Source req, r_RemotePath rec)]" "confirmed tp w1 req rec"
      "isOk res \<longrightarrow> Complete \<in> set (map snd (hist w' (dq_Artifact req)))" by blast
  then show ?thesis
  proof cases
    case 1
    with c g i show ?thesis by simp
  next
    case 2
    with i have "deletes w' = deletes w @ [(dq_Source req, r_RemotePath rec)]" by simp
    with 2 c g p tail(1,2) show ?thesis by blast
  qed
qed

lemma reinstated_never_cleared:
  assumes "inv w" "revalidate d ops w req = Inr rec"
  shows "set reinstatementEdges \<inter> set (hist w (dq_Artifact req)) = {}"
proof -
  have none: "newestOf ops w a es best = Inr None \<Longrightarrow>
     best = None \<and> (\<forall>e \<in> set es. e \<notin> set (hist w a))" for a es best
  proof (induction es arbitrary: best)
    case (Cons e es)
    then obtain found where f: "jo_LastTransition ops w a (fst e) (snd e) = Inr found"
      by (auto simp: bindE_Inr_iff)
    with Cons show ?case
      by (cases found; cases best) (auto dest: last_none[OF assms(1)] split: if_splits)
  qed simp
  from assms(2) none[of "dq_Artifact req" reinstatementEdges None] show ?thesis
    by (auto simp: revalidate_Inr_iff lastReinstatement_def)
qed

end

end
