(* ===== verification/DeleteWorld.thy ===== *)
theory DeleteWorld
  imports RemoteDeleteProps
begin

text \<open>
  \<open>DeleteRemote\<close> over the real journal.  A world holds the journal, the objects of the remotes, the
  files of the NAS, the clock, the trail of the transport's delete calls, and a script of failures
  for each of the two writers: a call works, fails before it has an effect, or takes effect and
  then fails, which is also what a crash between the effect and the reply looks like.
\<close>

datatype fault = Works | FailsBefore | FailsAfter

record World =
  w_db :: JournalDB
  w_remote :: "string \<times> string \<Rightarrow> RemoteArtifact option"
  w_files :: "string \<Rightarrow> (FileInfo \<times> string) option"
  w_clock :: instant
  w_journalFaults :: "fault list"
  w_remoteFaults :: "fault list"
  w_calls :: "(string \<times> string) list"

definition nextFault :: "fault list \<Rightarrow> fault" where
  "nextFault fs = (case fs of [] \<Rightarrow> Works | f # _ \<Rightarrow> f)"

definition worldRecord :: "World \<Rightarrow> Transition \<Rightarrow> (journalError + Outcome) \<times> World" where
  "worldRecord w t =
     (let w0 = w\<lparr>w_journalFaults := tl (w_journalFaults w)\<rparr>; r = RecordTransition (w_db w) t in
      case nextFault (w_journalFaults w) of
        Works \<Rightarrow> (fst r, w0\<lparr>w_db := snd r\<rparr>)
      | FailsBefore \<Rightarrow> (Inl JournalUnavailable, w0)
      | FailsAfter \<Rightarrow> (Inl JournalUnavailable, w0\<lparr>w_db := snd r\<rparr>))"

definition worldJournal :: "World JournalOps" where
  "worldJournal =
     \<lparr>jo_Get = (\<lambda>w a. Get (w_db w) a), jo_RecordTransition = worldRecord,
      jo_LastEnteredAt = (\<lambda>w a st. Inr (LastEnteredAt (w_db w) a st)),
      jo_LastTransition = (\<lambda>w a f t. Inr (LastTransition (w_db w) a f t))\<rparr>"

definition worldStat :: "World \<Rightarrow> string \<Rightarrow> string \<Rightarrow> string + RemoteArtifact" where
  "worldStat w s p = (case w_remote w (s, p) of None \<Rightarrow> Inl ''object not found'' | Some a \<Rightarrow> Inr a)"

definition worldDelete :: "World \<Rightarrow> string \<Rightarrow> string \<Rightarrow> string option \<times> World" where
  "worldDelete w s p =
     (let w0 = w\<lparr>w_remoteFaults := tl (w_remoteFaults w), w_calls := w_calls w @ [(s, p)]\<rparr>;
          w1 = w0\<lparr>w_remote := (w_remote w)((s, p) := None)\<rparr>
      in case nextFault (w_remoteFaults w) of
           Works \<Rightarrow> (None, w1)
         | FailsBefore \<Rightarrow> (Some ''connection lost'', w0)
         | FailsAfter \<Rightarrow> (Some ''connection lost'', w1))"

definition worldTransport :: "World Transport" where
  "worldTransport = \<lparr>tp_Stat = worldStat, tp_DeleteRemote = worldDelete\<rparr>"

definition worldDeps ::
  "(string \<Rightarrow> string \<Rightarrow> bool) \<Rightarrow> (ArtifactID \<Rightarrow> refusalReason \<Rightarrow> string) \<Rightarrow> World RemoteDeps" where
  "worldDeps fd msg =
     \<lparr>rd_Deps = \<lparr>d_Journal = Some worldJournal, d_Now = w_clock, d_Cancelled = (\<lambda>_. False)\<rparr>,
      rd_Transport = Some worldTransport,
      rd_Stat = (\<lambda>w p. case w_files w p of None \<Rightarrow> Inl ''no such file'' | Some (info, _) \<Rightarrow> Inr info),
      rd_SHA256File = (\<lambda>w p. case w_files w p of None \<Rightarrow> Inl ''no such file'' | Some (_, digest) \<Rightarrow> Inr digest),
      rd_Fold = fd, rd_Text = msg\<rparr>"

lemma worldDeps_sel [simp]:
  "rd_Transport (worldDeps fd msg) = Some worldTransport"
  "d_Journal (rd_Deps (worldDeps fd msg)) = Some worldJournal"
  "d_Now (rd_Deps (worldDeps fd msg)) = w_clock"
  by (simp_all add: worldDeps_def)

lemma worldJournal_sel [simp]:
  "jo_Get worldJournal w a = Get (w_db w) a"
  "jo_RecordTransition worldJournal = worldRecord"
  "jo_LastEnteredAt worldJournal w a st = Inr (LastEnteredAt (w_db w) a st)"
  "jo_LastTransition worldJournal w a f t = Inr (LastTransition (w_db w) a f t)"
  by (simp_all add: worldJournal_def)

lemma worldTransport_sel [simp]: "tp_Stat worldTransport = worldStat" "tp_DeleteRemote worldTransport = worldDelete"
  by (simp_all add: worldTransport_def)

text \<open>A write of the world is the journal's own write, or no write.\<close>

lemma worldRecord_db:
  assumes "worldRecord w t = (res, w')"
  shows "w_calls w' = w_calls w \<and> w_remote w' = w_remote w \<and>
    (w_db w' = w_db w \<and> isl res \<or> w_db w' = snd (RecordTransition (w_db w) t) \<and>
       (isOk res \<longrightarrow> res = fst (RecordTransition (w_db w) t)))"
  using assms by (auto simp: worldRecord_def Let_def split: fault.splits)

lemma worldDelete_frame:
  assumes "worldDelete w s p = (err, w')"
  shows "w_db w' = w_db w \<and> w_calls w' = w_calls w @ [(s, p)]"
  using assms by (auto simp: worldDelete_def Let_def split: fault.splits)

definition worldInv :: "World \<Rightarrow> bool" where "worldInv w = wfJournal (w_db w)"
definition worldHist :: "World \<Rightarrow> ArtifactID \<Rightarrow> (State \<times> State) list" where "worldHist w = history (w_db w)"

interpretation wd: source_deleter worldJournal worldInv worldHist worldTransport w_calls
proof unfold_locales
  fix w a rec assume "worldInv w" "jo_Get worldJournal w a = Inr rec"
  then show "r_Artifact rec = a \<and> worldHist w a \<noteq> [] \<and> r_State rec = endState noState (worldHist w a)"
    using Get_Inr by (simp add: worldInv_def worldHist_def)
next
  fix w a assume "worldInv w" then show "chained noState (worldHist w a)"
    by (simp add: worldInv_def worldHist_def wf_chained)
next
  fix w t res w' assume a: "worldInv w" "jo_RecordTransition worldJournal w t = (res, w')"
  have r: "worldRecord w t = (res, w')" using a(2) by simp
  obtain res2 j2 where j: "RecordTransition (w_db w) t = (res2, j2)" by fastforce
  note f = record_transition_facts[OF a(1)[unfolded worldInv_def] j]
  show "worldInv w'" using worldRecord_db[OF r] f a(1) j by (auto simp: worldInv_def)
  have "stepOf history (w_db w) j2 (t_Artifact t) {(t_From t, t_To t)}" using f by (auto simp: stepOf_def)
  then show "stepOf worldHist w w' (t_Artifact t) {(t_From t, t_To t)}"
    using worldRecord_db[OF r] j by (auto simp: stepOf_def worldHist_def)
next
  fix w t out w' assume a: "worldInv w" "jo_RecordTransition worldJournal w t = (Inr out, w')"
  then have "w_db w' = snd (RecordTransition (w_db w) t)" "fst (RecordTransition (w_db w) t) = Inr out"
    using worldRecord_db[of w t "Inr out" w'] by auto
  then have "RecordTransition (w_db w) t = (Inr out, w_db w')" by (cases "RecordTransition (w_db w) t") auto
  then show "t_To t \<in> set (map snd (worldHist w' (t_Artifact t)))"
    using a(1) sql.record_ok[of "w_db w" t out "w_db w'"] by (simp add: worldInv_def worldHist_def sqlJournal_def)
next
  fix w a f t assume "worldInv w" "jo_LastTransition worldJournal w a f t = Inr None"
  then show "(f, t) \<notin> set (worldHist w a)"
    using sql.last_none[of "w_db w" a f t] by (simp add: worldInv_def worldHist_def sqlJournal_def)
next
  fix w a f t at assume "worldInv w" "jo_LastTransition worldJournal w a f t = Inr (Some at)"
  then show "(f, t) \<in> set (worldHist w a)"
    using sql.last_some[of "w_db w" a f t at] by (simp add: worldInv_def worldHist_def sqlJournal_def)
next
  fix w t res w' assume "jo_RecordTransition worldJournal w t = (res, w')"
  then show "w_calls w' = w_calls w" using worldRecord_db[of w t res w'] by simp
next
  fix w s p err w' assume "tp_DeleteRemote worldTransport w s p = (err, w')"
  then have f: "w_db w' = w_db w \<and> w_calls w' = w_calls w @ [(s, p)]" using worldDelete_frame by simp
  then show "w_calls w' = w_calls w @ [(s, p)]" "worldHist w' = worldHist w" by (simp_all add: worldHist_def)
  show "worldInv w \<Longrightarrow> worldInv w'" using f by (simp add: worldInv_def)
qed

section \<open>What a write does to the row\<close>

lemma RecordTransition_row:
  assumes wf: "wfJournal j" and r: "RecordTransition j t = (res, j')" and f: "findArtifact j a = Some (row, rec)"
  obtains rec' where "findArtifact j' a = Some (row, rec')" "r_RemotePath rec' = r_RemotePath rec"
  using r
proof (cases rule: RecordTransition_cases)
  case same
  with f that show thesis by simp
next
  case (new out)
  have to: "t_To t \<noteq> noState" using validateTransition_None[OF new(1)] by simp
  from applyTransition_Inr[OF wf new(2) to new(3)] obtain row1 j1 where
    g: "(if t_From t = noState then insertArtifact j t else updateArtifact j t) = Inr (row1, j1)"
    and art: "j_artifacts j' = j_artifacts j1" by metis
  show thesis
  proof (cases "t_From t = noState")
    case True
    with g have "j_artifacts j' = j_artifacts j @ [(row1, newRecord t)]" using art by (auto dest: insertArtifact_Inr)
    with f that show thesis by (simp add: findArtifact_def find_append)
  next
    case False
    with g have "updateArtifact j t = Inr (row1, j1)" by simp
    then obtain r0 where j1: "j1 = j\<lparr>j_artifacts := map (\<lambda>ar. if fst ar = row1 then (row1, updateRecord (j_redact j) t (snd ar)) else ar)
              (j_artifacts j)\<rparr>" by (rule updateArtifact_Inr)
    have "findArtifact j' a = map_option (\<lambda>ar. if fst ar = row1 then (row1, updateRecord (j_redact j) t (snd ar)) else ar)
        (findArtifact j a)"
      by (simp add: findArtifact_def art j1) (rule find_map_inv, auto)
    moreover have "r_RemotePath (updateRecord (j_redact j) t rec) = r_RemotePath rec"
      by (simp add: updateRecord_def setOpt_def split: option.split)
    ultimately show thesis using f that by (cases "row = row1") auto
  qed
qed

text \<open>A move of an existing artifact under a fresh key is applied.\<close>

section \<open>When a source object is deleted\<close>

lemma wired [simp]: "wd.wired (worldDeps fd msg)"
  by (simp add: wd.wired_def wd.usedBy_def)

lemma Advance_remote:
  assumes "Advance (rd_Deps (worldDeps fd msg)) w t = (res, w')"
  shows "w_remote w' = w_remote w"
  using assms worldRecord_db
  by (fastforce simp: Advance_def Let_def split: if_splits option.splits prod.splits)

lemma recordIntent_remote:
  assumes "recordIntent (worldDeps fd msg) w req current = (err, w')"
  shows "w_remote w' = w_remote w"
  using assms Advance_remote
  by (fastforce simp: recordIntent_def split: if_splits prod.splits sum.splits)

text \<open>Whatever fails and whenever, one call of \<open>DeleteRemote\<close> calls the transport's delete at most
  once, for the object the journal names, and only when at the start of the call the row read
  COMMITTED or REMOTE_DELETE_PENDING, the artifact had never been reinstated out of quarantine, the
  local final file passed its check and the completion strategy's gate was open, and the remote
  object was the one discovered; the intent is on record by then.\<close>

theorem delete_call_guarded:
  assumes "wfJournal (w_db w)" "DeleteRemote (worldDeps fd msg) w req = (res, w')" "w_calls w' \<noteq> w_calls w"
  shows "\<exists>rec discovered remote.
    Get (w_db w) (dq_Artifact req) = Inr rec \<and> r_State rec \<in> {Committed, RemoteDeletePending} \<and>
    (\<forall>e \<in> set reinstatementEdges. e \<notin> set (history (w_db w) (dq_Artifact req))) \<and>
    verifyLocalFinal (worldDeps fd msg) w rec = None \<and>
    checkCompletion (worldDeps fd msg) worldJournal w req = None \<and>
    w_calls w' = w_calls w @ [(dq_Source req, r_RemotePath rec)] \<and>
    discoveredIdentity rec = Inr discovered \<and> w_remote w (dq_Source req, r_RemotePath rec) = Some remote \<and>
    \<not> Preserve (CompareIdentity discovered (currentIdentity remote)) \<and>
    LastEnteredAt (w_db w') (dq_Artifact req) RemoteDeletePending \<noteq> None"
proof -
  have i: "worldInv w" using assms(1) by (simp add: worldInv_def)
  note st = wd.DeleteRemote_step[OF i wired assms(2)]
  from st assms(3) obtain rec w1 where
    v: "revalidate (worldDeps fd msg) worldJournal w req = Inr rec"
    and r: "recordIntent (worldDeps fd msg) w req (r_State rec) = (None, w1)"
    and c: "confirmed worldTransport w1 req rec"
    and calls: "w_calls w' = w_calls w @ [(dq_Source req, r_RemotePath rec)]"
    and p: "RemoteDeletePending \<in> set (map snd (worldHist w1 (dq_Artifact req)))"
    and g: "grows worldHist w1 w' (dq_Artifact req) deleteEdges"
    by auto
  from c obtain discovered remote where c': "discoveredIdentity rec = Inr discovered"
    "w_remote w (dq_Source req, r_RemotePath rec) = Some remote"
    "\<not> Preserve (CompareIdentity discovered (currentIdentity remote))"
    by (auto simp: confirmed_def worldStat_def recordIntent_remote[OF r] split: option.splits)
  have "LastEnteredAt (w_db w') (dq_Artifact req) RemoteDeletePending \<noteq> None"
    using st grows_mem[OF g p] by (intro entered_LastEnteredAt) (simp_all add: worldInv_def worldHist_def)
  moreover have "\<forall>e \<in> set reinstatementEdges. e \<notin> set (history (w_db w) (dq_Artifact req))"
    using wd.reinstated_never_cleared[OF i v] by (auto simp: worldHist_def)
  ultimately show ?thesis using v calls c' by (auto simp: revalidate_Inr_iff)
qed

text \<open>C21: an artifact that was ever reinstated out of quarantine keeps its source forever:
  \<open>DeleteRemote\<close> refuses and changes nothing at all.\<close>

theorem reinstated_source_kept:
  assumes "wfJournal (w_db w)" "e \<in> set reinstatementEdges" "e \<in> set (history (w_db w) (dq_Artifact req))"
  shows "snd (DeleteRemote (worldDeps fd msg) w req) = w \<and> isl (fst (DeleteRemote (worldDeps fd msg) w req))"
proof -
  have i: "worldInv w" using assms(1) by (simp add: worldInv_def)
  obtain res w' where r: "DeleteRemote (worldDeps fd msg) w req = (res, w')" by fastforce
  have no: "revalidate (worldDeps fd msg) worldJournal w req \<noteq> Inr rec" for rec
    using wd.reinstated_never_cleared[OF i, of "worldDeps fd msg" req rec] assms(2,3) by (auto simp: worldHist_def)
  from i wired r have "w' = w \<and> isl res" by (cases rule: wd.DeleteRemote_cases) (use no in auto)
  with r show ?thesis by simp
qed

section \<open>Every source object ever deleted was committed first\<close>

definition rowsKept :: "JournalDB \<Rightarrow> JournalDB \<Rightarrow> bool" where
  "rowsKept j j' = (\<forall>a row r. findArtifact j a = Some (row, r) \<longrightarrow>
     (\<exists>r'. findArtifact j' a = Some (row, r') \<and> r_RemotePath r' = r_RemotePath r))"

lemma rowsKept_refl [simp]: "rowsKept j j" by (simp add: rowsKept_def)

lemma rowsKept_trans: "rowsKept j j1 \<Longrightarrow> rowsKept j1 j2 \<Longrightarrow> rowsKept j j2"
  unfolding rowsKept_def by metis

lemma rowsKept_record: "wfJournal j \<Longrightarrow> rowsKept j (snd (RecordTransition j t))"
  unfolding rowsKept_def by (metis RecordTransition_row surjective_pairing)

text \<open>The contract again, with an invariant that remembers the rows of an earlier journal.\<close>

definition keptInv :: "JournalDB \<Rightarrow> World \<Rightarrow> bool" where
  "keptInv j0 w = (worldInv w \<and> rowsKept j0 (w_db w))"

interpretation kept: source_deleter worldJournal "keptInv j0" worldHist worldTransport w_calls for j0
proof unfold_locales
  fix w t res w' assume a: "keptInv j0 w" "jo_RecordTransition worldJournal w t = (res, w')"
  have "rowsKept (w_db w) (w_db w')"
    using a worldRecord_db[of w t res w'] rowsKept_record[of "w_db w" t] by (auto simp: keptInv_def worldInv_def)
  then show "keptInv j0 w'"
    using a wd.record_inv[of w t res w'] rowsKept_trans by (auto simp: keptInv_def)
next
  fix w s p err w' assume "keptInv j0 w" "tp_DeleteRemote worldTransport w s p = (err, w')"
  then show "keptInv j0 w'" using wd.delete_inv[of w s p err w'] worldDelete_frame[of w s p err w'] by (simp add: keptInv_def)
qed (use wd.get_state wd.chain wd.record_hist wd.record_ok wd.last_none wd.last_some wd.record_trail
       wd.delete_trail wd.delete_hist in \<open>auto simp: keptInv_def simp del: worldJournal_sel worldTransport_sel\<close>)

text \<open>Everything that can happen: discoveries, any step of the lifecycle (all of them write through
  \<open>Advance\<close>), deletes, and whatever the environment does to the remotes, the files, the clock and
  the failures to come.\<close>

inductive worldRun :: "World RemoteDeps \<Rightarrow> World \<Rightarrow> bool" for d where
  start: "w_db w = emptyJournal red \<Longrightarrow> w_calls w = [] \<Longrightarrow> worldRun d w"
| discover: "worldRun d w \<Longrightarrow> worldRun d (w\<lparr>w_db := snd (Discover (w_db w) a key path facts at)\<rparr>)"
| advance: "worldRun d w \<Longrightarrow> t_From t \<noteq> noState \<Longrightarrow> worldRun d (snd (Advance (rd_Deps d) w t))"
| delete: "worldRun d w \<Longrightarrow> worldRun d (snd (DeleteRemote d w req))"
| environment: "worldRun d w \<Longrightarrow> w_db w' = w_db w \<Longrightarrow> w_calls w' = w_calls w \<Longrightarrow> worldRun d w'"

definition callsBacked :: "World \<Rightarrow> bool" where
  "callsBacked w = (\<forall>s p. (s, p) \<in> set (w_calls w) \<longrightarrow> (\<exists>a row r.
     findArtifact (w_db w) a = Some (row, r) \<and> r_RemotePath r = p \<and>
     RemoteDeletePending \<in> set (map snd (history (w_db w) a))))"

definition historiesGrow :: "JournalDB \<Rightarrow> JournalDB \<Rightarrow> bool" where
  "historiesGrow j j' = (\<forall>a. set (history j a) \<subseteq> set (history j' a))"

lemma grows_historiesGrow: "grows worldHist w w' a E \<Longrightarrow> historiesGrow (w_db w) (w_db w')"
  unfolding grows_def historiesGrow_def worldHist_def by (metis Un_upper1 set_append)

lemma callsBacked_mono:
  assumes "callsBacked w" "rowsKept (w_db w) (w_db w')" "historiesGrow (w_db w) (w_db w')" "w_calls w' = w_calls w"
  shows "callsBacked w'"
  unfolding callsBacked_def
proof (intro allI impI)
  fix s p assume "(s, p) \<in> set (w_calls w')"
  with assms(1,4) obtain a row r where c: "findArtifact (w_db w) a = Some (row, r)" "r_RemotePath r = p"
    "RemoteDeletePending \<in> set (map snd (history (w_db w) a))" unfolding callsBacked_def by metis
  from c(1,2) obtain r' where "findArtifact (w_db w') a = Some (row, r')" "r_RemotePath r' = p"
    using assms(2) unfolding rowsKept_def by metis
  moreover have "set (map snd (history (w_db w) a)) \<subseteq> set (map snd (history (w_db w') a))"
    using assms(3) by (simp add: historiesGrow_def image_mono)
  with c(3) have "RemoteDeletePending \<in> set (map snd (history (w_db w') a))" by blast
  ultimately show "\<exists>a row r. findArtifact (w_db w') a = Some (row, r) \<and> r_RemotePath r = p \<and>
      RemoteDeletePending \<in> set (map snd (history (w_db w') a))" by blast
qed

lemma callsBacked_call:
  assumes "callsBacked w" "rowsKept (w_db w) (w_db w')" "historiesGrow (w_db w) (w_db w')"
    "w_calls w' = w_calls w @ [(s, r_RemotePath rec)]" "Get (w_db w) a = Inr rec"
    "RemoteDeletePending \<in> set (map snd (history (w_db w') a))"
  shows "callsBacked w'"
proof -
  have old: "callsBacked (w'\<lparr>w_calls := w_calls w\<rparr>)" by (rule callsBacked_mono[OF assms(1)]) (use assms in simp_all)
  from assms(5) obtain row r where "findArtifact (w_db w) a = Some (row, r)" "r_RemotePath r = r_RemotePath rec"
    by (auto simp: Get_def bindE_Inr_iff withPlacements_def dest!: scanRecord_eq split: option.splits)
  then obtain r' where "findArtifact (w_db w') a = Some (row, r')" "r_RemotePath r' = r_RemotePath rec"
    using assms(2) unfolding rowsKept_def by metis
  with old assms(4,6) show ?thesis unfolding callsBacked_def by fastforce
qed

lemma Advance_world:
  assumes "worldInv w" "t_From t \<noteq> noState" "Advance (rd_Deps (worldDeps fd msg)) w t = (res, w')"
  shows "worldInv w' \<and> stepOf worldHist w w' (t_Artifact t) (Collect legalEdge) \<and> w_calls w' = w_calls w \<and>
    rowsKept (w_db w) (w_db w')"
proof -
  have u: "wd.usedBy (rd_Deps (worldDeps fd msg))" "kept.usedBy (rd_Deps (worldDeps fd msg))"
    by (simp_all add: wd.usedBy_def)
  have k: "keptInv (w_db w) w" using assms(1) by (simp add: keptInv_def)
  from wd.Advance_step[OF assms(1) u(1) assms(2,3)] wd.Advance_trail[OF u(1) assms(3)]
    kept.Advance_step[OF k u(2) assms(2,3)]
  show ?thesis unfolding keptInv_def by (blast intro: stepOf_mono)
qed

lemma Discover_world:
  assumes "wfJournal j" "Discover j a key path facts at = (res, j')"
  shows "rowsKept j j' \<and> historiesGrow j j'"
proof -
  have "stepOf history j j' a {(noState, Discovered)}" using Discover_step[OF assms] by simp
  then have "historiesGrow j j'" unfolding stepOf_def historiesGrow_def by (metis Un_upper1 order_refl set_append)
  moreover have "rowsKept j j'" using assms rowsKept_record by (metis Discover_def snd_conv)
  ultimately show ?thesis by simp
qed

lemma worldRun_inv:
  assumes "worldRun d w" "d = worldDeps fd msg"
  shows "worldInv w \<and> (\<forall>a. legalHist (worldHist w a)) \<and> callsBacked w"
  using assms
proof (induction rule: worldRun.induct)
  case (start w red)
  then show ?case
    by (simp add: worldInv_def worldHist_def callsBacked_def history_def findArtifact_def emptyJournal_def legalHist_def wfJournal_def)
next
  case (discover w a key path facts at)
  then have ih: "worldInv w" "\<And>a. legalHist (worldHist w a)" "callsBacked w" by simp_all
  obtain res j' where D: "Discover (w_db w) a key path facts at = (res, j')" by fastforce
  note s = Discover_step[OF ih(1)[unfolded worldInv_def] D]
  have "callsBacked (w\<lparr>w_db := j'\<rparr>)"
    by (rule callsBacked_mono[OF ih(3)]) (use Discover_world[OF ih(1)[unfolded worldInv_def] D] in simp_all)
  moreover have "legalHist (history j' x)" for x
    using s ih(2)[of x] by (auto simp: worldHist_def legalEdge_def intro: stepOf_legal)
  ultimately show ?case using s D by (simp add: worldInv_def worldHist_def)
next
  case (advance w t)
  then have ih: "worldInv w" "\<And>a. legalHist (worldHist w a)" "callsBacked w" by simp_all
  let ?w' = "snd (Advance (rd_Deps d) w t)"
  have "Advance (rd_Deps (worldDeps fd msg)) w t = (fst (Advance (rd_Deps d) w t), ?w')" by (simp add: advance.prems)
  note s = Advance_world[OF ih(1) advance.hyps(2) this]
  then have "historiesGrow (w_db w) (w_db ?w')" by (intro grows_historiesGrow[OF grows_stepOf]) blast
  with s have "callsBacked ?w'" by (intro callsBacked_mono[OF ih(3)]) simp_all
  moreover have "legalHist (worldHist ?w' x)" for x
    using s ih(2)[of x] by (blast intro: stepOf_legal)
  ultimately show ?case using s by blast
next
  case (delete w req)
  then have ih: "worldInv w" "\<And>a. legalHist (worldHist w a)" "callsBacked w" by simp_all
  obtain res w' where D: "DeleteRemote d w req = (res, w')" by fastforce
  then have D': "DeleteRemote (worldDeps fd msg) w req = (res, w')" by (simp add: delete.prems)
  have k: "keptInv (w_db w) w" using ih(1) by (simp add: keptInv_def)
  have wk: "kept.wired (worldDeps fd msg)" by (simp add: wd.wired_def wd.usedBy_def)
  note s = wd.DeleteRemote_step[OF ih(1) wired D']
  have kept: "rowsKept (w_db w) (w_db w')" using kept.DeleteRemote_step[OF k wk D'] by (simp add: keptInv_def)
  have hist: "historiesGrow (w_db w) (w_db w')" using s grows_historiesGrow by blast
  have "callsBacked w'"
  proof (cases "w_calls w' = w_calls w")
    case True
    show ?thesis by (rule callsBacked_mono[OF ih(3) kept hist True])
  next
    case False
    with s obtain rec w1 where r: "revalidate (worldDeps fd msg) worldJournal w req = Inr rec"
      "w_calls w' = w_calls w @ [(dq_Source req, r_RemotePath rec)]"
      "RemoteDeletePending \<in> set (map snd (worldHist w1 (dq_Artifact req)))"
      "grows worldHist w1 w' (dq_Artifact req) deleteEdges" by blast
    have "RemoteDeletePending \<in> set (map snd (history (w_db w') (dq_Artifact req)))"
      using grows_mem[OF r(4,3)] by (simp add: worldHist_def)
    moreover have "Get (w_db w) (dq_Artifact req) = Inr rec" using r(1) by (simp add: revalidate_Inr_iff)
    ultimately show ?thesis using callsBacked_call[OF ih(3) kept hist r(2)] by blast
  qed
  moreover have "legalHist (worldHist w' x)" for x
    using s ih(2)[of x] by (blast intro: grows_legal[OF _ deleteEdges_legal])
  ultimately show ?case using s D by simp
next
  case (environment w w')
  then show ?case by (simp add: worldInv_def worldHist_def callsBacked_def)
qed

text \<open>C1: in every run - whatever steps are taken, whatever the environment does in between and
  whichever journal writes and delete calls fail or are lost - each object the transport was ever
  asked to delete is the remote path of an artifact of the journal whose log records both its
  durable commit and the intent to delete.\<close>

theorem deleted_source_was_committed:
  assumes "worldRun (worldDeps fd msg) w" "(s, p) \<in> set (w_calls w)"
  shows "\<exists>a rec. Get (w_db w) a = Inr rec \<and> r_RemotePath rec = p \<and>
    LastEnteredAt (w_db w) a Committed \<noteq> None \<and> LastEnteredAt (w_db w) a RemoteDeletePending \<noteq> None"
proof -
  have inv: "wfJournal (w_db w)" "\<And>a. legalHist (history (w_db w) a)" "callsBacked w"
    using worldRun_inv[OF assms(1) refl] by (simp_all add: worldInv_def worldHist_def)
  from inv(3) assms(2) obtain a row r where f: "findArtifact (w_db w) a = Some (row, r)" "r_RemotePath r = p"
    and p: "RemoteDeletePending \<in> set (map snd (history (w_db w) a))" unfolding callsBacked_def by blast
  have "Committed \<in> set (map snd (history (w_db w) a))"
    using legal_commit_before_delete[OF wf_chained[OF inv(1)] inv(2)] p by blast
  then have "LastEnteredAt (w_db w) a Committed \<noteq> None" "LastEnteredAt (w_db w) a RemoteDeletePending \<noteq> None"
    using entered_LastEnteredAt[OF inv(1)] p by simp_all
  moreover have "Get (w_db w) a = Inr (withPlacements (w_db w) row r)" by (rule Get_wf[OF inv(1) f(1)])
  moreover have "r_RemotePath (withPlacements (w_db w) row r) = p" using f(2) by (simp add: withPlacements_def)
  ultimately show ?thesis by blast
qed

section \<open>A delete that nothing stands against is carried out\<close>

lemma Advance_applies:
  assumes "wfJournal (w_db w)" "w_journalFaults w = []" "w_clock w \<noteq> zeroTime"
    and f: "findArtifact (w_db w) a = Some (row, r)" and st: "r_State r = t_From t" "t_Artifact t = a"
    and ok: "Validate (t_From t) (t_To t) = None" "t_Key t \<noteq> []" "t_OccurredAt t = zeroTime" "t_Placement t = None"
    and key: "findByIdempotencyKey (w_db w) (t_Key t) = None"
  obtains out j' where "Advance (rd_Deps (worldDeps fd msg)) w t = (Inr out, w\<lparr>w_db := j'\<rparr>)" "wfJournal j'"
    "o_Applied out" "r_State (o_Record out) = t_To t"
    "findArtifact j' a = Some (row, updateRecord (j_redact (w_db w)) (t\<lparr>t_OccurredAt := w_clock w\<rparr>) r)"
    "\<And>k. k \<noteq> t_Key t \<Longrightarrow> findByIdempotencyKey j' k = findByIdempotencyKey (w_db w) k"
proof -
  let ?t = "t\<lparr>t_OccurredAt := w_clock w\<rparr>"
  have "Valid (r_State r)"
    using wf_row[OF assms(1) conjunct1[OF findArtifact_Some[OF f]]] by (simp add: wfRow_def)
  then have from_ok: "t_From t \<noteq> noState" using st by auto
  have v: "Valid (t_To ?t)" using ok(1) by (auto simp: Validate_def split: if_splits)
  have ra: "findArtifact (w_db w) (t_Artifact ?t) = Some (row, r)" using f st(2) by simp
  obtain out j' where S: "RecordTransition (w_db w) ?t = (Inr out, j')" "wfJournal j'" "o_Applied out"
    "o_Record out = withPlacements j' row (updateRecord (j_redact (w_db w)) ?t r)"
    "findArtifact j' (t_Artifact ?t) = Some (row, updateRecord (j_redact (w_db w)) ?t r)"
    "findByIdempotencyKey j' (t_Key ?t) = Some (row, t_To ?t)"
    "\<And>k. k \<noteq> t_Key ?t \<Longrightarrow> findByIdempotencyKey j' k = findByIdempotencyKey (w_db w) k"
    by (rule RecordTransition_stores[OF assms(1) ra]) (use st v ok key assms(3) in \<open>simp_all add: placementOK_def\<close>)
  have R: "RecordTransition (w_db w) ?t = (Inr out, j')" "o_Applied out" "r_State (o_Record out) = t_To t"
    "findArtifact j' a = Some (row, updateRecord (j_redact (w_db w)) ?t r)"
    "\<And>k. k \<noteq> t_Key t \<Longrightarrow> findByIdempotencyKey j' k = findByIdempotencyKey (w_db w) k"
    using S st(2) by (simp_all add: withPlacements_def)
  have "Advance (rd_Deps (worldDeps fd msg)) w t = (Inr out, w\<lparr>w_db := j'\<rparr>)"
    using R(1) ok(1,3) from_ok assms(2) by (simp add: Advance_def worldRecord_def nextFault_def Let_def)
  moreover have "wfJournal j'" using record_transition_facts[OF assms(1) R(1)] by simp
  ultimately show thesis using that R by blast
qed

lemma Get_found:
  "Get j a = Inr rec \<Longrightarrow> \<exists>row r. findArtifact j a = Some (row, r) \<and> rec = withPlacements j row r"
  by (auto simp: Get_def bindE_Inr_iff dest!: scanRecord_eq split: option.splits)

lemma intent_key_fresh: "requestKey req deleteAttemptTagComplete \<noteq> requestKey req deleteAttemptTagIntent"
  by (simp add: requestKey_def deleteAttemptTagComplete_def deleteAttemptTagIntent_def)

text \<open>C28: when every revalidation holds, the remote object is confirmed, no write fails and the
  attempt's keys are fresh, \<open>DeleteRemote\<close> succeeds: the object is gone from the remote, the row
  reads COMPLETE and carries the time of the delete.\<close>

theorem delete_remote_completes:
  assumes wf: "wfJournal (w_db w)" and faults: "w_journalFaults w = []" "w_remoteFaults w = []"
    and clock: "w_clock w \<noteq> zeroTime" and key: "dq_AttemptKey req \<noteq> []"
    and v: "revalidate (worldDeps fd msg) worldJournal w req = Inr rec"
    and c: "discoveredIdentity rec = Inr discovered" "w_remote w (dq_Source req, r_RemotePath rec) = Some remote"
      "\<not> Preserve (CompareIdentity discovered (currentIdentity remote))"
    and fresh: "r_State rec = Committed \<longrightarrow> findByIdempotencyKey (w_db w) (requestKey req deleteAttemptTagIntent) = None"
      "findByIdempotencyKey (w_db w) (requestKey req deleteAttemptTagComplete) = None"
  shows "\<exists>out w' rec'. DeleteRemote (worldDeps fd msg) w req = (Inr out, w') \<and> o_Applied out \<and>
    w_remote w' (dq_Source req, r_RemotePath rec) = None \<and> Get (w_db w') (dq_Artifact req) = Inr rec' \<and>
    r_State rec' = Complete \<and> r_RemoteDeletedAt rec' = Some (w_clock w)"
proof -
  let ?a = "dq_Artifact req" and ?d = "worldDeps fd msg"
  from v have g: "Get (w_db w) ?a = Inr rec" and st: "r_State rec \<in> {Committed, RemoteDeletePending}"
    by (simp_all add: revalidate_Inr_iff)
  from Get_found[OF g] obtain row r where f: "findArtifact (w_db w) ?a = Some (row, r)" "r_State r = r_State rec"
    by (auto simp: withPlacements_def)
  obtain j1 r1 where i: "recordIntent ?d w req (r_State rec) = (None, w\<lparr>w_db := j1\<rparr>)" "wfJournal j1"
    "findArtifact j1 ?a = Some (row, r1)" "r_State r1 = RemoteDeletePending"
    "findByIdempotencyKey j1 (requestKey req deleteAttemptTagComplete) = None"
  proof (cases "r_State rec = Committed")
    case True
    let ?t = "(emptyTransition ?a (requestKey req deleteAttemptTagIntent) Committed RemoteDeletePending)
       \<lparr>t_Detail := ''FR-15: recording intent to delete the remote object before revalidating its identity''\<rparr>"
    obtain out j' where A: "Advance (rd_Deps ?d) w ?t = (Inr out, w\<lparr>w_db := j'\<rparr>)" "wfJournal j'"
      "findArtifact j' ?a = Some (row, updateRecord (j_redact (w_db w)) (?t\<lparr>t_OccurredAt := w_clock w\<rparr>) r)"
      "\<And>k. k \<noteq> t_Key ?t \<Longrightarrow> findByIdempotencyKey j' k = findByIdempotencyKey (w_db w) k"
      by (rule Advance_applies[OF wf faults(1) clock f(1), of ?t])
        (use True f(2) fresh(1) in \<open>auto simp: requestKey_def Validate_None_iff Transitions_def emptyTransition_def\<close>)
    show thesis
      by (rule that[of j' "updateRecord (j_redact (w_db w)) (?t\<lparr>t_OccurredAt := w_clock w\<rparr>) r"])
        (use A True fresh(2) intent_key_fresh in \<open>simp_all add: recordIntent_def\<close>)
  next
    case False
    with st show thesis using that[of "w_db w" r] wf f fresh(2) by (simp add: recordIntent_def)
  qed
  let ?w2 = "w\<lparr>w_db := j1, w_remoteFaults := [], w_calls := w_calls w @ [(dq_Source req, r_RemotePath rec)],
     w_remote := (w_remote w)((dq_Source req, r_RemotePath rec) := None)\<rparr>"
  let ?u = "(emptyTransition ?a (requestKey req deleteAttemptTagComplete) RemoteDeletePending Complete)
     \<lparr>t_Detail := ''FR-15: remote object confirmed unchanged since discovery and deleted'',
      t_Deletion := Some \<lparr>du_DeletedAt = Some (w_clock w), du_Error = []\<rparr>\<rparr>"
  have del: "worldDelete (w\<lparr>w_db := j1\<rparr>) (dq_Source req) (r_RemotePath rec) = (None, ?w2)"
    using faults(2) by (simp add: worldDelete_def nextFault_def Let_def)
  obtain out j' where B: "Advance (rd_Deps ?d) ?w2 ?u = (Inr out, ?w2\<lparr>w_db := j'\<rparr>)" "wfJournal j'" "o_Applied out"
    "findArtifact j' ?a = Some (row, updateRecord (j_redact (w_db ?w2)) (?u\<lparr>t_OccurredAt := w_clock ?w2\<rparr>) r1)"
    by (rule Advance_applies[of ?w2 ?a row r1 ?u])
      (use i faults clock in \<open>auto simp: requestKey_def Validate_None_iff Transitions_def emptyTransition_def\<close>)
  have "confirmAndDelete ?d worldTransport (w\<lparr>w_db := j1\<rparr>) req rec = (Inr out, ?w2\<lparr>w_db := j'\<rparr>)"
    using c del B(1) by (simp add: confirmAndDelete_def worldStat_def Let_def)
  then have "DeleteRemote ?d w req = (Inr out, ?w2\<lparr>w_db := j'\<rparr>)"
    using key v i(1) by (simp add: DeleteRemote_def)
  moreover have "Get j' ?a = Inr (withPlacements j' row (updateRecord (j_redact (w_db ?w2)) (?u\<lparr>t_OccurredAt := w_clock ?w2\<rparr>) r1))"
    by (rule Get_wf[OF B(2,4)])
  moreover have "r_RemoteDeletedAt (withPlacements j' row (updateRecord (j_redact (w_db ?w2)) (?u\<lparr>t_OccurredAt := w_clock ?w2\<rparr>) r1)) = Some (w_clock w)"
    by (simp add: withPlacements_def updateRecord_def setOpt_def emptyTransition_def)
  moreover have "r_State (withPlacements j' row (updateRecord (j_redact (w_db ?w2)) (?u\<lparr>t_OccurredAt := w_clock ?w2\<rparr>) r1)) = Complete"
    by (simp add: withPlacements_def)
  ultimately show ?thesis using B(3) by simp
qed

lemma Advance_unchanged:
  assumes "w_journalFaults w = []" "Validate (t_From t) (t_To t) = None" "t_From t \<noteq> noState" "t_OccurredAt t = zeroTime"
    "RecordTransition (w_db w) (t\<lparr>t_OccurredAt := w_clock w\<rparr>) = (res, w_db w)"
  shows "Advance (rd_Deps (worldDeps fd msg)) w t = (mapErr JournalError res, w)"
proof -
  have "w\<lparr>w_journalFaults := [], w_db := w_db w\<rparr> = w" using assms(1) by (cases w) simp
  with assms show ?thesis by (simp add: Advance_def worldDeps_def worldJournal_def worldRecord_def nextFault_def Let_def)
qed

lemma delete_edges: "Validate Committed RemoteDeletePending = None" "Validate RemoteDeletePending Complete = None"
  by (simp_all add: Validate_None_iff Transitions_def)

text \<open>C37: The intent of an attempt whose key was used before, for an artifact that is COMMITTED again, is a
  replay that applies nothing; \<open>DeleteRemote\<close> does not look at whether its intent was applied.  From any
  such state, when nothing else stands against the delete, the source is deleted while the row reads
  COMMITTED, COMPLETE is refused, and the journal is exactly what it was.\<close>

theorem replayed_intent_deletes_from_committed:
  assumes wf: "wfJournal (w_db w)" and faults: "w_journalFaults w = []" "w_remoteFaults w = []"
    and clock: "w_clock w \<noteq> zeroTime" and key: "dq_AttemptKey req \<noteq> []"
    and v: "revalidate (worldDeps fd msg) worldJournal w req = Inr rec" "r_State rec = Committed"
    and c: "discoveredIdentity rec = Inr discovered" "w_remote w (dq_Source req, r_RemotePath rec) = Some remote"
      "\<not> Preserve (CompareIdentity discovered (currentIdentity remote))"
    and used: "findArtifact (w_db w) (dq_Artifact req) = Some (row, r)"
      "findByIdempotencyKey (w_db w) (requestKey req deleteAttemptTagIntent) = Some (row, RemoteDeletePending)"
    and fresh: "findByIdempotencyKey (w_db w) (requestKey req deleteAttemptTagComplete) = None"
  shows "\<exists>w'. DeleteRemote (worldDeps fd msg) w req =
      (Inl (CompleteUnrecorded (JournalError (ErrStateMismatch Committed RemoteDeletePending))), w') \<and>
    w_calls w' = w_calls w @ [(dq_Source req, r_RemotePath rec)] \<and>
    w_remote w' (dq_Source req, r_RemotePath rec) = None \<and> w_db w' = w_db w"
proof -
  let ?a = "dq_Artifact req" and ?d = "worldDeps fd msg"
  from v have g: "Get (w_db w) ?a = Inr rec" by (simp add: revalidate_Inr_iff)
  from Get_found[OF g] used(1) v(2) have st: "r_State r = Committed" by (auto simp: withPlacements_def)
  note mem = findArtifact_Some[OF used(1)]
  let ?t = "(emptyTransition ?a (requestKey req deleteAttemptTagIntent) Committed RemoteDeletePending)
     \<lparr>t_Detail := ''FR-15: recording intent to delete the remote object before revalidating its identity''\<rparr>"
  let ?t' = "?t\<lparr>t_OccurredAt := w_clock w\<rparr>"
  have art: "validateTransition ?t' = None"
    by (rule stored_transition_valid[OF wf, where row = row and r = r])
      (use clock used(1) in \<open>simp_all add: emptyTransition_def requestKey_def\<close>)
  have "recorded (w_db w) ?t'" using used mem by (auto simp: recorded_def emptyTransition_def)
  from recorded_replay[OF wf this art] obtain out where "RecordTransition (w_db w) ?t' = (Inr out, w_db w)" by blast
  then have "Advance (rd_Deps ?d) w ?t = (Inr out, w)"
    using Advance_unchanged[of w ?t "Inr out" fd msg] faults(1) delete_edges(1) by (simp add: emptyTransition_def)
  then have i: "recordIntent ?d w req (r_State rec) = (None, w)" using v(2) by (simp add: recordIntent_def)
  let ?w2 = "w\<lparr>w_remoteFaults := [], w_calls := w_calls w @ [(dq_Source req, r_RemotePath rec)],
     w_remote := (w_remote w)((dq_Source req, r_RemotePath rec) := None)\<rparr>"
  have del: "worldDelete w (dq_Source req) (r_RemotePath rec) = (None, ?w2)"
    using faults(2) by (simp add: worldDelete_def nextFault_def Let_def)
  let ?u = "(emptyTransition ?a (requestKey req deleteAttemptTagComplete) RemoteDeletePending Complete)
     \<lparr>t_Detail := ''FR-15: remote object confirmed unchanged since discovery and deleted'',
      t_Deletion := Some \<lparr>du_DeletedAt = Some (w_clock w), du_Error = []\<rparr>\<rparr>"
  let ?u' = "?u\<lparr>t_OccurredAt := w_clock w\<rparr>"
  have valid: "validateTransition ?u' = None"
    by (rule stored_transition_valid[OF wf, where row = row and r = r])
      (use clock used(1) in \<open>simp_all add: emptyTransition_def requestKey_def\<close>)
  have "RecordTransition (w_db w) ?u' = (Inl (ErrStateMismatch (r_State r) (t_From ?u')), w_db w)"
    by (rule record_mismatch[where row = row, OF valid]) (use used(1) fresh st in \<open>simp_all add: emptyTransition_def\<close>)
  then have "RecordTransition (w_db w) ?u' = (Inl (ErrStateMismatch Committed RemoteDeletePending), w_db w)"
    by (simp add: st emptyTransition_def)
  then have "Advance (rd_Deps ?d) ?w2 ?u = (Inl (JournalError (ErrStateMismatch Committed RemoteDeletePending)), ?w2)"
    using Advance_unchanged[of ?w2 ?u "Inl (ErrStateMismatch Committed RemoteDeletePending)" fd msg] faults(1) delete_edges(2)
    by (simp add: emptyTransition_def)
  then have "confirmAndDelete ?d worldTransport w req rec = (Inl (CompleteUnrecorded (JournalError (ErrStateMismatch Committed RemoteDeletePending))), ?w2)"
    using c del by (simp add: confirmAndDelete_def worldStat_def Let_def)
  then have "DeleteRemote ?d w req = (Inl (CompleteUnrecorded (JournalError (ErrStateMismatch Committed RemoteDeletePending))), ?w2)"
    using key v i by (simp add: DeleteRemote_def)
  then show ?thesis by simp
qed


section \<open>The stable strategy's delay\<close>

text \<open>The gate of the \<open>stable\<close> strategy is open exactly when the configured delay is positive and
  has passed - the boundary included - since the artifact last moved into COMMITTED.\<close>

theorem stable_gate_iff:
  "checkStableSafetyDelay (worldDeps fd msg) worldJournal w req = None \<longleftrightarrow>
     0 < dq_DeleteSafetyDelay req \<and>
     (\<exists>t. LastEnteredAt (w_db w) (dq_Artifact req) Committed = Some t \<and>
          dq_DeleteSafetyDelay req \<le> timeSub (w_clock w) t)"
  by (auto simp: checkStableSafetyDelay_def Let_def split: option.splits)

lemma RecordTransition_log:
  assumes wf: "wfJournal j" and r: "RecordTransition j t = (res, j')"
  obtains (kept) "j' = j" | (added) l where "j_log j' = j_log j @ [l]" "lg_From l = t_From t" "lg_To l = t_To t"
  using r
proof (cases rule: RecordTransition_cases)
  case same
  show thesis by (rule kept[OF same(1)])
next
  case (new out)
  have to: "t_To t \<noteq> noState" using validateTransition_None[OF new(1)] by simp
  from applyTransition_Inr[OF wf new(2) to new(3)] obtain row j1 where
    g: "(if t_From t = noState then insertArtifact j t else updateArtifact j t) = Inr (row, j1)"
    and l: "j_log j' = j_log (appendLog j1 row t)" by metis
  have "j_log j1 = j_log j"
    using g by (cases "t_From t = noState") (auto dest!: insertArtifact_Inr elim: updateArtifact_Inr)
  with l show thesis by (intro added[of "last (j_log j')"]) (simp_all add: appendLog_log)
qed

lemma LastEnteredAt_unmoved:
  assumes wf: "wfJournal j" and r: "RecordTransition j t = (res, j')" and t: "t_From t = t_To t \<or> t_To t \<noteq> st"
  shows "LastEnteredAt j' a st = LastEnteredAt j a st"
proof (cases "findArtifact j a")
  case None
  then have "history j a = []" by (simp add: history_def)
  then have "LastEnteredAt j a st = None" by (simp add: LastEnteredAt_None_iff)
  moreover have "LastEnteredAt j' a st = None"
    using record_transition_facts[OF wf r] \<open>history j a = []\<close> t by (auto simp: LastEnteredAt_None_iff)
  ultimately show ?thesis by simp
next
  case (Some rr)
  then obtain row rec where f: "findArtifact j a = Some (row, rec)" by (cases rr) auto
  from RecordTransition_row[OF wf r f] obtain rec' where f': "findArtifact j' a = Some (row, rec')" by blast
  from wf r show ?thesis
  proof (cases rule: RecordTransition_log)
    case (added l)
    then have "\<not> (lg_To l = st \<and> lg_From l \<noteq> st)" using t by auto
    then show ?thesis by (auto simp: LastEnteredAt_def newestRow_def logRowsOf_def f f' added(1))
  qed simp
qed

text \<open>No write but a move into COMMITTED from another state moves that clock: scheduled
  re-checks, refusals, the intent itself and every write of another artifact leave the gate as it
  was.\<close>

theorem stable_gate_clock:
  assumes "wfJournal (w_db w)" "RecordTransition (w_db w) t = (res, j')" "t_From t = t_To t \<or> t_To t \<noteq> Committed"
  shows "checkStableSafetyDelay (worldDeps fd msg) worldJournal (w\<lparr>w_db := j'\<rparr>) req =
    checkStableSafetyDelay (worldDeps fd msg) worldJournal w req"
  using LastEnteredAt_unmoved[OF assms] by (simp add: checkStableSafetyDelay_def split: option.split)

section \<open>Concrete worlds\<close>

definition deleteFacts :: RemoteFacts where
  "deleteFacts = \<lparr>rf_Size = Some 4, rf_ModTime = None, rf_Hash = ''c0de'', rf_HashAlg = ''sha1'', rf_BackendID = []\<rparr>"

definition deleteObject :: RemoteArtifact where
  "deleteObject = \<lparr>ra_Path = ''/d.dump'', ra_Size = 4, ra_ModTime = 0, ra_Hash = ''c0de'', ra_HashAlg = ''sha1'', ra_ID = [], ra_Kind = []\<rparr>"

definition noText :: "ArtifactID \<Rightarrow> refusalReason \<Rightarrow> string" where "noText a r = ''refused''"
definition noFold :: "string \<Rightarrow> string \<Rightarrow> bool" where "noFold a b = False"

definition deleteDeps :: "World RemoteDeps" where "deleteDeps = worldDeps noFold noText"

definition deleteStart :: World where
  "deleteStart =
     \<lparr>w_db = emptyJournal id, w_remote = [(''prod'', ''/d.dump'') \<mapsto> deleteObject],
      w_files = [''/b/d.dump'' \<mapsto> (\<lparr>fi_Size = 4, fi_IsDir = False\<rparr>, ''abcd'')],
      w_clock = 5, w_journalFaults = [], w_remoteFaults = [], w_calls = []\<rparr>"

text \<open>Discovered, and then moved along the given edges; the move into COMMITTED records the final path.\<close>

fun deleteMoves :: "nat \<Rightarrow> (State \<times> State) list \<Rightarrow> World \<Rightarrow> World" where
  "deleteMoves n [] w = w"
| "deleteMoves n (e # es) w =
     deleteMoves (n + 1) es (snd (Advance (rd_Deps deleteDeps) w
       ((exampleMove n e)\<lparr>t_LocalPath := if snd e = Committed then Some ''/b/d.dump'' else None\<rparr>)))"

definition deleteDiscovered :: World where
  "deleteDiscovered =
     deleteStart\<lparr>w_db := snd (Discover (w_db deleteStart) exampleID ''d'' ''/d.dump'' deleteFacts 1)\<rparr>"

definition deleteCommitted :: World where
  "deleteCommitted = deleteMoves 0 pathToCommitted deleteDiscovered"

definition deleteRequest :: DeleteRemoteRequest where
  "deleteRequest =
     \<lparr>dq_Source = ''prod'', dq_Artifact = exampleID, dq_AttemptKey = ''app'', dq_CompletionStrategy = ''rename'',
      dq_DeleteSafetyDelay = 0\<rparr>"

lemma deleteMoves_run:
  "worldRun deleteDeps w \<Longrightarrow> \<forall>e \<in> set es. fst e \<noteq> noState \<Longrightarrow> worldRun deleteDeps (deleteMoves n es w)"
proof (induction n es w rule: deleteMoves.induct)
  case (2 n e es w)
  let ?t = "(exampleMove n e)\<lparr>t_LocalPath := if snd e = Committed then Some ''/b/d.dump'' else None\<rparr>"
  have "worldRun deleteDeps (snd (Advance (rd_Deps deleteDeps) w ?t))"
    by (rule worldRun.advance) (use 2 in \<open>auto simp: exampleMove_def\<close>)
  with 2 show ?case by simp
qed simp

lemma deleteDiscovered_run: "worldRun deleteDeps deleteDiscovered"
  unfolding deleteDiscovered_def
  by (rule worldRun.discover, rule worldRun.start[where red = id]) (simp_all add: deleteStart_def)

lemma deleteCommitted_run: "worldRun deleteDeps deleteCommitted"
  unfolding deleteCommitted_def
  by (rule deleteMoves_run[OF deleteDiscovered_run]) (simp add: pathToCommitted_def)

lemma deleteCommitted_wf: "wfJournal (w_db deleteCommitted)"
  using worldRun_inv[OF deleteCommitted_run] by (simp add: deleteDeps_def worldInv_def)

definition deleteDone :: World where
  "deleteDone = snd (DeleteRemote deleteDeps deleteCommitted deleteRequest)"

theorem deleted_source_was_committed_witness:
  "\<exists>a. LastEnteredAt (w_db deleteDone) a Committed \<noteq> None \<and> LastEnteredAt (w_db deleteDone) a RemoteDeletePending \<noteq> None"
proof -
  have "w_calls deleteDone = [(''prod'', ''/d.dump'')]" by code_simp
  moreover have "worldRun (worldDeps noFold noText) deleteDone"
    unfolding deleteDone_def using worldRun.delete[OF deleteCommitted_run] by (simp add: deleteDeps_def)
  ultimately show ?thesis using deleted_source_was_committed[of noFold noText deleteDone "''prod''" "''/d.dump''"] by auto
qed

theorem delete_call_guarded_witness:
  "LastEnteredAt (w_db deleteDone) exampleID RemoteDeletePending \<noteq> None \<and> w_calls deleteDone = [(''prod'', ''/d.dump'')]"
proof -
  have ne: "w_calls deleteDone = [(''prod'', ''/d.dump'')]" "w_calls deleteCommitted = []" by code_simp+
  have D: "DeleteRemote (worldDeps noFold noText) deleteCommitted deleteRequest
      = (fst (DeleteRemote deleteDeps deleteCommitted deleteRequest), deleteDone)"
    by (simp add: deleteDone_def deleteDeps_def)
  have "dq_Artifact deleteRequest = exampleID" by (simp add: deleteRequest_def)
  then show ?thesis using delete_call_guarded[OF deleteCommitted_wf D] ne by auto
qed

definition deleteReinstated :: World where
  "deleteReinstated = deleteMoves 0 (pathToCommitted @ [(Committed, Quarantined), (Quarantined, Committed)]) deleteDiscovered"

theorem reinstated_source_kept_witness:
  "w_calls (snd (DeleteRemote deleteDeps deleteReinstated deleteRequest)) = w_calls deleteReinstated \<and>
   (Quarantined, Committed) \<in> set (history (w_db deleteReinstated) exampleID)"
proof -
  have "worldRun deleteDeps deleteReinstated" unfolding deleteReinstated_def
    by (rule deleteMoves_run[OF deleteDiscovered_run]) (simp add: pathToCommitted_def)
  then have wf: "wfJournal (w_db deleteReinstated)"
    by (rule worldRun_inv[OF _ deleteDeps_def, THEN conjunct1, unfolded worldInv_def])
  have "last (history (w_db deleteReinstated) exampleID) = (Quarantined, Committed)"
    "history (w_db deleteReinstated) exampleID \<noteq> []" by code_simp+
  then have h: "(Quarantined, Committed) \<in> set (history (w_db deleteReinstated) exampleID)" by (metis last_in_set)
  have e: "(Quarantined, Committed) \<in> set reinstatementEdges" by (simp add: reinstatementEdges_eq)
  have a: "dq_Artifact deleteRequest = exampleID" by (simp add: deleteRequest_def)
  have "snd (DeleteRemote deleteDeps deleteReinstated deleteRequest) = deleteReinstated"
    unfolding deleteDeps_def by (rule conjunct1[OF reinstated_source_kept[OF wf e]]) (simp only: a h)
  with h show ?thesis by (simp only: simp_thms)
qed

theorem delete_remote_completes_witness:
  "\<exists>rec'. Get (w_db deleteDone) exampleID = Inr rec' \<and> r_State rec' = Complete \<and> r_RemoteDeletedAt rec' = Some 5"
proof -
  have ok: "isOk (revalidate deleteDeps worldJournal deleteCommitted deleteRequest)" by code_simp
  then obtain rec where v: "revalidate (worldDeps noFold noText) worldJournal deleteCommitted deleteRequest = Inr rec"
    by (cases "revalidate deleteDeps worldJournal deleteCommitted deleteRequest") (auto simp: deleteDeps_def)
  have a: "dq_Artifact deleteRequest = exampleID" "dq_Source deleteRequest = ''prod''" "dq_AttemptKey deleteRequest \<noteq> []"
    by (simp_all add: deleteRequest_def)
  from v have g: "Get (w_db deleteCommitted) exampleID = Inr rec" by (simp add: revalidate_Inr_iff a)
  let ?id = "\<lparr>ri_Path = ''/d.dump'', ri_Size = 4, ri_ModTime = 0, ri_Hash = ''c0de'', ri_HashAlg = ''sha1'', ri_StableID = []\<rparr>"
  have p: "map_sum id r_RemotePath (Get (w_db deleteCommitted) exampleID) = Inr ''/d.dump''" by code_simp
  have i: "(case Get (w_db deleteCommitted) exampleID of Inr x \<Rightarrow> discoveredIdentity x | Inl _ \<Rightarrow> Inl NoDiscoveredSize) = Inr ?id"
    by code_simp
  have f: "w_journalFaults deleteCommitted = []" "w_remoteFaults deleteCommitted = []" "w_clock deleteCommitted = 5"
    "w_remote deleteCommitted (''prod'', ''/d.dump'') = Some deleteObject"
    "findByIdempotencyKey (w_db deleteCommitted) (requestKey deleteRequest deleteAttemptTagIntent) = None"
    "findByIdempotencyKey (w_db deleteCommitted) (requestKey deleteRequest deleteAttemptTagComplete) = None"
    by code_simp+
  have np: "\<not> Preserve (CompareIdentity ?id (currentIdentity deleteObject))" by code_simp
  from p i g have p': "r_RemotePath rec = ''/d.dump''" and i': "discoveredIdentity rec = Inr ?id" by simp_all
  from delete_remote_completes[OF deleteCommitted_wf f(1,2) _ a(3) v i', of deleteObject] np f p' a
  show ?thesis by (auto simp: deleteDone_def deleteDeps_def zeroTime_def)
qed

definition stableRequest :: DeleteRemoteRequest where
  "stableRequest = deleteRequest\<lparr>dq_CompletionStrategy := ''stable'', dq_DeleteSafetyDelay := 1\<rparr>"

theorem stable_gate_clock_witness:
  "checkStableSafetyDelay deleteDeps worldJournal
     (deleteCommitted\<lparr>w_db := snd (RecordTransition (w_db deleteCommitted)
        ((exampleMove 9 (Committed, Committed))\<lparr>t_OccurredAt := 7\<rparr>))\<rparr>) stableRequest
   = Some (Refused (DelayNotElapsed 0 1))"
proof -
  let ?t = "(exampleMove 9 (Committed, Committed))\<lparr>t_OccurredAt := 7\<rparr>"
  have t: "t_From ?t = t_To ?t \<or> t_To ?t \<noteq> Committed" by (simp add: exampleMove_def)
  have "checkStableSafetyDelay deleteDeps worldJournal deleteCommitted stableRequest
      = Some (Refused (DelayNotElapsed 0 1))" by code_simp
  with stable_gate_clock[OF deleteCommitted_wf surjective_pairing t, of noFold noText stableRequest]
  show ?thesis by (simp only: deleteDeps_def)
qed

definition deleteReleased :: World where
  "deleteReleased =
     (let w1 = snd (DeleteRemote deleteDeps (deleteCommitted\<lparr>w_remote := (\<lambda>_. None)\<rparr>) deleteRequest);
          w2 = snd (RetainRemote (rd_Deps deleteDeps) w1 \<lparr>rq_Artifact = exampleID, rq_AttemptKey = ''retain''\<rparr>);
          w3 = snd (ReleaseFromRetention (rd_Deps deleteDeps) w2
                 \<lparr>rl_Artifact = exampleID, rl_AttemptKey = ''release'', rl_Note = []\<rparr>)
      in w3\<lparr>w_remote := w_remote deleteCommitted\<rparr>)"

lemma deleteReleased_wf: "wfJournal (w_db deleteReleased)"
  by code_simp

theorem replayed_intent_deletes_from_committed_witness:
  "map_sum id r_State (Get (w_db deleteReleased) exampleID) = Inr Committed \<and>
   (\<exists>e w'. DeleteRemote deleteDeps deleteReleased deleteRequest = (Inl e, w') \<and> w_calls w' = [(''prod'', ''/d.dump'')] \<and>
     w_remote w' (''prod'', ''/d.dump'') = None \<and> w_db w' = w_db deleteReleased)"
proof -
  have ok: "isOk (revalidate deleteDeps worldJournal deleteReleased deleteRequest)" by code_simp
  then obtain rec where v: "revalidate (worldDeps noFold noText) worldJournal deleteReleased deleteRequest = Inr rec"
    by (cases "revalidate deleteDeps worldJournal deleteReleased deleteRequest") (auto simp: deleteDeps_def)
  have a: "dq_Artifact deleteRequest = exampleID" "dq_Source deleteRequest = ''prod''" "dq_AttemptKey deleteRequest \<noteq> []"
    by (simp_all add: deleteRequest_def)
  from v have g: "Get (w_db deleteReleased) exampleID = Inr rec" by (simp add: revalidate_Inr_iff a)
  let ?id = "\<lparr>ri_Path = ''/d.dump'', ri_Size = 4, ri_ModTime = 0, ri_Hash = ''c0de'', ri_HashAlg = ''sha1'', ri_StableID = []\<rparr>"
  have p: "map_sum id (\<lambda>x. (r_State x, r_RemotePath x)) (Get (w_db deleteReleased) exampleID) = Inr (Committed, ''/d.dump'')" by code_simp
  have i: "(case Get (w_db deleteReleased) exampleID of Inr x \<Rightarrow> discoveredIdentity x | Inl _ \<Rightarrow> Inl NoDiscoveredSize) = Inr ?id"
    by code_simp
  have f: "w_journalFaults deleteReleased = []" "w_remoteFaults deleteReleased = []" "w_clock deleteReleased = 5"
    "w_remote deleteReleased (''prod'', ''/d.dump'') = Some deleteObject" "w_calls deleteReleased = []"
    "map_option fst (findArtifact (w_db deleteReleased) exampleID) = Some 1"
    "findByIdempotencyKey (w_db deleteReleased) (requestKey deleteRequest deleteAttemptTagIntent) = Some (1, RemoteDeletePending)"
    "findByIdempotencyKey (w_db deleteReleased) (requestKey deleteRequest deleteAttemptTagComplete) = None"
    by code_simp+
  then obtain r where row: "findArtifact (w_db deleteReleased) exampleID = Some (1, r)" by auto
  have np: "\<not> Preserve (CompareIdentity ?id (currentIdentity deleteObject))" by code_simp
  from p i g have p': "r_State rec = Committed" "r_RemotePath rec = ''/d.dump''" and i': "discoveredIdentity rec = Inr ?id" by simp_all
  have m: "map_sum id r_State (Get (w_db deleteReleased) exampleID) = Inr Committed" using g p'(1) by simp
  have "w_clock deleteReleased \<noteq> zeroTime" using f(3) by (simp add: zeroTime_def)
  from replayed_intent_deletes_from_committed[OF deleteReleased_wf f(1,2) this a(3) v p'(1) i', of deleteObject 1 r] np f p' a row
  have "\<exists>e w'. DeleteRemote deleteDeps deleteReleased deleteRequest = (Inl e, w') \<and> w_calls w' = [(''prod'', ''/d.dump'')] \<and>
     w_remote w' (''prod'', ''/d.dump'') = None \<and> w_db w' = w_db deleteReleased"
    unfolding deleteDeps_def by auto
  with m show ?thesis by blast
qed

end
