(* ===== verification/CommitWorld.thy ===== *)
theory CommitWorld
  imports Commit DeleteWorld
begin

text \<open>
  \<open>Commit\<close> on a disk that can lose power.  A world holds the journal, the names of the disk as they
  stand, the names a power loss falls back to, the bytes of every inode and whether they have
  reached the medium, the names that cannot be read, the clock, and a script of failures for the
  journal and for the disk.  \<open>link\<close>, \<open>remove\<close>, \<open>rename\<close> and a written file change the names as they
  stand; only the sync of a directory makes its names survive, and only the sync of a file its
  bytes.  The journal is opened with \<open>synchronous = FULL\<close> (\<open>state.go\<close>), so its rows survive.
\<close>

section \<open>The world\<close>

record CWorld =
  cw_db :: JournalDB
  cw_dir :: "string \<Rightarrow> nat option"
  cw_saved :: "string \<Rightarrow> nat option"
  cw_data :: "nat \<Rightarrow> string"
  cw_flushed :: "nat \<Rightarrow> bool"
  cw_next :: nat
  cw_blind :: "string \<Rightarrow> bool"
  cw_clock :: instant
  cw_journalFaults :: "fault list"
  cw_diskFaults :: "fault list"

definition commitRecord :: "CWorld \<Rightarrow> Transition \<Rightarrow> (journalError + Outcome) \<times> CWorld" where
  "commitRecord w t =
     (let w0 = w\<lparr>cw_journalFaults := tl (cw_journalFaults w)\<rparr>; r = RecordTransition (cw_db w) t in
      case nextFault (cw_journalFaults w) of
        Works \<Rightarrow> (fst r, w0\<lparr>cw_db := snd r\<rparr>)
      | FailsBefore \<Rightarrow> (Inl JournalUnavailable, w0)
      | FailsAfter \<Rightarrow> (Inl JournalUnavailable, w0\<lparr>cw_db := snd r\<rparr>))"

definition commitJournal :: "CWorld JournalOps" where
  "commitJournal =
     \<lparr>jo_Get = (\<lambda>w a. Get (cw_db w) a), jo_RecordTransition = commitRecord,
      jo_LastEnteredAt = (\<lambda>w a st. Inr (LastEnteredAt (cw_db w) a st)),
      jo_LastTransition = (\<lambda>w a f t. Inr (LastTransition (cw_db w) a f t))\<rparr>"

definition commitDeps :: "CWorld Deps" where
  "commitDeps = \<lparr>d_Journal = Some commitJournal, d_Now = cw_clock, d_Cancelled = (\<lambda>_. False)\<rparr>"

text \<open>A call that changes the disk, under the script of failures.\<close>

definition onDisk :: "CWorld \<Rightarrow> (CWorld \<Rightarrow> CWorld) \<Rightarrow> 'e \<Rightarrow> 'e option \<times> CWorld" where
  "onDisk w change failure =
     (let w0 = w\<lparr>cw_diskFaults := tl (cw_diskFaults w)\<rparr> in
      case nextFault (cw_diskFaults w) of
        Works \<Rightarrow> (None, change w0)
      | FailsBefore \<Rightarrow> (Some failure, w0)
      | FailsAfter \<Rightarrow> (Some failure, change w0))"

definition ioError :: string where "ioError = ''input/output error''"

definition diskStat :: "CWorld \<Rightarrow> string \<Rightarrow> pathError + FileStat" where
  "diskStat w p =
     (if cw_blind w p then Inl (PathError ioError)
      else case cw_dir w p of None \<Rightarrow> Inl NotExist
         | Some i \<Rightarrow> Inr \<lparr>fst_Size = int (length (cw_data w i)), fst_Inode = i\<rparr>)"

definition diskHash :: "(string \<Rightarrow> string) \<Rightarrow> CWorld \<Rightarrow> string \<Rightarrow> string + (int \<times> string)" where
  "diskHash digest w p =
     (if cw_blind w p then Inl ioError
      else case cw_dir w p of None \<Rightarrow> Inl ''no such file''
         | Some i \<Rightarrow> Inr (int (length (cw_data w i)), digest (cw_data w i)))"

definition flushInode :: "nat \<Rightarrow> CWorld \<Rightarrow> CWorld" where
  "flushInode i w = w\<lparr>cw_flushed := (cw_flushed w)(i := True)\<rparr>"

definition setName :: "string \<Rightarrow> nat option \<Rightarrow> CWorld \<Rightarrow> CWorld" where
  "setName p i w = w\<lparr>cw_dir := (cw_dir w)(p := i)\<rparr>"

definition saveDir :: "string \<Rightarrow> CWorld \<Rightarrow> CWorld" where
  "saveDir dir w = w\<lparr>cw_saved := (\<lambda>n. if pathDir n = dir then cw_dir w n else cw_saved w n)\<rparr>"

definition newFile :: "string \<Rightarrow> string \<Rightarrow> bool \<Rightarrow> CWorld \<Rightarrow> CWorld" where
  "newFile p content flushed w =
     w\<lparr>cw_dir := (cw_dir w)(p := Some (cw_next w)), cw_data := (cw_data w)(cw_next w := content),
       cw_flushed := (cw_flushed w)(cw_next w := flushed), cw_next := Suc (cw_next w)\<rparr>"

definition overwrite :: "nat \<Rightarrow> string \<Rightarrow> CWorld \<Rightarrow> CWorld" where
  "overwrite i content w =
     w\<lparr>cw_data := (cw_data w)(i := content), cw_flushed := (cw_flushed w)(i := False)\<rparr>"

definition renameName :: "string \<Rightarrow> string \<Rightarrow> CWorld \<Rightarrow> CWorld" where
  "renameName p q w = w\<lparr>cw_dir := (cw_dir w)(q := cw_dir w p, p := None)\<rparr>"

definition commitDisk :: "(Manifest \<Rightarrow> string) \<Rightarrow> (string \<Rightarrow> string) \<Rightarrow> CWorld CommitFS" where
  "commitDisk enc digest =
     \<lparr>cf_Stat = diskStat,
      cf_SyncFile = (\<lambda>w p. case cw_dir w p of None \<Rightarrow> (Some ''no such file'', w)
         | Some i \<Rightarrow> onDisk w (flushInode i) ioError),
      cf_Link = (\<lambda>w p q. case cw_dir w q of Some _ \<Rightarrow> (Some LinkExists, w)
         | None \<Rightarrow> (case cw_dir w p of None \<Rightarrow> (Some (LinkError ''no such file''), w)
             | Some i \<Rightarrow> onDisk w (setName q (Some i)) (LinkError ioError))),
      cf_Remove = (\<lambda>w p. case cw_dir w p of None \<Rightarrow> (Some NotExist, w)
         | Some _ \<Rightarrow> onDisk w (setName p None) (PathError ioError)),
      cf_SyncDir = (\<lambda>w dir. onDisk w (saveDir dir) ioError),
      cf_HashLocal = diskHash digest,
      cf_WriteFile = (\<lambda>w p content. onDisk w
         (case cw_dir w p of None \<Rightarrow> newFile p content False | Some i \<Rightarrow> overwrite i content) ioError),
      cf_Rename = (\<lambda>w p q. case cw_dir w p of None \<Rightarrow> (Some ''no such file'', w)
         | Some _ \<Rightarrow> onDisk w (renameName p q) ioError),
      cf_Encode = enc\<rparr>"

lemma commitDisk_sel [simp]:
  "cf_Stat (commitDisk enc dg) = diskStat" "cf_HashLocal (commitDisk enc dg) = diskHash dg"
  "cf_Encode (commitDisk enc dg) = enc"
  "cf_SyncDir (commitDisk enc dg) w dir = onDisk w (saveDir dir) ioError"
  by (simp_all add: commitDisk_def)

lemma commitDeps_sel [simp]:
  "d_Journal commitDeps = Some commitJournal" "d_Now commitDeps = cw_clock"
  "jo_RecordTransition commitJournal = commitRecord" "jo_Get commitJournal w a = Get (cw_db w) a"
  by (simp_all add: commitDeps_def commitJournal_def)

section \<open>Names\<close>

text \<open>The names \<open>Commit\<close> manages beside the artifacts themselves.\<close>

definition manifestName :: "string \<Rightarrow> bool" where
  "manifestName n = (hasSuffix n manifestSuffix \<or> hasSuffix n (manifestSuffix @ ''.tmp''))"

definition plainName :: "string \<Rightarrow> bool" where
  "plainName n = (n \<noteq> [] \<and> \<not> IsPartialPath n \<and> \<not> manifestName n)"


lemma partial_not_manifest: "IsPartialPath n \<Longrightarrow> \<not> manifestName n"
  by (auto simp: IsPartialPath_def manifestName_def partialSuffix_def manifestSuffix_def suffix_def)

lemma partialName [simp]: "IsPartialPath (final @ partialSuffix)" "\<not> plainName (final @ partialSuffix)"
  by (simp_all add: IsPartialPath_def plainName_def suffix_def)


lemma pathJoin_suffix:
  assumes "isAbs root" "basename n"
  shows "suffix (CHR ''/'' # n) (pathJoin root n)"
  using pathJoin_abs[OF assms] by (cases "cleanElems root = []") (auto simp: joinStrings_snoc suffix_def)

lemma ManifestPath_name:
  assumes "isAbs dir" "validateManifest m = None"
  shows "manifestName (ManifestPath dir (mf_ArtifactName m))"
    "manifestName (ManifestPath dir (mf_ArtifactName m) @ ''.tmp'')"
proof -
  from assms(2) obtain st a where "NewArtifactID st (mf_ArtifactName m) = Inr a"
    by (auto simp: validateManifest_def split: if_splits sum.splits)
  then have "basename (mf_ArtifactName m @ manifestSuffix)"
    by (simp add: NewArtifactID_Inr_iff basename_def manifestSuffix_def)
  from pathJoin_suffix[OF assms(1) this] have s: "suffix manifestSuffix (ManifestPath dir (mf_ArtifactName m))"
    unfolding ManifestPath_def by (metis append_Cons suffix_appendD)
  then show "manifestName (ManifestPath dir (mf_ArtifactName m))" by (simp add: manifestName_def)
  show "manifestName (ManifestPath dir (mf_ArtifactName m) @ ''.tmp'')"
    using s by (auto simp: manifestName_def suffix_def)
qed

section \<open>The disk's invariant\<close>

definition heldBy :: "CWorld \<Rightarrow> string \<Rightarrow> nat \<Rightarrow> bool" where
  "heldBy w n i = (cw_dir w n = Some i \<or> cw_saved w n = Some i)"

text \<open>Inodes in use are old, no manifest shares one with another file, and a file under a plain
  name has reached the medium.\<close>

definition diskInv :: "CWorld \<Rightarrow> bool" where
  "diskInv w \<longleftrightarrow>
     (\<forall>n i. heldBy w n i \<longrightarrow> i < cw_next w) \<and>
     (\<forall>m n i. \<not> (heldBy w m i \<and> heldBy w n i \<and> manifestName m \<and> \<not> manifestName n)) \<and>
     (\<forall>n i. heldBy w n i \<longrightarrow> plainName n \<longrightarrow> cw_flushed w i)"

definition durable :: "CWorld \<Rightarrow> string \<Rightarrow> nat \<Rightarrow> string \<Rightarrow> bool" where
  "durable w p i content =
     (cw_dir w p = Some i \<and> cw_saved w p = Some i \<and> cw_flushed w i \<and> cw_data w i = content)"

text \<open>A change that keeps the invariant and every durable file under a plain name.\<close>

definition keeps :: "CWorld \<Rightarrow> CWorld \<Rightarrow> bool" where
  "keeps w w' \<longleftrightarrow> (diskInv w \<longrightarrow> diskInv w' \<and>
     (\<forall>p i content. plainName p \<longrightarrow> durable w p i content \<longrightarrow> durable w' p i content))"

lemma keeps_refl [simp]: "keeps w w" by (simp add: keeps_def)

lemma keeps_trans: "keeps w w' \<Longrightarrow> keeps w' w'' \<Longrightarrow> keeps w w''"
  unfolding keeps_def by blast

text \<open>The invariant of a disk that holds no more, and has flushed no less under plain names.\<close>

lemma diskInv_shrink:
  assumes "diskInv w" "\<And>n i. heldBy w' n i \<Longrightarrow> heldBy w n i" "cw_next w' = cw_next w"
    "\<And>n i. heldBy w' n i \<Longrightarrow> plainName n \<Longrightarrow> cw_flushed w i \<Longrightarrow> cw_flushed w' i"
  shows "diskInv w'"
  using assms unfolding diskInv_def by (smt (verit))

lemma keeps_frame:
  assumes "cw_dir w' = cw_dir w" "cw_saved w' = cw_saved w" "cw_data w' = cw_data w"
    "cw_flushed w' = cw_flushed w" "cw_next w' = cw_next w"
  shows "keeps w w'"
proof -
  have "heldBy w' = heldBy w" by (intro ext) (simp add: heldBy_def assms)
  then have "diskInv w' = diskInv w" unfolding diskInv_def by (simp only: assms)
  then show ?thesis by (simp add: keeps_def durable_def assms)
qed

lemma onDisk_keeps:
  assumes "\<And>x. cw_dir x = cw_dir w \<Longrightarrow> keeps x (change x)"
  shows "keeps w (snd (onDisk w change e))"
proof -
  let ?w0 = "w\<lparr>cw_diskFaults := tl (cw_diskFaults w)\<rparr>"
  have f: "keeps w ?w0" by (rule keeps_frame) simp_all
  then have "keeps w (change ?w0)" by (rule keeps_trans) (rule assms, simp)
  with f show ?thesis by (simp add: onDisk_def Let_def split: fault.split)
qed

lemma keeps_flush: "keeps w (flushInode i w)"
proof -
  have "diskInv w \<Longrightarrow> diskInv (flushInode i w)"
    by (rule diskInv_shrink) (auto simp: heldBy_def flushInode_def)
  then show ?thesis by (simp add: keeps_def durable_def flushInode_def)
qed

lemma keeps_saveDir: "keeps w (saveDir dir w)"
proof -
  have "diskInv w \<Longrightarrow> diskInv (saveDir dir w)"
    by (rule diskInv_shrink) (auto simp: heldBy_def saveDir_def split: if_splits)
  then show ?thesis by (simp add: keeps_def durable_def saveDir_def)
qed

lemma keeps_unlink:
  assumes "\<not> plainName p"
  shows "keeps w (setName p None w)"
proof -
  have "diskInv w \<Longrightarrow> diskInv (setName p None w)"
    by (rule diskInv_shrink) (auto simp: heldBy_def setName_def split: if_splits)
  then show ?thesis using assms by (auto simp: keeps_def durable_def setName_def)
qed

lemma keeps_link:
  assumes "plainName q" "cw_dir w p = Some i" "IsPartialPath p" "cw_dir w q = None" "cw_flushed w i"
  shows "keeps w (setName q (Some i) w)"
  unfolding keeps_def
proof (intro impI conjI allI)
  assume inv: "diskInv w"
  have m: "\<not> manifestName q" "\<not> manifestName p"
    using assms(1,3) partial_not_manifest by (simp_all add: plainName_def)
  have h: "heldBy w n k \<or> n = q \<and> k = i" if "heldBy (setName q (Some i) w) n k" for n k
    using that by (auto simp: heldBy_def setName_def split: if_splits)
  have pi: "heldBy w p i" using assms(2) by (simp add: heldBy_def)
  have s: "cw_next (setName q (Some i) w) = cw_next w" "cw_flushed (setName q (Some i) w) = cw_flushed w"
    by (simp_all add: setName_def)
  show "diskInv (setName q (Some i) w)"
    unfolding diskInv_def s
  proof (intro conjI allI impI)
    fix n k assume "heldBy (setName q (Some i) w) n k"
    from h[OF this] show "k < cw_next w" using inv pi unfolding diskInv_def by blast
  next
    fix a b k
    have "heldBy w a k" if "heldBy (setName q (Some i) w) a k" "manifestName a" using h[OF that(1)] that m by blast
    moreover have "heldBy w b k \<or> b = q \<and> heldBy w p k" if "heldBy (setName q (Some i) w) b k"
      using h[OF that] pi by blast
    ultimately show "\<not> (heldBy (setName q (Some i) w) a k \<and> heldBy (setName q (Some i) w) b k \<and>
        manifestName a \<and> \<not> manifestName b)"
      using inv m(2) unfolding diskInv_def by blast
  next
    fix n k assume "heldBy (setName q (Some i) w) n k" "plainName n"
    with h[of n k] inv assms(5) show "cw_flushed w k" unfolding diskInv_def by blast
  qed
qed (use assms(4) in \<open>auto simp: durable_def setName_def\<close>)

lemma keeps_newFile:
  assumes "plainName p \<longrightarrow> cw_dir w p = None \<and> flushed"
  shows "keeps w (newFile p content flushed w)"
  unfolding keeps_def
proof (intro impI conjI allI)
  assume inv: "diskInv w"
  let ?w' = "newFile p content flushed w"
  have lt: "heldBy w n k \<Longrightarrow> k < cw_next w" for n k using inv unfolding diskInv_def by blast
  then have old: "heldBy w n k \<Longrightarrow> k \<noteq> cw_next w" for n k by blast
  have h: "heldBy w n k \<or> n = p \<and> k = cw_next w" if "heldBy ?w' n k" for n k
    using that by (auto simp: heldBy_def newFile_def split: if_splits)
  have s: "cw_next ?w' = Suc (cw_next w)" "cw_flushed ?w' = (cw_flushed w)(cw_next w := flushed)"
    by (simp_all add: newFile_def)
  show "diskInv ?w'"
    unfolding diskInv_def s
  proof (intro conjI allI impI)
    fix n k assume "heldBy ?w' n k"
    from h[OF this] show "k < Suc (cw_next w)" using lt[of n k] by linarith
  next
    fix a b k
    have "a = p \<and> b = p" if "heldBy ?w' a k" "heldBy ?w' b k" "k = cw_next w"
      using h[OF that(1)] h[OF that(2)] old[of a k] old[of b k] that(3) by blast
    moreover have "heldBy w a k \<and> heldBy w b k" if "heldBy ?w' a k" "heldBy ?w' b k" "k \<noteq> cw_next w"
      using h[OF that(1)] h[OF that(2)] that(3) by blast
    ultimately show "\<not> (heldBy ?w' a k \<and> heldBy ?w' b k \<and> manifestName a \<and> \<not> manifestName b)"
      using inv unfolding diskInv_def by blast
  next
    fix n k assume a: "heldBy ?w' n k" and p: "plainName n"
    show "((cw_flushed w)(cw_next w := flushed)) k"
    proof (cases "k = cw_next w")
      case True
      with h[OF a] old[of n k] have "n = p" by blast
      with True p assms show ?thesis by simp
    next
      case False
      with h[OF a] have "heldBy w n k" by blast
      with p inv have "cw_flushed w k" unfolding diskInv_def by blast
      with False show ?thesis by simp
    qed
  qed
next
  fix q i c assume inv: "diskInv w" and "plainName q" and d: "durable w q i c"
  then have "i < cw_next w" unfolding diskInv_def durable_def heldBy_def by blast
  moreover have "q \<noteq> p" using \<open>plainName q\<close> assms d by (auto simp: durable_def)
  ultimately show "durable (newFile p content flushed w) q i c" using d by (simp add: durable_def newFile_def)
qed

lemma keeps_overwrite:
  assumes "manifestName p" "cw_dir w p = Some i"
  shows "keeps w (overwrite i content w)"
  unfolding keeps_def
proof (intro impI conjI allI)
  assume inv: "diskInv w"
  have pi: "heldBy w p i" using assms(2) by (simp add: heldBy_def)
  have h: "heldBy (overwrite i content w) n k \<longleftrightarrow> heldBy w n k" for n k
    by (simp add: heldBy_def overwrite_def)
  have o: "k \<noteq> i" if "heldBy w n k" "plainName n" for n k
    using that pi inv assms(1) unfolding diskInv_def plainName_def by blast
  have s: "cw_next (overwrite i content w) = cw_next w"
    "cw_flushed (overwrite i content w) = (cw_flushed w)(i := False)" by (simp_all add: overwrite_def)
  show "diskInv (overwrite i content w)"
    by (rule diskInv_shrink[OF inv]) (use h o s in auto)
  fix q k c assume "plainName q" "durable w q k c"
  then have "k \<noteq> i" using o[of q k] by (simp add: durable_def heldBy_def)
  with \<open>durable w q k c\<close> show "durable (overwrite i content w) q k c" by (simp add: durable_def overwrite_def)
qed

lemma keeps_rename:
  assumes "manifestName p" "manifestName q"
  shows "keeps w (renameName p q w)"
  unfolding keeps_def
proof (intro impI conjI allI)
  assume inv: "diskInv w"
  have h: "heldBy w n k \<or> n = q \<and> heldBy w p k" if "heldBy (renameName p q w) n k" for n k
    using that by (auto simp: heldBy_def renameName_def split: if_splits)
  have s: "cw_next (renameName p q w) = cw_next w" "cw_flushed (renameName p q w) = cw_flushed w"
    by (simp_all add: renameName_def)
  show "diskInv (renameName p q w)"
    unfolding diskInv_def s
  proof (intro conjI allI impI)
    fix n k assume "heldBy (renameName p q w) n k"
    from h[OF this] show "k < cw_next w" using inv unfolding diskInv_def by blast
  next
    fix a b k
    show "\<not> (heldBy (renameName p q w) a k \<and> heldBy (renameName p q w) b k \<and>
        manifestName a \<and> \<not> manifestName b)"
      using h[of a k] h[of b k] assms inv unfolding diskInv_def by blast
  next
    fix n k assume "heldBy (renameName p q w) n k" "plainName n"
    with h[of n k] assms(2) inv show "cw_flushed w k" unfolding diskInv_def plainName_def by blast
  qed
next
  fix r i c assume "plainName r" "durable w r i c"
  then show "durable (renameName p q w) r i c"
    using assms by (auto simp: durable_def renameName_def plainName_def)
qed

section \<open>The calls of one commit\<close>

lemma keeps_remove: "\<not> plainName p \<Longrightarrow> keeps w (snd (cf_Remove (commitDisk enc dg) w p))"
  by (auto simp: commitDisk_def intro!: onDisk_keeps keeps_unlink split: option.split)

lemma keeps_removeIfExists: "\<not> plainName p \<Longrightarrow> keeps w (snd (removeIfExists (commitDisk enc dg) w p))"
  using keeps_remove[of p w enc dg] unfolding removeIfExists_def
  by (auto split: prod.split option.split pathError.split)

lemma keeps_syncFile: "keeps w (snd (cf_SyncFile (commitDisk enc dg) w p))"
  by (auto simp: commitDisk_def intro!: onDisk_keeps keeps_flush split: option.split)

lemma onDisk_ok: "onDisk w change e = (None, w') \<Longrightarrow> w' = change (w\<lparr>cw_diskFaults := tl (cw_diskFaults w)\<rparr>)"
  by (auto simp: onDisk_def Let_def split: fault.splits)

lemma syncFile_ok:
  assumes "cf_SyncFile (commitDisk enc dg) w p = (None, w')"
  shows "\<exists>i. cw_dir w p = Some i \<and> cw_dir w' = cw_dir w \<and> cw_flushed w' i"
  using assms by (auto simp: commitDisk_def flushInode_def dest!: onDisk_ok split: option.splits)

lemma link_snd: "snd (linkWithoutClobbering fs w p q) = snd (cf_Link fs w p q)"
  unfolding linkWithoutClobbering_def
  by (simp split: prod.split option.split linkError.split sum.split)

lemma keeps_linkWithoutClobbering:
  assumes "plainName q" "IsPartialPath p" "\<And>i. cw_dir w p = Some i \<Longrightarrow> cw_flushed w i"
  shows "keeps w (snd (linkWithoutClobbering (commitDisk enc dg) w p q))"
proof -
  have "keeps w (snd (cf_Link (commitDisk enc dg) w p q))"
  proof (cases "cw_dir w q = None \<and> cw_dir w p \<noteq> None")
    case True
    then obtain i where i: "cw_dir w q = None" "cw_dir w p = Some i" by blast
    let ?w0 = "w\<lparr>cw_diskFaults := tl (cw_diskFaults w)\<rparr>"
    have f: "keeps w ?w0" by (rule keeps_frame) simp_all
    have "keeps ?w0 (setName q (Some i) ?w0)"
      by (rule keeps_link[OF assms(1) _ assms(2)]) (use i assms(3) in simp_all)
    with f have "keeps w (setName q (Some i) ?w0)" by (rule keeps_trans)
    with f i show ?thesis by (simp add: commitDisk_def onDisk_def Let_def split: fault.split)
  qed (auto simp: commitDisk_def split: option.split)
  then show ?thesis by (simp add: link_snd)
qed

lemma keeps_placeFile:
  assumes "plainName q" "IsPartialPath p"
  shows "keeps w (snd (placeFile (commitDisk enc dg) w p q))"
proof -
  let ?fs = "commitDisk enc dg"
  have np: "\<not> plainName p" using assms(2) by (simp add: plainName_def)
  have rm: "keeps x (snd (removeIfExists ?fs x p))" for x by (rule keeps_removeIfExists[OF np])
  obtain r w1 where s: "cf_SyncFile ?fs w p = (r, w1)" by (meson surj_pair)
  have k1: "keeps w w1" using keeps_syncFile[of w enc dg p] s by simp
  obtain r2 w2 where l: "linkWithoutClobbering ?fs w1 p q = (r2, w2)" by (meson surj_pair)
  have k2: "keeps w w2" if "r = None"
  proof -
    have "\<exists>i. cw_dir w p = Some i \<and> cw_dir w1 = cw_dir w \<and> cw_flushed w1 i" using syncFile_ok s that by simp
    then have "keeps w1 (snd (linkWithoutClobbering ?fs w1 p q))"
      by (intro keeps_linkWithoutClobbering[OF assms]) auto
    with k1 l keeps_trans show ?thesis by auto
  qed
  obtain r3 w3 where m: "removeIfExists ?fs w p = (r3, w3)" by (meson surj_pair)
  obtain r4 w4 where m2: "removeIfExists ?fs w2 p = (r4, w4)" by (meson surj_pair)
  have k3: "keeps w w3" using rm[of w] m by simp
  have k4: "keeps w w4" if "r = None" using keeps_trans[OF k2[OF that]] rm[of w2] m2 by simp
  show ?thesis unfolding placeFile_def
    using s l m m2 k1 k2 k3 k4 by (auto split: sum.split pathError.split option.split)
qed

lemma keeps_commitFile:
  assumes "plainName q" "IsPartialPath p" "commitFile (commitDisk enc dg) w p q = (r, w')"
  shows "keeps w w'"
proof -
  obtain r1 w1 where pl: "placeFile (commitDisk enc dg) w p q = (r1, w1)" by (meson surj_pair)
  have k: "keeps w w1" using keeps_placeFile[OF assms(1,2), of w enc dg] pl by simp
  have "keeps w1 (snd (onDisk w1 (saveDir (pathDir q)) ioError))" by (rule onDisk_keeps) (rule keeps_saveDir)
  with k have "keeps w (snd (onDisk w1 (saveDir (pathDir q)) ioError))" by (rule keeps_trans)
  with assms(3) k show ?thesis
    by (auto simp: commitFile_def pl split: option.splits prod.splits)
qed

text \<open>A step of the disk changes nothing but the disk.\<close>

definition onlyDisk :: "CWorld \<Rightarrow> CWorld \<Rightarrow> bool" where
  "onlyDisk w w' = (cw_db w' = cw_db w \<and> cw_clock w' = cw_clock w \<and> cw_journalFaults w' = cw_journalFaults w \<and>
     cw_blind w' = cw_blind w)"

lemma onlyDisk_refl [simp]: "onlyDisk w w" by (simp add: onlyDisk_def)
lemma onlyDisk_trans: "onlyDisk w w' \<Longrightarrow> onlyDisk w' w'' \<Longrightarrow> onlyDisk w w''" by (simp add: onlyDisk_def)

lemma onDisk_only: "(\<And>x. onlyDisk x (change x)) \<Longrightarrow> onlyDisk w (snd (onDisk w change e))"
  by (auto simp: onDisk_def Let_def onlyDisk_def split: fault.split)

lemma changes_only [simp]:
  "onlyDisk x (flushInode i x)" "onlyDisk x (setName p v x)" "onlyDisk x (saveDir d x)"
  "onlyDisk x (newFile p c b x)" "onlyDisk x (overwrite i c x)" "onlyDisk x (renameName p q x)"
  by (simp_all add: onlyDisk_def flushInode_def setName_def saveDir_def newFile_def overwrite_def renameName_def)

lemma calls_only:
  "onlyDisk w (snd (cf_Remove (commitDisk enc dg) w p))" "onlyDisk w (snd (cf_SyncFile (commitDisk enc dg) w p))"
  "onlyDisk w (snd (cf_Link (commitDisk enc dg) w p q))" "onlyDisk w (snd (cf_SyncDir (commitDisk enc dg) w d))"
  "onlyDisk w (snd (cf_WriteFile (commitDisk enc dg) w p c))" "onlyDisk w (snd (cf_Rename (commitDisk enc dg) w p q))"
  by (auto simp: commitDisk_def intro!: onDisk_only split: option.split)

lemma removeIfExists_only: "onlyDisk w (snd (removeIfExists (commitDisk enc dg) w p))"
  using calls_only(1)[of w enc dg p] unfolding removeIfExists_def
  by (auto split: prod.split option.split pathError.split)

lemma link_only: "onlyDisk w (snd (linkWithoutClobbering (commitDisk enc dg) w p q))"
  unfolding link_snd by (rule calls_only(3))

lemma placeFile_only: "onlyDisk w (snd (placeFile (commitDisk enc dg) w p q))"
proof -
  let ?fs = "commitDisk enc dg"
  obtain r w1 where s: "cf_SyncFile ?fs w p = (r, w1)" by (meson surj_pair)
  obtain r2 w2 where l: "linkWithoutClobbering ?fs w1 p q = (r2, w2)" by (meson surj_pair)
  obtain r3 w3 where m: "removeIfExists ?fs w p = (r3, w3)" by (meson surj_pair)
  obtain r4 w4 where m2: "removeIfExists ?fs w2 p = (r4, w4)" by (meson surj_pair)
  have o1: "onlyDisk w w1" using calls_only(2)[of w enc dg p] s by simp
  then have o2: "onlyDisk w w2" using link_only[of w1 enc dg p q] l onlyDisk_trans by simp
  then have o4: "onlyDisk w w4" using removeIfExists_only[of w2 enc dg p] m2 onlyDisk_trans by simp
  have o3: "onlyDisk w w3" using removeIfExists_only[of w enc dg p] m by simp
  show ?thesis unfolding placeFile_def
    using s l m m2 o1 o2 o3 o4 by (auto split: sum.split pathError.split option.split)
qed

lemma commitFile_only: "commitFile (commitDisk enc dg) w p q = (r, w') \<Longrightarrow> onlyDisk w w'"
proof -
  assume c: "commitFile (commitDisk enc dg) w p q = (r, w')"
  obtain r1 w1 where pl: "placeFile (commitDisk enc dg) w p q = (r1, w1)" by (meson surj_pair)
  have o: "onlyDisk w w1" using placeFile_only[of w enc dg p q] pl by simp
  have "onlyDisk w (snd (cf_SyncDir (commitDisk enc dg) w1 (pathDir q)))"
    using o calls_only(4)[of w1 enc dg "pathDir q"] onlyDisk_trans by blast
  with c o show ?thesis
    by (auto simp: commitFile_def pl split: option.splits prod.splits)
qed

text \<open>Where the final name stands once it is in place.\<close>

lemma linked_ok:
  assumes "linkWithoutClobbering (commitDisk enc dg) w p q = (None, w')"
  shows "cw_dir w' q \<noteq> None"
  using assms
  by (auto simp: linkWithoutClobbering_def commitDisk_def setName_def diskStat_def dest!: onDisk_ok
      split: prod.splits option.splits linkError.splits sum.splits if_splits)

lemma removeIfExists_dir: "q \<noteq> p \<Longrightarrow> cw_dir (snd (removeIfExists (commitDisk enc dg) w p)) q = cw_dir w q"
  by (auto simp: removeIfExists_def commitDisk_def onDisk_def Let_def setName_def
      split: prod.split option.split pathError.split fault.split)

lemma placeFile_ok:
  assumes "placeFile (commitDisk enc dg) w p q = (None, w')" "p \<noteq> q"
  shows "cw_dir w' q \<noteq> None"
proof -
  let ?fs = "commitDisk enc dg"
  have rm: "cw_dir x' q = cw_dir x q" if "removeIfExists ?fs x p = (r, x')" for x x' r
    using removeIfExists_dir[of q p enc dg x] assms(2) that by simp
  show ?thesis
  proof (cases "diskStat w q")
    case (Inr info)
    then have "cw_dir w q \<noteq> None" by (auto simp: diskStat_def split: if_splits option.splits)
    with assms(1) Inr show ?thesis
      by (auto simp: placeFile_def split: sum.splits if_splits prod.splits option.splits dest!: rm)
  next
    case (Inl e)
    with assms(1) obtain w1 w2 where "linkWithoutClobbering ?fs w1 p q = (None, w2)"
      "removeIfExists ?fs w2 p = (None, w')"
      by (auto simp: placeFile_def split: sum.splits if_splits prod.splits option.splits pathError.splits)
    then show ?thesis using linked_ok rm by fastforce
  qed
qed

lemma commitFile_ok:
  assumes "commitFile (commitDisk enc dg) w p q = (None, w')" "plainName q" "IsPartialPath p" "diskInv w"
  shows "\<exists>i. durable w' q i (cw_data w' i)"
proof -
  obtain w1 where pl: "placeFile (commitDisk enc dg) w p q = (None, w1)"
    and sd: "onDisk w1 (saveDir (pathDir q)) ioError = (None, w')"
    using assms(1) by (auto simp: commitFile_def split: prod.splits option.splits)
  have "p \<noteq> q" using assms(2,3) by (auto simp: plainName_def)
  from placeFile_ok[OF pl this] obtain i where i: "cw_dir w1 q = Some i" by blast
  have w': "w' = saveDir (pathDir q) (w1\<lparr>cw_diskFaults := tl (cw_diskFaults w1)\<rparr>)" using onDisk_ok[OF sd] .
  have names: "cw_dir w' q = Some i" "cw_saved w' q = Some i" using i by (simp_all add: w' saveDir_def)
  have "keeps w w'" using keeps_commitFile[OF assms(2,3,1)] .
  then have "diskInv w'" using assms(4) by (simp add: keeps_def)
  with names(1) assms(2) have "cw_flushed w' i" unfolding diskInv_def heldBy_def by blast
  with names show ?thesis by (auto simp: durable_def)
qed

lemma keeps_WriteManifest:
  assumes "isAbs dir"
  shows "keeps w (snd (WriteManifest (commitDisk enc dg) w dir m))"
proof (cases "validateManifest m")
  case None
  let ?fs = "commitDisk enc dg" and ?q = "ManifestPath dir (mf_ArtifactName m)"
  note names = ManifestPath_name[OF assms None]
  have np: "\<not> plainName (?q @ ''.tmp'')" using names(2) by (simp add: plainName_def)
  have wr: "keeps w (snd (cf_WriteFile ?fs w (?q @ ''.tmp'') (enc m)))"
    unfolding commitDisk_def
    by (auto intro!: onDisk_keeps keeps_newFile keeps_overwrite names np split: option.split simp: np[simplified])
  obtain r1 w1 where s: "cf_WriteFile ?fs w (?q @ ''.tmp'') (enc m) = (r1, w1)" by (meson surj_pair)
  have k1: "keeps w w1" using wr s by simp
  have "keeps w1 (snd (cf_Rename ?fs w1 (?q @ ''.tmp'') ?q))"
    by (auto simp: commitDisk_def intro!: onDisk_keeps keeps_rename names split: option.split)
  with k1 have k2: "keeps w (snd (cf_Rename ?fs w1 (?q @ ''.tmp'') ?q))" by (rule keeps_trans)
  show ?thesis using k1 k2 by (auto simp: WriteManifest_def None Let_def s split: option.split prod.split)
qed (simp add: WriteManifest_def)

lemma WriteManifest_only: "onlyDisk w (snd (WriteManifest (commitDisk enc dg) w dir m))"
proof (cases "validateManifest m")
  case None
  let ?fs = "commitDisk enc dg" and ?q = "ManifestPath dir (mf_ArtifactName m)"
  obtain r1 w1 where s: "cf_WriteFile ?fs w (?q @ ''.tmp'') (enc m) = (r1, w1)" by (meson surj_pair)
  have k1: "onlyDisk w w1" using calls_only(5)[of w enc dg "?q @ ''.tmp''" "enc m"] s by simp
  have k2: "onlyDisk w (snd (cf_Rename ?fs w1 (?q @ ''.tmp'') ?q))" by (rule onlyDisk_trans[OF k1 calls_only(6)])
  show ?thesis using k1 k2 by (auto simp: WriteManifest_def None Let_def s split: option.split prod.split)
qed (simp add: WriteManifest_def)

section \<open>Committed rows are on the disk\<close>

text \<open>The row of a published artifact names a file that survives a power loss.\<close>

definition rowsPlaced :: "CWorld \<Rightarrow> bool" where
  "rowsPlaced w \<longleftrightarrow> (\<forall>ar \<in> set (j_artifacts (cw_db w)). plainName (r_LocalPath (snd ar)) \<longrightarrow>
     (\<exists>i content. durable w (r_LocalPath (snd ar)) i content))"

definition safeStep :: "CWorld \<Rightarrow> CWorld \<Rightarrow> bool" where
  "safeStep w w' \<longleftrightarrow> keeps w w' \<and> (diskInv w \<longrightarrow> rowsPlaced w \<longrightarrow> rowsPlaced w')"

lemma safeStep_refl [simp]: "safeStep w w" by (simp add: safeStep_def)

lemma safeStep_trans: "safeStep w w' \<Longrightarrow> safeStep w' w'' \<Longrightarrow> safeStep w w''"
  unfolding safeStep_def using keeps_trans[of w w' w''] unfolding keeps_def by blast

lemma disk_safe:
  assumes "keeps w w'" "cw_db w' = cw_db w"
  shows "safeStep w w'"
  using assms unfolding safeStep_def rowsPlaced_def keeps_def by metis

lemma record_paths:
  assumes "RecordTransition j t = (res, j')" "ar \<in> set (j_artifacts j')"
  shows "(\<exists>br \<in> set (j_artifacts j). r_LocalPath (snd br) = r_LocalPath (snd ar)) \<or>
     t_LocalPath t = Some (r_LocalPath (snd ar)) \<or> r_LocalPath (snd ar) = []"
  using assms(1)
proof (cases rule: RecordTransition_cases)
  case same
  with assms(2) show ?thesis by blast
next
  case (new out)
  from new(3) obtain row j1 rec where
    st: "(if t_From t = noState then insertArtifact j t else updateArtifact j t) = Inr (row, j1)" and
    pl: "(case t_Placement t of None \<Rightarrow> Inr (appendLog j1 row t)
      | Some p \<Rightarrow> upsertPlacement (appendLog j1 row t) row p (t_OccurredAt t)) = Inr j'"
    by (rule applyTransition_parts)
  have "j_artifacts j' = j_artifacts j1"
    using pl by (auto dest!: upsertPlacement_frame split: option.splits)
  with assms(2) have ar: "ar \<in> set (j_artifacts j1)" by simp
  show ?thesis
  proof (cases "t_From t = noState")
    case True
    with st ar have "ar \<in> set (j_artifacts j) \<or> ar = (row, newRecord t)" by (auto dest: insertArtifact_Inr)
    then show ?thesis by (cases "t_LocalPath t") (auto simp: newRecord_def)
  next
    case False
    with st obtain r where "j1 = j\<lparr>j_artifacts := map (\<lambda>ar. if fst ar = row then (row, updateRecord (j_redact j) t (snd ar)) else ar)
            (j_artifacts j)\<rparr>"
      by (auto elim: updateArtifact_Inr)
    with ar have "ar \<in> (\<lambda>ar. if fst ar = row then (row, updateRecord (j_redact j) t (snd ar)) else ar) ` set (j_artifacts j)"
      by simp
    then obtain br where br: "br \<in> set (j_artifacts j)"
      "ar = (if fst br = row then (row, updateRecord (j_redact j) t (snd br)) else br)" by blast
    have up: "r_LocalPath (updateRecord (j_redact j) t x) = (case t_LocalPath t of Some p \<Rightarrow> p | None \<Rightarrow> r_LocalPath x)" for x
      by (simp add: updateRecord_def setOpt_def split: option.split)
    show ?thesis
    proof (cases "fst br = row")
      case True
      with br have "r_LocalPath (snd ar) = (case t_LocalPath t of Some p \<Rightarrow> p | None \<Rightarrow> r_LocalPath (snd br))" by (simp add: up)
      with br(1) show ?thesis by (cases "t_LocalPath t") auto
    next
      case False
      with br show ?thesis by auto
    qed
  qed
qed

lemma commitRecord_frame:
  assumes "commitRecord w t = (res, w')"
  shows "cw_dir w' = cw_dir w" "cw_saved w' = cw_saved w" "cw_data w' = cw_data w" "cw_flushed w' = cw_flushed w"
    "cw_next w' = cw_next w" "cw_blind w' = cw_blind w"
    "cw_db w' = cw_db w \<or> cw_db w' = snd (RecordTransition (cw_db w) t)"
    "isOk res \<Longrightarrow> cw_db w' = snd (RecordTransition (cw_db w) t) \<and> res = fst (RecordTransition (cw_db w) t)"
  using assms by (auto simp: commitRecord_def Let_def split: fault.splits)

lemma record_safe:
  assumes "commitRecord w t = (res, w')"
    "\<forall>p. t_LocalPath t = Some p \<longrightarrow> plainName p \<longrightarrow> diskInv w \<longrightarrow> (\<exists>i content. durable w p i content)"
  shows "safeStep w w'"
proof -
  note f = commitRecord_frame[OF assms(1)]
  have k: "keeps w w'" by (rule keeps_frame) (use f in simp_all)
  have d: "durable w' = durable w" by (intro ext) (simp add: durable_def f)
  have "rowsPlaced w'" if inv: "diskInv w" and rp: "rowsPlaced w"
    unfolding rowsPlaced_def d
  proof (intro ballI impI)
    fix ar assume ar: "ar \<in> set (j_artifacts (cw_db w'))" and pn: "plainName (r_LocalPath (snd ar))"
    obtain res2 j2 where r: "RecordTransition (cw_db w) t = (res2, j2)" by (meson surj_pair)
    have "ar \<in> set (j_artifacts (cw_db w)) \<or> ar \<in> set (j_artifacts j2)" using f(7) ar r by auto
    then have "(\<exists>br \<in> set (j_artifacts (cw_db w)). r_LocalPath (snd br) = r_LocalPath (snd ar)) \<or>
       t_LocalPath t = Some (r_LocalPath (snd ar)) \<or> r_LocalPath (snd ar) = []"
      using record_paths[OF r] by blast
    then consider (old) br where "br \<in> set (j_artifacts (cw_db w))" "r_LocalPath (snd br) = r_LocalPath (snd ar)"
      | (set) "t_LocalPath t = Some (r_LocalPath (snd ar))" | (empty) "r_LocalPath (snd ar) = []" by blast
    then show "\<exists>i content. durable w (r_LocalPath (snd ar)) i content"
    proof cases
      case old
      with rp pn show ?thesis unfolding rowsPlaced_def by metis
    next
      case set
      with assms(2) pn inv show ?thesis by blast
    next
      case empty
      with pn show ?thesis by (simp add: plainName_def)
    qed
  qed
  with k show ?thesis by (simp add: safeStep_def)
qed

lemma Advance_record:
  assumes "Advance commitDeps w t = (res, w')"
  obtains "w' = w" "\<not> isOk res"
  | t' res2 where "commitRecord w t' = (res2, w')" "t' = t \<or> t' = t\<lparr>t_OccurredAt := cw_clock w\<rparr>" "res = mapErr JournalError res2"
proof -
  let ?t = "if t_OccurredAt t = zeroTime then t\<lparr>t_OccurredAt := cw_clock w\<rparr> else t"
  obtain r2 w2 where r: "commitRecord w ?t = (r2, w2)" by (meson surj_pair)
  have "(w' = w \<and> \<not> isOk res) \<or> (w' = w2 \<and> res = mapErr JournalError r2)"
    using assms r by (auto simp: Advance_def Let_def split: option.splits if_splits prod.splits)
  then show thesis using that(1) that(2)[OF _ _ _] r by (smt (verit, ccfv_threshold))
qed

lemma Advance_safe:
  assumes "Advance commitDeps w t = (res, w')"
    "\<forall>p. t_LocalPath t = Some p \<longrightarrow> plainName p \<longrightarrow> diskInv w \<longrightarrow> (\<exists>i content. durable w p i content)"
  shows "safeStep w w'"
  using assms(1)
proof (cases rule: Advance_record)
  case 1
  then show ?thesis by simp
next
  case (2 t' res2)
  have "t_LocalPath t' = t_LocalPath t" using 2(2) by auto
  then show ?thesis using record_safe[OF 2(1)] assms(2) by simp
qed

section \<open>Commit\<close>

lemma writeManifest_safe:
  assumes "isAbs dir"
  shows "safeStep w (snd (writeRecoveryManifest (commitDisk enc dg) w dir rec m))"
  unfolding writeRecoveryManifest_def
  by (rule disk_safe[OF keeps_WriteManifest[OF assms]])
    (use WriteManifest_only[of w enc dg dir "manifestOf rec m"] in \<open>simp add: onlyDisk_def\<close>)

lemma finishCommit_safe:
  assumes "isAbs (ci_LocalDir inp)" "plainName final" "IsPartialPath partial"
    "finishCommit commitDeps (commitDisk enc dg) w inp partial final rec = (res, w')"
  shows "safeStep w w'"
proof -
  let ?fs = "commitDisk enc dg"
  obtain r1 w1 where cf: "commitFile ?fs w partial final = (r1, w1)" by (meson surj_pair)
  have k1: "safeStep w w1"
    using disk_safe[OF keeps_commitFile[OF assms(2,3) cf]] commitFile_only[OF cf] by (simp add: onlyDisk_def)
  show ?thesis
  proof (cases "r_LocalPath rec = partial \<and> r1 = None \<and> isOk (measureCommitted ?fs w1 final rec)")
    case False
    then show ?thesis using assms(4) cf k1
      by (auto simp: finishCommit_def split: if_splits option.splits sum.splits)
  next
    case True
    then obtain m where m: "measureCommitted ?fs w1 final rec = Inr m" by (cases "measureCommitted ?fs w1 final rec") auto
    let ?t = "committedTransition m
                ((emptyTransition (ci_Artifact inp) (ci_CommittedKey inp) Committing Committed)
                   \<lparr>t_LocalPath := Some final, t_Placement := Some (localPlacementFor m final)\<rparr>) rec"
    obtain r2 w2 where ad: "Advance commitDeps w1 ?t = (r2, w2)" by (meson surj_pair)
    have lp: "t_LocalPath ?t = Some final" by (simp add: committedTransition_def)
    have "\<exists>i c. durable w1 final i c" if "diskInv w"
      using commitFile_ok[of enc dg w partial final w1] cf True assms(2,3) that by auto
    moreover have "keeps w w1" using k1 by (simp add: safeStep_def)
    ultimately have "safeStep w w2"
    proof -
      assume a: "diskInv w \<Longrightarrow> \<exists>i c. durable w1 final i c"
      show "safeStep w w2"
      proof (cases "diskInv w")
        case True
        then have "safeStep w1 w2" by (intro Advance_safe[OF ad]) (use lp a in auto)
        with k1 show ?thesis by (rule safeStep_trans)
      qed (simp add: safeStep_def keeps_def)
    qed
    moreover have "safeStep w2 (snd (writeRecoveryManifest ?fs w2 (ci_LocalDir inp) rec' m))" for rec'
      by (rule writeManifest_safe[OF assms(1)])
    ultimately have k3: "safeStep w (snd (writeRecoveryManifest ?fs w2 (ci_LocalDir inp) rec' m))" for rec'
      using safeStep_trans by blast
    then have k4: "safeStep w w3" if "writeRecoveryManifest ?fs w2 (ci_LocalDir inp) rec' m = (r3, w3)" for rec' r3 w3
      using that by (metis snd_conv)
    show ?thesis using \<open>safeStep w w2\<close>
      using assms(4) cf True m ad by (auto simp: finishCommit_def dest: k4 split: sum.splits option.splits prod.splits)
  qed
qed

lemma commit_safe:
  assumes "isAbs (ci_LocalDir inp)" "\<And>final. finalPath (ci_LocalDir inp) (ci_Artifact inp) = Inr final \<Longrightarrow> plainName final"
    and c: "Commit commitDeps (commitDisk enc dg) w inp = (res, w')"
  shows "safeStep w w'"
proof (cases "finalPath (ci_LocalDir inp) (ci_Artifact inp)")
  case (Inl e)
  then show ?thesis using c by (auto simp: Commit_def partialPath_def split: option.splits)
next
  case (Inr final)
  let ?fs = "commitDisk enc dg"
  have p: "partialPath (ci_LocalDir inp) (ci_Artifact inp) = Inr (final @ partialSuffix)" using Inr by (simp add: partialPath_def)
  have pl: "plainName final" by (rule assms(2)[OF Inr])
  obtain r1 w1 where ad: "Advance commitDeps w (emptyTransition (ci_Artifact inp) (ci_CommittingKey inp) Verified Committing) = (r1, w1)"
    by (meson surj_pair)
  have k1: "safeStep w w1" by (rule Advance_safe[OF ad]) (simp add: emptyTransition_def)
  have fin: "safeStep w w2" if "finishCommit commitDeps ?fs w1 inp (final @ partialSuffix) final rec = (r2, w2)" for rec r2 w2
    using safeStep_trans[OF k1 finishCommit_safe[OF assms(1) pl _ that]] by simp
  have con: "safeStep w w2" if "converge ?fs w1 inp final out = (r2, w2)" for out r2 w2
  proof -
    have "w2 = w1 \<or> (\<exists>rec m. w2 = snd (writeRecoveryManifest ?fs w1 (ci_LocalDir inp) rec m))"
      using that by (auto simp: converge_def Let_def split: if_splits sum.splits option.splits prod.splits; metis snd_conv)
    with k1 writeManifest_safe[OF assms(1)] safeStep_trans show ?thesis by blast
  qed
  show ?thesis
  proof (cases r1)
    case (Inl e)
    with c k1 Inr p ad show ?thesis by (auto simp: Commit_def split: option.splits)
  next
    case ok: (Inr out)
    show ?thesis
      using c k1 Inr p ad ok fin con by (auto simp: Commit_def split: option.splits if_splits)
  qed
qed

section \<open>Runs\<close>

text \<open>One step of a run: a commit under an ordinary name, any write of the journal that names no
  final path, a file landing at a partial name, a partial removed, a stranger's file that has
  reached the medium landing at a free name, a power loss, and the world's own doings: the clock,
  the failures to come, the names that cannot be read.\<close>

inductive commitStep :: "(Manifest \<Rightarrow> string) \<Rightarrow> (string \<Rightarrow> string) \<Rightarrow> CWorld \<Rightarrow> CWorld \<Rightarrow> bool"
  for enc dg where
  commits: "isAbs (ci_LocalDir inp) \<Longrightarrow>
    finalPath (ci_LocalDir inp) (ci_Artifact inp) = Inr final \<Longrightarrow> plainName final \<Longrightarrow>
    Commit commitDeps (commitDisk enc dg) w inp = (res, w') \<Longrightarrow> commitStep enc dg w w'"
| records: "(\<forall>p. t_LocalPath t = Some p \<longrightarrow> \<not> plainName p) \<Longrightarrow> commitRecord w t = (res, w') \<Longrightarrow> commitStep enc dg w w'"
| lands: "IsPartialPath p \<Longrightarrow> commitStep enc dg w (newFile p content flushed w)"
| dropped: "IsPartialPath p \<Longrightarrow> commitStep enc dg w (setName p None w)"
| stranger: "cw_dir w p = None \<Longrightarrow> commitStep enc dg w (newFile p content True w)"
| powerLoss: "(\<forall>n. dir n = cw_dir w n \<or> dir n = cw_saved w n) \<Longrightarrow>
    (\<forall>i. cw_flushed w i \<longrightarrow> flushed i \<and> contents i = cw_data w i) \<Longrightarrow>
    commitStep enc dg w (w\<lparr>cw_dir := dir, cw_saved := dir, cw_flushed := flushed, cw_data := contents\<rparr>)"
| other: "commitStep enc dg w (w\<lparr>cw_clock := now, cw_journalFaults := jf, cw_diskFaults := df, cw_blind := blind\<rparr>)"

lemma commitStep_safe: "commitStep enc dg w w' \<Longrightarrow> safeStep w w'"
proof (induction rule: commitStep.induct)
  case (commits inp final w res w')
  then show ?case by (intro commit_safe) auto
next
  case (records t w res w')
  then show ?case by (intro record_safe) auto
next
  case (lands p w content flushed)
  then show ?case by (intro disk_safe keeps_newFile) (simp_all add: newFile_def plainName_def)
next
  case (dropped p w)
  then show ?case by (intro disk_safe keeps_unlink) (simp_all add: setName_def plainName_def)
next
  case (stranger w p content)
  then show ?case by (intro disk_safe keeps_newFile) (simp_all add: newFile_def)
next
  case (powerLoss dir w flushed contents)
  let ?w' = "w\<lparr>cw_dir := dir, cw_saved := dir, cw_flushed := flushed, cw_data := contents\<rparr>"
  have h: "heldBy w n i" if "heldBy ?w' n i" for n i
    using that spec[OF powerLoss(1), of n] by (auto simp: heldBy_def)
  have "diskInv w \<Longrightarrow> diskInv ?w'" by (erule diskInv_shrink) (use h powerLoss(2) in auto)
  moreover have "durable w p i c \<Longrightarrow> durable ?w' p i c" for p i c
    using powerLoss spec[OF powerLoss(1), of p] by (auto simp: durable_def)
  ultimately have "keeps w ?w'" by (simp add: keeps_def)
  then show ?case by (rule disk_safe) simp
next
  case (other w now jf df blind)
  then show ?case by (intro disk_safe keeps_frame) simp_all
qed

definition commitRun :: "(Manifest \<Rightarrow> string) \<Rightarrow> (string \<Rightarrow> string) \<Rightarrow> CWorld \<Rightarrow> CWorld \<Rightarrow> bool" where
  "commitRun enc dg = (commitStep enc dg)\<^sup>*\<^sup>*"

lemma commitRun_safe: "commitRun enc dg w w' \<Longrightarrow> safeStep w w'"
  unfolding commitRun_def
  by (induction rule: rtranclp_induct) (auto intro: safeStep_trans commitStep_safe)

definition startDisk :: "JournalDB \<Rightarrow> CWorld" where
  "startDisk j = \<lparr>cw_db = j, cw_dir = (\<lambda>_. None), cw_saved = (\<lambda>_. None), cw_data = (\<lambda>_. []),
     cw_flushed = (\<lambda>_. False), cw_next = 0, cw_blind = (\<lambda>_. False), cw_clock = 1,
     cw_journalFaults = [], cw_diskFaults = []\<rparr>"

lemma startDisk_inv: "diskInv (startDisk j)"
  by (simp add: diskInv_def startDisk_def heldBy_def)

text \<open>C2: Once a row of the journal names a final file, that file is there for good: from an empty
  disk and journal, after any commits with any writes failing or lost midway, power losses and
  other work, every row whose recorded local path is an ordinary final name has that file, under
  that name and with those bytes, on the medium, and no later run, power losses included, removes
  or changes it.\<close>

theorem committed_file_survives:
  assumes "commitRun enc dg (startDisk (emptyJournal red)) w" "(row, r) \<in> set (j_artifacts (cw_db w))"
    "plainName (r_LocalPath r)" "commitRun enc dg w w'"
  shows "\<exists>i content. durable w (r_LocalPath r) i content \<and> durable w' (r_LocalPath r) i content"
proof -
  have s: "safeStep (startDisk (emptyJournal red)) w" using commitRun_safe[OF assms(1)] .
  have "rowsPlaced (startDisk (emptyJournal red))" by (simp add: rowsPlaced_def startDisk_def emptyJournal_def)
  with s startDisk_inv have inv: "diskInv w" "rowsPlaced w" unfolding safeStep_def keeps_def by blast+
  from inv(2) assms(2,3) obtain i c where d: "durable w (r_LocalPath r) i c"
    unfolding rowsPlaced_def by fastforce
  have "durable w' (r_LocalPath r) i c"
    using commitRun_safe[OF assms(4)] inv(1) assms(3) d unfolding safeStep_def keeps_def by blast
  with d show ?thesis by blast
qed

end
