(* ===== verification/CommitRetry.thy ===== *)
theory CommitRetry
  imports CommitWorld
begin

text \<open>
  A commit that is retried ends: whatever writes of the journal and of the disk fail or are lost in
  earlier attempts, the next attempt that meets no failure leaves the artifact COMMITTED with the
  transferred bytes under its final name.
\<close>

section \<open>How far an attempt got\<close>

definition verifiedRow :: "CommitInput \<Rightarrow> string \<Rightarrow> JournalDB \<Rightarrow> Record \<Rightarrow> bool" where
  "verifiedRow inp final j r =
     (r_State r = Verified \<and> r_LocalPath r = final @ partialSuffix \<and>
      findByIdempotencyKey j (ci_CommittingKey inp) = None \<and> findByIdempotencyKey j (ci_CommittedKey inp) = None)"

definition committingRow :: "CommitInput \<Rightarrow> string \<Rightarrow> JournalDB \<Rightarrow> nat \<Rightarrow> Record \<Rightarrow> bool" where
  "committingRow inp final j row r =
     (r_State r = Committing \<and> r_LocalPath r = final @ partialSuffix \<and>
      findByIdempotencyKey j (ci_CommittingKey inp) = Some (row, Committing) \<and>
      findByIdempotencyKey j (ci_CommittedKey inp) = None)"

definition committedRow :: "CommitInput \<Rightarrow> string \<Rightarrow> JournalDB \<Rightarrow> nat \<Rightarrow> Record \<Rightarrow> string \<Rightarrow> bool" where
  "committedRow inp final j row r content =
     (r_State r = Committed \<and> r_LocalPath r = final \<and>
      findByIdempotencyKey j (ci_CommittingKey inp) = Some (row, Committing) \<and>
      map_option tr_BytesTransferred (r_Transfer r) = Some (int (length content)))"

text \<open>What a manifest needs of the row.\<close>

definition describable :: "Record \<Rightarrow> bool" where
  "describable r = (r_RemotePath r \<noteq> [] \<and> r_DiscoveredAt r \<noteq> zeroTime \<and> r_UpdatedAt r \<noteq> zeroTime \<and> r_Transfer r \<noteq> None)"

definition commitPhase :: "CommitInput \<Rightarrow> string \<Rightarrow> nat \<Rightarrow> string \<Rightarrow> CWorld \<Rightarrow> bool" where
  "commitPhase inp final i content w \<longleftrightarrow>
     wfJournal (cw_db w) \<and> diskInv w \<and> cw_data w i = content \<and> cw_clock w \<noteq> zeroTime \<and>
     \<not> cw_blind w final \<and> \<not> cw_blind w (final @ partialSuffix) \<and>
     (\<exists>row r. findArtifact (cw_db w) (ci_Artifact inp) = Some (row, r) \<and> describable r \<and>
        (verifiedRow inp final (cw_db w) r \<and> cw_dir w (final @ partialSuffix) = Some i \<and> cw_dir w final = None \<or>
         committingRow inp final (cw_db w) row r \<and>
           (cw_dir w (final @ partialSuffix) = Some i \<and> cw_dir w final = None \<or>
            cw_dir w (final @ partialSuffix) = Some i \<and> cw_dir w final = Some i \<or>
            cw_dir w (final @ partialSuffix) = None \<and> cw_dir w final = Some i) \<or>
         committedRow inp final (cw_db w) row r content \<and>
           cw_dir w (final @ partialSuffix) = None \<and> cw_dir w final = Some i))"

text \<open>What every attempt is given.\<close>

definition commitRequest :: "CommitInput \<Rightarrow> string \<Rightarrow> bool" where
  "commitRequest inp final =
     (validateCommit inp = None \<and> isAbs (ci_LocalDir inp) \<and>
      finalPath (ci_LocalDir inp) (ci_Artifact inp) = Inr final \<and> plainName final)"

section \<open>Moving the file, from wherever an attempt stopped\<close>

definition namesMoving :: "string \<Rightarrow> nat \<Rightarrow> CWorld \<Rightarrow> bool" where
  "namesMoving final i w =
     (cw_dir w (final @ partialSuffix) = Some i \<and> cw_dir w final = None \<or>
      cw_dir w (final @ partialSuffix) = Some i \<and> cw_dir w final = Some i \<or>
      cw_dir w (final @ partialSuffix) = None \<and> cw_dir w final = Some i)"

definition namesMoved :: "string \<Rightarrow> nat \<Rightarrow> CWorld \<Rightarrow> bool" where
  "namesMoved final i w = (cw_dir w (final @ partialSuffix) = None \<and> cw_dir w final = Some i)"

lemma suffix_name [simp]: "partialSuffix \<noteq> []" "final @ partialSuffix \<noteq> final" "final \<noteq> final @ partialSuffix"
  by (simp_all add: partialSuffix_def)

lemma nextFault_Nil [simp]: "nextFault [] = Works" by (simp add: nextFault_def)

text \<open>A call on the disk either changes it or leaves it, and uses up one entry of the script.\<close>

lemma onDisk_cases:
  assumes "onDisk w change e = (r, w')"
  obtains (changed) "w' = change (w\<lparr>cw_diskFaults := tl (cw_diskFaults w)\<rparr>)" "cw_diskFaults w = [] \<longrightarrow> r = None"
  | (left) "w' = w\<lparr>cw_diskFaults := tl (cw_diskFaults w)\<rparr>" "r = Some e" "cw_diskFaults w \<noteq> []"
  using assms by (cases "cw_diskFaults w") (auto simp: onDisk_def Let_def split: fault.splits)


text \<open>What the calls on the two names do, when no name is unreadable.\<close>

definition sameRest :: "CWorld \<Rightarrow> CWorld \<Rightarrow> bool" where
  "sameRest w w' = (onlyDisk w w' \<and> cw_data w' = cw_data w \<and> cw_next w' = cw_next w \<and>
     (cw_diskFaults w = [] \<longrightarrow> cw_diskFaults w' = []))"

lemma sameRest_trans: "sameRest w w' \<Longrightarrow> sameRest w' w'' \<Longrightarrow> sameRest w w''"
  by (simp add: sameRest_def onlyDisk_def)

lemma sync_moving:
  assumes "cf_SyncFile (commitDisk enc dg) w p = (r, w')"
  shows "cw_dir w' = cw_dir w \<and> sameRest w w' \<and> (cw_diskFaults w = [] \<longrightarrow> cw_dir w p \<noteq> None \<longrightarrow> r = None)"
  using assms
  by (auto simp: commitDisk_def flushInode_def sameRest_def onlyDisk_def split: option.splits elim!: onDisk_cases)

lemma remove_moving:
  assumes "removeIfExists (commitDisk enc dg) w p = (r, w')"
  shows "(cw_dir w' = (cw_dir w)(p := None) \<or> cw_dir w' = cw_dir w \<and> r \<noteq> None) \<and> sameRest w w' \<and>
    (cw_diskFaults w = [] \<longrightarrow> r = None)"
proof -
  obtain r1 w1 where c: "cf_Remove (commitDisk enc dg) w p = (r1, w1)" by (meson surj_pair)
  have w: "w' = w1" "r = (if r1 = Some NotExist then None else r1)"
    using assms by (auto simp: removeIfExists_def c split: option.splits pathError.splits)
  show ?thesis
  proof (cases "cw_dir w p")
    case None
    then have "(cw_dir w)(p := None) = cw_dir w" by (simp add: fun_upd_idem)
    with None c w show ?thesis by (auto simp: commitDisk_def sameRest_def onlyDisk_def)
  next
    case (Some i)
    with c w show ?thesis
      by (auto simp: commitDisk_def setName_def sameRest_def onlyDisk_def elim!: onDisk_cases)
  qed
qed

lemma link_moving:
  assumes "linkWithoutClobbering (commitDisk enc dg) w p q = (r, w')" "cw_dir w p = Some i" "cw_dir w q = None"
  shows "(cw_dir w' = (cw_dir w)(q := Some i) \<or> cw_dir w' = cw_dir w \<and> r \<noteq> None) \<and> sameRest w w' \<and>
    (cw_diskFaults w = [] \<longrightarrow> r = None)"
proof -
  obtain r1 w1 where c: "cf_Link (commitDisk enc dg) w p q = (r1, w1)" by (meson surj_pair)
  then have o: "onDisk w (setName q (Some i)) (LinkError ioError) = (r1, w1)"
    using assms(2,3) by (simp add: commitDisk_def)
  then have "r1 = None \<or> r1 = Some (LinkError ioError)" by (auto simp: onDisk_def Let_def split: fault.splits)
  then have w: "w' = w1" "r = None \<longleftrightarrow> r1 = None"
    using assms(1) by (auto simp: linkWithoutClobbering_def c)
  from o w show ?thesis by (auto simp: setName_def sameRest_def onlyDisk_def elim!: onDisk_cases)
qed

text \<open>From any point an attempt stopped at, the move goes on and leaves the names at such a point;
  when it succeeds the file has its final name alone, and without failures it succeeds.\<close>

lemma placeFile_moving:
  assumes "placeFile (commitDisk enc dg) w (final @ partialSuffix) final = (r, w')" "namesMoving final i w"
    "\<not> cw_blind w final" "\<not> cw_blind w (final @ partialSuffix)"
  shows "namesMoving final i w' \<and> sameRest w w' \<and> (r = None \<longrightarrow> namesMoved final i w') \<and>
    (cw_diskFaults w = [] \<longrightarrow> r = None)"
proof -
  let ?fs = "commitDisk enc dg" and ?p = "final @ partialSuffix"
  from assms(2) consider (start) "cw_dir w ?p = Some i" "cw_dir w final = None"
    | (linked) "cw_dir w ?p = Some i" "cw_dir w final = Some i"
    | (moved) "cw_dir w ?p = None" "cw_dir w final = Some i" by (auto simp: namesMoving_def)
  then show ?thesis
  proof cases
    case start
    then have st: "diskStat w final = Inl NotExist" "isOk (diskStat w ?p)" using assms(3,4) by (simp_all add: diskStat_def)
    obtain r1 w1 where s: "cf_SyncFile ?fs w ?p = (r1, w1)" by (meson surj_pair)
    note S = sync_moving[OF s]
    obtain r2 w2 where l: "linkWithoutClobbering ?fs w1 ?p final = (r2, w2)" by (meson surj_pair)
    note L = link_moving[OF l]
    obtain r3 w3 where m: "removeIfExists ?fs w2 ?p = (r3, w3)" by (meson surj_pair)
    note R = remove_moving[OF m]
    have n1: "cw_dir w1 ?p = Some i" "cw_dir w1 final = None" using S start by simp_all
    note L = L[OF n1]
    show ?thesis
    proof (cases "r1 = None \<and> r2 = None")
      case True
      then have e: "(r, w') = (case r3 of Some e \<Rightarrow> (Some (RemoveFailedAt ?p e), w3) | None \<Rightarrow> (None, w3))"
        using assms(1) st s l m by (cases "diskStat w ?p") (auto simp: placeFile_def)
      then have w': "w' = w3" "r = None \<longleftrightarrow> r3 = None" by (auto split: option.splits)
      have n2: "cw_dir w2 ?p = Some i" "cw_dir w2 final = Some i" using L True n1 by auto
      have rest: "sameRest w w3" using S L R sameRest_trans by blast
      have "cw_diskFaults w = [] \<Longrightarrow> r3 = None" using S L R by (auto simp: sameRest_def)
      with R n2 rest w' show ?thesis by (auto simp: namesMoving_def namesMoved_def)
    next
      case False
      then have e: "w' = (if r1 = None then w2 else w1) \<and> r \<noteq> None"
        using assms(1) st s l m by (cases "diskStat w ?p") (auto simp: placeFile_def split: option.splits)
      have rest: "sameRest w w1" "sameRest w w2" using S L sameRest_trans by blast+
      have nf: "cw_diskFaults w \<noteq> []" using S L False start by (auto simp: sameRest_def)
      have "namesMoving final i w1" using n1 by (simp add: namesMoving_def)
      moreover have "namesMoving final i w2" using L n1 by (auto simp: namesMoving_def)
      ultimately show ?thesis using e rest nf by auto
    qed
  next
    case linked
    obtain r3 w3 where m: "removeIfExists ?fs w ?p = (r3, w3)" by (meson surj_pair)
    note R = remove_moving[OF m]
    have "w' = w3 \<and> (r = None \<longleftrightarrow> r3 = None)"
      using assms(1) linked m assms(3,4) by (auto simp: placeFile_def diskStat_def sameFile_def split: option.splits)
    with R linked show ?thesis by (auto simp: namesMoving_def namesMoved_def)
  next
    case moved
    then have "w' = w \<and> r = None" using assms(1,3,4) by (auto simp: placeFile_def diskStat_def)
    with moved show ?thesis by (simp add: namesMoving_def namesMoved_def sameRest_def)
  qed
qed

lemma commitFile_moving:
  assumes "commitFile (commitDisk enc dg) w (final @ partialSuffix) final = (r, w')" "namesMoving final i w"
    "\<not> cw_blind w final" "\<not> cw_blind w (final @ partialSuffix)"
  shows "namesMoving final i w' \<and> sameRest w w' \<and> (r = None \<longrightarrow> namesMoved final i w') \<and>
    (cw_diskFaults w = [] \<longrightarrow> r = None)"
proof -
  let ?fs = "commitDisk enc dg" and ?p = "final @ partialSuffix"
  obtain r1 w1 where pl: "placeFile ?fs w ?p final = (r1, w1)" by (meson surj_pair)
  note P = placeFile_moving[OF pl assms(2-4)]
  obtain r2 w2 where sd: "onDisk w1 (saveDir (pathDir final)) ioError = (r2, w2)" by (meson surj_pair)
  have S: "cw_dir w2 = cw_dir w1 \<and> sameRest w1 w2 \<and> (cw_diskFaults w1 = [] \<longrightarrow> r2 = None)"
    using sd by (auto simp: saveDir_def sameRest_def onlyDisk_def elim!: onDisk_cases)
  have w': "w' = (if r1 = None then w2 else w1) \<and> (r = None \<longleftrightarrow> r1 = None \<and> r2 = None)"
    using assms(1) pl sd by (auto simp: commitFile_def split: option.splits)
  have same: "namesMoving final i w2 = namesMoving final i w1" "namesMoved final i w2 = namesMoved final i w1"
    using S by (simp_all add: namesMoving_def namesMoved_def)
  have "sameRest w w2" using P S sameRest_trans by blast
  with P S w' same show ?thesis by (auto simp: sameRest_def)
qed

section \<open>Writing the manifest\<close>

text \<open>The manifest leaves the other names and their bytes alone.\<close>

lemma WriteManifest_other:
  assumes "WriteManifest (commitDisk enc dg) w dir m = (r, w')" "isAbs dir" "diskInv w"
    "\<not> manifestName n" "\<not> manifestName f" "cw_dir w f = Some i"
  shows "cw_dir w' n = cw_dir w n \<and> cw_data w' i = cw_data w i"
proof (cases "validateManifest m")
  case None
  let ?fs = "commitDisk enc dg" and ?q = "ManifestPath dir (mf_ArtifactName m)"
  note names = ManifestPath_name[OF assms(2) None]
  obtain r1 w1 where wr: "cf_WriteFile ?fs w (?q @ ''.tmp'') (enc m) = (r1, w1)" by (meson surj_pair)
  obtain r2 w2 where rn: "cf_Rename ?fs w1 (?q @ ''.tmp'') ?q = (r2, w2)" by (meson surj_pair)
  have i: "heldBy w f i" using assms(6) by (simp add: heldBy_def)
  then have lt: "i \<noteq> cw_next w" using assms(3) unfolding diskInv_def by blast
  have ni: "cw_dir w (?q @ ''.tmp'') \<noteq> Some i"
    using i assms(3,5) names(2) unfolding diskInv_def heldBy_def by blast
  have nn: "n \<noteq> ?q" "n \<noteq> ?q @ ''.tmp''" using assms(4) names by auto
  have s1: "cw_dir w1 n = cw_dir w n \<and> cw_data w1 i = cw_data w i"
    using wr lt ni nn
    by (auto simp: commitDisk_def newFile_def overwrite_def split: option.splits elim!: onDisk_cases)
  have s2: "cw_dir w2 n = cw_dir w1 n \<and> cw_data w2 i = cw_data w1 i"
    using rn nn by (auto simp: commitDisk_def renameName_def split: option.splits elim!: onDisk_cases)
  show ?thesis using assms(1) s1 s2 None wr rn by (auto simp: WriteManifest_def Let_def split: option.splits)
qed (use assms(1) in \<open>simp add: WriteManifest_def\<close>)

lemma WriteManifest_works:
  assumes "WriteManifest (commitDisk enc dg) w dir m = (r, w')" "validateManifest m = None" "cw_diskFaults w = []"
  shows "r = None"
proof -
  let ?fs = "commitDisk enc dg" and ?q = "ManifestPath dir (mf_ArtifactName m)"
  obtain r1 w1 where wr: "cf_WriteFile ?fs w (?q @ ''.tmp'') (enc m) = (r1, w1)" by (meson surj_pair)
  have s: "r1 = None \<and> cw_diskFaults w1 = [] \<and> cw_dir w1 (?q @ ''.tmp'') \<noteq> None"
    using wr assms(3)
    by (auto simp: commitDisk_def newFile_def overwrite_def split: option.splits elim!: onDisk_cases)
  then obtain i where "cw_dir w1 (?q @ ''.tmp'') = Some i" by blast
  then have rn: "cf_Rename ?fs w1 (?q @ ''.tmp'') ?q = onDisk w1 (renameName (?q @ ''.tmp'') ?q) ioError"
    by (simp add: commitDisk_def)
  show ?thesis using assms(1) s assms(2) wr
    by (auto simp: WriteManifest_def Let_def rn onDisk_def)
qed

lemma manifestOf_valid:
  assumes "wfJournal j" "findArtifact j a = Some (row, r)" "describable r" "0 \<le> cm_Size m"
  shows "validateManifest (manifestOf (withPlacements j row r) m) = None"
proof -
  note mem = findArtifact_Some[OF assms(2)]
  have w: "scanRecord r = Inr r" using wf_row[OF assms(1) conjunct1[OF mem]] by (auto simp: wfRow_def)
  then obtain st where st: "NewBackupSetID (bs_Source (ar_Set (r_Artifact r))) (bs_Set (ar_Set (r_Artifact r))) = Inr st"
    and art: "isOk (NewArtifactID st (ar_Name (r_Artifact r)))"
    by (auto simp: scanRecord_def split: sum.splits)
  show ?thesis
    using assms(3,4) st art
    by (auto simp: validateManifest_def manifestOf_def withPlacements_def describable_def CurrentFormatVersion_def
        split: sum.splits)
qed

section \<open>The two writes of the journal\<close>

lemma commitRecord_result:
  assumes "commitRecord w t = (res, w')" "RecordTransition (cw_db w) t = (Inr out, j')"
  obtains (wrote) "w' = w\<lparr>cw_journalFaults := tl (cw_journalFaults w), cw_db := j'\<rparr>" "res = Inr out"
  | (lost) "w' = w\<lparr>cw_journalFaults := tl (cw_journalFaults w), cw_db := j'\<rparr>" "\<not> isOk res" "cw_journalFaults w \<noteq> []"
  | (failed) "w' = w\<lparr>cw_journalFaults := tl (cw_journalFaults w)\<rparr>" "\<not> isOk res" "cw_journalFaults w \<noteq> []"
  using assms by (cases "cw_journalFaults w") (auto simp: commitRecord_def Let_def split: fault.splits)

lemma Advance_stamped:
  assumes "Advance commitDeps w t = (res, w')" "Validate (t_From t) (t_To t) = None" "t_From t \<noteq> noState"
    "t_OccurredAt t = zeroTime"
  obtains res2 where "commitRecord w (t\<lparr>t_OccurredAt := cw_clock w\<rparr>) = (res2, w')" "res = mapErr JournalError res2"
proof -
  obtain res2 w2 where c: "commitRecord w (t\<lparr>t_OccurredAt := cw_clock w\<rparr>) = (res2, w2)" by (meson surj_pair)
  with assms have "w2 = w' \<and> res = mapErr JournalError res2" by (simp add: Advance_def Let_def)
  with c that show thesis by blast
qed

text \<open>A write of the journal leaves the disk as it is.\<close>

definition journalOnly :: "CWorld \<Rightarrow> CWorld \<Rightarrow> bool" where
  "journalOnly w w' = (\<exists>j jf. w' = w\<lparr>cw_journalFaults := jf, cw_db := j\<rparr> \<and> (cw_journalFaults w = [] \<longrightarrow> jf = []))"

lemma journalOnly_wrote [simp]:
  "journalOnly w (w\<lparr>cw_journalFaults := tl (cw_journalFaults w), cw_db := j\<rparr>)"
  "journalOnly w (w\<lparr>cw_journalFaults := tl (cw_journalFaults w)\<rparr>)"
proof -
  show "journalOnly w (w\<lparr>cw_journalFaults := tl (cw_journalFaults w), cw_db := j\<rparr>)" for j
    unfolding journalOnly_def by (intro exI[of _ j] exI[of _ "tl (cw_journalFaults w)"]) simp
  from this[of "cw_db w"] show "journalOnly w (w\<lparr>cw_journalFaults := tl (cw_journalFaults w)\<rparr>)" by simp
qed


lemma diskInv_journal [simp]: "diskInv (w\<lparr>cw_journalFaults := jf\<rparr>) = diskInv w"
  "diskInv (w\<lparr>cw_db := j\<rparr>) = diskInv w"
  by (simp_all add: diskInv_def heldBy_def)

lemma updateRecord_path:
  "r_LocalPath (updateRecord red t r) = (case t_LocalPath t of Some p \<Rightarrow> p | None \<Rightarrow> r_LocalPath r)"
  "r_Transfer (updateRecord red t r) = (case t_Transfer t of Some x \<Rightarrow> Some x | None \<Rightarrow> r_Transfer r)"
  "r_RemotePath (updateRecord red t r) = r_RemotePath r"
  "r_DiscoveredAt (updateRecord red t r) = r_DiscoveredAt r"
  "r_UpdatedAt (updateRecord red t r) = t_OccurredAt t"
  by (simp_all add: updateRecord_def setOpt_def split: option.split)

lemma updateRecord_describable:
  "describable r \<Longrightarrow> t_OccurredAt t \<noteq> zeroTime \<Longrightarrow> describable (updateRecord red t r)"
  by (simp add: describable_def updateRecord_path split: option.split)

lemma withPlacements_sel [simp]:
  "r_State (withPlacements j row r) = r_State r" "r_LocalPath (withPlacements j row r) = r_LocalPath r"
  "r_Transfer (withPlacements j row r) = r_Transfer r" "r_LocalHash (withPlacements j row r) = r_LocalHash r"
  "r_LocalHashAlg (withPlacements j row r) = r_LocalHashAlg r"
  by (simp_all add: withPlacements_def)

lemma request_keys:
  assumes "commitRequest inp final"
  shows "ci_CommittingKey inp \<noteq> []" "ci_CommittedKey inp \<noteq> []" "ci_CommittingKey inp \<noteq> ci_CommittedKey inp"
  using assms by (auto simp: commitRequest_def validateCommit_def split: if_splits)

text \<open>The first write: fresh from a verified row, replayed from a later one.\<close>

lemma committing_write:
  assumes req: "commitRequest inp final" and ph: "commitPhase inp final i content w"
    and ad: "Advance commitDeps w (emptyTransition (ci_Artifact inp) (ci_CommittingKey inp) Verified Committing) = (res, w')"
  shows "commitPhase inp final i content w' \<and> journalOnly w w' \<and> (cw_journalFaults w = [] \<longrightarrow> isOk res) \<and>
    (\<forall>out. res = Inr out \<longrightarrow> (\<exists>row r. findArtifact (cw_db w') (ci_Artifact inp) = Some (row, r) \<and> describable r \<and>
       o_Record out = withPlacements (cw_db w') row r \<and>
       (committingRow inp final (cw_db w') row r \<and> namesMoving final i w' \<or>
        \<not> o_Applied out \<and> committedRow inp final (cw_db w') row r content \<and> namesMoved final i w')))"
proof -
  let ?t = "(emptyTransition (ci_Artifact inp) (ci_CommittingKey inp) Verified Committing)\<lparr>t_OccurredAt := cw_clock w\<rparr>"
  note keys = request_keys[OF req]
  from ph have base: "wfJournal (cw_db w)" "diskInv w" "cw_data w i = content" "cw_clock w \<noteq> zeroTime"
      "\<not> cw_blind w final" "\<not> cw_blind w (final @ partialSuffix)" by (simp_all add: commitPhase_def)
  obtain res2 where c: "commitRecord w ?t = (res2, w')" "res = mapErr JournalError res2"
    by (rule Advance_stamped[OF ad]) (auto simp: Validate_None_iff Transitions_def)
  from ph obtain row r where f: "findArtifact (cw_db w) (ci_Artifact inp) = Some (row, r)" "describable r"
    and st: "verifiedRow inp final (cw_db w) r \<and> cw_dir w (final @ partialSuffix) = Some i \<and> cw_dir w final = None \<or>
         committingRow inp final (cw_db w) row r \<and> namesMoving final i w \<or>
         committedRow inp final (cw_db w) row r content \<and> namesMoved final i w"
    unfolding commitPhase_def namesMoving_def namesMoved_def by blast
  show ?thesis
  proof (cases "verifiedRow inp final (cw_db w) r")
    case True
    then have names: "cw_dir w (final @ partialSuffix) = Some i" "cw_dir w final = None"
      using st by (auto simp: verifiedRow_def committingRow_def committedRow_def)
    have ra: "findArtifact (cw_db w) (t_Artifact ?t) = Some (row, r)" using f by simp
    obtain out j' where R: "RecordTransition (cw_db w) ?t = (Inr out, j')" "wfJournal j'" "o_Applied out"
      "o_Record out = withPlacements j' row (updateRecord (j_redact (cw_db w)) ?t r)"
      "findArtifact j' (t_Artifact ?t) = Some (row, updateRecord (j_redact (cw_db w)) ?t r)"
      "findByIdempotencyKey j' (t_Key ?t) = Some (row, t_To ?t)"
      "\<And>k. k \<noteq> t_Key ?t \<Longrightarrow> findByIdempotencyKey j' k = findByIdempotencyKey (cw_db w) k"
      by (rule RecordTransition_stores[OF base(1) ra])
        (use True keys base(4) in \<open>simp_all add: verifiedRow_def placementOK_def emptyTransition_def\<close>)
    let ?r = "updateRecord (j_redact (cw_db w)) ?t r"
    have cr: "committingRow inp final j' row ?r"
      using True R(6) R(7)[of "ci_CommittedKey inp"] keys
      by (simp add: committingRow_def verifiedRow_def updateRecord_path) (simp add: emptyTransition_def)
    have dr: "describable ?r" using f(2) base(4) by (intro updateRecord_describable) simp_all
    have new: "commitPhase inp final i content (w\<lparr>cw_journalFaults := jf, cw_db := j'\<rparr>)" for jf
      unfolding commitPhase_def using base R(2,5) cr dr names by simp
    have old: "commitPhase inp final i content (w\<lparr>cw_journalFaults := jf\<rparr>)" for jf
      using ph unfolding commitPhase_def by simp
    show ?thesis
    proof (cases rule: commitRecord_result[OF c(1) R(1)])
      case 1
      then show ?thesis using new c(2) R cr dr names by (simp add: namesMoving_def)
    next
      case 2
      then show ?thesis using new c(2) by (auto simp: mapErr_Inr_iff)
    next
      case 3
      then show ?thesis using old c(2) by (auto simp: mapErr_Inr_iff)
    qed
  next
    case False
    with st have st': "committingRow inp final (cw_db w) row r \<and> namesMoving final i w \<or>
         committedRow inp final (cw_db w) row r content \<and> namesMoved final i w" by blast
    have ra: "findArtifact (cw_db w) (t_Artifact ?t) = Some (row, r)" using f by simp
    have "findByIdempotencyKey (cw_db w) (t_Key ?t) = Some (row, t_To ?t)"
      using st' by (auto simp: committingRow_def committedRow_def)
    then have R: "RecordTransition (cw_db w) ?t =
       (Inr \<lparr>o_Applied = False, o_Record = withPlacements (cw_db w) row r, o_Detail = t_Detail ?t\<rparr>, cw_db w)"
      using keys base(4) by (intro RecordTransition_again[OF base(1) ra]) simp_all
    have same: "commitPhase inp final i content (w\<lparr>cw_journalFaults := jf\<rparr>)"
      "commitPhase inp final i content (w\<lparr>cw_journalFaults := jf, cw_db := cw_db w\<rparr>)" for jf
      using ph unfolding commitPhase_def by simp_all
    show ?thesis
    proof (cases rule: commitRecord_result[OF c(1) R])
      case 1
      then show ?thesis using same c(2) f st' by (simp add: namesMoving_def namesMoved_def)
    next
      case 2
      then show ?thesis using same c(2) by (auto simp: mapErr_Inr_iff)
    next
      case 3
      then show ?thesis using same c(2) by (auto simp: mapErr_Inr_iff)
    qed
  qed
qed

text \<open>Measuring the file that was moved.\<close>

lemma measured_moved:
  assumes "namesMoved final i w" "\<not> cw_blind w final" "describable rec"
  obtains m where "measureCommitted (commitDisk enc dg) w final rec = Inr m" "cm_Size m = int (length (cw_data w i))"
    "cm_Fault m = [] \<longleftrightarrow> map_option tr_BytesTransferred (r_Transfer rec) = Some (int (length (cw_data w i)))"
proof -
  have st: "diskStat w final = Inr \<lparr>fst_Size = int (length (cw_data w i)), fst_Inode = i\<rparr>"
    using assms(1,2) by (simp add: diskStat_def namesMoved_def)
  have h: "diskHash dg w final = Inr (int (length (cw_data w i)), dg (cw_data w i))"
    using assms(1,2) by (simp add: diskHash_def namesMoved_def)
  obtain t where t: "r_Transfer rec = Some t" using assms(3) by (auto simp: describable_def)
  have ne: "faultText rec final a b c \<noteq> []" for a b c by (simp add: faultText_def)
  show thesis
  proof (cases "tr_BytesTransferred t = int (length (cw_data w i))")
    case True
    then show thesis
      using that[of "\<lparr>cm_Size = int (length (cw_data w i)), cm_Hash = r_LocalHash rec, cm_Alg = r_LocalHashAlg rec, cm_Fault = []\<rparr>"] t
      by (simp add: measureCommitted_def st Let_def)
  next
    case False
    then show thesis
      using that[of "\<lparr>cm_Size = int (length (cw_data w i)), cm_Hash = dg (cw_data w i), cm_Alg = SHA256Alg,
        cm_Fault = faultText rec final (tr_BytesTransferred t) (int (length (cw_data w i))) (dg (cw_data w i))\<rparr>"] t ne
      by (simp add: measureCommitted_def st h Let_def)
  qed
qed

definition committedStep :: "CommitInput \<Rightarrow> string \<Rightarrow> commitMeasurement \<Rightarrow> Record \<Rightarrow> Transition" where
  "committedStep inp final m rec =
     committedTransition m ((emptyTransition (ci_Artifact inp) (ci_CommittedKey inp) Committing Committed)
       \<lparr>t_LocalPath := Some final, t_Placement := Some (localPlacementFor m final)\<rparr>) rec"

lemma committedStep_sel [simp]:
  "t_Artifact (committedStep inp final m rec) = ci_Artifact inp"
  "t_Key (committedStep inp final m rec) = ci_CommittedKey inp"
  "t_From (committedStep inp final m rec) = Committing" "t_To (committedStep inp final m rec) = Committed"
  "t_OccurredAt (committedStep inp final m rec) = zeroTime"
  "t_LocalPath (committedStep inp final m rec) = Some final"
  "t_Placement (committedStep inp final m rec) = Some (localPlacementFor m final)"
  by (simp_all add: committedStep_def committedTransition_def)

lemma committed_placementOK: "final \<noteq> [] \<Longrightarrow> placementOK ((committedStep inp final m rec)\<lparr>t_OccurredAt := now\<rparr>)"
  by (simp add: placementOK_def localPlacementFor_def placementChecks_def buildPlacement_def)

text \<open>The second write.\<close>

lemma committed_write:
  assumes req: "commitRequest inp final" and ph: "commitPhase inp final i content w" and moved: "namesMoved final i w"
    and f: "findArtifact (cw_db w) (ci_Artifact inp) = Some (row, r)" and dr: "describable r"
    and cr: "committingRow inp final (cw_db w) row r"
    and m: "measureCommitted (commitDisk enc dg) w final (withPlacements j0 row r) = Inr m"
    and ad: "Advance commitDeps w (committedStep inp final m (withPlacements j0 row r)) = (res, w')"
  shows "commitPhase inp final i content w' \<and> journalOnly w w' \<and> (cw_journalFaults w = [] \<longrightarrow> isOk res) \<and>
    0 \<le> cm_Size m \<and>
    (\<forall>out. res = Inr out \<longrightarrow> (\<exists>r'. findArtifact (cw_db w') (ci_Artifact inp) = Some (row, r') \<and> describable r' \<and>
       o_Record out = withPlacements (cw_db w') row r' \<and> committedRow inp final (cw_db w') row r' content))"
proof -
  let ?rec = "withPlacements j0 row r"
  let ?t = "(committedStep inp final m ?rec)\<lparr>t_OccurredAt := cw_clock w\<rparr>"
  note keys = request_keys[OF req]
  from ph have base: "wfJournal (cw_db w)" "diskInv w" "cw_data w i = content" "cw_clock w \<noteq> zeroTime"
      "\<not> cw_blind w final" "\<not> cw_blind w (final @ partialSuffix)" by (simp_all add: commitPhase_def)
  have fin: "final \<noteq> []" using req by (simp add: commitRequest_def plainName_def)
  obtain m' where M: "measureCommitted (commitDisk enc dg) w final ?rec = Inr m'" "cm_Size m' = int (length (cw_data w i))"
    "cm_Fault m' = [] \<longleftrightarrow> map_option tr_BytesTransferred (r_Transfer ?rec) = Some (int (length (cw_data w i)))"
    by (rule measured_moved[OF moved base(5), of ?rec]) (use dr in \<open>simp add: describable_def withPlacements_def\<close>)
  have mm: "m' = m" using M(1) m by simp
  note M = M(2,3)[unfolded mm base(3)]
  obtain res2 where c: "commitRecord w ?t = (res2, w')" "res = mapErr JournalError res2"
    by (rule Advance_stamped[OF ad]) (simp_all add: Validate_None_iff Transitions_def)
  have ra: "findArtifact (cw_db w) (t_Artifact ?t) = Some (row, r)" using f by simp
  obtain out j' where R: "RecordTransition (cw_db w) ?t = (Inr out, j')" "wfJournal j'" "o_Applied out"
    "o_Record out = withPlacements j' row (updateRecord (j_redact (cw_db w)) ?t r)"
    "findArtifact j' (t_Artifact ?t) = Some (row, updateRecord (j_redact (cw_db w)) ?t r)"
    "findByIdempotencyKey j' (t_Key ?t) = Some (row, t_To ?t)"
    "\<And>k. k \<noteq> t_Key ?t \<Longrightarrow> findByIdempotencyKey j' k = findByIdempotencyKey (cw_db w) k"
    by (rule RecordTransition_stores[OF base(1) ra])
      (use cr keys base(4) fin in \<open>simp_all add: committingRow_def committed_placementOK\<close>)
  let ?r = "updateRecord (j_redact (cw_db w)) ?t r"
  have tr: "map_option tr_BytesTransferred (r_Transfer ?r) = Some (int (length content))"
    using M by (auto simp: updateRecord_path committedStep_def committedTransition_def emptyTransition_def)
  have cr': "committedRow inp final j' row ?r content"
    using cr R(7)[of "ci_CommittingKey inp"] keys tr
    by (simp add: committedRow_def committingRow_def updateRecord_path)
  have dr': "describable ?r" using dr base(4) by (intro updateRecord_describable) simp_all
  have new: "commitPhase inp final i content (w\<lparr>cw_journalFaults := jf, cw_db := j'\<rparr>)" for jf
    unfolding commitPhase_def using base R(2,5) cr' dr' moved by (simp add: namesMoved_def)
  have old: "commitPhase inp final i content (w\<lparr>cw_journalFaults := jf\<rparr>)" for jf
    using ph unfolding commitPhase_def by simp
  have sz: "0 \<le> cm_Size m" using M(1) by simp
  show ?thesis
  proof (cases rule: commitRecord_result[OF c(1) R(1)])
    case 1
    then show ?thesis using new c(2) R cr' dr' sz by simp
  next
    case 2
    then show ?thesis using new c(2) sz by (auto simp: mapErr_Inr_iff)
  next
    case 3
    then show ?thesis using old c(2) sz by (auto simp: mapErr_Inr_iff)
  qed
qed

section \<open>One attempt\<close>

text \<open>A call that touches only the manifest's names, or that only moves the file on, stays in the phase.\<close>

lemma phase_manifest:
  assumes "commitRequest inp final" "commitPhase inp final i content w"
    "WriteManifest (commitDisk enc dg) w (ci_LocalDir inp) m = (r, w')"
  shows "commitPhase inp final i content w' \<and> (namesMoved final i w \<longrightarrow> namesMoved final i w') \<and> cw_db w' = cw_db w"
proof -
  have abs: "isAbs (ci_LocalDir inp)" and pl: "plainName final" using assms(1) by (simp_all add: commitRequest_def)
  have nm: "\<not> manifestName final" "\<not> manifestName (final @ partialSuffix)"
    using pl partial_not_manifest[of "final @ partialSuffix"] by (simp_all add: plainName_def)
  have inv: "diskInv w" using assms(2) by (simp add: commitPhase_def)
  have "\<exists>f. \<not> manifestName f \<and> cw_dir w f = Some i" using assms(2) nm unfolding commitPhase_def by blast
  then obtain f where f: "\<not> manifestName f" "cw_dir w f = Some i" by blast
  note o = WriteManifest_other[OF assms(3) abs inv _ f]
  have names: "cw_dir w' final = cw_dir w final" "cw_dir w' (final @ partialSuffix) = cw_dir w (final @ partialSuffix)"
    "cw_data w' i = cw_data w i" using o nm by simp_all
  have only: "onlyDisk w w'" using WriteManifest_only[of w enc dg "ci_LocalDir inp" m] assms(3) by simp
  have "keeps w w'" using keeps_WriteManifest[OF abs, of w enc dg m] assms(3) by simp
  then have "diskInv w'" using inv by (simp add: keeps_def)
  then show ?thesis using assms(2) names only by (simp add: commitPhase_def onlyDisk_def namesMoved_def)
qed

lemma phase_moving:
  assumes "commitRequest inp final" "commitPhase inp final i content w"
    "commitFile (commitDisk enc dg) w (final @ partialSuffix) final = (r, w')"
    "findArtifact (cw_db w) (ci_Artifact inp) = Some (row, rec)" "describable rec"
    "committingRow inp final (cw_db w) row rec" "namesMoving final i w"
  shows "commitPhase inp final i content w' \<and> onlyDisk w w' \<and> (r = None \<longrightarrow> namesMoved final i w') \<and>
    (cw_diskFaults w = [] \<longrightarrow> r = None \<and> cw_diskFaults w' = [])"
proof -
  have pl: "plainName final" using assms(1) by (simp add: commitRequest_def)
  have base: "wfJournal (cw_db w)" "diskInv w" "cw_data w i = content" "cw_clock w \<noteq> zeroTime"
      "\<not> cw_blind w final" "\<not> cw_blind w (final @ partialSuffix)" using assms(2) by (simp_all add: commitPhase_def)
  note M = commitFile_moving[OF assms(3,7) base(5,6)]
  have "keeps w w'" by (rule keeps_commitFile[OF pl _ assms(3)]) simp
  then have inv: "diskInv w'" using base(2) by (simp add: keeps_def)
  have o: "onlyDisk w w'" "cw_data w' = cw_data w" "cw_diskFaults w = [] \<longrightarrow> cw_diskFaults w' = []"
    using M by (simp_all add: sameRest_def)
  have "commitPhase inp final i content w'"
    unfolding commitPhase_def
    using M inv base o assms(4-6) by (simp add: onlyDisk_def namesMoving_def)
  with M o show ?thesis by simp
qed

lemma journalOnly_names:
  "journalOnly w w' \<Longrightarrow> namesMoved final i w' = namesMoved final i w"
  "journalOnly w w' \<Longrightarrow> cw_diskFaults w' = cw_diskFaults w"
  "journalOnly w w' \<Longrightarrow> cw_journalFaults w = [] \<Longrightarrow> cw_journalFaults w' = []"
  by (auto simp: journalOnly_def namesMoved_def)

definition committedAt :: "CommitInput \<Rightarrow> string \<Rightarrow> nat \<Rightarrow> string \<Rightarrow> CWorld \<Rightarrow> bool" where
  "committedAt inp final i content w \<longleftrightarrow> namesMoved final i w \<and>
     (\<exists>row r. findArtifact (cw_db w) (ci_Artifact inp) = Some (row, r) \<and> committedRow inp final (cw_db w) row r content)"

lemma manifest_step:
  assumes "commitRequest inp final" "commitPhase inp final i content w" "committedAt inp final i content w"
    "findArtifact (cw_db w) (ci_Artifact inp) = Some (row, r)" "describable r" "0 \<le> cm_Size m"
    "writeRecoveryManifest (commitDisk enc dg) w (ci_LocalDir inp) (withPlacements (cw_db w) row r) m = (e, w')"
  shows "commitPhase inp final i content w' \<and> committedAt inp final i content w' \<and> (cw_diskFaults w = [] \<longrightarrow> e = None)"
proof -
  note W = assms(7)[unfolded writeRecoveryManifest_def]
  have wf: "wfJournal (cw_db w)" using assms(2) by (simp add: commitPhase_def)
  note v = manifestOf_valid[OF wf assms(4,5,6)]
  show ?thesis
    using phase_manifest[OF assms(1,2) W] WriteManifest_works[OF W v] assms(3) by (auto simp: committedAt_def)
qed

lemma finishCommit_phase:
  assumes req: "commitRequest inp final" and ph: "commitPhase inp final i content w"
    and f: "findArtifact (cw_db w) (ci_Artifact inp) = Some (row, r)" and dr: "describable r"
    and cr: "committingRow inp final (cw_db w) row r" and mv: "namesMoving final i w"
    and c: "finishCommit commitDeps (commitDisk enc dg) w inp (final @ partialSuffix) final (withPlacements (cw_db w) row r) = (res, w')"
  shows "commitPhase inp final i content w' \<and>
    (cw_journalFaults w = [] \<and> cw_diskFaults w = [] \<longrightarrow>
       (\<exists>out. res = Inr out \<and> r_State (o_Record out) = Committed) \<and> committedAt inp final i content w')"
proof -
  let ?fs = "commitDisk enc dg" and ?rec = "withPlacements (cw_db w) row r"
  have lp: "r_LocalPath ?rec = final @ partialSuffix" using cr by (simp add: committingRow_def)
  obtain e1 w1 where cf: "commitFile ?fs w (final @ partialSuffix) final = (e1, w1)" by (meson surj_pair)
  note M = phase_moving[OF req ph cf f dr cr mv]
  show ?thesis
  proof (cases e1)
    case (Some e)
    with c lp cf have "w' = w1" by (simp add: finishCommit_def)
    with M Some show ?thesis by simp
  next
    case None
    then have moved: "namesMoved final i w1" using M by simp
    have db: "cw_db w1 = cw_db w" using M by (simp add: onlyDisk_def)
    have b1: "\<not> cw_blind w1 final" using M by (simp add: commitPhase_def)
    obtain m where m: "measureCommitted ?fs w1 final ?rec = Inr m"
      by (rule measured_moved[OF moved b1, of ?rec]) (use dr in \<open>auto simp: describable_def withPlacements_def\<close>)
    obtain r2 w2 where ad: "Advance commitDeps w1 (committedStep inp final m ?rec) = (r2, w2)" by (meson surj_pair)
    have C: "commitPhase inp final i content w2 \<and> journalOnly w1 w2 \<and> (cw_journalFaults w1 = [] \<longrightarrow> isOk r2) \<and>
      0 \<le> cm_Size m \<and>
      (\<forall>out. r2 = Inr out \<longrightarrow> (\<exists>r'. findArtifact (cw_db w2) (ci_Artifact inp) = Some (row, r') \<and> describable r' \<and>
         o_Record out = withPlacements (cw_db w2) row r' \<and> committedRow inp final (cw_db w2) row r' content))"
      by (rule committed_write[OF req _ moved _ dr _ m ad]) (use M f cr db in simp_all)
    have step: "finishCommit commitDeps ?fs w inp (final @ partialSuffix) final ?rec =
      (case r2 of Inl e \<Rightarrow> (Inl (StepFailed e), w2)
       | Inr committed \<Rightarrow> (case writeRecoveryManifest ?fs w2 (ci_LocalDir inp) (o_Record committed) m of
            (Some e, w3) \<Rightarrow> (Inl (ManifestFailed e), w3) | (None, w3) \<Rightarrow> (Inr committed, w3)))"
      using lp cf None m ad by (simp add: finishCommit_def committedStep_def)
    have jf: "cw_journalFaults w1 = cw_journalFaults w" using M by (simp add: onlyDisk_def)
    show ?thesis
    proof (cases r2)
      case (Inl e)
      then show ?thesis using c step C jf by auto
    next
      case (Inr out)
      then obtain r' where r': "findArtifact (cw_db w2) (ci_Artifact inp) = Some (row, r')" "describable r'"
         "o_Record out = withPlacements (cw_db w2) row r'" "committedRow inp final (cw_db w2) row r' content" using C by blast
      have moved2: "namesMoved final i w2" using C moved journalOnly_names(1)[of w1 w2] by simp
      then have at: "committedAt inp final i content w2" using r' by (auto simp: committedAt_def)
      obtain e3 w3 where wm: "writeRecoveryManifest ?fs w2 (ci_LocalDir inp) (withPlacements (cw_db w2) row r') m = (e3, w3)"
        by (meson surj_pair)
      have S: "commitPhase inp final i content w3 \<and> committedAt inp final i content w3 \<and> (cw_diskFaults w2 = [] \<longrightarrow> e3 = None)"
        by (rule manifest_step[OF req _ at r'(1,2) _ wm]) (use C in simp_all)
      have d2: "cw_diskFaults w = [] \<longrightarrow> cw_diskFaults w2 = []" using M C journalOnly_names(2)[of w1 w2] by simp
      have stt: "r_State (o_Record out) = Committed" using r' by (simp add: committedRow_def)
      show ?thesis
        using c step Inr wm r'(3) S d2 stt by (cases e3) auto
    qed
  qed
qed

lemma converge_phase:
  assumes req: "commitRequest inp final" and ph: "commitPhase inp final i content w"
    and f: "findArtifact (cw_db w) (ci_Artifact inp) = Some (row, r)" and dr: "describable r"
    and cr: "committedRow inp final (cw_db w) row r content" and moved: "namesMoved final i w"
    and out: "o_Record out = withPlacements (cw_db w) row r"
    and c: "converge (commitDisk enc dg) w inp final out = (res, w')"
  shows "commitPhase inp final i content w' \<and>
    (cw_diskFaults w = [] \<longrightarrow> (\<exists>out. res = Inr out \<and> r_State (o_Record out) = Committed) \<and> committedAt inp final i content w')"
proof -
  let ?fs = "commitDisk enc dg" and ?rec = "withPlacements (cw_db w) row r"
  have b: "\<not> cw_blind w final" "cw_data w i = content" using ph by (simp_all add: commitPhase_def)
  obtain m where m: "measureCommitted ?fs w final ?rec = Inr m" "cm_Size m = int (length (cw_data w i))"
    "cm_Fault m = [] \<longleftrightarrow> map_option tr_BytesTransferred (r_Transfer ?rec) = Some (int (length (cw_data w i)))"
    by (rule measured_moved[OF moved b(1), of ?rec]) (use dr in \<open>auto simp: describable_def withPlacements_def\<close>)
  have ok: "cm_Fault m = []" "0 \<le> cm_Size m" using m(2,3) b(2) cr by (simp_all add: committedRow_def)
  have at: "committedAt inp final i content w" using moved f cr by (auto simp: committedAt_def)
  obtain e3 w3 where wm: "writeRecoveryManifest ?fs w (ci_LocalDir inp) ?rec m = (e3, w3)" by (meson surj_pair)
  note S = manifest_step[OF req ph at f dr ok(2) wm]
  have stt: "r_State (o_Record out) = Committed" "r_LocalPath ?rec = final" using cr out by (simp_all add: committedRow_def)
  show ?thesis using c S stt m(1) ok(1) out wm by (cases e3) (auto simp: converge_def)
qed

lemma attempt_phase:
  assumes req: "commitRequest inp final" and ph: "commitPhase inp final i content w"
    and c: "Commit commitDeps (commitDisk enc dg) w inp = (res, w')"
  shows "commitPhase inp final i content w' \<and>
    (cw_journalFaults w = [] \<and> cw_diskFaults w = [] \<longrightarrow>
       (\<exists>out. res = Inr out \<and> r_State (o_Record out) = Committed) \<and> committedAt inp final i content w')"
proof -
  let ?fs = "commitDisk enc dg"
  have v: "validateCommit inp = None" "finalPath (ci_LocalDir inp) (ci_Artifact inp) = Inr final"
    "partialPath (ci_LocalDir inp) (ci_Artifact inp) = Inr (final @ partialSuffix)"
    using req by (simp_all add: commitRequest_def partialPath_def)
  obtain r1 w1 where ad: "Advance commitDeps w (emptyTransition (ci_Artifact inp) (ci_CommittingKey inp) Verified Committing) = (r1, w1)"
    by (meson surj_pair)
  note A = committing_write[OF req ph ad]
  have step: "Commit commitDeps ?fs w inp = (case r1 of Inl e \<Rightarrow> (Inl (StepFailed e), w1)
      | Inr committing \<Rightarrow>
          if o_Applied committing then finishCommit commitDeps ?fs w1 inp (final @ partialSuffix) final (o_Record committing)
          else if r_State (o_Record committing) = Committed then converge ?fs w1 inp final committing
          else if r_State (o_Record committing) = Committing then
            finishCommit commitDeps ?fs w1 inp (final @ partialSuffix) final (o_Record committing)
          else (Inl (KeyUsedFor (r_State (o_Record committing))), w1))"
    using v ad by (simp add: Commit_def)
  show ?thesis
  proof (cases r1)
    case (Inl e)
    then show ?thesis using c step A by auto
  next
    case (Inr out)
    then obtain row r where R: "findArtifact (cw_db w1) (ci_Artifact inp) = Some (row, r)" "describable r"
       "o_Record out = withPlacements (cw_db w1) row r"
       "committingRow inp final (cw_db w1) row r \<and> namesMoving final i w1 \<or>
        \<not> o_Applied out \<and> committedRow inp final (cw_db w1) row r content \<and> namesMoved final i w1" using A by blast
    have ph1: "commitPhase inp final i content w1" and jf: "cw_journalFaults w = [] \<longrightarrow> cw_journalFaults w1 = []"
      "cw_diskFaults w1 = cw_diskFaults w" using A journalOnly_names(2,3)[of w w1] by simp_all
    show ?thesis
    proof (cases "committingRow inp final (cw_db w1) row r")
      case True
      then have mv: "namesMoving final i w1" using R(4) by (auto simp: committingRow_def committedRow_def)
      have "r_State (o_Record out) = Committing" using True R(3) by (simp add: committingRow_def)
      then have "finishCommit commitDeps ?fs w1 inp (final @ partialSuffix) final (withPlacements (cw_db w1) row r) = (res, w')"
        using c step Inr R(3) by (simp split: if_splits)
      from finishCommit_phase[OF req ph1 R(1,2) True mv this] show ?thesis using jf by simp
    next
      case False
      then have D: "\<not> o_Applied out" "committedRow inp final (cw_db w1) row r content" "namesMoved final i w1" using R(4) by blast+
      have "r_State (o_Record out) = Committed" using D(2) R(3) by (simp add: committedRow_def)
      then have "converge ?fs w1 inp final out = (res, w')" using c step Inr D(1) by simp
      from converge_phase[OF req ph1 R(1,2) D(2,3) R(3) this] show ?thesis using jf by simp
    qed
  qed
qed

section \<open>Attempts\<close>

text \<open>Attempts of the same request, each with its own script of failures.\<close>

fun commitAttempts :: "(Manifest \<Rightarrow> string) \<Rightarrow> (string \<Rightarrow> string) \<Rightarrow> CommitInput \<Rightarrow> (fault list \<times> fault list) list \<Rightarrow> CWorld \<Rightarrow> CWorld" where
  "commitAttempts enc dg inp [] w = w"
| "commitAttempts enc dg inp ((jf, df) # rest) w =
     commitAttempts enc dg inp rest
       (snd (Commit commitDeps (commitDisk enc dg) (w\<lparr>cw_journalFaults := jf, cw_diskFaults := df\<rparr>) inp))"

lemma phase_faults [simp]:
  "commitPhase inp final i content (w\<lparr>cw_journalFaults := jf, cw_diskFaults := df\<rparr>) = commitPhase inp final i content w"
proof -
  have "diskInv (w\<lparr>cw_journalFaults := jf, cw_diskFaults := df\<rparr>) = diskInv w" by (simp add: diskInv_def heldBy_def)
  then show ?thesis by (simp add: commitPhase_def)
qed

lemma attempts_phase:
  "commitRequest inp final \<Longrightarrow> commitPhase inp final i content w \<Longrightarrow>
     commitPhase inp final i content (commitAttempts enc dg inp fs w)"
proof (induction fs arbitrary: w)
  case (Cons f fs)
  obtain jf df where f: "f = (jf, df)" by (cases f) simp
  obtain res w' where c: "Commit commitDeps (commitDisk enc dg) (w\<lparr>cw_journalFaults := jf, cw_diskFaults := df\<rparr>) inp = (res, w')"
    by (meson surj_pair)
  have "commitPhase inp final i content w'" using attempt_phase[OF Cons.prems(1) _ c] Cons.prems(2) by simp
  from Cons.IH[OF Cons.prems(1) this] show ?case by (simp add: f c)
qed simp

text \<open>C10: A commit that is retried ends.  From a verified artifact with its file at the partial
  name - or from wherever earlier attempts stopped - any number of attempts with any writes of
  journal and disk failing or lost midway, followed by one that meets no failure: that one
  succeeds, the row reads COMMITTED at the final name, and the final name holds the transferred
  inode with its bytes, the partial name nothing.\<close>

theorem commit_retry_completes:
  assumes "commitRequest inp final" "commitPhase inp final i content w"
  shows "\<exists>out w' rec. Commit commitDeps (commitDisk enc dg)
      ((commitAttempts enc dg inp fs w)\<lparr>cw_journalFaults := [], cw_diskFaults := []\<rparr>) inp = (Inr out, w') \<and>
    Get (cw_db w') (ci_Artifact inp) = Inr rec \<and> r_State rec = Committed \<and> r_LocalPath rec = final \<and>
    map_option tr_BytesTransferred (r_Transfer rec) = Some (int (length content)) \<and>
    cw_dir w' final = Some i \<and> cw_data w' i = content \<and> cw_dir w' (final @ partialSuffix) = None"
proof -
  let ?w = "(commitAttempts enc dg inp fs w)\<lparr>cw_journalFaults := [], cw_diskFaults := []\<rparr>"
  obtain res w' where c: "Commit commitDeps (commitDisk enc dg) ?w inp = (res, w')" by (meson surj_pair)
  have "commitPhase inp final i content ?w" using attempts_phase[OF assms] by simp
  from attempt_phase[OF assms(1) this c] have A: "\<exists>out. res = Inr out" "committedAt inp final i content w'"
    "commitPhase inp final i content w'" by auto
  from A(2) obtain row r where r: "findArtifact (cw_db w') (ci_Artifact inp) = Some (row, r)"
    "committedRow inp final (cw_db w') row r content" "namesMoved final i w'" by (auto simp: committedAt_def)
  have "wfJournal (cw_db w')" "cw_data w' i = content" using A(3) by (simp_all add: commitPhase_def)
  with Get_wf[OF _ r(1)] A(1) c r(2,3) show ?thesis by (auto simp: committedRow_def namesMoved_def)
qed

section \<open>The manifest's own name\<close>

lemma Advance_artifact:
  assumes "wfJournal (cw_db w)" "Advance commitDeps w t = (Inr out, w')"
  shows "r_Artifact (o_Record out) = t_Artifact t"
  using assms(2)
proof (cases rule: Advance_record)
  case (2 t' res2)
  from 2(3) have "res2 = Inr out" using mapErr_Inr_iff[of JournalError res2 out] by metis
  with commitRecord_frame(8)[OF 2(1)] have "RecordTransition (cw_db w) t' = (Inr out, cw_db w')"
    by (metis isl_def prod.collapse sum.distinct(1))
  from RecordTransition_artifact[OF assms(1) this] 2(2) show ?thesis by auto
qed simp

lemma WriteManifest_written:
  assumes "WriteManifest (commitDisk enc dg) w dir m = (None, w')"
  shows "\<exists>i. cw_dir w' (ManifestPath dir (mf_ArtifactName m)) = Some i \<and> cw_data w' i = enc m"
proof -
  let ?fs = "commitDisk enc dg" and ?q = "ManifestPath dir (mf_ArtifactName m)"
  obtain r1 w1 where wr: "cf_WriteFile ?fs w (?q @ ''.tmp'') (enc m) = (r1, w1)" by (meson surj_pair)
  with assms have r1: "r1 = None" by (auto simp: WriteManifest_def Let_def split: option.splits)
  with wr have "\<exists>i. cw_dir w1 (?q @ ''.tmp'') = Some i \<and> cw_data w1 i = enc m"
    by (auto simp: commitDisk_def newFile_def overwrite_def dest!: onDisk_ok split: option.splits)
  then obtain i where i: "cw_dir w1 (?q @ ''.tmp'') = Some i" "cw_data w1 i = enc m" by blast
  then have "onDisk w1 (renameName (?q @ ''.tmp'') ?q) ioError = (None, w')"
    using assms wr r1 by (auto simp: WriteManifest_def Let_def commitDisk_def split: option.splits prod.splits)
  from onDisk_ok[OF this] i show ?thesis by (auto simp: renameName_def)
qed

lemma Commit_writes_manifest:
  assumes wf: "wfJournal (cw_db w)" and c: "Commit commitDeps (commitDisk enc dg) w inp = (Inr out, w')"
  shows "\<exists>w1 m. WriteManifest (commitDisk enc dg) w1 (ci_LocalDir inp) m = (None, w') \<and>
    mf_ArtifactName m = ar_Name (ci_Artifact inp)"
proof -
  let ?fs = "commitDisk enc dg"
  obtain partial final where names: "partialPath (ci_LocalDir inp) (ci_Artifact inp) = Inr partial"
    "finalPath (ci_LocalDir inp) (ci_Artifact inp) = Inr final" and v: "validateCommit inp = None"
    using c by (auto simp: Commit_def split: option.splits sum.splits)
  obtain r1 w1 where ad: "Advance commitDeps w (emptyTransition (ci_Artifact inp) (ci_CommittingKey inp) Verified Committing) = (r1, w1)"
    by (meson surj_pair)
  obtain out1 where r1: "r1 = Inr out1" using c names v ad by (cases r1) (auto simp: Commit_def)
  have art: "r_Artifact (o_Record out1) = ci_Artifact inp" using Advance_artifact[OF wf] ad r1 by fastforce
  have name: "mf_ArtifactName (manifestOf rec m) = ar_Name (r_Artifact rec)" for rec m by (simp add: manifestOf_def)
  have wf1: "wfJournal (cw_db w1)"
    using ad
  proof (cases rule: Advance_record)
    case 1 with wf show ?thesis by simp
  next
    case (2 t' res2)
    obtain r j where "RecordTransition (cw_db w) t' = (r, j)" by (meson surj_pair)
    with commitRecord_frame(7)[OF 2(1)] record_transition_facts[OF wf] wf show ?thesis by auto
  qed
  have fin: ?thesis if "finishCommit commitDeps ?fs w1 inp partial final (o_Record out1) = (Inr out, w')"
  proof -
    from that obtain w2 m where cf: "commitFile ?fs w1 partial final = (None, w2)"
      "measureCommitted ?fs w2 final (o_Record out1) = Inr m"
      by (auto simp: finishCommit_def split: if_splits option.splits sum.splits prod.splits)
    have wf2: "wfJournal (cw_db w2)" using commitFile_only[OF cf(1)] wf1 by (simp add: onlyDisk_def)
    obtain r3 w3 where ad3: "Advance commitDeps w2 (committedStep inp final m (o_Record out1)) = (r3, w3)" by (meson surj_pair)
    with that cf obtain out3 where r3: "r3 = Inr out3" by (cases r3) (auto simp: finishCommit_def committedStep_def split: if_splits)
    have "r_Artifact (o_Record out3) = ci_Artifact inp" using Advance_artifact[OF wf2] ad3 r3 by fastforce
    moreover have "writeRecoveryManifest ?fs w3 (ci_LocalDir inp) (o_Record out3) m = (None, w')"
      using that cf ad3 r3 by (auto simp: finishCommit_def committedStep_def split: if_splits option.splits prod.splits)
    ultimately show ?thesis unfolding writeRecoveryManifest_def using name by metis
  qed
  have con: ?thesis if "converge ?fs w1 inp final out1 = (Inr out, w')"
  proof -
    from that obtain m where "writeRecoveryManifest ?fs w1 (ci_LocalDir inp) (o_Record out1) m = (None, w')"
      by (auto simp: converge_def Let_def split: if_splits option.splits sum.splits prod.splits)
    then show ?thesis unfolding writeRecoveryManifest_def using name art by metis
  qed
  show ?thesis using c names v ad r1 fin con by (auto simp: Commit_def split: if_splits)
qed

text \<open>C27: The manifest of an artifact is written over whatever stands at its name, another artifact's
  committed file included.  The artifact of the same set whose name is this one's with
  \<open>.manifest.json\<close> appended is an artifact like any other, its final path is this artifact's manifest
  path, and every successful commit of this artifact leaves a rendered manifest there.\<close>

theorem manifest_replaces_artifact:
  assumes "wfJournal (cw_db w)" "Commit commitDeps (commitDisk enc dg) w inp = (Inr out, w')"
    "finalPath (ci_LocalDir inp) ((ci_Artifact inp)\<lparr>ar_Name := ar_Name (ci_Artifact inp) @ manifestSuffix\<rparr>) = Inr other"
  shows "\<exists>i m. cw_dir w' other = Some i \<and> cw_data w' i = enc m \<and> mf_ArtifactName m = ar_Name (ci_Artifact inp)"
proof -
  from Commit_writes_manifest[OF assms(1,2)] obtain w1 m where
    m: "WriteManifest (commitDisk enc dg) w1 (ci_LocalDir inp) m = (None, w')" "mf_ArtifactName m = ar_Name (ci_Artifact inp)" by blast
  have "other = ManifestPath (ci_LocalDir inp) (mf_ArtifactName m)"
    using assms(3) m(2) by (auto simp: finalPath_def store_locator ManifestPath_def split: if_splits)
  with WriteManifest_written[OF m(1)] m(2) show ?thesis by blast
qed

section \<open>Runs that show the properties\<close>

definition demoArtifact :: "string \<Rightarrow> ArtifactID" where
  "demoArtifact name = \<lparr>ar_Set = \<lparr>bs_Source = ''s'', bs_Set = ''b''\<rparr>, ar_Name = name\<rparr>"

definition demoCommit :: "string \<Rightarrow> string \<Rightarrow> CommitInput" where
  "demoCommit name key = \<lparr>ci_Artifact = demoArtifact name, ci_LocalDir = ''/n'', ci_CommittingKey = key @ ''1'',
     ci_CommittedKey = key @ ''2''\<rparr>"

definition demoFound :: "string \<Rightarrow> string \<Rightarrow> Transition" where
  "demoFound name key = (emptyTransition (demoArtifact name) (key @ ''f'') noState Verifying)
     \<lparr>t_OccurredAt := 1, t_RemotePath := ''/r/'' @ name, t_LocalPath := Some (''/n/'' @ name @ partialSuffix)\<rparr>"

definition demoVerified :: "string \<Rightarrow> string \<Rightarrow> Transition" where
  "demoVerified name key = (emptyTransition (demoArtifact name) (key @ ''v'') Verifying Verified)
     \<lparr>t_OccurredAt := 1, t_Transfer := Some \<lparr>tr_BytesTransferred = 5, tr_Checksummed = True\<rparr>\<rparr>"

definition demoDisk :: "CWorld CommitFS" where "demoDisk = commitDisk mf_ArtifactName id"

text \<open>One artifact verified, its file landed; then committed.\<close>

definition demoReady :: "string \<Rightarrow> string \<Rightarrow> string \<Rightarrow> CWorld \<Rightarrow> CWorld" where
  "demoReady name key bytes w =
     newFile (''/n/'' @ name @ partialSuffix) bytes False
       (snd (commitRecord (snd (commitRecord w (demoFound name key))) (demoVerified name key)))"

definition demoStart :: CWorld where "demoStart = demoReady ''d'' ''k'' ''bytes'' (startDisk (emptyJournal id))"
definition demoDone :: CWorld where "demoDone = snd (Commit commitDeps demoDisk demoStart (demoCommit ''d'' ''k''))"
definition demoLost :: CWorld where
  "demoLost = demoDone\<lparr>cw_dir := cw_saved demoDone, cw_saved := cw_saved demoDone,
     cw_flushed := cw_flushed demoDone, cw_data := (\<lambda>i. if cw_flushed demoDone i then cw_data demoDone i else [])\<rparr>"

lemma demoPaths: "finalPath ''/n'' (demoArtifact ''d'') = Inr ''/n/d''" "plainName ''/n/d''" "isAbs ''/n''"
  "IsPartialPath (''/n/d'' @ partialSuffix)"
  by code_simp+

lemma demoReady_run:
  assumes "IsPartialPath (''/n/'' @ name @ partialSuffix)"
  shows "commitRun enc dg w (demoReady name key bytes w)"
proof -
  let ?w1 = "snd (commitRecord w (demoFound name key))" and ?w2 = "snd (commitRecord (snd (commitRecord w (demoFound name key))) (demoVerified name key))"
  have np: "\<not> plainName (''/n/'' @ name @ partialSuffix)" using assms by (simp add: plainName_def)
  have lp: "t_LocalPath (demoFound name key) = Some (''/n/'' @ name @ partialSuffix)" "t_LocalPath (demoVerified name key) = None"
    by (simp_all add: demoFound_def demoVerified_def emptyTransition_def)
  have "commitStep enc dg w ?w1"
    by (rule commitStep.records[of "demoFound name key" w "fst (commitRecord w (demoFound name key))"])
      (use lp np in simp_all)
  moreover have "commitStep enc dg ?w1 ?w2"
    by (rule commitStep.records[of "demoVerified name key" ?w1 "fst (commitRecord ?w1 (demoVerified name key))"])
      (use lp in simp_all)
  moreover have "commitStep enc dg ?w2 (demoReady name key bytes w)"
    unfolding demoReady_def by (rule commitStep.lands[OF assms])
  ultimately show ?thesis unfolding commitRun_def by (meson converse_rtranclp_into_rtranclp rtranclp.rtrancl_refl)
qed

lemma demoDone_run: "commitRun mf_ArtifactName id (startDisk (emptyJournal id)) demoDone"
proof -
  have "commitRun mf_ArtifactName id (startDisk (emptyJournal id)) demoStart"
    unfolding demoStart_def by (rule demoReady_run) code_simp
  moreover have "commitStep mf_ArtifactName id demoStart demoDone"
    unfolding demoDone_def demoDisk_def
    by (rule commitStep.commits[of "demoCommit ''d'' ''k''" "''/n/d''" _ _ _ "fst (Commit commitDeps (commitDisk mf_ArtifactName id) demoStart (demoCommit ''d'' ''k''))"])
      (use demoPaths in \<open>simp_all add: demoCommit_def\<close>)
  ultimately show ?thesis unfolding commitRun_def by (rule rtranclp.rtrancl_into_rtrancl)
qed

lemma demoLost_run: "commitRun enc dg demoDone demoLost"
proof -
  have "commitStep enc dg demoDone demoLost"
    unfolding demoLost_def by (rule commitStep.powerLoss) simp_all
  then show ?thesis unfolding commitRun_def by simp
qed

theorem committed_file_survives_witness:
  "\<exists>row r. (row, r) \<in> set (j_artifacts (cw_db demoDone)) \<and> r_State r = Committed \<and> r_LocalPath r = ''/n/d'' \<and>
     (\<exists>i content. durable demoDone ''/n/d'' i content \<and> durable demoLost ''/n/d'' i content)"
proof -
  have "list_all (\<lambda>ar. r_State (snd ar) = Committed \<and> r_LocalPath (snd ar) = ''/n/d'') (j_artifacts (cw_db demoDone)) \<and>
    j_artifacts (cw_db demoDone) \<noteq> []" by code_simp
  then obtain ar where ar: "ar \<in> set (j_artifacts (cw_db demoDone))" "r_State (snd ar) = Committed" "r_LocalPath (snd ar) = ''/n/d''"
    unfolding list_all_iff by (meson hd_in_set)
  obtain row r where "ar = (row, r)" by (cases ar)
  with ar have "(row, r) \<in> set (j_artifacts (cw_db demoDone))" "r_State r = Committed" "r_LocalPath r = ''/n/d''" by auto
  then show ?thesis using committed_file_survives[OF demoDone_run _ _ demoLost_run] demoPaths(2) by fastforce
qed

lemma demoStart_phase: "commitPhase (demoCommit ''d'' ''k'') ''/n/d'' 0 ''bytes'' demoStart"
proof -
  let ?w = "startDisk (emptyJournal id)"
  have run: "commitRun enc dg ?w demoStart" for enc dg unfolding demoStart_def by (rule demoReady_run) code_simp
  have inv: "diskInv demoStart" using commitRun_safe[OF run] startDisk_inv unfolding safeStep_def keeps_def by blast
  have wf: "wfJournal (cw_db demoStart)" by code_simp
  have row: "case findArtifact (cw_db demoStart) (demoArtifact ''d'') of None \<Rightarrow> False
     | Some (row, r) \<Rightarrow> describable r \<and> verifiedRow (demoCommit ''d'' ''k'') ''/n/d'' (cw_db demoStart) r" by code_simp
  have names: "cw_dir demoStart (''/n/d'' @ partialSuffix) = Some 0 \<and> cw_dir demoStart ''/n/d'' = None \<and>
     cw_data demoStart 0 = ''bytes'' \<and> cw_clock demoStart \<noteq> zeroTime \<and> \<not> cw_blind demoStart ''/n/d'' \<and>
     \<not> cw_blind demoStart (''/n/d'' @ partialSuffix)" by code_simp
  have a: "ci_Artifact (demoCommit ''d'' ''k'') = demoArtifact ''d''" by (simp add: demoCommit_def)
  show ?thesis unfolding commitPhase_def a using wf inv row names by (auto split: option.splits)
qed

text \<open>The first attempt dies after the committing row, the second after the link.\<close>

theorem commit_retry_completes_witness:
  "\<exists>out w' rec. Commit commitDeps (commitDisk mf_ArtifactName id)
      ((commitAttempts mf_ArtifactName id (demoCommit ''d'' ''k'') [([FailsAfter], []), ([], [Works, FailsAfter])] demoStart)
        \<lparr>cw_journalFaults := [], cw_diskFaults := []\<rparr>) (demoCommit ''d'' ''k'') = (Inr out, w') \<and>
    Get (cw_db w') (demoArtifact ''d'') = Inr rec \<and> r_State rec = Committed \<and> cw_dir w' ''/n/d'' = Some 0 \<and>
    cw_data w' 0 = ''bytes''"
proof -
  have "commitRequest (demoCommit ''d'' ''k'') ''/n/d''" by code_simp
  from commit_retry_completes[OF this demoStart_phase, where fs = "[([FailsAfter], []), ([], [Works, FailsAfter])]"
      and enc = mf_ArtifactName and dg = id]
  show ?thesis by (auto simp: demoCommit_def)
qed

text \<open>A committed backup named like a manifest, and the bytes that replace it.\<close>

definition demoBoth :: CWorld where
  "demoBoth = demoReady ''d'' ''k'' ''bytes''
     (snd (Commit commitDeps demoDisk (demoReady ''d.manifest.json'' ''m'' ''lemon'' (startDisk (emptyJournal id)))
       (demoCommit ''d.manifest.json'' ''m'')))"

definition readName :: "CWorld \<Rightarrow> string \<Rightarrow> string option" where
  "readName w p = map_option (cw_data w) (cw_dir w p)"

theorem manifest_replaces_artifact_witness:
  "map (\<lambda>ar. (r_State (snd ar), r_LocalPath (snd ar))) (j_artifacts (cw_db demoBoth)) =
     [(Committed, ''/n/d.manifest.json''), (Verified, ''/n/d'' @ partialSuffix)] \<and>
   readName demoBoth ''/n/d.manifest.json'' = Some ''lemon'' \<and>
   (\<exists>out w' i (m :: Manifest). Commit commitDeps demoDisk demoBoth (demoCommit ''d'' ''k'') = (Inr out, w') \<and>
     cw_dir w' ''/n/d.manifest.json'' = Some i \<and> cw_data w' i = mf_ArtifactName m \<and> mf_ArtifactName m = ''d'')"
proof -
  have rows: "map (\<lambda>ar. (r_State (snd ar), r_LocalPath (snd ar))) (j_artifacts (cw_db demoBoth)) =
     [(Committed, ''/n/d.manifest.json''), (Verified, ''/n/d'' @ partialSuffix)]" by code_simp
  have bytes: "readName demoBoth ''/n/d.manifest.json'' = Some ''lemon''" by code_simp
  let ?r = "Commit commitDeps demoDisk demoBoth (demoCommit ''d'' ''k'')"
  have ok: "isOk (fst ?r)" by code_simp
  then obtain out w' where c: "?r = (Inr out, w')" by (cases ?r; cases "fst ?r") auto
  have "wfJournal (cw_db demoBoth)" by code_simp
  moreover have "finalPath (ci_LocalDir (demoCommit ''d'' ''k''))
     ((ci_Artifact (demoCommit ''d'' ''k''))\<lparr>ar_Name := ar_Name (ci_Artifact (demoCommit ''d'' ''k'')) @ manifestSuffix\<rparr>)
      = Inr ''/n/d.manifest.json''" by code_simp
  ultimately have "\<exists>i (m :: Manifest). cw_dir w' ''/n/d.manifest.json'' = Some i \<and> cw_data w' i = mf_ArtifactName m \<and>
      mf_ArtifactName m = ar_Name (ci_Artifact (demoCommit ''d'' ''k''))"
    by (rule manifest_replaces_artifact[OF _ c[unfolded demoDisk_def]])
  with rows bytes c show ?thesis by (auto simp: demoCommit_def demoArtifact_def)
qed

end
