(* ===== verification/Civil.thy ===== *)
theory Civil
  imports Prelude
begin

text \<open>
  Calendar dates (\<open>core/internal/retention/gfs_civildate.go\<close>) over the proleptic Gregorian calendar
  of package \<open>time\<close>.  A day is counted from 1 January of year 1; \<open>dayYear\<close> is the standard
  library's reduction by the cycles of 400, 100, 4 and 1 years.  The time zone of a \<open>Location\<close> is
  the function from an instant to its offset in nanoseconds: the zone database is not code of the
  repository.
\<close>

section \<open>Package time: days and dates\<close>

definition isLeap :: "int \<Rightarrow> bool" where
  "isLeap y = (y mod 4 = 0 \<and> (y mod 100 \<noteq> 0 \<or> y mod 400 = 0))"

text \<open>The days before 1 January of a year, and before the first of a month within a year.\<close>

definition yearStart :: "int \<Rightarrow> int" where
  "yearStart y = 365 * (y - 1) + (y - 1) div 4 - (y - 1) div 100 + (y - 1) div 400"

definition daysBefore :: "int list" where
  "daysBefore = [0, 31, 59, 90, 120, 151, 181, 212, 243, 273, 304, 334, 365]"

definition monthStart :: "bool \<Rightarrow> int \<Rightarrow> int" where
  "monthStart leap m = daysBefore ! nat (m - 1) + (if leap \<and> m > 2 then 1 else 0)"

definition dayYear :: "int \<Rightarrow> int \<times> int" where
  "dayYear n =
     (let q400 = n div 146097; d1 = n mod 146097;
          q100 = d1 div 36524 - (d1 div 36524) div 4; d2 = d1 - 36524 * q100;
          q4 = d2 div 1461; d3 = d2 - 1461 * q4;
          q1 = d3 div 365 - (d3 div 365) div 4; d4 = d3 - 365 * q1
      in (400 * q400 + 100 * q100 + 4 * q4 + q1 + 1, d4))"

definition yearMonth :: "bool \<Rightarrow> int \<Rightarrow> int" where
  "yearMonth leap yday =
     (case find (\<lambda>m. yday < monthStart leap (m + 1)) [1, 2, 3, 4, 5, 6, 7, 8, 9, 10, 11] of
        Some m \<Rightarrow> m | None \<Rightarrow> 12)"

section \<open>The calendar date\<close>

record gfsCivilDate =
  Year :: int
  Month :: int
  Day :: int

definition civil :: "int \<Rightarrow> int \<Rightarrow> int \<Rightarrow> gfsCivilDate" where
  "civil y m d = \<lparr>Year = y, Month = m, Day = d\<rparr>"

definition dateOfDay :: "int \<Rightarrow> gfsCivilDate" where
  "dateOfDay n =
     (let (y, yday) = dayYear n; m = yearMonth (isLeap y) yday
      in civil y m (yday - monthStart (isLeap y) m + 1))"

text \<open>\<open>time.Date\<close> for a date at midnight UTC: the month is normalised into its year first, then the
  day of the month is added as it stands.\<close>

definition dayOfDate :: "int \<Rightarrow> int \<Rightarrow> int \<Rightarrow> int" where
  "dayOfDate y m d =
     (let y' = y + (m - 1) div 12; m' = (m - 1) mod 12 + 1
      in yearStart y' + monthStart (isLeap y') m' + d - 1)"

definition utc :: "gfsCivilDate \<Rightarrow> int" where
  "utc c = dayOfDate (Year c) (Month c) (Day c)"

definition nsPerDay :: int where "nsPerDay = 86400000000000"

type_synonym location = "int \<Rightarrow> int"

definition gfsCivilDateIn :: "int \<Rightarrow> location \<Rightarrow> gfsCivilDate" where
  "gfsCivilDateIn t loc = dateOfDay ((t + loc t) div nsPerDay)"

definition addDays :: "gfsCivilDate \<Rightarrow> int \<Rightarrow> gfsCivilDate" where
  "addDays c n = dateOfDay (dayOfDate (Year c) (Month c) (Day c + n))"

definition addMonths :: "gfsCivilDate \<Rightarrow> int \<Rightarrow> gfsCivilDate" where
  "addMonths c n = dateOfDay (dayOfDate (Year c) (Month c + n) (Day c))"

definition firstOfMonth :: "gfsCivilDate \<Rightarrow> gfsCivilDate" where
  "firstOfMonth c = civil (Year c) (Month c) 1"

definition weekdayOf :: "gfsCivilDate \<Rightarrow> int" where
  "weekdayOf c = (utc c + 1) mod 7"

definition weekStart :: "gfsCivilDate \<Rightarrow> int \<Rightarrow> gfsCivilDate" where
  "weekStart c start = addDays c (- ((weekdayOf c - start + 7) mod 7))"

definition compareDate :: "gfsCivilDate \<Rightarrow> gfsCivilDate \<Rightarrow> int" where
  "compareDate c o' =
     (if Year c \<noteq> Year o' then Year c - Year o'
      else if Month c \<noteq> Month o' then Month c - Month o'
      else Day c - Day o')"

definition before :: "gfsCivilDate \<Rightarrow> gfsCivilDate \<Rightarrow> bool" where
  "before c o' = (compareDate c o' < 0)"

definition after :: "gfsCivilDate \<Rightarrow> gfsCivilDate \<Rightarrow> bool" where
  "after c o' = (compareDate c o' > 0)"

definition firstOfQuarter :: "gfsCivilDate \<Rightarrow> gfsCivilDate" where
  "firstOfQuarter c = civil (Year c) ((Month c - 1) div 3 * 3 + 1) 1"

definition firstOfHalfYear :: "gfsCivilDate \<Rightarrow> gfsCivilDate" where
  "firstOfHalfYear c = civil (Year c) (if Month c \<ge> 7 then 7 else 1) 1"

definition firstOfYear :: "gfsCivilDate \<Rightarrow> gfsCivilDate" where
  "firstOfYear c = civil (Year c) 1 1"

definition gfsPeriodEpoch :: gfsCivilDate where
  "gfsPeriodEpoch = civil 1970 1 1"

text \<open>The quotient of a saturating difference of instants: \<open>Duration.Hours() / 24\<close>, truncated
  towards zero by the conversion to \<open>int\<close>.\<close>

definition truncDiv :: "int \<Rightarrow> int \<Rightarrow> int" where
  "truncDiv a b = sgn a * (\<bar>a\<bar> div b)"

definition daysSinceEpoch :: "gfsCivilDate \<Rightarrow> int" where
  "daysSinceEpoch c = truncDiv (timeSub (utc c * nsPerDay) (utc gfsPeriodEpoch * nsPerDay)) nsPerDay"

text \<open>Go's \<open>/\<close> truncates and its \<open>%\<close> takes the sign of the dividend.\<close>

definition periodStart :: "gfsCivilDate \<Rightarrow> int \<Rightarrow> gfsCivilDate" where
  "periodStart c n =
     (let days = daysSinceEpoch c; idx = truncDiv days n
      in addDays gfsPeriodEpoch ((if days - idx * n < 0 then idx - 1 else idx) * n))"

section \<open>Years\<close>

lemma div_pred:
  assumes "k > (0::int)"
  shows "y div k = (y - 1) div k + (if y mod k = 0 then 1 else 0)"
proof (cases "y mod k = 0")
  case True
  have "(y - 1) div k = y div k - 1"
    by (rule int_div_pos_eq[where r = "k - 1"]) (use assms True in \<open>auto simp: algebra_simps\<close>)
  with True show ?thesis by simp
next
  case False
  have "(y - 1) div k = y div k"
    by (rule int_div_pos_eq[where r = "y mod k - 1"])
      (use assms False pos_mod_bound[of k y] pos_mod_sign[of k y] in \<open>simp_all add: algebra_simps, linarith+\<close>)
  with False show ?thesis by simp
qed

lemma yearStart_Suc: "yearStart (y + 1) = yearStart y + (if isLeap y then 366 else 365)"
proof -
  have "y mod 400 = 0 \<Longrightarrow> y mod 100 = 0" "y mod 100 = 0 \<Longrightarrow> y mod 4 = 0"
    using mod_mod_cancel[of 100 400 y] mod_mod_cancel[of 4 100 y] by simp_all
  then have leap: "isLeap y \<longleftrightarrow> y mod 4 = 0 \<and> (y mod 100 = 0 \<longrightarrow> y mod 400 = 0)"
    "y mod 400 = 0 \<Longrightarrow> y mod 100 = 0" "y mod 100 = 0 \<Longrightarrow> y mod 4 = 0"
    by (auto simp: isLeap_def)
  define a b c a' b' c' where "a = y div 4" and "b = y div 100" and "c = y div 400"
    and "a' = (y - 1) div 4" and "b' = (y - 1) div 100" and "c' = (y - 1) div 400"
  note d = this
  have "a = a' + (if y mod 4 = 0 then 1 else 0)" "b = b' + (if y mod 100 = 0 then 1 else 0)"
    "c = c' + (if y mod 400 = 0 then 1 else 0)"
    unfolding d by (rule div_pred, simp)+
  then have "a - b + c = a' - b' + c' + (if isLeap y then 1 else 0)"
    using leap by (cases "y mod 4 = 0"; cases "y mod 100 = 0"; cases "y mod 400 = 0") simp_all
  moreover have "yearStart (y + 1) = 365 * y + (a - b + c)" "yearStart y = 365 * (y - 1) + (a' - b' + c')"
    by (simp_all add: yearStart_def d)
  ultimately show ?thesis by (cases "isLeap y") simp_all
qed

lemma yearStart_mono: "y < z \<Longrightarrow> yearStart y + 365 \<le> yearStart z"
proof (induction z rule: int_gr_induct)
  case base
  show ?case by (simp add: yearStart_Suc)
next
  case (step z)
  then show ?case using yearStart_Suc[of z] by (simp split: if_splits)
qed

lemma yearStart_less_iff: "yearStart y < yearStart z \<longleftrightarrow> y < z"
  using yearStart_mono[of y z] yearStart_mono[of z y] by (cases y z rule: linorder_cases) auto

text \<open>A day determines the year it lies in.\<close>

definition inYear :: "int \<Rightarrow> int \<Rightarrow> bool" where
  "inYear y yday = (0 \<le> yday \<and> yday < (if isLeap y then 366 else 365))"

lemma year_unique:
  assumes "yearStart y + a = yearStart z + b" "inYear y a" "inYear z b"
  shows "y = z \<and> a = b"
proof -
  have "\<not> y < z" using yearStart_mono[of "y + 1" z] yearStart_Suc[of y] assms
    by (cases "y + 1 < z"; cases "y + 1 = z") (auto simp: inYear_def split: if_splits)
  moreover have "\<not> z < y" using yearStart_mono[of "z + 1" y] yearStart_Suc[of z] assms
    by (cases "z + 1 < y"; cases "z + 1 = y") (auto simp: inYear_def split: if_splits)
  ultimately show ?thesis using assms(1) by simp
qed

text \<open>The reduction by cycles finds that year.\<close>

text \<open>One step of the reduction: a span of four cycles, the last of which may be a day longer.\<close>

lemma cycle_step:
  fixes c d :: int
  assumes "0 < c" "0 \<le> d" "d \<le> 4 * c"
  defines "q \<equiv> d div c - (d div c) div 4"
  shows "0 \<le> q \<and> q \<le> 3 \<and> 0 \<le> d - c * q \<and> d - c * q \<le> c \<and> (d - c * q = c \<longrightarrow> q = 3 \<and> d = 4 * c)"
proof (cases "d = 4 * c")
  case True
  then have "d div c = 4" using assms(1) by simp
  with True assms(1) show ?thesis by (simp add: q_def)
next
  case False
  have "d div c < 4"
  proof (rule ccontr)
    assume "\<not> d div c < 4"
    then have "c * 4 \<le> c * (d div c)" using assms(1) by (intro mult_left_mono) auto
    moreover have "c * (d div c) + d mod c = d" "0 \<le> d mod c" using assms(1) by simp_all
    ultimately show False using assms(3) False by linarith
  qed
  moreover have "0 \<le> d div c" using assms by (simp add: pos_imp_zdiv_nonneg_iff)
  ultimately have q: "q = d div c" "0 \<le> q" "q \<le> 3" by (simp_all add: q_def)
  have "d - c * q = d mod c" by (simp add: q minus_mult_div_eq_mod)
  moreover have "d mod c < c" "0 \<le> d mod c" using assms(1) by simp_all
  ultimately show ?thesis using q by linarith
qed

lemma yearStart_cycles:
  fixes a b e f :: int
  assumes "0 \<le> b" "b \<le> 3" "0 \<le> e" "e \<le> 24" "0 \<le> f" "f \<le> 3"
  shows "yearStart (400 * a + 100 * b + 4 * e + f + 1) = 146097 * a + 36524 * b + 1461 * e + 365 * f"
proof -
  let ?y = "400 * a + 100 * b + 4 * e + f"
  have "?y div 4 = 100 * a + 25 * b + e" by (rule int_div_pos_eq[where r = f]) (use assms in simp_all)
  moreover have "?y div 100 = 4 * a + b" by (rule int_div_pos_eq[where r = "4 * e + f"]) (use assms in simp_all)
  moreover have "?y div 400 = a" by (rule int_div_pos_eq[where r = "100 * b + 4 * e + f"]) (use assms in simp_all)
  ultimately show ?thesis by (simp add: yearStart_def)
qed

lemma isLeap_cycles:
  fixes a b e :: int
  assumes "0 \<le> b" "b \<le> 3" "0 \<le> e" "e \<le> 24" "e = 24 \<longrightarrow> b = 3"
  shows "isLeap (400 * a + 100 * b + 4 * e + 3 + 1)"
proof (cases "e = 24")
  case True
  with assms have "400 * a + 100 * b + 4 * e + 3 + 1 = 400 * (a + 1)" by simp
  moreover have "400 * (a + 1) mod 400 = 0" "400 * (a + 1) mod 4 = 0" by (simp_all add: mod_mult_left_eq)
  ultimately show ?thesis by (simp only: isLeap_def simp_thms)
next
  case False
  have "400 * a + 100 * b + 4 * e + 3 + 1 = 4 * (100 * a + 25 * b + e + 1)" by simp
  then have "(400 * a + 100 * b + 4 * e + 3 + 1) mod 4 = 0" by (metis mod_mult_self1_is_0)
  moreover have "(400 * a + 100 * b + 4 * e + 3 + 1) mod 100 = 4 * e + 4"
    by (rule int_mod_pos_eq[where q = "4 * a + b"]) (use assms False in simp_all)
  ultimately show ?thesis using assms(3) by (simp add: isLeap_def)
qed

text \<open>The reduction finds the year a day lies in.\<close>

lemma dayYear_correct:
  assumes "dayYear n = (y, yday)"
  shows "inYear y yday \<and> yearStart y + yday = n"
proof -
  define a d1 where "a = n div 146097" and "d1 = n mod 146097"
  define b where "b = d1 div 36524 - (d1 div 36524) div 4"
  define d2 where "d2 = d1 - 36524 * b"
  define e where "e = d2 div 1461"
  define d3 where "d3 = d2 - 1461 * e"
  define f where "f = d3 div 365 - (d3 div 365) div 4"
  define d4 where "d4 = d3 - 365 * f"
  have "dayYear n = (400 * a + 100 * b + 4 * e + f + 1, d4)"
    unfolding dayYear_def Let_def d4_def f_def d3_def e_def d2_def b_def d1_def a_def by (rule refl)
  with assms have r: "y = 400 * a + 100 * b + 4 * e + f + 1" "yday = d4" by simp_all
  have n: "n = 146097 * a + d1" unfolding a_def d1_def by (rule mult_div_mod_eq[symmetric])
  have "0 \<le> d1" "d1 < 146097" unfolding d1_def by (rule pos_mod_sign pos_mod_bound, simp)+
  then have d1: "0 \<le> d1" "d1 \<le> 4 * 36524" by linarith+
  have "(0::int) < 36524" by simp
  note b = cycle_step[OF this d1, folded b_def, folded d2_def]
  have e: "d2 = 1461 * e + d3" "d3 = d2 mod 1461"
    unfolding d3_def e_def by (simp, rule minus_mult_div_eq_mod)
  have "0 \<le> d3" "d3 < 1461" unfolding e(2) by (rule pos_mod_sign pos_mod_bound, simp)+
  then have d3: "0 \<le> d3" "d3 \<le> 4 * 365" by linarith+
  have e': "0 \<le> e" "e \<le> 24" using b e(1) d3 by linarith+
  have "(0::int) < 365" by simp
  note f = cycle_step[OF this d3, folded f_def, folded d4_def]
  have edge: "d4 = 365 \<Longrightarrow> f = 3 \<and> (e = 24 \<longrightarrow> b = 3)"
  proof
    assume "d4 = 365"
    then show "f = 3" using f by simp
    from \<open>d4 = 365\<close> f have "d3 = 1460" by simp
    then have "e = 24 \<longrightarrow> d2 = 36524" by (simp add: d3_def)
    then show "e = 24 \<longrightarrow> b = 3" using b by blast
  qed
  have "yearStart y = 146097 * a + 36524 * b + 1461 * e + 365 * f"
    unfolding r by (rule yearStart_cycles) (use b e' f in simp_all)
  then have "yearStart y + yday = n" by (simp add: r n d4_def d3_def d2_def)
  moreover have "inYear y yday"
  proof (cases "d4 = 365")
    case True
    then have "isLeap y" unfolding r using edge isLeap_cycles[of b e a] b e' by simp
    with True show ?thesis by (simp add: inYear_def r)
  next
    case False
    with f show ?thesis by (simp add: inYear_def r)
  qed
  ultimately show ?thesis by simp
qed

section \<open>Months\<close>

lemma month_cases:
  assumes "1 \<le> m" "m \<le> (12::int)"
  shows "m \<in> {1, 2, 3, 4, 5, 6, 7, 8, 9, 10, 11, 12}"
  unfolding insert_iff empty_iff using assms by presburger

lemma monthStart_table:
  "monthStart l 1 = 0" "monthStart l 2 = 31" "monthStart l 3 = 59 + of_bool l" "monthStart l 4 = 90 + of_bool l"
  "monthStart l 5 = 120 + of_bool l" "monthStart l 6 = 151 + of_bool l" "monthStart l 7 = 181 + of_bool l"
  "monthStart l 8 = 212 + of_bool l" "monthStart l 9 = 243 + of_bool l" "monthStart l 10 = 273 + of_bool l"
  "monthStart l 11 = 304 + of_bool l" "monthStart l 12 = 334 + of_bool l" "monthStart l 13 = 365 + of_bool l"
  by (simp_all add: monthStart_def daysBefore_def nat_numeral)

lemma yearMonth_correct:
  assumes "0 \<le> yday" "yday < 365 + of_bool l"
  shows "1 \<le> yearMonth l yday \<and> yearMonth l yday \<le> 12 \<and>
    monthStart l (yearMonth l yday) \<le> yday \<and> yday < monthStart l (yearMonth l yday + 1)"
  using assms by (auto simp: yearMonth_def monthStart_table)

lemma yearMonth_unique:
  assumes "1 \<le> m" "m \<le> 12" "monthStart l m \<le> yday" "yday < monthStart l (m + 1)"
  shows "yearMonth l yday = m"
  using month_cases[OF assms(1,2)] assms(3,4)
  by (cases l) (auto simp: yearMonth_def monthStart_table)

section \<open>Dates that name a day\<close>

definition validDate :: "gfsCivilDate \<Rightarrow> bool" where
  "validDate c =
     (1 \<le> Month c \<and> Month c \<le> 12 \<and> 1 \<le> Day c \<and>
      Day c \<le> monthStart (isLeap (Year c)) (Month c + 1) - monthStart (isLeap (Year c)) (Month c))"

lemma civil_sel [simp]: "Year (civil y m d) = y" "Month (civil y m d) = m" "Day (civil y m d) = d"
  by (simp_all add: civil_def)

lemma date_eq_iff: "c = o' \<longleftrightarrow> Year c = Year o' \<and> Month c = Month o' \<and> Day c = Day (o' :: gfsCivilDate)"
  by (cases c; cases o') simp

lemma dayOfDate_valid:
  "1 \<le> m \<Longrightarrow> m \<le> 12 \<Longrightarrow> dayOfDate y m d = yearStart y + monthStart (isLeap y) m + d - 1"
  by (simp add: dayOfDate_def Let_def)

lemma monthStart_bounds:
  assumes "1 \<le> m" "m \<le> 12"
  shows "0 \<le> monthStart l m \<and> monthStart l (m + 1) \<le> 365 + of_bool l"
  using month_cases[OF assms] by (auto simp: monthStart_table)

lemma utc_valid:
  assumes "validDate c"
  defines "yday \<equiv> monthStart (isLeap (Year c)) (Month c) + Day c - 1"
  shows "utc c = yearStart (Year c) + yday \<and> inYear (Year c) yday \<and> yearMonth (isLeap (Year c)) yday = Month c"
proof -
  have v: "1 \<le> Month c" "Month c \<le> 12" "1 \<le> Day c"
    "Day c \<le> monthStart (isLeap (Year c)) (Month c + 1) - monthStart (isLeap (Year c)) (Month c)"
    using assms(1) by (simp_all add: validDate_def)
  have "inYear (Year c) yday"
    using monthStart_bounds[OF v(1,2), of "isLeap (Year c)"] v by (cases "isLeap (Year c)") (auto simp: inYear_def yday_def)
  moreover have "yearMonth (isLeap (Year c)) yday = Month c"
    by (rule yearMonth_unique[OF v(1,2)]) (use v in \<open>simp_all add: yday_def\<close>)
  ultimately show ?thesis using v by (simp add: utc_def dayOfDate_valid yday_def)
qed

lemma dateOfDay_utc: "validDate c \<Longrightarrow> dateOfDay (utc c) = c"
proof -
  assume v: "validDate c"
  obtain y yday where d: "dayYear (utc c) = (y, yday)" by fastforce
  have "yearStart y + yday = yearStart (Year c) + (monthStart (isLeap (Year c)) (Month c) + Day c - 1)"
    using dayYear_correct[OF d] utc_valid[OF v] by simp
  from year_unique[OF this] dayYear_correct[OF d] utc_valid[OF v]
  have "y = Year c" "yday = monthStart (isLeap (Year c)) (Month c) + Day c - 1" by simp_all
  with d utc_valid[OF v] show ?thesis by (simp add: dateOfDay_def date_eq_iff Let_def)
qed

lemma dateOfDay_valid: "validDate (dateOfDay n) \<and> utc (dateOfDay n) = n"
proof -
  obtain y yday where d: "dayYear n = (y, yday)" by fastforce
  let ?m = "yearMonth (isLeap y) yday"
  have y: "0 \<le> yday" "yday < 365 + of_bool (isLeap y)" "yearStart y + yday = n"
    using dayYear_correct[OF d] by (auto simp: inYear_def split: if_splits)
  note m = yearMonth_correct[OF y(1,2)]
  have "dateOfDay n = civil y ?m (yday - monthStart (isLeap y) ?m + 1)"
    by (simp add: dateOfDay_def d Let_def)
  with m y(3) show ?thesis by (simp add: validDate_def utc_def dayOfDate_valid)
qed

section \<open>Order, steps and buckets\<close>

lemma validDate_dateOfDay [simp, intro]: "validDate (dateOfDay n)"
  using dateOfDay_valid by blast

lemma utc_dateOfDay [simp]: "utc (dateOfDay n) = n"
  using dateOfDay_valid by blast

lemma utc_inj: "validDate c \<Longrightarrow> validDate o' \<Longrightarrow> utc c = utc o' \<Longrightarrow> c = o'"
  by (metis dateOfDay_utc)

lemma monthStart_mono:
  assumes "1 \<le> m" "m < k" "k \<le> 13"
  shows "monthStart l (m + 1) \<le> monthStart l k"
proof -
  have "m \<in> {1, 2, 3, 4, 5, 6, 7, 8, 9, 10, 11, 12}" using assms by (intro month_cases) simp_all
  moreover have "k \<in> {2, 3, 4, 5, 6, 7, 8, 9, 10, 11, 12, 13}"
    using assms unfolding insert_iff empty_iff by presburger
  ultimately show ?thesis using assms(2) by (cases l) (auto simp: monthStart_table)
qed

lemma utc_less:
  assumes "validDate c" "validDate o'" "compareDate c o' < 0"
  shows "utc c < utc o'"
proof (cases "Year c = Year o'")
  case True
  have v: "1 \<le> Month c" "Month c \<le> 12" "1 \<le> Month o'" "Month o' \<le> 12" "1 \<le> Day o'"
    "Day c \<le> monthStart (isLeap (Year c)) (Month c + 1) - monthStart (isLeap (Year c)) (Month c)"
    using assms(1,2) by (simp_all add: validDate_def)
  show ?thesis
  proof (cases "Month c = Month o'")
    case False
    with True assms(3) have "Month c < Month o'" by (simp add: compareDate_def)
    with v monthStart_mono[OF v(1), of "Month o'" "isLeap (Year c)"] True show ?thesis
      by (simp add: utc_def dayOfDate_valid)
  qed (use True v assms(3) in \<open>simp add: utc_def dayOfDate_valid compareDate_def\<close>)
next
  case False
  with assms(3) have "Year c < Year o'" by (simp add: compareDate_def)
  then have "yearStart (Year c) + (if isLeap (Year c) then 366 else 365) \<le> yearStart (Year o')"
    using yearStart_Suc[of "Year c"] yearStart_mono[of "Year c + 1" "Year o'"]
    by (cases "Year c + 1 = Year o'") (auto split: if_splits)
  with utc_valid[OF assms(1)] utc_valid[OF assms(2)] show ?thesis
    by (auto simp: inYear_def split: if_splits)
qed

lemma compareDate_swap: "compareDate o' c = - compareDate c o'"
  by (simp add: compareDate_def)

lemma compareDate_zero: "compareDate c o' = 0 \<longleftrightarrow> c = o'"
  by (auto simp: compareDate_def date_eq_iff)

text \<open>The tuple order is the order of days.\<close>

lemma before_iff:
  assumes "validDate c" "validDate o'"
  shows "before c o' \<longleftrightarrow> utc c < utc o'"
proof (cases "compareDate c o'" "0::int" rule: linorder_cases)
  case greater
  then have "compareDate o' c < 0" using compareDate_swap[of o' c] by simp
  from utc_less[OF assms(2,1) this] greater show ?thesis by (simp add: before_def)
qed (use assms utc_less[of c o'] compareDate_zero[of c o'] in \<open>auto simp: before_def\<close>)

lemma after_iff: "validDate c \<Longrightarrow> validDate o' \<Longrightarrow> after c o' \<longleftrightarrow> utc o' < utc c"
  using before_iff[of o' c] compareDate_swap[of c o'] by (simp add: after_def before_def)

lemma addDays_utc: "validDate c \<Longrightarrow> utc (addDays c n) = utc c + n"
  unfolding addDays_def utc_dateOfDay by (simp add: utc_def dayOfDate_def Let_def)

lemma addDays_valid [simp]: "validDate (addDays c n)"
  by (simp add: addDays_def)

lemma gfsCivilDateIn_valid [simp]: "validDate (gfsCivilDateIn t loc)"
  by (simp add: gfsCivilDateIn_def)

text \<open>Months count from year 0, so a whole month is one step.\<close>

definition monthIndex :: "gfsCivilDate \<Rightarrow> int" where
  "monthIndex c = 12 * Year c + Month c - 1"

definition monthDate :: "int \<Rightarrow> gfsCivilDate" where
  "monthDate i = civil (i div 12) (i mod 12 + 1) 1"

lemma monthStart_pos:
  assumes "1 \<le> m" "m \<le> 12"
  shows "1 \<le> monthStart l (m + 1) - monthStart l m"
  using month_cases[OF assms] by (auto simp: monthStart_table)

lemma first_valid: "1 \<le> m \<Longrightarrow> m \<le> 12 \<Longrightarrow> validDate (civil y m 1)"
  using monthStart_pos[of m "isLeap y"] by (simp add: validDate_def)

lemma month_range: "0 \<le> i mod 12" "i mod 12 + 1 \<le> (12::int)"
  using pos_mod_bound[of 12 i] by simp_all

lemma monthDate_valid [simp]: "validDate (monthDate i)"
  unfolding monthDate_def by (rule first_valid) (use month_range[of i] in simp_all)

lemma monthIndex_monthDate [simp]: "monthIndex (monthDate i) = i"
  by (simp add: monthIndex_def monthDate_def)

lemma addMonths_first:
  assumes "validDate c" "Day c = 1"
  shows "addMonths c n = monthDate (monthIndex c + n)"
proof -
  have m: "1 \<le> Month c" "Month c \<le> 12" using assms(1) by (simp_all add: validDate_def)
  have i: "(monthIndex c + n) div 12 = Year c + (Month c + n - 1) div 12"
    "(monthIndex c + n) mod 12 = (Month c + n - 1) mod 12"
    using div_mult_self2[of 12 "Month c + n - 1" "Year c"] mod_mult_self4[of 12 "Year c" "Month c + n - 1"]
    by (simp_all add: monthIndex_def algebra_simps)
  have "dayOfDate (Year c) (Month c + n) (Day c) = utc (monthDate (monthIndex c + n))"
    using month_range[of "monthIndex c + n"]
    by (simp add: dayOfDate_def utc_def Let_def assms(2) monthDate_def i)
  then show ?thesis by (simp add: addMonths_def dateOfDay_utc)
qed

lemma monthDate_mono:
  assumes "i < j"
  shows "utc (monthDate i) < utc (monthDate j)"
proof (rule utc_less)
  define a b a' b' where "a = i div 12" and "b = i mod 12" and "a' = j div 12" and "b' = j mod 12"
  note d = this
  have e: "i = 12 * a + b" "j = 12 * a' + b'" unfolding d by simp_all
  have "0 \<le> b" "b < 12" "0 \<le> b'" "b' < 12" unfolding d by (rule pos_mod_sign pos_mod_bound, simp)+
  with assms e have "a < a' \<or> a = a' \<and> b < b'" by linarith
  then show "compareDate (monthDate i) (monthDate j) < 0"
    by (auto simp: compareDate_def monthDate_def simp flip: d)
qed simp_all

end
