(* ===== verification/Gfs.thy ===== *)
theory Gfs
  imports Civil Journal
begin

text \<open>
  The GFS retention chain (\<open>core/internal/retention/gfs.go\<close>, \<open>gfs_chain.go\<close>, \<open>bucketkey.go\<close>) and
  the part of the configuration it reads.  The zone database and the Unicode case tables are
  arguments, held in \<open>Env\<close>.  A Go map keyed by artifact is the list of its entries in insertion
  order; nothing the code returns depends on the order of a map.
\<close>

section \<open>Configuration\<close>

record RetentionTier =
  rt_Name :: string
  rt_Granularity :: string
  rt_PeriodDays :: int
  rt_Keep :: int
  rt_WindowUnit :: string
  rt_Medium :: string

definition GranularityDay :: string where "GranularityDay = ''day''"
definition GranularityWeek :: string where "GranularityWeek = ''week''"
definition GranularityMonth :: string where "GranularityMonth = ''month''"
definition GranularityQuarter :: string where "GranularityQuarter = ''quarter''"
definition GranularityHalfYear :: string where "GranularityHalfYear = ''half_year''"
definition GranularityYear :: string where "GranularityYear = ''year''"
definition GranularityDays :: string where "GranularityDays = ''days''"

definition TierLastKnownGoodName :: string where "TierLastKnownGoodName = ''last_known_good''"

definition EffectiveMedium :: "RetentionTier \<Rightarrow> string" where
  "EffectiveMedium t = (if rt_Medium t = [] then MediumLocal else rt_Medium t)"

definition plainTier :: "string \<Rightarrow> string \<Rightarrow> int \<Rightarrow> string \<Rightarrow> RetentionTier" where
  "plainTier name granularity keep unit =
     \<lparr>rt_Name = name, rt_Granularity = granularity, rt_PeriodDays = 0, rt_Keep = keep,
      rt_WindowUnit = unit, rt_Medium = []\<rparr>"

definition DefaultTierChain :: "int \<Rightarrow> int \<Rightarrow> int \<Rightarrow> RetentionTier list" where
  "DefaultTierChain dailyDays weeklyMonths monthlyMonths =
     [plainTier ''daily'' GranularityDay dailyDays [],
      plainTier ''weekly'' GranularityWeek weeklyMonths GranularityMonth,
      plainTier ''monthly'' GranularityMonth monthlyMonths []]"

record Retention =
  rc_Timezone :: string
  rc_WeekStartsOn :: string
  rc_DailyDays :: int
  rc_WeeklyMonths :: int
  rc_MonthlyMonths :: int
  rc_Tiers :: "RetentionTier list"
  rc_ProtectLastKnownGood :: "bool option"

definition EffectiveTiers :: "Retention \<Rightarrow> RetentionTier list" where
  "EffectiveTiers r =
     (if length (rc_Tiers r) > 0 then rc_Tiers r
      else DefaultTierChain (rc_DailyDays r) (rc_WeeklyMonths r) (rc_MonthlyMonths r))"

record Env =
  env_Zone :: "string \<Rightarrow> location option"
  env_Upper :: case_map
  env_Lower :: case_map

section \<open>Placing a record on the calendar\<close>

record gfsPlacement =
  pl_date :: gfsCivilDate
  pl_occurred :: instant

datatype gfsProducerRefusal = ProducerAbsent | ProducerAfterDiscovery

definition gfsDiscoveryInstant :: "Record \<Rightarrow> instant" where
  "gfsDiscoveryInstant rec = r_DiscoveredAt rec"

definition gfsProducerInstant :: "Record \<Rightarrow> gfsProducerRefusal + instant" where
  "gfsProducerInstant rec =
     (case rf_ModTime (r_Remote rec) of
        None \<Rightarrow> Inl ProducerAbsent
      | Some producer \<Rightarrow>
        if producer = zeroTime then Inl ProducerAbsent
        else if producer > gfsDiscoveryInstant rec then Inl ProducerAfterDiscovery
        else Inr producer)"

definition placementIn :: "location \<Rightarrow> instant \<Rightarrow> gfsPlacement" where
  "placementIn loc t = \<lparr>pl_date = gfsCivilDateIn t loc, pl_occurred = t\<rparr>"

definition gfsPlacementsFor :: "Record \<Rightarrow> location \<Rightarrow> gfsPlacement \<times> gfsPlacement option" where
  "gfsPlacementsFor rec loc =
     (placementIn loc (gfsDiscoveryInstant rec),
      (case gfsProducerInstant rec of Inl _ \<Rightarrow> None | Inr p \<Rightarrow> Some (placementIn loc p)))"

definition gfsRetentionInstant :: "Record \<Rightarrow> instant \<times> gfsProducerRefusal option" where
  "gfsRetentionInstant rec =
     (case gfsProducerInstant rec of
        Inr p \<Rightarrow> (p, None)
      | Inl why \<Rightarrow> (gfsDiscoveryInstant rec, Some why))"

definition gfsManagedCompleteStates :: "State list" where
  "gfsManagedCompleteStates = [Committed, RemoteDeletePending, Complete, RemoteRetained]"

definition gfsIsManagedComplete :: "State \<Rightarrow> bool" where
  "gfsIsManagedComplete st = List.member gfsManagedCompleteStates st"

definition gfsManagedCompleteNames :: string where
  "gfsManagedCompleteNames = NameSet gfsManagedCompleteStates"

record gfsDated =
  gd_artifact :: ArtifactID
  gd_discovered :: gfsPlacement
  gd_producer :: "gfsPlacement option"

definition gfsDiscoveryPlacement :: "gfsDated \<Rightarrow> gfsPlacement option" where
  "gfsDiscoveryPlacement d = Some (gd_discovered d)"

definition gfsProducerPlacement :: "gfsDated \<Rightarrow> gfsPlacement option" where
  "gfsProducerPlacement d = gd_producer d"

section \<open>Resolving the chain\<close>

datatype tierError =
    TierUnnamed
  | TierReserved
  | GranularityUnset
  | UnknownGranularity string
  | NoPeriod int
  | WindowNeedsPeriod string
  | WindowUnitError tierError

datatype gfsError =
    NoSetID
  | BadTimezone string
  | BadWeekStart string
  | ForeignRecord ArtifactID
  | EmptyChain
  | BadTier nat tierError
  | NothingEnabled nat

record gfsBoundTier =
  bt_tier :: string
  bt_inSpan :: "gfsCivilDate \<Rightarrow> bool"
  bt_bucket :: "gfsCivilDate \<Rightarrow> gfsCivilDate"

definition gfsTierName :: "Env \<Rightarrow> string \<Rightarrow> string" where
  "gfsTierName env configured = toUpper (env_Upper env) configured"

definition gfsBucketFunc ::
  "string \<Rightarrow> int \<Rightarrow> int \<Rightarrow> tierError + (gfsCivilDate \<Rightarrow> gfsCivilDate)" where
  "gfsBucketFunc granularity periodDays weekStartDay =
     (if granularity = GranularityDay then Inr (\<lambda>d. d)
      else if granularity = GranularityWeek then Inr (\<lambda>d. weekStart d weekStartDay)
      else if granularity = GranularityMonth then Inr firstOfMonth
      else if granularity = GranularityQuarter then Inr firstOfQuarter
      else if granularity = GranularityHalfYear then Inr firstOfHalfYear
      else if granularity = GranularityYear then Inr firstOfYear
      else if granularity = GranularityDays then
        (if periodDays \<le> 0 then Inl (NoPeriod periodDays) else Inr (\<lambda>d. periodStart d periodDays))
      else if granularity = [] then Inl GranularityUnset
      else Inl (UnknownGranularity granularity))"

definition gfsStepFunc :: "string \<Rightarrow> int \<Rightarrow> tierError + (gfsCivilDate \<Rightarrow> int \<Rightarrow> gfsCivilDate)" where
  "gfsStepFunc granularity periodDays =
     (if granularity = GranularityDay then Inr (\<lambda>c n. addDays c n)
      else if granularity = GranularityWeek then Inr (\<lambda>c n. addDays c (7 * n))
      else if granularity = GranularityMonth then Inr (\<lambda>c n. addMonths c n)
      else if granularity = GranularityQuarter then Inr (\<lambda>c n. addMonths c (3 * n))
      else if granularity = GranularityHalfYear then Inr (\<lambda>c n. addMonths c (6 * n))
      else if granularity = GranularityYear then Inr (\<lambda>c n. addMonths c (12 * n))
      else if granularity = GranularityDays then
        (if periodDays \<le> 0 then Inl (NoPeriod periodDays) else Inr (\<lambda>c n. addDays c (periodDays * n)))
      else if granularity = [] then Inl GranularityUnset
      else Inl (UnknownGranularity granularity))"

definition gfsResolveTier ::
  "Env \<Rightarrow> RetentionTier \<Rightarrow> gfsCivilDate \<Rightarrow> int \<Rightarrow> tierError + gfsBoundTier" where
  "gfsResolveTier env t today weekStartDay =
     (if rt_Name t = [] then Inl TierUnnamed
      else if rt_Name t = TierLastKnownGoodName then Inl TierReserved
      else bindE (gfsBucketFunc (rt_Granularity t) (rt_PeriodDays t) weekStartDay) (\<lambda>bucket.
        let unit = (if rt_WindowUnit t = [] then rt_Granularity t else rt_WindowUnit t) in
        if unit = GranularityDays \<and> rt_Granularity t \<noteq> GranularityDays then Inl (WindowNeedsPeriod unit)
        else bindE (mapErr WindowUnitError (gfsBucketFunc unit (rt_PeriodDays t) weekStartDay)) (\<lambda>anchor.
             bindE (mapErr WindowUnitError (gfsStepFunc unit (rt_PeriodDays t))) (\<lambda>step.
             let keep = rt_Keep t in
             Inr \<lparr>bt_tier = gfsTierName env (rt_Name t),
                  bt_inSpan = (\<lambda>d. if keep \<le> 0 then False
                     else let start = step (anchor today) (- (keep - 1))
                          in \<not> before d start \<and> \<not> after d today),
                  bt_bucket = bucket\<rparr>))))"

fun resolveTiers ::
  "Env \<Rightarrow> nat \<Rightarrow> RetentionTier list \<Rightarrow> gfsCivilDate \<Rightarrow> int \<Rightarrow> gfsError + gfsBoundTier list" where
  "resolveTiers env i [] today weekStartDay = Inr []"
| "resolveTiers env i (t # ts) today weekStartDay =
     bindE (mapErr (BadTier i) (gfsResolveTier env t today weekStartDay)) (\<lambda>bound.
     bindE (resolveTiers env (i + 1) ts today weekStartDay) (\<lambda>rest. Inr (bound # rest)))"

definition gfsResolveChain ::
  "Env \<Rightarrow> RetentionTier list \<Rightarrow> gfsCivilDate \<Rightarrow> int \<Rightarrow> gfsError + gfsBoundTier list" where
  "gfsResolveChain env chain today weekStartDay =
     (if length chain = 0 then Inl EmptyChain
      else bindE (resolveTiers env 0 chain today weekStartDay) (\<lambda>out.
        if length (filter (\<lambda>t. rt_Keep t > 0) chain) = 0 then Inl (NothingEnabled (length chain))
        else Inr out))"

section \<open>Selecting representatives\<close>

definition gfsIsNewerRepresentative :: "ArtifactID \<times> instant \<Rightarrow> ArtifactID \<times> instant \<Rightarrow> bool" where
  "gfsIsNewerRepresentative candidate current =
     (if snd candidate \<noteq> snd current then snd candidate > snd current
      else ar_Name (fst candidate) > ar_Name (fst current))"

text \<open>The candidates of a tier: the bucket of each dated artifact inside its window.\<close>

definition gfsCandidate ::
  "gfsBoundTier \<Rightarrow> (gfsDated \<Rightarrow> gfsPlacement option) \<Rightarrow> gfsDated \<Rightarrow>
   (gfsCivilDate \<times> (ArtifactID \<times> instant)) option" where
  "gfsCandidate tb place d =
     (case place d of None \<Rightarrow> None
      | Some p \<Rightarrow> if \<not> bt_inSpan tb (pl_date p) then None
                  else Some (bt_bucket tb (pl_date p), (gd_artifact d, pl_occurred p)))"

definition champion :: "(ArtifactID \<times> instant) list \<Rightarrow> ArtifactID \<times> instant" where
  "champion cands =
     foldl (\<lambda>champ c. if gfsIsNewerRepresentative c champ then c else champ) (hd cands) (tl cands)"

definition tiesWith :: "(ArtifactID \<times> instant) list \<Rightarrow> (ArtifactID \<times> ArtifactID) list" where
  "tiesWith cands =
     (let champ = champion cands in
      map (\<lambda>c. (fst c, fst champ)) (filter (\<lambda>c. fst c \<noteq> fst champ \<and> snd c = snd champ) cands))"

definition bucketsOf :: "(gfsCivilDate \<times> 'a) list \<Rightarrow> 'a list list" where
  "bucketsOf ps = map (\<lambda>k. map snd (filter (\<lambda>p. fst p = k) ps)) (remdups (map fst ps))"

definition gfsSelectRepresentatives ::
  "gfsBoundTier \<Rightarrow> gfsDated list \<Rightarrow> (gfsDated \<Rightarrow> gfsPlacement option) \<Rightarrow>
   ArtifactID list \<times> (ArtifactID \<times> ArtifactID) list" where
  "gfsSelectRepresentatives tb eligible place =
     (let buckets = bucketsOf (List.map_filter (gfsCandidate tb place) eligible)
      in (map (fst \<circ> champion) buckets, concat (map tiesWith buckets)))"

section \<open>The decision\<close>

datatype GFSSelectedBy = SelectedByDiscovery | SelectedByProducer | SelectedByBoth | SelectedByProtection

record GFSTierSelection =
  ts_Tier :: string
  ts_By :: GFSSelectedBy

record GFSSiblingCollision =
  sc_Tier :: string
  sc_By :: GFSSelectedBy
  sc_Sibling :: ArtifactID

record GFSVerdict =
  v_Artifact :: ArtifactID
  v_Keep :: bool
  v_Tiers :: "GFSTierSelection list"
  v_SiblingCollisions :: "GFSSiblingCollision list"

fun selectedByString :: "GFSSelectedBy \<Rightarrow> string" where
  "selectedByString SelectedByDiscovery = ''DISCOVERY''"
| "selectedByString SelectedByProducer = ''PRODUCER''"
| "selectedByString SelectedByBoth = ''BOTH''"
| "selectedByString SelectedByProtection = ''PROTECTION''"

definition selectionString :: "GFSTierSelection \<Rightarrow> string" where
  "selectionString s =
     (if ts_By s = SelectedByProtection then ts_Tier s
      else ts_Tier s @ ''('' @ map lowerByte (selectedByString (ts_By s)) @ '')'')"

text \<open>One line per sibling, in order of first appearance.\<close>

definition SiblingCollisionLines :: "GFSVerdict \<Rightarrow> string list" where
  "SiblingCollisionLines v =
     (let order = rev (remdups (rev (map sc_Sibling (v_SiblingCollisions v))));
          bySibling = (\<lambda>sib. map (\<lambda>c. selectionString \<lparr>ts_Tier = sc_Tier c, ts_By = sc_By c\<rparr>)
                        (filter (\<lambda>c. sc_Sibling c = sib) (v_SiblingCollisions v)))
      in map (\<lambda>sib. ''sibling collision: '' @ ar_Name (v_Artifact v) @ '' shares an identical timestamp with '' @
           ar_Name sib @ '' ('' @ joinStrings '', '' (bySibling sib) @ '') and lost only the name tie-break, '' @
           ''not the retention window -- this is not an ordinary supersession; if these are two files of one '' @
           ''restore point, see docs/EPIC.md's FR-18 \"Multi-file restore points\" section on configuring one '' @
           ''backup set per file pattern before deleting either'') order)"

definition freshVerdict :: "ArtifactID \<Rightarrow> GFSVerdict" where
  "freshVerdict a = \<lparr>v_Artifact = a, v_Keep = False, v_Tiers = [], v_SiblingCollisions = []\<rparr>"

definition updateVerdict :: "ArtifactID \<Rightarrow> (GFSVerdict \<Rightarrow> GFSVerdict) \<Rightarrow> GFSVerdict list \<Rightarrow> GFSVerdict list" where
  "updateVerdict a f vs = map (\<lambda>v. if v_Artifact v = a then f v else v) vs"

definition sortGFSVerdicts :: "GFSVerdict list \<Rightarrow> GFSVerdict list" where
  "sortGFSVerdicts vs = sort_key (\<lambda>v. ar_Name (v_Artifact v)) vs"

definition gfsWeekdaysByName :: "(string \<times> int) list" where
  "gfsWeekdaysByName =
     [(''sunday'', 0), (''monday'', 1), (''tuesday'', 2), (''wednesday'', 3), (''thursday'', 4),
      (''friday'', 5), (''saturday'', 6)]"

definition datedOf :: "location \<Rightarrow> Record \<Rightarrow> gfsDated" where
  "datedOf loc rec =
     \<lparr>gd_artifact = r_Artifact rec, gd_discovered = fst (gfsPlacementsFor rec loc),
      gd_producer = snd (gfsPlacementsFor rec loc)\<rparr>"

fun gfsEligible :: "location \<Rightarrow> BackupSetID \<Rightarrow> Record list \<Rightarrow> gfsError + gfsDated list" where
  "gfsEligible loc st [] = Inr []"
| "gfsEligible loc st (rec # rs) =
     (if ar_Set (r_Artifact rec) \<noteq> st then Inl (ForeignRecord (r_Artifact rec))
      else bindE (gfsEligible loc st rs) (\<lambda>ds.
        Inr (if gfsIsManagedComplete (r_State rec) then datedOf loc rec # ds else ds)))"

definition selectedBy :: "ArtifactID list \<Rightarrow> ArtifactID list \<Rightarrow> ArtifactID \<Rightarrow> GFSSelectedBy option" where
  "selectedBy byDiscovery byProducer a =
     (if a \<notin> set byDiscovery \<and> a \<notin> set byProducer then None
      else if a \<notin> set byProducer then Some SelectedByDiscovery
      else if a \<notin> set byDiscovery then Some SelectedByProducer
      else Some SelectedByBoth)"

definition attribute :: "string \<Rightarrow> ArtifactID list \<Rightarrow> ArtifactID list \<Rightarrow> gfsDated \<Rightarrow> GFSVerdict list \<Rightarrow> GFSVerdict list" where
  "attribute tier byDiscovery byProducer d vs =
     (case selectedBy byDiscovery byProducer (gd_artifact d) of
        None \<Rightarrow> vs
      | Some by' \<Rightarrow> updateVerdict (gd_artifact d)
          (\<lambda>v. v\<lparr>v_Keep := True, v_Tiers := v_Tiers v @ [\<lparr>ts_Tier = tier, ts_By = by'\<rparr>]\<rparr>) vs)"

definition noteCollision :: "string \<Rightarrow> ArtifactID \<times> ArtifactID \<Rightarrow> GFSVerdict list \<Rightarrow> GFSVerdict list" where
  "noteCollision tier tie vs =
     updateVerdict (fst tie) (\<lambda>v. v\<lparr>v_SiblingCollisions := v_SiblingCollisions v @
       [\<lparr>sc_Tier = tier, sc_By = SelectedByProducer, sc_Sibling = snd tie\<rparr>]\<rparr>) vs"

definition applyTier :: "gfsDated list \<Rightarrow> gfsBoundTier \<Rightarrow> GFSVerdict list \<Rightarrow> GFSVerdict list" where
  "applyTier eligible tb vs =
     (let (byDiscovery, _) = gfsSelectRepresentatives tb eligible gfsDiscoveryPlacement;
          (byProducer, producerTies) = gfsSelectRepresentatives tb eligible gfsProducerPlacement
      in fold (noteCollision (bt_tier tb)) producerTies
           (fold (attribute (bt_tier tb) byDiscovery byProducer) eligible vs))"

definition dropStaleCollisions :: "GFSVerdict list \<Rightarrow> GFSVerdict list" where
  "dropStaleCollisions vs = map (\<lambda>v. if v_Keep v then v\<lparr>v_SiblingCollisions := []\<rparr> else v) vs"

definition GFSDecide ::
  "Env \<Rightarrow> instant \<Rightarrow> Retention \<Rightarrow> BackupSetID \<Rightarrow> Record list \<Rightarrow> gfsError + GFSVerdict list" where
  "GFSDecide env now cfg st records =
     (if setIsZero st then Inl NoSetID
      else case env_Zone env (rc_Timezone cfg) of None \<Rightarrow> Inl (BadTimezone (rc_Timezone cfg))
      | Some loc \<Rightarrow>
        (case map_of gfsWeekdaysByName (toLower (env_Lower env) (rc_WeekStartsOn cfg)) of
           None \<Rightarrow> Inl (BadWeekStart (rc_WeekStartsOn cfg))
         | Some weekStartDay \<Rightarrow>
           bindE (gfsEligible loc st records) (\<lambda>eligible.
           bindE (gfsResolveChain env (EffectiveTiers cfg) (gfsCivilDateIn now loc) weekStartDay) (\<lambda>tiers.
             let verdicts = map freshVerdict (remdups (map gd_artifact eligible))
             in Inr (sortGFSVerdicts (dropStaleCollisions (fold (applyTier eligible) tiers verdicts)))))))"

end
