(* ===== verification/GfsProps.thy ===== *)
theory GfsProps
  imports Gfs "HOL-Library.Product_Lexorder" "HOL-Library.Multiset"
begin

text \<open>
  What the retention chain decides.  The locale \<open>newest\<close> is the contract of the two orders the
  package picks a newest candidate by; its lemmas say that the left fold the code writes finds the
  one candidate with the greatest key, whatever the order of the list.
\<close>

section \<open>Picking the newest\<close>

locale newest =
  fixes newer :: "'a \<Rightarrow> 'a \<Rightarrow> bool" and key :: "'a \<Rightarrow> 'k::linorder"
  assumes newer_iff: "newer x y \<longleftrightarrow> key y < key x"
begin

definition pick :: "'a list \<Rightarrow> 'a" where
  "pick xs = foldl (\<lambda>champ c. if newer c champ then c else champ) (hd xs) (tl xs)"

lemma fold_in: "foldl (\<lambda>champ c. if newer c champ then c else champ) x xs \<in> insert x (set xs)"
  by (induction xs arbitrary: x) fastforce+

lemma fold_max:
  "y \<in> insert x (set xs) \<Longrightarrow> key y \<le> key (foldl (\<lambda>champ c. if newer c champ then c else champ) x xs)"
proof (induction xs arbitrary: x y)
  case (Cons z zs)
  let ?x' = "if newer z x then z else x"
  have x': "key x \<le> key ?x'" "key z \<le> key ?x'" by (auto simp: newer_iff)
  have "key ?x' \<le> key (foldl (\<lambda>champ c. if newer c champ then c else champ) ?x' zs)" by (rule Cons.IH) simp
  with Cons.IH[of _ ?x'] x' Cons.prems show ?case by (auto intro: order_trans simp del: foldl_Cons simp: foldl_Cons[of _ x z zs])
qed simp

lemma pick_in: "xs \<noteq> [] \<Longrightarrow> pick xs \<in> set xs"
  using fold_in[of "hd xs" "tl xs"] by (cases xs) (auto simp: pick_def)

lemma pick_max: "y \<in> set xs \<Longrightarrow> key y \<le> key (pick xs)"
  using fold_max[of y "hd xs" "tl xs"] by (cases xs) (auto simp: pick_def)

lemma pick_newest: "y \<in> set xs \<Longrightarrow> \<not> newer y (pick xs)"
  using pick_max by (simp add: newer_iff not_less)

lemma pick_eqI: "x \<in> set xs \<Longrightarrow> (\<And>y. y \<in> set xs \<Longrightarrow> \<not> newer y x) \<Longrightarrow> key (pick xs) = key x"
  using pick_max[of x xs] pick_in[of xs] by (force simp: newer_iff not_less intro: antisym)

end

definition candidateKey :: "ArtifactID \<times> instant \<Rightarrow> instant \<times> string" where
  "candidateKey c = (snd c, ar_Name (fst c))"

interpretation gfs: newest gfsIsNewerRepresentative candidateKey
  by unfold_locales (auto simp: gfsIsNewerRepresentative_def candidateKey_def less_prod_def)

lemma champion_pick: "champion = gfs.pick"
  by (rule ext) (simp add: champion_def gfs.pick_def)

section \<open>Buckets\<close>

lemma set_bucketsOf: "set (bucketsOf ps) = {map snd (filter (\<lambda>p. fst p = k) ps) |k. k \<in> fst ` set ps}"
  by (auto simp: bucketsOf_def)

lemma bucketsOf_nonempty: "b \<in> set (bucketsOf ps) \<Longrightarrow> b \<noteq> []"
  by (force simp: set_bucketsOf filter_empty_conv)

lemma mset_bucketsOf: "mset (concat (bucketsOf ps)) = mset (map snd ps)"
proof -
  have "mset (concat (map (\<lambda>k. map snd (filter (\<lambda>p. fst p = k) ps)) ks))
      = mset (map snd (filter (\<lambda>p. fst p \<in> set ks) ps))" if "distinct ks" for ks
    using that
  proof (induction ks)
    case (Cons k ks)
    have "mset (map snd (filter (\<lambda>p. fst p = k \<or> fst p \<in> set ks) ps))
        = mset (map snd (filter (\<lambda>p. fst p = k) ps)) + mset (map snd (filter (\<lambda>p. fst p \<in> set ks) ps))"
      using Cons.prems by (induction ps) auto
    with Cons show ?case by simp
  qed simp
  from this[of "remdups (map fst ps)"] show ?thesis by (simp add: bucketsOf_def filter_id_conv)
qed

section \<open>What a pass selects\<close>

text \<open>The abstract statement of one pass: the artifacts offered to a bucket inside the window that
  no other candidate of the same bucket is newer than.\<close>

definition candidates ::
  "gfsBoundTier \<Rightarrow> gfsDated list \<Rightarrow> (gfsDated \<Rightarrow> gfsPlacement option) \<Rightarrow> (gfsCivilDate \<times> (ArtifactID \<times> instant)) list" where
  "candidates tb eligible place = List.map_filter (gfsCandidate tb place) eligible"

definition represents ::
  "gfsBoundTier \<Rightarrow> gfsDated list \<Rightarrow> (gfsDated \<Rightarrow> gfsPlacement option) \<Rightarrow> ArtifactID \<Rightarrow> bool" where
  "represents tb eligible place a =
     (\<exists>k c. (k, c) \<in> set (candidates tb eligible place) \<and> fst c = a \<and>
        (\<forall>c'. (k, c') \<in> set (candidates tb eligible place) \<longrightarrow> \<not> gfsIsNewerRepresentative c' c))"

definition oneSet :: "BackupSetID \<Rightarrow> gfsDated list \<Rightarrow> bool" where
  "oneSet st eligible = (\<forall>d \<in> set eligible. ar_Set (gd_artifact d) = st)"

lemma set_candidates:
  "(k, c) \<in> set (candidates tb eligible place) \<longleftrightarrow> (\<exists>d \<in> set eligible. gfsCandidate tb place d = Some (k, c))"
  by (force simp: candidates_def List.map_filter_def image_iff)

lemma candidate_set:
  "oneSet st eligible \<Longrightarrow> (k, c) \<in> set (candidates tb eligible place) \<Longrightarrow> ar_Set (fst c) = st"
  by (auto simp: set_candidates oneSet_def gfsCandidate_def split: option.splits if_splits)

lemma artifact_eqI: "ar_Set a = ar_Set b \<Longrightarrow> ar_Name a = ar_Name b \<Longrightarrow> a = (b :: ArtifactID)"
  by (cases a; cases b) simp

lemma in_bucket: "c \<in> set (map snd (filter (\<lambda>p. fst p = k) ps)) \<longleftrightarrow> (k, c) \<in> set ps"
  by force

lemma champion_bucket:
  assumes "(k, c) \<in> set ps"
  defines "b \<equiv> map snd (filter (\<lambda>p. fst p = k) ps)"
  shows "(k, champion b) \<in> set ps \<and> (\<forall>c'. (k, c') \<in> set ps \<longrightarrow> \<not> gfsIsNewerRepresentative c' (champion b))"
proof -
  have "b \<noteq> []" using assms by (force simp: filter_empty_conv)
  then have "champion b \<in> set b" unfolding champion_pick by (rule gfs.pick_in)
  moreover have "\<not> gfsIsNewerRepresentative c' (champion b)" if "c' \<in> set b" for c'
    unfolding champion_pick using that by (rule gfs.pick_newest)
  ultimately show ?thesis unfolding b_def in_bucket by blast
qed

lemma select_def':
  "fst (gfsSelectRepresentatives tb eligible place) = map (fst \<circ> champion) (bucketsOf (candidates tb eligible place))"
  "snd (gfsSelectRepresentatives tb eligible place) = concat (map tiesWith (bucketsOf (candidates tb eligible place)))"
  by (simp_all add: gfsSelectRepresentatives_def candidates_def Let_def)

text \<open>Two candidates of one bucket that neither is newer than the other are the same artifact.\<close>

lemma unbeaten_unique:
  assumes "oneSet st eligible" "(k, c) \<in> set (candidates tb eligible place)" "(k, c') \<in> set (candidates tb eligible place)"
    "\<not> gfsIsNewerRepresentative c c'" "\<not> gfsIsNewerRepresentative c' c"
  shows "c = c'"
  using candidate_set[OF assms(1,2)] candidate_set[OF assms(1,3)] assms(4,5)
  by (cases c; cases c') (auto simp: gfsIsNewerRepresentative_def split: if_splits intro!: artifact_eqI)

lemma select_iff:
  assumes "oneSet st eligible"
  shows "a \<in> set (fst (gfsSelectRepresentatives tb eligible place)) \<longleftrightarrow> represents tb eligible place a"
proof -
  let ?ps = "candidates tb eligible place"
  let ?b = "\<lambda>k. map snd (filter (\<lambda>p. fst p = k) ?ps)"
  have "a \<in> set (fst (gfsSelectRepresentatives tb eligible place))
      \<longleftrightarrow> (\<exists>k c. (k, c) \<in> set ?ps \<and> a = fst (champion (?b k)))"
    unfolding select_def' set_map set_bucketsOf by (force simp del: map_map)
  also have "\<dots> \<longleftrightarrow> represents tb eligible place a"
  proof
    assume "\<exists>k c. (k, c) \<in> set ?ps \<and> a = fst (champion (?b k))"
    then obtain k c where "(k, c) \<in> set ?ps" "a = fst (champion (?b k))" by blast
    with champion_bucket[of k c ?ps] show "represents tb eligible place a"
      unfolding represents_def by blast
  next
    assume "represents tb eligible place a"
    then obtain k c where c: "(k, c) \<in> set ?ps" "fst c = a"
      "\<And>c'. (k, c') \<in> set ?ps \<Longrightarrow> \<not> gfsIsNewerRepresentative c' c"
      unfolding represents_def by blast
    have "champion (?b k) = c"
      using champion_bucket[OF c(1)] c(3) unbeaten_unique[OF assms] c(1) by blast
    with c(1,2) show "\<exists>k c. (k, c) \<in> set ?ps \<and> a = fst (champion (?b k))" by metis
  qed
  finally show ?thesis .
qed

section \<open>The loop over the tiers\<close>

definition passes :: "gfsDated list \<Rightarrow> gfsBoundTier \<Rightarrow> ArtifactID list \<times> ArtifactID list" where
  "passes eligible tb =
     (fst (gfsSelectRepresentatives tb eligible gfsDiscoveryPlacement),
      fst (gfsSelectRepresentatives tb eligible gfsProducerPlacement))"

definition tierSelection :: "gfsDated list \<Rightarrow> ArtifactID \<Rightarrow> gfsBoundTier \<Rightarrow> GFSTierSelection option" where
  "tierSelection eligible a tb =
     map_option (\<lambda>by'. \<lparr>ts_Tier = bt_tier tb, ts_By = by'\<rparr>)
       (selectedBy (fst (passes eligible tb)) (snd (passes eligible tb)) a)"

definition collisionsIn :: "gfsDated list \<Rightarrow> ArtifactID \<Rightarrow> gfsBoundTier \<Rightarrow> GFSSiblingCollision list" where
  "collisionsIn eligible a tb =
     map (\<lambda>t. \<lparr>sc_Tier = bt_tier tb, sc_By = SelectedByProducer, sc_Sibling = snd t\<rparr>)
       (filter (\<lambda>t. fst t = a) (snd (gfsSelectRepresentatives tb eligible gfsProducerPlacement)))"

definition stepVerdict :: "gfsDated list \<Rightarrow> gfsBoundTier \<Rightarrow> GFSVerdict \<Rightarrow> GFSVerdict" where
  "stepVerdict eligible tb v =
     v\<lparr>v_Keep := (v_Keep v \<or> tierSelection eligible (v_Artifact v) tb \<noteq> None),
       v_Tiers := v_Tiers v @ (case tierSelection eligible (v_Artifact v) tb of None \<Rightarrow> [] | Some s \<Rightarrow> [s]),
       v_SiblingCollisions := v_SiblingCollisions v @ collisionsIn eligible (v_Artifact v) tb\<rparr>"

lemma fold_attribute:
  assumes "distinct (map gd_artifact ds)"
  shows "fold (attribute tier D P) ds vs =
    map (\<lambda>v. if v_Artifact v \<notin> gd_artifact ` set ds then v
             else (case selectedBy D P (v_Artifact v) of None \<Rightarrow> v
                   | Some by' \<Rightarrow> v\<lparr>v_Keep := True, v_Tiers := v_Tiers v @ [\<lparr>ts_Tier = tier, ts_By = by'\<rparr>]\<rparr>)) vs"
  using assms
proof (induction ds arbitrary: vs)
  case (Cons d ds)
  have "attribute tier D P d vs = map (\<lambda>v. if v_Artifact v \<noteq> gd_artifact d then v
      else (case selectedBy D P (v_Artifact v) of None \<Rightarrow> v
            | Some by' \<Rightarrow> v\<lparr>v_Keep := True, v_Tiers := v_Tiers v @ [\<lparr>ts_Tier = tier, ts_By = by'\<rparr>]\<rparr>)) vs"
    by (auto simp: attribute_def updateVerdict_def map_idI split: option.split)
  with Cons show ?case by (auto split: option.splits)
qed simp

lemma fold_noteCollision:
  "fold (noteCollision tier) ties vs =
     map (\<lambda>v. v\<lparr>v_SiblingCollisions := v_SiblingCollisions v @
       map (\<lambda>t. \<lparr>sc_Tier = tier, sc_By = SelectedByProducer, sc_Sibling = snd t\<rparr>)
         (filter (\<lambda>t. fst t = v_Artifact v) ties)\<rparr>) vs"
  by (induction ties arbitrary: vs) (auto simp: noteCollision_def updateVerdict_def)

lemma applyTier_step:
  assumes "distinct (map gd_artifact eligible)" "\<forall>v \<in> set vs. v_Artifact v \<in> gd_artifact ` set eligible"
  shows "applyTier eligible tb vs = map (stepVerdict eligible tb) vs"
proof -
  have "applyTier eligible tb vs = fold (noteCollision (bt_tier tb)) (snd (gfsSelectRepresentatives tb eligible gfsProducerPlacement))
      (fold (attribute (bt_tier tb) (fst (passes eligible tb)) (snd (passes eligible tb))) eligible vs)"
    by (simp add: applyTier_def passes_def split: prod.split)
  with assms show ?thesis
    by (auto simp: fold_attribute fold_noteCollision stepVerdict_def tierSelection_def collisionsIn_def split: option.split)
qed

definition referenceVerdict :: "gfsBoundTier list \<Rightarrow> gfsDated list \<Rightarrow> ArtifactID \<Rightarrow> GFSVerdict" where
  "referenceVerdict tiers eligible a =
     (let sel = List.map_filter (tierSelection eligible a) tiers
      in \<lparr>v_Artifact = a, v_Keep = (sel \<noteq> []), v_Tiers = sel,
          v_SiblingCollisions = (if sel \<noteq> [] then [] else concat (map (collisionsIn eligible a) tiers))\<rparr>)"

lemma stepVerdict_artifact [simp]: "v_Artifact (stepVerdict eligible tb v) = v_Artifact v"
  by (simp add: stepVerdict_def)

lemma fold_applyTier:
  assumes "distinct (map gd_artifact eligible)" "\<forall>v \<in> set vs. v_Artifact v \<in> gd_artifact ` set eligible"
  shows "fold (applyTier eligible) tiers vs = map (fold (stepVerdict eligible) tiers) vs"
  using assms(2)
proof (induction tiers arbitrary: vs)
  case (Cons tb tiers)
  have "fold (applyTier eligible) tiers (map (stepVerdict eligible tb) vs)
      = map (fold (stepVerdict eligible) tiers) (map (stepVerdict eligible tb) vs)"
    by (rule Cons.IH) (use Cons.prems in auto)
  with applyTier_step[OF assms(1) Cons.prems] show ?case by simp
qed simp

lemma fold_stepVerdict:
  "fold (stepVerdict eligible) tiers v =
     (let sel = List.map_filter (tierSelection eligible (v_Artifact v)) tiers
      in v\<lparr>v_Keep := (v_Keep v \<or> sel \<noteq> []), v_Tiers := v_Tiers v @ sel,
           v_SiblingCollisions := v_SiblingCollisions v @ concat (map (collisionsIn eligible (v_Artifact v)) tiers)\<rparr>)"
proof (induction tiers arbitrary: v)
  case (Cons tb tiers)
  then show ?case
    by (simp add: Let_def stepVerdict_def List.map_filter_simps split: option.split)
qed (simp add: List.map_filter_simps)

lemma gfsEligible_Inr:
  "gfsEligible loc st records = Inr eligible \<longleftrightarrow>
     (\<forall>rec \<in> set records. ar_Set (r_Artifact rec) = st) \<and>
     eligible = map (datedOf loc) (filter (\<lambda>rec. gfsIsManagedComplete (r_State rec)) records)"
  by (induction records arbitrary: eligible) (auto simp: bindE_Inr_iff)

lemma datedOf_artifact [simp]: "gd_artifact (datedOf loc rec) = r_Artifact rec"
  by (simp add: datedOf_def)

text \<open>The whole decision against the reference: one verdict per eligible artifact, each computed on
  its own from the chain and the eligible artifacts.\<close>

lemma GFSDecide_reference:
  assumes "GFSDecide env now cfg st records = Inr out" "distinct (map r_Artifact records)"
  obtains loc wd tiers where
    "env_Zone env (rc_Timezone cfg) = Some loc"
    "map_of gfsWeekdaysByName (toLower (env_Lower env) (rc_WeekStartsOn cfg)) = Some wd"
    "\<forall>rec \<in> set records. ar_Set (r_Artifact rec) = st"
    "gfsResolveChain env (EffectiveTiers cfg) (gfsCivilDateIn now loc) wd = Inr tiers"
    "out = sortGFSVerdicts (map (\<lambda>rec. referenceVerdict tiers
       (map (datedOf loc) (filter (\<lambda>rec. gfsIsManagedComplete (r_State rec)) records)) (r_Artifact rec))
       (filter (\<lambda>rec. gfsIsManagedComplete (r_State rec)) records))"
proof -
  let ?ok = "filter (\<lambda>rec. gfsIsManagedComplete (r_State rec)) records"
  from assms(1) obtain loc wd eligible tiers where
    g: "env_Zone env (rc_Timezone cfg) = Some loc"
    "map_of gfsWeekdaysByName (toLower (env_Lower env) (rc_WeekStartsOn cfg)) = Some wd"
    "gfsEligible loc st records = Inr eligible"
    "gfsResolveChain env (EffectiveTiers cfg) (gfsCivilDateIn now loc) wd = Inr tiers"
    "out = sortGFSVerdicts (dropStaleCollisions (fold (applyTier eligible) tiers
       (map freshVerdict (remdups (map gd_artifact eligible)))))"
    by (auto simp: GFSDecide_def bindE_Inr_iff Let_def split: if_splits option.splits)
  from g(3) have e: "\<forall>rec \<in> set records. ar_Set (r_Artifact rec) = st" "eligible = map (datedOf loc) ?ok"
    by (simp_all add: gfsEligible_Inr)
  have m: "map gd_artifact eligible = map r_Artifact ?ok" by (simp add: e(2))
  have d: "distinct (map r_Artifact ?ok)" using assms(2) by (simp add: distinct_map_filter)
  then have d': "distinct (map gd_artifact eligible)" by (simp only: m)
  have "fold (applyTier eligible) tiers (map freshVerdict (map gd_artifact eligible))
      = map (fold (stepVerdict eligible) tiers) (map freshVerdict (map gd_artifact eligible))"
    by (rule fold_applyTier[OF d']) (auto simp: freshVerdict_def)
  then have "dropStaleCollisions (fold (applyTier eligible) tiers (map freshVerdict (remdups (map gd_artifact eligible))))
      = map (\<lambda>rec. referenceVerdict tiers eligible (r_Artifact rec)) ?ok"
    using d m by (simp add: distinct_remdups_id dropStaleCollisions_def fold_stepVerdict referenceVerdict_def freshVerdict_def Let_def)
  then show thesis using that[OF g(1,2) e(1) g(4)] g(5) e(2) by simp
qed

end
