(* ===== verification/GfsOrder.thy ===== *)
theory GfsOrder
  imports GfsProps
begin

text \<open>
  Consequences of the per-artifact decision: the verdicts depend only on which records there are.
\<close>

section \<open>Only the set of eligible artifacts matters\<close>

lemma represents_cong:
  "set (candidates tb ds place) = set (candidates tb ds' place') \<Longrightarrow> represents tb ds place = represents tb ds' place'"
  by (rule ext) (simp add: represents_def)

lemma candidates_cong: "set ds = set ds' \<Longrightarrow> set (candidates tb ds place) = set (candidates tb ds' place)"
  by (simp add: candidates_def List.map_filter_def image_def)

lemma tierSelection_iff:
  assumes "oneSet st ds"
  shows "tierSelection ds a tb =
    map_option (\<lambda>by'. \<lparr>ts_Tier = bt_tier tb, ts_By = by'\<rparr>)
      (if \<not> represents tb ds gfsDiscoveryPlacement a \<and> \<not> represents tb ds gfsProducerPlacement a then None
       else if \<not> represents tb ds gfsProducerPlacement a then Some SelectedByDiscovery
       else if \<not> represents tb ds gfsDiscoveryPlacement a then Some SelectedByProducer
       else Some SelectedByBoth)"
  by (simp add: tierSelection_def passes_def selectedBy_def select_iff[OF assms])

lemma oneSet_cong: "set ds = set ds' \<Longrightarrow> oneSet st ds = oneSet st ds'"
  by (simp add: oneSet_def)

lemma tierSelection_cong:
  assumes "oneSet st ds" "set ds = set ds'"
  shows "tierSelection ds a tb = tierSelection ds' a tb"
proof -
  have o: "oneSet st ds'" using assms oneSet_cong by blast
  show ?thesis
    unfolding tierSelection_iff[OF assms(1)] tierSelection_iff[OF o] represents_cong[OF candidates_cong[OF assms(2)]]
    by (rule refl)
qed

text \<open>The winner of a bucket: the candidate no other candidate of the bucket is newer than.\<close>

definition winner ::
  "gfsBoundTier \<Rightarrow> gfsDated list \<Rightarrow> (gfsDated \<Rightarrow> gfsPlacement option) \<Rightarrow> gfsCivilDate \<Rightarrow> ArtifactID \<times> instant \<Rightarrow> bool" where
  "winner tb ds place k ch =
     ((k, ch) \<in> set (candidates tb ds place) \<and>
      (\<forall>c'. (k, c') \<in> set (candidates tb ds place) \<longrightarrow> \<not> gfsIsNewerRepresentative c' ch))"

definition bucketAt :: "(gfsCivilDate \<times> 'a) list \<Rightarrow> gfsCivilDate \<Rightarrow> 'a list" where
  "bucketAt ps k = map snd (filter (\<lambda>p. fst p = k) ps)"

lemma in_bucketAt: "c \<in> set (bucketAt ps k) \<longleftrightarrow> (k, c) \<in> set ps"
  unfolding bucketAt_def by (rule in_bucket)

lemma bucketsOf_at: "set (bucketsOf ps) = bucketAt ps ` fst ` set ps"
  by (auto simp: set_bucketsOf bucketAt_def)

lemma champion_winner:
  assumes "oneSet st ds" "(k, c) \<in> set (candidates tb ds place)"
  shows "winner tb ds place k ch \<longleftrightarrow> champion (bucketAt (candidates tb ds place) k) = ch"
proof -
  have w: "winner tb ds place k (champion (bucketAt (candidates tb ds place) k))"
    unfolding winner_def bucketAt_def using assms(2) by (rule champion_bucket)
  have "ch = ch'" if "winner tb ds place k ch" "winner tb ds place k ch'" for ch'
    using unbeaten_unique[OF assms(1)] that unfolding winner_def by blast
  with w show ?thesis by blast
qed

lemma tiesWith_iff:
  "(l, s) \<in> set (tiesWith b) \<longleftrightarrow>
     (\<exists>t. (l, t) \<in> set b \<and> l \<noteq> fst (champion b) \<and> t = snd (champion b) \<and> s = fst (champion b))"
  by (auto simp: tiesWith_def Let_def image_iff)

lemma ties_iff:
  assumes "oneSet st ds"
  shows "(l, s) \<in> set (snd (gfsSelectRepresentatives tb ds place)) \<longleftrightarrow>
    (\<exists>k t. (k, (l, t)) \<in> set (candidates tb ds place) \<and> winner tb ds place k (s, t) \<and> l \<noteq> s)"
proof -
  let ?ps = "candidates tb ds place"
  have w: "winner tb ds place k ch \<longleftrightarrow> champion (bucketAt ?ps k) = ch" if "(k, c) \<in> set ?ps" for k c ch
    by (rule champion_winner[OF assms that])
  show ?thesis
  proof
    assume "(l, s) \<in> set (snd (gfsSelectRepresentatives tb ds place))"
    then obtain k c where k: "(k, c) \<in> set ?ps" and "(l, s) \<in> set (tiesWith (bucketAt ?ps k))"
      unfolding select_def' set_concat set_map bucketsOf_at by fastforce
    then obtain t where t: "(k, (l, t)) \<in> set ?ps" "l \<noteq> fst (champion (bucketAt ?ps k))"
      "t = snd (champion (bucketAt ?ps k))" "s = fst (champion (bucketAt ?ps k))"
      unfolding tiesWith_iff in_bucketAt by blast
    from t(3,4) have "champion (bucketAt ?ps k) = (s, t)" by simp
    with w[OF k] t(1,2,4) show "\<exists>k t. (k, (l, t)) \<in> set ?ps \<and> winner tb ds place k (s, t) \<and> l \<noteq> s" by metis
  next
    assume "\<exists>k t. (k, (l, t)) \<in> set ?ps \<and> winner tb ds place k (s, t) \<and> l \<noteq> s"
    then obtain k t where k: "(k, (l, t)) \<in> set ?ps" and t: "winner tb ds place k (s, t)" "l \<noteq> s" by blast
    from t(1) w[OF k] have c: "champion (bucketAt ?ps k) = (s, t)" by blast
    have "(l, s) \<in> set (tiesWith (bucketAt ?ps k))"
      unfolding tiesWith_iff in_bucketAt c using k t(2) by simp
    with k show "(l, s) \<in> set (snd (gfsSelectRepresentatives tb ds place))"
      unfolding select_def' set_concat set_map bucketsOf_at by force
  qed
qed

lemma winner_cong: "set ds = set ds' \<Longrightarrow> winner tb ds place k ch = winner tb ds' place k ch"
  unfolding winner_def using candidates_cong by blast

lemma ties_cong:
  assumes "oneSet st ds" "set ds = set ds'"
  shows "set (snd (gfsSelectRepresentatives tb ds place)) = set (snd (gfsSelectRepresentatives tb ds' place))"
proof -
  have o: "oneSet st ds'" using assms oneSet_cong by blast
  show ?thesis
  proof (rule set_eqI, clarify)
    fix l s
    show "(l, s) \<in> set (snd (gfsSelectRepresentatives tb ds place))
        \<longleftrightarrow> (l, s) \<in> set (snd (gfsSelectRepresentatives tb ds' place))"
      unfolding ties_iff[OF assms(1)] ties_iff[OF o] candidates_cong[OF assms(2)] winner_cong[OF assms(2)]
      by (rule refl)
  qed
qed

lemma tiesWith_sub: "\<exists>b'. map fst (tiesWith b) = map fst (filter b' b)"
  by (auto simp: tiesWith_def Let_def comp_def)

lemma distinct_tiesWith: "distinct (map fst b) \<Longrightarrow> distinct (map fst (tiesWith b))"
  using tiesWith_sub[of b] by (auto simp: distinct_map_filter)

lemma set_tiesWith: "fst ` set (tiesWith b) \<subseteq> fst ` set b"
  by (force simp: tiesWith_def Let_def)

lemma distinct_concat_ties:
  "distinct (map fst (concat bs)) \<Longrightarrow>
     distinct (map fst (concat (map tiesWith bs))) \<and> fst ` set (concat (map tiesWith bs)) \<subseteq> fst ` set (concat bs)"
proof (induction bs)
  case (Cons b bs)
  have d: "distinct (map fst b)" "distinct (map fst (concat bs))" "fst ` set b \<inter> fst ` set (concat bs) = {}"
    using Cons.prems by (simp_all del: set_concat)
  note ih = Cons.IH[OF d(2)]
  have "fst ` set (tiesWith b) \<inter> fst ` set (concat (map tiesWith bs)) = {}"
    using ih set_tiesWith[of b] d(3) by blast
  then have "distinct (map fst (concat (map tiesWith (b # bs))))"
    using ih distinct_tiesWith[OF d(1)] by (simp del: set_concat)
  moreover have "fst ` set (concat (map tiesWith (b # bs))) \<subseteq> fst ` set (concat (b # bs))"
    using ih set_tiesWith[of b] by (auto simp del: set_concat simp: image_Un)
  ultimately show ?case by (rule conjI)
qed simp

lemma candidate_artifacts:
  "distinct (map gd_artifact ds) \<Longrightarrow>
     distinct (map (fst \<circ> snd) (candidates tb ds place)) \<and>
     (fst \<circ> snd) ` set (candidates tb ds place) \<subseteq> gd_artifact ` set ds"
proof (induction ds)
  case (Cons d ds)
  have "fst (snd p) = gd_artifact d" if "gfsCandidate tb place d = Some p" for p
    using that by (auto simp: gfsCandidate_def split: option.splits if_splits)
  with Cons show ?case
    by (cases "gfsCandidate tb place d") (auto simp: candidates_def List.map_filter_simps)
qed (simp add: candidates_def List.map_filter_simps)

lemma distinct_ties:
  assumes "distinct (map gd_artifact ds)"
  shows "distinct (map fst (snd (gfsSelectRepresentatives tb ds place)))"
proof -
  have "distinct (map fst (map snd (candidates tb ds place)))"
    using candidate_artifacts[OF assms] by simp
  moreover have "mset (map fst (concat (bucketsOf (candidates tb ds place)))) = mset (map fst (map snd (candidates tb ds place)))"
    using mset_bucketsOf[of "candidates tb ds place"] by (simp only: mset_map)
  ultimately have "distinct (map fst (concat (bucketsOf (candidates tb ds place))))"
    using mset_eq_imp_distinct_iff by blast
  then show ?thesis unfolding select_def' using distinct_concat_ties by blast
qed

lemma filter_fst_map_of:
  "distinct (map fst ps) \<Longrightarrow> filter (\<lambda>p. fst p = a) ps = (case map_of ps a of None \<Rightarrow> [] | Some b \<Rightarrow> [(a, b)])"
proof (induction ps)
  case (Cons p ps)
  have "map_of ps (fst p) = None" using Cons.prems by (simp add: map_of_eq_None_iff)
  with Cons show ?case by (cases p) (auto split: option.splits)
qed simp

lemma map_of_set_cong:
  "distinct (map fst ps) \<Longrightarrow> distinct (map fst qs) \<Longrightarrow> set ps = set qs \<Longrightarrow> map_of ps = map_of qs"
  by (rule map_of_inject_set[THEN iffD2])

lemma collisionsIn_cong:
  assumes "oneSet st ds" "set ds = set ds'" "distinct (map gd_artifact ds)" "distinct (map gd_artifact ds')"
  shows "collisionsIn ds a tb = collisionsIn ds' a tb"
proof -
  let ?t = "\<lambda>ds. snd (gfsSelectRepresentatives tb ds gfsProducerPlacement)"
  have "map_of (?t ds) = map_of (?t ds')"
    by (rule map_of_set_cong[OF distinct_ties[OF assms(3)] distinct_ties[OF assms(4)] ties_cong[OF assms(1,2)]])
  then show ?thesis
    unfolding collisionsIn_def filter_fst_map_of[OF distinct_ties[OF assms(3)]] filter_fst_map_of[OF distinct_ties[OF assms(4)]]
    by simp
qed

lemma referenceVerdict_cong:
  assumes "oneSet st ds" "set ds = set ds'" "distinct (map gd_artifact ds)" "distinct (map gd_artifact ds')"
  shows "referenceVerdict tiers ds a = referenceVerdict tiers ds' a"
proof -
  have "tierSelection ds a = tierSelection ds' a"
    using tierSelection_cong[OF assms(1,2)] by (rule ext)
  moreover have "collisionsIn ds a = collisionsIn ds' a"
    using collisionsIn_cong[OF assms] by (rule ext)
  ultimately show ?thesis unfolding referenceVerdict_def by (simp only:)
qed

lemma sort_by_name_cong:
  assumes "mset vs = mset vs'" "inj_on (\<lambda>v. ar_Name (v_Artifact v)) (set vs)"
  shows "sortGFSVerdicts vs = sortGFSVerdicts vs'"
  unfolding sortGFSVerdicts_def by (rule sort_key_inj_key_eq) (simp_all add: assms)


section \<open>The decision as a whole\<close>

definition complete :: "Record list \<Rightarrow> Record list" where
  "complete records = filter (\<lambda>rec. gfsIsManagedComplete (r_State rec)) records"

definition GFSReference :: "location \<Rightarrow> gfsBoundTier list \<Rightarrow> Record list \<Rightarrow> GFSVerdict list" where
  "GFSReference loc tiers records =
     sortGFSVerdicts (map (\<lambda>rec. referenceVerdict tiers (map (datedOf loc) (complete records)) (r_Artifact rec)) (complete records))"

definition chainOf :: "Env \<Rightarrow> instant \<Rightarrow> Retention \<Rightarrow> location \<Rightarrow> gfsBoundTier list \<Rightarrow> bool" where
  "chainOf env now cfg loc tiers =
     (env_Zone env (rc_Timezone cfg) = Some loc \<and>
      (\<exists>wd. map_of gfsWeekdaysByName (toLower (env_Lower env) (rc_WeekStartsOn cfg)) = Some wd \<and>
            gfsResolveChain env (EffectiveTiers cfg) (gfsCivilDateIn now loc) wd = Inr tiers))"

lemma chainOf_unique: "chainOf env now cfg loc tiers \<Longrightarrow> chainOf env now cfg loc' tiers' \<Longrightarrow> loc = loc' \<and> tiers = tiers'"
  by (auto simp: chainOf_def)

lemma GFSDecide_sound:
  assumes "GFSDecide env now cfg st records = Inr out" "distinct (map r_Artifact records)"
  obtains loc tiers where "\<not> setIsZero st" "chainOf env now cfg loc tiers"
    "\<forall>rec \<in> set records. ar_Set (r_Artifact rec) = st" "out = GFSReference loc tiers records"
proof -
  have z: "\<not> setIsZero st" using assms(1) by (auto simp: GFSDecide_def)
  from assms obtain loc wd tiers where
    "env_Zone env (rc_Timezone cfg) = Some loc"
    "map_of gfsWeekdaysByName (toLower (env_Lower env) (rc_WeekStartsOn cfg)) = Some wd"
    "\<forall>rec \<in> set records. ar_Set (r_Artifact rec) = st"
    "gfsResolveChain env (EffectiveTiers cfg) (gfsCivilDateIn now loc) wd = Inr tiers"
    "out = GFSReference loc tiers records"
    unfolding GFSReference_def complete_def by (rule GFSDecide_reference)
  with z that show thesis unfolding chainOf_def by blast
qed

lemma GFSDecide_total:
  assumes "\<not> setIsZero st" "chainOf env now cfg loc tiers" "\<forall>rec \<in> set records. ar_Set (r_Artifact rec) = st"
  shows "\<exists>out. GFSDecide env now cfg st records = Inr out"
  using assms by (auto simp: GFSDecide_def chainOf_def gfsEligible_Inr[THEN iffD2] bindE_Inr_iff Let_def)

lemma GFSDecide_iff:
  assumes "distinct (map r_Artifact records)"
  shows "GFSDecide env now cfg st records = Inr out \<longleftrightarrow>
    \<not> setIsZero st \<and> (\<forall>rec \<in> set records. ar_Set (r_Artifact rec) = st) \<and>
    (\<exists>loc tiers. chainOf env now cfg loc tiers \<and> out = GFSReference loc tiers records)" (is "?l \<longleftrightarrow> ?r")
proof
  show "?l \<Longrightarrow> ?r" using GFSDecide_sound[OF _ assms] by metis
next
  assume r: ?r
  then obtain loc tiers where c: "chainOf env now cfg loc tiers" "out = GFSReference loc tiers records" by blast
  with r obtain out' where o: "GFSDecide env now cfg st records = Inr out'" using GFSDecide_total by blast
  from GFSDecide_sound[OF o assms] c(1) chainOf_unique have "out' = GFSReference loc tiers records" by metis
  with o c(2) show ?l by simp
qed

lemma oneSet_complete:
  "\<forall>rec \<in> set records. ar_Set (r_Artifact rec) = st \<Longrightarrow> oneSet st (map (datedOf loc) (complete records))"
  by (auto simp: oneSet_def complete_def)

lemma distinct_complete:
  "distinct (map r_Artifact records) \<Longrightarrow> distinct (map gd_artifact (map (datedOf loc) (complete records)))"
  by (simp add: complete_def comp_def distinct_map_filter)

lemma referenceVerdict_fields [simp]:
  "v_Artifact (referenceVerdict tiers ds a) = a"
  "v_Tiers (referenceVerdict tiers ds a) = List.map_filter (tierSelection ds a) tiers"
  "v_Keep (referenceVerdict tiers ds a) \<longleftrightarrow> v_Tiers (referenceVerdict tiers ds a) \<noteq> []"
  by (simp_all add: referenceVerdict_def Let_def)

lemma map_filter_Nil: "List.map_filter f xs = [] \<longleftrightarrow> (\<forall>x \<in> set xs. f x = None)"
  by (auto simp: List.map_filter_def filter_empty_conv)

lemma keep_represents:
  assumes "oneSet st ds"
  shows "v_Keep (referenceVerdict tiers ds a) \<longleftrightarrow>
    (\<exists>tb \<in> set tiers. represents tb ds gfsDiscoveryPlacement a \<or> represents tb ds gfsProducerPlacement a)"
  by (auto simp: map_filter_Nil tierSelection_iff[OF assms])

lemma set_GFSReference:
  "set (GFSReference loc tiers records) =
     (\<lambda>rec. referenceVerdict tiers (map (datedOf loc) (complete records)) (r_Artifact rec)) ` set (complete records)"
  by (simp add: GFSReference_def sortGFSVerdicts_def)

lemma GFSReference_perm:
  assumes "mset records' = mset records" "distinct (map r_Artifact records)"
    "\<forall>rec \<in> set records. ar_Set (r_Artifact rec) = st"
  shows "GFSReference loc tiers records' = GFSReference loc tiers records"
proof -
  let ?ds = "\<lambda>rs. map (datedOf loc) (complete rs)"
  have m: "mset (complete records') = mset (complete records)" using assms(1) by (simp add: complete_def)
  then have s: "set (complete records') = set (complete records)" by (rule mset_eq_setD)
  have s': "set records' = set records" using assms(1) by (rule mset_eq_setD)
  have d': "distinct (map r_Artifact records')"
    using assms(1,2) mset_eq_imp_distinct_iff[of "map r_Artifact records'" "map r_Artifact records"] by simp
  have ref: "referenceVerdict tiers (?ds records') a = referenceVerdict tiers (?ds records) a" for a
    by (rule referenceVerdict_cong[of st])
      (use oneSet_complete[of records' st loc] assms(3) s s' distinct_complete[OF d'] distinct_complete[OF assms(2)] in auto)
  have inj: "inj_on (\<lambda>v. ar_Name (v_Artifact v))
      ((\<lambda>rec. referenceVerdict tiers (?ds records) (r_Artifact rec)) ` set (complete records'))"
  proof (rule inj_onI, clarify)
    fix x y assume xy: "x \<in> set (complete records')" "y \<in> set (complete records')"
      "ar_Name (v_Artifact (referenceVerdict tiers (?ds records) (r_Artifact x)))
       = ar_Name (v_Artifact (referenceVerdict tiers (?ds records) (r_Artifact y)))"
    then have "x \<in> set records" "y \<in> set records" unfolding s by (auto simp: complete_def)
    with xy(3) assms(3) have "r_Artifact x = r_Artifact y" by (intro artifact_eqI) auto
    then show "referenceVerdict tiers (?ds records) (r_Artifact x) = referenceVerdict tiers (?ds records) (r_Artifact y)" by simp
  qed
  show ?thesis
    unfolding GFSReference_def ref by (rule sort_by_name_cong) (use m inj in simp_all)
qed


section \<open>Properties\<close>

text \<open>Exactly the managed-complete records receive a verdict, and one is kept exactly when for
  some tier of the chain it represents a bucket: it falls in the window, on its discovery date or
  on its admissible producer date, and no artifact of the same bucket is newer.\<close>

theorem gfs_keeps_representatives:
  assumes "GFSDecide env now cfg st records = Inr out" "distinct (map r_Artifact records)"
  shows "\<exists>loc tiers. chainOf env now cfg loc tiers \<and>
    v_Artifact ` set out = r_Artifact ` {rec \<in> set records. gfsIsManagedComplete (r_State rec)} \<and>
    (\<forall>v \<in> set out. v_Keep v \<longleftrightarrow> (\<exists>tb \<in> set tiers.
       represents tb (map (datedOf loc) (complete records)) gfsDiscoveryPlacement (v_Artifact v) \<or>
       represents tb (map (datedOf loc) (complete records)) gfsProducerPlacement (v_Artifact v)))"
proof -
  from GFSDecide_sound[OF assms] obtain loc tiers where
    g: "chainOf env now cfg loc tiers" "\<forall>rec \<in> set records. ar_Set (r_Artifact rec) = st"
      "out = GFSReference loc tiers records" by metis
  have "v_Artifact ` set out = r_Artifact ` set (complete records)"
    unfolding g(3) set_GFSReference image_image by simp
  then have "v_Artifact ` set out = r_Artifact ` {rec \<in> set records. gfsIsManagedComplete (r_State rec)}"
    by (simp add: complete_def)
  moreover have "v_Keep v \<longleftrightarrow> (\<exists>tb \<in> set tiers.
       represents tb (map (datedOf loc) (complete records)) gfsDiscoveryPlacement (v_Artifact v) \<or>
       represents tb (map (datedOf loc) (complete records)) gfsProducerPlacement (v_Artifact v))"
    if v: "v \<in> set out" for v
    using that keep_represents[OF oneSet_complete[OF g(2)]] unfolding g(3) set_GFSReference by auto
  ultimately show ?thesis using g(1) by blast
qed

text \<open>C20: The verdicts do not depend on the order the records arrive in.\<close>

theorem gfs_order_independent:
  assumes "GFSDecide env now cfg st records = Inr out" "distinct (map r_Artifact records)"
    "mset records' = mset records"
  shows "GFSDecide env now cfg st records' = Inr out"
proof -
  have d: "distinct (map r_Artifact records')"
    using assms(2,3) mset_eq_imp_distinct_iff[of "map r_Artifact records'" "map r_Artifact records"] by simp
  have s: "set records' = set records" using assms(3) by (rule mset_eq_setD)
  show ?thesis
    using assms(1) GFSReference_perm[OF assms(3,2)] unfolding GFSDecide_iff[OF d] GFSDecide_iff[OF assms(2)] s by metis
qed

section \<open>Witnesses\<close>

definition sampleSet :: BackupSetID where "sampleSet = \<lparr>bs_Source = ''prod'', bs_Set = ''db''\<rparr>"

definition sampleEnv :: Env where
  "sampleEnv = \<lparr>env_Zone = (\<lambda>z. if z = ''UTC'' then Some (\<lambda>_. 0) else None), env_Upper = (\<lambda>s. s), env_Lower = (\<lambda>s. s)\<rparr>"

definition sampleConfig :: Retention where
  "sampleConfig = \<lparr>rc_Timezone = ''UTC'', rc_WeekStartsOn = ''monday'', rc_DailyDays = 0, rc_WeeklyMonths = 0,
     rc_MonthlyMonths = 0, rc_Tiers = [plainTier ''daily'' GranularityDay 3 []], rc_ProtectLastKnownGood = None\<rparr>"

definition sampleRecord :: "string \<Rightarrow> State \<Rightarrow> int \<Rightarrow> instant option \<Rightarrow> Record" where
  "sampleRecord name st day modTime =
     \<lparr>r_Artifact = \<lparr>ar_Set = sampleSet, ar_Name = name\<rparr>, r_RemotePath = [], r_LocalPath = ''/b/'' @ name, r_State = st,
      r_DiscoveredAt = day * nsPerDay, r_UpdatedAt = 0,
      r_Remote = \<lparr>rf_Size = None, rf_ModTime = modTime, rf_Hash = [], rf_HashAlg = [], rf_BackendID = []\<rparr>, r_Transfer = None,
      r_LocalHash = [], r_LocalHashAlg = [], r_ValidationPassed = None, r_ValidationDetail = [], r_RetryCount = 0,
      r_LastError = [], r_NextRetryAt = None, r_RemoteDeletedAt = None, r_RemoteDeleteError = [],
      r_RetentionTier = [], r_RetentionExpiresAt = None, r_Placements = []\<rparr>"

definition sampleRecords :: "Record list" where
  "sampleRecords = [sampleRecord ''a'' Committed 100 None, sampleRecord ''b'' Complete 103 (Some (101 * nsPerDay)),
     sampleRecord ''c'' Complete 103 (Some (102 * nsPerDay))]"

definition sampleNow :: instant where "sampleNow = 103 * nsPerDay"

text \<open>Over a three-day window, ''b'' is kept by the producer pass alone: ''c'' represents its
  discovery day.\<close>

lemma sample_decision:
  "map_sum id (map (\<lambda>v. (ar_Name (v_Artifact v), map ts_By (v_Tiers v))))
     (GFSDecide sampleEnv sampleNow sampleConfig sampleSet sampleRecords)
   = Inr [(''a'', []), (''b'', [SelectedByProducer]), (''c'', [SelectedByBoth])]"
  by code_simp

lemma sample_decided: "\<exists>out. GFSDecide sampleEnv sampleNow sampleConfig sampleSet sampleRecords = Inr out"
  using sample_decision by (cases "GFSDecide sampleEnv sampleNow sampleConfig sampleSet sampleRecords") auto

lemma sample_distinct: "distinct (map r_Artifact sampleRecords)"
  by (simp add: sampleRecords_def sampleRecord_def)

theorem gfs_keeps_representatives_witness:
  "\<exists>out. GFSDecide sampleEnv sampleNow sampleConfig sampleSet sampleRecords = Inr out \<and>
    v_Artifact ` set out = r_Artifact ` {rec \<in> set sampleRecords. gfsIsManagedComplete (r_State rec)}"
  using sample_decided gfs_keeps_representatives[OF _ sample_distinct] by blast

theorem gfs_order_independent_witness:
  "\<exists>out. GFSDecide sampleEnv sampleNow sampleConfig sampleSet sampleRecords = Inr out \<and>
    GFSDecide sampleEnv sampleNow sampleConfig sampleSet (rev sampleRecords) = Inr out"
  using sample_decided gfs_order_independent[OF _ sample_distinct, of _ _ _ _ _ "rev sampleRecords"] by auto

end
