(* ===== verification/GfsSpec.thy ===== *)
theory GfsSpec
  imports GfsOrder
begin

text \<open>
  A specification of the retention decision that mentions none of its loops: one verdict per
  managed-complete record, read off the instants of the records.  The lemmas connect it to the
  buckets, champions, ties and verdict updates of the code.
\<close>

section \<open>Standing for a bucket\<close>

definition discoveredAt :: "Record \<Rightarrow> instant option" where
  "discoveredAt rec = Some (r_DiscoveredAt rec)"

text \<open>A producer's timestamp counts when there is one and it does not lie after the discovery.\<close>

definition producedAt :: "Record \<Rightarrow> instant option" where
  "producedAt rec =
     (case rf_ModTime (r_Remote rec) of None \<Rightarrow> None
      | Some t \<Rightarrow> if t = zeroTime \<or> r_DiscoveredAt rec < t then None else Some t)"

definition offeredAt :: "location \<Rightarrow> gfsBoundTier \<Rightarrow> (Record \<Rightarrow> instant option) \<Rightarrow> Record \<Rightarrow> instant \<Rightarrow> bool" where
  "offeredAt loc tb when rec t = (when rec = Some t \<and> bt_inSpan tb (gfsCivilDateIn t loc))"

definition sameBucket :: "location \<Rightarrow> gfsBoundTier \<Rightarrow> instant \<Rightarrow> instant \<Rightarrow> bool" where
  "sameBucket loc tb t t' = (bt_bucket tb (gfsCivilDateIn t loc) = bt_bucket tb (gfsCivilDateIn t' loc))"

text \<open>A record stands for its bucket when its instant falls in the tier's window and every record of
  the same bucket is older, or as old and not later by name.\<close>

definition standsFor ::
  "location \<Rightarrow> Record list \<Rightarrow> gfsBoundTier \<Rightarrow> (Record \<Rightarrow> instant option) \<Rightarrow> Record \<Rightarrow> bool" where
  "standsFor loc ok tb when rec =
     (\<exists>t. offeredAt loc tb when rec t \<and>
       (\<forall>rec' \<in> set ok. \<forall>t'. offeredAt loc tb when rec' t' \<and> sameBucket loc tb t' t \<longrightarrow>
          t' < t \<or> t' = t \<and> ar_Name (r_Artifact rec') \<le> ar_Name (r_Artifact rec)))"

text \<open>Two records tie when the producer dates both to the very same instant and the other one stands
  for the bucket.\<close>

definition losesTieTo :: "location \<Rightarrow> Record list \<Rightarrow> gfsBoundTier \<Rightarrow> Record \<Rightarrow> Record \<Rightarrow> bool" where
  "losesTieTo loc ok tb rec sib =
     (rec \<noteq> sib \<and> producedAt sib = producedAt rec \<and> standsFor loc ok tb producedAt sib)"

section \<open>The verdict of a record\<close>

definition specTier :: "location \<Rightarrow> Record list \<Rightarrow> Record \<Rightarrow> gfsBoundTier \<Rightarrow> GFSTierSelection option" where
  "specTier loc ok rec tb =
     (case (standsFor loc ok tb discoveredAt rec, standsFor loc ok tb producedAt rec) of
        (True, True) \<Rightarrow> Some \<lparr>ts_Tier = bt_tier tb, ts_By = SelectedByBoth\<rparr>
      | (True, False) \<Rightarrow> Some \<lparr>ts_Tier = bt_tier tb, ts_By = SelectedByDiscovery\<rparr>
      | (False, True) \<Rightarrow> Some \<lparr>ts_Tier = bt_tier tb, ts_By = SelectedByProducer\<rparr>
      | (False, False) \<Rightarrow> None)"

definition specCollisions :: "location \<Rightarrow> Record list \<Rightarrow> Record \<Rightarrow> gfsBoundTier \<Rightarrow> GFSSiblingCollision list" where
  "specCollisions loc ok rec tb =
     map (\<lambda>sib. \<lparr>sc_Tier = bt_tier tb, sc_By = SelectedByProducer, sc_Sibling = r_Artifact sib\<rparr>)
       (filter (losesTieTo loc ok tb rec) ok)"

definition specVerdict :: "location \<Rightarrow> gfsBoundTier list \<Rightarrow> Record list \<Rightarrow> Record \<Rightarrow> GFSVerdict" where
  "specVerdict loc tiers ok rec =
     (let tiersOf = List.map_filter (specTier loc ok rec) tiers
      in \<lparr>v_Artifact = r_Artifact rec, v_Keep = (tiersOf \<noteq> []), v_Tiers = tiersOf,
          v_SiblingCollisions = (if tiersOf \<noteq> [] then [] else concat (map (specCollisions loc ok rec) tiers))\<rparr>)"

definition managedComplete :: "Record list \<Rightarrow> Record list" where
  "managedComplete records =
     filter (\<lambda>rec. r_State rec \<in> {Committed, RemoteDeletePending, Complete, RemoteRetained}) records"

section \<open>The code's buckets against the specification\<close>

definition placesAt :: "location \<Rightarrow> (gfsDated \<Rightarrow> gfsPlacement option) \<Rightarrow> (Record \<Rightarrow> instant option) \<Rightarrow> bool" where
  "placesAt loc place when = (\<forall>rec. place (datedOf loc rec) = map_option (placementIn loc) (when rec))"

lemma places_discovered: "placesAt loc gfsDiscoveryPlacement discoveredAt"
  by (simp add: placesAt_def gfsDiscoveryPlacement_def datedOf_def gfsPlacementsFor_def discoveredAt_def gfsDiscoveryInstant_def)

lemma places_produced: "placesAt loc gfsProducerPlacement producedAt"
  by (simp add: placesAt_def gfsProducerPlacement_def datedOf_def gfsPlacementsFor_def producedAt_def gfsProducerInstant_def
    gfsDiscoveryInstant_def split: option.split)

lemma candidate_offered:
  assumes "placesAt loc place when"
  shows "(k, (a, t)) \<in> set (candidates tb (map (datedOf loc) ok) place) \<longleftrightarrow>
    (\<exists>rec \<in> set ok. r_Artifact rec = a \<and> offeredAt loc tb when rec t \<and> k = bt_bucket tb (gfsCivilDateIn t loc))"
proof -
  have "gfsCandidate tb place (datedOf loc rec) = Some (k, (a, t)) \<longleftrightarrow>
      r_Artifact rec = a \<and> offeredAt loc tb when rec t \<and> k = bt_bucket tb (gfsCivilDateIn t loc)" for rec
    using assms by (auto simp: placesAt_def gfsCandidate_def offeredAt_def placementIn_def split: option.split)
  then show ?thesis by (simp add: set_candidates)
qed

lemma not_newer_iff:
  "\<not> gfsIsNewerRepresentative (a', t') (a, t) \<longleftrightarrow> t' < t \<or> t' = t \<and> ar_Name a' \<le> ar_Name a"
  by (auto simp: gfsIsNewerRepresentative_def)

lemma unbeaten_offered:
  assumes "placesAt loc place when" "k = bt_bucket tb (gfsCivilDateIn t loc)"
  shows "(\<forall>c'. (k, c') \<in> set (candidates tb (map (datedOf loc) ok) place) \<longrightarrow> \<not> gfsIsNewerRepresentative c' (a, t)) \<longleftrightarrow>
    (\<forall>rec' \<in> set ok. \<forall>t'. offeredAt loc tb when rec' t' \<and> sameBucket loc tb t' t \<longrightarrow>
       t' < t \<or> t' = t \<and> ar_Name (r_Artifact rec') \<le> ar_Name a)"
  unfolding split_paired_all split_paired_All candidate_offered[OF assms(1)] not_newer_iff sameBucket_def assms(2) by metis

lemma inj_artifact:
  "distinct (map r_Artifact ok) \<Longrightarrow> x \<in> set ok \<Longrightarrow> y \<in> set ok \<Longrightarrow> r_Artifact x = r_Artifact y \<Longrightarrow> x = y"
  unfolding distinct_map by (blast dest: inj_onD)

lemma represents_standsFor:
  assumes "placesAt loc place when" "distinct (map r_Artifact ok)" "rec \<in> set ok"
  shows "represents tb (map (datedOf loc) ok) place (r_Artifact rec) \<longleftrightarrow> standsFor loc ok tb when rec"
proof
  assume "represents tb (map (datedOf loc) ok) place (r_Artifact rec)"
  then obtain k t where c: "(k, (r_Artifact rec, t)) \<in> set (candidates tb (map (datedOf loc) ok) place)"
    "\<forall>c'. (k, c') \<in> set (candidates tb (map (datedOf loc) ok) place) \<longrightarrow> \<not> gfsIsNewerRepresentative c' (r_Artifact rec, t)"
    unfolding represents_def by (metis prod.collapse)
  from c(1) have o: "offeredAt loc tb when rec t" "k = bt_bucket tb (gfsCivilDateIn t loc)"
    unfolding candidate_offered[OF assms(1)] using inj_artifact[OF assms(2) _ assms(3)] by blast+
  with c(2) show "standsFor loc ok tb when rec"
    unfolding standsFor_def unbeaten_offered[OF assms(1) o(2)] by blast
next
  assume "standsFor loc ok tb when rec"
  then obtain t where t: "offeredAt loc tb when rec t"
    "\<forall>rec' \<in> set ok. \<forall>t'. offeredAt loc tb when rec' t' \<and> sameBucket loc tb t' t \<longrightarrow>
       t' < t \<or> t' = t \<and> ar_Name (r_Artifact rec') \<le> ar_Name (r_Artifact rec)"
    unfolding standsFor_def by blast
  let ?k = "bt_bucket tb (gfsCivilDateIn t loc)"
  have "(?k, (r_Artifact rec, t)) \<in> set (candidates tb (map (datedOf loc) ok) place)"
    unfolding candidate_offered[OF assms(1)] using assms(3) t(1) by blast
  moreover note t(2)[folded unbeaten_offered[OF assms(1) refl]]
  ultimately show "represents tb (map (datedOf loc) ok) place (r_Artifact rec)"
    unfolding represents_def by (metis fst_conv)
qed

lemma winner_standsFor:
  assumes "placesAt loc place when" "distinct (map r_Artifact ok)" "sib \<in> set ok"
  shows "winner tb (map (datedOf loc) ok) place k (r_Artifact sib, t) \<longleftrightarrow>
    offeredAt loc tb when sib t \<and> k = bt_bucket tb (gfsCivilDateIn t loc) \<and> standsFor loc ok tb when sib"
    (is "?l \<longleftrightarrow> ?r")
proof -
  have "(k, (r_Artifact sib, t)) \<in> set (candidates tb (map (datedOf loc) ok) place) \<longleftrightarrow>
      offeredAt loc tb when sib t \<and> k = bt_bucket tb (gfsCivilDateIn t loc)"
    unfolding candidate_offered[OF assms(1)] using inj_artifact[OF assms(2) _ assms(3)] assms(3) by blast
  then have "?l \<longleftrightarrow> offeredAt loc tb when sib t \<and> k = bt_bucket tb (gfsCivilDateIn t loc) \<and>
      (\<forall>c'. (k, c') \<in> set (candidates tb (map (datedOf loc) ok) place) \<longrightarrow> \<not> gfsIsNewerRepresentative c' (r_Artifact sib, t))"
    unfolding winner_def by blast
  also have "\<dots> \<longleftrightarrow> ?r"
  proof -
    have "offeredAt loc tb when sib t \<Longrightarrow> standsFor loc ok tb when sib \<longleftrightarrow>
       (\<forall>rec' \<in> set ok. \<forall>t'. offeredAt loc tb when rec' t' \<and> sameBucket loc tb t' t \<longrightarrow>
       t' < t \<or> t' = t \<and> ar_Name (r_Artifact rec') \<le> ar_Name (r_Artifact sib))"
      unfolding standsFor_def by (auto simp: offeredAt_def)
    then show ?thesis using unbeaten_offered[OF assms(1), of k tb t ok "r_Artifact sib"] by blast
  qed
  finally show ?thesis .
qed

lemma standsFor_offered: "standsFor loc ok tb when rec \<Longrightarrow> \<exists>t. offeredAt loc tb when rec t"
  by (auto simp: standsFor_def)

lemma candidate_tie:
  assumes "placesAt loc place when" "distinct (map r_Artifact ok)" "rec \<in> set ok" "sib \<in> set ok"
  shows "(\<exists>k t. (k, (r_Artifact rec, t)) \<in> set (candidates tb (map (datedOf loc) ok) place) \<and>
      winner tb (map (datedOf loc) ok) place k (r_Artifact sib, t) \<and> r_Artifact rec \<noteq> r_Artifact sib) \<longleftrightarrow>
    rec \<noteq> sib \<and> when sib = when rec \<and> standsFor loc ok tb when sib" (is "?l \<longleftrightarrow> ?r")
proof
  assume ?l
  then obtain k t where c: "(k, (r_Artifact rec, t)) \<in> set (candidates tb (map (datedOf loc) ok) place)"
    "winner tb (map (datedOf loc) ok) place k (r_Artifact sib, t)" "r_Artifact rec \<noteq> r_Artifact sib" by blast
  from c(1) have "offeredAt loc tb when rec t"
    unfolding candidate_offered[OF assms(1)] using inj_artifact[OF assms(2) _ assms(3)] by blast
  with c(2,3) show ?r unfolding winner_standsFor[OF assms(1,2,4)] by (auto simp: offeredAt_def)
next
  assume r: ?r
  then obtain t where "offeredAt loc tb when sib t" using standsFor_offered by blast
  with r have t: "offeredAt loc tb when sib t" "offeredAt loc tb when rec t" by (auto simp: offeredAt_def)
  let ?k = "bt_bucket tb (gfsCivilDateIn t loc)"
  have "(?k, (r_Artifact rec, t)) \<in> set (candidates tb (map (datedOf loc) ok) place)"
    unfolding candidate_offered[OF assms(1)] using assms(3) t(2) by blast
  moreover have "winner tb (map (datedOf loc) ok) place ?k (r_Artifact sib, t)"
    unfolding winner_standsFor[OF assms(1,2,4)] using r t(1) by blast
  moreover have "r_Artifact rec \<noteq> r_Artifact sib" using r inj_artifact[OF assms(2,3,4)] by blast
  ultimately show ?l by blast
qed

section \<open>The code's verdicts against the specification\<close>

lemma tierSelection_spec:
  assumes "oneSet st (map (datedOf loc) ok)" "distinct (map r_Artifact ok)" "rec \<in> set ok"
  shows "tierSelection (map (datedOf loc) ok) (r_Artifact rec) tb = specTier loc ok rec tb"
  unfolding tierSelection_iff[OF assms(1)] represents_standsFor[OF places_discovered assms(2,3)]
    represents_standsFor[OF places_produced assms(2,3)] specTier_def
  by (simp split: bool.split)

lemma short_list_eq:
  assumes "length xs \<le> 1" "distinct ys" "set xs = set ys"
  shows "xs = ys"
proof (cases xs)
  case (Cons x xs')
  with assms have "set ys = {x}" by simp
  moreover from this have "card (set ys) = length ys" using assms(2) by (metis distinct_card)
  ultimately have "length ys = 1" by simp
  with \<open>set ys = {x}\<close> Cons assms(1) show ?thesis by (cases ys) auto
qed (use assms(3) in simp)

lemma collisionsIn_spec:
  assumes "oneSet st (map (datedOf loc) ok)" "distinct (map r_Artifact ok)" "rec \<in> set ok"
  shows "collisionsIn (map (datedOf loc) ok) (r_Artifact rec) tb = specCollisions loc ok rec tb"
proof -
  let ?ties = "snd (gfsSelectRepresentatives tb (map (datedOf loc) ok) gfsProducerPlacement)"
  let ?mine = "filter (\<lambda>p. fst p = r_Artifact rec) ?ties"
  have d: "distinct (map gd_artifact (map (datedOf loc) ok))" using assms(2) by (simp add: comp_def)
  have "length ?mine \<le> 1"
    unfolding filter_fst_map_of[OF distinct_ties[OF d]] by (simp split: option.split)
  moreover have "distinct (map r_Artifact (filter (losesTieTo loc ok tb rec) ok))"
    using assms(2) by (rule distinct_map_filter)
  moreover have "set (map snd ?mine) = set (map r_Artifact (filter (losesTieTo loc ok tb rec) ok))"
  proof (rule set_eqI)
    fix s
    have "s \<in> set (map snd ?mine) \<longleftrightarrow> (r_Artifact rec, s) \<in> set ?ties" by force
    also have "\<dots> \<longleftrightarrow> (\<exists>sib \<in> set ok. s = r_Artifact sib \<and> (\<exists>k t.
        (k, (r_Artifact rec, t)) \<in> set (candidates tb (map (datedOf loc) ok) gfsProducerPlacement) \<and>
        winner tb (map (datedOf loc) ok) gfsProducerPlacement k (r_Artifact sib, t) \<and> r_Artifact rec \<noteq> r_Artifact sib))"
      unfolding ties_iff[OF assms(1)] winner_def candidate_offered[OF places_produced] by blast
    also have "\<dots> \<longleftrightarrow> (\<exists>sib \<in> set ok. s = r_Artifact sib \<and> losesTieTo loc ok tb rec sib)"
      using candidate_tie[OF places_produced assms(2,3)] unfolding losesTieTo_def by (auto cong: bex_cong)
    finally show "s \<in> set (map snd ?mine) \<longleftrightarrow> s \<in> set (map r_Artifact (filter (losesTieTo loc ok tb rec) ok))" by auto
  qed
  ultimately have "map snd ?mine = map r_Artifact (filter (losesTieTo loc ok tb rec) ok)"
    by (intro short_list_eq) simp_all
  then have "map (\<lambda>s. \<lparr>sc_Tier = bt_tier tb, sc_By = SelectedByProducer, sc_Sibling = s\<rparr>) (map snd ?mine)
      = map (\<lambda>s. \<lparr>sc_Tier = bt_tier tb, sc_By = SelectedByProducer, sc_Sibling = s\<rparr>)
          (map r_Artifact (filter (losesTieTo loc ok tb rec) ok))" by (rule arg_cong)
  then show ?thesis unfolding collisionsIn_def specCollisions_def map_map comp_def .
qed

lemma referenceVerdict_spec:
  assumes "oneSet st (map (datedOf loc) ok)" "distinct (map r_Artifact ok)" "rec \<in> set ok"
  shows "referenceVerdict tiers (map (datedOf loc) ok) (r_Artifact rec) = specVerdict loc tiers ok rec"
proof -
  have "tierSelection (map (datedOf loc) ok) (r_Artifact rec) = specTier loc ok rec"
    using tierSelection_spec[OF assms] by (rule ext)
  moreover have "collisionsIn (map (datedOf loc) ok) (r_Artifact rec) = specCollisions loc ok rec"
    using collisionsIn_spec[OF assms] by (rule ext)
  ultimately show ?thesis unfolding referenceVerdict_def specVerdict_def by (simp only:)
qed

lemma complete_managed: "complete records = managedComplete records"
proof -
  have "gfsIsManagedComplete st \<longleftrightarrow> st \<in> {Committed, RemoteDeletePending, Complete, RemoteRetained}" for st
    by (auto simp: gfsIsManagedComplete_def gfsManagedCompleteStates_def)
  then show ?thesis unfolding complete_def managedComplete_def by (simp only:)
qed

lemma sort_key_iff:
  assumes "inj_on f (set xs)"
  shows "ys = sort_key f xs \<longleftrightarrow> sorted (map f ys) \<and> mset ys = mset xs"
  using sort_key_inj_key_eq[OF _ assms, of ys] by auto

lemma GFSReference_spec:
  assumes "distinct (map r_Artifact records)" "\<forall>rec \<in> set records. ar_Set (r_Artifact rec) = st"
  shows "out = GFSReference loc tiers records \<longleftrightarrow>
    sorted (map (\<lambda>v. ar_Name (v_Artifact v)) out) \<and>
    mset out = mset (map (specVerdict loc tiers (managedComplete records)) (managedComplete records))"
proof -
  let ?ok = "managedComplete records"
  have d: "distinct (map r_Artifact ?ok)" using assms(1) by (simp add: managedComplete_def distinct_map_filter)
  have v: "map (\<lambda>rec. referenceVerdict tiers (map (datedOf loc) ?ok) (r_Artifact rec)) ?ok = map (specVerdict loc tiers ?ok) ?ok"
    using referenceVerdict_spec[OF oneSet_complete[OF assms(2), unfolded complete_managed] d] by simp
  have "inj_on (\<lambda>v. ar_Name (v_Artifact v)) (set (map (specVerdict loc tiers ?ok) ?ok))"
  proof (rule inj_onI)
    fix v v' assume "v \<in> set (map (specVerdict loc tiers ?ok) ?ok)" "v' \<in> set (map (specVerdict loc tiers ?ok) ?ok)"
      and n: "ar_Name (v_Artifact v) = ar_Name (v_Artifact v')"
    then obtain x y where xy: "x \<in> set ?ok" "v = specVerdict loc tiers ?ok x" "y \<in> set ?ok" "v' = specVerdict loc tiers ?ok y" by auto
    then have "ar_Set (r_Artifact x) = ar_Set (r_Artifact y)" using assms(2) by (simp add: managedComplete_def)
    with n xy have "r_Artifact x = r_Artifact y" by (intro artifact_eqI) (simp_all add: specVerdict_def Let_def)
    with inj_artifact[OF d] xy show "v = v'" by blast
  qed
  then show ?thesis
    unfolding GFSReference_def complete_managed v sortGFSVerdicts_def by (rule sort_key_iff)
qed

lemma gfs_decision_iff:
  assumes "distinct (map r_Artifact records)"
  shows "GFSDecide env now cfg st records = Inr out \<longleftrightarrow>
    \<not> setIsZero st \<and> (\<forall>rec \<in> set records. ar_Set (r_Artifact rec) = st) \<and>
    (\<exists>loc tiers. chainOf env now cfg loc tiers \<and>
      sorted (map (\<lambda>v. ar_Name (v_Artifact v)) out) \<and>
      mset out = mset (map (specVerdict loc tiers (managedComplete records)) (managedComplete records)))"
  unfolding GFSDecide_iff[OF assms] using GFSReference_spec[OF assms] by blast

section \<open>What the producers' timestamps cannot change\<close>

definition withRemote :: "(Record \<Rightarrow> RemoteFacts) \<Rightarrow> Record \<Rightarrow> Record" where
  "withRemote g rec = rec\<lparr>r_Remote := g rec\<rparr>"

lemma withRemote_simps [simp]:
  "r_Artifact (withRemote g rec) = r_Artifact rec"
  "r_State (withRemote g rec) = r_State rec"
  "discoveredAt (withRemote g rec) = discoveredAt rec"
  by (simp_all add: withRemote_def discoveredAt_def)

text \<open>The tiers an artifact is selected for by the date of its discovery.\<close>

definition discoveryTiers :: "GFSVerdict \<Rightarrow> string list" where
  "discoveryTiers v = map ts_Tier (filter (\<lambda>s. ts_By s \<in> {SelectedByDiscovery, SelectedByBoth}) (v_Tiers v))"

lemma discoveryTiers_spec:
  "discoveryTiers (specVerdict loc tiers ok rec) =
     map bt_tier (filter (\<lambda>tb. standsFor loc ok tb discoveredAt rec) tiers)"
  by (induction tiers)
    (auto simp: discoveryTiers_def specVerdict_def specTier_def Let_def List.map_filter_simps split: bool.split)

lemma standsFor_withRemote:
  "standsFor loc (map (withRemote g) ok) tb discoveredAt (withRemote g rec) = standsFor loc ok tb discoveredAt rec"
  by (simp add: standsFor_def offeredAt_def)

lemma managedComplete_withRemote: "managedComplete (map (withRemote g) records) = map (withRemote g) (managedComplete records)"
  by (simp add: managedComplete_def filter_map comp_def)

lemma keep_if_discovery: "discoveryTiers (specVerdict loc tiers ok rec) \<noteq> [] \<Longrightarrow> v_Keep (specVerdict loc tiers ok rec)"
  by (auto simp: discoveryTiers_def specVerdict_def Let_def)

lemma silent_keep:
  assumes "\<forall>rec \<in> set ok. producedAt rec = None" "rec \<in> set ok"
  shows "v_Keep (specVerdict loc tiers ok rec) \<longleftrightarrow> discoveryTiers (specVerdict loc tiers ok rec) \<noteq> []"
proof -
  have "\<not> standsFor loc ok tb producedAt rec" for tb using assms by (auto simp: standsFor_def offeredAt_def)
  then show ?thesis
    unfolding discoveryTiers_spec by (auto simp: specVerdict_def specTier_def Let_def map_filter_Nil filter_empty_conv split: bool.splits)
qed

section \<open>Properties\<close>

text \<open>C11: The loops over tiers, buckets, champions, ties and verdicts compute the specification: the
  decision answers exactly for a set with an identity, records of that set and a chain that resolves,
  and then with one verdict per managed-complete record, in the order of their names.  A record is
  selected for a tier by a date when it is the latest of its bucket inside the tier's window, the
  last by name among equals; it is kept when some tier selects it, and otherwise names the siblings
  of the very same producer instant that stand for its buckets.\<close>

theorem gfs_decision_reference:
  assumes "distinct (map r_Artifact records)"
  shows "GFSDecide env now cfg st records = Inr out \<longleftrightarrow>
    \<not> setIsZero st \<and> (\<forall>rec \<in> set records. ar_Set (r_Artifact rec) = st) \<and>
    (\<exists>loc tiers. chainOf env now cfg loc tiers \<and>
      sorted (map (\<lambda>v. ar_Name (v_Artifact v)) out) \<and>
      mset out = mset (map (specVerdict loc tiers (managedComplete records)) (managedComplete records)))"
  by (rule gfs_decision_iff[OF assms])

text \<open>C15: Nothing a producer reports, for one artifact or for many, changes which tiers select an
  artifact by the date of its discovery: with any other remote facts the decision still answers, for
  the same artifacts, each with the same tiers by discovery.  So whatever is kept when no producer
  reports a date is kept whatever they report.\<close>

theorem gfs_discovery_unaffected:
  assumes "GFSDecide env now cfg st records = Inr out" "distinct (map r_Artifact records)"
  shows "\<exists>out'. GFSDecide env now cfg st (map (withRemote g) records) = Inr out' \<and>
    set (map v_Artifact out') = set (map v_Artifact out) \<and>
    (\<forall>v \<in> set out. \<forall>v' \<in> set out'. v_Artifact v' = v_Artifact v \<longrightarrow>
       discoveryTiers v' = discoveryTiers v \<and> (discoveryTiers v \<noteq> [] \<longrightarrow> v_Keep v') \<and>
       ((\<forall>rec \<in> set records. producedAt rec = None) \<and> v_Keep v \<longrightarrow> v_Keep v'))"
proof -
  let ?rs' = "map (withRemote g) records"
  let ?ok = "managedComplete records" and ?ok' = "map (withRemote g) (managedComplete records)"
  from assms(1) obtain loc tiers where g: "\<not> setIsZero st" "\<forall>rec \<in> set records. ar_Set (r_Artifact rec) = st"
    "chainOf env now cfg loc tiers" "mset out = mset (map (specVerdict loc tiers ?ok) ?ok)"
    unfolding gfs_decision_iff[OF assms(2)] by blast
  have d: "distinct (map r_Artifact ?rs')" using assms(2) by (simp add: comp_def)
  have d': "distinct (map r_Artifact ?ok)" using assms(2) by (simp add: managedComplete_def distinct_map_filter)
  define out' where "out' = sort_key (\<lambda>v. ar_Name (v_Artifact v)) (map (specVerdict loc tiers ?ok') ?ok')"
  have run: "GFSDecide env now cfg st ?rs' = Inr out'"
    unfolding gfs_decision_iff[OF d] managedComplete_withRemote
    by (intro conjI exI[of _ loc] exI[of _ tiers]) (use g(1,2,3) in \<open>simp_all add: out'_def\<close>)
  have o: "set out = specVerdict loc tiers ?ok ` set ?ok"
    using mset_eq_setD[OF g(4)] by simp
  have o': "set out' = (\<lambda>rec. specVerdict loc tiers ?ok' (withRemote g rec)) ` set ?ok"
    by (simp add: out'_def image_image)
  have arts: "v_Artifact ` set out' = v_Artifact ` set out"
    unfolding o o' image_image by (simp add: specVerdict_def Let_def)
  have "discoveryTiers v' = discoveryTiers v \<and> (discoveryTiers v \<noteq> [] \<longrightarrow> v_Keep v') \<and>
      ((\<forall>rec \<in> set records. producedAt rec = None) \<and> v_Keep v \<longrightarrow> v_Keep v')"
    if v: "v \<in> set out" "v' \<in> set out'" "v_Artifact v' = v_Artifact v" for v v'
  proof -
    from v(1,2) obtain x y where xy: "x \<in> set ?ok" "v = specVerdict loc tiers ?ok x" "y \<in> set ?ok"
      "v' = specVerdict loc tiers ?ok' (withRemote g y)" unfolding o o' by blast
    with v(3) have "r_Artifact x = r_Artifact y" by (simp add: specVerdict_def Let_def)
    with inj_artifact[OF d' xy(1,3)] have "y = x" by simp
    then have s: "discoveryTiers v' = discoveryTiers v" unfolding xy(2,4) discoveryTiers_spec standsFor_withRemote by simp
    have k: "v_Keep v'" if "discoveryTiers v \<noteq> []" using keep_if_discovery s that unfolding xy(4) by metis
    have n: "discoveryTiers v \<noteq> []" if "\<forall>rec \<in> set records. producedAt rec = None" "v_Keep v"
      using silent_keep[of ?ok x loc tiers] that xy(1,2) by (simp add: managedComplete_def)
    show ?thesis using s k n by blast
  qed
  with run arts show ?thesis unfolding set_map by (intro exI[of _ out']) blast
qed

section \<open>Witnesses and an example\<close>

theorem gfs_decision_reference_witness:
  "\<exists>out loc tiers. GFSDecide sampleEnv sampleNow sampleConfig sampleSet sampleRecords = Inr out \<and>
    mset out = mset (map (specVerdict loc tiers (managedComplete sampleRecords)) (managedComplete sampleRecords))"
  using sample_decided gfs_decision_reference[OF sample_distinct] by blast

theorem gfs_discovery_unaffected_witness:
  "\<exists>out'. GFSDecide sampleEnv sampleNow sampleConfig sampleSet (map (withRemote (\<lambda>_. emptyRemote)) sampleRecords) = Inr out'"
  using sample_decided gfs_discovery_unaffected[OF _ sample_distinct] by blast

text \<open>A timestamp of one artifact can take another one out of what is kept: the producer dates \<open>b\<close> and
  \<open>c\<close> to the same day, and with \<open>c\<close> a nanosecond later \<open>b\<close>, kept by its own producer date as long
  as \<open>c\<close> is dated elsewhere, is kept by nothing.  The comment of \<open>bucketkey.go\<close> rules that out.\<close>

definition otherRecords :: "Record list" where
  "otherRecords = [sampleRecord ''a'' Committed 100 None, sampleRecord ''b'' Complete 103 (Some (101 * nsPerDay)),
     sampleRecord ''c'' Complete 103 (Some (101 * nsPerDay + 1))]"

lemma producer_date_drops_sibling:
  "map_sum id (map (\<lambda>v. (ar_Name (v_Artifact v), v_Keep v)))
     (GFSDecide sampleEnv sampleNow sampleConfig sampleSet sampleRecords) = Inr [(''a'', False), (''b'', True), (''c'', True)] \<and>
   map_sum id (map (\<lambda>v. (ar_Name (v_Artifact v), v_Keep v)))
     (GFSDecide sampleEnv sampleNow sampleConfig sampleSet otherRecords) = Inr [(''a'', False), (''b'', False), (''c'', True)]"
  by code_simp

end
