(* ===== verification/GfsWindow.thy ===== *)
theory GfsWindow
  imports GfsOrder
begin

text \<open>
  The windows of the chain: every enabled tier's window ends today.  The anchor of a window is the
  start of today's bucket, at most today, and the window starts \<open>keep - 1\<close> steps before it.
\<close>

section \<open>Starts of buckets\<close>

lemma monthDate_div: "1 \<le> m \<Longrightarrow> m \<le> 12 \<Longrightarrow> monthDate (12 * y + (m - 1)) = civil y m 1"
  by (simp add: monthDate_def)

lemma monthDate_Day [simp]: "Day (monthDate i) = 1"
  by (simp add: monthDate_def civil_def)

lemma firstOfMonth_date: "validDate c \<Longrightarrow> firstOfMonth c = monthDate (monthIndex c)"
  using monthDate_div[of "Month c" "Year c"] by (simp add: validDate_def firstOfMonth_def monthIndex_def add_diff_eq)

lemma utc_firstOfMonth: "validDate c \<Longrightarrow> utc (firstOfMonth c) \<le> utc c"
  by (simp add: validDate_def firstOfMonth_def utc_def dayOfDate_def civil_def Let_def)

lemma monthDate_mono_le: "i \<le> j \<Longrightarrow> utc (monthDate i) \<le> utc (monthDate j)"
  using monthDate_mono[of i j] by (cases "i = j") auto

lemma utc_monthDate_le: "validDate c \<Longrightarrow> j \<le> monthIndex c \<Longrightarrow> utc (monthDate j) \<le> utc c"
  using monthDate_mono_le[of j "monthIndex c"] utc_firstOfMonth[of c] firstOfMonth_date[of c] by simp

lemma firstOfQuarter_date:
  assumes "validDate c"
  obtains j where "firstOfQuarter c = monthDate j" "j \<le> monthIndex c"
proof -
  define q where "q = (Month c - 1) div 3"
  have m: "1 \<le> Month c" "Month c \<le> 12" using assms by (simp_all add: validDate_def)
  then have q: "0 \<le> q" "q \<le> 3" "3 * q \<le> Month c - 1" unfolding q_def by (simp_all add: div_int_pos_iff)
  have "firstOfQuarter c = civil (Year c) (q * 3 + 1) 1" by (simp add: firstOfQuarter_def q_def)
  also have "\<dots> = monthDate (12 * Year c + q * 3)" using monthDate_div[of "q * 3 + 1" "Year c"] q by simp
  finally show thesis by (rule that) (use q(3) in \<open>unfold monthIndex_def, linarith\<close>)
qed

lemma firstOfHalfYear_date:
  assumes "validDate c"
  obtains j where "firstOfHalfYear c = monthDate j" "j \<le> monthIndex c"
proof -
  have m: "1 \<le> Month c" "Month c \<le> 12" using assms by (simp_all add: validDate_def)
  have "firstOfHalfYear c = monthDate (12 * Year c + (if Month c \<ge> 7 then 6 else 0))"
    using monthDate_div[of 7 "Year c"] monthDate_div[of 1 "Year c"] by (simp add: firstOfHalfYear_def)
  then show thesis by (rule that) (use m in \<open>unfold monthIndex_def, auto\<close>)
qed

lemma firstOfYear_date:
  assumes "validDate c"
  obtains j where "firstOfYear c = monthDate j" "j \<le> monthIndex c"
proof -
  have m: "1 \<le> Month c" "Month c \<le> 12" using assms by (simp_all add: validDate_def)
  have "firstOfYear c = monthDate (12 * Year c)" using monthDate_div[of 1 "Year c"] by (simp add: firstOfYear_def)
  then show thesis by (rule that) (use m in \<open>unfold monthIndex_def, auto\<close>)
qed

lemma weekStart_utc:
  assumes "validDate c"
  shows "utc (weekStart c wd) \<le> utc c" "validDate (weekStart c wd)"
proof -
  have "0 \<le> (weekdayOf c - wd + 7) mod (7 :: int)" by (rule pos_mod_sign) simp
  then show "utc (weekStart c wd) \<le> utc c" by (simp add: weekStart_def addDays_utc[OF assms])
  show "validDate (weekStart c wd)" by (simp add: weekStart_def)
qed

lemma epoch_valid: "validDate gfsPeriodEpoch"
  unfolding gfsPeriodEpoch_def by (rule first_valid) simp_all

text \<open>From 1970 on, the saturating difference never exceeds the days there are.\<close>

lemma daysSinceEpoch_bounds:
  assumes "utc gfsPeriodEpoch \<le> utc c"
  shows "0 \<le> daysSinceEpoch c" "daysSinceEpoch c \<le> utc c - utc gfsPeriodEpoch"
proof -
  define n e where "n = utc c - utc gfsPeriodEpoch" and "e = timeSub (utc c * nsPerDay) (utc gfsPeriodEpoch * nsPerDay)"
  have n: "0 \<le> n" using assms by (simp add: n_def)
  have d: "utc c * nsPerDay - utc gfsPeriodEpoch * nsPerDay = n * nsPerDay" by (simp add: n_def left_diff_distrib)
  have pos: "0 < nsPerDay" by (simp add: nsPerDay_def)
  have "e = max (- (2 ^ 63)) (min (2 ^ 63 - 1) (n * nsPerDay))" unfolding e_def timeSub_def saturate64_def d ..
  moreover have "0 \<le> n * nsPerDay" using n pos by simp
  ultimately have e: "0 \<le> e" "e \<le> n * nsPerDay" by auto
  have t: "daysSinceEpoch c = e div nsPerDay"
    using e(1) by (cases "e = 0") (auto simp: daysSinceEpoch_def truncDiv_def e_def[symmetric])
  show "0 \<le> daysSinceEpoch c" unfolding t using e(1) pos by (rule pos_imp_zdiv_nonneg_iff[THEN iffD2, rotated])
  have "e div nsPerDay \<le> (n * nsPerDay) div nsPerDay" using e(2) pos by (rule zdiv_mono1)
  then show "daysSinceEpoch c \<le> utc c - utc gfsPeriodEpoch" unfolding t n_def[symmetric] using pos by simp
qed

lemma periodStart_utc:
  assumes "utc gfsPeriodEpoch \<le> utc c" "0 < n"
  shows "utc (periodStart c n) \<le> utc c" "validDate (periodStart c n)"
proof -
  define d where "d = daysSinceEpoch c"
  have d: "0 \<le> d" "d \<le> utc c - utc gfsPeriodEpoch" using daysSinceEpoch_bounds[OF assms(1)] by (simp_all add: d_def)
  define q where "q = d div n"
  have "truncDiv d n = q" using d(1) by (cases "d = 0") (auto simp: truncDiv_def q_def)
  moreover have q: "q * n \<le> d" unfolding q_def using div_mult_mod_eq[of d n] pos_mod_sign[OF assms(2), of d] by linarith
  ultimately have "periodStart c n = addDays gfsPeriodEpoch (q * n)"
    by (simp add: periodStart_def d_def[symmetric] Let_def)
  with q d show "utc (periodStart c n) \<le> utc c" "validDate (periodStart c n)"
    by (simp_all add: addDays_utc[OF epoch_valid])
qed

section \<open>Starts of windows\<close>

lemma month_step:
  assumes "validDate c" "j \<le> monthIndex c" "0 \<le> k"
  shows "validDate (addMonths (monthDate j) (- k)) \<and> utc (addMonths (monthDate j) (- k)) \<le> utc c"
  using addMonths_first[of "monthDate j" "- k"] utc_monthDate_le[OF assms(1), of "j - k"] assms(2,3) by simp

lemma day_step:
  assumes "validDate a" "utc a \<le> utc c" "0 \<le> k"
  shows "validDate (addDays a (- k)) \<and> utc (addDays a (- k)) \<le> utc c"
  using assms by (simp add: addDays_utc)

lemma window_start:
  assumes "gfsBucketFunc unit p wd = Inr anchor" "gfsStepFunc unit p = Inr step" "validDate c"
    "utc gfsPeriodEpoch \<le> utc c" "0 \<le> k"
  shows "validDate (step (anchor c) (- k)) \<and> utc (step (anchor c) (- k)) \<le> utc c"
proof -
  note units = GranularityDay_def GranularityWeek_def GranularityMonth_def GranularityQuarter_def GranularityHalfYear_def
    GranularityYear_def GranularityDays_def
  consider (day) "unit = GranularityDay" | (week) "unit = GranularityWeek" | (month) "unit = GranularityMonth"
    | (quarter) "unit = GranularityQuarter" | (half) "unit = GranularityHalfYear" | (year) "unit = GranularityYear"
    | (days) "unit = GranularityDays" "0 < p"
    using assms(1) by (auto simp: gfsBucketFunc_def split: if_splits)
  then show ?thesis
  proof cases
    case day
    then have "anchor = (\<lambda>d. d)" "step = (\<lambda>c n. addDays c n)"
      using assms(1,2) by (simp_all add: gfsBucketFunc_def gfsStepFunc_def units)
    then show ?thesis using day_step[OF assms(3) order_refl assms(5)] by simp
  next
    case week
    then have "anchor = (\<lambda>d. weekStart d wd)" "step = (\<lambda>c n. addDays c (7 * n))"
      using assms(1,2) by (simp_all add: gfsBucketFunc_def gfsStepFunc_def units)
    then show ?thesis using day_step[OF weekStart_utc(2,1)[OF assms(3)], of "7 * k"] assms(5) by simp
  next
    case month
    then have "anchor = firstOfMonth" "step = (\<lambda>c n. addMonths c n)"
      using assms(1,2) by (simp_all add: gfsBucketFunc_def gfsStepFunc_def units)
    then show ?thesis using month_step[OF assms(3) order_refl assms(5)] by (simp add: firstOfMonth_date assms(3))
  next
    case quarter
    then have s: "anchor = firstOfQuarter" "step = (\<lambda>c n. addMonths c (3 * n))"
      using assms(1,2) by (simp_all add: gfsBucketFunc_def gfsStepFunc_def units)
    obtain j where "firstOfQuarter c = monthDate j" "j \<le> monthIndex c" by (rule firstOfQuarter_date[OF assms(3)])
    then show ?thesis using month_step[OF assms(3), of j "3 * k"] assms(5) s by simp
  next
    case half
    then have s: "anchor = firstOfHalfYear" "step = (\<lambda>c n. addMonths c (6 * n))"
      using assms(1,2) by (simp_all add: gfsBucketFunc_def gfsStepFunc_def units)
    obtain j where "firstOfHalfYear c = monthDate j" "j \<le> monthIndex c" by (rule firstOfHalfYear_date[OF assms(3)])
    then show ?thesis using month_step[OF assms(3), of j "6 * k"] assms(5) s by simp
  next
    case year
    then have s: "anchor = firstOfYear" "step = (\<lambda>c n. addMonths c (12 * n))"
      using assms(1,2) by (simp_all add: gfsBucketFunc_def gfsStepFunc_def units)
    obtain j where "firstOfYear c = monthDate j" "j \<le> monthIndex c" by (rule firstOfYear_date[OF assms(3)])
    then show ?thesis using month_step[OF assms(3), of j "12 * k"] assms(5) s by simp
  next
    case days
    then have "anchor = (\<lambda>d. periodStart d p)" "step = (\<lambda>c n. addDays c (p * n))"
      using assms(1,2) by (simp_all add: gfsBucketFunc_def gfsStepFunc_def units)
    then show ?thesis using day_step[OF periodStart_utc(2,1)[OF assms(4) days(2)], of "p * k"] assms(5) days(2) by simp
  qed
qed

section \<open>Properties\<close>

text \<open>A date is the day it counts: every day has one valid date, and every valid date is the date of
  its day.\<close>

theorem civil_date_roundtrip:
  "utc (dateOfDay n) = n \<and> validDate (dateOfDay n) \<and> (validDate c \<longrightarrow> dateOfDay (utc c) = c)"
  using dateOfDay_utc by simp

theorem civil_date_roundtrip_witness:
  "validDate (civil 2024 2 29) \<and> dateOfDay (utc (civil 2024 2 29)) = civil 2024 2 29"
proof -
  have "validDate (civil 2024 2 29)" by code_simp
  then show ?thesis using civil_date_roundtrip[of 0 "civil 2024 2 29"] by simp
qed

text \<open>From 1970 on the window of an enabled tier, of any granularity and unit, contains today and no
  later day; the window of a tier that keeps nothing is empty.\<close>

theorem window_ends_today:
  assumes "gfsResolveTier env t today wd = Inr tb" "validDate today" "utc gfsPeriodEpoch \<le> utc today"
  shows "(if rt_Keep t \<le> 0 then \<forall>d. \<not> bt_inSpan tb d
    else bt_inSpan tb today \<and> (\<forall>d. validDate d \<and> utc today < utc d \<longrightarrow> \<not> bt_inSpan tb d))"
proof (cases "rt_Keep t \<le> 0")
  case True
  with assms(1) show ?thesis by (auto simp: gfsResolveTier_def bindE_Inr_iff Let_def split: if_splits)
next
  case False
  define unit where "unit = (if rt_WindowUnit t = [] then rt_Granularity t else rt_WindowUnit t)"
  from assms(1) obtain anchor step where
    a: "gfsBucketFunc unit (rt_PeriodDays t) wd = Inr anchor" "gfsStepFunc unit (rt_PeriodDays t) = Inr step"
      and tb: "bt_inSpan tb = (\<lambda>d. \<not> before d (step (anchor today) (- (rt_Keep t - 1))) \<and> \<not> after d today)"
    using False
    by (auto simp: gfsResolveTier_def bindE_Inr_iff mapErr_def unit_def Let_def split: if_splits sum.splits)
  let ?start = "step (anchor today) (- (rt_Keep t - 1))"
  have s: "validDate ?start" "utc ?start \<le> utc today" using window_start[OF a(1,2) assms(2,3), of "rt_Keep t - 1"] False by simp_all
  have "bt_inSpan tb today"
    using False s(2) before_iff[OF assms(2) s(1)] after_iff[OF assms(2) assms(2)] by (simp add: tb)
  moreover have "\<not> bt_inSpan tb d" if "validDate d" "utc today < utc d" for d
    using False that by (simp add: tb after_iff[OF that(1) assms(2)])
  ultimately show ?thesis using False by simp
qed

definition sampleTier :: gfsBoundTier where
  "sampleTier = projr (gfsResolveTier sampleEnv (plainTier ''weekly'' GranularityWeek 2 GranularityMonth) (civil 2024 2 29) 1)"

theorem window_ends_today_witness:
  "bt_inSpan sampleTier (civil 2024 2 29)"
proof -
  let ?t = "plainTier ''weekly'' GranularityWeek 2 GranularityMonth"
  have "\<exists>tb. gfsResolveTier sampleEnv ?t (civil 2024 2 29) 1 = Inr tb"
    by (simp add: plainTier_def gfsResolveTier_def gfsBucketFunc_def gfsStepFunc_def mapErr_def TierLastKnownGoodName_def
      GranularityDay_def GranularityWeek_def GranularityMonth_def GranularityDays_def Let_def)
  then have r: "gfsResolveTier sampleEnv ?t (civil 2024 2 29) 1 = Inr sampleTier" unfolding sampleTier_def by auto
  have "validDate (civil 2024 2 29)" "utc gfsPeriodEpoch \<le> utc (civil 2024 2 29)" by code_simp+
  with window_ends_today[OF r] show ?thesis by (simp add: plainTier_def)
qed

end
