(* ===== verification/LastKnownGood.thy ===== *)
theory LastKnownGood
  imports GfsOrder
begin

text \<open>
  Last-known-good protection (\<open>core/internal/retention/lastknowngood.go\<close>): the newest managed
  complete artifact by its retention date, and its union with the verdicts of the chain.
\<close>

section \<open>The candidate and its order\<close>

definition TierLastKnownGood :: string where "TierLastKnownGood = ''LAST_KNOWN_GOOD''"

definition lkgSelection :: GFSTierSelection where
  "lkgSelection = \<lparr>ts_Tier = TierLastKnownGood, ts_By = SelectedByProtection\<rparr>"

record lkgCandidate =
  lc_artifact :: ArtifactID
  lc_retention :: instant
  lc_discovered :: instant
  lc_refusal :: "gfsProducerRefusal option"

definition newLKGCandidate :: "Record \<Rightarrow> lkgCandidate" where
  "newLKGCandidate rec =
     (let (ts, refusal) = gfsRetentionInstant rec
      in \<lparr>lc_artifact = r_Artifact rec, lc_retention = ts, lc_discovered = gfsDiscoveryInstant rec,
          lc_refusal = refusal\<rparr>)"

definition newerThan :: "lkgCandidate \<Rightarrow> lkgCandidate \<Rightarrow> bool" where
  "newerThan c other =
     (if lc_retention c \<noteq> lc_retention other then lc_retention c > lc_retention other
      else if lc_discovered c \<noteq> lc_discovered other then lc_discovered c > lc_discovered other
      else ar_Name (lc_artifact c) > ar_Name (lc_artifact other))"

definition provenance :: "lkgCandidate \<Rightarrow> string" where
  "provenance c =
     (case lc_refusal c of
        None \<Rightarrow> ''by the producer's own timestamp on the remote object''
      | Some ProducerAfterDiscovery \<Rightarrow> ''by the time this manager discovered it (the remote's own timestamp is later than that, which a completed artifact cannot be, so it was refused as untrustworthy)''
      | Some ProducerAbsent \<Rightarrow> ''by the time this manager discovered it (the remote reported no usable modification time)'')"

section \<open>The decision\<close>

datatype lkgReason = ProtectionDisabled | NothingEligible | NewestIs lkgCandidate

record LastKnownGoodResult =
  lk_Set :: BackupSetID
  lk_Enabled :: bool
  lk_Protected :: bool
  lk_Artifact :: ArtifactID
  lk_Reason :: lkgReason

definition zeroArtifact :: ArtifactID where
  "zeroArtifact = \<lparr>ar_Set = \<lparr>bs_Source = [], bs_Set = []\<rparr>, ar_Name = []\<rparr>"

fun lkgLoop :: "BackupSetID \<Rightarrow> lkgCandidate option \<Rightarrow> Record list \<Rightarrow> gfsError + lkgCandidate option" where
  "lkgLoop st best [] = Inr best"
| "lkgLoop st best (rec # rs) =
     (if ar_Set (r_Artifact rec) \<noteq> st then Inl (ForeignRecord (r_Artifact rec))
      else if \<not> gfsIsManagedComplete (r_State rec) then lkgLoop st best rs
      else let cand = newLKGCandidate rec in
        lkgLoop st
          (case best of None \<Rightarrow> Some cand | Some n \<Rightarrow> Some (if newerThan cand n then cand else n)) rs)"

definition LastKnownGoodDecide :: "Retention \<Rightarrow> BackupSetID \<Rightarrow> Record list \<Rightarrow> gfsError + LastKnownGoodResult" where
  "LastKnownGoodDecide cfg st records =
     (if setIsZero st then Inl NoSetID
      else let enabled = (case rc_ProtectLastKnownGood cfg of None \<Rightarrow> True | Some b \<Rightarrow> b);
               result = \<lparr>lk_Set = st, lk_Enabled = enabled, lk_Protected = False, lk_Artifact = zeroArtifact,
                         lk_Reason = ProtectionDisabled\<rparr> in
        if \<not> enabled then Inr result
        else bindE (lkgLoop st None records) (\<lambda>best.
          Inr (case best of
                 None \<Rightarrow> result\<lparr>lk_Reason := NothingEligible\<rparr>
               | Some n \<Rightarrow> result\<lparr>lk_Protected := True, lk_Artifact := lc_artifact n, lk_Reason := NewestIs n\<rparr>)))"

definition protectVerdict :: "GFSVerdict \<Rightarrow> GFSVerdict" where
  "protectVerdict v = v\<lparr>v_Keep := True, v_Tiers := v_Tiers v @ [lkgSelection], v_SiblingCollisions := []\<rparr>"

fun protectFirst :: "ArtifactID \<Rightarrow> GFSVerdict list \<Rightarrow> GFSVerdict list option" where
  "protectFirst a [] = None"
| "protectFirst a (v # vs) =
     (if v_Artifact v = a then Some (protectVerdict v # vs)
      else map_option (\<lambda>vs'. v # vs') (protectFirst a vs))"

definition ApplyLastKnownGood :: "GFSVerdict list \<Rightarrow> LastKnownGoodResult \<Rightarrow> GFSVerdict list" where
  "ApplyLastKnownGood verdicts lkg =
     (if \<not> lk_Protected lkg then verdicts
      else case protectFirst (lk_Artifact lkg) verdicts of
          Some out \<Rightarrow> out
        | None \<Rightarrow> sortGFSVerdicts (verdicts @
            [\<lparr>v_Artifact = lk_Artifact lkg, v_Keep = True, v_Tiers = [lkgSelection], v_SiblingCollisions = []\<rparr>]))"

definition DecideKeep ::
  "Env \<Rightarrow> instant \<Rightarrow> Retention \<Rightarrow> BackupSetID \<Rightarrow> Record list \<Rightarrow> gfsError + (GFSVerdict list \<times> LastKnownGoodResult)" where
  "DecideKeep env now cfg st records =
     bindE (GFSDecide env now cfg st records) (\<lambda>verdicts.
     bindE (LastKnownGoodDecide cfg st records) (\<lambda>lkg. Inr (ApplyLastKnownGood verdicts lkg, lkg)))"

section \<open>The newest candidate\<close>

definition lkgKey :: "lkgCandidate \<Rightarrow> instant \<times> instant \<times> string" where
  "lkgKey c = (lc_retention c, lc_discovered c, ar_Name (lc_artifact c))"

interpretation lkg: newest newerThan lkgKey
  by unfold_locales (auto simp: newerThan_def lkgKey_def less_prod_def)

text \<open>The loop is the pick of the candidates seen so far.\<close>

lemma lkgLoop_some:
  "lkgLoop st (Some n) records = Inr out \<longleftrightarrow>
     (\<forall>rec \<in> set records. ar_Set (r_Artifact rec) = st) \<and>
     out = Some (foldl (\<lambda>champ c. if newerThan c champ then c else champ) n (map newLKGCandidate (complete records)))"
  by (induction records arbitrary: n) (auto simp: Let_def complete_def)

lemma lkgLoop_iff:
  "lkgLoop st None records = Inr out \<longleftrightarrow>
     (\<forall>rec \<in> set records. ar_Set (r_Artifact rec) = st) \<and>
     out = (if complete records = [] then None else Some (lkg.pick (map newLKGCandidate (complete records))))"
  by (induction records) (auto simp: Let_def complete_def lkgLoop_some lkg.pick_def)

lemma newLKGCandidate_artifact [simp]: "lc_artifact (newLKGCandidate rec) = r_Artifact rec"
  by (simp add: newLKGCandidate_def split: prod.split)

definition protects :: "Retention \<Rightarrow> bool" where
  "protects cfg = (rc_ProtectLastKnownGood cfg \<noteq> Some False)"

lemma protects_iff: "protects cfg \<longleftrightarrow> (case rc_ProtectLastKnownGood cfg of None \<Rightarrow> True | Some b \<Rightarrow> b)"
  by (auto simp: protects_def split: option.split)

text \<open>What the decision answers, branch by branch.\<close>

lemma LastKnownGoodDecide_Inr:
  assumes "LastKnownGoodDecide cfg st records = Inr res"
  shows "\<not> setIsZero st" "lk_Enabled res = protects cfg"
    "lk_Protected res \<longleftrightarrow> protects cfg \<and> complete records \<noteq> []"
    "protects cfg \<Longrightarrow> \<forall>rec \<in> set records. ar_Set (r_Artifact rec) = st"
    "lk_Protected res \<Longrightarrow> lk_Artifact res = lc_artifact (lkg.pick (map newLKGCandidate (complete records)))"
  using assms
  by (auto simp: LastKnownGoodDecide_def bindE_Inr_iff lkgLoop_iff protects_iff Let_def split: if_splits option.splits)

lemma protected_record:
  assumes "LastKnownGoodDecide cfg st records = Inr res" "lk_Protected res"
  obtains rec where "rec \<in> set records" "gfsIsManagedComplete (r_State rec)" "lk_Artifact res = r_Artifact rec"
    "\<And>other. other \<in> set records \<Longrightarrow> gfsIsManagedComplete (r_State other) \<Longrightarrow>
       \<not> newerThan (newLKGCandidate other) (newLKGCandidate rec)"
proof -
  let ?cs = "map newLKGCandidate (complete records)"
  have ne: "?cs \<noteq> []" using LastKnownGoodDecide_Inr(3)[OF assms(1)] assms(2) by simp
  from lkg.pick_in[OF ne] obtain rec where rec: "rec \<in> set (complete records)" "lkg.pick ?cs = newLKGCandidate rec" by auto
  show thesis
  proof (rule that[of rec])
    show "rec \<in> set records" "gfsIsManagedComplete (r_State rec)" using rec(1) by (simp_all add: complete_def)
    show "lk_Artifact res = r_Artifact rec" using LastKnownGoodDecide_Inr(5)[OF assms] rec(2) by simp
    fix other assume "other \<in> set records" "gfsIsManagedComplete (r_State other)"
    then show "\<not> newerThan (newLKGCandidate other) (newLKGCandidate rec)"
      using lkg.pick_newest[of "newLKGCandidate other" ?cs] rec(2) by (simp add: complete_def)
  qed
qed

section \<open>The union\<close>

lemma protectFirst_None: "protectFirst a vs = None \<longleftrightarrow> a \<notin> v_Artifact ` set vs"
  by (induction vs) auto

lemma protectVerdict_simps [simp]:
  "v_Artifact (protectVerdict v) = v_Artifact v" "v_Keep (protectVerdict v)"
  "v_Tiers (protectVerdict v) = v_Tiers v @ [lkgSelection]"
  by (simp_all add: protectVerdict_def)

lemma protectFirst_Some:
  "protectFirst a vs = Some out \<Longrightarrow> distinct (map v_Artifact vs) \<Longrightarrow>
     out = map (\<lambda>v. if v_Artifact v = a then protectVerdict v else v) vs"
proof (induction vs arbitrary: out)
  case (Cons v vs)
  show ?case
  proof (cases "v_Artifact v = a")
    case True
    with Cons.prems have "map (\<lambda>v. if v_Artifact v = a then protectVerdict v else v) vs = vs"
      by (force intro!: map_idI simp: image_iff)
    with True Cons.prems(1) show ?thesis by simp
  qed (use Cons in auto)
qed simp

lemma GFSReference_artifacts:
  "v_Artifact ` set (GFSReference loc tiers records) = r_Artifact ` set (complete records)"
  unfolding set_GFSReference image_image by simp

lemma GFSReference_distinct:
  assumes "distinct (map r_Artifact records)"
  shows "distinct (map v_Artifact (GFSReference loc tiers records))"
proof -
  let ?vs = "map (\<lambda>rec. referenceVerdict tiers (map (datedOf loc) (complete records)) (r_Artifact rec)) (complete records)"
  have "distinct (map v_Artifact ?vs)" using assms by (simp add: comp_def complete_def distinct_map_filter)
  moreover have "mset (map v_Artifact (GFSReference loc tiers records)) = mset (map v_Artifact ?vs)"
    by (simp only: mset_map GFSReference_def sortGFSVerdicts_def mset_sort)
  ultimately show ?thesis using mset_eq_imp_distinct_iff by blast
qed

text \<open>The composed decision: the reference verdicts, with the protected one protected.\<close>

lemma DecideKeep_sound:
  assumes "DecideKeep env now cfg st records = Inr (vs, lkg)" "distinct (map r_Artifact records)"
  obtains loc tiers where "chainOf env now cfg loc tiers" "\<forall>rec \<in> set records. ar_Set (r_Artifact rec) = st"
    "LastKnownGoodDecide cfg st records = Inr lkg"
    "vs = map (\<lambda>v. if lk_Protected lkg \<and> v_Artifact v = lk_Artifact lkg then protectVerdict v else v)
            (GFSReference loc tiers records)"
proof -
  from assms(1) obtain out where
    o: "GFSDecide env now cfg st records = Inr out" "LastKnownGoodDecide cfg st records = Inr lkg"
      "vs = ApplyLastKnownGood out lkg"
    by (auto simp: DecideKeep_def bindE_Inr_iff)
  from GFSDecide_sound[OF o(1) assms(2)] obtain loc tiers where
    g: "chainOf env now cfg loc tiers" "\<forall>rec \<in> set records. ar_Set (r_Artifact rec) = st"
      "out = GFSReference loc tiers records" by metis
  have "vs = map (\<lambda>v. if lk_Protected lkg \<and> v_Artifact v = lk_Artifact lkg then protectVerdict v else v) out"
  proof (cases "lk_Protected lkg")
    case True
    from protected_record[OF o(2) True] obtain rec where
      "rec \<in> set records" "gfsIsManagedComplete (r_State rec)" "lk_Artifact lkg = r_Artifact rec" by metis
    then have "lk_Artifact lkg \<in> v_Artifact ` set out"
      unfolding g(3) GFSReference_artifacts by (simp add: complete_def)
    then have "protectFirst (lk_Artifact lkg) out \<noteq> None" by (simp add: protectFirst_None)
    then obtain out' where "protectFirst (lk_Artifact lkg) out = Some out'" by blast
    with protectFirst_Some[OF this] GFSReference_distinct[OF assms(2)] True g(3) o(3)
    show ?thesis by (simp add: ApplyLastKnownGood_def)
  qed (simp add: o(3) ApplyLastKnownGood_def)
  with that[OF g(1,2) o(2)] g(3) show thesis by simp
qed

section \<open>Properties\<close>

text \<open>C22: Unless the operator switched it off, last-known-good protection is on as soon as the set has
  one managed-complete artifact, and it holds exactly a newest one: by retention date, then by
  discovery, then by name, no managed-complete artifact of the set is newer.  Records in any other
  state, quarantined ones included, never hold it.\<close>

theorem last_known_good_is_newest:
  assumes "LastKnownGoodDecide cfg st records = Inr res"
  shows "lk_Protected res = (protects cfg \<and> (\<exists>rec \<in> set records. gfsIsManagedComplete (r_State rec))) \<and>
    (lk_Protected res \<longrightarrow> (\<exists>rec \<in> set records. gfsIsManagedComplete (r_State rec) \<and> lk_Artifact res = r_Artifact rec \<and>
       (\<forall>other \<in> set records. gfsIsManagedComplete (r_State other) \<longrightarrow>
          \<not> newerThan (newLKGCandidate other) (newLKGCandidate rec))))"
proof -
  have "complete records \<noteq> [] \<longleftrightarrow> (\<exists>rec \<in> set records. gfsIsManagedComplete (r_State rec))"
    by (auto simp: complete_def filter_empty_conv)
  with LastKnownGoodDecide_Inr(3)[OF assms] protected_record[OF assms] show ?thesis by metis
qed

text \<open>C7: The union keeps at least what the chain keeps and the protected artifact besides, and it
  judges exactly the managed-complete artifacts: unless protection is switched off, a set with one
  such artifact always keeps one.\<close>

theorem decide_keep_protects:
  assumes "DecideKeep env now cfg st records = Inr (vs, res)" "distinct (map r_Artifact records)"
  shows "\<exists>out. GFSDecide env now cfg st records = Inr out \<and> LastKnownGoodDecide cfg st records = Inr res \<and>
    map v_Artifact vs = map v_Artifact out \<and>
    (\<forall>i < length out. v_Keep (vs ! i) = (v_Keep (out ! i) \<or> lk_Protected res \<and> v_Artifact (out ! i) = lk_Artifact res)) \<and>
    (protects cfg \<and> (\<exists>rec \<in> set records. gfsIsManagedComplete (r_State rec)) \<longrightarrow>
       (\<exists>v \<in> set vs. v_Artifact v = lk_Artifact res \<and> v_Keep v))"
proof -
  obtain loc tiers where
    g: "chainOf env now cfg loc tiers" "\<forall>rec \<in> set records. ar_Set (r_Artifact rec) = st"
      "LastKnownGoodDecide cfg st records = Inr res"
      "vs = map (\<lambda>v. if lk_Protected res \<and> v_Artifact v = lk_Artifact res then protectVerdict v else v)
            (GFSReference loc tiers records)"
    by (rule DecideKeep_sound[OF assms])
  let ?out = "GFSReference loc tiers records"
  have "\<not> setIsZero st" using LastKnownGoodDecide_Inr(1)[OF g(3)] .
  with g have 1: "GFSDecide env now cfg st records = Inr ?out" unfolding GFSDecide_iff[OF assms(2)] by blast
  have 2: "map v_Artifact vs = map v_Artifact ?out" unfolding g(4) by simp
  have 3: "\<forall>i < length ?out. v_Keep (vs ! i) = (v_Keep (?out ! i) \<or> lk_Protected res \<and> v_Artifact (?out ! i) = lk_Artifact res)"
    unfolding g(4) by (auto simp: nth_map)
  have 4: "\<exists>v \<in> set vs. v_Artifact v = lk_Artifact res \<and> v_Keep v"
    if "protects cfg" "\<exists>rec \<in> set records. gfsIsManagedComplete (r_State rec)"
  proof -
    have p: "lk_Protected res" using that LastKnownGoodDecide_Inr(3)[OF g(3)] by (auto simp: complete_def filter_empty_conv)
    from protected_record[OF g(3) p] obtain rec where "rec \<in> set (complete records)" "lk_Artifact res = r_Artifact rec"
      unfolding complete_def by auto
    then have "lk_Artifact res \<in> v_Artifact ` set ?out" unfolding GFSReference_artifacts by simp
    then obtain v where "v \<in> set ?out" "v_Artifact v = lk_Artifact res" by auto
    then have "protectVerdict v \<in> set vs" unfolding g(4) using p by auto
    with \<open>v_Artifact v = lk_Artifact res\<close> show ?thesis by (intro bexI[of _ "protectVerdict v"]) simp_all
  qed
  show ?thesis by (rule exI[of _ ?out], intro conjI 1 2 3 g(3) impI 4) blast+
qed

lemma sample_lkg:
  "LastKnownGoodDecide sampleConfig sampleSet sampleRecords =
     Inr \<lparr>lk_Set = sampleSet, lk_Enabled = True, lk_Protected = True, lk_Artifact = \<lparr>ar_Set = sampleSet, ar_Name = ''c''\<rparr>,
       lk_Reason = NewestIs \<lparr>lc_artifact = \<lparr>ar_Set = sampleSet, ar_Name = ''c''\<rparr>, lc_retention = 102 * nsPerDay,
         lc_discovered = 103 * nsPerDay, lc_refusal = None\<rparr>\<rparr>"
  by code_simp

lemma sample_kept: "\<exists>vs res. DecideKeep sampleEnv sampleNow sampleConfig sampleSet sampleRecords = Inr (vs, res)"
  using sample_decided by (auto simp: DecideKeep_def sample_lkg)

theorem last_known_good_is_newest_witness:
  "\<exists>res. LastKnownGoodDecide sampleConfig sampleSet sampleRecords = Inr res \<and> lk_Protected res"
  using last_known_good_is_newest[OF sample_lkg] sample_lkg by (metis LastKnownGoodResult.select_convs(3))

theorem decide_keep_protects_witness:
  "\<exists>vs res. DecideKeep sampleEnv sampleNow sampleConfig sampleSet sampleRecords = Inr (vs, res) \<and>
     (\<exists>v \<in> set vs. v_Artifact v = \<lparr>ar_Set = sampleSet, ar_Name = ''c''\<rparr> \<and> v_Keep v)"
proof -
  from sample_decided obtain out where o: "GFSDecide sampleEnv sampleNow sampleConfig sampleSet sampleRecords = Inr out" ..
  define res where "res = projr (LastKnownGoodDecide sampleConfig sampleSet sampleRecords)"
  have l: "LastKnownGoodDecide sampleConfig sampleSet sampleRecords = Inr res" "lk_Artifact res = \<lparr>ar_Set = sampleSet, ar_Name = ''c''\<rparr>"
    unfolding res_def sample_lkg by simp_all
  have d: "DecideKeep sampleEnv sampleNow sampleConfig sampleSet sampleRecords = Inr (ApplyLastKnownGood out res, res)"
    using o l(1) by (simp add: DecideKeep_def)
  have "protects sampleConfig" "\<exists>rec \<in> set sampleRecords. gfsIsManagedComplete (r_State rec)"
    by (simp_all add: protects_def sampleConfig_def sampleRecords_def sampleRecord_def gfsIsManagedComplete_def gfsManagedCompleteStates_def)
  then have "\<exists>v \<in> set (ApplyLastKnownGood out res). v_Artifact v = lk_Artifact res \<and> v_Keep v"
    using decide_keep_protects[OF d sample_distinct] by blast
  with d show ?thesis unfolding l(2) by blast
qed

end
