(* ===== verification/HomeMedium.thy ===== *)
theory HomeMedium
  imports LastKnownGood
begin

text \<open>
  The home-medium rule (\<open>core/internal/retention/homemedium.go\<close>): the first tier in chain order that
  selects an artifact names the medium it belongs on, and a move is planned only from a confirmed
  location.  The locator is an argument, as in the code.
\<close>

section \<open>Where an artifact is\<close>

datatype LocationStatus = LocationConfirmed | LocationUnrecorded | LocationContested

record Location =
  lo_Medium :: string
  lo_Status :: LocationStatus

definition OnMedium :: "Location \<Rightarrow> bool" where
  "OnMedium l = (lo_Status l = LocationConfirmed \<and> lo_Medium l \<noteq> MediumLocal)"

definition AllLocal :: "ArtifactID \<Rightarrow> Location" where
  "AllLocal a = \<lparr>lo_Medium = MediumLocal, lo_Status = LocationConfirmed\<rparr>"

section \<open>The home\<close>

datatype homeError = NoLocator | UnknownTier ArtifactID string

text \<open>The map from names to tiers is filled in chain order, so of two tiers of one name the later
  stays.\<close>

definition tierByName :: "Env \<Rightarrow> RetentionTier list \<Rightarrow> string \<Rightarrow> RetentionTier option" where
  "tierByName env chain name = find (\<lambda>t. gfsTierName env (rt_Name t) = name) (rev chain)"

fun homeLoop :: "Env \<Rightarrow> RetentionTier list \<Rightarrow> ArtifactID \<Rightarrow> GFSTierSelection list \<Rightarrow> homeError + string option" where
  "homeLoop env chain a [] = Inr None"
| "homeLoop env chain a (sel # sels) =
     (if ts_By sel = SelectedByProtection then homeLoop env chain a sels
      else case tierByName env chain (ts_Tier sel) of
          None \<Rightarrow> Inl (UnknownTier a (ts_Tier sel))
        | Some t \<Rightarrow> Inr (Some (EffectiveMedium t)))"

definition HomeMedium :: "Env \<Rightarrow> RetentionTier list \<Rightarrow> GFSVerdict \<Rightarrow> homeError + string option" where
  "HomeMedium env chain v = homeLoop env chain (v_Artifact v) (v_Tiers v)"

fun mediumLoop ::
  "Env \<Rightarrow> RetentionTier list \<Rightarrow> ArtifactID \<Rightarrow> string \<Rightarrow> GFSTierSelection list \<Rightarrow> homeError + RetentionTier option" where
  "mediumLoop env chain a medium [] = Inr None"
| "mediumLoop env chain a medium (sel # sels) =
     (if ts_By sel = SelectedByProtection then mediumLoop env chain a medium sels
      else case tierByName env chain (ts_Tier sel) of
          None \<Rightarrow> Inl (UnknownTier a (ts_Tier sel))
        | Some t \<Rightarrow> if EffectiveMedium t = medium then Inr (Some t) else mediumLoop env chain a medium sels)"

text \<open>\<open>TierMediumSelects\<close> answers with the tier its explanation names.\<close>

definition TierMediumSelects ::
  "Env \<Rightarrow> RetentionTier list \<Rightarrow> GFSVerdict \<Rightarrow> string \<Rightarrow> homeError + RetentionTier option" where
  "TierMediumSelects env chain v medium = mediumLoop env chain (v_Artifact v) medium (v_Tiers v)"

definition tierNameList :: "Env \<Rightarrow> RetentionTier list \<Rightarrow> string" where
  "tierNameList env chain =
     (if length chain = 0 then ''empty''
      else joinStrings '', '' (map (\<lambda>t. gfsTierName env (rt_Name t)) chain))"

section \<open>The plan\<close>

record HomeMove =
  hm_Artifact :: ArtifactID
  hm_From :: string
  hm_To :: string

record HomePlan =
  hp_Moves :: "HomeMove list"
  hp_Unconfirmed :: "ArtifactID list"

fun planLoop ::
  "Env \<Rightarrow> RetentionTier list \<Rightarrow> (ArtifactID \<Rightarrow> Location) \<Rightarrow> HomePlan \<Rightarrow> GFSVerdict list \<Rightarrow> homeError + HomePlan" where
  "planLoop env chain where' plan [] = Inr plan"
| "planLoop env chain where' plan (v # vs) =
     bindE (HomeMedium env chain v) (\<lambda>home.
       case home of None \<Rightarrow> planLoop env chain where' plan vs
       | Some home \<Rightarrow>
         let loc = where' (v_Artifact v) in
         if lo_Status loc \<noteq> LocationConfirmed then
           planLoop env chain where' (plan\<lparr>hp_Unconfirmed := hp_Unconfirmed plan @ [v_Artifact v]\<rparr>) vs
         else if lo_Medium loc = home then planLoop env chain where' plan vs
         else planLoop env chain where'
           (plan\<lparr>hp_Moves := hp_Moves plan @ [\<lparr>hm_Artifact = v_Artifact v, hm_From = lo_Medium loc, hm_To = home\<rparr>]\<rparr>) vs)"

definition PlanHomeMoves ::
  "Env \<Rightarrow> RetentionTier list \<Rightarrow> GFSVerdict list \<Rightarrow> (ArtifactID \<Rightarrow> Location) option \<Rightarrow> homeError + HomePlan" where
  "PlanHomeMoves env chain verdicts where' =
     (case where' of None \<Rightarrow> Inl NoLocator
      | Some loc \<Rightarrow> planLoop env chain loc \<lparr>hp_Moves = [], hp_Unconfirmed = []\<rparr> verdicts)"

section \<open>Homes\<close>

text \<open>The home of a verdict is the medium of its first selection by a calendar window.\<close>

definition windowed :: "GFSVerdict \<Rightarrow> GFSTierSelection list" where
  "windowed v = filter (\<lambda>s. ts_By s \<noteq> SelectedByProtection) (v_Tiers v)"

lemma homeLoop_filter:
  "homeLoop env chain a sels =
     (case filter (\<lambda>s. ts_By s \<noteq> SelectedByProtection) sels of
        [] \<Rightarrow> Inr None
      | s # _ \<Rightarrow> (case tierByName env chain (ts_Tier s) of
          None \<Rightarrow> Inl (UnknownTier a (ts_Tier s)) | Some t \<Rightarrow> Inr (Some (EffectiveMedium t))))"
  by (induction sels) auto

lemma HomeMedium_first:
  "HomeMedium env chain v =
     (case windowed v of
        [] \<Rightarrow> Inr None
      | s # _ \<Rightarrow> (case tierByName env chain (ts_Tier s) of
          None \<Rightarrow> Inl (UnknownTier (v_Artifact v) (ts_Tier s)) | Some t \<Rightarrow> Inr (Some (EffectiveMedium t))))"
  unfolding HomeMedium_def windowed_def by (rule homeLoop_filter)

lemma home_selects:
  assumes "HomeMedium env chain v = Inr (Some m)"
  shows "\<exists>t. TierMediumSelects env chain v m = Inr (Some t) \<and> EffectiveMedium t = m"
proof -
  have "homeLoop env chain a sels = Inr (Some m) \<Longrightarrow>
      \<exists>t. mediumLoop env chain a m sels = Inr (Some t) \<and> EffectiveMedium t = m" for a sels
    by (induction sels) (auto split: option.splits if_splits)
  with assms show ?thesis by (simp add: HomeMedium_def TierMediumSelects_def)
qed

lemma tierByName_iff: "tierByName env chain n \<noteq> None \<longleftrightarrow> n \<in> (\<lambda>t. gfsTierName env (rt_Name t)) ` set chain"
  by (auto simp: tierByName_def find_None_iff)

section \<open>The loop of the plan\<close>

definition moveOf :: "Env \<Rightarrow> RetentionTier list \<Rightarrow> (ArtifactID \<Rightarrow> Location) \<Rightarrow> GFSVerdict \<Rightarrow> HomeMove option" where
  "moveOf env chain loc v =
     (case HomeMedium env chain v of
        Inr (Some home) \<Rightarrow>
          if lo_Status (loc (v_Artifact v)) = LocationConfirmed \<and> lo_Medium (loc (v_Artifact v)) \<noteq> home
          then Some \<lparr>hm_Artifact = v_Artifact v, hm_From = lo_Medium (loc (v_Artifact v)), hm_To = home\<rparr> else None
      | _ \<Rightarrow> None)"

definition unconfirmedOf :: "Env \<Rightarrow> RetentionTier list \<Rightarrow> (ArtifactID \<Rightarrow> Location) \<Rightarrow> GFSVerdict \<Rightarrow> ArtifactID option" where
  "unconfirmedOf env chain loc v =
     (case HomeMedium env chain v of
        Inr (Some home) \<Rightarrow> if lo_Status (loc (v_Artifact v)) \<noteq> LocationConfirmed then Some (v_Artifact v) else None
      | _ \<Rightarrow> None)"

lemma planLoop_eq:
  "planLoop env chain loc plan vs = Inr out \<longleftrightarrow>
     (\<forall>v \<in> set vs. \<exists>h. HomeMedium env chain v = Inr h) \<and>
     out = plan\<lparr>hp_Moves := hp_Moves plan @ List.map_filter (moveOf env chain loc) vs,
                hp_Unconfirmed := hp_Unconfirmed plan @ List.map_filter (unconfirmedOf env chain loc) vs\<rparr>"
proof (induction vs arbitrary: plan)
  case (Cons v vs)
  show ?case
  proof (cases "HomeMedium env chain v")
    case (Inr h)
    then show ?thesis
      by (cases h) (auto simp: Cons.IH Let_def List.map_filter_simps moveOf_def unconfirmedOf_def)
  qed simp
qed (auto simp: List.map_filter_simps)

section \<open>Verdicts of the chain\<close>

lemma resolveTiers_names:
  "resolveTiers env i ts today wd = Inr tiers \<Longrightarrow> map bt_tier tiers = map (\<lambda>t. gfsTierName env (rt_Name t)) ts"
proof (induction ts arbitrary: i tiers)
  case (Cons t ts)
  from Cons.prems obtain b rest where
    b: "gfsResolveTier env t today wd = Inr b" "resolveTiers env (i + 1) ts today wd = Inr rest" "tiers = b # rest"
    by (auto simp: bindE_Inr_iff mapErr_def split: sum.splits)
  from b(1) have "bt_tier b = gfsTierName env (rt_Name t)"
    by (auto simp: gfsResolveTier_def bindE_Inr_iff Let_def split: if_splits)
  with Cons.IH[OF b(2)] b(3) show ?case by simp
qed simp

lemma chainOf_names:
  "chainOf env now cfg loc tiers \<Longrightarrow>
     map bt_tier tiers = map (\<lambda>t. gfsTierName env (rt_Name t)) (EffectiveTiers cfg)"
  by (auto simp: chainOf_def gfsResolveChain_def bindE_Inr_iff split: if_splits dest: resolveTiers_names)

lemma selection_named:
  assumes "s \<in> set (List.map_filter (tierSelection ds a) tiers)"
  shows "ts_Tier s \<in> bt_tier ` set tiers" "ts_By s \<noteq> SelectedByProtection"
proof -
  from assms obtain tb where "tb \<in> set tiers" "tierSelection ds a tb = Some s"
    by (auto simp: List.map_filter_def)
  then show "ts_Tier s \<in> bt_tier ` set tiers" "ts_By s \<noteq> SelectedByProtection"
    by (auto simp: tierSelection_def selectedBy_def split: if_splits)
qed

text \<open>Every window selection of a composed verdict names a tier of the chain, and only kept verdicts
  have one.\<close>

lemma DecideKeep_windowed:
  assumes "DecideKeep env now cfg st records = Inr (vs, res)" "distinct (map r_Artifact records)" "v \<in> set vs"
  shows "\<forall>s \<in> set (windowed v). tierByName env (EffectiveTiers cfg) (ts_Tier s) \<noteq> None" "windowed v \<noteq> [] \<Longrightarrow> v_Keep v"
proof -
  obtain loc tiers where
    g: "chainOf env now cfg loc tiers" "\<forall>rec \<in> set records. ar_Set (r_Artifact rec) = st"
      "LastKnownGoodDecide cfg st records = Inr res"
      "vs = map (\<lambda>v. if lk_Protected res \<and> v_Artifact v = lk_Artifact res then protectVerdict v else v)
            (GFSReference loc tiers records)"
    by (rule DecideKeep_sound[OF assms(1,2)])
  let ?ds = "map (datedOf loc) (complete records)"
  from assms(3) obtain rec where rec: "rec \<in> set (complete records)"
    "v = referenceVerdict tiers ?ds (r_Artifact rec) \<or> v = protectVerdict (referenceVerdict tiers ?ds (r_Artifact rec))"
    unfolding g(4) set_map set_GFSReference by auto
  have w: "windowed v = List.map_filter (tierSelection ?ds (r_Artifact rec)) tiers"
    using rec(2) selection_named(2)[of _ ?ds "r_Artifact rec" tiers]
    by (auto simp: windowed_def lkgSelection_def filter_id_conv)
  have "ts_Tier s \<in> (\<lambda>t. gfsTierName env (rt_Name t)) ` set (EffectiveTiers cfg)" if "s \<in> set (windowed v)" for s
  proof -
    from that have "ts_Tier s \<in> set (map bt_tier tiers)" unfolding w using selection_named(1) by fastforce
    then show ?thesis unfolding chainOf_names[OF g(1)] by simp
  qed
  then show "\<forall>s \<in> set (windowed v). tierByName env (EffectiveTiers cfg) (ts_Tier s) \<noteq> None"
    unfolding tierByName_iff by blast
  show "v_Keep v" if "windowed v \<noteq> []" using rec(2) that unfolding w by auto
qed

section \<open>Properties\<close>

text \<open>C26: On the verdicts of the decision the plan never refuses, and it plans exactly the moves the
  home rule asks for: of kept artifacts whose location is confirmed and differs from the medium of
  their first selecting tier, which still selects them there.  An artifact whose location is not
  confirmed is reported and never moved.\<close>

theorem home_moves_planned:
  assumes "DecideKeep env now cfg st records = Inr (vs, res)" "distinct (map r_Artifact records)"
  shows "\<exists>plan. PlanHomeMoves env (EffectiveTiers cfg) vs (Some loc) = Inr plan \<and>
    (\<forall>m \<in> set (hp_Moves plan). \<exists>v \<in> set vs. v_Artifact v = hm_Artifact m \<and> v_Keep v \<and>
       lo_Status (loc (v_Artifact v)) = LocationConfirmed \<and> lo_Medium (loc (v_Artifact v)) = hm_From m \<and>
       hm_From m \<noteq> hm_To m \<and> HomeMedium env (EffectiveTiers cfg) v = Inr (Some (hm_To m)) \<and>
       (\<exists>t. TierMediumSelects env (EffectiveTiers cfg) v (hm_To m) = Inr (Some t))) \<and>
    (\<forall>v \<in> set vs. \<forall>home. HomeMedium env (EffectiveTiers cfg) v = Inr (Some home) \<longrightarrow>
       (if lo_Status (loc (v_Artifact v)) \<noteq> LocationConfirmed then v_Artifact v \<in> set (hp_Unconfirmed plan)
        else lo_Medium (loc (v_Artifact v)) = home \<or>
          \<lparr>hm_Artifact = v_Artifact v, hm_From = lo_Medium (loc (v_Artifact v)), hm_To = home\<rparr> \<in> set (hp_Moves plan)))"
proof -
  let ?chain = "EffectiveTiers cfg"
  have homes: "\<exists>h. HomeMedium env ?chain v = Inr h" if v: "v \<in> set vs" for v
  proof (cases "windowed v")
    case (Cons s ss)
    then have "tierByName env ?chain (ts_Tier s) \<noteq> None" using DecideKeep_windowed(1)[OF assms v] by simp
    with Cons show ?thesis by (auto simp: HomeMedium_first)
  qed (simp add: HomeMedium_first)
  define plan where "plan = \<lparr>hp_Moves = List.map_filter (moveOf env ?chain loc) vs,
    hp_Unconfirmed = List.map_filter (unconfirmedOf env ?chain loc) vs\<rparr>"
  have p: "PlanHomeMoves env ?chain vs (Some loc) = Inr plan"
    using homes by (simp add: PlanHomeMoves_def planLoop_eq plan_def)
  have mv: "m \<in> set (hp_Moves plan) \<longleftrightarrow> (\<exists>v \<in> set vs. moveOf env ?chain loc v = Some m)" for m
    by (auto simp: plan_def List.map_filter_def intro: rev_image_eqI)
  have un: "a \<in> set (hp_Unconfirmed plan) \<longleftrightarrow> (\<exists>v \<in> set vs. unconfirmedOf env ?chain loc v = Some a)" for a
    by (auto simp: plan_def List.map_filter_def intro: rev_image_eqI)
  show ?thesis
  proof (rule exI[of _ plan], intro conjI p ballI allI impI)
    fix m assume "m \<in> set (hp_Moves plan)"
    then obtain v where v: "v \<in> set vs" "moveOf env ?chain loc v = Some m" using mv by blast
    then have m: "HomeMedium env ?chain v = Inr (Some (hm_To m))" "v_Artifact v = hm_Artifact m"
      "lo_Status (loc (v_Artifact v)) = LocationConfirmed" "lo_Medium (loc (v_Artifact v)) = hm_From m" "hm_From m \<noteq> hm_To m"
      by (auto simp: moveOf_def split: sum.splits option.splits if_splits)
    then have "windowed v \<noteq> []" by (auto simp: HomeMedium_first)
    then have "v_Keep v" by (rule DecideKeep_windowed(2)[OF assms v(1)])
    with v(1) m home_selects[OF m(1)] show "\<exists>v \<in> set vs. v_Artifact v = hm_Artifact m \<and> v_Keep v \<and>
       lo_Status (loc (v_Artifact v)) = LocationConfirmed \<and> lo_Medium (loc (v_Artifact v)) = hm_From m \<and>
       hm_From m \<noteq> hm_To m \<and> HomeMedium env ?chain v = Inr (Some (hm_To m)) \<and>
       (\<exists>t. TierMediumSelects env ?chain v (hm_To m) = Inr (Some t))" by blast
  next
    fix v home assume v: "v \<in> set vs" "HomeMedium env ?chain v = Inr (Some home)"
    show "if lo_Status (loc (v_Artifact v)) \<noteq> LocationConfirmed then v_Artifact v \<in> set (hp_Unconfirmed plan)
        else lo_Medium (loc (v_Artifact v)) = home \<or>
          \<lparr>hm_Artifact = v_Artifact v, hm_From = lo_Medium (loc (v_Artifact v)), hm_To = home\<rparr> \<in> set (hp_Moves plan)"
      unfolding mv un using v by (auto simp: moveOf_def unconfirmedOf_def intro!: bexI[of _ v])
  qed
qed

theorem home_moves_planned_witness:
  "\<exists>vs res plan. DecideKeep sampleEnv sampleNow sampleConfig sampleSet sampleRecords = Inr (vs, res) \<and>
     PlanHomeMoves sampleEnv (EffectiveTiers sampleConfig) vs (Some AllLocal) = Inr plan"
proof -
  from sample_kept obtain vs res where
    "DecideKeep sampleEnv sampleNow sampleConfig sampleSet sampleRecords = Inr (vs, res)" by blast
  with home_moves_planned[OF this sample_distinct, of AllLocal] show ?thesis by blast
qed

end
