(* ===== verification/Prune.thy ===== *)
theory Prune
  imports HomeMedium Store
begin

text \<open>
  Local deletion safety (\<open>core/internal/retention/prune.go\<close>).
  The file system is a record of calls on a world of any
  type: the calls that read it do not change it, \<open>os.Remove\<close> may, and so may the other processes
  that run between two deletions.  Errors and reasons are constructors carrying what the code puts
  into the message.
\<close>

section \<open>The calls\<close>

record 'w PruneFS =
  fs_Lstat :: "'w \<Rightarrow> string \<Rightarrow> string + FileMode"
  fs_EvalSymlinks :: "'w \<Rightarrow> string \<Rightarrow> string + string"
  fs_Remove :: "'w \<Rightarrow> string \<Rightarrow> string option \<times> 'w"
  fs_Elapse :: "'w \<Rightarrow> 'w"

type_synonym 'w MediumPruner = "'w \<Rightarrow> Record \<Rightarrow> string \<Rightarrow> string option \<times> 'w"

section \<open>Verdicts\<close>

datatype PruneAction = PruneKeep | PruneDelete | PruneRefuse

datatype pruneRefusal =
    NoStore storeError
  | NoLocalPath
  | NotAbsolute string
  | NotFinal State
  | PartialMarker string
  | PathMismatch string string
  | StatFailed string string
  | IsSymlink string
  | NotRegular string
  | RootUnresolved string string
  | DirUnresolved string string
  | OutsideRoot string string

datatype unconfirmedCopy =
    NoRecordFor ArtifactID
  | NoLocation pruneRefusal
  | NoCopy string string
  | CopySymlink string
  | CopyNotRegular string

datatype pruneReason =
    KeptBy "GFSTierSelection list"
  | Undecidable pruneRefusal
  | ProtectedContradiction string
  | MoveInFlight
  | RefusedBy pruneRefusal
  | NotFinalOnMedium string State
  | PartialOnMedium string
  | SelectedByNothing "string list"
  | SelectedByNothingOn string "string list"
  | HeldBecause unconfirmedCopy
  | NoRecordAtDelete
  | NoPruner string
  | MediumKept string string
  | RefusedAgain pruneRefusal
  | RemoveFailed string

record PruneVerdict =
  pv_Artifact :: ArtifactID
  pv_Action :: PruneAction
  pv_Path :: string
  pv_Medium :: string
  pv_Tiers :: "GFSTierSelection list"
  pv_Reason :: pruneReason
  pv_HoldReason :: "unconfirmedCopy option"

section \<open>Paths\<close>

definition prunePartialSuffix :: string where "prunePartialSuffix = ''.partial''"

definition pruneFinalPath :: "SetConfig \<Rightarrow> ArtifactID \<Rightarrow> pruneRefusal + string" where
  "pruneFinalPath bs artifact = mapErr NoStore (bindE (NewLocal (sc_LocalPath bs)) (\<lambda>store. Locator store artifact))"

definition pruneVerifySafeToDelete :: "'w PruneFS \<Rightarrow> 'w \<Rightarrow> SetConfig \<Rightarrow> Record \<Rightarrow> pruneRefusal + string" where
  "pruneVerifySafeToDelete fs w bs rec =
     (if sc_LocalPath bs = [] then Inl NoLocalPath
      else if \<not> isAbs (sc_LocalPath bs) then Inl (NotAbsolute (sc_LocalPath bs))
      else if \<not> gfsIsManagedComplete (r_State rec) then Inl (NotFinal (r_State rec))
      else bindE (pruneFinalPath bs (r_Artifact rec)) (\<lambda>expected.
        if hasSuffix expected prunePartialSuffix then Inl (PartialMarker expected)
        else if r_LocalPath rec \<noteq> expected then Inl (PathMismatch (r_LocalPath rec) expected)
        else case fs_Lstat fs w expected of
          Inl err \<Rightarrow> Inl (StatFailed expected err)
        | Inr mode \<Rightarrow>
          if mode = ModeSymlink then Inl (IsSymlink expected)
          else if mode \<noteq> ModeRegular then Inl (NotRegular expected)
          else case fs_EvalSymlinks fs w (sc_LocalPath bs) of
            Inl err \<Rightarrow> Inl (RootUnresolved (sc_LocalPath bs) err)
          | Inr resolvedRoot \<Rightarrow>
            (case fs_EvalSymlinks fs w (pathDir expected) of
               Inl err \<Rightarrow> Inl (DirUnresolved (pathDir expected) err)
             | Inr resolvedDir \<Rightarrow>
               if resolvedDir \<noteq> resolvedRoot then Inl (OutsideRoot resolvedDir resolvedRoot)
               else Inr (pathJoin resolvedRoot (ar_Name (r_Artifact rec))))))"

section \<open>Evaluating one artifact\<close>

definition localBranchMedium :: "Location \<Rightarrow> string" where
  "localBranchMedium loc = (if lo_Status loc = LocationContested then [] else MediumLocal)"

definition pruneVerdict ::
  "ArtifactID \<Rightarrow> PruneAction \<Rightarrow> string \<Rightarrow> string \<Rightarrow> GFSTierSelection list \<Rightarrow> pruneReason \<Rightarrow> PruneVerdict" where
  "pruneVerdict a action path medium tiers reason =
     \<lparr>pv_Artifact = a, pv_Action = action, pv_Path = path, pv_Medium = medium, pv_Tiers = tiers,
      pv_Reason = reason, pv_HoldReason = None\<rparr>"

definition pruneEvaluateOnMedium ::
  "Record \<Rightarrow> GFSVerdict \<Rightarrow> LastKnownGoodResult \<Rightarrow> string \<Rightarrow> PruneVerdict" where
  "pruneEvaluateOnMedium rec keepVerdict lkg medium =
     (let a = r_Artifact rec in
      if v_Keep keepVerdict then pruneVerdict a PruneKeep [] medium (v_Tiers keepVerdict) (KeptBy (v_Tiers keepVerdict))
      else if lk_Protected lkg \<and> lk_Artifact lkg = a then
        pruneVerdict a PruneRefuse [] medium [] (ProtectedContradiction medium)
      else if \<not> gfsIsManagedComplete (r_State rec) then
        pruneVerdict a PruneRefuse [] medium [] (NotFinalOnMedium medium (r_State rec))
      else if hasSuffix (ar_Name a) prunePartialSuffix then
        pruneVerdict a PruneRefuse [] medium [] (PartialOnMedium medium)
      else pruneVerdict a PruneDelete [] medium []
        (SelectedByNothingOn medium (SiblingCollisionLines keepVerdict)))"

definition pruneEvaluate ::
  "'w PruneFS \<Rightarrow> 'w \<Rightarrow> SetConfig \<Rightarrow> Record \<Rightarrow> GFSVerdict \<Rightarrow> LastKnownGoodResult \<Rightarrow> (ArtifactID \<Rightarrow> Location) \<Rightarrow>
   PruneVerdict" where
  "pruneEvaluate fs w bs rec keepVerdict lkg where' =
     (let a = r_Artifact rec; loc = where' a in
      if OnMedium loc then pruneEvaluateOnMedium rec keepVerdict lkg (lo_Medium loc)
      else case pruneFinalPath bs a of
        Inl err \<Rightarrow> pruneVerdict a PruneRefuse [] [] [] (Undecidable err)
      | Inr path \<Rightarrow>
        if v_Keep keepVerdict then
          pruneVerdict a PruneKeep path (localBranchMedium loc) (v_Tiers keepVerdict) (KeptBy (v_Tiers keepVerdict))
        else if lk_Protected lkg \<and> lk_Artifact lkg = a then
          pruneVerdict a PruneRefuse path (localBranchMedium loc) [] (ProtectedContradiction MediumLocal)
        else if lo_Status loc = LocationContested then
          pruneVerdict a PruneRefuse path [] [] MoveInFlight
        else case pruneVerifySafeToDelete fs w bs rec of
            Inl err \<Rightarrow> pruneVerdict a PruneRefuse path (localBranchMedium loc) [] (RefusedBy err)
          | Inr safePath \<Rightarrow> pruneVerdict a PruneDelete safePath (localBranchMedium loc) []
              (SelectedByNothing (SiblingCollisionLines keepVerdict)))"

section \<open>The plan\<close>

datatype pruneError =
    PruneNoSet
  | PruneNoLocator
  | PruneUndecided gfsError
  | PruneInconsistent ArtifactID

definition recByArtifact :: "Record list \<Rightarrow> ArtifactID \<Rightarrow> Record option" where
  "recByArtifact records = map_of (map (\<lambda>rec. (r_Artifact rec, rec)) (rev records))"

definition pruneLastKnownGoodUnconfirmed ::
  "'w PruneFS \<Rightarrow> 'w \<Rightarrow> SetConfig \<Rightarrow> Record list \<Rightarrow> LastKnownGoodResult \<Rightarrow> (ArtifactID \<Rightarrow> Location) \<Rightarrow>
   unconfirmedCopy option" where
  "pruneLastKnownGoodUnconfirmed fs w bs records lkg where' =
     (if \<not> lk_Protected lkg then None
      else case recByArtifact records (lk_Artifact lkg) of
        None \<Rightarrow> Some (NoRecordFor (lk_Artifact lkg))
      | Some rec \<Rightarrow>
        let loc = where' (lk_Artifact lkg) in
        if lo_Status loc = LocationContested \<or> OnMedium loc then None
        else case pruneFinalPath bs (r_Artifact rec) of
          Inl err \<Rightarrow> Some (NoLocation err)
        | Inr path \<Rightarrow>
          (case fs_Lstat fs w path of
             Inl err \<Rightarrow> Some (NoCopy path err)
           | Inr mode \<Rightarrow>
             if mode = ModeSymlink then Some (CopySymlink path)
             else if mode \<noteq> ModeRegular then Some (CopyNotRegular path)
             else None))"

definition pruneHoldEveryDelete :: "PruneVerdict list \<Rightarrow> unconfirmedCopy option \<Rightarrow> PruneVerdict list" where
  "pruneHoldEveryDelete verdicts why =
     (case why of None \<Rightarrow> verdicts
      | Some reason \<Rightarrow> map (\<lambda>v. if pv_Action v \<noteq> PruneDelete then v
          else v\<lparr>pv_Action := PruneRefuse, pv_HoldReason := Some reason, pv_Reason := HeldBecause reason\<rparr>) verdicts)"

definition sortPruneVerdicts :: "PruneVerdict list \<Rightarrow> PruneVerdict list" where
  "sortPruneVerdicts vs = sort_key (\<lambda>v. ar_Name (pv_Artifact v)) vs"

fun evaluateAll ::
  "'w PruneFS \<Rightarrow> 'w \<Rightarrow> SetConfig \<Rightarrow> Record list \<Rightarrow> LastKnownGoodResult \<Rightarrow> (ArtifactID \<Rightarrow> Location) \<Rightarrow>
   GFSVerdict list \<Rightarrow> pruneError + PruneVerdict list" where
  "evaluateAll fs w bs records lkg where' [] = Inr []"
| "evaluateAll fs w bs records lkg where' (v # vs) =
     (case recByArtifact records (v_Artifact v) of
        None \<Rightarrow> Inl (PruneInconsistent (v_Artifact v))
      | Some rec \<Rightarrow> bindE (evaluateAll fs w bs records lkg where' vs) (\<lambda>rest.
          Inr (pruneEvaluate fs w bs rec v lkg where' # rest)))"

definition PruneDecide ::
  "Env \<Rightarrow> 'w PruneFS \<Rightarrow> 'w \<Rightarrow> instant \<Rightarrow> Retention \<Rightarrow> SetConfig \<Rightarrow> Record list \<Rightarrow> (ArtifactID \<Rightarrow> Location) option \<Rightarrow>
   pruneError + PruneVerdict list" where
  "PruneDecide env fs w now cfg bs records where' =
     (if setIsZero (sc_ID bs) then Inl PruneNoSet
      else case where' of None \<Rightarrow> Inl PruneNoLocator
      | Some loc \<Rightarrow>
        bindE (mapErr PruneUndecided (DecideKeep env now cfg (sc_ID bs) records)) (\<lambda>(verdicts, lkg).
        bindE (evaluateAll fs w bs records lkg loc verdicts) (\<lambda>out.
          Inr (sortPruneVerdicts
            (pruneHoldEveryDelete out (pruneLastKnownGoodUnconfirmed fs w bs records lkg loc))))))"

definition LastKnownGoodUnconfirmed ::
  "Env \<Rightarrow> 'w PruneFS \<Rightarrow> 'w \<Rightarrow> instant \<Rightarrow> Retention \<Rightarrow> SetConfig \<Rightarrow> Record list \<Rightarrow> (ArtifactID \<Rightarrow> Location) option \<Rightarrow>
   pruneError + unconfirmedCopy option" where
  "LastKnownGoodUnconfirmed env fs w now cfg bs records where' =
     (if setIsZero (sc_ID bs) then Inl PruneNoSet
      else case where' of None \<Rightarrow> Inl PruneNoLocator
      | Some loc \<Rightarrow>
        bindE (mapErr PruneUndecided (DecideKeep env now cfg (sc_ID bs) records)) (\<lambda>(_, lkg).
          Inr (pruneLastKnownGoodUnconfirmed fs w bs records lkg loc)))"

section \<open>Carrying it out\<close>

definition refuse :: "pruneReason \<Rightarrow> PruneVerdict \<Rightarrow> PruneVerdict" where
  "refuse reason v = v\<lparr>pv_Action := PruneRefuse, pv_Reason := reason\<rparr>"

text \<open>The delete of one verdict, after the last known good was confirmed again.\<close>

definition applyOne ::
  "'w PruneFS \<Rightarrow> 'w MediumPruner option \<Rightarrow> SetConfig \<Rightarrow> Record list \<Rightarrow> PruneVerdict \<Rightarrow> 'w \<Rightarrow> PruneVerdict \<times> 'w" where
  "applyOne fs medium bs records v w =
     (case recByArtifact records (pv_Artifact v) of
        None \<Rightarrow> (refuse NoRecordAtDelete v, w)
      | Some rec \<Rightarrow>
        if pv_Medium v \<noteq> MediumLocal then
          (case medium of
             None \<Rightarrow> (refuse (NoPruner (pv_Medium v)) v, w)
           | Some deleteFromMedium \<Rightarrow>
             (case deleteFromMedium w rec (pv_Medium v) of
                (Some err, w') \<Rightarrow> (refuse (MediumKept (pv_Medium v) err) v, w')
              | (None, w') \<Rightarrow> (v, w')))
        else case pruneVerifySafeToDelete fs w bs rec of
            Inl err \<Rightarrow> (refuse (RefusedAgain err) v, w)
          | Inr safePath \<Rightarrow>
            (case fs_Remove fs w safePath of
               (Some err, w') \<Rightarrow> (refuse (RemoveFailed err) v, w')
             | (None, w') \<Rightarrow> (v, w')))"

function applyLoop ::
  "'w PruneFS \<Rightarrow> 'w MediumPruner option \<Rightarrow> SetConfig \<Rightarrow> Record list \<Rightarrow> LastKnownGoodResult \<Rightarrow>
   (ArtifactID \<Rightarrow> Location) \<Rightarrow> PruneVerdict list \<Rightarrow> 'w \<Rightarrow> PruneVerdict list \<times> 'w" where
  "applyLoop fs medium bs records lkg loc [] w = ([], w)"
| "applyLoop fs medium bs records lkg loc (v # vs) w =
     (if pv_Action v \<noteq> PruneDelete then
        (let (vs', w') = applyLoop fs medium bs records lkg loc vs w in (v # vs', w'))
      else
        let w1 = fs_Elapse fs w;
            why = pruneLastKnownGoodUnconfirmed fs w1 bs records lkg loc in
        if why \<noteq> None then
          (let held = pruneHoldEveryDelete (v # vs) why;
               (vs', w') = applyLoop fs medium bs records lkg loc (tl held) w1
           in (hd held # vs', w'))
        else
          let (v', w2) = applyOne fs medium bs records v w1;
              (vs', w') = applyLoop fs medium bs records lkg loc vs w2
          in (v' # vs', w'))"
  by pat_completeness auto
termination
  by (relation "measure (\<lambda>(_, _, _, _, _, _, vs, _). length vs)")
    (auto simp: pruneHoldEveryDelete_def split: option.splits)

definition PruneApply ::
  "Env \<Rightarrow> 'w PruneFS \<Rightarrow> 'w MediumPruner option \<Rightarrow> instant \<Rightarrow> Retention \<Rightarrow> SetConfig \<Rightarrow> Record list \<Rightarrow>
   (ArtifactID \<Rightarrow> Location) option \<Rightarrow> 'w \<Rightarrow> (pruneError + PruneVerdict list) \<times> 'w" where
  "PruneApply env fs medium now cfg bs records where' w =
     (case PruneDecide env fs w now cfg bs records where' of
        Inl err \<Rightarrow> (Inl err, w)
      | Inr verdicts \<Rightarrow>
        (case (where', DecideKeep env now cfg (sc_ID bs) records) of
           (None, _) \<Rightarrow> (Inl PruneNoLocator, w)
         | (_, Inl err) \<Rightarrow> (Inl (PruneUndecided err), w)
         | (Some loc, Inr (_, lkg)) \<Rightarrow>
           (let (out, w') = applyLoop fs medium bs records lkg loc verdicts w in (Inr out, w'))))"

end
