(* ===== verification/PruneProps.thy ===== *)
theory PruneProps
  imports Prune
begin

text \<open>
  What the pruning removes.  A run is observed through a world that also logs every removing call,
  with the state of the disk at the moment of the call and the call's outcome; the code cannot read
  the log.
\<close>

section \<open>The logged calls\<close>

datatype 'w deletion =
    FileRemoved 'w string "string option"
  | ObjectRemoved 'w Record string "string option"

type_synonym 'w logged = "'w \<times> 'w deletion list"

definition loggedFS :: "'w PruneFS \<Rightarrow> 'w logged PruneFS" where
  "loggedFS fs =
     \<lparr>fs_Lstat = (\<lambda>w. fs_Lstat fs (fst w)), fs_EvalSymlinks = (\<lambda>w. fs_EvalSymlinks fs (fst w)),
      fs_Remove = (\<lambda>w p. case fs_Remove fs (fst w) p of (e, w') \<Rightarrow> (e, (w', snd w @ [FileRemoved (fst w) p e]))),
      fs_Elapse = (\<lambda>w. (fs_Elapse fs (fst w), snd w))\<rparr>"

definition loggedPruner :: "'w MediumPruner \<Rightarrow> 'w logged MediumPruner" where
  "loggedPruner d = (\<lambda>w rec m. case d (fst w) rec m of (e, w') \<Rightarrow> (e, (w', snd w @ [ObjectRemoved (fst w) rec m e])))"

lemma logged_simps [simp]:
  "fs_Lstat (loggedFS fs) w p = fs_Lstat fs (fst w) p"
  "fs_EvalSymlinks (loggedFS fs) w p = fs_EvalSymlinks fs (fst w) p"
  "fs_Elapse (loggedFS fs) w = (fs_Elapse fs (fst w), snd w)"
  "fs_Remove (loggedFS fs) w p = (case fs_Remove fs (fst w) p of (e, w') \<Rightarrow> (e, (w', snd w @ [FileRemoved (fst w) p e])))"
  by (simp_all add: loggedFS_def)

lemma logged_verify [simp]:
  "pruneVerifySafeToDelete (loggedFS fs) w bs rec = pruneVerifySafeToDelete fs (fst w) bs rec"
  unfolding pruneVerifySafeToDelete_def logged_simps by (rule refl)

lemma logged_unconfirmed [simp]:
  "pruneLastKnownGoodUnconfirmed (loggedFS fs) w bs records lkg loc = pruneLastKnownGoodUnconfirmed fs (fst w) bs records lkg loc"
  unfolding pruneLastKnownGoodUnconfirmed_def logged_simps by (rule refl)

lemma logged_evaluate [simp]:
  "pruneEvaluate (loggedFS fs) w bs rec v lkg loc = pruneEvaluate fs (fst w) bs rec v lkg loc"
  unfolding pruneEvaluate_def logged_verify by (rule refl)

lemma logged_evaluateAll [simp]:
  "evaluateAll (loggedFS fs) w bs records lkg loc vs = evaluateAll fs (fst w) bs records lkg loc vs"
  by (induction vs) (simp_all split: option.split)

lemma logged_PruneDecide [simp]:
  "PruneDecide env (loggedFS fs) w now cfg bs records loc = PruneDecide env fs (fst w) now cfg bs records loc"
  unfolding PruneDecide_def logged_evaluateAll logged_unconfirmed by (rule refl)

fun succeeded :: "'w deletion \<Rightarrow> bool" where
  "succeeded (FileRemoved w p e) = (e = None)"
| "succeeded (ObjectRemoved w rec m e) = (e = None)"

section \<open>What the plan condemns\<close>

lemma recByArtifact_Some: "recByArtifact records a = Some rec \<Longrightarrow> rec \<in> set records \<and> r_Artifact rec = a"
  by (auto simp: recByArtifact_def dest!: map_of_SomeD)

text \<open>The conditions under which the code names a path to remove.\<close>

lemma verify_Inr:
  assumes "pruneVerifySafeToDelete fs w bs rec = Inr p"
  shows "isAbs (sc_LocalPath bs)" "gfsIsManagedComplete (r_State rec)"
    "r_LocalPath rec = pathJoin (sc_LocalPath bs) (ar_Name (r_Artifact rec))"
    "\<not> suffix prunePartialSuffix (r_LocalPath rec)"
    "fs_Lstat fs w (r_LocalPath rec) = Inr ModeRegular"
    "\<exists>root. fs_EvalSymlinks fs w (sc_LocalPath bs) = Inr root \<and>
       fs_EvalSymlinks fs w (pathDir (r_LocalPath rec)) = Inr root \<and> p = pathJoin root (ar_Name (r_Artifact rec))"
  using assms
  by (auto simp: pruneVerifySafeToDelete_def pruneFinalPath_def store_locator mapErr_def bindE_Inr_iff
      split: if_splits sum.splits FileMode.splits; cases "fs_Lstat fs w (r_LocalPath rec)"; auto)+

lemma evaluate_delete:
  assumes "pv_Action (pruneEvaluate fs w bs rec v lkg loc) = PruneDelete"
  shows "\<not> v_Keep v" "\<not> (lk_Protected lkg \<and> lk_Artifact lkg = r_Artifact rec)"
    "gfsIsManagedComplete (r_State rec)"
    "OnMedium (loc (r_Artifact rec)) \<and> pv_Medium (pruneEvaluate fs w bs rec v lkg loc) = lo_Medium (loc (r_Artifact rec)) \<or>
     \<not> OnMedium (loc (r_Artifact rec)) \<and> lo_Status (loc (r_Artifact rec)) \<noteq> LocationContested \<and>
       pv_Medium (pruneEvaluate fs w bs rec v lkg loc) = MediumLocal \<and>
       pruneVerifySafeToDelete fs w bs rec = Inr (pv_Path (pruneEvaluate fs w bs rec v lkg loc))"
  using assms verify_Inr(2)[of fs w bs rec]
  by (auto simp: pruneEvaluate_def pruneEvaluateOnMedium_def pruneVerdict_def localBranchMedium_def Let_def
      split: if_splits sum.splits)

lemma evaluate_artifact [simp]: "pv_Artifact (pruneEvaluate fs w bs rec v lkg loc) = r_Artifact rec"
  by (simp add: pruneEvaluate_def pruneEvaluateOnMedium_def pruneVerdict_def Let_def split: sum.split)

lemma evaluateAll_Inr:
  "evaluateAll fs w bs records lkg loc vs = Inr out \<longleftrightarrow>
     list_all2 (\<lambda>v o'. \<exists>rec. recByArtifact records (v_Artifact v) = Some rec \<and> o' = pruneEvaluate fs w bs rec v lkg loc) vs out"
proof (induction vs arbitrary: out)
  case (Cons v vs)
  then show ?case by (cases out) (auto simp: bindE_Inr_iff split: option.splits)
qed (case_tac out, auto)

lemma hold_action:
  "v \<in> set (pruneHoldEveryDelete vs why) \<Longrightarrow> pv_Action v = PruneDelete \<Longrightarrow> v \<in> set vs \<and> why = None"
  by (auto simp: pruneHoldEveryDelete_def split: option.splits if_splits)

lemma hold_nothing: "\<forall>v \<in> set vs. pv_Action v \<noteq> PruneDelete \<Longrightarrow> pruneHoldEveryDelete vs why = vs"
  by (auto simp: pruneHoldEveryDelete_def map_idI split: option.split)

lemma hold_some: "\<forall>v \<in> set (pruneHoldEveryDelete vs (Some why)). pv_Action v \<noteq> PruneDelete"
  by (auto simp: pruneHoldEveryDelete_def)

lemma list_all2_back: "list_all2 P xs ys \<Longrightarrow> y \<in> set ys \<Longrightarrow> \<exists>x \<in> set xs. P x y"
  by (induction rule: list_all2_induct) auto

text \<open>A verdict condemned by the plan.\<close>

definition condemned ::
  "SetConfig \<Rightarrow> Record list \<Rightarrow> GFSVerdict list \<Rightarrow> LastKnownGoodResult \<Rightarrow> (ArtifactID \<Rightarrow> Location) \<Rightarrow> PruneVerdict \<Rightarrow> bool" where
  "condemned bs records keeps lkg loc v =
     (\<exists>rec kv. recByArtifact records (pv_Artifact v) = Some rec \<and> kv \<in> set keeps \<and> v_Artifact kv = r_Artifact rec \<and>
        \<not> v_Keep kv \<and> \<not> (lk_Protected lkg \<and> lk_Artifact lkg = r_Artifact rec) \<and> gfsIsManagedComplete (r_State rec) \<and>
        (if OnMedium (loc (r_Artifact rec)) then pv_Medium v = lo_Medium (loc (r_Artifact rec))
         else lo_Status (loc (r_Artifact rec)) \<noteq> LocationContested \<and> pv_Medium v = MediumLocal))"

lemma PruneDecide_Inr:
  assumes "PruneDecide env fs w now cfg bs records where' = Inr vs"
  obtains loc keeps lkg out where "where' = Some loc" "DecideKeep env now cfg (sc_ID bs) records = Inr (keeps, lkg)"
    "evaluateAll fs w bs records lkg loc keeps = Inr out"
    "vs = sortPruneVerdicts (pruneHoldEveryDelete out (pruneLastKnownGoodUnconfirmed fs w bs records lkg loc))"
  using assms by (auto simp: PruneDecide_def bindE_Inr_iff mapErr_def split: if_splits option.splits sum.splits)

lemma plan_condemns:
  assumes "evaluateAll fs w bs records lkg loc keeps = Inr out"
    "v \<in> set (sortPruneVerdicts (pruneHoldEveryDelete out why))" "pv_Action v = PruneDelete"
  shows "condemned bs records keeps lkg loc v"
proof -
  have "v \<in> set out" using assms(2,3) hold_action by (auto simp: sortPruneVerdicts_def)
  from list_all2_back[OF assms(1)[unfolded evaluateAll_Inr] this] obtain kv rec where kv: "kv \<in> set keeps" "recByArtifact records (v_Artifact kv) = Some rec"
    "v = pruneEvaluate fs w bs rec kv lkg loc"
    by blast
  have a: "r_Artifact rec = v_Artifact kv" using recByArtifact_Some[OF kv(2)] by blast
  note d = evaluate_delete[OF assms(3)[unfolded kv(3)], folded kv(3)]
  have "if OnMedium (loc (r_Artifact rec)) then pv_Medium v = lo_Medium (loc (r_Artifact rec))
         else lo_Status (loc (r_Artifact rec)) \<noteq> LocationContested \<and> pv_Medium v = MediumLocal"
    using d(4) by auto
  moreover have "recByArtifact records (pv_Artifact v) = Some rec" using kv(2) a unfolding kv(3) by simp
  ultimately show ?thesis unfolding condemned_def
    by (intro exI[of _ rec] exI[of _ kv] conjI kv(1) a[symmetric] d(1-3))
qed

section \<open>The loop\<close>

text \<open>How the carried-out verdict of an artifact may differ from the planned one.\<close>

definition carriedOut :: "PruneVerdict \<Rightarrow> PruneVerdict \<Rightarrow> bool" where
  "carriedOut v o' =
     (o' = v \<or> pv_Action v = PruneDelete \<and> pv_Action o' = PruneRefuse \<and> pv_Artifact o' = pv_Artifact v \<and>
        pv_Path o' = pv_Path v \<and> pv_Medium o' = pv_Medium v \<and> pv_Tiers o' = pv_Tiers v)"

text \<open>What a removing call was made on: the last known good confirmed at that moment, and for a file
  every check passed at that moment.\<close>

fun justified ::
  "'w PruneFS \<Rightarrow> SetConfig \<Rightarrow> Record list \<Rightarrow> LastKnownGoodResult \<Rightarrow> (ArtifactID \<Rightarrow> Location) \<Rightarrow> PruneVerdict \<Rightarrow>
   'w deletion \<Rightarrow> bool" where
  "justified fs bs records lkg loc v (FileRemoved w p e) =
     (pruneLastKnownGoodUnconfirmed fs w bs records lkg loc = None \<and> pv_Medium v = MediumLocal \<and>
      (\<exists>rec. recByArtifact records (pv_Artifact v) = Some rec \<and> pruneVerifySafeToDelete fs w bs rec = Inr p))"
| "justified fs bs records lkg loc v (ObjectRemoved w rec m e) =
     (pruneLastKnownGoodUnconfirmed fs w bs records lkg loc = None \<and> pv_Medium v = m \<and> m \<noteq> MediumLocal \<and>
      recByArtifact records (pv_Artifact v) = Some rec)"

lemma applyOne_logged:
  assumes "applyOne (loggedFS fs) (map_option loggedPruner d) bs records v w = (o', w')" "pv_Action v = PruneDelete"
    "pruneLastKnownGoodUnconfirmed fs (fst w) bs records lkg loc = None"
  shows "carriedOut v o'" "\<exists>new. snd w' = snd w @ new \<and> (\<forall>c \<in> set new. justified fs bs records lkg loc v c) \<and>
     length (filter succeeded new) = (if pv_Action o' = PruneDelete then 1 else 0)"
proof -
  have "carriedOut v o' \<and> (\<exists>new. snd w' = snd w @ new \<and> (\<forall>c \<in> set new. justified fs bs records lkg loc v c) \<and>
     length (filter succeeded new) = (if pv_Action o' = PruneDelete then 1 else 0))"
  proof (cases "recByArtifact records (pv_Artifact v)")
    case None
    then have "o' = refuse NoRecordAtDelete v" "w' = w" using assms(1) by (simp_all add: applyOne_def)
    then show ?thesis using assms(2) by (simp add: carriedOut_def refuse_def)
  next
    case (Some rec)
    note rec = this
    show ?thesis
    proof (cases "pv_Medium v = MediumLocal")
      case False
      show ?thesis
      proof (cases d)
        case None
        then have "o' = refuse (NoPruner (pv_Medium v)) v" "w' = w" using assms(1) rec False by (simp_all add: applyOne_def)
        then show ?thesis using assms(2) by (simp add: carriedOut_def refuse_def)
      next
        case (Some del)
        obtain e w1 where e: "del (fst w) rec (pv_Medium v) = (e, w1)" by fastforce
        have w': "snd w' = snd w @ [ObjectRemoved (fst w) rec (pv_Medium v) e]"
          and o': "o' = (case e of None \<Rightarrow> v | Some err \<Rightarrow> refuse (MediumKept (pv_Medium v) err) v)"
          using assms(1) rec False Some e by (auto simp: applyOne_def loggedPruner_def split: option.splits)
        have "carriedOut v o'" "succeeded (ObjectRemoved (fst w) rec (pv_Medium v) e) \<longleftrightarrow> pv_Action o' = PruneDelete"
          using assms(2) o' by (cases e; simp add: carriedOut_def refuse_def)+
        moreover have "justified fs bs records lkg loc v (ObjectRemoved (fst w) rec (pv_Medium v) e)"
          using assms(3) False rec by simp
        ultimately show ?thesis using w' by (cases "pv_Action o' = PruneDelete") auto
      qed
    next
      case True
      show ?thesis
      proof (cases "pruneVerifySafeToDelete fs (fst w) bs rec")
        case (Inl err)
        then have "o' = refuse (RefusedAgain err) v" "w' = w" using assms(1) rec True by (simp_all add: applyOne_def)
        then show ?thesis using assms(2) by (simp add: carriedOut_def refuse_def)
      next
        case (Inr p)
        obtain e w1 where e: "fs_Remove fs (fst w) p = (e, w1)" by fastforce
        have w': "snd w' = snd w @ [FileRemoved (fst w) p e]"
          and o': "o' = (case e of None \<Rightarrow> v | Some err \<Rightarrow> refuse (RemoveFailed err) v)"
          using assms(1) rec True Inr e by (auto simp: applyOne_def split: option.splits)
        have "carriedOut v o'" "succeeded (FileRemoved (fst w) p e) \<longleftrightarrow> pv_Action o' = PruneDelete"
          using assms(2) o' by (cases e; simp add: carriedOut_def refuse_def)+
        moreover have "justified fs bs records lkg loc v (FileRemoved (fst w) p e)"
          using assms(3) True rec Inr by auto
        ultimately show ?thesis using w' by (cases "pv_Action o' = PruneDelete") auto
      qed
    qed
  qed
  then show "carriedOut v o'" "\<exists>new. snd w' = snd w @ new \<and> (\<forall>c \<in> set new. justified fs bs records lkg loc v c) \<and>
     length (filter succeeded new) = (if pv_Action o' = PruneDelete then 1 else 0)" by blast+
qed

lemma applyLoop_nothing:
  "\<forall>v \<in> set vs. pv_Action v \<noteq> PruneDelete \<Longrightarrow> applyLoop fs d bs records lkg loc vs w = (vs, w)"
  by (induction vs) auto

lemma hold_carried: "list_all2 carriedOut vs (pruneHoldEveryDelete vs why)"
  by (cases why; induction vs) (auto simp: pruneHoldEveryDelete_def carriedOut_def)

lemma applyLoop_logged:
  assumes "applyLoop (loggedFS fs) (map_option loggedPruner d) bs records lkg loc vs w = (out, w')"
  shows "list_all2 carriedOut vs out \<and> (\<exists>new. snd w' = snd w @ new \<and>
     (\<forall>c \<in> set new. \<exists>v \<in> set vs. pv_Action v = PruneDelete \<and> justified fs bs records lkg loc v c) \<and>
     length (filter succeeded new) = length (filter (\<lambda>v. pv_Action v = PruneDelete) out))"
  using assms
proof (induction vs arbitrary: w out w')
  case (Cons v vs)
  let ?w1 = "(fs_Elapse fs (fst w), snd w)"
  show ?case
  proof (cases "pv_Action v = PruneDelete")
    case False
    obtain vs' w1 where l: "applyLoop (loggedFS fs) (map_option loggedPruner d) bs records lkg loc vs w = (vs', w1)" by (meson surj_pair)
    then have "out = v # vs'" "w' = w1" using Cons.prems False by auto
    with Cons.IH[OF l] False show ?thesis by (auto simp: carriedOut_def)
  next
    case True
    show ?thesis
    proof (cases "pruneLastKnownGoodUnconfirmed fs (fs_Elapse fs (fst w)) bs records lkg loc")
      case (Some why)
      let ?held = "pruneHoldEveryDelete (v # vs) (Some why)"
      obtain h hs where h: "?held = h # hs" by (simp add: pruneHoldEveryDelete_def)
      have n: "\<forall>v \<in> set (h # hs). pv_Action v \<noteq> PruneDelete" unfolding h[symmetric] by (rule hold_some)
      then have "applyLoop (loggedFS fs) (map_option loggedPruner d) bs records lkg loc hs ?w1 = (hs, ?w1)"
        by (intro applyLoop_nothing) simp
      then have "out = h # hs" "w' = ?w1" using Cons.prems True Some h by (simp_all add: Let_def)
      moreover have "list_all2 carriedOut (v # vs) (h # hs)" unfolding h[symmetric] by (rule hold_carried)
      moreover have "filter (\<lambda>v. pv_Action v = PruneDelete) (h # hs) = []" using n by (simp only: filter_empty_conv)
      ultimately show ?thesis by simp
    next
      case None
      obtain v' w2 where o: "applyOne (loggedFS fs) (map_option loggedPruner d) bs records v ?w1 = (v', w2)" by (meson surj_pair)
      obtain vs' w3 where l: "applyLoop (loggedFS fs) (map_option loggedPruner d) bs records lkg loc vs w2 = (vs', w3)" by (meson surj_pair)
      have out: "out = v' # vs'" "w' = w3" using Cons.prems True None o l by (auto simp: Let_def)
      obtain new1 where n1: "snd w2 = snd w @ new1" "\<forall>c \<in> set new1. justified fs bs records lkg loc v c"
        "length (filter succeeded new1) = (if pv_Action v' = PruneDelete then 1 else 0)"
        using applyOne_logged(2)[OF o True, of lkg loc] None by auto
      from Cons.IH[OF l] obtain new2 where n2: "list_all2 carriedOut vs vs'" "snd w3 = snd w2 @ new2"
        "\<forall>c \<in> set new2. \<exists>v \<in> set vs. pv_Action v = PruneDelete \<and> justified fs bs records lkg loc v c"
        "length (filter succeeded new2) = length (filter (\<lambda>v. pv_Action v = PruneDelete) vs')" by blast
      have c: "carriedOut v v'" using applyOne_logged(1)[OF o True, of lkg loc] None by simp
      have "snd w' = snd w @ (new1 @ new2)" using out n1(1) n2(2) by simp
      moreover have "\<forall>c \<in> set (new1 @ new2). \<exists>v \<in> set (v # vs). pv_Action v = PruneDelete \<and> justified fs bs records lkg loc v c"
        using n1(2) n2(3) True by auto
      moreover have "length (filter succeeded (new1 @ new2)) = length (filter (\<lambda>v. pv_Action v = PruneDelete) out)"
        using n1(3) n2(4) out(1) by simp
      ultimately show ?thesis using c n2(1) out(1) by blast
    qed
  qed
qed simp

section \<open>Properties\<close>

lemma PruneApply_run:
  assumes "PruneApply env (loggedFS fs) (map_option loggedPruner d) now cfg bs records where' (w, []) = (Inr out, (w', calls))"
  obtains loc keeps lkg vs where "where' = Some loc" "DecideKeep env now cfg (sc_ID bs) records = Inr (keeps, lkg)"
    "PruneDecide env fs w now cfg bs records where' = Inr vs"
    "\<forall>v \<in> set vs. pv_Action v = PruneDelete \<longrightarrow> condemned bs records keeps lkg loc v"
    "list_all2 carriedOut vs out"
    "\<forall>c \<in> set calls. \<exists>v \<in> set vs. pv_Action v = PruneDelete \<and> justified fs bs records lkg loc v c"
    "length (filter succeeded calls) = length (filter (\<lambda>v. pv_Action v = PruneDelete) out)"
proof -
  from assms obtain vs where vs: "PruneDecide env fs w now cfg bs records where' = Inr vs"
    by (auto simp: PruneApply_def split: sum.splits)
  from vs obtain loc keeps lkg planned where
    p: "where' = Some loc" "DecideKeep env now cfg (sc_ID bs) records = Inr (keeps, lkg)"
      "evaluateAll fs w bs records lkg loc keeps = Inr planned"
      "vs = sortPruneVerdicts (pruneHoldEveryDelete planned (pruneLastKnownGoodUnconfirmed fs w bs records lkg loc))"
    by (rule PruneDecide_Inr)
  have l: "applyLoop (loggedFS fs) (map_option loggedPruner d) bs records lkg loc vs (w, []) = (out, (w', calls))"
    using assms vs p(1,2) by (auto simp: PruneApply_def split: prod.splits)
  have c: "\<forall>v \<in> set vs. pv_Action v = PruneDelete \<longrightarrow> condemned bs records keeps lkg loc v"
    using plan_condemns[OF p(3)] unfolding p(4) by blast
  from applyLoop_logged[OF l] have a: "list_all2 carriedOut vs out"
    "\<forall>c \<in> set calls. \<exists>v \<in> set vs. pv_Action v = PruneDelete \<and> justified fs bs records lkg loc v c"
    "length (filter succeeded calls) = length (filter (\<lambda>v. pv_Action v = PruneDelete) out)" by simp_all
  show thesis by (rule that[OF p(1,2) vs c a])
qed

text \<open>On any file system: what holds of a file at the moment it is unlinked.\<close>

lemma unlink_condemned:
  assumes "PruneApply env (loggedFS fs) (map_option loggedPruner d) now cfg bs records where' (w, []) = (Inr out, (w', calls))"
    "FileRemoved disk p e \<in> set calls"
  shows "\<exists>loc keeps lkg rec kv root. where' = Some loc \<and> DecideKeep env now cfg (sc_ID bs) records = Inr (keeps, lkg) \<and>
    rec \<in> set records \<and> kv \<in> set keeps \<and> v_Artifact kv = r_Artifact rec \<and> \<not> v_Keep kv \<and>
    \<not> (lk_Protected lkg \<and> lk_Artifact lkg = r_Artifact rec) \<and> gfsIsManagedComplete (r_State rec) \<and>
    \<not> OnMedium (loc (r_Artifact rec)) \<and> lo_Status (loc (r_Artifact rec)) \<noteq> LocationContested \<and>
    r_LocalPath rec = pathJoin (sc_LocalPath bs) (ar_Name (r_Artifact rec)) \<and> \<not> suffix prunePartialSuffix (r_LocalPath rec) \<and>
    fs_Lstat fs disk (r_LocalPath rec) = Inr ModeRegular \<and>
    fs_EvalSymlinks fs disk (sc_LocalPath bs) = Inr root \<and> fs_EvalSymlinks fs disk (pathDir (r_LocalPath rec)) = Inr root \<and>
    p = pathJoin root (ar_Name (r_Artifact rec)) \<and> isAbs (sc_LocalPath bs) \<and>
    pruneLastKnownGoodUnconfirmed fs disk bs records lkg loc = None"
proof -
  obtain loc keeps lkg vs where
    r: "where' = Some loc" "DecideKeep env now cfg (sc_ID bs) records = Inr (keeps, lkg)"
      "PruneDecide env fs w now cfg bs records where' = Inr vs"
      "\<forall>v \<in> set vs. pv_Action v = PruneDelete \<longrightarrow> condemned bs records keeps lkg loc v"
      "list_all2 carriedOut vs out"
      "\<forall>c \<in> set calls. \<exists>v \<in> set vs. pv_Action v = PruneDelete \<and> justified fs bs records lkg loc v c"
      "length (filter succeeded calls) = length (filter (\<lambda>v. pv_Action v = PruneDelete) out)"
    by (rule PruneApply_run[OF assms(1)])
  from r(6) assms(2) obtain v where v: "v \<in> set vs" "pv_Action v = PruneDelete"
    "justified fs bs records lkg loc v (FileRemoved disk p e)" by blast
  from v(3) obtain rec where rec: "recByArtifact records (pv_Artifact v) = Some rec"
    "pruneVerifySafeToDelete fs disk bs rec = Inr p" and c: "pruneLastKnownGoodUnconfirmed fs disk bs records lkg loc = None"
      "pv_Medium v = MediumLocal" by auto
  from r(4) v(1,2) have "condemned bs records keeps lkg loc v" by blast
  with rec(1) obtain kv where kv: "kv \<in> set keeps" "v_Artifact kv = r_Artifact rec" "\<not> v_Keep kv"
    "\<not> (lk_Protected lkg \<and> lk_Artifact lkg = r_Artifact rec)"
    and m: "if OnMedium (loc (r_Artifact rec)) then pv_Medium v = lo_Medium (loc (r_Artifact rec))
      else lo_Status (loc (r_Artifact rec)) \<noteq> LocationContested \<and> pv_Medium v = MediumLocal"
    unfolding condemned_def by auto
  have l: "\<not> OnMedium (loc (r_Artifact rec))" "lo_Status (loc (r_Artifact rec)) \<noteq> LocationContested"
    using m c(2) by (auto simp: OnMedium_def split: if_splits)
  note s = verify_Inr[OF rec(2)]
  from s(6) obtain root where root: "fs_EvalSymlinks fs disk (sc_LocalPath bs) = Inr root"
    "fs_EvalSymlinks fs disk (pathDir (r_LocalPath rec)) = Inr root" "p = pathJoin root (ar_Name (r_Artifact rec))" by blast
  show ?thesis
    by (intro exI conjI) (fact r(1) r(2) kv m l s(1-5) root c(1) recByArtifact_Some[OF rec(1), THEN conjunct1])+
qed

text \<open>C23: A real run reports what it did: its verdicts are those of the dry run, artifact by artifact,
  except that a planned delete may become a refusal, and it reports exactly as many deletes as there
  were removing calls that succeeded.\<close>

theorem prune_run_agrees_with_plan:
  assumes "PruneApply env (loggedFS fs) (map_option loggedPruner d) now cfg bs records where' (w, []) = (Inr out, (w', calls))"
  shows "\<exists>vs. PruneDecide env fs w now cfg bs records where' = Inr vs \<and> list_all2 carriedOut vs out \<and>
    length (filter succeeded calls) = length (filter (\<lambda>v. pv_Action v = PruneDelete) out)"
  by (rule PruneApply_run[OF assms]) blast

end
