(* ===== verification/PruneDisk.thy ===== *)
theory PruneDisk
  imports PruneProps
begin

text \<open>
  The pruning on a disk with symbolic links: one others change meanwhile, where the run unlinks nothing but
  recorded files, and one nobody else changes.  The locale \<open>quiet_disk\<close> states what the latter promises
  when an unlink succeeds: other names and the resolution of directories are untouched.  It is
  interpreted by \<open>Disk\<close>, a disk with symbolic links between directories.
\<close>

section \<open>The contract\<close>

locale quiet_disk =
  fixes fs :: "'w PruneFS" and ok :: "'w \<Rightarrow> bool"
  assumes elapse: "fs_Elapse fs w = w"
    and eval_abs: "ok w \<Longrightarrow> fs_EvalSymlinks fs w d = Inr r \<Longrightarrow> isAbs r"
    and unlink: "ok w \<Longrightarrow> isAbs d \<Longrightarrow> basename n \<Longrightarrow> fs_EvalSymlinks fs w d = Inr r \<Longrightarrow>
      fs_Lstat fs w (pathJoin d n) = Inr ModeRegular \<Longrightarrow>
      \<exists>w'. fs_Remove fs w (pathJoin r n) = (None, w') \<and> ok w' \<and> (\<exists>e. fs_Lstat fs w' (pathJoin d n) = Inl e) \<and>
        (\<forall>x. fs_EvalSymlinks fs w x \<noteq> Inr (pathJoin r n) \<longrightarrow> fs_EvalSymlinks fs w' x = fs_EvalSymlinks fs w x) \<and>
        (\<forall>x m. basename m \<and> m \<noteq> n \<and> isAbs x \<longrightarrow> fs_Lstat fs w' (pathJoin x m) = fs_Lstat fs w (pathJoin x m))"

lemma verify_cong:
  assumes "fs_Lstat fs w' (pathJoin (sc_LocalPath bs) (ar_Name (r_Artifact rec))) = fs_Lstat fs w (pathJoin (sc_LocalPath bs) (ar_Name (r_Artifact rec)))"
    "fs_EvalSymlinks fs w' (sc_LocalPath bs) = fs_EvalSymlinks fs w (sc_LocalPath bs)"
    "fs_EvalSymlinks fs w' (pathDir (pathJoin (sc_LocalPath bs) (ar_Name (r_Artifact rec))))
     = fs_EvalSymlinks fs w (pathDir (pathJoin (sc_LocalPath bs) (ar_Name (r_Artifact rec))))"
  shows "pruneVerifySafeToDelete fs w' bs rec = pruneVerifySafeToDelete fs w bs rec"
  using assms
  by (simp add: pruneVerifySafeToDelete_def pruneFinalPath_def store_locator mapErr_def split: sum.split)

lemma unconfirmed_cong:
  assumes "fs_Lstat fs w' (pathJoin (sc_LocalPath bs) (ar_Name (lk_Artifact lkg))) = fs_Lstat fs w (pathJoin (sc_LocalPath bs) (ar_Name (lk_Artifact lkg)))"
  shows "pruneLastKnownGoodUnconfirmed fs w' bs records lkg loc = pruneLastKnownGoodUnconfirmed fs w bs records lkg loc"
proof (cases "recByArtifact records (lk_Artifact lkg)")
  case None
  then show ?thesis by (simp add: pruneLastKnownGoodUnconfirmed_def)
next
  case (Some rec)
  then have "r_Artifact rec = lk_Artifact lkg" using recByArtifact_Some by blast
  with Some assms show ?thesis
    by (simp add: pruneLastKnownGoodUnconfirmed_def pruneFinalPath_def store_locator mapErr_def Let_def)
qed

lemma hold_fields:
  "map pv_Artifact (pruneHoldEveryDelete vs why) = map pv_Artifact vs"
  by (auto simp: pruneHoldEveryDelete_def split: option.split)

lemma evaluateAll_artifacts:
  "evaluateAll fs w bs records lkg loc keeps = Inr out \<Longrightarrow> map pv_Artifact out = map v_Artifact keeps"
  unfolding evaluateAll_Inr by (induction rule: list_all2_induct) (auto dest: recByArtifact_Some)

lemma DecideKeep_artifacts:
  assumes "DecideKeep env now cfg st records = Inr (keeps, lkg)" "distinct (map r_Artifact records)"
  shows "distinct (map v_Artifact keeps)" "v_Artifact ` set keeps \<subseteq> r_Artifact ` set records"
    "\<forall>rec \<in> set records. ar_Set (r_Artifact rec) = st" "lk_Protected lkg \<Longrightarrow> lk_Artifact lkg \<in> r_Artifact ` set records"
proof -
  obtain loc tiers where
    g: "chainOf env now cfg loc tiers" "\<forall>rec \<in> set records. ar_Set (r_Artifact rec) = st"
      "LastKnownGoodDecide cfg st records = Inr lkg"
      "keeps = map (\<lambda>v. if lk_Protected lkg \<and> v_Artifact v = lk_Artifact lkg then protectVerdict v else v)
            (GFSReference loc tiers records)"
    by (rule DecideKeep_sound[OF assms])
  have m: "map v_Artifact keeps = map v_Artifact (GFSReference loc tiers records)" unfolding g(4) by simp
  then show "distinct (map v_Artifact keeps)" using GFSReference_distinct[OF assms(2)] by simp
  have "set (map v_Artifact keeps) = r_Artifact ` set (complete records)"
    unfolding m set_map GFSReference_artifacts ..
  then show "v_Artifact ` set keeps \<subseteq> r_Artifact ` set records" by (auto simp: complete_def)
  show "\<forall>rec \<in> set records. ar_Set (r_Artifact rec) = st" by (rule g(2))
  show "lk_Artifact lkg \<in> r_Artifact ` set records" if "lk_Protected lkg"
    using protected_record[OF g(3) that] by (metis imageI)
qed

context quiet_disk
begin

lemma root_not_child: "ok w \<Longrightarrow> fs_EvalSymlinks fs w d = Inr r \<Longrightarrow> basename n \<Longrightarrow> r \<noteq> pathJoin r n"
proof
  assume "ok w" "fs_EvalSymlinks fs w d = Inr r" "basename n" "r = pathJoin r n"
  then have "cleanElems r = cleanElems r @ [n]" using cleanElems_pathJoin[OF eval_abs] by metis
  then show False by simp
qed

text \<open>Removing one verified file changes neither the verification nor the presence of another.\<close>

lemma removal:
  assumes "ok w" "pruneVerifySafeToDelete fs w bs rec = Inr p" "basename (ar_Name (r_Artifact rec))"
  obtains w' where "fs_Remove fs w p = (None, w')" "ok w'"
    "\<exists>e. fs_Lstat fs w' (pathJoin (sc_LocalPath bs) (ar_Name (r_Artifact rec))) = Inl e"
    "\<forall>other. basename (ar_Name (r_Artifact other)) \<and> ar_Name (r_Artifact other) \<noteq> ar_Name (r_Artifact rec) \<longrightarrow>
       pruneVerifySafeToDelete fs w' bs other = pruneVerifySafeToDelete fs w bs other"
    "\<forall>m. basename m \<and> m \<noteq> ar_Name (r_Artifact rec) \<longrightarrow>
       fs_Lstat fs w' (pathJoin (sc_LocalPath bs) m) = fs_Lstat fs w (pathJoin (sc_LocalPath bs) m)"
proof -
  let ?n = "ar_Name (r_Artifact rec)"
  note v = verify_Inr[OF assms(2)]
  from v(6) obtain root where root: "fs_EvalSymlinks fs w (sc_LocalPath bs) = Inr root"
    "fs_EvalSymlinks fs w (pathDir (r_LocalPath rec)) = Inr root" "p = pathJoin root ?n" by blast
  from unlink[OF assms(1) v(1) assms(3) root(1)] v(5) v(3) obtain w' where
    w': "fs_Remove fs w p = (None, w')" "ok w'"
      and gone: "\<exists>e. fs_Lstat fs w' (pathJoin (sc_LocalPath bs) ?n) = Inl e"
      and w'': "\<And>x. fs_EvalSymlinks fs w x \<noteq> Inr p \<Longrightarrow> fs_EvalSymlinks fs w' x = fs_EvalSymlinks fs w x"
      "\<And>x m. basename m \<Longrightarrow> m \<noteq> ?n \<Longrightarrow> isAbs x \<Longrightarrow> fs_Lstat fs w' (pathJoin x m) = fs_Lstat fs w (pathJoin x m)"
    unfolding root(3) by auto
  have np: "root \<noteq> p" unfolding root(3) by (rule root_not_child[OF assms(1) root(1) assms(3)])
  have d: "pathDir (pathJoin (sc_LocalPath bs) m) = pathClean (sc_LocalPath bs)" if "basename m" for m
    by (rule pathDir_pathJoin[OF v(1) that])
  have e: "fs_EvalSymlinks fs w' (sc_LocalPath bs) = fs_EvalSymlinks fs w (sc_LocalPath bs)"
    "fs_EvalSymlinks fs w' (pathClean (sc_LocalPath bs)) = fs_EvalSymlinks fs w (pathClean (sc_LocalPath bs))"
    using np root(1,2) w''(1) unfolding v(3) d[OF assms(3)] by simp_all
  show thesis
  proof (rule that[OF w'(1,2) gone], intro allI impI)
    fix other :: Record
    assume "basename (ar_Name (r_Artifact other)) \<and> ar_Name (r_Artifact other) \<noteq> ?n"
    then have o: "basename (ar_Name (r_Artifact other))" "ar_Name (r_Artifact other) \<noteq> ?n" by simp_all
    show "pruneVerifySafeToDelete fs w' bs other = pruneVerifySafeToDelete fs w bs other"
      by (rule verify_cong) (simp_all add: d[OF o(1)] e w''(2)[OF o v(1)])
  qed (use w''(2) v(1) in blast)
qed

text \<open>The loop carries a plan out as it stands: every planned file goes and no verdict changes.\<close>

lemma applyLoop_quiet:
  assumes "ok w"
    "\<forall>v \<in> set vs. pv_Action v = PruneDelete \<longrightarrow> pv_Medium v = MediumLocal \<and>
       (\<exists>rec p. recByArtifact records (pv_Artifact v) = Some rec \<and> basename (ar_Name (r_Artifact rec)) \<and>
          pruneVerifySafeToDelete fs w bs rec = Inr p)"
    "distinct (map (\<lambda>v. ar_Name (pv_Artifact v)) vs)"
    "\<exists>v \<in> set vs. pv_Action v = PruneDelete \<Longrightarrow> pruneLastKnownGoodUnconfirmed fs w bs records lkg loc = None"
    "lk_Protected lkg \<Longrightarrow> basename (ar_Name (lk_Artifact lkg)) \<and>
       (\<forall>v \<in> set vs. pv_Action v = PruneDelete \<longrightarrow> ar_Name (pv_Artifact v) \<noteq> ar_Name (lk_Artifact lkg))"
  shows "\<exists>w'. applyLoop fs d bs records lkg loc vs w = (vs, w') \<and> ok w' \<and>
    (\<forall>m. basename m \<and> (\<forall>v \<in> set vs. pv_Action v = PruneDelete \<longrightarrow> ar_Name (pv_Artifact v) \<noteq> m) \<longrightarrow>
       fs_Lstat fs w' (pathJoin (sc_LocalPath bs) m) = fs_Lstat fs w (pathJoin (sc_LocalPath bs) m)) \<and>
    (\<forall>v \<in> set vs. pv_Action v = PruneDelete \<longrightarrow> (\<exists>e. fs_Lstat fs w' (pathJoin (sc_LocalPath bs) (ar_Name (pv_Artifact v))) = Inl e))"
  using assms
proof (induction vs arbitrary: w)
  case (Cons v vs)
  show ?case
  proof (cases "pv_Action v = PruneDelete")
    case False
    have "\<exists>w'. applyLoop fs d bs records lkg loc vs w = (vs, w') \<and> ok w' \<and>
      (\<forall>m. basename m \<and> (\<forall>v \<in> set vs. pv_Action v = PruneDelete \<longrightarrow> ar_Name (pv_Artifact v) \<noteq> m) \<longrightarrow>
         fs_Lstat fs w' (pathJoin (sc_LocalPath bs) m) = fs_Lstat fs w (pathJoin (sc_LocalPath bs) m)) \<and>
      (\<forall>v \<in> set vs. pv_Action v = PruneDelete \<longrightarrow> (\<exists>e. fs_Lstat fs w' (pathJoin (sc_LocalPath bs) (ar_Name (pv_Artifact v))) = Inl e))"
      by (rule Cons.IH) (use Cons.prems in auto)
    with False show ?thesis by fastforce
  next
    case True
    from Cons.prems(2) True obtain rec p where rec: "pv_Medium v = MediumLocal"
      "recByArtifact records (pv_Artifact v) = Some rec" "basename (ar_Name (r_Artifact rec))"
      "pruneVerifySafeToDelete fs w bs rec = Inr p" by auto
    have a: "pv_Artifact v = r_Artifact rec" using recByArtifact_Some[OF rec(2)] by simp
    obtain w1 where w1: "fs_Remove fs w p = (None, w1)" "ok w1"
      "\<exists>e. fs_Lstat fs w1 (pathJoin (sc_LocalPath bs) (ar_Name (r_Artifact rec))) = Inl e"
      "\<forall>other. basename (ar_Name (r_Artifact other)) \<and> ar_Name (r_Artifact other) \<noteq> ar_Name (r_Artifact rec) \<longrightarrow>
         pruneVerifySafeToDelete fs w1 bs other = pruneVerifySafeToDelete fs w bs other"
      "\<forall>m. basename m \<and> m \<noteq> ar_Name (r_Artifact rec) \<longrightarrow>
         fs_Lstat fs w1 (pathJoin (sc_LocalPath bs) m) = fs_Lstat fs w (pathJoin (sc_LocalPath bs) m)"
      by (rule removal[OF Cons.prems(1) rec(4,3)])
    have lkg: "pruneLastKnownGoodUnconfirmed fs w bs records lkg loc = None" using Cons.prems(4) True by auto
    have one: "applyOne fs d bs records v w = (v, w1)" using rec w1(1) by (simp add: applyOne_def)
    have names: "ar_Name (pv_Artifact v') \<noteq> ar_Name (r_Artifact rec)" if "v' \<in> set vs" for v'
      using Cons.prems(3) that a by (auto simp: image_iff)
    have lkg1: "pruneLastKnownGoodUnconfirmed fs w1 bs records lkg loc = None"
    proof (cases "lk_Protected lkg")
      case False
      then show ?thesis by (simp add: pruneLastKnownGoodUnconfirmed_def)
    next
      case prot: True
      then have "basename (ar_Name (lk_Artifact lkg))" "ar_Name (lk_Artifact lkg) \<noteq> ar_Name (r_Artifact rec)"
        using Cons.prems(5) True a by auto
      then show ?thesis using unconfirmed_cong[of fs w1 bs lkg w records loc] w1(5) lkg by simp
    qed
    have "\<exists>w'. applyLoop fs d bs records lkg loc vs w1 = (vs, w') \<and> ok w' \<and>
      (\<forall>m. basename m \<and> (\<forall>v \<in> set vs. pv_Action v = PruneDelete \<longrightarrow> ar_Name (pv_Artifact v) \<noteq> m) \<longrightarrow>
         fs_Lstat fs w' (pathJoin (sc_LocalPath bs) m) = fs_Lstat fs w1 (pathJoin (sc_LocalPath bs) m)) \<and>
      (\<forall>v \<in> set vs. pv_Action v = PruneDelete \<longrightarrow> (\<exists>e. fs_Lstat fs w' (pathJoin (sc_LocalPath bs) (ar_Name (pv_Artifact v))) = Inl e))"
    proof (rule Cons.IH[OF w1(2)])
      show "\<forall>v \<in> set vs. pv_Action v = PruneDelete \<longrightarrow> pv_Medium v = MediumLocal \<and>
         (\<exists>rec p. recByArtifact records (pv_Artifact v) = Some rec \<and> basename (ar_Name (r_Artifact rec)) \<and>
            pruneVerifySafeToDelete fs w1 bs rec = Inr p)"
      proof (intro ballI impI)
        fix v' assume v': "v' \<in> set vs" "pv_Action v' = PruneDelete"
        with Cons.prems(2) obtain rec' p' where r': "pv_Medium v' = MediumLocal"
          "recByArtifact records (pv_Artifact v') = Some rec'" "basename (ar_Name (r_Artifact rec'))"
          "pruneVerifySafeToDelete fs w bs rec' = Inr p'" by auto
        have "pv_Artifact v' = r_Artifact rec'" using recByArtifact_Some[OF r'(2)] by simp
        with names[OF v'(1)] w1(4) r' show "pv_Medium v' = MediumLocal \<and>
         (\<exists>rec p. recByArtifact records (pv_Artifact v') = Some rec \<and> basename (ar_Name (r_Artifact rec)) \<and>
            pruneVerifySafeToDelete fs w1 bs rec = Inr p)" by auto
      qed
    qed (use Cons.prems lkg1 in auto)
    then obtain w' where w': "applyLoop fs d bs records lkg loc vs w1 = (vs, w')" "ok w'"
      "\<forall>m. basename m \<and> (\<forall>v \<in> set vs. pv_Action v = PruneDelete \<longrightarrow> ar_Name (pv_Artifact v) \<noteq> m) \<longrightarrow>
         fs_Lstat fs w' (pathJoin (sc_LocalPath bs) m) = fs_Lstat fs w1 (pathJoin (sc_LocalPath bs) m)"
      "\<forall>v \<in> set vs. pv_Action v = PruneDelete \<longrightarrow> (\<exists>e. fs_Lstat fs w' (pathJoin (sc_LocalPath bs) (ar_Name (pv_Artifact v))) = Inl e)" by blast
    have "applyLoop fs d bs records lkg loc (v # vs) w = (v # vs, w')"
      using True lkg one w'(1) by (simp add: elapse)
    moreover have "fs_Lstat fs w' (pathJoin (sc_LocalPath bs) m) = fs_Lstat fs w (pathJoin (sc_LocalPath bs) m)"
      if "basename m" "\<forall>v \<in> set (v # vs). pv_Action v = PruneDelete \<longrightarrow> ar_Name (pv_Artifact v) \<noteq> m" for m
      using w'(3) w1(5) that True a by auto
    moreover have "\<exists>e. fs_Lstat fs w' (pathJoin (sc_LocalPath bs) (ar_Name (pv_Artifact v'))) = Inl e"
      if "v' \<in> set (v # vs)" "pv_Action v' = PruneDelete" for v'
      using that w'(3,4) w1(3) names rec(3) a by auto
    ultimately show ?thesis using w'(2) by blast
  qed
qed auto

text \<open>A plan over local artifacts with bare names is carried out as planned.\<close>

lemma plan_carried_out:
  assumes "ok w" "distinct (map r_Artifact records)" "\<forall>rec \<in> set records. basename (ar_Name (r_Artifact rec))"
    "\<forall>a. \<not> OnMedium (loc a)" "PruneDecide env fs w now cfg bs records (Some loc) = Inr vs"
  shows "\<exists>w'. PruneApply env fs d now cfg bs records (Some loc) w = (Inr vs, w') \<and>
    (\<forall>rec \<in> set records. if (\<exists>v \<in> set vs. pv_Artifact v = r_Artifact rec \<and> pv_Action v = PruneDelete)
       then \<exists>e. fs_Lstat fs w' (pathJoin (sc_LocalPath bs) (ar_Name (r_Artifact rec))) = Inl e
       else fs_Lstat fs w' (pathJoin (sc_LocalPath bs) (ar_Name (r_Artifact rec)))
          = fs_Lstat fs w (pathJoin (sc_LocalPath bs) (ar_Name (r_Artifact rec))))"
proof -
  obtain keeps lkg out where
    p: "DecideKeep env now cfg (sc_ID bs) records = Inr (keeps, lkg)"
      "evaluateAll fs w bs records lkg loc keeps = Inr out"
      "vs = sortPruneVerdicts (pruneHoldEveryDelete out (pruneLastKnownGoodUnconfirmed fs w bs records lkg loc))"
    using assms(5) by (rule PruneDecide_Inr) simp
  note arts = DecideKeep_artifacts[OF p(1) assms(2)]
  have same: "r_Artifact x = r_Artifact y" if "x \<in> set records" "y \<in> set records"
    "ar_Name (r_Artifact x) = ar_Name (r_Artifact y)" for x y
    using that arts(3) by (intro artifact_eqI) auto
  have mvs: "mset (map pv_Artifact vs) = mset (map v_Artifact keeps)"
    unfolding p(3) sortPruneVerdicts_def mset_map mset_sort
    unfolding mset_map[symmetric] hold_fields evaluateAll_artifacts[OF p(2)] by (rule refl)
  then have dvs: "distinct (map pv_Artifact vs)" using arts(1) mset_eq_imp_distinct_iff by blast
  have avs: "pv_Artifact v \<in> r_Artifact ` set records" if "v \<in> set vs" for v
    using mset_eq_setD[OF mvs] arts(2) that by auto
  have inj: "inj_on ar_Name (set (map pv_Artifact vs))"
  proof (rule inj_onI)
    fix a b assume ab: "a \<in> set (map pv_Artifact vs)" "b \<in> set (map pv_Artifact vs)" "ar_Name a = ar_Name b"
    from ab(1) avs obtain x where x: "x \<in> set records" "a = r_Artifact x" by auto
    from ab(2) avs obtain y where y: "y \<in> set records" "b = r_Artifact y" by auto
    show "a = b" using same[OF x(1) y(1)] ab(3) x(2) y(2) by simp
  qed
  have "distinct (map ar_Name (map pv_Artifact vs))" unfolding distinct_map[of ar_Name] using dvs inj by blast
  then have names: "distinct (map (\<lambda>v. ar_Name (pv_Artifact v)) vs)" by (simp add: comp_def)
  have del: "pv_Medium v = MediumLocal \<and> \<not> (lk_Protected lkg \<and> lk_Artifact lkg = pv_Artifact v) \<and>
      (\<exists>rec p. rec \<in> set records \<and> recByArtifact records (pv_Artifact v) = Some rec \<and> pruneVerifySafeToDelete fs w bs rec = Inr p)"
    "pruneLastKnownGoodUnconfirmed fs w bs records lkg loc = None"
    if v: "v \<in> set vs" "pv_Action v = PruneDelete" for v
  proof -
    have h: "v \<in> set out" "pruneLastKnownGoodUnconfirmed fs w bs records lkg loc = None"
      using hold_action[of v out] v unfolding p(3) by (auto simp: sortPruneVerdicts_def)
    show "pruneLastKnownGoodUnconfirmed fs w bs records lkg loc = None" by (rule h(2))
    from list_all2_back[OF p(2)[unfolded evaluateAll_Inr] h(1)] obtain kv rec where
      kv: "recByArtifact records (v_Artifact kv) = Some rec" "v = pruneEvaluate fs w bs rec kv lkg loc" by blast
    note e = evaluate_delete[OF v(2)[unfolded kv(2)], folded kv(2)]
    have a: "pv_Artifact v = r_Artifact rec" unfolding kv(2) by simp
    note r = recByArtifact_Some[OF kv(1)]
    from e(4) assms(4) have "pv_Medium v = MediumLocal" "pruneVerifySafeToDelete fs w bs rec = Inr (pv_Path v)" by blast+
    moreover have "recByArtifact records (pv_Artifact v) = Some rec" unfolding a using kv(1) r by simp
    ultimately show "pv_Medium v = MediumLocal \<and> \<not> (lk_Protected lkg \<and> lk_Artifact lkg = pv_Artifact v) \<and>
      (\<exists>rec p. rec \<in> set records \<and> recByArtifact records (pv_Artifact v) = Some rec \<and> pruneVerifySafeToDelete fs w bs rec = Inr p)"
      using e(2) r unfolding a by blast
  qed
  have "\<exists>w'. applyLoop fs d bs records lkg loc vs w = (vs, w') \<and> ok w' \<and>
    (\<forall>m. basename m \<and> (\<forall>v \<in> set vs. pv_Action v = PruneDelete \<longrightarrow> ar_Name (pv_Artifact v) \<noteq> m) \<longrightarrow>
       fs_Lstat fs w' (pathJoin (sc_LocalPath bs) m) = fs_Lstat fs w (pathJoin (sc_LocalPath bs) m)) \<and>
    (\<forall>v \<in> set vs. pv_Action v = PruneDelete \<longrightarrow> (\<exists>e. fs_Lstat fs w' (pathJoin (sc_LocalPath bs) (ar_Name (pv_Artifact v))) = Inl e))"
  proof (rule applyLoop_quiet[OF assms(1) _ names])
    show "\<forall>v \<in> set vs. pv_Action v = PruneDelete \<longrightarrow> pv_Medium v = MediumLocal \<and>
       (\<exists>rec p. recByArtifact records (pv_Artifact v) = Some rec \<and> basename (ar_Name (r_Artifact rec)) \<and>
          pruneVerifySafeToDelete fs w bs rec = Inr p)"
      using del(1) assms(3) by blast
    show "pruneLastKnownGoodUnconfirmed fs w bs records lkg loc = None" if "\<exists>v \<in> set vs. pv_Action v = PruneDelete"
      using that del(2) by blast
    assume prot: "lk_Protected lkg"
    from arts(4)[OF prot] obtain l where l: "l \<in> set records" "lk_Artifact lkg = r_Artifact l" by blast
    have "ar_Name (pv_Artifact v) \<noteq> ar_Name (lk_Artifact lkg)" if v: "v \<in> set vs" "pv_Action v = PruneDelete" for v
    proof
      assume n: "ar_Name (pv_Artifact v) = ar_Name (lk_Artifact lkg)"
      from avs[OF v(1)] obtain r where "r \<in> set records" "pv_Artifact v = r_Artifact r" by blast
      with same[OF _ l(1)] n l(2) have "pv_Artifact v = lk_Artifact lkg" by simp
      with del(1)[OF v] prot show False by simp
    qed
    with l assms(3) show "basename (ar_Name (lk_Artifact lkg)) \<and>
       (\<forall>v \<in> set vs. pv_Action v = PruneDelete \<longrightarrow> ar_Name (pv_Artifact v) \<noteq> ar_Name (lk_Artifact lkg))" by auto
  qed
  then obtain w' where w': "applyLoop fs d bs records lkg loc vs w = (vs, w')"
    "\<forall>m. basename m \<and> (\<forall>v \<in> set vs. pv_Action v = PruneDelete \<longrightarrow> ar_Name (pv_Artifact v) \<noteq> m) \<longrightarrow>
       fs_Lstat fs w' (pathJoin (sc_LocalPath bs) m) = fs_Lstat fs w (pathJoin (sc_LocalPath bs) m)"
    "\<forall>v \<in> set vs. pv_Action v = PruneDelete \<longrightarrow> (\<exists>e. fs_Lstat fs w' (pathJoin (sc_LocalPath bs) (ar_Name (pv_Artifact v))) = Inl e)"
    by blast
  have "PruneApply env fs d now cfg bs records (Some loc) w = (Inr vs, w')"
    using assms(5) p(1) w'(1) by (simp add: PruneApply_def)
  moreover have "if (\<exists>v \<in> set vs. pv_Artifact v = r_Artifact rec \<and> pv_Action v = PruneDelete)
       then \<exists>e. fs_Lstat fs w' (pathJoin (sc_LocalPath bs) (ar_Name (r_Artifact rec))) = Inl e
       else fs_Lstat fs w' (pathJoin (sc_LocalPath bs) (ar_Name (r_Artifact rec)))
          = fs_Lstat fs w (pathJoin (sc_LocalPath bs) (ar_Name (r_Artifact rec)))" if rec: "rec \<in> set records" for rec
  proof (cases "\<exists>v \<in> set vs. pv_Artifact v = r_Artifact rec \<and> pv_Action v = PruneDelete")
    case True
    with w'(3) show ?thesis by auto
  next
    case False
    have "ar_Name (pv_Artifact v) \<noteq> ar_Name (r_Artifact rec)" if v: "v \<in> set vs" "pv_Action v = PruneDelete" for v
    proof
      assume n: "ar_Name (pv_Artifact v) = ar_Name (r_Artifact rec)"
      from avs[OF v(1)] obtain x where "x \<in> set records" "pv_Artifact v = r_Artifact x" by blast
      with same[OF _ rec] n have "pv_Artifact v = r_Artifact rec" by simp
      with False v show False by blast
    qed
    with w'(2) assms(3) rec False show ?thesis by auto
  qed
  ultimately show ?thesis by blast
qed

end

section \<open>A disk\<close>

text \<open>The directories of the disk by their clean names, each with its canonical directory, and the
  entries of the canonical directories.  Unlinking looks the directory up first, as the kernel
  does.\<close>

record Disk =
  dk_dirs :: "(string \<times> string) list"
  dk_entries :: "(string \<times> FileMode) list"

definition pathBase :: "string \<Rightarrow> string" where
  "pathBase p = rev (takeWhile (\<lambda>c. c \<noteq> CHR ''/'') (rev p))"

definition noEntry :: string where "noEntry = ''no such file or directory''"

definition diskEval :: "Disk \<Rightarrow> string \<Rightarrow> string + string" where
  "diskEval d p = (case map_of (dk_dirs d) (pathClean p) of None \<Rightarrow> Inl noEntry | Some r \<Rightarrow> Inr r)"

definition entryAt :: "Disk \<Rightarrow> string \<Rightarrow> string + string" where
  "entryAt d p = bindE (diskEval d (pathDir p)) (\<lambda>r. Inr (pathJoin r (pathBase p)))"

definition diskLstat :: "Disk \<Rightarrow> string \<Rightarrow> string + FileMode" where
  "diskLstat d p = bindE (entryAt d p) (\<lambda>e.
     case map_of (dk_entries d) e of None \<Rightarrow> Inl noEntry | Some m \<Rightarrow> Inr m)"

definition diskRemove :: "Disk \<Rightarrow> string \<Rightarrow> string option \<times> Disk" where
  "diskRemove d p =
     (case entryAt d p of
        Inl err \<Rightarrow> (Some err, d)
      | Inr e \<Rightarrow>
        if map_of (dk_entries d) e = None then (Some noEntry, d)
        else (None, d\<lparr>dk_entries := filter (\<lambda>x. fst x \<noteq> e) (dk_entries d)\<rparr>))"

definition diskFS :: "Disk PruneFS" where
  "diskFS = \<lparr>fs_Lstat = diskLstat, fs_EvalSymlinks = diskEval, fs_Remove = diskRemove, fs_Elapse = (\<lambda>d. d)\<rparr>"

text \<open>Canonical directories are clean, rooted and their own canonical directory.\<close>

definition diskOK :: "Disk \<Rightarrow> bool" where
  "diskOK d = list_all (\<lambda>(_, r). isAbs r \<and> pathClean r = r \<and> map_of (dk_dirs d) r = Some r) (dk_dirs d)"

lemma pathBase_append: "CHR ''/'' \<notin> set n \<Longrightarrow> pathBase (p @ CHR ''/'' # n) = n"
  unfolding pathBase_def by (simp, subst takeWhile_append2) auto

lemma pathBase_pathJoin:
  assumes "isAbs d" "basename n"
  shows "pathBase (pathJoin d n) = n"
proof -
  have n: "CHR ''/'' \<notin> set n" using assms(2) by (simp add: basename_def)
  have "pathJoin d n = (if cleanElems d = [] then [] else CHR ''/'' # joinStrings ''/'' (cleanElems d)) @ CHR ''/'' # n"
    using assms by (simp add: pathJoin_abs joinStrings_snoc)
  then show ?thesis using pathBase_append[OF n] by simp
qed

lemma entryAt_join:
  "isAbs d \<Longrightarrow> basename n \<Longrightarrow> entryAt w (pathJoin d n) = bindE (diskEval w d) (\<lambda>r. Inr (pathJoin r n))"
  by (simp add: entryAt_def pathDir_pathJoin pathBase_pathJoin diskEval_def pathClean_idem)

lemma diskEval_canonical:
  assumes "diskOK w" "diskEval w d = Inr r"
  shows "isAbs r" "diskEval w r = Inr r" "pathClean r = r"
proof -
  from assms(2) have "(pathClean d, r) \<in> set (dk_dirs w)"
    by (auto simp: diskEval_def split: option.splits dest: map_of_SomeD)
  with assms(1) have "isAbs r \<and> pathClean r = r \<and> map_of (dk_dirs w) r = Some r"
    by (auto simp: diskOK_def list_all_iff)
  then show "isAbs r" "diskEval w r = Inr r" "pathClean r = r" by (simp_all add: diskEval_def)
qed

lemma map_of_filter_fst: "map_of (filter (\<lambda>x. fst x \<noteq> e) es) k = (if k = e then None else map_of es k)"
  by (induction es) auto

lemma diskFS_lstat: "fs_Lstat diskFS = diskLstat"
  by (simp add: diskFS_def)

interpretation disk: quiet_disk diskFS diskOK
proof
  fix w d r n
  show "fs_Elapse diskFS w = w" by (simp add: diskFS_def)
  show "diskOK w \<Longrightarrow> fs_EvalSymlinks diskFS w d = Inr r \<Longrightarrow> isAbs r"
    using diskEval_canonical(1) by (simp add: diskFS_def)
  assume h: "diskOK w" "isAbs d" "basename n" "fs_EvalSymlinks diskFS w d = Inr r"
    "fs_Lstat diskFS w (pathJoin d n) = Inr ModeRegular"
  have r: "diskEval w d = Inr r" using h(4) by (simp add: diskFS_def)
  note c = diskEval_canonical[OF h(1) r]
  have e: "entryAt w (pathJoin d n) = Inr (pathJoin r n)" "entryAt w (pathJoin r n) = Inr (pathJoin r n)"
    using entryAt_join[OF h(2,3)] entryAt_join[OF c(1) h(3)] r c(2) by simp_all
  let ?w' = "w\<lparr>dk_entries := filter (\<lambda>x. fst x \<noteq> pathJoin r n) (dk_entries w)\<rparr>"
  have ev: "diskEval ?w' x = diskEval w x" for x by (simp add: diskEval_def)
  have en: "entryAt ?w' x = entryAt w x" for x by (simp add: entryAt_def ev)
  have "diskRemove w (pathJoin r n) = (None, ?w')"
    using h(5) e by (auto simp: diskRemove_def diskFS_def diskLstat_def split: option.splits)
  moreover have "diskOK ?w'" using h(1) by (simp add: diskOK_def)
  moreover have "diskLstat ?w' (pathJoin d n) = Inl noEntry"
    by (simp add: diskLstat_def en e(1) map_of_filter_fst)
  moreover have "diskLstat ?w' (pathJoin x m) = diskLstat w (pathJoin x m)" if m: "basename m" "m \<noteq> n" "isAbs x" for x m
  proof (cases "diskEval w x")
    case (Inr rx)
    have "pathJoin rx m \<noteq> pathJoin r n"
      using cleanElems_pathJoin[OF diskEval_canonical(1)[OF h(1) Inr] m(1)] cleanElems_pathJoin[OF c(1) h(3)] m(2)
      by (metis last_snoc)
    with Inr show ?thesis by (simp add: diskLstat_def en entryAt_join[OF m(3,1)] map_of_filter_fst ev)
  qed (simp add: diskLstat_def entryAt_join[OF m(3,1)] ev)
  ultimately show "\<exists>w'. fs_Remove diskFS w (pathJoin r n) = (None, w') \<and> diskOK w' \<and>
      (\<exists>e. fs_Lstat diskFS w' (pathJoin d n) = Inl e) \<and>
      (\<forall>x. fs_EvalSymlinks diskFS w x \<noteq> Inr (pathJoin r n) \<longrightarrow> fs_EvalSymlinks diskFS w' x = fs_EvalSymlinks diskFS w x) \<and>
      (\<forall>x m. basename m \<and> m \<noteq> n \<and> isAbs x \<longrightarrow> fs_Lstat diskFS w' (pathJoin x m) = fs_Lstat diskFS w (pathJoin x m))"
    using ev by (intro exI[of _ ?w']) (simp add: diskFS_def)
qed

section \<open>A busy disk\<close>

text \<open>A file system whose lookups are those of a disk: what it does on a removal, and what other
  processes do to it meanwhile, is left open.\<close>

definition looksUpOn :: "'w PruneFS \<Rightarrow> ('w \<Rightarrow> Disk) \<Rightarrow> bool" where
  "looksUpOn fs view =
     (\<forall>w. fs_Lstat fs w = diskLstat (view w) \<and> fs_EvalSymlinks fs w = diskEval (view w))"

lemma pathJoin_other:
  "isAbs r \<Longrightarrow> isAbs r' \<Longrightarrow> basename n \<Longrightarrow> basename m \<Longrightarrow> pathJoin r n = pathJoin r' m \<Longrightarrow> n = m"
  using cleanElems_pathJoin[of r n] cleanElems_pathJoin[of r' m] by (metis last_snoc)

lemma entry_other:
  assumes "diskOK d" "isAbs r" "basename n" "isAbs x" "basename m" "n \<noteq> m"
  shows "entryAt d (pathJoin x m) \<noteq> Inr (pathJoin r n)"
proof (cases "diskEval d x")
  case (Inr rx)
  then show ?thesis
    using pathJoin_other[OF diskEval_canonical(1)[OF assms(1) Inr] assms(2,5,3)] assms(6)
    by (auto simp: entryAt_join[OF assms(4,5)])
qed (simp add: entryAt_join[OF assms(4,5)])

section \<open>Properties\<close>

text \<open>C12: On a disk nobody else changes, whatever its symbolic links, a dry run over local artifacts
  with bare names is exactly what the real run then does: the same verdicts, every file planned for
  deletion gone and every other artifact's file as it was.\<close>

theorem prune_dry_run_carried_out:
  assumes "diskOK w" "distinct (map r_Artifact records)" "\<forall>rec \<in> set records. basename (ar_Name (r_Artifact rec))"
    "\<forall>a. \<not> OnMedium (loc a)" "PruneDecide env diskFS w now cfg bs records (Some loc) = Inr vs"
  shows "\<exists>w'. PruneApply env diskFS d now cfg bs records (Some loc) w = (Inr vs, w') \<and>
    (\<forall>rec \<in> set records. if (\<exists>v \<in> set vs. pv_Artifact v = r_Artifact rec \<and> pv_Action v = PruneDelete)
       then \<exists>e. diskLstat w' (pathJoin (sc_LocalPath bs) (ar_Name (r_Artifact rec))) = Inl e
       else diskLstat w' (pathJoin (sc_LocalPath bs) (ar_Name (r_Artifact rec)))
          = diskLstat w (pathJoin (sc_LocalPath bs) (ar_Name (r_Artifact rec))))"
  using disk.plan_carried_out[OF assms, of d] unfolding diskFS_lstat .


text \<open>A disk whose backup root is a symbolic link, with the files of the sample records.\<close>

definition sampleDisk :: Disk where
  "sampleDisk = \<lparr>dk_dirs = [(''/b'', ''/mnt/b''), (''/mnt/b'', ''/mnt/b'')],
     dk_entries = [(''/mnt/b/a'', ModeRegular), (''/mnt/b/b'', ModeRegular), (''/mnt/b/c'', ModeRegular)]\<rparr>"

definition samplePruneSet :: SetConfig where
  "samplePruneSet = \<lparr>sc_ID = sampleSet, sc_LocalPath = ''/b''\<rparr>"

definition samplePlan :: "PruneVerdict list" where
  "samplePlan = projr (PruneDecide sampleEnv diskFS sampleDisk sampleNow sampleConfig samplePruneSet sampleRecords (Some AllLocal))"

lemma sample_plan:
  "map_sum id (map (\<lambda>v. (pv_Action v, pv_Path v)))
     (PruneDecide sampleEnv diskFS sampleDisk sampleNow sampleConfig samplePruneSet sampleRecords (Some AllLocal))
   = Inr [(PruneDelete, ''/mnt/b/a''), (PruneKeep, ''/b/b''), (PruneKeep, ''/b/c'')]"
  by code_simp

theorem prune_dry_run_carried_out_witness:
  "\<exists>w'. PruneApply sampleEnv diskFS None sampleNow sampleConfig samplePruneSet sampleRecords (Some AllLocal) sampleDisk
     = (Inr samplePlan, w')"
proof -
  have "\<exists>vs. PruneDecide sampleEnv diskFS sampleDisk sampleNow sampleConfig samplePruneSet sampleRecords (Some AllLocal) = Inr vs"
    using sample_plan
    by (cases "PruneDecide sampleEnv diskFS sampleDisk sampleNow sampleConfig samplePruneSet sampleRecords (Some AllLocal)") auto
  then have p: "PruneDecide sampleEnv diskFS sampleDisk sampleNow sampleConfig samplePruneSet sampleRecords (Some AllLocal) = Inr samplePlan"
    unfolding samplePlan_def by auto
  have "diskOK sampleDisk" by code_simp
  moreover have "\<forall>rec \<in> set sampleRecords. basename (ar_Name (r_Artifact rec))"
    by (simp add: sampleRecords_def sampleRecord_def basename_def)
  ultimately show ?thesis
    using prune_dry_run_carried_out[OF _ sample_distinct _ _ p, of None] by (simp add: AllLocal_def OnMedium_def) blast
qed


text \<open>The run of the sample under the log: one unlink, of the file the plan condemned.\<close>

fun removedPath :: "'w deletion \<Rightarrow> string" where
  "removedPath (FileRemoved w p e) = p"
| "removedPath (ObjectRemoved w rec m e) = []"

definition sampleRun :: "(pruneError + PruneVerdict list) \<times> Disk logged" where
  "sampleRun = PruneApply sampleEnv (loggedFS diskFS) (map_option loggedPruner None) sampleNow sampleConfig samplePruneSet
     sampleRecords (Some AllLocal) (sampleDisk, [])"

lemma sample_run_verdicts: "map_sum id (map pv_Action) (fst sampleRun) = Inr [PruneDelete, PruneKeep, PruneKeep]"
  by code_simp

lemma sample_run_calls: "map removedPath (snd (snd sampleRun)) = [''/mnt/b/a'']"
  by code_simp

lemma sample_run_obtains:
  obtains out w' disk e where "sampleRun = (Inr out, (w', [FileRemoved disk ''/mnt/b/a'' e]))"
proof -
  from sample_run_calls obtain c where c: "snd (snd sampleRun) = [c]" "removedPath c = ''/mnt/b/a''" by auto
  then obtain disk e where "c = FileRemoved disk ''/mnt/b/a'' e" by (cases c) auto
  moreover from sample_run_verdicts obtain out where "fst sampleRun = Inr out" by (cases "fst sampleRun") auto
  ultimately have "sampleRun = (Inr out, (fst (snd sampleRun), [FileRemoved disk ''/mnt/b/a'' e]))"
    using c(1) by (metis prod.collapse)
  then show thesis using that by blast
qed

lemma sample_run_disk: "map (\<lambda>c. case c of FileRemoved disk p e \<Rightarrow> diskOK disk | ObjectRemoved w rec m e \<Rightarrow> False) (snd (snd sampleRun)) = [True]"
  by code_simp

lemma sample_names: "\<forall>rec \<in> set sampleRecords. basename (ar_Name (r_Artifact rec))"
  by (simp add: sampleRecords_def sampleRecord_def basename_def)


theorem prune_run_agrees_with_plan_witness:
  "\<exists>vs. PruneDecide sampleEnv diskFS sampleDisk sampleNow sampleConfig samplePruneSet sampleRecords (Some AllLocal) = Inr vs"
proof -
  obtain out w' disk e where r: "sampleRun = (Inr out, (w', [FileRemoved disk ''/mnt/b/a'' e]))"
    by (rule sample_run_obtains)
  from prune_run_agrees_with_plan[OF r[unfolded sampleRun_def]] show ?thesis by blast
qed

section \<open>A crafted name\<close>

text \<open>The check of the directories does not cover a name with separators whose detour comes back to the
  root: under a symbolic link \<open>/L\<close> to \<open>/a/b\<close> the name \<open>../L/f\<close> is checked at \<open>/L/f\<close>, which is
  \<open>/a/b/f\<close>, and the path handed to the unlink is \<open>/a/L/f\<close>.\<close>

definition craftedSet :: SetConfig where "craftedSet = \<lparr>sc_ID = sampleSet, sc_LocalPath = ''/L''\<rparr>"

definition craftedRecord :: Record where
  "craftedRecord = (sampleRecord ''../L/f'' Complete 100 None)\<lparr>r_LocalPath := ''/L/f''\<rparr>"

definition craftedDisk :: Disk where
  "craftedDisk = \<lparr>dk_dirs = [(''/L'', ''/a/b''), (''/a/b'', ''/a/b''), (''/a/L'', ''/a/L'')],
     dk_entries = [(''/a/b/f'', ModeRegular), (''/a/L/f'', ModeRegular)]\<rparr>"

text \<open>The path the safety check returns is not always the file it checked: a crafted artifact name
  under a root that is a symbolic link makes the unlink hit a regular file outside the root, while
  the checked file stays.\<close>

theorem crafted_name_unlinks_elsewhere:
  "diskOK craftedDisk \<and> entryAt craftedDisk (r_LocalPath craftedRecord) = Inr ''/a/b/f'' \<and>
   pruneVerifySafeToDelete diskFS craftedDisk craftedSet craftedRecord = Inr ''/a/L/f'' \<and>
   (case diskRemove craftedDisk ''/a/L/f'' of (e, d) \<Rightarrow>
      e = None \<and> diskLstat d ''/a/L/f'' = Inl noEntry \<and> diskLstat d (r_LocalPath craftedRecord) = Inr ModeRegular)"
  by code_simp

end
