(* ===== verification/MoveJournal.thy ===== *)
theory MoveJournal
  imports JournalInv
begin

text \<open>
  The placement moves of the journal (\<open>core/internal/state/moves.go\<close>): planning a move, advancing
  it under a guard on the phase it is leaving, and the listings.  Every phase write of the
  placement engine goes through \<open>checked\<close> (\<open>placement/engine.go\<close>), which turns an illegal phase
  change into a write that matches no row; it is defined here beside the write it protects.
\<close>

record Move =
  mv_ID :: nat
  mv_Artifact :: ArtifactID
  mv_SourcePlacementID :: "nat option"
  mv_SourceMedium :: string
  mv_SourceLocation :: string
  mv_DestinationMedium :: string
  mv_DestinationKey :: string
  mv_Phase :: Phase
  mv_BytesCopied :: "int option"
  mv_Error :: string
  mv_CreatedAt :: instant
  mv_UpdatedAt :: instant

definition moveTerminal :: "Move \<Rightarrow> bool" where
  "moveTerminal m = (mv_Phase m = MoveDone \<or> mv_Phase m = MoveAbandoned)"

record MovePlan =
  mp_Artifact :: ArtifactID
  mp_SourceMedium :: string
  mp_DestinationMedium :: string
  mp_DestinationKey :: string
  mp_OccurredAt :: instant

record MoveAdvance =
  ma_MoveID :: nat
  ma_From :: Phase
  ma_To :: Phase
  ma_OccurredAt :: instant
  ma_BytesCopied :: "int option"
  ma_Error :: string
  ma_Placements :: "PlacementUpdate list"

section \<open>Reading\<close>

text \<open>One row of \<open>moveFrom\<close>: the artifact row is joined, the source placement left-joined.\<close>

definition scanMove :: "JournalDB \<Rightarrow> MoveRow \<Rightarrow> Move option" where
  "scanMove j m =
     (case find (\<lambda>ar. fst ar = mvr_Artifact m) (j_artifacts j) of
        None \<Rightarrow> None
      | Some (_, r) \<Rightarrow>
        let src = (case mvr_SourcePlacementID m of None \<Rightarrow> None
                   | Some i \<Rightarrow> find (\<lambda>p. plr_ID p = i) (j_placements j)) in
        Some \<lparr>mv_ID = mvr_ID m, mv_Artifact = r_Artifact r,
              mv_SourcePlacementID = mvr_SourcePlacementID m,
              mv_SourceMedium = (case src of None \<Rightarrow> [] | Some p \<Rightarrow> p_Medium (plr_Placement p)),
              mv_SourceLocation = (case src of None \<Rightarrow> [] | Some p \<Rightarrow> p_Location (plr_Placement p)),
              mv_DestinationMedium = mvr_DestinationMedium m, mv_DestinationKey = mvr_DestinationKey m,
              mv_Phase = mvr_Phase m, mv_BytesCopied = mvr_BytesCopied m, mv_Error = mvr_Error m,
              mv_CreatedAt = mvr_CreatedAt m, mv_UpdatedAt = mvr_UpdatedAt m\<rparr>)"

definition findMove :: "JournalDB \<Rightarrow> nat \<Rightarrow> MoveRow option" where
  "findMove j i = find (\<lambda>m. mvr_ID m = i) (j_moves j)"

definition getMove :: "JournalDB \<Rightarrow> nat \<Rightarrow> journalError + Move" where
  "getMove j i =
     (case Option.bind (findMove j i) (scanMove j) of None \<Rightarrow> Inl ErrMoveNotFound | Some m \<Rightarrow> Inr m)"

definition ListMoves :: "JournalDB \<Rightarrow> Phase list \<Rightarrow> Move list" where
  "ListMoves j phases =
     List.map_filter (scanMove j)
       (filter (\<lambda>m. phases = [] \<or> List.member phases (mvr_Phase m)) (j_moves j))"

definition MovesForArtifact :: "JournalDB \<Rightarrow> ArtifactID \<Rightarrow> Move list" where
  "MovesForArtifact j a = filter (\<lambda>m. mv_Artifact m = a) (List.map_filter (scanMove j) (j_moves j))"

section \<open>Planning\<close>

definition liveMoves :: "JournalDB \<Rightarrow> nat \<Rightarrow> MoveRow list" where
  "liveMoves j row =
     filter (\<lambda>m. mvr_Artifact m = row \<and> \<not> List.member [MoveDone, MoveAbandoned] (mvr_Phase m)) (j_moves j)"

definition validatePlan :: "MovePlan \<Rightarrow> journalError option" where
  "validatePlan p =
     (if ar_Name (mp_Artifact p) = [] \<or> setIsZero (ar_Set (mp_Artifact p)) then Some BadArtifact
      else if mp_SourceMedium p = [] then Some PlanNoSource
      else if mp_DestinationMedium p = [] then Some PlanNoDestination
      else if mp_DestinationKey p = [] then Some PlanNoKey
      else if mp_DestinationMedium p = mp_SourceMedium p then Some (PlanToItself (mp_SourceMedium p))
      else if mp_OccurredAt p = zeroTime then Some NoOccurredAt
      else None)"

definition plannedRow :: "MovePlan \<Rightarrow> nat \<Rightarrow> nat \<Rightarrow> nat \<Rightarrow> MoveRow" where
  "plannedRow p i row src =
     \<lparr>mvr_ID = i, mvr_Artifact = row, mvr_SourcePlacementID = Some src,
      mvr_DestinationMedium = mp_DestinationMedium p, mvr_DestinationKey = mp_DestinationKey p,
      mvr_Phase = MovePlanned, mvr_BytesCopied = None, mvr_Error = [],
      mvr_CreatedAt = mp_OccurredAt p, mvr_UpdatedAt = mp_OccurredAt p\<rparr>"

definition PlanMove :: "JournalDB \<Rightarrow> MovePlan \<Rightarrow> (journalError + Move) \<times> JournalDB" where
  "PlanMove j p =
     (case validatePlan p of Some e \<Rightarrow> (Inl e, j)
      | None \<Rightarrow>
        (case findArtifact j (mp_Artifact p) of
           None \<Rightarrow> (Inl ErrArtifactNotFound, j)
         | Some (row, _) \<Rightarrow>
           (case find (\<lambda>q. plr_Artifact q = row \<and> p_Medium (plr_Placement q) = mp_SourceMedium p
                        \<and> p_Status (plr_Placement q) = PlacementActive) (j_placements j) of
              None \<Rightarrow> (Inl (NoActiveSource (mp_SourceMedium p)), j)
            | Some src \<Rightarrow>
              if length (liveMoves j row) > 0
              then (Inl (MoveInFlight (length (liveMoves j row))), j)
              else
                let i = nextID (map mvr_ID (j_moves j));
                    j' = j\<lparr>j_moves := j_moves j @ [plannedRow p i row (plr_ID src)]\<rparr>
                in (case getMove j' i of Inl e \<Rightarrow> (Inl e, j) | Inr m \<Rightarrow> (Inr m, j')))))"

section \<open>Advancing\<close>

definition validateAdvance :: "MoveAdvance \<Rightarrow> journalError option" where
  "validateAdvance a =
     (if ma_MoveID a = 0 then Some AdvanceNoID
      else if ma_From a = RawPhase [] then Some AdvanceNoFrom
      else if ma_To a = RawPhase [] then Some AdvanceNoTo
      else if ma_OccurredAt a = zeroTime then Some NoOccurredAt
      else None)"

definition advancedRow :: "(string \<Rightarrow> string) \<Rightarrow> MoveAdvance \<Rightarrow> MoveRow \<Rightarrow> MoveRow" where
  "advancedRow redact a m =
     m\<lparr>mvr_Phase := ma_To a,
       mvr_BytesCopied := (case ma_BytesCopied a of None \<Rightarrow> mvr_BytesCopied m | Some n \<Rightarrow> Some n),
       mvr_Error := redact (ma_Error a), mvr_UpdatedAt := ma_OccurredAt a\<rparr>"

text \<open>The loop over the placements the advance carries, all in the same transaction.\<close>

fun upsertAll :: "JournalDB \<Rightarrow> nat \<Rightarrow> PlacementUpdate list \<Rightarrow> instant \<Rightarrow> journalError + JournalDB" where
  "upsertAll j row [] now = Inr j"
| "upsertAll j row (p # ps) now = bindE (upsertPlacement j row p now) (\<lambda>j'. upsertAll j' row ps now)"

definition AdvanceMove :: "JournalDB \<Rightarrow> MoveAdvance \<Rightarrow> (journalError + Move) \<times> JournalDB" where
  "AdvanceMove j a =
     (case validateAdvance a of Some e \<Rightarrow> (Inl e, j)
      | None \<Rightarrow>
        (case findMove j (ma_MoveID a) of
           None \<Rightarrow> (Inl ErrMoveNotFound, j)
         | Some m \<Rightarrow>
           if mvr_Phase m \<noteq> ma_From a then (Inl (ErrMovePhaseConflict (mvr_Phase m) (ma_From a)), j)
           else if \<not> ValidPhase (ma_To a) then (Inl CheckConstraint, j)
           else
             let j1 = j\<lparr>j_moves :=
                   map (\<lambda>r. if mvr_ID r = ma_MoveID a then advancedRow (j_redact j) a r else r) (j_moves j)\<rparr>
             in (case bindE (upsertAll j1 (mvr_Artifact m) (ma_Placements a) (ma_OccurredAt a))
                        (\<lambda>j2. bindE (getMove j2 (ma_MoveID a)) (\<lambda>mv. Inr (mv, j2))) of
                   Inl e \<Rightarrow> (Inl e, j)
                 | Inr (mv, j2) \<Rightarrow> (Inr mv, j2))))"

definition checked :: "MoveAdvance \<Rightarrow> MoveAdvance" where
  "checked a =
     (case ValidatePhaseChange (ma_From a) (ma_To a) of
        None \<Rightarrow> a
      | Some _ \<Rightarrow> a\<lparr>ma_From := RawPhase (CHR ''!'' # phaseString (ma_From a))\<rparr>)"

section \<open>Lemmas\<close>

lemma upsertAll_frame:
  "upsertAll j row ps now = Inr j' \<Longrightarrow>
     j_artifacts j' = j_artifacts j \<and> j_log j' = j_log j \<and> j_moves j' = j_moves j
     \<and> j_redact j' = j_redact j \<and> (wfJournal j \<longrightarrow> wfJournal j')"
proof (induction j row ps now rule: upsertAll.induct)
  case (2 j row p ps now)
  then obtain j1 where j1: "upsertPlacement j row p now = Inr j1" "upsertAll j1 row ps now = Inr j'"
    by (auto simp: bindE_Inr_iff)
  with 2 upsertPlacement_frame[OF j1(1)] wfJournal_upsertPlacement[OF _ j1(1)] show ?case by simp
qed simp

lemma wfJournal_moves [simp]: "wfJournal (j\<lparr>j_moves := m\<rparr>) = wfJournal j"
  by (simp add: wfJournal_def wfRow_def)

lemma history_cong:
  "j_artifacts j' = j_artifacts j \<Longrightarrow> j_log j' = j_log j \<Longrightarrow> history j' a = history j a"
  by (auto simp: history_def findArtifact_def rowHistory_def split: option.split)

lemma getMove_Inr: "getMove j i = Inr m \<Longrightarrow> \<exists>r. findMove j i = Some r \<and> scanMove j r = Some m"
  by (auto simp: getMove_def bind_eq_Some_conv split: option.splits)

lemma scanMove_phase: "scanMove j r = Some m \<Longrightarrow> mv_Phase m = mvr_Phase r \<and> mv_ID m = mvr_ID r"
  by (auto simp: scanMove_def Let_def split: option.splits)

lemma PlanMove_cases:
  assumes "PlanMove j p = (res, j')"
  obtains (refused) e where "res = Inl e" "j' = j"
    | (planned) row src m where "res = Inr m"
      "validatePlan p = None" "\<exists>r. findArtifact j (mp_Artifact p) = Some (row, r)"
      "src \<in> set (j_placements j)" "plr_Artifact src = row"
      "p_Medium (plr_Placement src) = mp_SourceMedium p" "p_Status (plr_Placement src) = PlacementActive"
      "liveMoves j row = []"
      "j' = j\<lparr>j_moves := j_moves j @ [plannedRow p (nextID (map mvr_ID (j_moves j))) row (plr_ID src)]\<rparr>"
proof (cases "isl res")
  case True
  then obtain e where e: "res = Inl e" by (cases res) auto
  from assms[unfolded e] have "j' = j"
    by (simp add: PlanMove_def Let_def split: option.splits if_splits sum.splits prod.splits)
  with refused e show thesis by simp
next
  case False
  then obtain m where r: "res = Inr m" by (cases res) auto
  from assms[unfolded r] obtain row rec src where q: "validatePlan p = None" "findArtifact j (mp_Artifact p) = Some (row, rec)"
    "find (\<lambda>q. plr_Artifact q = row \<and> p_Medium (plr_Placement q) = mp_SourceMedium p
        \<and> p_Status (plr_Placement q) = PlacementActive) (j_placements j) = Some src"
    "liveMoves j row = []"
    by (auto simp: PlanMove_def split: option.splits if_splits)
  from assms[unfolded r] q have
    "j' = j\<lparr>j_moves := j_moves j @ [plannedRow p (nextID (map mvr_ID (j_moves j))) row (plr_ID src)]\<rparr>"
    by (simp add: PlanMove_def Let_def split: sum.splits)
  with q r find_SomeD[OF q(3)] show thesis by (intro planned[of m row src]) auto
qed

lemma AdvanceMove_cases:
  assumes "AdvanceMove j a = (res, j')"
  obtains (refused) e where "res = Inl e" "j' = j"
    | (moved) m mv where "res = Inr mv" "validateAdvance a = None"
      "findMove j (ma_MoveID a) = Some m" "mvr_Phase m = ma_From a" "ValidPhase (ma_To a)"
      "upsertAll (j\<lparr>j_moves := map (\<lambda>r. if mvr_ID r = ma_MoveID a then advancedRow (j_redact j) a r else r) (j_moves j)\<rparr>)
         (mvr_Artifact m) (ma_Placements a) (ma_OccurredAt a) = Inr j'"
      "getMove j' (ma_MoveID a) = Inr mv"
proof (cases "isl res")
  case True
  then obtain e where e: "res = Inl e" by (cases res) auto
  from assms[unfolded e] have "j' = j"
    by (simp add: AdvanceMove_def Let_def split: option.splits if_splits sum.splits prod.splits)
  with refused e show thesis by simp
next
  case False
  then obtain mv where r: "res = Inr mv" by (cases res) auto
  from assms[unfolded r] obtain m where m: "validateAdvance a = None" "findMove j (ma_MoveID a) = Some m"
    "mvr_Phase m = ma_From a" "ValidPhase (ma_To a)"
    by (auto simp: AdvanceMove_def split: option.splits if_splits)
  from assms[unfolded r] m have
    "bindE (upsertAll (j\<lparr>j_moves := map (\<lambda>r. if mvr_ID r = ma_MoveID a then advancedRow (j_redact j) a r else r) (j_moves j)\<rparr>)
         (mvr_Artifact m) (ma_Placements a) (ma_OccurredAt a))
       (\<lambda>j2. bindE (getMove j2 (ma_MoveID a)) (\<lambda>mv. Inr (mv, j2))) = Inr (mv, j')"
    by (simp add: AdvanceMove_def Let_def split: sum.splits prod.splits)
  with moved[OF r m] show thesis by (auto simp: bindE_Inr_iff)
qed

lemma checked_illegal:
  assumes "ValidatePhaseChange (ma_From a) (ma_To a) \<noteq> None" "\<forall>m \<in> set (j_moves j). ValidPhase (mvr_Phase m)"
  shows "\<exists>e. AdvanceMove j (checked a) = (Inl e, j)"
proof -
  obtain res j' where r: "AdvanceMove j (checked a) = (res, j')" by fastforce
  from this show ?thesis
  proof (cases rule: AdvanceMove_cases)
    case refused
    with r show ?thesis by simp
  next
    case (moved m mv)
    have "m \<in> set (j_moves j)" using moved(3) by (auto simp: findMove_def dest: find_SomeD)
    with assms moved(4) have False by (auto simp: checked_def)
    then show ?thesis ..
  qed
qed

lemma checked_legal:
  "ValidatePhaseChange (ma_From a) (ma_To a) = None \<Longrightarrow> checked a = a"
  by (simp add: checked_def)

section \<open>Single flight\<close>

definition wfMoves :: "JournalDB \<Rightarrow> bool" where
  "wfMoves j =
     (distinct (map mvr_ID (j_moves j)) \<and>
      (\<forall>m \<in> set (j_moves j). ValidPhase (mvr_Phase m)) \<and>
      (\<forall>row. length (liveMoves j row) \<le> 1))"

lemma wfMoves_empty: "wfMoves (emptyJournal red)"
  by (simp add: wfMoves_def emptyJournal_def liveMoves_def)

lemma wfMoves_cong: "j_moves j' = j_moves j \<Longrightarrow> wfMoves j' = wfMoves j"
  by (simp add: wfMoves_def liveMoves_def)

lemma wfMoves_PlanMove:
  assumes "wfMoves j" "PlanMove j p = (res, j')"
  shows "wfMoves j'"
  using assms(2)
proof (cases rule: PlanMove_cases)
  case refused
  with assms show ?thesis by simp
next
  case (planned row src m)
  have "length (liveMoves j' row') \<le> 1" for row'
    using assms(1) planned(8) by (auto simp: wfMoves_def liveMoves_def planned(9) plannedRow_def)
  with assms(1) show ?thesis
    by (auto simp: wfMoves_def planned(9) plannedRow_def)
      (metis (no_types, lifting) image_eqI list.set_map nextID_notin)
qed

lemma live_advance:
  assumes "\<And>r. r \<in> set ms \<Longrightarrow> mvr_ID r = i \<Longrightarrow> IsTerminal (mvr_Phase r) \<Longrightarrow> IsTerminal (ma_To a)"
  shows "length (filter (\<lambda>m. mvr_Artifact m = row \<and> \<not> IsTerminal (mvr_Phase m))
            (map (\<lambda>r. if mvr_ID r = i then advancedRow red a r else r) ms))
    \<le> length (filter (\<lambda>m. mvr_Artifact m = row \<and> \<not> IsTerminal (mvr_Phase m)) ms)"
  using assms by (induction ms) (auto simp: advancedRow_def)

lemma liveMoves_eq: "liveMoves j row = filter (\<lambda>m. mvr_Artifact m = row \<and> \<not> IsTerminal (mvr_Phase m)) (j_moves j)"
  by (auto simp: liveMoves_def intro: filter_cong)

lemma wfMoves_AdvanceMove:
  assumes "wfMoves j" "AdvanceMove j (checked a) = (res, j')"
  shows "wfMoves j'"
proof (cases "ValidatePhaseChange (ma_From a) (ma_To a) = None")
  case False
  with assms checked_illegal[of a j] show ?thesis by (auto simp: wfMoves_def)
next
  case True
  from assms(2) have "AdvanceMove j a = (res, j')" by (simp add: checked_legal[OF True])
  then show ?thesis
  proof (cases rule: AdvanceMove_cases)
    case refused
    with assms(1) show ?thesis by simp
  next
    case (moved m mv)
    let ?ms = "map (\<lambda>r. if mvr_ID r = ma_MoveID a then advancedRow (j_redact j) a r else r) (j_moves j)"
    have mvs: "j_moves j' = ?ms" using upsertAll_frame[OF moved(6)] by simp
    have uniq: "r = m" if "r \<in> set (j_moves j)" "mvr_ID r = ma_MoveID a" for r
      using moved(3) that assms(1) find_unique[of mvr_ID "j_moves j" r] by (auto simp: wfMoves_def findMove_def)
    have ids: "map mvr_ID ?ms = map mvr_ID (j_moves j)" by (auto simp: advancedRow_def)
    have live: "length (liveMoves j' row) \<le> 1" for row
    proof -
      have "length (liveMoves j' row) \<le> length (liveMoves j row)"
        unfolding liveMoves_eq mvs
        by (rule live_advance) (use uniq terminal_stays[OF _ True] moved(4) in auto)
      also have "\<dots> \<le> 1" using assms(1) by (simp add: wfMoves_def)
      finally show ?thesis .
    qed
    have valid: "\<forall>m \<in> set (j_moves j'). ValidPhase (mvr_Phase m)"
      unfolding mvs using assms(1) moved(5) by (auto simp: wfMoves_def advancedRow_def)
    have "distinct (map mvr_ID (j_moves j'))"
      unfolding mvs ids using assms(1) by (simp add: wfMoves_def)
    with live valid show ?thesis by (simp add: wfMoves_def)
  qed
qed

lemma RecordTransition_moves:
  assumes "RecordTransition j t = (res, j')"
  shows "j_moves j' = j_moves j"
  using assms
proof (cases rule: RecordTransition_cases)
  case (new out)
  obtain row j1 where
    g: "(if t_From t = noState then insertArtifact j t else updateArtifact j t) = Inr (row, j1)"
    and p: "(case t_Placement t of None \<Rightarrow> Inr (appendLog j1 row t)
              | Some p \<Rightarrow> upsertPlacement (appendLog j1 row t) row p (t_OccurredAt t)) = Inr j'"
    using new(3) by (rule applyTransition_parts)
  have "j_moves j' = j_moves j1" using optPlacement_frame[OF p] by simp
  moreover have "j_moves j1 = j_moves j"
    using g by (cases "t_From t = noState") (auto dest!: insertArtifact_Inr elim!: updateArtifact_Inr)
  ultimately show ?thesis by simp
qed simp

section \<open>Runs\<close>

text \<open>Every journal the lifecycle's transitions and the placement engine's checked phase writes can
  produce.\<close>

inductive movesRun :: "JournalDB \<Rightarrow> bool" where
  start: "movesRun (emptyJournal red)"
| transition: "movesRun j \<Longrightarrow> movesRun (snd (RecordTransition j t))"
| plan: "movesRun j \<Longrightarrow> movesRun (snd (PlanMove j p))"
| advance: "movesRun j \<Longrightarrow> movesRun (snd (AdvanceMove j (checked a)))"

lemma wfJournal_PlanMove: "wfJournal j \<Longrightarrow> PlanMove j p = (res, j') \<Longrightarrow> wfJournal j'"
  by (auto elim!: PlanMove_cases)

lemma wfJournal_AdvanceMove: "wfJournal j \<Longrightarrow> AdvanceMove j a = (res, j') \<Longrightarrow> wfJournal j'"
  by (erule AdvanceMove_cases) (auto dest!: upsertAll_frame)

lemma movesRun_wf: "movesRun j \<Longrightarrow> wfJournal j \<and> wfMoves j"
proof (induction rule: movesRun.induct)
  case start
  show ?case by (simp add: wfMoves_empty)
next
  case (transition j t)
  then show ?case
    using record_transition_facts[of j t] wfMoves_cong[OF RecordTransition_moves, of j t]
    by (metis surjective_pairing)
next
  case (plan j p)
  then show ?case
    using wfJournal_PlanMove[OF _ surjective_pairing] wfMoves_PlanMove[OF _ surjective_pairing] by blast
next
  case (advance j a)
  then show ?case
    using wfJournal_AdvanceMove[OF _ surjective_pairing] wfMoves_AdvanceMove[OF _ surjective_pairing] by blast
qed

lemma filter_map_filter_length:
  assumes "\<And>r m. r \<in> set rs \<Longrightarrow> f r = Some m \<Longrightarrow> P m \<Longrightarrow> Q r"
  shows "length (filter P (List.map_filter f rs)) \<le> length (filter Q rs)"
  using assms by (induction rs) (auto simp: List.map_filter_simps split: option.split)

text \<open>C29: in every journal these writes can produce, an artifact has at most one move that is neither
  DONE nor ABANDONED: two moves never hold an opinion about the same artifact's copies at once.\<close>

theorem single_live_move:
  assumes "movesRun j"
  shows "length (filter (\<lambda>m. \<not> moveTerminal m) (MovesForArtifact j a)) \<le> 1"
proof (cases "findArtifact j a")
  case None
  then have "MovesForArtifact j a = []"
    by (auto simp: MovesForArtifact_def filter_empty_conv List.map_filter_def scanMove_def Let_def findArtifact_None
        split: option.splits dest!: find_SomeD)
  then show ?thesis by simp
next
  case (Some rr)
  obtain row r where rr: "rr = (row, r)" by fastforce
  note wf = movesRun_wf[OF assms]
  have mem: "(row, r) \<in> set (j_artifacts j)" "r_Artifact r = a"
    using findArtifact_Some[of j a row r] Some rr by auto
  have "mvr_Artifact x = row" if "scanMove j x = Some m" "mv_Artifact m = a" for x m
  proof -
    from that obtain r' where f: "find (\<lambda>ar. fst ar = mvr_Artifact x) (j_artifacts j) = Some (mvr_Artifact x, r')"
      "r_Artifact r' = a"
      by (auto simp: scanMove_def Let_def split: option.splits dest: find_SomeD)
    then have "findArtifact j a = Some (mvr_Artifact x, r')"
      using wf_findArtifact[of j "(mvr_Artifact x, r')"] wf by (auto dest: find_SomeD)
    with Some rr show ?thesis by simp
  qed
  then have "length (filter (\<lambda>m. \<not> moveTerminal m) (MovesForArtifact j a)) \<le> length (liveMoves j row)"
    unfolding MovesForArtifact_def liveMoves_eq filter_filter
    by (intro filter_map_filter_length) (auto simp: moveTerminal_def dest: scanMove_phase)
  also have "\<dots> \<le> 1" using wf by (simp add: wfMoves_def)
  finally show ?thesis .
qed

text \<open>An advance of a move either changes nothing, or found the move in exactly the phase the
  write said it was leaving: then that move is in the new phase, every other move is as it was, and
  no artifact row or history changed.\<close>

theorem advance_move_guarded:
  assumes "movesRun j" "AdvanceMove j a = (res, j')"
  shows "(isl res \<and> j' = j) \<or>
    ((\<exists>m. findMove j (ma_MoveID a) = Some m \<and> mvr_Phase m = ma_From a) \<and>
     map_option mvr_Phase (findMove j' (ma_MoveID a)) = Some (ma_To a) \<and>
     (\<forall>i. i \<noteq> ma_MoveID a \<longrightarrow> findMove j' i = findMove j i) \<and>
     j_artifacts j' = j_artifacts j \<and> j_log j' = j_log j)"
  using assms(2)
proof (cases rule: AdvanceMove_cases)
  case (moved m mv)
  have mvs: "j_moves j' = map (\<lambda>r. if mvr_ID r = ma_MoveID a then advancedRow (j_redact j) a r else r) (j_moves j)"
    and same: "j_artifacts j' = j_artifacts j" "j_log j' = j_log j"
    using upsertAll_frame[OF moved(6)] by auto
  have f: "findMove j' i = map_option (\<lambda>r. if mvr_ID r = ma_MoveID a then advancedRow (j_redact j) a r else r) (findMove j i)" for i
    unfolding findMove_def mvs by (rule find_map_inv) (simp add: advancedRow_def)
  have "findMove j' i = findMove j i" if "i \<noteq> ma_MoveID a" for i
    unfolding f using that
    by (cases "findMove j i") (auto simp: findMove_def dest!: find_SomeD)
  moreover have "mvr_ID m = ma_MoveID a" using moved(3) by (auto simp: findMove_def dest: find_SomeD)
  ultimately show ?thesis using f[of "ma_MoveID a"] moved(3,4) same by (simp add: advancedRow_def)
qed simp

section \<open>Concrete move\<close>

definition moveExampleID :: ArtifactID where
  "moveExampleID = \<lparr>ar_Set = \<lparr>bs_Source = ''s'', bs_Set = ''b''\<rparr>, ar_Name = ''d''\<rparr>"

definition moveExample :: JournalDB where
  "moveExample =
     snd (PlanMove
       (snd (RecordTransition (snd (Discover (emptyJournal id) moveExampleID ''k'' ''/d'' emptyRemote 1))
         ((emptyTransition moveExampleID ''k2'' Discovered Committed)
            \<lparr>t_OccurredAt := 2, t_Placement := Some \<lparr>pu_Medium = ''local'', pu_Location = ''/b/d'', pu_Size = None,
               pu_Hash = [], pu_HashAlg = [], pu_VerificationClass = [], pu_VerifiedAt = None, pu_Status = []\<rparr>\<rparr>)))
       \<lparr>mp_Artifact = moveExampleID, mp_SourceMedium = ''local'', mp_DestinationMedium = ''s3'',
        mp_DestinationKey = ''k'', mp_OccurredAt = 3\<rparr>)"

lemma moveExample_run: "movesRun moveExample"
  unfolding moveExample_def Discover_def
  by (rule movesRun.plan, rule movesRun.transition, rule movesRun.transition, rule movesRun.start)

theorem single_live_move_witness:
  "length (filter (\<lambda>m. \<not> moveTerminal m) (MovesForArtifact moveExample moveExampleID)) = 1"
proof -
  have "filter (\<lambda>m. \<not> moveTerminal m) (MovesForArtifact moveExample moveExampleID) \<noteq> []" by code_simp
  then have "0 < length (filter (\<lambda>m. \<not> moveTerminal m) (MovesForArtifact moveExample moveExampleID))"
    by (simp only: length_greater_0_conv not_False_eq_True)
  with single_live_move[OF moveExample_run, of moveExampleID] show ?thesis by linarith
qed

theorem advance_move_guarded_witness:
  "map_option mvr_Phase (findMove (snd (AdvanceMove moveExample
     \<lparr>ma_MoveID = 1, ma_From = MovePlanned, ma_To = MoveCopying, ma_OccurredAt = 4, ma_BytesCopied = None,
      ma_Error = [], ma_Placements = []\<rparr>)) 1) = Some MoveCopying"
proof -
  let ?a = "\<lparr>ma_MoveID = 1, ma_From = MovePlanned, ma_To = MoveCopying, ma_OccurredAt = 4, ma_BytesCopied = None,
      ma_Error = [], ma_Placements = []\<rparr> :: MoveAdvance"
  have "\<not> isl (fst (AdvanceMove moveExample ?a))" by code_simp
  with advance_move_guarded[OF moveExample_run surjective_pairing, of ?a] show ?thesis by simp
qed

end
