(* ===== verification/Archive.thy ===== *)
theory Archive
  imports Journal
begin

text \<open>
  What a storage class does to readability (\<open>core/internal/archive\<close>: \<open>class.go\<close>, \<open>access.go\<close>,
  \<open>sourcedelete.go\<close>).  The sentence about the restore wait is left out of a behaviour.
\<close>

section \<open>Storage classes\<close>

record Behaviour =
  bh_Class :: string
  bh_Archive :: bool
  bh_RetrievalBilled :: bool

definition behaviours :: "(string \<times> Behaviour) list" where
  "behaviours =
     map (\<lambda>b. (bh_Class b, b))
       [\<lparr>bh_Class = ''STANDARD'', bh_Archive = False, bh_RetrievalBilled = False\<rparr>,
        \<lparr>bh_Class = ''STANDARD_IA'', bh_Archive = False, bh_RetrievalBilled = True\<rparr>,
        \<lparr>bh_Class = ''ONEZONE_IA'', bh_Archive = False, bh_RetrievalBilled = True\<rparr>,
        \<lparr>bh_Class = ''INTELLIGENT_TIERING'', bh_Archive = False, bh_RetrievalBilled = False\<rparr>,
        \<lparr>bh_Class = ''GLACIER_IR'', bh_Archive = False, bh_RetrievalBilled = True\<rparr>,
        \<lparr>bh_Class = ''GLACIER'', bh_Archive = True, bh_RetrievalBilled = True\<rparr>,
        \<lparr>bh_Class = ''DEEP_ARCHIVE'', bh_Archive = True, bh_RetrievalBilled = True\<rparr>]"

datatype classError = UnknownClass string

definition behaviourOf :: "string \<Rightarrow> classError + Behaviour" where
  "behaviourOf class =
     (let c = (if class = [] then ''STANDARD'' else class) in
      case map_of behaviours c of None \<Rightarrow> Inl (UnknownClass c) | Some b \<Rightarrow> Inr b)"

definition IsArchive :: "string \<Rightarrow> bool" where
  "IsArchive class = (case behaviourOf class of Inl _ \<Rightarrow> True | Inr b \<Rightarrow> bh_Archive b)"

section \<open>Access\<close>

datatype AccessState = Immediate | RequiresRestore | Restoring | Unreachable

definition Retrievable :: "AccessState \<Rightarrow> bool" where
  "Retrievable s = (s = Immediate)"

record RestoreState =
  rs_InProgress :: bool
  rs_ExpiresAt :: "instant option"

datatype Probe = NotAsked | Answered | DidNotAnswer

record Observation =
  ob_Probe :: Probe
  ob_Restore :: "RestoreState option"

definition noObservation :: Observation where
  "noObservation = \<lparr>ob_Probe = NotAsked, ob_Restore = None\<rparr>"

definition Access :: "string \<Rightarrow> string \<Rightarrow> Observation \<Rightarrow> instant \<Rightarrow> classError + AccessState" where
  "Access medium class obs now =
     (if medium = MediumLocal then Inr Immediate
      else case behaviourOf class of
        Inl e \<Rightarrow> Inl e
      | Inr b \<Rightarrow>
        if ob_Probe obs = DidNotAnswer then Inr Unreachable
        else if \<not> bh_Archive b then Inr Immediate
        else if ob_Probe obs = NotAsked then Inr RequiresRestore
        else case ob_Restore obs of
            None \<Rightarrow> Inr RequiresRestore
          | Some r \<Rightarrow>
            if rs_InProgress r then Inr Restoring
            else (case rs_ExpiresAt r of
                Some at \<Rightarrow> if at > now then Inr Immediate else Inr RequiresRestore
              | None \<Rightarrow> Inr RequiresRestore))"

section \<open>The other copies\<close>

record Copy =
  cp_Placement :: Placement
  cp_Class :: string
  cp_Access :: AccessState

definition copyVerified :: "Copy \<Rightarrow> bool" where
  "copyVerified c = List.member [VerificationContent, VerificationAttested] (p_VerificationClass (cp_Placement c))"

definition CanStandIn :: "Copy \<Rightarrow> bool" where
  "CanStandIn c = (p_Status (cp_Placement c) = PlacementActive \<and> copyVerified c \<and> Retrievable (cp_Access c))"

datatype survivorError = NoRetrievableCopy string "Copy list"

definition CheckSourceDelete :: "Copy \<Rightarrow> Copy list \<Rightarrow> survivorError option" where
  "CheckSourceDelete src all =
     (if list_ex (\<lambda>c. p_Medium (cp_Placement c) \<noteq> p_Medium (cp_Placement src) \<and> CanStandIn c) all then None
      else Some (NoRetrievableCopy (p_Medium (cp_Placement src))
        (filter (\<lambda>c. p_Medium (cp_Placement c) \<noteq> p_Medium (cp_Placement src)) all)))"

end
