(* ===== verification/Ladder.thy ===== *)
theory Ladder
  imports Archive
begin

text \<open>
  The verification ladder and its gate (\<open>core/internal/placement/ladder.go\<close>, \<open>gate.go\<close>).  A store
  is a record of the calls the package makes on a medium; opening an object and reading it to its
  end is one call.  \<open>ErrClassUnavailable\<close> and \<open>ErrClassRefused\<close>, which wraps it, are what
  \<open>isUnavailable\<close> and \<open>isRefused\<close> ask of an error.  The digest is an argument, as is the folding
  of non-ASCII strings.
\<close>

section \<open>The rungs\<close>

datatype Class = Content | Attested | Existence | RawClass string

fun classString :: "Class \<Rightarrow> string" where
  "classString Content = VerificationContent"
| "classString Attested = VerificationAttested"
| "classString Existence = VerificationExistence"
| "classString (RawClass s) = s"

definition Classes :: "Class list" where "Classes = [Content, Attested, Existence]"

definition ClassValid :: "Class \<Rightarrow> bool" where "ClassValid c = list_ex (\<lambda>known. c = known) Classes"

text \<open>The index the loop of \<open>Stronger\<close> finds, with the \<open>-1\<close> it starts from as \<open>None\<close>.\<close>

fun rung :: "nat \<Rightarrow> Class list \<Rightarrow> Class \<Rightarrow> nat option" where
  "rung i [] c = None"
| "rung i (k # ks) c = (if c = k then Some i else rung (Suc i) ks c)"

definition Stronger :: "Class \<Rightarrow> Class \<Rightarrow> bool" where
  "Stronger c other =
     (case rung 0 Classes c of None \<Rightarrow> False
      | Some ci \<Rightarrow> (case rung 0 Classes other of None \<Rightarrow> True | Some oi \<Rightarrow> ci < oi))"

definition CostsEgress :: "Class \<Rightarrow> bool" where "CostsEgress c = (c = Content)"

section \<open>The medium\<close>

record Medium =
  me_ID :: string
  me_Bucket :: string
  me_Prefix :: string
  me_StorageClass :: string

record ObjectInfo =
  oi_Size :: int
  oi_ModTime :: int
  oi_StorageClass :: string

datatype storeFault = ObjectNotFound | StoreFault string

record Attestation =
  at_Value :: string
  at_Algorithm :: string

record 'w MediumStore =
  ms_StatObject :: "'w \<Rightarrow> Medium \<Rightarrow> string \<Rightarrow> storeFault + ObjectInfo"
  ms_OpenObject :: "'w \<Rightarrow> Medium \<Rightarrow> string \<Rightarrow> storeFault + string"
  ms_ObjectChecksum :: "'w \<Rightarrow> Medium \<Rightarrow> string \<Rightarrow> storeFault + Attestation"
  ms_UploadFromLocal :: "'w \<Rightarrow> Medium \<Rightarrow> string \<Rightarrow> string \<Rightarrow> (storeFault + int) \<times> 'w"
  ms_DeleteObject :: "'w \<Rightarrow> Medium \<Rightarrow> string \<Rightarrow> storeFault option \<times> 'w"
  ms_RestoreStatus :: "'w \<Rightarrow> Medium \<Rightarrow> string \<Rightarrow> storeFault + RestoreState option"

section \<open>Verifying\<close>

record Result =
  rt_Class :: Class
  rt_Passed :: bool
  rt_At :: instant
  rt_Detail :: string

datatype ladderError =
    NotAClass Class
  | NoMediumStore
  | NoPlacementLocation string
  | NothingToCompare string
  | ReadBackFailed string string storeFault
  | CannotAttest string string storeFault
  | EmptyAttestation string string
  | AttestedOther string string
  | NotAskable string string storeFault
  | AccessUnknown classError
  | NotGateClass Class
  | NothingAttemptable AccessState
  | ClassTooStrong AccessState Class Class
  | UnknownDestinationClass classError
  | ArchivedOnArrival ladderError string

definition SHA256Name :: string where "SHA256Name = ''sha256''"

text \<open>All of these wrap \<open>ErrClassUnavailable\<close>; the gate's own wrap \<open>ErrClassRefused\<close>.\<close>

fun ladderRefused :: "ladderError \<Rightarrow> bool" where
  "ladderRefused (NotGateClass c) = True"
| "ladderRefused (NothingAttemptable s) = True"
| "ladderRefused (ClassTooStrong s c d) = True"
| "ladderRefused (UnknownDestinationClass e) = True"
| "ladderRefused (ArchivedOnArrival e c) = True"
| "ladderRefused _ = False"

text \<open>The details of a result name what was compared.\<close>

definition verifyContent ::
  "(string \<Rightarrow> string \<Rightarrow> bool) \<Rightarrow> (string \<Rightarrow> string) \<Rightarrow> 'w MediumStore \<Rightarrow> 'w \<Rightarrow> Medium \<Rightarrow> Placement \<Rightarrow> instant \<Rightarrow> ladderError + Result" where
  "verifyContent uni sha store w medium p now =
     (if p_Hash p = [] \<or> \<not> equalFold uni (p_HashAlg p) SHA256Name then Inl (NothingToCompare (p_HashAlg p))
      else case ms_OpenObject store w medium (p_Location p) of
          Inl e \<Rightarrow> Inl (ReadBackFailed (p_Location p) (p_Medium p) e)
        | Inr bytes \<Rightarrow>
          let digest = sha bytes in
          Inr (if \<not> equalFold uni digest (p_Hash p)
               then \<lparr>rt_Class = Content, rt_Passed = False, rt_At = now,
                 rt_Detail = p_Location p @ '' on '' @ p_Medium p @ '' hashes to '' @ digest @
                   '', but the hash recorded at ingestion was '' @ p_Hash p\<rparr>
               else \<lparr>rt_Class = Content, rt_Passed = True, rt_At = now,
                 rt_Detail = p_Location p @ '' on '' @ p_Medium p @ '' was read back and still hashes to the '' @
                   p_HashAlg p @ '' recorded at ingestion''\<rparr>))"

definition verifyAttested ::
  "(string \<Rightarrow> string \<Rightarrow> bool) \<Rightarrow> 'w MediumStore \<Rightarrow> 'w \<Rightarrow> Medium \<Rightarrow> Placement \<Rightarrow> instant \<Rightarrow> ladderError + Result" where
  "verifyAttested uni store w medium p now =
     (if p_Hash p = [] \<or> \<not> equalFold uni (p_HashAlg p) SHA256Name then Inl (NothingToCompare (p_HashAlg p))
      else case ms_ObjectChecksum store w medium (p_Location p) of
          Inl e \<Rightarrow> Inl (CannotAttest (p_Medium p) (p_Location p) e)
        | Inr a \<Rightarrow>
          if at_Value a = [] then Inl (EmptyAttestation (p_Medium p) (p_Location p))
          else if \<not> equalFold uni (at_Algorithm a) SHA256Name then Inl (AttestedOther (p_Medium p) (at_Algorithm a))
          else Inr (if \<not> equalFold uni (at_Value a) (p_Hash p)
               then \<lparr>rt_Class = Attested, rt_Passed = False, rt_At = now,
                 rt_Detail = p_Location p @ '' on '' @ p_Medium p @ '' is attested as '' @ at_Value a @
                   '', but the hash recorded at ingestion was '' @ p_Hash p\<rparr>
               else \<lparr>rt_Class = Attested, rt_Passed = True, rt_At = now,
                 rt_Detail = p_Location p @ '' on '' @ p_Medium p @ '' is attested by the endpoint as the '' @
                   p_HashAlg p @ '' recorded at ingestion''\<rparr>))"

definition verifyExistence :: "'w MediumStore \<Rightarrow> 'w \<Rightarrow> Medium \<Rightarrow> Placement \<Rightarrow> instant \<Rightarrow> ladderError + Result" where
  "verifyExistence store w medium p now =
     (case ms_StatObject store w medium (p_Location p) of
        Inl ObjectNotFound \<Rightarrow> Inr \<lparr>rt_Class = Existence, rt_Passed = False, rt_At = now,
          rt_Detail = p_Location p @ '' is not present on '' @ p_Medium p\<rparr>
      | Inl e \<Rightarrow> Inl (NotAskable (p_Medium p) (p_Location p) e)
      | Inr info \<Rightarrow>
        Inr (case p_Size p of
            None \<Rightarrow> \<lparr>rt_Class = Existence, rt_Passed = True, rt_At = now,
              rt_Detail = p_Location p @ '' is present on '' @ p_Medium p @ '' at '' @ itoa (oi_Size info) @
                '' bytes; no size was recorded for this placement, so only its presence was confirmed''\<rparr>
          | Some n \<Rightarrow>
            if oi_Size info \<noteq> n
            then \<lparr>rt_Class = Existence, rt_Passed = False, rt_At = now,
              rt_Detail = p_Location p @ '' on '' @ p_Medium p @ '' is '' @ itoa (oi_Size info) @ '' bytes, but '' @
                itoa n @ '' was recorded for this placement''\<rparr>
            else \<lparr>rt_Class = Existence, rt_Passed = True, rt_At = now,
              rt_Detail = p_Location p @ '' is present on '' @ p_Medium p @ '' at the recorded '' @
                itoa (oi_Size info) @ '' bytes''\<rparr>))"

definition ladderVerify ::
  "(string \<Rightarrow> string \<Rightarrow> bool) \<Rightarrow> (string \<Rightarrow> string) \<Rightarrow> 'w MediumStore option \<Rightarrow> 'w \<Rightarrow> Medium \<Rightarrow> Placement \<Rightarrow> Class \<Rightarrow> instant \<Rightarrow> ladderError + Result" where
  "ladderVerify uni sha store w medium p want now =
     (if \<not> ClassValid want then Inl (NotAClass want)
      else case store of None \<Rightarrow> Inl NoMediumStore
      | Some st \<Rightarrow>
        if p_Location p = [] then Inl (NoPlacementLocation (p_Medium p))
        else case want of
            Content \<Rightarrow> verifyContent uni sha st w medium p now
          | Attested \<Rightarrow> verifyAttested uni st w medium p now
          | _ \<Rightarrow> verifyExistence st w medium p now)"

section \<open>The gate\<close>

text \<open>The empty class a ceiling may be is \<open>None\<close>.\<close>

definition Ceiling :: "AccessState \<Rightarrow> Class option" where
  "Ceiling s = (case s of Immediate \<Rightarrow> Some Content | RequiresRestore \<Rightarrow> Some Existence
     | Restoring \<Rightarrow> Some Existence | Unreachable \<Rightarrow> None)"

definition CheckClass :: "AccessState \<Rightarrow> Class \<Rightarrow> ladderError option" where
  "CheckClass s want =
     (if \<not> ClassValid want then Some (NotGateClass want)
      else case Ceiling s of None \<Rightarrow> Some (NothingAttemptable s)
        | Some ceiling \<Rightarrow> if Stronger want ceiling then Some (ClassTooStrong s ceiling want) else None)"

definition CheckDestinationClass :: "string \<Rightarrow> Class \<Rightarrow> ladderError option" where
  "CheckDestinationClass class want =
     (case behaviourOf class of
        Inl e \<Rightarrow> Some (UnknownDestinationClass e)
      | Inr b \<Rightarrow> if \<not> bh_Archive b then None
          else map_option (\<lambda>e. ArchivedOnArrival e class) (CheckClass RequiresRestore want))"

definition VerifyWithAccess ::
  "(string \<Rightarrow> string \<Rightarrow> bool) \<Rightarrow> (string \<Rightarrow> string) \<Rightarrow> 'w MediumStore option \<Rightarrow> 'w \<Rightarrow> Medium \<Rightarrow> Placement \<Rightarrow> Class \<Rightarrow> Observation \<Rightarrow> instant \<Rightarrow> ladderError + Result" where
  "VerifyWithAccess uni sha store w medium p want obs now =
     (case Access (p_Medium p) (me_StorageClass medium) obs now of
        Inl e \<Rightarrow> Inl (AccessUnknown e)
      | Inr access \<Rightarrow>
        (case CheckClass access want of Some e \<Rightarrow> Inl e
         | None \<Rightarrow> ladderVerify uni sha store w medium p want now))"

section \<open>What the ladder reports\<close>

text \<open>A result is of the class that was asked for; no class is answered by a weaker one.\<close>

lemma ladderVerify_class:
  assumes "ladderVerify uni sha store w medium p want now = Inr res"
  shows "rt_Class res = want"
  using assms
  by (auto simp: ladderVerify_def verifyContent_def verifyAttested_def verifyExistence_def ClassValid_def Classes_def Let_def
      split: if_splits option.splits Class.splits sum.splits storeFault.splits)

lemma VerifyWithAccess_class:
  "VerifyWithAccess uni sha store w medium p want obs now = Inr res \<Longrightarrow> rt_Class res = want"
  using ladderVerify_class by (auto simp: VerifyWithAccess_def split: sum.splits option.splits)

end
