(* ===== verification/MoveGuard.thy ===== *)
theory MoveGuard
  imports MoveJournal Ladder Store
begin

text \<open>
  What the move engine is given, and the two checks before it deletes a source: the proof that
  stands in for a second read (\<open>core/internal/placement/predelete.go\<close>) and the guard
  (\<open>sourcedelete.go\<close>), with the verification of a copy they share (\<open>engine.go\<close>).  The engine's
  collaborators are records of calls over a world of any type; calls that only read return no
  world.  Opening a copy and reading it to its end is one call.  The texts of refusals are an
  argument, from the constructors below to strings.
\<close>

section \<open>The collaborators\<close>

datatype localFault = LocalNotPresent | LocalAlreadyPresent | LocalFault string

record LocalStat =
  lt_Size :: "int option"
  lt_ModTime :: "int option"

record 'w LocalStore =
  ls_Stat :: "'w \<Rightarrow> string \<Rightarrow> localFault + LocalStat"
  ls_Open :: "'w \<Rightarrow> string \<Rightarrow> localFault + string"
  ls_Put :: "'w \<Rightarrow> string \<Rightarrow> string \<Rightarrow> localFault option \<times> 'w"
  ls_Remove :: "'w \<Rightarrow> string \<Rightarrow> localFault option \<times> 'w"

record LstatInfo =
  li_Mode :: FileMode
  li_Size :: int

record 'w EngineOS =
  eo_Lstat :: "'w \<Rightarrow> string \<Rightarrow> pathError + LstatInfo"
  eo_EvalSymlinks :: "'w \<Rightarrow> string \<Rightarrow> string + string"
  eo_MkdirAll :: "'w \<Rightarrow> string \<Rightarrow> string option \<times> 'w"
  eo_ReadDir :: "'w \<Rightarrow> string \<Rightarrow> string + (string \<times> bool) list"
  eo_FreeBytes :: "'w \<Rightarrow> string \<Rightarrow> string + int"

record 'w MoveJournalOps =
  mj_Get :: "'w \<Rightarrow> ArtifactID \<Rightarrow> journalError + Record"
  mj_PlanMove :: "'w \<Rightarrow> MovePlan \<Rightarrow> (journalError + Move) \<times> 'w"
  mj_AdvanceMove :: "'w \<Rightarrow> MoveAdvance \<Rightarrow> (journalError + Move) \<times> 'w"
  mj_ListMoves :: "'w \<Rightarrow> Phase list \<Rightarrow> journalError + Move list"

section \<open>Refusals\<close>

datatype keyError = KeyNoSet | KeyEmpty | KeyTraversing | KeySeparator | KeyUnprintable | KeyPadded

datatype moveError =
    JournalSays journalError
  | NeedsMoveJournal
  | NotEligible notEligible
  | NoResolver string
  | ResolveFailed string
  | NoSetResolver BackupSetID
  | SetFailed string
  | SetNoStore BackupSetID storeError
  | SetNoLocalPath BackupSetID
  | SetNotAbsolute BackupSetID string
  | KeyRefused keyError
  | LadderSays ladderError
  | NoLocalStore
  | NoLocalStoreConfigured
  | NoLocalStoreToStage
  | NoStoreConfigured
  | LocalReadBack string localFault
  | StoreSays storeFault
  | LocalSays localFault
  | NoSizeReported string
  | StagingFailed string
  | StagingUnmeasured string string
  | StagingNoSize string
  | StagingFull int string int
  | StagingNotCleared string localFault
  | StagingForeign string
  | StagingNotRemoved string localFault
  | StagingTempLeft string localFault
  | StagedUnreadable string moveError
  | SourceUnreadable string classError
  | SourceNotStageable ladderError string
  | Unnoted moveError moveError
  | CopyFailed ArtifactID string moveError
  | NoPlacementToDelete ArtifactID string
  | NotReverified ArtifactID string Class moveError
  | DeleteFailed ArtifactID string moveError
  | DiscardFailed ArtifactID string moveError
  | UnknownMovePhase nat Phase
  | TooManySteps nat Phase
  | SourceAlreadyGone
  | GuardRefused ArtifactID string guardRefusal
and notEligible =
    MoveNotComplete ArtifactID State
  | NoActivePlacement ArtifactID
  | AlreadyThere ArtifactID string
  | SeveralActive ArtifactID nat
  | NoSourceLocation ArtifactID string
  | NoSourceHash ArtifactID string
  | CannotStage ArtifactID string string moveError
  | CannotVerifyThere ArtifactID string moveError
and guardRefusal =
    GuardPhase Phase
  | GuardOnePlace string
  | GuardNotComplete State
  | GuardNoDestination string
  | GuardDestinationStatus string string
  | GuardOtherKey string string
  | GuardClass string Class
  | GuardNoTime
  | GuardNoHash
  | GuardNoSource
  | GuardSourceStatus string
  | GuardNoSourceLocation
  | GuardOtherBytes string string
  | GuardNoTiers
  | GuardTiersFailed string
  | GuardSelected string
  | GuardSays moveError
  | GuardNoRoot BackupSetID
  | GuardRootRelative string
  | GuardPartial string
  | GuardOtherPath string string
  | GuardStat string string
  | GuardSymlink string
  | GuardIrregular string
  | GuardRootUnresolved string string
  | GuardDirUnresolved string string
  | GuardOutside string string
  | GuardSize int int
  | GuardNoStore
  | GuardNotAskable string storeFault
  | GuardClassUnknown string string classError
  | GuardNoSurvivor survivorError

text \<open>\<open>errors.Is\<close> for the three errors the engine asks for; an error that quotes another with
  \<open>%v\<close> does not wrap it.\<close>

fun isRefused :: "moveError \<Rightarrow> bool" where
  "isRefused (LadderSays e) = ladderRefused e"
| "isRefused (SourceNotStageable e c) = ladderRefused e"
| "isRefused (NotEligible (CannotVerifyThere a m e)) = isRefused e"
| "isRefused (StagedUnreadable p e) = isRefused e"
| "isRefused (Unnoted e n) = isRefused e"
| "isRefused (CopyFailed a m e) = isRefused e"
| "isRefused (NotReverified a m c e) = isRefused e"
| "isRefused _ = False"

fun isUnavailable :: "moveError \<Rightarrow> bool" where
  "isUnavailable (LadderSays e) = True"
| "isUnavailable (LocalReadBack p e) = True"
| "isUnavailable NoLocalStore = True"
| "isUnavailable (SourceUnreadable m e) = True"
| "isUnavailable (SourceNotStageable e c) = True"
| "isUnavailable (NotEligible (CannotVerifyThere a m e)) = isUnavailable e"
| "isUnavailable (StagedUnreadable p e) = isUnavailable e"
| "isUnavailable (Unnoted e n) = isUnavailable e"
| "isUnavailable (CopyFailed a m e) = isUnavailable e"
| "isUnavailable (NotReverified a m c e) = isUnavailable e"
| "isUnavailable _ = False"

fun PolicyRefusal :: "moveError \<Rightarrow> bool" where
  "PolicyRefusal (NotEligible r) = True"
| "PolicyRefusal _ = False"

text \<open>The reasons the engine records on a move's row.\<close>

datatype moveReason =
    WhyError moveError
  | WhyNothingToCopy ArtifactID string
  | WhyNotTo ArtifactID string moveError
  | WhyNotFromTo ArtifactID string string moveError
  | WhyGaveUp string int
  | WhyNoHash ArtifactID string
  | WhyRefusedThere string Class moveError
  | WhyNotVerified string Class moveError
  | WhyFailed string Class string
  | WhyNotReverified string Class moveError
  | WhyOtherClass Class Class
  | WhyFailedAgain string Class string

record 'w Engine =
  en_Store :: "'w MediumStore option"
  en_Local :: "'w LocalStore option"
  en_Mediums :: "(string \<Rightarrow> string + (Medium \<times> Class)) option"
  en_Sets :: "(BackupSetID \<Rightarrow> string + SetConfig) option"
  en_Tiers :: "('w \<Rightarrow> Record \<Rightarrow> string \<Rightarrow> string + (bool \<times> string)) option"
  en_OS :: "'w EngineOS"
  en_Now :: "'w \<Rightarrow> instant"
  en_MaxMovesPerCycle :: int
  en_MaxCopyAttempts :: int
  en_SHA256 :: "string \<Rightarrow> string"
  en_FoldOther :: "string \<Rightarrow> string \<Rightarrow> bool"
  en_Why :: "moveReason \<Rightarrow> string"

section \<open>Places\<close>

definition placementOn :: "Record \<Rightarrow> string \<Rightarrow> Placement option" where
  "placementOn rec medium = find (\<lambda>p. p_Medium p = medium) (r_Placements rec)"

definition resolve :: "'w Engine \<Rightarrow> string \<Rightarrow> moveError + (Medium \<times> Class)" where
  "resolve e i = (case en_Mediums e of None \<Rightarrow> Inl (NoResolver i) | Some f \<Rightarrow> mapErr ResolveFailed (f i))"

definition backupSet :: "'w Engine \<Rightarrow> BackupSetID \<Rightarrow> moveError + SetConfig" where
  "backupSet e i = (case en_Sets e of None \<Rightarrow> Inl (NoSetResolver i) | Some f \<Rightarrow> mapErr SetFailed (f i))"

definition localArtifactPath :: "SetConfig \<Rightarrow> ArtifactID \<Rightarrow> moveError + string" where
  "localArtifactPath bs artifact =
     (case NewLocal (sc_LocalPath bs) of
        Inl err \<Rightarrow> Inl (SetNoStore (sc_ID bs) err)
      | Inr store \<Rightarrow> mapErr (SetNoStore (sc_ID bs)) (Locator store artifact))"

definition validKeySegment :: "string \<Rightarrow> keyError option" where
  "validKeySegment s =
     (if s = [] then Some KeyEmpty
      else if s = ''.'' \<or> s = ''..'' then Some KeyTraversing
      else if containsByte s (CHR ''/'') then Some KeySeparator
      else if containsAny s [CHR 0x5C, CHR 0x00, CHR 0x0A, CHR 0x0D] then Some KeyUnprintable
      else if trimSpace s \<noteq> s then Some KeyPadded
      else None)"

definition MediumKey :: "string \<Rightarrow> ArtifactID \<Rightarrow> keyError + string" where
  "MediumKey pre artifact =
     (if setIsZero (ar_Set artifact) then Inl KeyNoSet
      else
        let segments = (if pre \<noteq> [] then splitOn (CHR ''/'') pre else [])
              @ [bs_Source (ar_Set artifact), bs_Set (ar_Set artifact), ar_Name artifact] in
        (case List.map_filter validKeySegment segments of
           err # _ \<Rightarrow> Inl err
         | [] \<Rightarrow> Inr (joinStrings ''/'' segments)))"

definition destinationCanBeVerified :: "'w Engine \<Rightarrow> string \<Rightarrow> moveError option" where
  "destinationCanBeVerified e destination =
     (if destination = MediumLocal then None
      else case resolve e destination of
          Inl err \<Rightarrow> Some err
        | Inr (medium, want) \<Rightarrow> map_option LadderSays (CheckDestinationClass (me_StorageClass medium) want))"

section \<open>Verifying a copy\<close>

definition observe :: "'w Engine \<Rightarrow> 'w \<Rightarrow> Medium \<Rightarrow> string \<Rightarrow> string \<Rightarrow> Observation" where
  "observe e w medium key class =
     (if \<not> IsArchive class then noObservation
      else case en_Store e of None \<Rightarrow> noObservation
        | Some store \<Rightarrow>
          (case ms_RestoreStatus store w medium key of
             Inl _ \<Rightarrow> \<lparr>ob_Probe = DidNotAnswer, ob_Restore = None\<rparr>
           | Inr restore \<Rightarrow> \<lparr>ob_Probe = Answered, ob_Restore = restore\<rparr>))"

definition verifyLocalCopy :: "'w Engine \<Rightarrow> 'w \<Rightarrow> Placement \<Rightarrow> moveError + Result" where
  "verifyLocalCopy e w p =
     (case en_Local e of None \<Rightarrow> Inl NoLocalStore
      | Some store \<Rightarrow>
        (case ls_Open store w (p_Location p) of
           Inl err \<Rightarrow> Inl (LocalReadBack (p_Location p) err)
         | Inr bytes \<Rightarrow>
           let digest = en_SHA256 e bytes; now = en_Now e w in
           Inr (if \<not> equalFold (en_FoldOther e) digest (p_Hash p)
                then \<lparr>rt_Class = Content, rt_Passed = False, rt_At = now,
                  rt_Detail = p_Location p @ '' hashes to '' @ digest @
                    '', but the hash recorded at ingestion was '' @ p_Hash p\<rparr>
                else \<lparr>rt_Class = Content, rt_Passed = True, rt_At = now,
                  rt_Detail = p_Location p @ '' was read back and still hashes to the '' @ p_HashAlg p @
                    '' recorded at ingestion''\<rparr>)))"

definition candidateCopy :: "Move \<Rightarrow> Placement \<Rightarrow> Placement" where
  "candidateCopy mv src =
     \<lparr>p_Medium = mv_DestinationMedium mv, p_Location = mv_DestinationKey mv, p_Size = p_Size src,
      p_Hash = p_Hash src, p_HashAlg = p_HashAlg src, p_VerificationClass = [], p_VerifiedAt = None,
      p_Status = [], p_CreatedAt = zeroTime, p_UpdatedAt = zeroTime\<rparr>"

definition verifyCopy :: "'w Engine \<Rightarrow> 'w \<Rightarrow> Move \<Rightarrow> Placement \<Rightarrow> bool \<Rightarrow> Class \<times> (moveError + Result)" where
  "verifyCopy e w mv src gated =
     (let candidate = candidateCopy mv src in
      if mv_DestinationMedium mv = MediumLocal then (Content, verifyLocalCopy e w candidate)
      else case resolve e (mv_DestinationMedium mv) of
          Inl err \<Rightarrow> (RawClass [], Inl err)
        | Inr (medium, want) \<Rightarrow>
          if en_Store e = None then (want, Inl NoStoreConfigured)
          else if \<not> gated then
            (want, mapErr LadderSays (ladderVerify (en_FoldOther e) (en_SHA256 e) (en_Store e) w medium candidate want (en_Now e w)))
          else
            let obs = observe e w medium (mv_DestinationKey mv) (me_StorageClass medium) in
            (want, mapErr LadderSays (VerifyWithAccess (en_FoldOther e) (en_SHA256 e) (en_Store e) w medium candidate want obs (en_Now e w))))"

section \<open>The proof of a read just made\<close>

text \<open>An identity that is not usable is \<open>None\<close>.\<close>

record objectIdentity =
  id_size :: int
  id_modTime :: int
  id_storageClass :: string

definition identityMatches :: "objectIdentity option \<Rightarrow> objectIdentity option \<Rightarrow> bool" where
  "identityMatches a b = (case (a, b) of (Some x, Some y) \<Rightarrow> x = y | _ \<Rightarrow> False)"

record readBackProof =
  pf_moveID :: nat
  pf_medium :: string
  pf_key :: string
  pf_class :: Class
  pf_hash :: string
  pf_hashAlg :: string
  pf_size :: "int option"
  pf_identity :: objectIdentity
  pf_result :: Result

definition preDeleteProofValidity :: int where "preDeleteProofValidity = 120 * 1000000000"

definition recordProof :: "Move \<Rightarrow> Placement \<Rightarrow> Class \<Rightarrow> Result \<Rightarrow> objectIdentity option \<Rightarrow> readBackProof option" where
  "recordProof mv src want result identity =
     (if want \<noteq> Content then None
      else if \<not> rt_Passed result \<or> rt_Class result \<noteq> Content then None
      else case identity of None \<Rightarrow> None
        | Some i \<Rightarrow>
          if rt_At result = zeroTime then None
          else if p_Hash src = [] then None
          else Some \<lparr>pf_moveID = mv_ID mv, pf_medium = mv_DestinationMedium mv, pf_key = mv_DestinationKey mv,
            pf_class = Content, pf_hash = p_Hash src, pf_hashAlg = p_HashAlg src, pf_size = p_Size src,
            pf_identity = i, pf_result = result\<rparr>)"

definition isAbout :: "'w Engine \<Rightarrow> readBackProof option \<Rightarrow> Move \<Rightarrow> Placement \<Rightarrow> Class \<Rightarrow> bool" where
  "isAbout e proof mv src want =
     (case proof of None \<Rightarrow> False
      | Some p \<Rightarrow>
        want = Content \<and> pf_class p = Content
        \<and> pf_moveID p = mv_ID mv \<and> pf_medium p = mv_DestinationMedium mv \<and> pf_key p = mv_DestinationKey mv
        \<and> equalFold (en_FoldOther e) (pf_hash p) (p_Hash src)
        \<and> equalFold (en_FoldOther e) (pf_hashAlg p) (p_HashAlg src)
        \<and> pf_size p = p_Size src)"

text \<open>The verdict a spent proof gives; its detail also says how long ago the read was.\<close>

definition takeProof :: "readBackProof \<Rightarrow> Result" where
  "takeProof p = (pf_result p)\<lparr>rt_Detail := rt_Detail (pf_result p) @ ''; that read finished before this delete, and '' @
     pf_medium p @ '' reports the same size, mod time and storage class for it now''\<rparr>"

definition identifyDestination :: "'w Engine \<Rightarrow> 'w \<Rightarrow> Move \<Rightarrow> objectIdentity option" where
  "identifyDestination e w mv =
     (if mv_DestinationMedium mv = MediumLocal then
        (case en_Local e of None \<Rightarrow> None
         | Some store \<Rightarrow>
           (case ls_Stat store w (mv_DestinationKey mv) of
              Inl _ \<Rightarrow> None
            | Inr st \<Rightarrow>
              (case (lt_Size st, lt_ModTime st) of
                 (Some n, Some t) \<Rightarrow> Some \<lparr>id_size = n, id_modTime = t, id_storageClass = []\<rparr>
               | _ \<Rightarrow> None)))
      else
        (case (resolve e (mv_DestinationMedium mv), en_Store e) of
           (Inr (medium, _), Some store) \<Rightarrow>
             (case ms_StatObject store w medium (mv_DestinationKey mv) of
                Inl _ \<Rightarrow> None
              | Inr info \<Rightarrow>
                if oi_ModTime info = 0 then None
                else Some \<lparr>id_size = oi_Size info, id_modTime = oi_ModTime info, id_storageClass = oi_StorageClass info\<rparr>)
         | _ \<Rightarrow> None))"

definition destinationClass :: "'w Engine \<Rightarrow> Move \<Rightarrow> moveError + Class" where
  "destinationClass e mv =
     (if mv_DestinationMedium mv = MediumLocal then Inr Content
      else case resolve e (mv_DestinationMedium mv) of Inl err \<Rightarrow> Inl err | Inr (_, want) \<Rightarrow> Inr want)"

definition identifyBeforeReadBack :: "'w Engine \<Rightarrow> 'w \<Rightarrow> Move \<Rightarrow> objectIdentity option" where
  "identifyBeforeReadBack e w mv =
     (if destinationClass e mv \<noteq> Inr Content then None
      else if destinationCanBeVerified e (mv_DestinationMedium mv) \<noteq> None then None
      else identifyDestination e w mv)"

text \<open>The verdict the delete acts on, and the proof that is left.\<close>

definition reverifyForDelete ::
  "'w Engine \<Rightarrow> 'w \<Rightarrow> Move \<Rightarrow> Placement \<Rightarrow> readBackProof option \<Rightarrow> (Class \<times> (moveError + Result)) \<times> readBackProof option" where
  "reverifyForDelete e w mv src proof =
     (case (destinationClass e mv, proof) of
        (Inr want, Some p) \<Rightarrow>
          let age = timeSub (en_Now e w) (rt_At (pf_result p)) in
          if isAbout e proof mv src want \<and> 0 \<le> age \<and> age \<le> preDeleteProofValidity
             \<and> identityMatches (identifyDestination e w mv) (Some (pf_identity p))
          then ((want, Inr (takeProof p)), None)
          else (verifyCopy e w mv src False, proof)
      | _ \<Rightarrow> (verifyCopy e w mv src False, proof))"

section \<open>The guard\<close>

definition movePartialSuffix :: string where "movePartialSuffix = ''.partial''"

datatype deleteTarget = LocalTarget string | MediumTarget Medium string

definition proveLocalSourceSafe :: "'w Engine \<Rightarrow> 'w \<Rightarrow> Record \<Rightarrow> Placement \<Rightarrow> moveError + string" where
  "proveLocalSourceSafe e w rec src =
     (let refuse = (\<lambda>why. Inl (GuardRefused (r_Artifact rec) MediumLocal why)) in
      case backupSet e (ar_Set (r_Artifact rec)) of
        Inl err \<Rightarrow> refuse (GuardSays err)
      | Inr bs \<Rightarrow>
        if sc_LocalPath bs = [] then refuse (GuardNoRoot (sc_ID bs))
        else if \<not> isAbs (sc_LocalPath bs) then refuse (GuardRootRelative (sc_LocalPath bs))
        else case localArtifactPath bs (r_Artifact rec) of
            Inl err \<Rightarrow> refuse (GuardSays err)
          | Inr expected \<Rightarrow>
            if hasSuffix expected movePartialSuffix then refuse (GuardPartial expected)
            else if p_Location src \<noteq> expected then refuse (GuardOtherPath (p_Location src) expected)
            else case eo_Lstat (en_OS e) w expected of
                Inl NotExist \<Rightarrow> Inl SourceAlreadyGone
              | Inl (PathError err) \<Rightarrow> refuse (GuardStat expected err)
              | Inr info \<Rightarrow>
                if li_Mode info = ModeSymlink then refuse (GuardSymlink expected)
                else if li_Mode info \<noteq> ModeRegular then refuse (GuardIrregular expected)
                else case eo_EvalSymlinks (en_OS e) w (sc_LocalPath bs) of
                    Inl err \<Rightarrow> refuse (GuardRootUnresolved (sc_LocalPath bs) err)
                  | Inr resolvedRoot \<Rightarrow>
                    (case eo_EvalSymlinks (en_OS e) w (pathDir expected) of
                       Inl err \<Rightarrow> refuse (GuardDirUnresolved (pathDir expected) err)
                     | Inr resolvedDir \<Rightarrow>
                       if resolvedDir \<noteq> resolvedRoot then refuse (GuardOutside resolvedDir resolvedRoot)
                       else case p_Size src of
                           Some n \<Rightarrow> if li_Size info \<noteq> n then refuse (GuardSize (li_Size info) n)
                                     else Inr (pathJoin resolvedRoot (ar_Name (r_Artifact rec)))
                         | None \<Rightarrow> Inr (pathJoin resolvedRoot (ar_Name (r_Artifact rec)))))"

definition proveMediumSourceSafe :: "'w Engine \<Rightarrow> 'w \<Rightarrow> Move \<Rightarrow> Placement \<Rightarrow> moveError + (Medium \<times> string)" where
  "proveMediumSourceSafe e w mv src =
     (let refuse = (\<lambda>why. Inl (GuardRefused (mv_Artifact mv) (p_Medium src) why)) in
      case resolve e (p_Medium src) of
        Inl err \<Rightarrow> refuse (GuardSays err)
      | Inr (medium, _) \<Rightarrow>
        (case en_Store e of None \<Rightarrow> refuse GuardNoStore
         | Some store \<Rightarrow>
           (case ms_StatObject store w medium (p_Location src) of
              Inl ObjectNotFound \<Rightarrow> Inl SourceAlreadyGone
            | Inl err \<Rightarrow> refuse (GuardNotAskable (p_Location src) err)
            | Inr info \<Rightarrow>
              (case p_Size src of
                 Some n \<Rightarrow> if oi_Size info \<noteq> n then refuse (GuardSize (oi_Size info) n) else Inr (medium, p_Location src)
               | None \<Rightarrow> Inr (medium, p_Location src)))))"

text \<open>The access state of every recorded copy, in the order of the placements; an unknown storage class
  stops the loop.\<close>

fun copiesLoop :: "'w Engine \<Rightarrow> 'w \<Rightarrow> Placement list \<Rightarrow> (string \<times> string \<times> classError) + Copy list" where
  "copiesLoop e w [] = Inr []"
| "copiesLoop e w (p # ps) =
     bindE
       (if IsLocal p then
          (case Access (p_Medium p) [] noObservation (en_Now e w) of
             Inl err \<Rightarrow> Inl (p_Medium p, [], err)
           | Inr access \<Rightarrow> Inr \<lparr>cp_Placement = p, cp_Class = [], cp_Access = access\<rparr>)
        else case resolve e (p_Medium p) of
            Inl _ \<Rightarrow> Inr \<lparr>cp_Placement = p, cp_Class = [], cp_Access = Unreachable\<rparr>
          | Inr (medium, _) \<Rightarrow>
            let obs = (if p_Status p = PlacementActive then observe e w medium (p_Location p) (me_StorageClass medium)
                       else noObservation) in
            (case Access (p_Medium p) (me_StorageClass medium) obs (en_Now e w) of
               Inl err \<Rightarrow> Inl (p_Medium p, me_StorageClass medium, err)
             | Inr access \<Rightarrow> Inr \<lparr>cp_Placement = p, cp_Class = me_StorageClass medium, cp_Access = access\<rparr>))
       (\<lambda>c. bindE (copiesLoop e w ps) (\<lambda>cs. Inr (c # cs)))"

definition copiesOf :: "'w Engine \<Rightarrow> 'w \<Rightarrow> Record \<Rightarrow> (string \<times> string \<times> classError) + Copy list" where
  "copiesOf e w rec = copiesLoop e w (r_Placements rec)"

definition noCopy :: Copy where
  "noCopy = \<lparr>cp_Placement = \<lparr>p_Medium = [], p_Location = [], p_Size = None, p_Hash = [], p_HashAlg = [],
     p_VerificationClass = [], p_VerifiedAt = None, p_Status = [], p_CreatedAt = zeroTime, p_UpdatedAt = zeroTime\<rparr>,
     cp_Class = [], cp_Access = Unreachable\<rparr>"

definition lastOn :: "string \<Rightarrow> Copy list \<Rightarrow> Copy" where
  "lastOn medium copies = foldl (\<lambda>deleting c. if p_Medium (cp_Placement c) = medium then c else deleting) noCopy copies"

definition guardSourceDelete :: "'w Engine \<Rightarrow> 'w \<Rightarrow> Move \<Rightarrow> Record \<Rightarrow> Class \<Rightarrow> moveError + deleteTarget" where
  "guardSourceDelete e w mv rec want =
     (let refuse = (\<lambda>why. Inl (GuardRefused (mv_Artifact mv) (mv_SourceMedium mv) why)) in
      if mv_Phase mv \<noteq> MoveSourceDeletePending then refuse (GuardPhase (mv_Phase mv))
      else if mv_SourceMedium mv = mv_DestinationMedium mv then refuse (GuardOnePlace (mv_DestinationMedium mv))
      else if r_State rec \<noteq> Complete then refuse (GuardNotComplete (r_State rec))
      else case placementOn rec (mv_DestinationMedium mv) of
        None \<Rightarrow> refuse (GuardNoDestination (mv_DestinationMedium mv))
      | Some dst \<Rightarrow>
        if p_Status dst \<noteq> PlacementActive then refuse (GuardDestinationStatus (mv_DestinationMedium mv) (p_Status dst))
        else if p_Location dst \<noteq> mv_DestinationKey mv then refuse (GuardOtherKey (p_Location dst) (mv_DestinationKey mv))
        else if p_VerificationClass dst \<noteq> classString want then refuse (GuardClass (p_VerificationClass dst) want)
        else if p_VerifiedAt dst = None then refuse GuardNoTime
        else if p_Hash dst = [] then refuse GuardNoHash
        else case placementOn rec (mv_SourceMedium mv) of
          None \<Rightarrow> refuse GuardNoSource
        | Some src \<Rightarrow>
          if p_Status src \<noteq> PlacementDeletePending then refuse (GuardSourceStatus (p_Status src))
          else if p_Location src = [] then refuse GuardNoSourceLocation
          else if \<not> equalFold (en_FoldOther e) (p_Hash dst) (p_Hash src) then refuse (GuardOtherBytes (p_Hash dst) (p_Hash src))
          else case en_Tiers e of None \<Rightarrow> refuse GuardNoTiers
          | Some tiers \<Rightarrow>
            (case tiers w rec (mv_SourceMedium mv) of
               Inl err \<Rightarrow> refuse (GuardTiersFailed err)
             | Inr (selected, why) \<Rightarrow>
               if selected then refuse (GuardSelected why)
               else
                 bindE (if p_Medium src = MediumLocal then bindE (proveLocalSourceSafe e w rec src) (\<lambda>path. Inr (LocalTarget path))
                        else bindE (proveMediumSourceSafe e w mv src) (\<lambda>(medium, key). Inr (MediumTarget medium key)))
                   (\<lambda>target.
                   (case copiesOf e w rec of
                      Inl (m, c, err) \<Rightarrow> refuse (GuardClassUnknown m c err)
                    | Inr copies \<Rightarrow>
                      (case CheckSourceDelete (lastOn (p_Medium src) copies) copies of
                         Some err \<Rightarrow> refuse (GuardNoSurvivor err)
                       | None \<Rightarrow> Inr target)))))"

end
