(* ===== verification/MoveEngine.thy ===== *)
theory MoveEngine
  imports MoveGuard
begin

text \<open>
  The move engine (\<open>core/internal/placement/engine.go\<close>) with its staging of copies between two
  mediums (\<open>staging.go\<close>): planning, the six steps of a walk, the driver and the cycle.  A step is
  a function of the world that returns the move's row or an error, and the world; the proof of the
  last read is passed along a walk.  The driver's loop is a recursion on the number of steps left,
  32 at the start.
\<close>

section \<open>Calls in a row\<close>

definition andThen :: "('e + 'a) \<times> 'w \<Rightarrow> ('a \<Rightarrow> 'w \<Rightarrow> ('e + 'b) \<times> 'w) \<Rightarrow> ('e + 'b) \<times> 'w" where
  "andThen r f = (case r of (Inl e, w) \<Rightarrow> (Inl e, w) | (Inr a, w) \<Rightarrow> f a w)"

text \<open>A call that changes the world and answers with an error or nothing.\<close>

definition calling :: "('f \<Rightarrow> 'e) \<Rightarrow> 'f option \<times> 'w \<Rightarrow> ('e + unit) \<times> 'w" where
  "calling g r = (case r of (None, w) \<Rightarrow> (Inr (), w) | (Some f, w) \<Rightarrow> (Inl (g f), w))"

lemma andThen_simps [simp]:
  "andThen (Inl e, w) f = (Inl e, w)" "andThen (Inr a, w) f = f a w"
  by (simp_all add: andThen_def)

lemma andThen_Inr: "andThen r f = (Inr b, w') \<longleftrightarrow> (\<exists>a w. r = (Inr a, w) \<and> f a w = (Inr b, w'))"
  by (cases r; cases "fst r") (auto simp: andThen_def)

lemma calling_simps [simp]: "calling g (None, w) = (Inr (), w)" "calling g (Some f, w) = (Inl (g f), w)"
  by (simp_all add: calling_def)

type_synonym 'w moved = "(moveError + Move) \<times> 'w"

section \<open>Phase writes\<close>

definition getRecord :: "'w MoveJournalOps \<Rightarrow> 'w \<Rightarrow> ArtifactID \<Rightarrow> (moveError + Record) \<times> 'w" where
  "getRecord j w a = (mapErr JournalSays (mj_Get j w a), w)"

definition writeMove :: "'w MoveJournalOps \<Rightarrow> 'w \<Rightarrow> MoveAdvance \<Rightarrow> 'w moved" where
  "writeMove j w a = map_prod (mapErr JournalSays) id (mj_AdvanceMove j w (checked a))"

definition advanceTo :: "'w Engine \<Rightarrow> 'w \<Rightarrow> Move \<Rightarrow> Phase \<Rightarrow> Phase \<Rightarrow> MoveAdvance" where
  "advanceTo e w mv fr to =
     \<lparr>ma_MoveID = mv_ID mv, ma_From = fr, ma_To = to, ma_OccurredAt = en_Now e w, ma_BytesCopied = None,
      ma_Error = [], ma_Placements = []\<rparr>"

definition moveStep :: "'w MoveJournalOps \<Rightarrow> 'w Engine \<Rightarrow> 'w \<Rightarrow> Move \<Rightarrow> Phase \<Rightarrow> Phase \<Rightarrow> string \<Rightarrow> 'w moved" where
  "moveStep j e w mv fr to why = writeMove j w ((advanceTo e w mv fr to)\<lparr>ma_Error := why\<rparr>)"

text \<open>The text of a reason put behind the one the row already carries.\<close>

definition behind :: "Move \<Rightarrow> string \<Rightarrow> string" where
  "behind mv why = (if mv_Error mv \<noteq> [] then trimSuffix (mv_Error mv) ''.'' @ ''; '' @ why else why)"

definition noteOnRow :: "'w MoveJournalOps \<Rightarrow> 'w Engine \<Rightarrow> 'w \<Rightarrow> Move \<Rightarrow> moveError \<Rightarrow> 'w moved" where
  "noteOnRow j e w mv why =
     (case moveStep j e w mv (mv_Phase mv) (mv_Phase mv) (en_Why e (WhyError why)) of
        (Inl n, w') \<Rightarrow> (Inl (Unnoted why n), w')
      | (Inr _, w') \<Rightarrow> (Inl why, w'))"

section \<open>Staging\<close>

definition StagingDirName :: string where "StagingDirName = ''.moves''"
definition stagingTempPrefix :: string where "stagingTempPrefix = ''.artifactstore-''"

definition stagingPath :: "'w Engine \<Rightarrow> ArtifactID \<Rightarrow> moveError + string" where
  "stagingPath e artifact =
     bindE (backupSet e (ar_Set artifact)) (\<lambda>bs.
       if sc_LocalPath bs = [] then Inl (SetNoLocalPath (sc_ID bs))
       else if \<not> isAbs (sc_LocalPath bs) then Inl (SetNotAbsolute (sc_ID bs) (sc_LocalPath bs))
       else case NewLocal (pathJoin (sc_LocalPath bs) StagingDirName) of
           Inl err \<Rightarrow> Inl (SetNoStore (sc_ID bs) err)
         | Inr store \<Rightarrow> mapErr (SetNoStore (sc_ID bs)) (Locator store artifact))"

definition canStage :: "'w Engine \<Rightarrow> ArtifactID \<Rightarrow> moveError option" where
  "canStage e artifact =
     (if en_Local e = None then Some NoLocalStoreToStage
      else case stagingPath e artifact of Inl err \<Rightarrow> Some err | Inr _ \<Rightarrow> None)"

definition classOrDefault :: "string \<Rightarrow> string" where
  "classOrDefault class = (if class = [] then ''STANDARD'' else class)"

definition sourceCanBeStaged :: "'w Engine \<Rightarrow> 'w \<Rightarrow> Medium \<Rightarrow> Placement \<Rightarrow> moveError option" where
  "sourceCanBeStaged e w medium src =
     (let obs = observe e w medium (p_Location src) (me_StorageClass medium) in
      case Access (p_Medium src) (me_StorageClass medium) obs (en_Now e w) of
        Inl err \<Rightarrow> Some (SourceUnreadable (p_Medium src) err)
      | Inr access \<Rightarrow>
        map_option (\<lambda>err. SourceNotStageable err (classOrDefault (me_StorageClass medium))) (CheckClass access Content))"

definition roomToStage :: "'w Engine \<Rightarrow> 'w \<Rightarrow> string \<Rightarrow> Placement \<Rightarrow> moveError option" where
  "roomToStage e w staged src =
     (case p_Size src of None \<Rightarrow> Some (StagingNoSize (p_Medium src))
      | Some n \<Rightarrow>
        (case eo_FreeBytes (en_OS e) w (pathDir staged) of
           Inl err \<Rightarrow> Some (StagingUnmeasured (pathDir staged) err)
         | Inr free \<Rightarrow> if free < n then Some (StagingFull n (pathDir staged) free) else None))"

definition stagedCopyIsTheArtifact :: "'w Engine \<Rightarrow> 'w LocalStore \<Rightarrow> 'w \<Rightarrow> string \<Rightarrow> Placement \<Rightarrow> moveError + bool" where
  "stagedCopyIsTheArtifact e store w staged src =
     (case ls_Stat store w staged of
        Inl LocalNotPresent \<Rightarrow> Inr False
      | Inl err \<Rightarrow> Inl (LocalSays err)
      | Inr _ \<Rightarrow>
        bindE (mapErr (StagedUnreadable staged) (verifyLocalCopy e w
            (src\<lparr>p_Medium := MediumLocal, p_Location := staged\<rparr>)))
          (\<lambda>result. Inr (rt_Passed result)))"

text \<open>The temporary files of interrupted downloads, in the order the directory lists them.\<close>

fun sweepLoop :: "'w LocalStore \<Rightarrow> 'w \<Rightarrow> string \<Rightarrow> (string \<times> bool) list \<Rightarrow> (moveError + unit) \<times> 'w" where
  "sweepLoop store w dir [] = (Inr (), w)"
| "sweepLoop store w dir ((n, isDir) # rest) =
     (if isDir \<or> \<not> hasPrefix n stagingTempPrefix then sweepLoop store w dir rest
      else andThen (calling (StagingTempLeft (pathJoin dir n)) (ls_Remove store w (pathJoin dir n)))
             (\<lambda>_ w. sweepLoop store w dir rest))"

definition sweepStagingTemps :: "'w Engine \<Rightarrow> 'w LocalStore \<Rightarrow> 'w \<Rightarrow> string \<Rightarrow> (moveError + unit) \<times> 'w" where
  "sweepStagingTemps e store w dir =
     (case eo_ReadDir (en_OS e) w dir of Inl _ \<Rightarrow> (Inr (), w) | Inr entries \<Rightarrow> sweepLoop store w dir entries)"

definition putTolerant :: "'w LocalStore \<Rightarrow> 'w \<Rightarrow> string \<Rightarrow> string \<Rightarrow> (moveError + unit) \<times> 'w" where
  "putTolerant store w path bytes =
     (case ls_Put store w path bytes of
        (None, w') \<Rightarrow> (Inr (), w')
      | (Some LocalAlreadyPresent, w') \<Rightarrow> (Inr (), w')
      | (Some err, w') \<Rightarrow> (Inl (LocalSays err), w'))"

definition stageFromMedium ::
  "'w Engine \<Rightarrow> 'w LocalStore \<Rightarrow> 'w MediumStore \<Rightarrow> 'w \<Rightarrow> Medium \<Rightarrow> Placement \<Rightarrow> string \<Rightarrow> (moveError + unit) \<times> 'w" where
  "stageFromMedium e lst mst w medium src staged =
     andThen (stagedCopyIsTheArtifact e lst w staged src, w) (\<lambda>there w.
       if there then (Inr (), w)
       else andThen (calling (StagingNotCleared staged) (ls_Remove lst w staged)) (\<lambda>_ w.
         andThen (mapErr StoreSays (ms_OpenObject mst w medium (p_Location src)), w) (\<lambda>bytes w.
         andThen (putTolerant lst w staged bytes) (\<lambda>_ w.
         andThen (stagedCopyIsTheArtifact e lst w staged src, w) (\<lambda>good w.
           if good then (Inr (), w) else (Inl (StagingForeign staged), w))))))"

section \<open>Eligibility and planning\<close>

definition activeOf :: "Record \<Rightarrow> Placement list" where
  "activeOf rec = filter (\<lambda>p. p_Status p = PlacementActive) (r_Placements rec)"

definition eligibleSource :: "'w Engine \<Rightarrow> Record \<Rightarrow> string \<Rightarrow> moveError + Placement" where
  "eligibleSource e rec destination =
     (let a = r_Artifact rec; active = activeOf rec in
      if r_State rec \<noteq> Complete then Inl (NotEligible (MoveNotComplete a (r_State rec)))
      else case active of
        [] \<Rightarrow> Inl (NotEligible (NoActivePlacement a))
      | src # rest \<Rightarrow>
        if list_ex (\<lambda>p. p_Medium p = destination) active then Inl (NotEligible (AlreadyThere a destination))
        else if rest \<noteq> [] then Inl (NotEligible (SeveralActive a (length active)))
        else if p_Location src = [] then Inl (NotEligible (NoSourceLocation a (p_Medium src)))
        else if p_Hash src = [] \<or> \<not> equalFold (en_FoldOther e) (p_HashAlg src) SHA256Name
        then Inl (NotEligible (NoSourceHash a (p_Medium src)))
        else
          (case (if p_Medium src \<noteq> MediumLocal \<and> destination \<noteq> MediumLocal then canStage e a else None) of
             Some err \<Rightarrow> Inl (NotEligible (CannotStage a (p_Medium src) destination err))
           | None \<Rightarrow>
             (case destinationCanBeVerified e destination of
                Some err \<Rightarrow> Inl (NotEligible (CannotVerifyThere a destination err))
              | None \<Rightarrow> Inr src)))"

definition destinationLocator :: "'w Engine \<Rightarrow> Record \<Rightarrow> string \<Rightarrow> moveError + string" where
  "destinationLocator e rec destination =
     (if destination = MediumLocal
      then bindE (backupSet e (ar_Set (r_Artifact rec))) (\<lambda>bs. localArtifactPath bs (r_Artifact rec))
      else bindE (resolve e destination) (\<lambda>(medium, _). mapErr KeyRefused (MediumKey (me_Prefix medium) (r_Artifact rec))))"

record Plan =
  pn_Artifact :: ArtifactID
  pn_DestinationMedium :: string

definition planOne :: "'w MoveJournalOps \<Rightarrow> 'w Engine \<Rightarrow> 'w \<Rightarrow> Plan \<Rightarrow> 'w moved" where
  "planOne j e w p =
     andThen (getRecord j w (pn_Artifact p)) (\<lambda>rec w.
     andThen (eligibleSource e rec (pn_DestinationMedium p), w) (\<lambda>src w.
     andThen (destinationLocator e rec (pn_DestinationMedium p), w) (\<lambda>key w.
       map_prod (mapErr JournalSays) id (mj_PlanMove j w
         \<lparr>mp_Artifact = pn_Artifact p, mp_SourceMedium = p_Medium src,
          mp_DestinationMedium = pn_DestinationMedium p, mp_DestinationKey = key, mp_OccurredAt = en_Now e w\<rparr>))))"

section \<open>Giving up and going back\<close>

definition statusUpdate :: "Placement \<Rightarrow> string \<Rightarrow> PlacementUpdate" where
  "statusUpdate p status = WithStatus (placementUpdate p) status"

definition restoreSource :: "Record \<Rightarrow> Move \<Rightarrow> PlacementUpdate list" where
  "restoreSource rec mv =
     (case placementOn rec (mv_SourceMedium mv) of
        Some src \<Rightarrow> (if p_Status src \<noteq> PlacementActive then [statusUpdate src PlacementActive] else [])
      | None \<Rightarrow> [])"

text \<open>The end of \<open>discardDestination\<close>: the placement a verification earned is marked GONE.\<close>

definition forgetDestination :: "'w MoveJournalOps \<Rightarrow> 'w Engine \<Rightarrow> 'w \<Rightarrow> Move \<Rightarrow> (moveError + unit) \<times> 'w" where
  "forgetDestination j e w mv =
     andThen (getRecord j w (mv_Artifact mv)) (\<lambda>rec w.
       (case placementOn rec (mv_DestinationMedium mv) of
          None \<Rightarrow> (Inr (), w)
        | Some dst \<Rightarrow>
          if p_Status dst = PlacementGone then (Inr (), w)
          else andThen (writeMove j w ((advanceTo e w mv (mv_Phase mv) (mv_Phase mv))
                 \<lparr>ma_Error := mv_Error mv, ma_Placements := [statusUpdate dst PlacementGone]\<rparr>))
               (\<lambda>_ w. (Inr (), w))))"

definition discardDestination :: "'w MoveJournalOps \<Rightarrow> 'w Engine \<Rightarrow> 'w \<Rightarrow> Move \<Rightarrow> (moveError + unit) \<times> 'w" where
  "discardDestination j e w mv =
     (let say = DiscardFailed (mv_Artifact mv) (mv_DestinationMedium mv) in
      if mv_DestinationKey mv = [] then (Inr (), w)
      else if mv_DestinationMedium mv = MediumLocal then
        (case en_Local e of None \<Rightarrow> (Inr (), w)
         | Some store \<Rightarrow>
           andThen (calling (say \<circ> LocalSays) (ls_Remove store w (mv_DestinationKey mv)))
             (\<lambda>_ w. forgetDestination j e w mv))
      else
        andThen (resolve e (mv_DestinationMedium mv), w) (\<lambda>(medium, _) w.
          (case en_Store e of None \<Rightarrow> (Inr (), w)
           | Some store \<Rightarrow>
             andThen (calling (say \<circ> StoreSays) (ms_DeleteObject store w medium (mv_DestinationKey mv)))
               (\<lambda>_ w. forgetDestination j e w mv))))"

definition discardStaging :: "'w Engine \<Rightarrow> 'w \<Rightarrow> Move \<Rightarrow> (moveError + unit) \<times> 'w" where
  "discardStaging e w mv =
     (if mv_SourceMedium mv = MediumLocal \<or> mv_DestinationMedium mv = MediumLocal then (Inr (), w)
      else case en_Local e of None \<Rightarrow> (Inr (), w)
      | Some store \<Rightarrow>
        (case stagingPath e (mv_Artifact mv) of Inl _ \<Rightarrow> (Inr (), w)
         | Inr staged \<Rightarrow>
           andThen (calling (StagingNotRemoved staged) (ls_Remove store w staged))
             (\<lambda>_ w. sweepStagingTemps e store w (pathDir staged))))"

definition abandon :: "'w MoveJournalOps \<Rightarrow> 'w Engine \<Rightarrow> 'w \<Rightarrow> Move \<Rightarrow> string \<Rightarrow> 'w moved" where
  "abandon j e w mv why =
     andThen (getRecord j w (mv_Artifact mv)) (\<lambda>rec w.
     andThen (writeMove j w ((advanceTo e w mv (mv_Phase mv) MoveAbandoned)
         \<lparr>ma_Error := why, ma_Placements := restoreSource rec mv\<rparr>)) (\<lambda>mv w.
     andThen (discardDestination j e w mv) (\<lambda>_ w.
     andThen (discardStaging e w mv) (\<lambda>_ w. (Inr mv, w)))))"

definition recopyOrAbandon :: "'w MoveJournalOps \<Rightarrow> 'w Engine \<Rightarrow> 'w \<Rightarrow> Move \<Rightarrow> Phase \<Rightarrow> string \<Rightarrow> 'w moved" where
  "recopyOrAbandon j e w mv fr why =
     andThen (getRecord j w (mv_Artifact mv)) (\<lambda>rec w.
     andThen (writeMove j w ((advanceTo e w mv fr MoveCopying)
         \<lparr>ma_Error := why,
          ma_Placements := restoreSource rec mv @
            (case placementOn rec (mv_DestinationMedium mv) of
               Some dst \<Rightarrow> (if p_Status dst = PlacementActive then [statusUpdate dst PlacementDeletePending] else [])
             | None \<Rightarrow> [])\<rparr>)) (\<lambda>mv w.
     andThen (discardDestination j e w mv) (\<lambda>_ w. (Inr mv, w))))"

section \<open>Copying\<close>

definition startCopy :: "'w MoveJournalOps \<Rightarrow> 'w Engine \<Rightarrow> 'w \<Rightarrow> Move \<Rightarrow> 'w moved" where
  "startCopy j e w mv =
     andThen (getRecord j w (mv_Artifact mv)) (\<lambda>rec w.
       (case eligibleSource e rec (mv_DestinationMedium mv) of
          Inl err \<Rightarrow> abandon j e w mv (en_Why e (WhyError err))
        | Inr _ \<Rightarrow> moveStep j e w mv MovePlanned MoveCopying []))"

definition copyToMedium :: "'w Engine \<Rightarrow> 'w \<Rightarrow> Move \<Rightarrow> Placement \<Rightarrow> (moveError + int) \<times> 'w" where
  "copyToMedium e w mv src =
     (case en_Store e of None \<Rightarrow> (Inl NoStoreConfigured, w)
      | Some store \<Rightarrow>
        andThen (resolve e (mv_DestinationMedium mv), w) (\<lambda>(medium, _) w.
          map_prod (mapErr StoreSays) id (ms_UploadFromLocal store w medium (p_Location src) (mv_DestinationKey mv))))"

definition copyToLocal :: "'w Engine \<Rightarrow> 'w \<Rightarrow> Move \<Rightarrow> Placement \<Rightarrow> (moveError + int) \<times> 'w" where
  "copyToLocal e w mv src =
     (case en_Local e of None \<Rightarrow> (Inl NoLocalStoreConfigured, w)
      | Some lst \<Rightarrow>
        (case en_Store e of None \<Rightarrow> (Inl NoStoreConfigured, w)
         | Some mst \<Rightarrow>
           andThen (resolve e (p_Medium src), w) (\<lambda>(medium, _) w.
           andThen (mapErr StoreSays (ms_OpenObject mst w medium (p_Location src)), w) (\<lambda>bytes w.
           andThen (putTolerant lst w (mv_DestinationKey mv) bytes) (\<lambda>_ w.
           andThen (mapErr LocalSays (ls_Stat lst w (mv_DestinationKey mv)), w) (\<lambda>st w.
             (case lt_Size st of None \<Rightarrow> (Inl (NoSizeReported (mv_DestinationKey mv)), w) | Some n \<Rightarrow> (Inr n, w))))))))"

definition copyMediumToMedium :: "'w Engine \<Rightarrow> 'w \<Rightarrow> Move \<Rightarrow> Placement \<Rightarrow> (moveError + int) \<times> 'w" where
  "copyMediumToMedium e w mv src =
     (case en_Store e of None \<Rightarrow> (Inl NoStoreConfigured, w)
      | Some mst \<Rightarrow>
        (case en_Local e of None \<Rightarrow> (Inl NoLocalStoreConfigured, w)
         | Some lst \<Rightarrow>
           andThen (resolve e (p_Medium src), w) (\<lambda>(source, _) w.
           andThen (resolve e (mv_DestinationMedium mv), w) (\<lambda>(destination, _) w.
           andThen (calling id (sourceCanBeStaged e w source src, w)) (\<lambda>_ w.
           andThen (stagingPath e (mv_Artifact mv), w) (\<lambda>staged w.
           andThen (calling StagingFailed (eo_MkdirAll (en_OS e) w (pathDir staged))) (\<lambda>_ w.
           andThen (sweepStagingTemps e lst w (pathDir staged)) (\<lambda>_ w.
           andThen (calling id (roomToStage e w staged src, w)) (\<lambda>_ w.
           andThen (stageFromMedium e lst mst w source src staged) (\<lambda>_ w.
             let (up, w1) = ms_UploadFromLocal mst w destination staged (mv_DestinationKey mv);
                 (rm, w2) = ls_Remove lst w1 staged in
             (case (up, rm) of
                (Inl err, _) \<Rightarrow> (Inl (StoreSays err), w2)
              | (Inr n, Some err) \<Rightarrow> (Inl (StagingNotRemoved staged err), w2)
              | (Inr n, None) \<Rightarrow> (Inr n, w2))))))))))))"

definition copyBytes :: "'w Engine \<Rightarrow> 'w \<Rightarrow> Move \<Rightarrow> Placement \<Rightarrow> (moveError + int) \<times> 'w" where
  "copyBytes e w mv src =
     (if mv_DestinationMedium mv = MediumLocal then copyToLocal e w mv src
      else if mv_SourceMedium mv = MediumLocal then copyToMedium e w mv src
      else copyMediumToMedium e w mv src)"

definition copyMove :: "'w MoveJournalOps \<Rightarrow> 'w Engine \<Rightarrow> 'w \<Rightarrow> Move \<Rightarrow> 'w moved" where
  "copyMove j e w mv =
     andThen (getRecord j w (mv_Artifact mv)) (\<lambda>rec w.
       (case placementOn rec (mv_SourceMedium mv) of
          None \<Rightarrow> abandon j e w mv (en_Why e (WhyNothingToCopy (mv_Artifact mv) (mv_SourceMedium mv)))
        | Some src \<Rightarrow>
          if p_Location src = [] then abandon j e w mv (en_Why e (WhyNothingToCopy (mv_Artifact mv) (mv_SourceMedium mv)))
          else case destinationCanBeVerified e (mv_DestinationMedium mv) of
            Some err \<Rightarrow> abandon j e w mv (behind mv (en_Why e (WhyNotTo (mv_Artifact mv) (mv_DestinationMedium mv) err)))
          | None \<Rightarrow>
            (case copyBytes e w mv src of
               (Inl err, w) \<Rightarrow>
                 if isRefused err
                 then abandon j e w mv (behind mv (en_Why e
                        (WhyNotFromTo (mv_Artifact mv) (mv_SourceMedium mv) (mv_DestinationMedium mv) err)))
                 else
                   let wrapped = CopyFailed (mv_Artifact mv) (mv_DestinationMedium mv) err in
                   (case moveStep j e w mv MoveCopying MoveCopying (en_Why e (WhyError wrapped)) of
                      (Inl n, w) \<Rightarrow> (Inl (Unnoted wrapped n), w)
                    | (Inr _, w) \<Rightarrow> (Inl wrapped, w))
             | (Inr n, w) \<Rightarrow>
               writeMove j w ((advanceTo e w mv MoveCopying MoveCopied)\<lparr>ma_BytesCopied := Some n\<rparr>))))"

section \<open>Verifying\<close>

definition startVerify :: "'w MoveJournalOps \<Rightarrow> 'w Engine \<Rightarrow> 'w \<Rightarrow> Move \<Rightarrow> 'w moved" where
  "startVerify j e w mv = moveStep j e w mv MoveCopied MoveVerifying []"

definition destinationPlacement :: "Move \<Rightarrow> Placement \<Rightarrow> Result \<Rightarrow> PlacementUpdate" where
  "destinationPlacement mv src result =
     \<lparr>pu_Medium = mv_DestinationMedium mv, pu_Location = mv_DestinationKey mv,
      pu_Size = (case mv_BytesCopied mv of Some n \<Rightarrow> Some n | None \<Rightarrow> p_Size src),
      pu_Hash = p_Hash src, pu_HashAlg = p_HashAlg src, pu_VerificationClass = classString (rt_Class result),
      pu_VerifiedAt = Some (rt_At result), pu_Status = PlacementActive\<rparr>"

text \<open>The proof is held by the walk; a step that fills it or spends it returns it with its row.\<close>

type_synonym 'w proved = "(moveError + Move \<times> readBackProof option) \<times> 'w"

definition holding :: "readBackProof option \<Rightarrow> 'w moved \<Rightarrow> 'w proved" where
  "holding proof r = andThen r (\<lambda>mv w. (Inr (mv, proof), w))"

definition verifyDestination :: "'w MoveJournalOps \<Rightarrow> 'w Engine \<Rightarrow> 'w \<Rightarrow> Move \<Rightarrow> readBackProof option \<Rightarrow> 'w proved" where
  "verifyDestination j e w mv proof =
     andThen (getRecord j w (mv_Artifact mv)) (\<lambda>rec w.
       (case placementOn rec (mv_SourceMedium mv) of
          None \<Rightarrow> holding proof (abandon j e w mv (en_Why e (WhyNoHash (mv_Artifact mv) (mv_SourceMedium mv))))
        | Some src \<Rightarrow>
          let before = identifyBeforeReadBack e w mv in
          (case verifyCopy e w mv src True of
             (want, Inl err) \<Rightarrow>
               if isRefused err
               then holding proof (abandon j e w mv (en_Why e (WhyRefusedThere (mv_DestinationMedium mv) want err)))
               else holding proof (recopyOrAbandon j e w mv MoveVerifying
                      (en_Why e (WhyNotVerified (mv_DestinationMedium mv) want err)))
           | (want, Inr result) \<Rightarrow>
             if \<not> rt_Passed result
             then holding proof (recopyOrAbandon j e w mv MoveVerifying
                    (en_Why e (WhyFailed (mv_DestinationMedium mv) (rt_Class result) (rt_Detail result))))
             else
               holding (recordProof mv src want result before)
                 (writeMove j w ((advanceTo e w mv MoveVerifying MoveVerified)
                    \<lparr>ma_Placements := [destinationPlacement mv src result]\<rparr>)))))"

section \<open>Deleting the source\<close>

definition intendSourceDelete :: "'w MoveJournalOps \<Rightarrow> 'w Engine \<Rightarrow> 'w \<Rightarrow> Move \<Rightarrow> 'w moved" where
  "intendSourceDelete j e w mv =
     andThen (getRecord j w (mv_Artifact mv)) (\<lambda>rec w.
       (case placementOn rec (mv_SourceMedium mv) of
          None \<Rightarrow> (Inl (NoPlacementToDelete (mv_Artifact mv) (mv_SourceMedium mv)), w)
        | Some src \<Rightarrow>
          writeMove j w ((advanceTo e w mv MoveVerified MoveSourceDeletePending)
            \<lparr>ma_Placements := [statusUpdate src PlacementDeletePending]\<rparr>)))"

definition removeTarget :: "'w Engine \<Rightarrow> 'w \<Rightarrow> deleteTarget \<Rightarrow> (moveError + unit) \<times> 'w" where
  "removeTarget e w target =
     (case target of
        LocalTarget path \<Rightarrow>
          (case en_Local e of None \<Rightarrow> (Inl NoLocalStoreConfigured, w) | Some store \<Rightarrow> calling LocalSays (ls_Remove store w path))
      | MediumTarget medium key \<Rightarrow>
          (case en_Store e of None \<Rightarrow> (Inl NoStoreConfigured, w) | Some store \<Rightarrow> calling StoreSays (ms_DeleteObject store w medium key)))"

definition finishMove :: "'w MoveJournalOps \<Rightarrow> 'w Engine \<Rightarrow> 'w \<Rightarrow> Move \<Rightarrow> Placement \<Rightarrow> 'w moved" where
  "finishMove j e w mv src =
     writeMove j w ((advanceTo e w mv MoveSourceDeletePending MoveDone)
       \<lparr>ma_Placements := [statusUpdate src PlacementGone]\<rparr>)"

definition deleteSource :: "'w MoveJournalOps \<Rightarrow> 'w Engine \<Rightarrow> 'w \<Rightarrow> Move \<Rightarrow> readBackProof option \<Rightarrow> 'w proved" where
  "deleteSource j e w mv proof =
     andThen (getRecord j w (mv_Artifact mv)) (\<lambda>rec w.
       (case placementOn rec (mv_SourceMedium mv) of
          None \<Rightarrow> (Inl (NoPlacementToDelete (mv_Artifact mv) (mv_SourceMedium mv)), w)
        | Some src \<Rightarrow>
          let ((want, answer), left) = reverifyForDelete e w mv src proof;
              goBack = (\<lambda>why. holding left (recopyOrAbandon j e w mv MoveSourceDeletePending (en_Why e why)));
              guarded = guardSourceDelete e w mv rec want in
          (case answer of
             Inl err \<Rightarrow>
               if isUnavailable err then
                 (if guarded = Inl SourceAlreadyGone then holding left (finishMove j e w mv src)
                  else holding left (noteOnRow j e w mv (NotReverified (mv_Artifact mv) (mv_DestinationMedium mv) want err)))
               else goBack (WhyNotReverified (mv_DestinationMedium mv) want err)
           | Inr result \<Rightarrow>
             if rt_Class result \<noteq> want then goBack (WhyOtherClass (rt_Class result) want)
             else if \<not> rt_Passed result
             then goBack (WhyFailedAgain (mv_DestinationMedium mv) (rt_Class result) (rt_Detail result))
             else (case guarded of
                 Inl err \<Rightarrow>
                   if err = SourceAlreadyGone then holding left (finishMove j e w mv src)
                   else holding left (noteOnRow j e w mv err)
               | Inr target \<Rightarrow>
                 (case removeTarget e w target of
                    (Inl err, w) \<Rightarrow> holding left (noteOnRow j e w mv (DeleteFailed (mv_Artifact mv) (mv_SourceMedium mv) err))
                  | (Inr _, w) \<Rightarrow> holding left (finishMove j e w mv src))))))"

section \<open>The driver\<close>

definition defaultMaxCopyAttempts :: int where "defaultMaxCopyAttempts = 2"
definition maxPhaseStepsPerMove :: nat where "maxPhaseStepsPerMove = 32"

definition maxCopyAttempts :: "'w Engine \<Rightarrow> int" where
  "maxCopyAttempts e = (if en_MaxCopyAttempts e > 0 then en_MaxCopyAttempts e else defaultMaxCopyAttempts)"

text \<open>One iteration's switch; \<open>attempts\<close> already counts this copy.\<close>

definition phaseStep :: "'w MoveJournalOps \<Rightarrow> 'w Engine \<Rightarrow> 'w \<Rightarrow> Move \<Rightarrow> int \<Rightarrow> readBackProof option \<Rightarrow> 'w proved" where
  "phaseStep j e w mv attempts proof =
     (case mv_Phase mv of
        MovePlanned \<Rightarrow> holding proof (startCopy j e w mv)
      | MoveCopying \<Rightarrow>
          holding proof
            (if attempts > maxCopyAttempts e
             then abandon j e w mv (en_Why e (WhyGaveUp (trimSuffix (mv_Error mv) ''.'') (attempts - 1)))
             else copyMove j e w mv)
      | MoveCopied \<Rightarrow> holding proof (startVerify j e w mv)
      | MoveVerifying \<Rightarrow> verifyDestination j e w mv proof
      | MoveVerified \<Rightarrow> holding proof (intendSourceDelete j e w mv)
      | MoveSourceDeletePending \<Rightarrow> deleteSource j e w mv proof
      | _ \<Rightarrow> (Inl (UnknownMovePhase (mv_ID mv) (mv_Phase mv)), w))"

record MoveOutcome =
  oc_Artifact :: ArtifactID
  oc_MoveID :: nat
  oc_Phase :: Phase
  oc_Resumed :: bool
  oc_Refused :: string
  oc_Err :: "moveError option"

definition stopped :: "'w Engine \<Rightarrow> Move \<Rightarrow> bool \<Rightarrow> moveError \<Rightarrow> MoveOutcome" where
  "stopped e mv resumed err =
     \<lparr>oc_Artifact = mv_Artifact mv, oc_MoveID = mv_ID mv, oc_Phase = mv_Phase mv, oc_Resumed = resumed,
      oc_Refused = en_Why e (WhyError err), oc_Err = Some err\<rparr>"

definition ended :: "Move \<Rightarrow> bool \<Rightarrow> MoveOutcome" where
  "ended mv resumed =
     \<lparr>oc_Artifact = mv_Artifact mv, oc_MoveID = mv_ID mv, oc_Phase = mv_Phase mv, oc_Resumed = resumed,
      oc_Refused = (if mv_Phase mv = MoveAbandoned then mv_Error mv else []), oc_Err = None\<rparr>"

fun walk :: "'w MoveJournalOps \<Rightarrow> 'w Engine \<Rightarrow> nat \<Rightarrow> 'w \<Rightarrow> Move \<Rightarrow> int \<Rightarrow> readBackProof option \<Rightarrow> bool \<Rightarrow> MoveOutcome \<times> 'w" where
  "walk j e 0 w mv attempts proof resumed = (stopped e mv resumed (TooManySteps (mv_ID mv) (mv_Phase mv)), w)"
| "walk j e (Suc n) w mv attempts proof resumed =
     (if IsTerminal (mv_Phase mv) then (ended mv resumed, w)
      else
        let attempts = (if mv_Phase mv = MoveCopying then attempts + 1 else attempts) in
        (case phaseStep j e w mv attempts proof of
           (Inl err, w) \<Rightarrow> (stopped e mv resumed err, w)
         | (Inr (mv', proof), w) \<Rightarrow> walk j e n w mv' attempts proof resumed))"

definition advance :: "'w MoveJournalOps \<Rightarrow> 'w Engine \<Rightarrow> 'w \<Rightarrow> Move \<Rightarrow> bool \<Rightarrow> MoveOutcome \<times> 'w" where
  "advance j e w mv resumed = walk j e maxPhaseStepsPerMove w mv 0 None resumed"

section \<open>The cycle\<close>

record CycleReport =
  cr_Resumed :: int
  cr_Planned :: int
  cr_Completed :: int
  cr_Abandoned :: int
  cr_Refused :: int
  cr_Outcomes :: "MoveOutcome list"

definition noReport :: CycleReport where
  "noReport = \<lparr>cr_Resumed = 0, cr_Planned = 0, cr_Completed = 0, cr_Abandoned = 0, cr_Refused = 0, cr_Outcomes = []\<rparr>"

definition recordOutcome :: "CycleReport \<Rightarrow> MoveOutcome \<Rightarrow> CycleReport" where
  "recordOutcome r out =
     (if oc_Phase out = MoveDone then r\<lparr>cr_Completed := cr_Completed r + 1\<rparr>
      else if oc_Phase out = MoveAbandoned then r\<lparr>cr_Abandoned := cr_Abandoned r + 1\<rparr>
      else if oc_Refused out \<noteq> [] then r\<lparr>cr_Refused := cr_Refused r + 1\<rparr>
      else r)\<lparr>cr_Outcomes := cr_Outcomes r @ [out]\<rparr>"

text \<open>The two loops, each with the budget it leaves; the first stops at the same budget \<open>0\<close> the second
  starts from.\<close>

fun resumeLoop :: "'w MoveJournalOps \<Rightarrow> 'w Engine \<Rightarrow> int \<Rightarrow> Move list \<Rightarrow> ArtifactID list \<Rightarrow> CycleReport \<Rightarrow> 'w \<Rightarrow> int \<times> ArtifactID list \<times> CycleReport \<times> 'w" where
  "resumeLoop j e budget [] resuming r w = (budget, resuming, r, w)"
| "resumeLoop j e budget (mv # rest) resuming r w =
     (if budget = 0 then (budget, resuming, r, w)
      else
        let (out, w') = advance j e w mv True in
        resumeLoop j e (budget - 1) rest (mv_Artifact mv # resuming)
          (recordOutcome (r\<lparr>cr_Resumed := cr_Resumed r + 1\<rparr>) out) w')"

fun planMoves :: "'w MoveJournalOps \<Rightarrow> 'w Engine \<Rightarrow> int \<Rightarrow> Plan list \<Rightarrow> string list \<Rightarrow> CycleReport \<Rightarrow> 'w \<Rightarrow> CycleReport \<times> 'w" where
  "planMoves j e budget [] resuming r w = (r, w)"
| "planMoves j e budget (p # rest) resuming r w =
     (if budget = 0 then (r, w)
      else if List.member resuming (artifactString (pn_Artifact p)) then planMoves j e budget rest resuming r w
      else case planOne j e w p of
          (Inl err, w') \<Rightarrow>
            planMoves j e (budget - 1) rest resuming
              (r\<lparr>cr_Refused := cr_Refused r + 1,
                 cr_Outcomes := cr_Outcomes r @ [\<lparr>oc_Artifact = pn_Artifact p, oc_MoveID = 0, oc_Phase = RawPhase [],
                   oc_Resumed = False, oc_Refused = en_Why e (WhyError err), oc_Err = Some err\<rparr>]\<rparr>) w'
        | (Inr mv, w') \<Rightarrow>
            let (out, w'') = advance j e w' mv False in
            planMoves j e (budget - 1) rest resuming (recordOutcome (r\<lparr>cr_Planned := cr_Planned r + 1\<rparr>) out) w'')"

definition RunCycle :: "'w MoveJournalOps option \<Rightarrow> 'w Engine \<Rightarrow> 'w \<Rightarrow> Plan list \<Rightarrow> (CycleReport \<times> moveError option) \<times> 'w" where
  "RunCycle journal e w plans =
     (case journal of None \<Rightarrow> ((noReport, Some NeedsMoveJournal), w)
      | Some j \<Rightarrow>
        if en_MaxMovesPerCycle e \<le> 0 then ((noReport, None), w)
        else case mj_ListMoves j w NonTerminalPhases of
          Inl err \<Rightarrow> ((noReport, Some (JournalSays err)), w)
        | Inr live \<Rightarrow>
          let (budget, resuming, r, w1) = resumeLoop j e (en_MaxMovesPerCycle e) live [] noReport w;
              (r', w2) = planMoves j e budget plans (map artifactString resuming) r w1 in
          ((r', None), w2))"

section \<open>The standing invariant\<close>

definition CheckInvariant :: "Record \<Rightarrow> Class list \<Rightarrow> bool" where
  "CheckInvariant rec sufficient =
     (\<not> IsDurableRestorePoint (r_State rec) \<or>
      (let ok = map classString (if sufficient = [] then [Content] else sufficient) in
       list_ex (\<lambda>p. p_Status p = PlacementActive \<and> List.member ok (p_VerificationClass p)) (r_Placements rec)))"

end
