(* ===== verification/MoveSafe.thy ===== *)
theory MoveSafe
  imports MoveEngine
begin

text \<open>
  What a walk of the move engine keeps, over any world whose stores answer truthfully and touch only
  what they are asked to: until VERIFIED is recorded the source still holds the recorded bytes, and
  from then on the destination does.
\<close>

section \<open>The row of a move across an advance\<close>

lemma find_distinct_map:
  assumes "distinct (map f xs)" "x \<in> set xs" "f x = y"
  shows "find (\<lambda>z. f z = y) xs = Some x"
  using find_unique[OF assms(1,2)] assms(3) by simp

lemma find_key_perm:
  assumes "distinct (map f xs)" "set ys = set xs" "distinct (map f ys)"
  shows "find (\<lambda>z. f z = y) ys = find (\<lambda>z. f z = y) xs"
proof (cases "\<exists>x \<in> set xs. f x = y")
  case True
  then obtain x where "x \<in> set xs" "f x = y" by blast
  with assms show ?thesis by (simp add: find_distinct_map)
next
  case False
  with assms(2) have "find (\<lambda>z. f z = y) ys = None" "find (\<lambda>z. f z = y) xs = None" by (auto intro!: find_NoneI)
  then show ?thesis by simp
qed

lemma find_map_filter:
  "find (\<lambda>p. p_Medium p = m) (map plr_Placement (filter (\<lambda>p. plr_Artifact p = row) qs)) =
   map_option plr_Placement (find (\<lambda>q. plr_Artifact q = row \<and> p_Medium (plr_Placement q) = m) qs)"
  by (induction qs) auto

lemma placementOn_Get:
  assumes "wfJournal db" "Get db a = Inr rec" "findArtifact db a = Some (row, r)"
  shows "placementOn rec m = placementAt db row m"
proof -
  let ?ps = "map plr_Placement (filter (\<lambda>p. plr_Artifact p = row) (j_placements db))"
  have rec: "r_Placements rec = sort_key p_Medium ?ps"
    using Get_wf[OF assms(1,3)] assms(2) by (simp add: withPlacements_def loadPlacements_def)
  have "distinct (map (\<lambda>p. (plr_Artifact p, p_Medium (plr_Placement p))) (filter (\<lambda>p. plr_Artifact p = row) (j_placements db)))"
    using assms(1) by (intro distinct_map_filter) (simp add: wfJournal_def)
  then have d: "distinct (map p_Medium ?ps)"
    unfolding map_map by (simp add: distinct_map inj_on_def)
  have "distinct (map p_Medium (sort_key p_Medium ?ps))"
    using d by (metis distinct_map distinct_sort set_sort)
  with d have "find (\<lambda>p. p_Medium p = m) (sort_key p_Medium ?ps) = find (\<lambda>p. p_Medium p = m) ?ps"
    by (intro find_key_perm) auto
  then show ?thesis by (simp add: placementOn_def rec find_map_filter placementAt_def)
qed

lemma find_id_upsert:
  assumes "find (\<lambda>p. plr_ID p = x) qs = Some q"
  shows "\<exists>q'. find (\<lambda>p. plr_ID p = x) (upsertRows i row p qs) = Some q' \<and> p_Medium (plr_Placement q') = p_Medium (plr_Placement q)"
  using assms by (induction i row p qs rule: upsertRows.induct) auto

lemma upsertAll_source:
  assumes "upsertAll db row ps now = Inr db'" "find (\<lambda>p. plr_ID p = x) (j_placements db) = Some q"
  shows "\<exists>q'. find (\<lambda>p. plr_ID p = x) (j_placements db') = Some q' \<and> p_Medium (plr_Placement q') = p_Medium (plr_Placement q)"
  using assms
proof (induction db row ps now arbitrary: q rule: upsertAll.induct)
  case (2 db row p ps now)
  then obtain j1 where j1: "upsertPlacement db row p now = Inr j1" "upsertAll j1 row ps now = Inr db'"
    by (auto simp: bindE_Inr_iff)
  from j1(1) 2(3) obtain q1 where "find (\<lambda>p. plr_ID p = x) (j_placements j1) = Some q1"
    "p_Medium (plr_Placement q1) = p_Medium (plr_Placement q)"
    using find_id_upsert by (elim upsertPlacement_Inr) fastforce
  with 2(1)[OF j1(2)] show ?case by auto
qed simp

text \<open>Where the bytes of a placement are and the hash recorded for them.\<close>

definition recordedAt :: "JournalDB \<Rightarrow> nat \<Rightarrow> string \<Rightarrow> string \<Rightarrow> string \<Rightarrow> bool" where
  "recordedAt db row m loc h =
     (case placementAt db row m of None \<Rightarrow> False | Some p \<Rightarrow> p_Medium p = m \<and> p_Location p = loc \<and> p_Hash p = h)"

lemma upsertAll_recorded:
  assumes "upsertAll db row ps now = Inr db'" "recordedAt db row m loc h"
    "\<And>u. u \<in> set ps \<Longrightarrow> pu_Medium u = m \<Longrightarrow> pu_Location u = loc \<and> pu_Hash u = h"
  shows "recordedAt db' row m loc h"
  using assms
proof (induction db row ps now rule: upsertAll.induct)
  case (2 db row p ps now)
  then obtain j1 where j1: "upsertPlacement db row p now = Inr j1" "upsertAll j1 row ps now = Inr db'"
    by (auto simp: bindE_Inr_iff)
  have "recordedAt j1 row m loc h"
    using 2(3,4) by (auto simp: recordedAt_def placementAt_upsert[OF j1(1)] buildPlacement_def)
  with 2(1)[OF j1(2)] 2(4) show ?case by simp
qed simp

text \<open>A move whose row names this artifact and these two ends, its source recorded as it was.\<close>

definition tracked :: "JournalDB \<Rightarrow> Move \<Rightarrow> string \<Rightarrow> string \<Rightarrow> bool" where
  "tracked db mv loc h \<longleftrightarrow>
     wfJournal db \<and> getMove db (mv_ID mv) = Inr mv \<and> mv_SourceMedium mv \<noteq> [] \<and>
     mv_SourceMedium mv \<noteq> mv_DestinationMedium mv \<and>
     (\<exists>row r. findArtifact db (mv_Artifact mv) = Some (row, r) \<and> recordedAt db row (mv_SourceMedium mv) loc h)"

definition sameMove :: "Move \<Rightarrow> Move \<Rightarrow> bool" where
  "sameMove m n \<longleftrightarrow> mv_ID n = mv_ID m \<and> mv_Artifact n = mv_Artifact m \<and> mv_SourceMedium n = mv_SourceMedium m \<and>
     mv_DestinationMedium n = mv_DestinationMedium m \<and> mv_DestinationKey n = mv_DestinationKey m"

lemma sameMove_refl [simp]: "sameMove m m" by (simp add: sameMove_def)

lemma sameMove_trans: "sameMove a b \<Longrightarrow> sameMove b c \<Longrightarrow> sameMove a c" by (simp add: sameMove_def)

lemma tracked_source:
  assumes "tracked db mv loc h" "Get db (mv_Artifact mv) = Inr rec"
  obtains src where "placementOn rec (mv_SourceMedium mv) = Some src" "p_Medium src = mv_SourceMedium mv"
    "p_Location src = loc" "p_Hash src = h"
proof -
  from assms(1) obtain row r where f: "findArtifact db (mv_Artifact mv) = Some (row, r)"
    and rc: "recordedAt db row (mv_SourceMedium mv) loc h" and wf: "wfJournal db"
    by (auto simp: tracked_def)
  from placementOn_Get[OF wf assms(2) f] rc that show thesis
    by (auto simp: recordedAt_def split: option.splits)
qed

definition aboutSource :: "PlacementUpdate list \<Rightarrow> Move \<Rightarrow> string \<Rightarrow> string \<Rightarrow> bool" where
  "aboutSource us mv loc h \<longleftrightarrow>
     (\<forall>u \<in> set us. pu_Medium u = mv_SourceMedium mv \<longrightarrow> pu_Location u = loc \<and> pu_Hash u = h)"

lemma tracked_advance:
  assumes t: "tracked db mv loc h" and a: "AdvanceMove db adv = (Inr mv', db')" and i: "ma_MoveID adv = mv_ID mv"
    and ps: "aboutSource (ma_Placements adv) mv loc h"
  shows "tracked db' mv' loc h" "sameMove mv mv'" "mv_Phase mv' = ma_To adv"
proof -
  from t have wf: "wfJournal db" and g: "getMove db (mv_ID mv) = Inr mv" and ne: "mv_SourceMedium mv \<noteq> []"
    and sd: "mv_SourceMedium mv \<noteq> mv_DestinationMedium mv" by (auto simp: tracked_def)
  from t obtain row r where f: "findArtifact db (mv_Artifact mv) = Some (row, r)"
    and rc: "recordedAt db row (mv_SourceMedium mv) loc h" by (auto simp: tracked_def)
  from a obtain m where m: "findMove db (ma_MoveID adv) = Some m"
    "upsertAll (db\<lparr>j_moves := map (\<lambda>r. if mvr_ID r = ma_MoveID adv then advancedRow (j_redact db) adv r else r) (j_moves db)\<rparr>)
         (mvr_Artifact m) (ma_Placements adv) (ma_OccurredAt adv) = Inr db'"
    "getMove db' (ma_MoveID adv) = Inr mv'"
    by (elim AdvanceMove_cases) auto
  let ?db1 = "db\<lparr>j_moves := map (\<lambda>r. if mvr_ID r = ma_MoveID adv then advancedRow (j_redact db) adv r else r) (j_moves db)\<rparr>"
  have fr: "j_artifacts db' = j_artifacts db" "j_moves db' = j_moves ?db1" "wfJournal db'"
    using upsertAll_frame[OF m(2)] wf by auto
  from g m(1) i have sc: "scanMove db m = Some mv" by (auto simp: getMove_def split: option.splits)
  have mid: "mvr_ID m = mv_ID mv" using m(1) i by (auto simp: findMove_def dest: find_SomeD)
  from sc obtain r0 q where q: "find (\<lambda>ar. fst ar = mvr_Artifact m) (j_artifacts db) = Some (mvr_Artifact m, r0)"
    "r_Artifact r0 = mv_Artifact mv" "\<exists>x. mvr_SourcePlacementID m = Some x \<and> find (\<lambda>p. plr_ID p = x) (j_placements db) = Some q"
    "p_Medium (plr_Placement q) = mv_SourceMedium mv"
    "mvr_DestinationMedium m = mv_DestinationMedium mv" "mvr_DestinationKey m = mv_DestinationKey mv"
    using ne by (auto simp: scanMove_def Let_def split: option.splits dest: find_SomeD)
  have row: "row = mvr_Artifact m"
  proof -
    have "(mvr_Artifact m, r0) \<in> set (j_artifacts db)" using find_SomeD[OF q(1)] by simp
    from wf_findArtifact[OF wf this] q(2) f show ?thesis by simp
  qed
  have fm: "findMove db' (ma_MoveID adv) = Some (advancedRow (j_redact db) adv m)"
  proof -
    have "findMove db' (ma_MoveID adv) =
        map_option (\<lambda>r. if mvr_ID r = ma_MoveID adv then advancedRow (j_redact db) adv r else r) (findMove db (ma_MoveID adv))"
      unfolding findMove_def fr(2) by (simp, rule find_map_inv) (simp add: advancedRow_def)
    then show ?thesis using m(1) mid i by simp
  qed
  obtain q' x where q': "mvr_SourcePlacementID m = Some x" "find (\<lambda>p. plr_ID p = x) (j_placements db') = Some q'"
    "p_Medium (plr_Placement q') = mv_SourceMedium mv"
    using q(3,4) upsertAll_source[OF m(2)] by fastforce
  from m(3) fm have sc': "scanMove db' (advancedRow (j_redact db) adv m) = Some mv'"
    by (auto simp: getMove_def split: option.splits)
  then have mv': "mv_ID mv' = mv_ID mv" "mv_Artifact mv' = mv_Artifact mv" "mv_SourceMedium mv' = mv_SourceMedium mv"
    "mv_DestinationMedium mv' = mv_DestinationMedium mv" "mv_DestinationKey mv' = mv_DestinationKey mv"
    "mv_Phase mv' = ma_To adv"
    using q(1,2,5,6) q' mid by (auto simp: scanMove_def advancedRow_def Let_def fr(1))
  then show s: "sameMove mv mv'" "mv_Phase mv' = ma_To adv" by (simp_all add: sameMove_def)
  have "recordedAt ?db1 row (mv_SourceMedium mv) loc h" using rc by (simp add: recordedAt_def placementAt_def)
  then have "recordedAt db' row (mv_SourceMedium mv) loc h"
    using upsertAll_recorded[OF m(2)] ps unfolding row aboutSource_def by blast
  moreover have "findArtifact db' (mv_Artifact mv) = Some (row, r)" using f fr(1) by (simp add: findArtifact_def)
  ultimately show "tracked db' mv' loc h"
    using mv' fr(3) m(3) ne sd i by (auto simp: tracked_def)
qed

section \<open>Copies on disk and on mediums\<close>

text \<open>A copy is a file or an object of a bucket.\<close>

type_synonym address = "string + string \<times> string"

definition addressOf :: "'w Engine \<Rightarrow> string \<Rightarrow> string \<Rightarrow> address option" where
  "addressOf e medium loc =
     (if medium = MediumLocal then Some (Inl loc)
      else case resolve e medium of Inl _ \<Rightarrow> None | Inr (m, _) \<Rightarrow> Some (Inr (me_Bucket m, loc)))"

text \<open>The interface of a world the engine works in: what the collaborators may change and what they
  answer.  Every call may fail; a write may leave anything at the place it writes to.\<close>

locale move_world =
  fixes e :: "'w Engine" and j :: "'w MoveJournalOps"
    and db :: "'w \<Rightarrow> JournalDB" and bytesAt :: "'w \<Rightarrow> address \<Rightarrow> string option"
  assumes get_law: "mj_Get j w a = Inr rec \<Longrightarrow> Get (db w) a = Inr rec"
    and advance_law: "mj_AdvanceMove j w adv = (r, w') \<Longrightarrow> bytesAt w' = bytesAt w \<and>
      (case r of Inr m \<Rightarrow> AdvanceMove (db w) adv = (Inr m, db w')
       | Inl _ \<Rightarrow> db w' = db w \<or> (\<exists>m. AdvanceMove (db w) adv = (Inr m, db w')))"
    and open_law: "en_Store e = Some st \<Longrightarrow> ms_OpenObject st w m k = Inr b \<Longrightarrow> bytesAt w (Inr (me_Bucket m, k)) = Some b"
    and attest_law: "en_Store e = Some st \<Longrightarrow> ms_ObjectChecksum st w m k = Inr at \<Longrightarrow>
      \<exists>b. bytesAt w (Inr (me_Bucket m, k)) = Some b \<and> at_Value at = en_SHA256 e b"
    and upload_law: "en_Store e = Some st \<Longrightarrow> ms_UploadFromLocal st w m p k = (ur, w') \<Longrightarrow>
      db w' = db w \<and> (\<forall>c. c \<noteq> Inr (me_Bucket m, k) \<longrightarrow> bytesAt w' c = bytesAt w c)"
    and delete_law: "en_Store e = Some st \<Longrightarrow> ms_DeleteObject st w m k = (dr, w') \<Longrightarrow>
      db w' = db w \<and> (\<forall>c. c \<noteq> Inr (me_Bucket m, k) \<longrightarrow> bytesAt w' c = bytesAt w c)"
    and read_law: "en_Local e = Some lst \<Longrightarrow> ls_Open lst w p = Inr b \<Longrightarrow> bytesAt w (Inl p) = Some b"
    and put_law: "en_Local e = Some lst \<Longrightarrow> ls_Put lst w p b = (pr, w') \<Longrightarrow>
      db w' = db w \<and> (\<forall>c. c \<noteq> Inl p \<longrightarrow> bytesAt w' c = bytesAt w c)"
    and remove_law: "en_Local e = Some lst \<Longrightarrow> ls_Remove lst w p = (rr, w') \<Longrightarrow>
      db w' = db w \<and> (\<forall>c. c \<noteq> Inl p \<longrightarrow> bytesAt w' c = bytesAt w c)"
    and mkdir_law: "eo_MkdirAll (en_OS e) w p = (mr, w') \<Longrightarrow> db w' = db w \<and> bytesAt w' = bytesAt w"
begin

definition good :: "'w \<Rightarrow> address \<Rightarrow> string \<Rightarrow> bool" where
  "good w c h \<longleftrightarrow> (\<exists>b. bytesAt w c = Some b \<and> equalFold (en_FoldOther e) (en_SHA256 e b) h)"

text \<open>Changes that leave the journal and one address alone.\<close>

definition leaves :: "address \<Rightarrow> 'w \<Rightarrow> 'w \<Rightarrow> bool" where
  "leaves c w w' \<longleftrightarrow> db w' = db w \<and> bytesAt w' c = bytesAt w c"

lemma leaves_refl [simp]: "leaves c w w" by (simp add: leaves_def)

lemma leaves_trans: "leaves c w w' \<Longrightarrow> leaves c w' w'' \<Longrightarrow> leaves c w w''" by (simp add: leaves_def)

lemma leaves_andThen:
  assumes "leaves c w (snd r)" "\<And>a w1. r = (Inr a, w1) \<Longrightarrow> leaves c w1 (snd (f a w1))"
  shows "leaves c w (snd (andThen r f))"
  using assms by (cases r; cases "fst r") (auto simp: andThen_def intro: leaves_trans)

lemma leaves_calling: "leaves c w (snd r) \<Longrightarrow> leaves c w (snd (calling g r))"
  by (cases r; cases "fst r") auto

lemma leaves_remove:
  "en_Local e = Some lst \<Longrightarrow> c \<noteq> Inl p \<Longrightarrow> leaves c w (snd (ls_Remove lst w p))"
  using remove_law by (metis leaves_def prod.collapse)

lemma leaves_delete:
  "en_Store e = Some st \<Longrightarrow> c \<noteq> Inr (me_Bucket m, k) \<Longrightarrow> leaves c w (snd (ms_DeleteObject st w m k))"
  using delete_law by (metis leaves_def prod.collapse)

lemma leaves_upload:
  "en_Store e = Some st \<Longrightarrow> c \<noteq> Inr (me_Bucket m, k) \<Longrightarrow> leaves c w (snd (ms_UploadFromLocal st w m p k))"
  using upload_law by (metis leaves_def prod.collapse)

lemma leaves_mkdir: "leaves c w (snd (eo_MkdirAll (en_OS e) w p))"
  using mkdir_law by (metis leaves_def prod.collapse)

lemma leaves_putTolerant:
  assumes "en_Local e = Some lst" "c \<noteq> Inl p"
  shows "leaves c w (snd (putTolerant lst w p b))"
proof -
  obtain r w' where r: "ls_Put lst w p b = (r, w')" by fastforce
  with put_law[OF assms(1) r] assms(2) show ?thesis
    by (auto simp: putTolerant_def leaves_def split: option.split localFault.split)
qed

section \<open>The copying operations and the cleaning up\<close>

lemma leaves_sweep:
  assumes "en_Local e = Some lst" "c = Inr x"
  shows "leaves c w (snd (sweepLoop lst w dir es))"
proof (induction es arbitrary: w)
  case (Cons nb es)
  obtain n b where nb: "nb = (n, b)" by fastforce
  show ?case unfolding nb using Cons assms
    by (auto intro!: leaves_andThen leaves_calling leaves_remove)
qed simp

lemma leaves_sweepStagingTemps:
  "en_Local e = Some lst \<Longrightarrow> c = Inr x \<Longrightarrow> leaves c w (snd (sweepStagingTemps e lst w dir))"
  using leaves_sweep by (auto simp: sweepStagingTemps_def split: sum.split)

lemma leaves_stageFromMedium:
  assumes "en_Local e = Some lst" "c = Inr x"
  shows "leaves c w (snd (stageFromMedium e lst mst w medium src staged))"
  unfolding stageFromMedium_def using assms
  by (intro leaves_andThen)
    (auto intro!: leaves_andThen leaves_calling leaves_remove leaves_putTolerant)

text \<open>The three ways to copy change nothing at an address other than the destination's, staging
  apart, and staging is local.\<close>

lemma leaves_copyBytes:
  assumes d: "addressOf e (mv_DestinationMedium mv) (mv_DestinationKey mv) = Some cd" "c \<noteq> cd"
    and stage: "mv_SourceMedium mv \<noteq> MediumLocal \<and> mv_DestinationMedium mv \<noteq> MediumLocal \<Longrightarrow> c = Inr x"
  shows "leaves c w (snd (copyBytes e w mv src))"
proof -
  have local: "leaves c w (snd (copyToLocal e w mv src))" if "mv_DestinationMedium mv = MediumLocal"
    using d that unfolding copyToLocal_def addressOf_def
    by (auto split: option.split prod.split intro!: leaves_andThen leaves_putTolerant)
  have medium: "leaves c w (snd (copyToMedium e w mv src))" if "mv_DestinationMedium mv \<noteq> MediumLocal"
    using d that unfolding copyToMedium_def addressOf_def
    by (auto split: option.split prod.split sum.splits simp: mapErr_def intro!: leaves_andThen leaves_upload)
  have both: "leaves c w (snd (copyMediumToMedium e w mv src))"
    if m: "mv_DestinationMedium mv \<noteq> MediumLocal" "mv_SourceMedium mv \<noteq> MediumLocal"
  proof -
    have c: "c = Inr x" using stage m by blast
    have last: "leaves c w (snd (let (up, w1) = ms_UploadFromLocal mst w dm staged (mv_DestinationKey mv);
                 (rm, w2) = ls_Remove lst w1 staged in
             (case (up, rm) of
                (Inl err, _) \<Rightarrow> (Inl (StoreSays err), w2)
              | (Inr n, Some err) \<Rightarrow> (Inl (StagingNotRemoved staged err), w2)
              | (Inr n, None) \<Rightarrow> (Inr n, w2))))"
      if "en_Store e = Some mst" "en_Local e = Some lst" "resolve e (mv_DestinationMedium mv) = Inr (dm, want)"
      for mst lst w dm want staged
    proof -
      obtain up w1 rm w2 where u: "ms_UploadFromLocal mst w dm staged (mv_DestinationKey mv) = (up, w1)"
        "ls_Remove lst w1 staged = (rm, w2)" by (meson surj_pair)
      have "c \<noteq> Inr (me_Bucket dm, mv_DestinationKey mv)" using d m(1) that(3) by (simp add: addressOf_def)
      from leaves_upload[OF that(1) this, of w staged] leaves_remove[OF that(2), of c staged w1] u c
      have "leaves c w w2" by (auto intro: leaves_trans)
      with u show ?thesis by (auto split: sum.split option.split)
    qed
    show ?thesis unfolding copyMediumToMedium_def
      using last c by (auto split: option.split prod.split
        intro!: leaves_andThen leaves_calling leaves_mkdir leaves_sweepStagingTemps leaves_stageFromMedium)
  qed
  show ?thesis using local medium both by (auto simp: copyBytes_def)
qed

section \<open>Where the bytes are, phase by phase\<close>

text \<open>The phases in which the journal has not recorded VERIFIED, or has given the move up.\<close>

definition early :: "Phase \<Rightarrow> bool" where
  "early ph = List.member [MovePlanned, MoveCopying, MoveCopied, MoveVerifying, MoveAbandoned] ph"

text \<open>The move in hand may be an older reading of its row, in the same phase.\<close>

definition held :: "'w \<Rightarrow> Move \<Rightarrow> address \<Rightarrow> address \<Rightarrow> string \<Rightarrow> string \<Rightarrow> bool" where
  "held w mv cs cd loc h \<longleftrightarrow>
     (\<exists>row. sameMove mv row \<and> mv_Phase row = mv_Phase mv \<and> tracked (db w) row loc h) \<and>
     addressOf e (mv_SourceMedium mv) loc = Some cs \<and>
     addressOf e (mv_DestinationMedium mv) (mv_DestinationKey mv) = Some cd \<and> cs \<noteq> cd \<and>
     good w (if early (mv_Phase mv) then cs else cd) h"

text \<open>What a step of the walk must leave: a held row, which is the one it returns if it returns one.\<close>

definition keepsHeld :: "Move \<Rightarrow> address \<Rightarrow> address \<Rightarrow> string \<Rightarrow> string \<Rightarrow> (moveError + Move) \<times> 'w \<Rightarrow> bool" where
  "keepsHeld mv cs cd loc h r \<longleftrightarrow>
     (\<exists>mv'. sameMove mv mv' \<and> held (snd r) mv' cs cd loc h \<and> (fst r = Inr mv' \<or> isl (fst r)))"

lemma good_leaves: "leaves c w w' \<Longrightarrow> good w' c h = good w c h"
  by (simp add: leaves_def good_def)

lemma held_leaves:
  assumes "held w mv cs cd loc h" "leaves (if early (mv_Phase mv) then cs else cd) w w'"
  shows "held w' mv cs cd loc h"
  using assms good_leaves[OF assms(2), of h] by (simp add: held_def leaves_def)

lemma keepsHeld_refuse:
  "held w mv cs cd loc h \<Longrightarrow> keepsHeld mv cs cd loc h (Inl err, w)"
  by (auto simp: keepsHeld_def intro: exI[of _ mv])

lemma keepsHeld_trans:
  "sameMove mv mv' \<Longrightarrow> keepsHeld mv' cs cd loc h r \<Longrightarrow> keepsHeld mv cs cd loc h r"
  unfolding keepsHeld_def using sameMove_trans by blast

lemma checked_sel [simp]: "ma_MoveID (checked a) = ma_MoveID a" "ma_To (checked a) = ma_To a"
  "ma_Placements (checked a) = ma_Placements a"
  by (simp_all add: checked_def split: option.split)

text \<open>A phase write: either the row stays, or it is the row in the new phase.\<close>

lemma writeMove_cases:
  assumes h: "held w mv cs cd loc h" and i: "ma_MoveID a = mv_ID mv"
    and ps: "aboutSource (ma_Placements a) mv loc h"
    and w: "writeMove j w a = (r, w')"
  obtains (same) "isl r" "db w' = db w" "bytesAt w' = bytesAt w"
  | (moved) mv' where "sameMove mv mv'" "tracked (db w') mv' loc h" "mv_Phase mv' = ma_To a" "bytesAt w' = bytesAt w"
      "r = Inr mv' \<or> isl r"
proof -
  from w obtain r0 where r0: "mj_AdvanceMove j w (checked a) = (r0, w')" "r = mapErr JournalSays r0"
    by (cases "mj_AdvanceMove j w (checked a)") (simp add: writeMove_def)
  from h obtain row where row: "sameMove mv row" "tracked (db w) row loc h" by (auto simp: held_def)
  have ps': "aboutSource (ma_Placements (checked a)) row loc h" "ma_MoveID (checked a) = mv_ID row"
    using ps i row(1) by (simp_all add: aboutSource_def sameMove_def)
  note law = advance_law[OF r0(1)]
  have step: thesis if "AdvanceMove (db w) (checked a) = (Inr m, db w')" "r = Inr m \<or> isl r" for m
    using tracked_advance[OF row(2) that(1) ps'(2,1)] sameMove_trans[OF row(1)] that(2) law
    by (intro moved[of m]) simp_all
  show thesis
  proof (cases r0)
    case (Inr m)
    with law step[of m] r0(2) show thesis by simp
  next
    case (Inl er)
    with r0(2) have "isl r" by simp
    with Inl law step same show thesis by auto
  qed
qed

lemma writeMove_keeps:
  assumes h: "held w mv cs cd loc h" and i: "ma_MoveID a = mv_ID mv"
    and ps: "aboutSource (ma_Placements a) mv loc h"
    and next_ok: "good w (if early (ma_To a) then cs else cd) h"
  shows "keepsHeld mv cs cd loc h (writeMove j w a)"
proof -
  obtain r w' where w: "writeMove j w a = (r, w')" by fastforce
  have gd: "good w' c h = good w c h" if "bytesAt w' = bytesAt w" for c using that by (simp add: good_def)
  show ?thesis
  proof (cases rule: writeMove_cases[OF h i ps w])
    case 1
    have "held w' mv cs cd loc h" using h gd[OF 1(3)] by (simp add: held_def 1(2))
    with 1(1) w show ?thesis unfolding keepsHeld_def by (auto intro: exI[of _ mv])
  next
    case (2 mv')
    have "held w' mv' cs cd loc h"
      using h 2(1,2,3) gd[OF 2(4)] next_ok unfolding held_def
      by (auto simp: sameMove_def)
    with 2 w show ?thesis unfolding keepsHeld_def by auto
  qed
qed

section \<open>What a verification tells\<close>

text \<open>The destination is on local disk, or on a medium that requires a class that speaks of content,
  with a store to ask.\<close>

definition sure :: "Move \<Rightarrow> bool" where
  "sure mv \<longleftrightarrow> mv_DestinationMedium mv = MediumLocal \<or>
     (\<exists>m want st. resolve e (mv_DestinationMedium mv) = Inr (m, want) \<and> List.member [Content, Attested] want \<and> en_Store e = Some st)"

lemma sure_same: "sameMove mv mv' \<Longrightarrow> sure mv \<Longrightarrow> sure mv'"
  by (simp add: sure_def sameMove_def)

lemma ladder_content:
  assumes "en_Store e = Some st" "want = Content \<or> want = Attested"
    and l: "ladderVerify (en_FoldOther e) (en_SHA256 e) (en_Store e) w m p want now = Inr res"
  shows "rt_Passed res = good w (Inr (me_Bucket m, p_Location p)) (p_Hash p)"
  using assms(2)
proof
  assume "want = Content"
  with l assms(1) obtain b where "ms_OpenObject st w m (p_Location p) = Inr b"
    "rt_Passed res = equalFold (en_FoldOther e) (en_SHA256 e b) (p_Hash p)"
    by (auto simp: ladderVerify_def verifyContent_def Let_def split: if_splits sum.splits)
  with open_law[OF assms(1)] show ?thesis by (simp add: good_def)
next
  assume "want = Attested"
  with l assms(1) obtain a where a: "ms_ObjectChecksum st w m (p_Location p) = Inr a"
    "rt_Passed res = equalFold (en_FoldOther e) (at_Value a) (p_Hash p)"
    by (auto simp: ladderVerify_def verifyAttested_def Let_def split: if_splits sum.splits)
  obtain b where "bytesAt w (Inr (me_Bucket m, p_Location p)) = Some b" "at_Value a = en_SHA256 e b"
    using attest_law[OF assms(1) a(1)] by blast
  with a(2) show ?thesis by (simp add: good_def)
qed

lemma candidateCopy_sel [simp]:
  "p_Location (candidateCopy mv src) = mv_DestinationKey mv" "p_Hash (candidateCopy mv src) = p_Hash src"
  by (simp_all add: candidateCopy_def)

lemma verifyLocalCopy_passed:
  assumes "verifyLocalCopy e w p = Inr res"
  shows "rt_Passed res = good w (Inl (p_Location p)) (p_Hash p)" "rt_Class res = Content"
  using assms read_law unfolding good_def
  by (auto simp: verifyLocalCopy_def Let_def split: option.splits sum.splits if_splits)

lemma verifyCopy_passed:
  assumes s: "sure mv" and d: "addressOf e (mv_DestinationMedium mv) (mv_DestinationKey mv) = Some cd"
    and v: "verifyCopy e w mv src gated = (want, Inr res)"
  shows "rt_Passed res = good w cd (p_Hash src)" "rt_Class res = want"
proof -
  have "rt_Passed res = good w cd (p_Hash src) \<and> rt_Class res = want"
  proof (cases "mv_DestinationMedium mv = MediumLocal")
    case True
    with d v verifyLocalCopy_passed[of w "candidateCopy mv src" res] show ?thesis
      by (auto simp: verifyCopy_def addressOf_def)
  next
    case False
    with s obtain m cl st where m: "resolve e (mv_DestinationMedium mv) = Inr (m, cl)" "cl = Content \<or> cl = Attested"
      "en_Store e = Some st" by (auto simp: sure_def)
    have cd: "cd = Inr (me_Bucket m, mv_DestinationKey mv)" using d False m(1) by (simp add: addressOf_def)
    from v False m have "want = cl"
      by (auto simp: verifyCopy_def Let_def split: if_splits)
    moreover from v False m have "ladderVerify (en_FoldOther e) (en_SHA256 e) (en_Store e) w m (candidateCopy mv src) cl (en_Now e w) = Inr res"
      by (auto simp: verifyCopy_def Let_def mapErr_Inr_iff VerifyWithAccess_def split: if_splits sum.splits option.splits)
    ultimately show ?thesis
      using ladder_content[OF m(3,2), of w m "candidateCopy mv src" "en_Now e w" res] ladderVerify_class
      unfolding cd by fastforce
  qed
  then show "rt_Passed res = good w cd (p_Hash src)" "rt_Class res = want" by simp_all
qed

text \<open>Asked without the gate, a destination of the sort above either answers or is unavailable.\<close>

lemma verifyCopy_errors:
  assumes s: "sure mv" and v: "verifyCopy e w mv src False = (want, Inl err)"
  shows "isUnavailable err"
proof (cases "mv_DestinationMedium mv = MediumLocal")
  case True
  with v show ?thesis by (auto simp: verifyCopy_def verifyLocalCopy_def Let_def split: option.splits sum.splits if_splits)
next
  case False
  with s v show ?thesis by (auto simp: verifyCopy_def sure_def mapErr_def split: sum.splits)
qed

definition proofOK :: "readBackProof option \<Rightarrow> bool" where
  "proofOK pr = (case pr of None \<Rightarrow> True | Some p \<Rightarrow> rt_Passed (pf_result p) \<and> rt_Class (pf_result p) = Content)"

lemma proofOK_None [simp]: "proofOK None" by (simp add: proofOK_def)

lemma proofOK_record: "proofOK (recordProof mv src want res before)"
  by (auto simp: proofOK_def recordProof_def Let_def split: option.split)

lemma reverify_good:
  assumes s: "sure mv" and d: "addressOf e (mv_DestinationMedium mv) (mv_DestinationKey mv) = Some cd"
    and g: "good w cd (p_Hash src)" and pr: "proofOK pr"
    and v: "reverifyForDelete e w mv src pr = ((want, ans), left)"
  shows "proofOK left" "\<And>err. ans = Inl err \<Longrightarrow> isUnavailable err"
    "\<And>res. ans = Inr res \<Longrightarrow> rt_Passed res \<and> rt_Class res = want"
proof -
  have "(want, ans) = verifyCopy e w mv src False \<and> left = pr \<or>
      (\<exists>p. pr = Some p \<and> want = Content \<and> ans = Inr (takeProof p) \<and> left = None)"
    using v by (auto simp: reverifyForDelete_def isAbout_def Let_def split: sum.splits option.splits if_splits)
  then show "proofOK left" "\<And>err. ans = Inl err \<Longrightarrow> isUnavailable err"
    "\<And>res. ans = Inr res \<Longrightarrow> rt_Passed res \<and> rt_Class res = want"
    using pr verifyCopy_errors[OF s, of w src] verifyCopy_passed[OF s d, of w src False] g
    by (auto simp: proofOK_def takeProof_def) (metis prod.inject)+
qed

section \<open>The steps\<close>

lemma held_older:
  assumes "sameMove mv mv'" "mv_Phase mv' = mv_Phase mv" "held w mv' cs cd loc h"
  shows "held w mv cs cd loc h"
proof -
  from assms obtain row where "sameMove mv' row" "mv_Phase row = mv_Phase mv" "tracked (db w) row loc h"
    by (auto simp: held_def)
  with assms show ?thesis unfolding held_def using sameMove_trans by (auto simp: sameMove_def)
qed

lemma held_source:
  assumes "held w mv cs cd loc h" "mj_Get j w (mv_Artifact mv) = Inr rec"
  obtains src where "placementOn rec (mv_SourceMedium mv) = Some src" "p_Medium src = mv_SourceMedium mv"
    "p_Location src = loc" "p_Hash src = h"
proof -
  from assms(1) obtain row where row: "sameMove mv row" "tracked (db w) row loc h" by (auto simp: held_def)
  with get_law[OF assms(2)] have "Get (db w) (mv_Artifact row) = Inr rec" by (simp add: sameMove_def)
  from tracked_source[OF row(2) this] row(1) that show thesis by (auto simp: sameMove_def)
qed

lemma held_not_same: "held w mv cs cd loc h \<Longrightarrow> mv_DestinationMedium mv \<noteq> mv_SourceMedium mv"
  by (auto simp: held_def tracked_def sameMove_def)

lemma writeMove_note:
  assumes h: "held w mv cs cd loc h" and i: "ma_MoveID a = mv_ID mv" "ma_To a = mv_Phase mv"
    and ps: "aboutSource (ma_Placements a) mv loc h"
  shows "held (snd (writeMove j w a)) mv cs cd loc h"
proof -
  obtain r w' where w: "writeMove j w a = (r, w')" by fastforce
  have gd: "good w' c h = good w c h" if "bytesAt w' = bytesAt w" for c using that by (simp add: good_def)
  show ?thesis
  proof (cases rule: writeMove_cases[OF h i(1) ps w])
    case 1
    then show ?thesis using h gd[OF 1(3)] w by (simp add: held_def)
  next
    case (2 mv')
    then show ?thesis using h gd[OF 2(4)] w i(2) unfolding held_def by auto
  qed
qed

lemma advanceTo_sel [simp]:
  "ma_MoveID (advanceTo e w mv fr to) = mv_ID mv" "ma_To (advanceTo e w mv fr to) = to"
  "ma_Placements (advanceTo e w mv fr to) = []"
  by (simp_all add: advanceTo_def)

lemma aboutSource_simps [simp]:
  "aboutSource [] mv loc h"
  "aboutSource (us @ vs) mv loc h \<longleftrightarrow> aboutSource us mv loc h \<and> aboutSource vs mv loc h"
  "p_Medium src = mv_SourceMedium mv \<Longrightarrow> p_Location src = loc \<Longrightarrow> p_Hash src = h \<Longrightarrow>
     aboutSource [statusUpdate src st] mv loc h"
  "p_Medium p \<noteq> mv_SourceMedium mv \<Longrightarrow> aboutSource [statusUpdate p st] mv loc h"
  "mv_DestinationMedium mv \<noteq> mv_SourceMedium mv \<Longrightarrow> aboutSource [destinationPlacement mv src res] mv loc h"
  by (auto simp: aboutSource_def statusUpdate_def WithStatus_def placementUpdate_def destinationPlacement_def)

lemma placementOn_medium: "placementOn rec m = Some p \<Longrightarrow> p_Medium p = m"
  by (auto simp: placementOn_def dest: find_SomeD)

text \<open>The parts of a step that return nothing keep the row held, in the phase it is in.\<close>

lemma held_andThen:
  assumes "held (snd r) mv cs cd loc h" "\<And>a w1. r = (Inr a, w1) \<Longrightarrow> held w1 mv cs cd loc h \<Longrightarrow> held (snd (f a w1)) mv cs cd loc h"
  shows "held (snd (andThen r f)) mv cs cd loc h"
  using assms by (cases r; cases "fst r") (auto simp: andThen_def)

lemma held_of_leaves:
  "held w mv cs cd loc h \<Longrightarrow> early (mv_Phase mv) \<Longrightarrow> leaves cs w (snd r) \<Longrightarrow> held (snd r) mv cs cd loc h"
  using held_leaves by simp

lemma getRecord_snd [simp]: "snd (getRecord j w a) = w" by (simp add: getRecord_def)

lemma getRecord_Inr: "getRecord j w a = (Inr rec, w1) \<Longrightarrow> mj_Get j w a = Inr rec \<and> w1 = w"
  by (auto simp: getRecord_def mapErr_Inr_iff)

lemma forget_held:
  assumes "held w mv cs cd loc h"
  shows "held (snd (forgetDestination j e w mv)) mv cs cd loc h"
  using assms held_not_same[OF assms] placementOn_medium unfolding forgetDestination_def
  by (auto intro!: held_andThen writeMove_note split: option.split dest!: getRecord_Inr)

lemma discardDestination_held:
  assumes h: "held w mv cs cd loc h" and ph: "early (mv_Phase mv)"
  shows "held (snd (discardDestination j e w mv)) mv cs cd loc h"
proof -
  have cs: "addressOf e (mv_DestinationMedium mv) (mv_DestinationKey mv) = Some cd" "cs \<noteq> cd"
    using h by (simp_all add: held_def)
  show ?thesis
  proof (cases "mv_DestinationMedium mv = MediumLocal")
    case True
    with cs have "cs \<noteq> Inl (mv_DestinationKey mv)" by (simp add: addressOf_def)
    then have l: "held (snd (calling g (ls_Remove lst w (mv_DestinationKey mv)))) mv cs cd loc h"
      if "en_Local e = Some lst" for lst g
      using that by (intro held_of_leaves[OF h ph] leaves_calling leaves_remove)
    show ?thesis using True h unfolding discardDestination_def Let_def
      by (cases "en_Local e") (auto intro!: held_andThen l forget_held)
  next
    case False
    show ?thesis
    proof (cases "resolve e (mv_DestinationMedium mv)")
      case (Inr mc)
      then obtain m want where r: "resolve e (mv_DestinationMedium mv) = Inr (m, want)" by (cases mc) auto
      with False cs have "cs \<noteq> Inr (me_Bucket m, mv_DestinationKey mv)" by (simp add: addressOf_def)
      then have l: "held (snd (calling g (ms_DeleteObject st w m (mv_DestinationKey mv)))) mv cs cd loc h"
        if "en_Store e = Some st" for st g
        using that by (intro held_of_leaves[OF h ph] leaves_calling leaves_delete)
      show ?thesis using False r h unfolding discardDestination_def Let_def
        by (cases "en_Store e") (auto intro!: held_andThen l forget_held)
    qed (use False h in \<open>simp add: discardDestination_def Let_def\<close>)
  qed
qed

lemma discardStaging_held:
  assumes h: "held w mv cs cd loc h" and ph: "early (mv_Phase mv)"
  shows "held (snd (discardStaging e w mv)) mv cs cd loc h"
proof (cases "mv_SourceMedium mv = MediumLocal \<or> mv_DestinationMedium mv = MediumLocal")
  case True
  with h show ?thesis by (simp add: discardStaging_def)
next
  case False
  with h obtain x where "cs = Inr x" by (auto simp: held_def addressOf_def split: sum.splits)
  then have "leaves cs w (snd (discardStaging e w mv))"
    unfolding discardStaging_def
    by (auto split: option.split sum.split intro!: leaves_andThen leaves_calling leaves_remove leaves_sweepStagingTemps)
  from held_of_leaves[OF h ph this] show ?thesis .
qed

lemma keepsHeld_return: "held w mv cs cd loc h \<Longrightarrow> keepsHeld mv cs cd loc h (Inr mv, w)"
  by (auto simp: keepsHeld_def)

lemma keepsHeld_read:
  assumes "held w mv cs cd loc h" "\<And>a. x = Inr a \<Longrightarrow> keepsHeld mv cs cd loc h (f a w)"
  shows "keepsHeld mv cs cd loc h (andThen (x, w) f)"
  using assms by (cases x) (auto intro: keepsHeld_refuse)

lemma keepsHeld_record:
  assumes "held w mv cs cd loc h"
    "\<And>rec src. placementOn rec (mv_SourceMedium mv) = Some src \<Longrightarrow> p_Medium src = mv_SourceMedium mv \<Longrightarrow>
       p_Location src = loc \<Longrightarrow> p_Hash src = h \<Longrightarrow> mj_Get j w (mv_Artifact mv) = Inr rec \<Longrightarrow> keepsHeld mv cs cd loc h (f rec w)"
  shows "keepsHeld mv cs cd loc h (andThen (getRecord j w (mv_Artifact mv)) f)"
  unfolding getRecord_def using assms(1)
proof (rule keepsHeld_read)
  fix rec assume "mapErr JournalSays (mj_Get j w (mv_Artifact mv)) = Inr rec"
  then have g: "mj_Get j w (mv_Artifact mv) = Inr rec" by (simp add: mapErr_Inr_iff)
  from held_source[OF assms(1) g] assms(2)[of rec] g show "keepsHeld mv cs cd loc h (f rec w)" by metis
qed

lemma keepsHeld_unit:
  assumes "held (snd r) mv cs cd loc h" "\<And>w1. held w1 mv cs cd loc h \<Longrightarrow> keepsHeld mv cs cd loc h (f () w1)"
  shows "keepsHeld mv cs cd loc h (andThen r f)"
  using assms by (cases r; cases "fst r") (auto simp: andThen_def intro: keepsHeld_refuse)

lemma writeMove_then:
  assumes h: "held w mv cs cd loc h" and i: "ma_MoveID a = mv_ID mv" and ps: "aboutSource (ma_Placements a) mv loc h"
    and g: "good w (if early (ma_To a) then cs else cd) h"
    and f: "\<And>mv' w1. sameMove mv mv' \<Longrightarrow> mv_Phase mv' = ma_To a \<Longrightarrow> held w1 mv' cs cd loc h \<Longrightarrow> keepsHeld mv' cs cd loc h (f mv' w1)"
  shows "keepsHeld mv cs cd loc h (andThen (writeMove j w a) f)"
proof -
  obtain r w' where w: "writeMove j w a = (r, w')" by fastforce
  have k: "keepsHeld mv cs cd loc h (r, w')" using writeMove_keeps[OF h i ps g] w by simp
  show ?thesis
  proof (cases r)
    case (Inl er)
    with k show ?thesis by (auto simp: w keepsHeld_def)
  next
    case (Inr m)
    with k have m: "sameMove mv m" "held w' m cs cd loc h" by (auto simp: keepsHeld_def)
    have "mv_Phase m = ma_To a" using writeMove_cases[OF h i ps w] Inr by (metis isl_def sum.distinct(1) sum.inject(2))
    from keepsHeld_trans[OF m(1) f[OF m(1) this m(2)]] show ?thesis by (simp add: w Inr)
  qed
qed

lemma restoreSource_about:
  "placementOn rec (mv_SourceMedium mv) = Some src \<Longrightarrow> p_Medium src = mv_SourceMedium mv \<Longrightarrow> p_Location src = loc \<Longrightarrow>
    p_Hash src = h \<Longrightarrow> aboutSource (restoreSource rec mv) mv loc h"
  by (simp add: restoreSource_def)

lemma abandon_keeps:
  assumes h: "held w mv cs cd loc h" and ph: "early (mv_Phase mv)"
  shows "keepsHeld mv cs cd loc h (abandon j e w mv why)"
  unfolding abandon_def
proof (rule keepsHeld_record[OF h])
  fix rec src assume "placementOn rec (mv_SourceMedium mv) = Some src" "p_Medium src = mv_SourceMedium mv"
    "p_Location src = loc" "p_Hash src = h"
  note ps = restoreSource_about[OF this]
  have g: "good w cs h" using h ph by (simp add: held_def)
  show "keepsHeld mv cs cd loc h (andThen (writeMove j w ((advanceTo e w mv (mv_Phase mv) MoveAbandoned)
         \<lparr>ma_Error := why, ma_Placements := restoreSource rec mv\<rparr>)) (\<lambda>mv w.
     andThen (discardDestination j e w mv) (\<lambda>_ w.
     andThen (discardStaging e w mv) (\<lambda>_ w. (Inr mv, w)))))"
    by (rule writeMove_then[OF h])
      (use ps g in \<open>auto simp: early_def intro!: keepsHeld_unit discardDestination_held discardStaging_held keepsHeld_return\<close>)
qed

lemma recopy_keeps:
  assumes h: "held w mv cs cd loc h" and ph: "early (mv_Phase mv)"
  shows "keepsHeld mv cs cd loc h (recopyOrAbandon j e w mv fr why)"
  unfolding recopyOrAbandon_def
proof (rule keepsHeld_record[OF h])
  fix rec src assume "placementOn rec (mv_SourceMedium mv) = Some src" "p_Medium src = mv_SourceMedium mv"
    "p_Location src = loc" "p_Hash src = h"
  note ps = restoreSource_about[OF this]
  have g: "good w cs h" using h ph by (simp add: held_def)
  have ps2: "aboutSource (case placementOn rec (mv_DestinationMedium mv) of
               Some dst \<Rightarrow> (if p_Status dst = PlacementActive then [statusUpdate dst PlacementDeletePending] else [])
             | None \<Rightarrow> []) mv loc h"
    using placementOn_medium[of rec "mv_DestinationMedium mv"] held_not_same[OF h] by (auto split: option.split)
  show "keepsHeld mv cs cd loc h (andThen (writeMove j w ((advanceTo e w mv fr MoveCopying)
         \<lparr>ma_Error := why,
          ma_Placements := restoreSource rec mv @
            (case placementOn rec (mv_DestinationMedium mv) of
               Some dst \<Rightarrow> (if p_Status dst = PlacementActive then [statusUpdate dst PlacementDeletePending] else [])
             | None \<Rightarrow> [])\<rparr>)) (\<lambda>mv w.
     andThen (discardDestination j e w mv) (\<lambda>_ w. (Inr mv, w))))"
    by (rule writeMove_then[OF h])
      (use ps ps2 g in \<open>auto simp: early_def intro!: keepsHeld_unit discardDestination_held keepsHeld_return\<close>)
qed

lemma moveStep_keeps:
  assumes h: "held w mv cs cd loc h" and g: "good w (if early to then cs else cd) h"
  shows "keepsHeld mv cs cd loc h (moveStep j e w mv fr to why)"
  unfolding moveStep_def by (rule writeMove_keeps[OF h]) (use g in simp_all)

lemma held_good: "held w mv cs cd loc h \<Longrightarrow> good w (if early (mv_Phase mv) then cs else cd) h"
  by (simp add: held_def)

lemma noteOnRow_keeps:
  assumes h: "held w mv cs cd loc h"
  shows "keepsHeld mv cs cd loc h (noteOnRow j e w mv why)"
proof -
  have "held (snd (moveStep j e w mv (mv_Phase mv) (mv_Phase mv) (en_Why e (WhyError why)))) mv cs cd loc h"
    unfolding moveStep_def by (rule writeMove_note[OF h]) simp_all
  then show ?thesis unfolding noteOnRow_def by (auto split: prod.split sum.split intro: keepsHeld_refuse)
qed

lemma startCopy_keeps:
  assumes h: "held w mv cs cd loc h" and ph: "early (mv_Phase mv)"
  shows "keepsHeld mv cs cd loc h (startCopy j e w mv)"
  unfolding startCopy_def
proof (rule keepsHeld_record[OF h])
  fix rec :: Record
  have "good w cs h" using held_good[OF h] ph by simp
  then show "keepsHeld mv cs cd loc h (case eligibleSource e rec (mv_DestinationMedium mv) of
      Inl err \<Rightarrow> abandon j e w mv (en_Why e (WhyError err)) | Inr _ \<Rightarrow> moveStep j e w mv MovePlanned MoveCopying [])"
    using abandon_keeps[OF h ph] moveStep_keeps[OF h, of MoveCopying] by (auto simp: early_def split: sum.split)
qed

lemma copyBytes_held:
  assumes h: "held w mv cs cd loc h" and ph: "early (mv_Phase mv)"
  shows "held (snd (copyBytes e w mv src)) mv cs cd loc h"
proof -
  have d: "addressOf e (mv_DestinationMedium mv) (mv_DestinationKey mv) = Some cd" "cs \<noteq> cd"
    "addressOf e (mv_SourceMedium mv) loc = Some cs" using h by (simp_all add: held_def)
  then have "\<exists>x. mv_SourceMedium mv \<noteq> MediumLocal \<longrightarrow> cs = Inr x"
    by (auto simp: addressOf_def split: sum.splits)
  then obtain x where "mv_SourceMedium mv \<noteq> MediumLocal \<longrightarrow> cs = Inr x" by blast
  with leaves_copyBytes[OF d(1,2), of x] have "leaves cs w (snd (copyBytes e w mv src))" by blast
  from held_of_leaves[OF h ph this] show ?thesis .
qed

lemma copyMove_keeps:
  assumes h: "held w mv cs cd loc h" and ph: "early (mv_Phase mv)"
  shows "keepsHeld mv cs cd loc h (copyMove j e w mv)"
  unfolding copyMove_def
proof (rule keepsHeld_record[OF h])
  fix rec src assume src: "placementOn rec (mv_SourceMedium mv) = Some src"
  obtain r w1 where c: "copyBytes e w mv src = (r, w1)" by fastforce
  have h1: "held w1 mv cs cd loc h" using copyBytes_held[OF h ph, of src] c by simp
  have g1: "good w1 cs h" using held_good[OF h1] ph by simp
  have note1: "keepsHeld mv cs cd loc h (Inl err, w2)" if "moveStep j e w1 mv MoveCopying MoveCopying why = (r2, w2)" for err why r2 w2
    using that moveStep_keeps[OF h1, of MoveCopying MoveCopying why] g1 unfolding keepsHeld_def by (auto simp: early_def)
  have copied: "keepsHeld mv cs cd loc h (writeMove j w1 ((advanceTo e w1 mv MoveCopying MoveCopied)\<lparr>ma_BytesCopied := Some n\<rparr>))" for n
    by (rule writeMove_keeps[OF h1]) (use g1 in \<open>simp_all add: early_def\<close>)
  show "keepsHeld mv cs cd loc h
    (case placementOn rec (mv_SourceMedium mv) of
          None \<Rightarrow> abandon j e w mv (en_Why e (WhyNothingToCopy (mv_Artifact mv) (mv_SourceMedium mv)))
        | Some src \<Rightarrow>
          if p_Location src = [] then abandon j e w mv (en_Why e (WhyNothingToCopy (mv_Artifact mv) (mv_SourceMedium mv)))
          else case destinationCanBeVerified e (mv_DestinationMedium mv) of
            Some err \<Rightarrow> abandon j e w mv (behind mv (en_Why e (WhyNotTo (mv_Artifact mv) (mv_DestinationMedium mv) err)))
          | None \<Rightarrow>
            (case copyBytes e w mv src of
               (Inl err, w) \<Rightarrow>
                 if isRefused err
                 then abandon j e w mv (behind mv (en_Why e
                        (WhyNotFromTo (mv_Artifact mv) (mv_SourceMedium mv) (mv_DestinationMedium mv) err)))
                 else
                   let wrapped = CopyFailed (mv_Artifact mv) (mv_DestinationMedium mv) err in
                   (case moveStep j e w mv MoveCopying MoveCopying (en_Why e (WhyError wrapped)) of
                      (Inl n, w) \<Rightarrow> (Inl (Unnoted wrapped n), w)
                    | (Inr _, w) \<Rightarrow> (Inl wrapped, w))
             | (Inr n, w) \<Rightarrow>
               writeMove j w ((advanceTo e w mv MoveCopying MoveCopied)\<lparr>ma_BytesCopied := Some n\<rparr>)))"
    using abandon_keeps[OF h ph] abandon_keeps[OF h1 ph] copied
    by (auto simp: src c Let_def split: option.split sum.split prod.split intro: note1)
qed

lemma startVerify_keeps:
  assumes h: "held w mv cs cd loc h" and ph: "early (mv_Phase mv)"
  shows "keepsHeld mv cs cd loc h (startVerify j e w mv)"
  unfolding startVerify_def by (rule moveStep_keeps[OF h]) (use held_good[OF h] ph in \<open>simp add: early_def\<close>)

lemma intendSourceDelete_keeps:
  assumes h: "held w mv cs cd loc h" and ph: "\<not> early (mv_Phase mv)"
  shows "keepsHeld mv cs cd loc h (intendSourceDelete j e w mv)"
  unfolding intendSourceDelete_def
proof (rule keepsHeld_record[OF h])
  fix rec src assume src: "placementOn rec (mv_SourceMedium mv) = Some src" "p_Medium src = mv_SourceMedium mv"
    "p_Location src = loc" "p_Hash src = h"
  have "keepsHeld mv cs cd loc h (writeMove j w ((advanceTo e w mv MoveVerified MoveSourceDeletePending)
            \<lparr>ma_Placements := [statusUpdate src PlacementDeletePending]\<rparr>))"
    by (rule writeMove_keeps[OF h]) (use held_good[OF h] ph src in \<open>simp_all add: early_def\<close>)
  then show "keepsHeld mv cs cd loc h (case placementOn rec (mv_SourceMedium mv) of
          None \<Rightarrow> (Inl (NoPlacementToDelete (mv_Artifact mv) (mv_SourceMedium mv)), w)
        | Some src \<Rightarrow>
          writeMove j w ((advanceTo e w mv MoveVerified MoveSourceDeletePending)
            \<lparr>ma_Placements := [statusUpdate src PlacementDeletePending]\<rparr>))"
    by (simp add: src(1))
qed

definition keepsProved :: "Move \<Rightarrow> address \<Rightarrow> address \<Rightarrow> string \<Rightarrow> string \<Rightarrow> (moveError + Move \<times> readBackProof option) \<times> 'w \<Rightarrow> bool" where
  "keepsProved mv cs cd loc h r \<longleftrightarrow>
     (\<exists>mv'. sameMove mv mv' \<and> held (snd r) mv' cs cd loc h \<and> (isl (fst r) \<or> (\<exists>pr. fst r = Inr (mv', pr) \<and> proofOK pr)))"

lemma holding_keeps: "keepsHeld mv cs cd loc h r \<Longrightarrow> proofOK pr \<Longrightarrow> keepsProved mv cs cd loc h (holding pr r)"
  by (cases r; cases "fst r") (auto simp: keepsHeld_def keepsProved_def holding_def)

lemma keepsProved_refuse: "held w mv cs cd loc h \<Longrightarrow> keepsProved mv cs cd loc h (Inl err, w)"
  by (auto simp: keepsProved_def intro: exI[of _ mv])

lemma keepsProved_record:
  assumes "held w mv cs cd loc h"
    "\<And>rec src. placementOn rec (mv_SourceMedium mv) = Some src \<Longrightarrow> p_Medium src = mv_SourceMedium mv \<Longrightarrow>
       p_Location src = loc \<Longrightarrow> p_Hash src = h \<Longrightarrow> keepsProved mv cs cd loc h (f rec w)"
  shows "keepsProved mv cs cd loc h (andThen (getRecord j w (mv_Artifact mv)) f)"
proof (cases "mj_Get j w (mv_Artifact mv)")
  case (Inl err)
  with keepsProved_refuse[OF assms(1)] show ?thesis by (simp add: getRecord_def)
next
  case (Inr rec)
  from held_source[OF assms(1) Inr] assms(2)[of rec] Inr show ?thesis by (simp add: getRecord_def) metis
qed

lemma verifyDestination_keeps:
  assumes h: "held w mv cs cd loc h" and ph: "early (mv_Phase mv)" and s: "sure mv" and pr: "proofOK pr"
  shows "keepsProved mv cs cd loc h (verifyDestination j e w mv pr)"
  unfolding verifyDestination_def
proof (rule keepsProved_record[OF h])
  fix rec src assume src: "placementOn rec (mv_SourceMedium mv) = Some src" "p_Hash src = h"
  have d: "addressOf e (mv_DestinationMedium mv) (mv_DestinationKey mv) = Some cd" using h by (simp add: held_def)
  obtain want ans where v: "verifyCopy e w mv src True = (want, ans)" by fastforce
  have ok: "keepsProved mv cs cd loc h (holding (recordProof mv src want res before)
      (writeMove j w ((advanceTo e w mv MoveVerifying MoveVerified)\<lparr>ma_Placements := [destinationPlacement mv src res]\<rparr>)))"
    if "ans = Inr res" "rt_Passed res" for res before
    by (intro holding_keeps proofOK_record writeMove_keeps[OF h])
      (use verifyCopy_passed[OF s d v[unfolded that(1)]] that(2) src(2) held_not_same[OF h] in \<open>simp_all add: early_def\<close>)
  show "keepsProved mv cs cd loc h (case placementOn rec (mv_SourceMedium mv) of
          None \<Rightarrow> holding pr (abandon j e w mv (en_Why e (WhyNoHash (mv_Artifact mv) (mv_SourceMedium mv))))
        | Some src \<Rightarrow>
          let before = identifyBeforeReadBack e w mv in
          (case verifyCopy e w mv src True of
             (want, Inl err) \<Rightarrow>
               if isRefused err
               then holding pr (abandon j e w mv (en_Why e (WhyRefusedThere (mv_DestinationMedium mv) want err)))
               else holding pr (recopyOrAbandon j e w mv MoveVerifying
                      (en_Why e (WhyNotVerified (mv_DestinationMedium mv) want err)))
           | (want, Inr result) \<Rightarrow>
             if \<not> rt_Passed result
             then holding pr (recopyOrAbandon j e w mv MoveVerifying
                    (en_Why e (WhyFailed (mv_DestinationMedium mv) (rt_Class result) (rt_Detail result))))
             else
               holding (recordProof mv src want result before)
                 (writeMove j w ((advanceTo e w mv MoveVerifying MoveVerified)
                    \<lparr>ma_Placements := [destinationPlacement mv src result]\<rparr>))))"
    using ok holding_keeps[OF abandon_keeps[OF h ph] pr] holding_keeps[OF recopy_keeps[OF h ph] pr]
    by (simp add: src(1) v Let_def split: sum.split)
qed

lemma guard_target:
  assumes "guardSourceDelete e w mv rec want = Inr target" "placementOn rec (mv_SourceMedium mv) = Some src"
  shows "(case target of LocalTarget p \<Rightarrow> p_Medium src = MediumLocal
    | MediumTarget m k \<Rightarrow> (\<exists>c. resolve e (p_Medium src) = Inr (m, c)) \<and> k = p_Location src \<and> p_Medium src \<noteq> MediumLocal)"
proof -
  from assms have "bindE (if p_Medium src = MediumLocal then bindE (proveLocalSourceSafe e w rec src) (\<lambda>path. Inr (LocalTarget path))
                        else bindE (proveMediumSourceSafe e w mv src) (\<lambda>(medium, key). Inr (MediumTarget medium key)))
                   (\<lambda>target'.
                   (case copiesOf e w rec of
                      Inl (m, c, err) \<Rightarrow> Inl (GuardRefused (mv_Artifact mv) (mv_SourceMedium mv) (GuardClassUnknown m c err))
                    | Inr copies \<Rightarrow>
                      (case CheckSourceDelete (lastOn (p_Medium src) copies) copies of
                         Some err \<Rightarrow> Inl (GuardRefused (mv_Artifact mv) (mv_SourceMedium mv) (GuardNoSurvivor err))
                       | None \<Rightarrow> Inr target'))) = Inr target"
    unfolding guardSourceDelete_def Let_def by (simp split: if_splits option.splits sum.splits prod.splits)
  from iffD1[OF bindE_Inr_iff this] obtain t where t: "(if p_Medium src = MediumLocal then bindE (proveLocalSourceSafe e w rec src) (\<lambda>path. Inr (LocalTarget path))
      else bindE (proveMediumSourceSafe e w mv src) (\<lambda>(medium, key). Inr (MediumTarget medium key))) = Inr t"
    and rest: "(case copiesOf e w rec of
                      Inl (m, c, err) \<Rightarrow> Inl (GuardRefused (mv_Artifact mv) (mv_SourceMedium mv) (GuardClassUnknown m c err))
                    | Inr copies \<Rightarrow>
                      (case CheckSourceDelete (lastOn (p_Medium src) copies) copies of
                         Some err \<Rightarrow> Inl (GuardRefused (mv_Artifact mv) (mv_SourceMedium mv) (GuardNoSurvivor err))
                       | None \<Rightarrow> Inr t)) = Inr target" by blast
  from rest have "t = target"
    by (cases "copiesOf e w rec") (simp_all split: prod.splits option.splits)
  with t show ?thesis
    by (auto simp: bindE_Inr_iff proveMediumSourceSafe_def Let_def
        split: if_splits sum.splits prod.splits option.splits storeFault.splits)
qed

lemma removeTarget_leaves:
  assumes h: "held w mv cs cd loc h" and src: "placementOn rec (mv_SourceMedium mv) = Some src" "p_Medium src = mv_SourceMedium mv"
    "p_Location src = loc" and g: "guardSourceDelete e w mv rec want = Inr target"
  shows "leaves cd w (snd (removeTarget e w target))"
proof (cases target)
  case (LocalTarget p)
  with guard_target[OF g src(1)] src(2) h held_not_same[OF h] have "cd \<noteq> Inl p"
    by (auto simp: held_def addressOf_def split: sum.splits)
  with LocalTarget show ?thesis
    by (cases "en_Local e") (auto simp: removeTarget_def intro: leaves_calling leaves_remove)
next
  case (MediumTarget m k)
  with guard_target[OF g src(1)] src(2,3) h have "cd \<noteq> Inr (me_Bucket m, k)"
    by (auto simp: held_def addressOf_def)
  with MediumTarget show ?thesis
    by (cases "en_Store e") (auto simp: removeTarget_def intro: leaves_calling leaves_delete)
qed

lemma finishMove_keeps:
  assumes h: "held w mv cs cd loc h" and ph: "\<not> early (mv_Phase mv)"
    and src: "p_Medium src = mv_SourceMedium mv" "p_Location src = loc" "p_Hash src = h"
  shows "keepsHeld mv cs cd loc h (finishMove j e w mv src)"
  unfolding finishMove_def
  by (rule writeMove_keeps[OF h]) (use held_good[OF h] ph src in \<open>simp_all add: early_def\<close>)

lemma deleteSource_keeps:
  assumes h: "held w mv cs cd loc h" and ph: "\<not> early (mv_Phase mv)" and s: "sure mv" and pr: "proofOK pr"
  shows "keepsProved mv cs cd loc h (deleteSource j e w mv pr)"
  unfolding deleteSource_def
proof (rule keepsProved_record[OF h])
  fix rec src assume src: "placementOn rec (mv_SourceMedium mv) = Some src" "p_Medium src = mv_SourceMedium mv"
    "p_Location src = loc" "p_Hash src = h"
  have d: "addressOf e (mv_DestinationMedium mv) (mv_DestinationKey mv) = Some cd" using h by (simp add: held_def)
  have g: "good w cd (p_Hash src)" using held_good[OF h] ph src(4) by simp
  obtain want ans left where v: "reverifyForDelete e w mv src pr = ((want, ans), left)"
    by (cases "reverifyForDelete e w mv src pr"; cases "fst (reverifyForDelete e w mv src pr)") auto
  note re = reverify_good[OF s d g pr v]
  note fin = holding_keeps[OF finishMove_keeps[OF h ph src(2,3,4)] re(1)]
  note nt = holding_keeps[OF noteOnRow_keeps[OF h] re(1)]
  let ?tail = "\<lambda>target. (case removeTarget e w target of
                    (Inl err, w) \<Rightarrow> holding left (noteOnRow j e w mv (DeleteFailed (mv_Artifact mv) (mv_SourceMedium mv) err))
                  | (Inr _, w) \<Rightarrow> holding left (finishMove j e w mv src))"
  have tail: "keepsProved mv cs cd loc h (?tail target)" if t: "guardSourceDelete e w mv rec want = Inr target" for target
  proof -
    obtain r w1 where r: "removeTarget e w target = (r, w1)" by fastforce
    have h1: "held w1 mv cs cd loc h"
      using held_leaves[OF h, of w1] removeTarget_leaves[OF h src(1,2,3) t] ph r by simp
    show ?thesis
      using holding_keeps[OF finishMove_keeps[OF h1 ph src(2,3,4)] re(1)] holding_keeps[OF noteOnRow_keeps[OF h1] re(1)]
      by (simp add: r split: sum.split)
  qed
  show "keepsProved mv cs cd loc h (case placementOn rec (mv_SourceMedium mv) of
          None \<Rightarrow> (Inl (NoPlacementToDelete (mv_Artifact mv) (mv_SourceMedium mv)), w)
        | Some src \<Rightarrow>
          let ((want, answer), left) = reverifyForDelete e w mv src pr;
              goBack = (\<lambda>why. holding left (recopyOrAbandon j e w mv MoveSourceDeletePending (en_Why e why)));
              guarded = guardSourceDelete e w mv rec want in
          (case answer of
             Inl err \<Rightarrow>
               if isUnavailable err then
                 (if guarded = Inl SourceAlreadyGone then holding left (finishMove j e w mv src)
                  else holding left (noteOnRow j e w mv (NotReverified (mv_Artifact mv) (mv_DestinationMedium mv) want err)))
               else goBack (WhyNotReverified (mv_DestinationMedium mv) want err)
           | Inr result \<Rightarrow>
             if rt_Class result \<noteq> want then goBack (WhyOtherClass (rt_Class result) want)
             else if \<not> rt_Passed result
             then goBack (WhyFailedAgain (mv_DestinationMedium mv) (rt_Class result) (rt_Detail result))
             else (case guarded of
                 Inl err \<Rightarrow>
                   if err = SourceAlreadyGone then holding left (finishMove j e w mv src)
                   else holding left (noteOnRow j e w mv err)
               | Inr target \<Rightarrow>
                 (case removeTarget e w target of
                    (Inl err, w) \<Rightarrow> holding left (noteOnRow j e w mv (DeleteFailed (mv_Artifact mv) (mv_SourceMedium mv) err))
                  | (Inr _, w) \<Rightarrow> holding left (finishMove j e w mv src)))))"
  proof (cases ans)
    case (Inl err)
    with re(2)[OF Inl] fin nt show ?thesis by (simp add: src(1) v)
  next
    case (Inr res)
    show ?thesis
    proof (cases "guardSourceDelete e w mv rec want")
      case (Inl err)
      with re(3)[OF Inr] Inr fin nt show ?thesis by (simp add: src(1) v)
    next
      case (Inr target)
      with re(3)[OF \<open>ans = Inr res\<close>] \<open>ans = Inr res\<close> tail[OF Inr] show ?thesis by (simp add: src(1) v)
    qed
  qed
qed

lemma phaseStep_keeps:
  assumes h: "held w mv cs cd loc h" and s: "sure mv" and pr: "proofOK pr"
  shows "keepsProved mv cs cd loc h (phaseStep j e w mv n pr)"
  using holding_keeps[OF startCopy_keeps[OF h] pr] holding_keeps[OF abandon_keeps[OF h] pr] holding_keeps[OF copyMove_keeps[OF h] pr]
    holding_keeps[OF startVerify_keeps[OF h] pr] verifyDestination_keeps[OF h _ s pr] holding_keeps[OF intendSourceDelete_keeps[OF h] pr]
    deleteSource_keeps[OF h _ s pr] keepsProved_refuse[OF h]
  by (cases "mv_Phase mv") (simp_all add: phaseStep_def early_def)

lemma walk_holds:
  assumes "held w mv cs cd loc h" "sure mv" "proofOK pr"
  shows "\<exists>mv'. sameMove mv mv' \<and> held (snd (walk j e n w mv k pr resumed)) mv' cs cd loc h"
  using assms
proof (induction n arbitrary: w mv k pr)
  case 0
  then show ?case by (auto intro: exI[of _ mv])
next
  case (Suc n)
  let ?k = "if mv_Phase mv = MoveCopying then k + 1 else k"
  obtain r w1 where r: "phaseStep j e w mv ?k pr = (r, w1)" by fastforce
  with phaseStep_keeps[OF Suc.prems, of ?k] obtain mv1 where m: "sameMove mv mv1" "held w1 mv1 cs cd loc h"
    "isl r \<or> (\<exists>pr. r = Inr (mv1, pr) \<and> proofOK pr)" by (auto simp: keepsProved_def)
  show ?case
  proof (cases "IsTerminal (mv_Phase mv)")
    case True
    with Suc.prems show ?thesis by (auto intro: exI[of _ mv])
  next
    case False
    show ?thesis
    proof (cases r)
      case (Inl err)
      with False r m show ?thesis by (auto simp: Let_def)
    next
      case (Inr a)
      with m obtain pr1 where a: "a = (mv1, pr1)" "proofOK pr1" by auto
      from Suc.IH[OF m(2) sure_same[OF m(1) Suc.prems(2)] a(2), of ?k] m(1) False r Inr a
      show ?thesis using sameMove_trans by (fastforce simp: Let_def)
    qed
  qed
qed

end

end
