(* ===== verification/MoveBound.thy ===== *)
theory MoveBound
  imports MoveEngine
begin

text \<open>
  The length of a walk.  Whatever the stores answer, a walk that may copy at most five times in a
  cycle ends by itself within the 32 iterations the driver allows: the loop without the bound
  returns, and returns what \<open>advance\<close> returns.
\<close>

section \<open>The loop without its bound\<close>

partial_function (option) freeWalk ::
  "'w MoveJournalOps \<Rightarrow> 'w Engine \<Rightarrow> 'w \<Rightarrow> Move \<Rightarrow> int \<Rightarrow> readBackProof option \<Rightarrow> bool \<Rightarrow> (MoveOutcome \<times> 'w) option" where
  "freeWalk j e w mv attempts proof resumed =
     (if IsTerminal (mv_Phase mv) then Some (ended mv resumed, w)
      else
        let attempts = (if mv_Phase mv = MoveCopying then attempts + 1 else attempts) in
        (case phaseStep j e w mv attempts proof of
           (Inl err, w) \<Rightarrow> Some (stopped e mv resumed err, w)
         | (Inr (mv', proof), w) \<Rightarrow> freeWalk j e w mv' attempts proof resumed))"

text \<open>Steps left at most, with \<open>n\<close> copies allowed and \<open>k\<close> of them spent.\<close>

fun stepsLeft :: "int \<Rightarrow> Phase \<Rightarrow> int \<Rightarrow> int" where
  "stepsLeft n MovePlanned k = 2 + 5 * max 0 (n - k)"
| "stepsLeft n MoveCopying k = 1 + 5 * max 0 (n - k)"
| "stepsLeft n MoveCopied k = 5 + 5 * max 0 (n - k)"
| "stepsLeft n MoveVerifying k = 4 + 5 * max 0 (n - k)"
| "stepsLeft n MoveVerified k = 3 + 5 * max 0 (n - k)"
| "stepsLeft n MoveSourceDeletePending k = 2 + 5 * max 0 (n - k)"
| "stepsLeft n _ k = 0"

text \<open>The journal's part of the contract: an advance that is answered is an advance to the phase asked for.\<close>

locale move_journal =
  fixes j :: "'w MoveJournalOps"
  assumes answered: "mj_AdvanceMove j w a = (Inr m, w') \<Longrightarrow> mv_Phase m = ma_To a"
begin

lemma written: "writeMove j w a = (Inr m, w') \<Longrightarrow> mv_Phase m = ma_To a"
  by (cases "mj_AdvanceMove j w (checked a)")
    (auto simp: writeMove_def mapErr_Inr_iff checked_def dest!: answered split: option.splits)

lemma written_to [simp]: "ma_To (advanceTo e w mv fr to) = to" by (simp add: advanceTo_def)

text \<open>A row a step returns is in one of these phases.\<close>

definition landsIn :: "Phase list \<Rightarrow> 'w moved \<Rightarrow> bool" where
  "landsIn ps r = (case fst r of Inl _ \<Rightarrow> True | Inr m \<Rightarrow> List.member ps (mv_Phase m))"

definition provedLandsIn :: "Phase list \<Rightarrow> 'w proved \<Rightarrow> bool" where
  "provedLandsIn ps r = (case fst r of Inl _ \<Rightarrow> True | Inr (m, _) \<Rightarrow> List.member ps (mv_Phase m))"

lemma landsIn_simps [simp]:
  "landsIn ps (Inl err, w)" "landsIn ps (Inr m, w) \<longleftrightarrow> List.member ps (mv_Phase m)"
  "provedLandsIn ps (Inl err, w)" "provedLandsIn ps (holding pr r) \<longleftrightarrow> landsIn ps r"
  by (simp_all add: landsIn_def provedLandsIn_def holding_def andThen_def split: sum.split prod.split)

lemma landsIn_andThen: "(\<And>a w1. r = (Inr a, w1) \<Longrightarrow> landsIn ps (f a w1)) \<Longrightarrow> landsIn ps (andThen r f)"
  by (cases r; cases "fst r") (auto simp: andThen_def)

lemma provedLandsIn_andThen: "(\<And>a w1. r = (Inr a, w1) \<Longrightarrow> provedLandsIn ps (f a w1)) \<Longrightarrow> provedLandsIn ps (andThen r f)"
  by (cases r; cases "fst r") (auto simp: andThen_def)

lemma landsIn_write: "List.member ps (ma_To a) \<Longrightarrow> landsIn ps (writeMove j w a)"
  by (cases "writeMove j w a") (auto simp: landsIn_def dest: written split: sum.split)

lemma landsIn_moveStep: "List.member ps to \<Longrightarrow> landsIn ps (moveStep j e w mv fr to why)"
  by (simp add: moveStep_def landsIn_write)

lemma landsIn_abandon: "List.member ps MoveAbandoned \<Longrightarrow> landsIn ps (abandon j e w mv why)"
  by (auto simp: abandon_def intro!: landsIn_andThen dest!: written)

lemma landsIn_recopy: "List.member ps MoveCopying \<Longrightarrow> landsIn ps (recopyOrAbandon j e w mv fr why)"
  by (auto simp: recopyOrAbandon_def intro!: landsIn_andThen dest!: written)

lemma landsIn_note: "landsIn ps (noteOnRow j e w mv why)"
  by (auto simp: noteOnRow_def split: prod.split sum.split)

lemma landsIn_startCopy: "landsIn [MoveCopying, MoveAbandoned] (startCopy j e w mv)"
  by (auto simp: startCopy_def intro!: landsIn_andThen landsIn_abandon landsIn_moveStep split: sum.split)

lemma landsIn_copyMove: "landsIn [MoveCopied, MoveAbandoned] (copyMove j e w mv)"
  by (auto simp: copyMove_def Let_def intro!: landsIn_andThen landsIn_abandon landsIn_write
      split: option.split sum.split prod.split)

lemma landsIn_verifyDestination:
  "provedLandsIn [MoveVerified, MoveCopying, MoveAbandoned] (verifyDestination j e w mv pr)"
  by (auto simp: verifyDestination_def Let_def intro!: provedLandsIn_andThen landsIn_abandon landsIn_recopy landsIn_write
      split: option.split sum.split prod.split)

lemma landsIn_intend: "landsIn [MoveSourceDeletePending] (intendSourceDelete j e w mv)"
  by (auto simp: intendSourceDelete_def intro!: landsIn_andThen landsIn_write split: option.split)

lemma landsIn_finish: "List.member ps MoveDone \<Longrightarrow> landsIn ps (finishMove j e w mv src)"
  by (simp add: finishMove_def landsIn_write)

lemma landsIn_deleteSource: "provedLandsIn [MoveDone, MoveCopying] (deleteSource j e w mv pr)"
  by (auto simp: deleteSource_def Let_def intro!: provedLandsIn_andThen landsIn_finish landsIn_recopy landsIn_note
      split: option.split sum.split prod.split)

definition nextPhases :: "Phase \<Rightarrow> Phase list" where
  "nextPhases ph = (case ph of MovePlanned \<Rightarrow> [MoveCopying, MoveAbandoned] | MoveCopying \<Rightarrow> [MoveCopied, MoveAbandoned]
     | MoveCopied \<Rightarrow> [MoveVerifying] | MoveVerifying \<Rightarrow> [MoveVerified, MoveCopying, MoveAbandoned]
     | MoveVerified \<Rightarrow> [MoveSourceDeletePending] | MoveSourceDeletePending \<Rightarrow> [MoveDone, MoveCopying] | _ \<Rightarrow> [])"

lemma phaseStep_landsIn: "provedLandsIn (nextPhases (mv_Phase mv)) (phaseStep j e w mv k pr)"
  by (cases "mv_Phase mv")
    (simp_all add: phaseStep_def nextPhases_def startVerify_def landsIn_startCopy landsIn_copyMove landsIn_abandon landsIn_moveStep
      landsIn_verifyDestination landsIn_intend landsIn_deleteSource)

lemma phaseStep_gives_up:
  "mv_Phase mv = MoveCopying \<Longrightarrow> k > maxCopyAttempts e \<Longrightarrow> provedLandsIn [MoveAbandoned] (phaseStep j e w mv k pr)"
  by (simp add: phaseStep_def landsIn_abandon)

lemma phaseStep_shorter:
  assumes "phaseStep j e w mv k' pr = (Inr (m, pr'), w')" "k' = (if mv_Phase mv = MoveCopying then k + 1 else k)"
    "n = maxCopyAttempts e"
  shows "stepsLeft n (mv_Phase m) k' < stepsLeft n (mv_Phase mv) k"
proof -
  have r: "List.member (nextPhases (mv_Phase mv)) (mv_Phase m)"
    using phaseStep_landsIn[of mv e w k' pr] assms(1) by (simp add: provedLandsIn_def)
  have g: "mv_Phase m = MoveAbandoned" if "mv_Phase mv = MoveCopying" "k' > n"
    using phaseStep_gives_up[OF that(1), of e k' w pr] that(2) assms(1,3) by (simp add: provedLandsIn_def)
  show ?thesis
  proof (cases "mv_Phase mv")
    case MoveCopying
    show ?thesis
    proof (cases "k' > n")
      case True
      with g MoveCopying have "stepsLeft n (mv_Phase m) k' = 0" by simp
      moreover have "0 < stepsLeft n MoveCopying k" by (simp add: max_def)
      ultimately show ?thesis by (simp only: MoveCopying)
    next
      case False
      with r MoveCopying assms(2) show ?thesis by (auto simp: nextPhases_def)
    qed
  qed (use r assms(2) in \<open>auto simp: nextPhases_def max_def\<close>)
qed

lemma freeWalk_walk:
  assumes "stepsLeft (maxCopyAttempts e) (mv_Phase mv) k < int n"
  shows "freeWalk j e w mv k pr resumed = Some (walk j e n w mv k pr resumed)"
  using assms
proof (induction n arbitrary: w mv k pr)
  case 0
  have "0 \<le> stepsLeft (maxCopyAttempts e) (mv_Phase mv) k" by (cases "mv_Phase mv") auto
  with 0 show ?case by simp
next
  case (Suc n)
  let ?k = "if mv_Phase mv = MoveCopying then k + 1 else k"
  obtain r w1 where r: "phaseStep j e w mv ?k pr = (r, w1)" by fastforce
  show ?case
  proof (cases r)
    case (Inl err)
    with r show ?thesis by (subst freeWalk.simps) (simp add: Let_def)
  next
    case (Inr a)
    obtain m pr1 where a: "a = (m, pr1)" by (cases a)
    have "stepsLeft (maxCopyAttempts e) (mv_Phase m) ?k < stepsLeft (maxCopyAttempts e) (mv_Phase mv) k"
      using r unfolding Inr a by (rule phaseStep_shorter) simp_all
    with Suc.prems have "stepsLeft (maxCopyAttempts e) (mv_Phase m) ?k < int n" by linarith
    from Suc.IH[OF this] r Inr a show ?thesis by (subst freeWalk.simps) (simp add: Let_def)
  qed
qed

lemma stepsLeft_bound: "stepsLeft n ph 0 \<le> 5 + 5 * max 0 n" by (cases ph) auto

lemma advance_ends:
  assumes "maxCopyAttempts e \<le> 5"
  shows "freeWalk j e w mv 0 None resumed = Some (advance j e w mv resumed)"
  unfolding advance_def
  by (rule freeWalk_walk) (use stepsLeft_bound[of "maxCopyAttempts e" "mv_Phase mv"] assms in \<open>simp add: maxPhaseStepsPerMove_def\<close>)

end

end
