(* ===== verification/MoveWorld.thy ===== *)
theory MoveWorld
  imports MoveSafe MoveBound DeleteWorld
begin

text \<open>
  The move engine on a disk and buckets that fail.  A world holds the journal, the bytes at every
  path and object, the clock, and a script with one entry for each changing call to come: the call
  works, fails, or takes effect and its answer is lost, and what it writes may be other bytes than it
  was given.  A crash is a script that fails every call from some point on.  What is configured,
  and which reads fail, is a setup.
\<close>

section \<open>The world\<close>

record MoveWorld =
  mw_db :: JournalDB
  mw_bytes :: "address \<Rightarrow> string option"
  mw_clock :: instant
  mw_script :: "(fault \<times> string option) list"

record MoveSetup =
  su_Mediums :: "string \<Rightarrow> string + (Medium \<times> Class)"
  su_Sets :: "BackupSetID \<Rightarrow> string + SetConfig"
  su_Tiers :: "Record \<Rightarrow> string \<Rightarrow> string + (bool \<times> string)"
  su_Restores :: "MoveWorld \<Rightarrow> Medium \<Rightarrow> string \<Rightarrow> storeFault + RestoreState option"
  su_Fails :: "MoveWorld \<Rightarrow> address \<Rightarrow> bool"
  su_Attests :: "Medium \<Rightarrow> bool"
  su_Free :: "string \<Rightarrow> string + int"
  su_Entries :: "MoveWorld \<Rightarrow> string \<Rightarrow> string + (string \<times> bool) list"
  su_CopyAttempts :: int
  su_SHA256 :: "string \<Rightarrow> string"
  su_FoldOther :: "string \<Rightarrow> string \<Rightarrow> bool"
  su_Why :: "moveReason \<Rightarrow> string"

definition scripted :: "MoveWorld \<Rightarrow> fault \<times> string option" where
  "scripted w = (case mw_script w of [] \<Rightarrow> (Works, None) | c # _ \<Rightarrow> c)"

definition tick :: "MoveWorld \<Rightarrow> MoveWorld" where
  "tick w = w\<lparr>mw_script := tl (mw_script w), mw_clock := mw_clock w + 1\<rparr>"

text \<open>A write or a delete of the bytes at one address.\<close>

definition put :: "MoveWorld \<Rightarrow> address \<Rightarrow> string option \<Rightarrow> bool \<times> MoveWorld" where
  "put w c b =
     (let b' = (case (b, snd (scripted w)) of (Some _, Some other) \<Rightarrow> Some other | _ \<Rightarrow> b);
          w1 = (tick w)\<lparr>mw_bytes := (mw_bytes w)(c := b')\<rparr> in
      case fst (scripted w) of Works \<Rightarrow> (True, w1) | FailsBefore \<Rightarrow> (False, tick w) | FailsAfter \<Rightarrow> (False, w1))"

definition lost :: string where "lost = ''connection lost''"

text \<open>A journal transaction.\<close>

definition transact :: "MoveWorld \<Rightarrow> (journalError + Move) \<times> JournalDB \<Rightarrow> (journalError + Move) \<times> MoveWorld" where
  "transact w r =
     (case fst (scripted w) of
        Works \<Rightarrow> (fst r, (tick w)\<lparr>mw_db := snd r\<rparr>)
      | FailsBefore \<Rightarrow> (Inl JournalUnavailable, tick w)
      | FailsAfter \<Rightarrow> (Inl JournalUnavailable, (tick w)\<lparr>mw_db := snd r\<rparr>))"

definition worldMoves :: "MoveWorld MoveJournalOps" where
  "worldMoves =
     \<lparr>mj_Get = (\<lambda>w a. Get (mw_db w) a), mj_PlanMove = (\<lambda>w p. transact w (PlanMove (mw_db w) p)),
      mj_AdvanceMove = (\<lambda>w a. transact w (AdvanceMove (mw_db w) a)),
      mj_ListMoves = (\<lambda>w ps. Inr (ListMoves (mw_db w) ps))\<rparr>"

definition readAt :: "MoveSetup \<Rightarrow> MoveWorld \<Rightarrow> address \<Rightarrow> 'e \<Rightarrow> 'e \<Rightarrow> 'e + string" where
  "readAt su w c failure missing =
     (if su_Fails su w c then Inl failure else case mw_bytes w c of None \<Rightarrow> Inl missing | Some b \<Rightarrow> Inr b)"

definition worldMedium :: "MoveSetup \<Rightarrow> MoveWorld MediumStore" where
  "worldMedium su =
     \<lparr>ms_StatObject = (\<lambda>w m k. bindE (readAt su w (Inr (me_Bucket m, k)) (StoreFault lost) ObjectNotFound)
        (\<lambda>b. Inr \<lparr>oi_Size = int (length b), oi_ModTime = 1, oi_StorageClass = me_StorageClass m\<rparr>)),
      ms_OpenObject = (\<lambda>w m k. readAt su w (Inr (me_Bucket m, k)) (StoreFault lost) ObjectNotFound),
      ms_ObjectChecksum = (\<lambda>w m k.
        if su_Attests su m then bindE (readAt su w (Inr (me_Bucket m, k)) (StoreFault lost) ObjectNotFound)
          (\<lambda>b. Inr \<lparr>at_Value = su_SHA256 su b, at_Algorithm = SHA256Name\<rparr>)
        else Inl (StoreFault ''checksum unsupported'')),
      ms_UploadFromLocal = (\<lambda>w m p k.
        case readAt su w (Inl p) (StoreFault lost) (StoreFault ''no such file'') of
          Inl err \<Rightarrow> (Inl err, w)
        | Inr b \<Rightarrow> (case put w (Inr (me_Bucket m, k)) (Some b) of
            (True, w') \<Rightarrow> (Inr (int (length b)), w') | (False, w') \<Rightarrow> (Inl (StoreFault lost), w'))),
      ms_DeleteObject = (\<lambda>w m k. case put w (Inr (me_Bucket m, k)) None of
            (True, w') \<Rightarrow> (None, w') | (False, w') \<Rightarrow> (Some (StoreFault lost), w')),
      ms_RestoreStatus = su_Restores su\<rparr>"

definition worldLocal :: "MoveSetup \<Rightarrow> MoveWorld LocalStore" where
  "worldLocal su =
     \<lparr>ls_Stat = (\<lambda>w p. bindE (readAt su w (Inl p) (LocalFault lost) LocalNotPresent)
        (\<lambda>b. Inr \<lparr>lt_Size = Some (int (length b)), lt_ModTime = Some 1\<rparr>)),
      ls_Open = (\<lambda>w p. readAt su w (Inl p) (LocalFault lost) LocalNotPresent),
      ls_Put = (\<lambda>w p b. if mw_bytes w (Inl p) \<noteq> None then (Some LocalAlreadyPresent, w)
        else case put w (Inl p) (Some b) of (True, w') \<Rightarrow> (None, w') | (False, w') \<Rightarrow> (Some (LocalFault lost), w')),
      ls_Remove = (\<lambda>w p. case put w (Inl p) None of
        (True, w') \<Rightarrow> (None, w') | (False, w') \<Rightarrow> (Some (LocalFault lost), w'))\<rparr>"

definition worldOS :: "MoveSetup \<Rightarrow> MoveWorld EngineOS" where
  "worldOS su =
     \<lparr>eo_Lstat = (\<lambda>w p. bindE (readAt su w (Inl p) (PathError lost) NotExist)
        (\<lambda>b. Inr \<lparr>li_Mode = ModeRegular, li_Size = int (length b)\<rparr>)),
      eo_EvalSymlinks = (\<lambda>w p. Inr p), eo_MkdirAll = (\<lambda>w p. (None, w)), eo_ReadDir = su_Entries su,
      eo_FreeBytes = (\<lambda>w p. su_Free su p)\<rparr>"

definition worldEngine :: "MoveSetup \<Rightarrow> MoveWorld Engine" where
  "worldEngine su =
     \<lparr>en_Store = Some (worldMedium su), en_Local = Some (worldLocal su), en_Mediums = Some (su_Mediums su),
      en_Sets = Some (su_Sets su), en_Tiers = Some (\<lambda>w. su_Tiers su), en_OS = worldOS su, en_Now = mw_clock,
      en_MaxMovesPerCycle = 1, en_MaxCopyAttempts = su_CopyAttempts su, en_SHA256 = su_SHA256 su,
      en_FoldOther = su_FoldOther su, en_Why = su_Why su\<rparr>"

section \<open>The world keeps the contracts\<close>

lemma put_frame: "put w c b = (ok, w') \<Longrightarrow> mw_db w' = mw_db w \<and> (\<forall>c'. c' \<noteq> c \<longrightarrow> mw_bytes w' c' = mw_bytes w c')"
  by (auto simp: put_def tick_def Let_def split: fault.splits)

lemma readAt_Inr: "readAt su w c f m = Inr b \<Longrightarrow> mw_bytes w c = Some b"
  by (auto simp: readAt_def split: if_splits option.splits)

lemma AdvanceMove_phase: "AdvanceMove d a = (Inr m, d') \<Longrightarrow> mv_Phase m = ma_To a"
proof (erule AdvanceMove_cases)
  fix m0 mv assume r: "Inr m = (Inr mv :: journalError + Move)"
    and m0: "findMove d (ma_MoveID a) = Some m0" and up: "upsertAll
          (d\<lparr>j_moves := map (\<lambda>r. if mvr_ID r = ma_MoveID a then advancedRow (j_redact d) a r else r) (j_moves d)\<rparr>)
          (mvr_Artifact m0) (ma_Placements a) (ma_OccurredAt a) = Inr d'" and g: "getMove d' (ma_MoveID a) = Inr mv"
  from upsertAll_frame[OF up] have mvs: "j_moves d' =
      map (\<lambda>r. if mvr_ID r = ma_MoveID a then advancedRow (j_redact d) a r else r) (j_moves d)" by simp
  obtain r where r1: "findMove d' (ma_MoveID a) = Some r" "scanMove d' r = Some mv" using getMove_Inr[OF g] by blast
  have "r \<in> set (j_moves d')" "mvr_ID r = ma_MoveID a" using r1(1) by (auto simp: findMove_def dest: find_SomeD)
  then have "mvr_Phase r = ma_To a" unfolding mvs by (auto simp: advancedRow_def split: if_splits)
  with scanMove_phase[OF r1(2)] r show "mv_Phase m = ma_To a" by simp
qed simp

lemma transact_cases:
  "transact w r = (x, w') \<Longrightarrow> mw_bytes w' = mw_bytes w \<and>
     (x = fst r \<and> mw_db w' = snd r \<or> x = Inl JournalUnavailable \<and> (mw_db w' = mw_db w \<or> mw_db w' = snd r))"
  by (auto simp: transact_def tick_def split: fault.splits)

lemma AdvanceMove_Inl: "AdvanceMove d a = (Inl err, d') \<Longrightarrow> d' = d"
  by (erule AdvanceMove_cases) auto

interpretation wb: move_journal worldMoves
proof
  fix w a m w' assume "mj_AdvanceMove worldMoves w a = (Inr m, w')"
  then have "AdvanceMove (mw_db w) a = (Inr m, mw_db w')"
    by (cases "AdvanceMove (mw_db w) a") (auto simp: worldMoves_def dest!: transact_cases)
  then show "mv_Phase m = ma_To a" by (rule AdvanceMove_phase)
qed

lemma worldEngine_sel [simp]:
  "en_Store (worldEngine su) = Some (worldMedium su)" "en_Local (worldEngine su) = Some (worldLocal su)"
  "en_SHA256 (worldEngine su) = su_SHA256 su" "en_OS (worldEngine su) = worldOS su"
  "en_FoldOther (worldEngine su) = su_FoldOther su" "en_MaxCopyAttempts (worldEngine su) = su_CopyAttempts su"
  by (simp_all add: worldEngine_def)

interpretation wm: move_world "worldEngine su" worldMoves mw_db mw_bytes for su
proof
  fix w a rec assume "mj_Get worldMoves w a = Inr rec"
  then show "Get (mw_db w) a = Inr rec" by (simp add: worldMoves_def)
next
  fix w adv r w' assume "mj_AdvanceMove worldMoves w adv = (r, w')"
  then have t: "transact w (AdvanceMove (mw_db w) adv) = (r, w')" by (simp add: worldMoves_def)
  obtain x d where a: "AdvanceMove (mw_db w) adv = (x, d)" by fastforce
  show "mw_bytes w' = mw_bytes w \<and> (case r of Inr m \<Rightarrow> AdvanceMove (mw_db w) adv = (Inr m, mw_db w')
       | Inl _ \<Rightarrow> mw_db w' = mw_db w \<or> (\<exists>m. AdvanceMove (mw_db w) adv = (Inr m, mw_db w')))"
    using transact_cases[OF t] a AdvanceMove_Inl[of "mw_db w" adv] by (cases x) auto
next
  fix st w m k b assume "en_Store (worldEngine su) = Some st" "ms_OpenObject st w m k = Inr b"
  then show "mw_bytes w (Inr (me_Bucket m, k)) = Some b" by (auto simp: worldMedium_def dest: readAt_Inr)
next
  fix st w m k a assume "en_Store (worldEngine su) = Some st" "ms_ObjectChecksum st w m k = Inr a"
  then show "\<exists>b. mw_bytes w (Inr (me_Bucket m, k)) = Some b \<and> at_Value a = en_SHA256 (worldEngine su) b"
    by (auto simp: worldMedium_def bindE_Inr_iff dest!: readAt_Inr split: if_splits)
next
  fix st w m p k ur w' assume "en_Store (worldEngine su) = Some st" "ms_UploadFromLocal st w m p k = (ur, w')"
  then show "mw_db w' = mw_db w \<and> (\<forall>c. c \<noteq> Inr (me_Bucket m, k) \<longrightarrow> mw_bytes w' c = mw_bytes w c)"
    by (auto simp: worldMedium_def split: sum.splits prod.splits bool.splits dest!: put_frame)
next
  fix st w m k dr w' assume "en_Store (worldEngine su) = Some st" "ms_DeleteObject st w m k = (dr, w')"
  then show "mw_db w' = mw_db w \<and> (\<forall>c. c \<noteq> Inr (me_Bucket m, k) \<longrightarrow> mw_bytes w' c = mw_bytes w c)"
    by (auto simp: worldMedium_def split: prod.splits bool.splits dest!: put_frame)
next
  fix lst w p b assume "en_Local (worldEngine su) = Some lst" "ls_Open lst w p = Inr b"
  then show "mw_bytes w (Inl p) = Some b" by (auto simp: worldLocal_def dest: readAt_Inr)
next
  fix lst w p b pr w' assume "en_Local (worldEngine su) = Some lst" "ls_Put lst w p b = (pr, w')"
  then show "mw_db w' = mw_db w \<and> (\<forall>c. c \<noteq> Inl p \<longrightarrow> mw_bytes w' c = mw_bytes w c)"
    by (auto simp: worldLocal_def split: if_splits prod.splits bool.splits dest!: put_frame)
next
  fix lst w p rr w' assume "en_Local (worldEngine su) = Some lst" "ls_Remove lst w p = (rr, w')"
  then show "mw_db w' = mw_db w \<and> (\<forall>c. c \<noteq> Inl p \<longrightarrow> mw_bytes w' c = mw_bytes w c)"
    by (auto simp: worldLocal_def split: prod.splits bool.splits dest!: put_frame)
next
  fix w p mr w' assume "eo_MkdirAll (en_OS (worldEngine su)) w p = (mr, w')"
  then show "mw_db w' = mw_db w \<and> mw_bytes w' = mw_bytes w" by (simp add: worldOS_def)
qed

section \<open>Any number of cycles\<close>

text \<open>Each cycle finds the row of the move in the journal and walks it, under a new script and a new
  clock: a crash in one cycle, and another process in the next.\<close>

inductive cycles :: "MoveSetup \<Rightarrow> nat \<Rightarrow> MoveWorld \<Rightarrow> MoveWorld \<Rightarrow> bool" for su i w where
  start: "cycles su i w w"
| again: "cycles su i w w1 \<Longrightarrow> getMove (mw_db w1) i = Inr mv \<Longrightarrow>
    cycles su i w (snd (advance worldMoves (worldEngine su) (w1\<lparr>mw_script := s, mw_clock := t\<rparr>) mv True))"

text \<open>Bytes at a place of a medium whose digest is the one recorded.\<close>

definition copyAt :: "MoveSetup \<Rightarrow> MoveWorld \<Rightarrow> string \<Rightarrow> string \<Rightarrow> string \<Rightarrow> bool" where
  "copyAt su w medium loc h =
     (case addressOf (worldEngine su) medium loc of None \<Rightarrow> False
      | Some c \<Rightarrow> (case mw_bytes w c of None \<Rightarrow> False | Some b \<Rightarrow> equalFold (su_FoldOther su) (su_SHA256 su b) h))"

lemma copyAt_good: "addressOf (worldEngine su) m loc = Some c \<Longrightarrow> copyAt su w m loc h = wm.good su w c h"
  by (auto simp: copyAt_def wm.good_def split: option.split)

lemma cycles_held:
  assumes "cycles su i w w'" "wm.held su w mv cs cd loc h" "wm.sure su mv" "mv_ID mv = i"
  shows "\<exists>mv'. sameMove mv mv' \<and> wm.held su w' mv' cs cd loc h"
  using assms(1)
proof induction
  case start
  show ?case using assms(2) by (auto intro: exI[of _ mv])
next
  case (again w1 mv2 t s)
  let ?w2 = "w1\<lparr>mw_script := s, mw_clock := t\<rparr>"
  from again.IH obtain mv1 where m1: "sameMove mv mv1" "wm.held su w1 mv1 cs cd loc h" by blast
  then obtain row where row: "sameMove mv1 row" "mv_Phase row = mv_Phase mv1" "tracked (mw_db w1) row loc h"
    by (auto simp: wm.held_def)
  have "row = mv2" using again.hyps(2) row(1,3) m1(1) assms(4) by (simp add: tracked_def sameMove_def)
  have "wm.held su ?w2 mv1 cs cd loc h" using m1(2) by (simp add: wm.held_def wm.good_def)
  with row have "wm.held su ?w2 row cs cd loc h" unfolding wm.held_def by (auto simp: sameMove_def)
  moreover have sm: "sameMove mv row" using m1(1) row(1) by (rule sameMove_trans)
  ultimately obtain mv' where "sameMove row mv'" "wm.held su
      (snd (walk worldMoves (worldEngine su) maxPhaseStepsPerMove ?w2 row 0 None True)) mv' cs cd loc h"
    using wm.walk_holds[of su ?w2 row cs cd loc h None maxPhaseStepsPerMove 0 True] wm.sure_same[OF sm assms(3)] by auto
  with sm \<open>row = mv2\<close> show ?case unfolding advance_def using sameMove_trans by blast
qed

text \<open>C3: a move never loses the artifact.  While the source holds the recorded bytes and no delete of
  it has been decided, then after any number of cycles, whatever calls fail, are lost or write other
  bytes, and wherever the process dies, bytes with the recorded digest are at the source or at the
  destination: provided the two are different places, and the destination is reachable by configuration and
  required to be verified by content or by the endpoint's own digest.\<close>

theorem move_never_loses_the_copy:
  assumes run: "cycles su (mv_ID mv) w w'" and j: "movesRun (mw_db w)"
    and m: "getMove (mw_db w) (mv_ID mv) = Inr mv" "mv_Phase mv \<in> {MovePlanned, MoveCopying, MoveCopied, MoveVerifying}"
    and src: "Get (mw_db w) (mv_Artifact mv) = Inr rec" "placementOn rec (mv_SourceMedium mv) = Some src"
      "mv_SourceMedium mv \<notin> {[], mv_DestinationMedium mv}"
      "copyAt su w (mv_SourceMedium mv) (p_Location src) (p_Hash src)"
    and dst: "destinationClass (worldEngine su) mv \<in> {Inr Content, Inr Attested}"
    and places: "addressOf (worldEngine su) (mv_SourceMedium mv) (p_Location src) \<noteq>
      addressOf (worldEngine su) (mv_DestinationMedium mv) (mv_DestinationKey mv)"
  shows "copyAt su w' (mv_SourceMedium mv) (p_Location src) (p_Hash src) \<or>
    copyAt su w' (mv_DestinationMedium mv) (mv_DestinationKey mv) (p_Hash src)"
proof -
  have wf: "wfJournal (mw_db w)" using movesRun_wf[OF j] by simp
  obtain row r where f: "findArtifact (mw_db w) (mv_Artifact mv) = Some (row, r)"
    using src(1) by (auto simp: Get_def split: option.splits)
  have "recordedAt (mw_db w) row (mv_SourceMedium mv) (p_Location src) (p_Hash src)"
    using placementOn_Get[OF wf src(1) f, of "mv_SourceMedium mv", symmetric] src(2) wm.placementOn_medium[OF src(2)]
    by (simp add: recordedAt_def)
  with wf m(1) f src(3) have t: "tracked (mw_db w) mv (p_Location src) (p_Hash src)" by (auto simp: tracked_def)
  obtain cs where cs: "addressOf (worldEngine su) (mv_SourceMedium mv) (p_Location src) = Some cs"
    using src(4) by (auto simp: copyAt_def split: option.splits)
  obtain cd where cd: "addressOf (worldEngine su) (mv_DestinationMedium mv) (mv_DestinationKey mv) = Some cd"
    using dst by (auto simp: destinationClass_def addressOf_def split: if_splits sum.splits)
  have h: "wm.held su w mv cs cd (p_Location src) (p_Hash src)"
    unfolding wm.held_def using t cs cd places src(4) m(2) copyAt_good[OF cs, of w "p_Hash src"]
    by (auto simp: wm.early_def intro: exI[of _ mv])
  have s: "wm.sure su mv"
    using dst by (auto simp: wm.sure_def destinationClass_def split: if_splits sum.splits)
  from cycles_held[OF run h s refl] obtain mv' where mv': "sameMove mv mv'" "wm.held su w' mv' cs cd (p_Location src) (p_Hash src)"
    by blast
  then have "wm.good su w' cs (p_Hash src) \<or> wm.good su w' cd (p_Hash src)"
    by (auto simp: wm.held_def split: if_splits)
  then show ?thesis using copyAt_good[OF cs] copyAt_good[OF cd] by blast
qed

lemma note_refuses: "fst (noteOnRow j e w mv why) \<noteq> Inr m"
  by (simp add: noteOnRow_def split: prod.split sum.split)

lemma holding_Inr: "holding pr r = (Inr (m, left), w') \<longleftrightarrow> r = (Inr m, w') \<and> left = pr"
  by (cases r; cases "fst r") (auto simp: holding_def)

lemma finishMove_bytes: "finishMove worldMoves (worldEngine su) w mv src = (r, w') \<Longrightarrow> mw_bytes w' = mw_bytes w"
  by (cases "transact w (AdvanceMove (mw_db w) (checked ((advanceTo (worldEngine su) w mv MoveSourceDeletePending MoveDone)
       \<lparr>ma_Placements := [statusUpdate src PlacementGone]\<rparr>)))")
    (auto simp: finishMove_def writeMove_def worldMoves_def map_prod_def dest: transact_cases)

text \<open>A guard that lets the source go has seen an ACTIVE placement on the destination, and when it says that
  the source on a medium is gone, nothing is there.\<close>

lemma guard_destination:
  assumes "guardSourceDelete e w mv rec want = Inr t \<or> guardSourceDelete e w mv rec want = Inl SourceAlreadyGone"
  shows "\<exists>dst. placementOn rec (mv_DestinationMedium mv) = Some dst \<and> p_Status dst = PlacementActive"
  using assms unfolding guardSourceDelete_def Let_def
  by (elim disjE) (simp_all split: if_split_asm option.split_asm)

lemma guard_gone:
  assumes "guardSourceDelete (worldEngine su) w mv rec want = Inl SourceAlreadyGone"
    "placementOn rec (mv_SourceMedium mv) = Some src" "p_Medium src \<noteq> MediumLocal"
  shows "\<exists>m c. resolve (worldEngine su) (p_Medium src) = Inr (m, c) \<and> mw_bytes w (Inr (me_Bucket m, p_Location src)) = None"
proof -
  from assms have "proveMediumSourceSafe (worldEngine su) w mv src = Inl SourceAlreadyGone"
    unfolding guardSourceDelete_def Let_def
    by (auto simp: bindE_def split: if_split_asm option.split_asm sum.split_asm prod.split_asm)
  then show ?thesis
    by (auto simp: proveMediumSourceSafe_def Let_def worldMedium_def readAt_def bindE_def
      split: sum.split_asm prod.split_asm storeFault.split_asm if_split_asm option.split_asm)
qed

text \<open>C38: Two mediums declared over one bucket and prefix are one place under two names, and the guards compare
  mediums by their ids.  Whatever fails around it, a step that completes the deletion of a source on a medium
  whose place is also the destination's leaves nothing at that place, neither for the source nor for the
  destination, although the guard found the destination's copy recorded ACTIVE.\<close>

theorem aliased_mediums_lose_copy:
  assumes del: "deleteSource worldMoves (worldEngine su) w mv pf = (Inr (mv', left), w')" "mv_Phase mv' = MoveDone"
    and src: "Get (mw_db w) (mv_Artifact mv) = Inr rec" "placementOn rec (mv_SourceMedium mv) = Some src"
      "mv_SourceMedium mv \<noteq> MediumLocal"
    and one: "addressOf (worldEngine su) (mv_SourceMedium mv) (p_Location src) = Some c"
      "addressOf (worldEngine su) (mv_DestinationMedium mv) (mv_DestinationKey mv) = Some c"
  shows "mw_bytes w' c = None \<and> \<not> copyAt su w' (mv_SourceMedium mv) (p_Location src) h \<and>
    \<not> copyAt su w' (mv_DestinationMedium mv) (mv_DestinationKey mv) h \<and>
    (\<exists>dst. placementOn rec (mv_DestinationMedium mv) = Some dst \<and> p_Status dst = PlacementActive)"
proof -
  let ?e = "worldEngine su"
  have pm: "p_Medium src = mv_SourceMedium mv" by (rule wm.placementOn_medium[OF src(2)])
  obtain m k where r: "resolve ?e (mv_SourceMedium mv) = Inr (m, k)" "c = Inr (me_Bucket m, p_Location src)"
    using one(1) src(3) by (auto simp: addressOf_def split: sum.splits)
  obtain want ans pr where v: "reverifyForDelete ?e w mv src pf = ((want, ans), pr)"
    by (cases "reverifyForDelete ?e w mv src pf"; cases "fst (reverifyForDelete ?e w mv src proof)") auto
  have goesBack: "recopyOrAbandon worldMoves ?e w mv MoveSourceDeletePending why \<noteq> (Inr mv', w')" for why
    using wb.landsIn_recopy[of "[MoveCopying]" ?e w mv MoveSourceDeletePending why] del(2)
    by (auto simp: wb.landsIn_def)
  let ?G = "guardSourceDelete ?e w mv rec want"
  have d: "(case ans of
             Inl err \<Rightarrow>
               if isUnavailable err then
                 (if ?G = Inl SourceAlreadyGone then holding pr (finishMove worldMoves ?e w mv src)
                  else holding pr (noteOnRow worldMoves ?e w mv (NotReverified (mv_Artifact mv) (mv_DestinationMedium mv) want err)))
               else holding pr (recopyOrAbandon worldMoves ?e w mv MoveSourceDeletePending (en_Why ?e (WhyNotReverified (mv_DestinationMedium mv) want err)))
           | Inr result \<Rightarrow>
             if rt_Class result \<noteq> want then holding pr (recopyOrAbandon worldMoves ?e w mv MoveSourceDeletePending (en_Why ?e (WhyOtherClass (rt_Class result) want)))
             else if \<not> rt_Passed result
             then holding pr (recopyOrAbandon worldMoves ?e w mv MoveSourceDeletePending (en_Why ?e (WhyFailedAgain (mv_DestinationMedium mv) (rt_Class result) (rt_Detail result))))
             else (case ?G of
                 Inl err \<Rightarrow>
                   if err = SourceAlreadyGone then holding pr (finishMove worldMoves ?e w mv src)
                   else holding pr (noteOnRow worldMoves ?e w mv err)
               | Inr target \<Rightarrow>
                 (case removeTarget ?e w target of
                    (Inl err, w) \<Rightarrow> holding pr (noteOnRow worldMoves ?e w mv (DeleteFailed (mv_Artifact mv) (mv_SourceMedium mv) err))
                  | (Inr _, w) \<Rightarrow> holding pr (finishMove worldMoves ?e w mv src)))) = (Inr (mv', left), w')"
  proof -
    have "getRecord worldMoves w (mv_Artifact mv) = (Inr rec, w)" using src(1) by (simp add: getRecord_def worldMoves_def mapErr_def)
    with del(1) src(2) v show ?thesis by (simp add: deleteSource_def Let_def)
  qed
  have note': "noteOnRow worldMoves ?e v mv why \<noteq> (Inr mv', w')" for v why using note_refuses by (metis fst_conv)
  consider (gone) "?G = Inl SourceAlreadyGone" "finishMove worldMoves ?e w mv src = (Inr mv', w')"
    | (removed) target u w1 where "?G = Inr target" "removeTarget ?e w target = (Inr u, w1)" "finishMove worldMoves ?e w1 mv src = (Inr mv', w')"
    using d goesBack note'
    by (cases ans; cases ?G) (auto simp: holding_Inr split: if_split_asm prod.split_asm sum.split_asm)
  then have "mw_bytes w' c = None \<and> (\<exists>t. ?G = Inr t \<or> ?G = Inl SourceAlreadyGone)"
  proof cases
    case gone
    with guard_gone[OF gone(1) src(2)] finishMove_bytes[OF gone(2)] r pm src(3) show ?thesis by auto
  next
    case removed
    obtain m' k' where t: "target = MediumTarget m' k'" "m' = m" "k' = p_Location src"
      using wm.guard_target[OF removed(1) src(2)] r(1) src(3) by (cases target) (auto simp: pm)
    have "mw_bytes w1 c = None"
      using removed(2) r(2) by (auto simp: t removeTarget_def worldMedium_def calling_def put_def tick_def Let_def
        split: prod.splits bool.splits option.splits fault.splits)
    with finishMove_bytes[OF removed(3)] removed(1) show ?thesis by auto
  qed
  then show ?thesis using guard_destination[of ?e w mv rec want] one by (auto simp: copyAt_def)
qed


text \<open>C17: a walk ends.  With at most five copies allowed in a cycle (two are the default), the driver's
  loop without its bound of 32 iterations returns, whatever the stores, the disk and the journal
  answer, and it returns what the bounded one does.\<close>

theorem walk_ends:
  assumes "su_CopyAttempts su \<le> 5"
  shows "freeWalk worldMoves (worldEngine su) w mv 0 None resumed =
    Some (advance worldMoves (worldEngine su) w mv resumed)"
  by (rule wb.advance_ends)
    (use assms in \<open>simp add: maxCopyAttempts_def defaultMaxCopyAttempts_def\<close>)

end
