(* ===== verification/MoveRuns.thy ===== *)
theory MoveRuns
  imports MoveWorld
begin

text \<open>
  Concrete runs of the move engine: one in which the process dies between the deletion of the source
  and the record of it, and two on configurations the engine does not survive.
\<close>

section \<open>A deployment\<close>

text \<open>The digest of a string is the string.  The buckets of the mediums are an argument.\<close>

definition runSetup :: "(string \<Rightarrow> string + (Medium \<times> Class)) \<Rightarrow> MoveSetup" where
  "runSetup mediums =
     \<lparr>su_Mediums = mediums, su_Sets = (\<lambda>i. Inr \<lparr>sc_ID = i, sc_LocalPath = ''/b''\<rparr>),
      su_Tiers = (\<lambda>_ _. Inr (False, [])), su_Restores = (\<lambda>_ _ _. Inr None), su_Fails = (\<lambda>_ _. False),
      su_Attests = (\<lambda>_. False), su_Free = (\<lambda>_. Inr 1000), su_Entries = (\<lambda>_ _. Inr []), su_CopyAttempts = 0,
      su_SHA256 = id, su_FoldOther = (=), su_Why = (\<lambda>_. ''why'')\<rparr>"

definition bucketOf :: "string \<Rightarrow> string \<Rightarrow> string \<Rightarrow> Medium" where
  "bucketOf i bucket class = \<lparr>me_ID = i, me_Bucket = bucket, me_Prefix = [], me_StorageClass = class\<rparr>"

definition mediumsAt :: "string \<Rightarrow> string \<Rightarrow> string + (Medium \<times> Class)" where
  "mediumsAt second i =
     (if i = ''m1'' then Inr (bucketOf i ''one'' [], Content)
      else if i = ''m2'' then Inr (bucketOf i second [], Content) else Inl ''no such medium'')"

definition runID :: ArtifactID where
  "runID = \<lparr>ar_Set = \<lparr>bs_Source = ''s'', bs_Set = ''b''\<rparr>, ar_Name = ''d''\<rparr>"

text \<open>A journal with one managed artifact whose copy is at one place, and the bytes there.\<close>

definition runStart :: "string \<Rightarrow> string \<Rightarrow> address \<Rightarrow> MoveWorld" where
  "runStart medium loc c =
     \<lparr>mw_db = snd (RecordTransition (snd (Discover (emptyJournal id) runID ''k'' loc emptyRemote 1))
         ((emptyTransition runID ''k2'' Discovered Complete)
            \<lparr>t_OccurredAt := 2, t_Placement := Some \<lparr>pu_Medium = medium, pu_Location = loc, pu_Size = Some 5,
               pu_Hash = ''bytes'', pu_HashAlg = ''sha256'', pu_VerificationClass = ''content'', pu_VerifiedAt = Some 2, pu_Status = []\<rparr>\<rparr>)),
      mw_bytes = (\<lambda>x. if x = c then Some ''bytes'' else None), mw_clock = 100, mw_script = []\<rparr>"

definition planned :: "MoveSetup \<Rightarrow> MoveWorld \<Rightarrow> string \<Rightarrow> MoveWorld" where
  "planned su w destination = snd (planOne worldMoves (worldEngine su) w \<lparr>pn_Artifact = runID, pn_DestinationMedium = destination\<rparr>)"

definition nextCycle :: "MoveSetup \<Rightarrow> (fault \<times> string option) list \<Rightarrow> MoveWorld \<Rightarrow> MoveWorld" where
  "nextCycle su script w =
     (case getMove (mw_db w) 1 of Inl _ \<Rightarrow> w
      | Inr mv \<Rightarrow> snd (advance worldMoves (worldEngine su) (w\<lparr>mw_script := script, mw_clock := 1000\<rparr>) mv True))"

definition phaseIn :: "MoveWorld \<Rightarrow> Phase option" where
  "phaseIn w = (case getMove (mw_db w) 1 of Inl _ \<Rightarrow> None | Inr mv \<Rightarrow> Some (mv_Phase mv))"

definition statuses :: "MoveWorld \<Rightarrow> (string \<times> string) list" where
  "statuses w = (case Get (mw_db w) runID of Inl _ \<Rightarrow> [] | Inr rec \<Rightarrow> map (\<lambda>p. (p_Medium p, p_Status p)) (r_Placements rec))"

definition crashAfter :: "nat \<Rightarrow> (fault \<times> string option) list" where
  "crashAfter n = replicate n (Works, None) @ replicate 9 (FailsBefore, None)"

lemma nextCycle_cycles: "cycles su 1 w w1 \<Longrightarrow> cycles su 1 w (nextCycle su s w1)"
  by (auto simp: nextCycle_def split: sum.split intro: cycles.again)

lemma runStart_run: "movesRun (mw_db (runStart m l c))"
  by (auto simp: runStart_def Discover_def intro!: movesRun.transition movesRun.start)

lemma planned_run: "movesRun (mw_db w) \<Longrightarrow> movesRun (mw_db (planned su w d))"
proof -
  assume r: "movesRun (mw_db w)"
  have "mw_db (snd (transact w (PlanMove (mw_db w) p))) = mw_db w \<or>
      mw_db (snd (transact w (PlanMove (mw_db w) p))) = snd (PlanMove (mw_db w) p)" for p
    using transact_cases[of w "PlanMove (mw_db w) p"] by (metis prod.collapse)
  with r movesRun.plan[OF r] have t: "movesRun (mw_db (snd (transact w (PlanMove (mw_db w) p))))" for p by metis
  show ?thesis unfolding planned_def planOne_def andThen_def getRecord_def using r t
    by (auto simp: worldMoves_def split: sum.split prod.split)
qed

section \<open>A crash between the delete and its record\<close>

definition runSetup1 :: MoveSetup where "runSetup1 = runSetup (mediumsAt ''two'')"

definition runPlanned :: MoveWorld where
  "runPlanned = planned runSetup1 (runStart ''local'' ''/b/d'' (Inl ''/b/d'')) ''m1''"

text \<open>The seventh call is the deletion of the source; the eighth would have recorded it.\<close>

definition runCrashed :: MoveWorld where "runCrashed = nextCycle runSetup1 (crashAfter 7) runPlanned"

definition runMove :: Move where
  "runMove = (case getMove (mw_db runPlanned) 1 of Inr mv \<Rightarrow> mv)"

definition runRecord :: Record where
  "runRecord = (case Get (mw_db runPlanned) runID of Inr rec \<Rightarrow> rec)"

definition runSource :: Placement where "runSource = the (placementOn runRecord MediumLocal)"

text \<open>What is evaluated of this run; \<open>movable\<close> collects the premises on a planned move.\<close>

definition movable :: "MoveSetup \<Rightarrow> MoveWorld \<Rightarrow> Move \<Rightarrow> Record \<Rightarrow> Placement \<Rightarrow> bool" where
  "movable su w mv rec src \<longleftrightarrow>
     mv_ID mv = 1 \<and> getMove (mw_db w) 1 = Inr mv \<and> mv_Phase mv = MovePlanned \<and>
     Get (mw_db w) (mv_Artifact mv) = Inr rec \<and>
     placementOn rec (mv_SourceMedium mv) = Some src \<and>
     mv_SourceMedium mv \<notin> {[], mv_DestinationMedium mv} \<and>
     copyAt su w (mv_SourceMedium mv) (p_Location src) (p_Hash src) \<and>
     destinationClass (worldEngine su) mv = Inr Content \<and>
     addressOf (worldEngine su) (mv_SourceMedium mv) (p_Location src) \<noteq>
       addressOf (worldEngine su) (mv_DestinationMedium mv) (mv_DestinationKey mv)"

lemma runMovable: "movable runSetup1 runPlanned runMove runRecord runSource" by code_simp

definition summary :: "MoveWorld \<Rightarrow> Phase option \<times> (string \<times> string) list \<times> string option \<times> string option" where
  "summary w = (phaseIn w, statuses w, mw_bytes w (Inl ''/b/d''), mw_bytes w (Inr (''one'', ''s/b/d'')))"

lemma runCrashed_end:
  "summary runCrashed = (Some MoveSourceDeletePending, [(MediumLocal, PlacementDeletePending), (''m1'', PlacementActive)],
     None, Some ''bytes'')"
  by code_simp

theorem move_never_loses_the_copy_witness:
  "fst (summary runCrashed) = Some MoveSourceDeletePending \<and> mw_bytes runCrashed (Inl ''/b/d'') = None \<and>
   (copyAt runSetup1 (nextCycle runSetup1 [] runCrashed) (mv_SourceMedium runMove) (p_Location runSource) (p_Hash runSource) \<or>
    copyAt runSetup1 (nextCycle runSetup1 [] runCrashed) (mv_DestinationMedium runMove) (mv_DestinationKey runMove) (p_Hash runSource))"
proof -
  note facts = runMovable[unfolded movable_def]
  have i: "mv_ID runMove = 1" using facts by blast
  have run: "cycles runSetup1 (mv_ID runMove) runPlanned (nextCycle runSetup1 [] runCrashed)"
    unfolding i runCrashed_def by (intro nextCycle_cycles cycles.start)
  have j: "movesRun (mw_db runPlanned)" unfolding runPlanned_def by (intro planned_run runStart_run)
  have m: "getMove (mw_db runPlanned) (mv_ID runMove) = Inr runMove"
    "mv_Phase runMove \<in> {MovePlanned, MoveCopying, MoveCopied, MoveVerifying}"
    using facts by (simp_all only: i insert_iff simp_thms)
  have src: "Get (mw_db runPlanned) (mv_Artifact runMove) = Inr runRecord"
    "placementOn runRecord (mv_SourceMedium runMove) = Some runSource"
    "mv_SourceMedium runMove \<notin> {[], mv_DestinationMedium runMove}"
    "copyAt runSetup1 runPlanned (mv_SourceMedium runMove) (p_Location runSource) (p_Hash runSource)"
    using facts by blast+
  have dst: "destinationClass (worldEngine runSetup1) runMove \<in> {Inr Content, Inr Attested}"
    using facts by simp
  have places: "addressOf (worldEngine runSetup1) (mv_SourceMedium runMove) (p_Location runSource) \<noteq>
      addressOf (worldEngine runSetup1) (mv_DestinationMedium runMove) (mv_DestinationKey runMove)"
    using facts by blast
  from move_never_loses_the_copy[OF run j m src dst places] runCrashed_end show ?thesis
    by (simp add: summary_def)
qed

theorem walk_ends_witness:
  "freeWalk worldMoves (worldEngine runSetup1) runPlanned runMove 0 None True =
     Some (advance worldMoves (worldEngine runSetup1) runPlanned runMove True) \<and>
   oc_Phase (fst (advance worldMoves (worldEngine runSetup1) runPlanned runMove True)) = MoveDone"
proof -
  have "su_CopyAttempts runSetup1 \<le> 5" by (simp add: runSetup1_def runSetup_def)
  moreover have "oc_Phase (fst (advance worldMoves (worldEngine runSetup1) runPlanned runMove True)) = MoveDone" by code_simp
  ultimately show ?thesis using walk_ends[of runSetup1 runPlanned runMove True] by blast
qed

section \<open>A medium that is no longer declared\<close>

definition runUndeclared :: MoveWorld where
  "runUndeclared = nextCycle (runSetup (\<lambda>_. Inl ''no such medium'')) [] runCrashed"

definition runRedeclared :: MoveWorld where
  "runRedeclared = nextCycle (runSetup (\<lambda>i. Inr (bucketOf i ''one'' ''DEEP_ARCHIVE'', Content))) [] runUndeclared"

text \<open>An example outside the hypotheses of \<open>move_never_loses_the_copy\<close>: the resume of a move whose source was
  already deleted trusts a re-verification that failed for a reason other than unavailability.  After a crash
  between the delete and its record, a cycle that finds the destination no longer declared marks the deleted source
  ACTIVE and the only copy DELETE\<open>_\<close>PENDING; the next one, with the medium declared again on an archive class,
  abandons the move and deletes the only copy.\<close>

lemma undeclared_medium_run:
  "(summary runCrashed, summary runUndeclared, summary runRedeclared) =
     ((Some MoveSourceDeletePending, [(MediumLocal, PlacementDeletePending), (''m1'', PlacementActive)], None, Some ''bytes''),
      (Some MoveCopying, [(MediumLocal, PlacementActive), (''m1'', PlacementDeletePending)], None, Some ''bytes''),
      (Some MoveAbandoned, [(MediumLocal, PlacementActive), (''m1'', PlacementGone)], None, None))"
  by code_simp

section \<open>Two mediums at one place\<close>

definition aliasedSetup :: MoveSetup where "aliasedSetup = runSetup (mediumsAt ''one'')"

definition aliasedPlanned :: MoveWorld where
  "aliasedPlanned = planned aliasedSetup (runStart ''m1'' ''s/b/d'' (Inr (''one'', ''s/b/d''))) ''m2''"

text \<open>The move up to its recorded intent to delete the source.\<close>

definition aliasedPending :: MoveWorld where
  "aliasedPending = (nextCycle aliasedSetup (crashAfter 9) aliasedPlanned)\<lparr>mw_script := []\<rparr>"

definition atAliased :: address where "atAliased = Inr (''one'', ''s/b/d'')"

text \<open>What is evaluated of that world: the move, where its source and destination are, the bytes there, and
  the phase the deletion of the source ends in.\<close>

definition aliasedLook :: "MoveWorld \<Rightarrow> string \<times> address option option \<times> address option \<times> string option \<times> Phase option" where
  "aliasedLook w =
     (case getMove (mw_db w) 1 of Inl _ \<Rightarrow> ([], None, None, None, None)
      | Inr mv \<Rightarrow>
        (mv_SourceMedium mv,
         (case Get (mw_db w) (mv_Artifact mv) of Inl _ \<Rightarrow> None
          | Inr rec \<Rightarrow> map_option (\<lambda>src. addressOf (worldEngine aliasedSetup) (mv_SourceMedium mv) (p_Location src))
              (placementOn rec (mv_SourceMedium mv))),
         addressOf (worldEngine aliasedSetup) (mv_DestinationMedium mv) (mv_DestinationKey mv),
         mw_bytes w atAliased,
         (case fst (deleteSource worldMoves (worldEngine aliasedSetup) w mv None) of Inl _ \<Rightarrow> None | Inr p \<Rightarrow> Some (mv_Phase (fst p)))))"

lemma aliased_look:
  "aliasedLook aliasedPending = (''m1'', Some (Some atAliased), Some atAliased, Some ''bytes'', Some MoveDone)"
  by code_simp

theorem aliased_mediums_lose_copy_witness:
  "mw_bytes aliasedPending atAliased = Some ''bytes'' \<and>
   (\<exists>mv mv' left w'. getMove (mw_db aliasedPending) 1 = Inr mv \<and>
      deleteSource worldMoves (worldEngine aliasedSetup) aliasedPending mv None = (Inr (mv', left), w') \<and>
      mv_Phase mv' = MoveDone \<and> mw_bytes w' atAliased = None)"
proof -
  obtain mv where mv: "getMove (mw_db aliasedPending) 1 = Inr mv"
    using aliased_look by (cases "getMove (mw_db aliasedPending) 1") (simp_all add: aliasedLook_def)
  let ?r = "deleteSource worldMoves (worldEngine aliasedSetup) aliasedPending mv None"
  note look = aliased_look[unfolded aliasedLook_def mv sum.case prod.inject]
  obtain mv' left w' where d: "?r = (Inr (mv', left), w')" "mv_Phase mv' = MoveDone"
    using look by (cases ?r; cases "fst ?r") auto
  obtain rec src where s: "Get (mw_db aliasedPending) (mv_Artifact mv) = Inr rec"
    "placementOn rec (mv_SourceMedium mv) = Some src"
    "addressOf (worldEngine aliasedSetup) (mv_SourceMedium mv) (p_Location src) = Some atAliased"
    using look by (auto split: sum.split_asm)
  have "mv_SourceMedium mv \<noteq> MediumLocal" using look by simp
  from aliased_mediums_lose_copy[OF d s(1,2) this s(3)] look mv d show ?thesis by blast
qed

end
