(* ===== verification/Retry.thy ===== *)
theory Retry
  imports Prelude
begin

text \<open>
  The classification of transport failures (\<open>core/internal/transport/errors.go\<close>) and the loop that
  retries the transient ones (\<open>transport/retry/retry.go\<close>).  A policy without a bound on the attempts
  may retry for ever, so the loop is a partial function whose value \<open>None\<close> is never returning.  The
  wait between two attempts is a call that answers whether the timer fired or the context ended;
  how long it waits is not modelled.
\<close>

section \<open>Categories\<close>

datatype Category =
    Unclassified | Transient | Authentication | HostVerification | KeyPermissions | NotFound | PermissionDenied
  | Configuration | IntegrityFailure | Conflict | UnsupportedCapability | Permanent | CategoryCancelled

fun categoryString :: "Category \<Rightarrow> string" where
  "categoryString Unclassified = ''unclassified''"
| "categoryString Transient = ''transient''"
| "categoryString Authentication = ''authentication''"
| "categoryString HostVerification = ''host_verification''"
| "categoryString KeyPermissions = ''key_permissions''"
| "categoryString NotFound = ''not_found''"
| "categoryString PermissionDenied = ''permission_denied''"
| "categoryString Configuration = ''configuration''"
| "categoryString IntegrityFailure = ''integrity_failure''"
| "categoryString Conflict = ''conflict''"
| "categoryString UnsupportedCapability = ''unsupported_capability''"
| "categoryString Permanent = ''permanent''"
| "categoryString CategoryCancelled = ''cancelled''"

definition Retryable :: "Category \<Rightarrow> bool" where
  "Retryable c = (c = Transient)"

text \<open>An error is a \<open>*transport.Error\<close>, or one nobody classified; the context's own errors are the
  second and third.\<close>

datatype anyError = TransportError Category string | OtherError string | ContextCanceled | DeadlineExceeded

definition CategoryOf :: "anyError \<Rightarrow> Category option" where
  "CategoryOf e = (case e of TransportError c _ \<Rightarrow> Some c | _ \<Rightarrow> None)"

definition categoryOrUnclassified :: "anyError \<Rightarrow> Category" where
  "categoryOrUnclassified e = (case CategoryOf e of None \<Rightarrow> Unclassified | Some c \<Rightarrow> c)"

definition DefaultIsTransient :: "anyError \<Rightarrow> bool" where
  "DefaultIsTransient e = (categoryOrUnclassified e = Transient)"

section \<open>The loop\<close>

record 'w RetryEnv =
  re_Cancelled :: "'w \<Rightarrow> bool"
  re_Wait :: "'w \<Rightarrow> bool \<times> 'w"

definition retryCancelled :: anyError where "retryCancelled = TransportError CategoryCancelled ''retry''"

partial_function (option) retryFrom ::
  "'w RetryEnv \<Rightarrow> int \<Rightarrow> ('w \<Rightarrow> (anyError + 'a) \<times> 'w) \<Rightarrow> int \<Rightarrow> 'w \<Rightarrow> ((anyError + 'a) \<times> 'w) option" where
  "retryFrom env maxAttempts act attempt w =
     (if re_Cancelled env w then Some (Inl retryCancelled, w)
      else case act w of
          (Inr a, w1) \<Rightarrow> Some (Inr a, w1)
        | (Inl err, w1) \<Rightarrow>
          if \<not> DefaultIsTransient err then Some (Inl err, w1)
          else if maxAttempts > 0 \<and> attempt \<ge> maxAttempts then Some (Inl err, w1)
          else (case re_Wait env w1 of
              (fired, w2) \<Rightarrow>
                if fired then retryFrom env maxAttempts act (attempt + 1) w2 else Some (Inl retryCancelled, w2)))"

definition retryDo :: "'w RetryEnv \<Rightarrow> int \<Rightarrow> ('w \<Rightarrow> (anyError + 'a) \<times> 'w) \<Rightarrow> 'w \<Rightarrow> ((anyError + 'a) \<times> 'w) option" where
  "retryDo env maxAttempts act w = retryFrom env maxAttempts act 1 w"

section \<open>What the loop does\<close>

text \<open>An action that counts its own runs, in a world with a counter.\<close>

definition counting :: "('w \<Rightarrow> (anyError + 'a) \<times> 'w) \<Rightarrow> 'w \<times> nat \<Rightarrow> (anyError + 'a) \<times> 'w \<times> nat" where
  "counting act wn = (case act (fst wn) of (r, w) \<Rightarrow> (r, w, Suc (snd wn)))"

definition countingEnv :: "'w RetryEnv \<Rightarrow> ('w \<times> nat) RetryEnv" where
  "countingEnv env = \<lparr>re_Cancelled = (\<lambda>wn. re_Cancelled env (fst wn)),
     re_Wait = (\<lambda>wn. case re_Wait env (fst wn) of (b, w) \<Rightarrow> (b, w, snd wn))\<rparr>"

lemma retryFrom_bounded:
  assumes "0 < maxAttempts" "attempt \<le> maxAttempts"
  shows "\<exists>r w' n'. retryFrom (countingEnv env) maxAttempts (counting act) attempt (w, n) = Some (r, w', n') \<and>
    n' \<le> n + nat (maxAttempts + 1 - attempt)"
  using assms(2)
proof (induction "nat (maxAttempts - attempt)" arbitrary: attempt w n rule: less_induct)
  case less
  obtain x w1 where a: "act w = (x, w1)" by fastforce
  obtain b w2 where wt: "re_Wait env w1 = (b, w2)" by fastforce
  have step: "\<exists>r w' n'. retryFrom (countingEnv env) maxAttempts (counting act) (attempt + 1) (w2, Suc n) = Some (r, w', n') \<and>
      n' \<le> n + nat (maxAttempts + 1 - attempt)" if "attempt < maxAttempts"
  proof -
    from that have "nat (maxAttempts - (attempt + 1)) < nat (maxAttempts - attempt)" "attempt + 1 \<le> maxAttempts" by auto
    from less.hyps[OF this, of w2 "Suc n"] obtain r w' n' where
      "retryFrom (countingEnv env) maxAttempts (counting act) (attempt + 1) (w2, Suc n) = Some (r, w', n')"
      "n' \<le> Suc n + nat (maxAttempts + 1 - (attempt + 1))" by blast
    moreover have "Suc n + nat (maxAttempts + 1 - (attempt + 1)) \<le> n + nat (maxAttempts + 1 - attempt)"
      using that by simp
    ultimately show ?thesis by (meson order_trans)
  qed
  have "Suc n \<le> n + nat (maxAttempts + 1 - attempt)" using less.prems by simp
  with step less.prems assms(1) show ?case
    by (subst retryFrom.simps)
      (auto simp: counting_def countingEnv_def a wt split: sum.split bool.split)
qed

lemma retryFrom_returns:
  assumes "0 < maxAttempts" "attempt \<le> maxAttempts"
  shows "\<exists>r w'. retryFrom env maxAttempts act attempt w = Some (r, w')"
  using assms(2)
proof (induction "nat (maxAttempts - attempt)" arbitrary: attempt w rule: less_induct)
  case less
  obtain x w1 where a: "act w = (x, w1)" by fastforce
  obtain b w2 where wt: "re_Wait env w1 = (b, w2)" by fastforce
  have "\<exists>r w'. retryFrom env maxAttempts act (attempt + 1) w2 = Some (r, w')" if "attempt < maxAttempts"
    using less.hyps[of "attempt + 1" w2] that by auto
  with less.prems assms(1) show ?case
    by (subst retryFrom.simps) (auto simp: a wt split: sum.split bool.split)
qed

text \<open>What every run of the action and every wait keeps, the loop keeps; and a success is one run's.\<close>

lemma retryFrom_keeps:
  assumes P: "\<And>w. P w \<Longrightarrow> P (snd (act w))" "\<And>w. P w \<Longrightarrow> P (snd (re_Wait env w))"
    and "P w" "retryFrom env maxAttempts act attempt w = Some (r, w')"
  shows "P w' \<and> (\<forall>a. r = Inr a \<longrightarrow> (\<exists>v. P v \<and> act v = (Inr a, w')))"
proof -
  let ?Q = "\<lambda>env' act' (w :: 'a) res. env' = env \<longrightarrow> act' = act \<longrightarrow> P w \<longrightarrow>
      P (snd res) \<and> (\<forall>a. fst res = Inr a \<longrightarrow> (\<exists>v. P v \<and> act v = (Inr a, snd res)))"
  have "?Q env act w (r, w')"
  proof (rule retryFrom.raw_induct[where P = "\<lambda>env' n act' attempt w res. ?Q env' act' w res"])
    show "retryFrom env maxAttempts act attempt w = Some (r, w')" by (rule assms(4))
  next
    fix f env' act' w res and n attempt :: int
    assume IH: "\<And>env n act attempt w res. f env n act attempt w = Some res \<Longrightarrow> ?Q env act w res"
      and r: "(if re_Cancelled env' w then Some (Inl retryCancelled, w)
      else case act' w of
          (Inl err, w1) \<Rightarrow>
          if \<not> DefaultIsTransient err then Some (Inl err, w1)
          else if 0 < n \<and> n \<le> attempt then Some (Inl err, w1)
          else (case re_Wait env' w1 of
              (fired, w2) \<Rightarrow> if fired then f env' n act' (attempt + 1) w2 else Some (Inl retryCancelled, w2))
        | (Inr a, w1) \<Rightarrow> Some (Inr a, w1)) = Some res"
    show "?Q env' act' w res"
    proof (intro impI)
      assume e: "env' = env" "act' = act" and w: "P w"
      obtain x w1 where a: "act w = (x, w1)" by fastforce
      obtain b w2 where wt: "re_Wait env w1 = (b, w2)" by fastforce
      have "P w1" "P w2" using P(1)[OF w] P(2)[of w1] a wt by auto
      note IH' = IH[of env n act "attempt + 1" w2 res]
      note r' = r[unfolded e a]
      show "P (snd res) \<and> (\<forall>a. fst res = Inr a \<longrightarrow> (\<exists>v. P v \<and> act v = (Inr a, snd res)))"
      proof (cases x)
        case (Inl err)
        with r' w wt \<open>P w1\<close> \<open>P w2\<close> IH' show ?thesis by (auto split: if_splits)
      next
        case (Inr v)
        with r' have "res = (Inr v, w1) \<or> res = (Inl retryCancelled, w)" by (simp split: if_splits)
        moreover have "act w = (Inr v, w1)" using a Inr by simp
        ultimately show ?thesis using w \<open>P w1\<close> by fastforce
      qed
    qed
  qed
  with assms(3) show ?thesis by simp
qed

text \<open>With a bound on the attempts, the loop returns and has run the action at most that often,
  whatever the action and the waits answer.\<close>

theorem retry_returns_in_bound:
  assumes "0 < maxAttempts"
  shows "\<exists>r w' n. retryDo (countingEnv env) maxAttempts (counting act) (w, 0) = Some (r, w', n) \<and> int n \<le> maxAttempts"
proof -
  from retryFrom_bounded[OF assms, of 1 env act w 0] assms show ?thesis unfolding retryDo_def by force
qed

text \<open>Without a bound a transient failure is retried for ever: no fuel would be enough.\<close>

lemma retry_unbounded:
  assumes "\<And>w. \<not> re_Cancelled env w" "\<And>w. re_Wait env w = (True, w)"
  shows "retryDo env 0 (\<lambda>w. (Inl (TransportError Transient m), w)) w = None"
proof -
  let ?act = "\<lambda>w :: 'a. (Inl (TransportError Transient m) :: anyError + 'b, w)"
  have False if "retryFrom env 0 ?act 1 w = Some r" for r
  proof -
    have "env = env \<longrightarrow> (0::int) = 0 \<longrightarrow> ?act = ?act \<longrightarrow> False"
    proof (rule retryFrom.raw_induct[where P = "\<lambda>env' n act' attempt w res. env' = env \<longrightarrow> n = 0 \<longrightarrow> act' = ?act \<longrightarrow> False"])
      show "retryFrom env 0 ?act 1 w = Some r" by (rule that)
    next
      fix f env' act' w res and n attempt :: int
      assume IH: "\<And>env' n act' attempt w res. f env' n act' attempt w = Some res \<Longrightarrow> env' = env \<longrightarrow> n = 0 \<longrightarrow> act' = ?act \<longrightarrow> False"
        and r: "(if re_Cancelled env' w then Some (Inl retryCancelled, w)
      else case act' w of
          (Inl err, w1) \<Rightarrow>
          if \<not> DefaultIsTransient err then Some (Inl err, w1)
          else if 0 < n \<and> n \<le> attempt then Some (Inl err, w1)
          else (case re_Wait env' w1 of
              (fired, w2) \<Rightarrow> if fired then f env' n act' (attempt + 1) w2 else Some (Inl retryCancelled, w2))
        | (Inr a, w1) \<Rightarrow> Some (Inr a, w1)) = Some res"
      show "env' = env \<longrightarrow> n = 0 \<longrightarrow> act' = ?act \<longrightarrow> False"
      proof (intro impI)
        assume e: "env' = env" "n = 0" "act' = ?act"
        have "f env 0 ?act (attempt + 1) w = Some res"
          using r[unfolded e] assms by (auto simp: DefaultIsTransient_def categoryOrUnclassified_def CategoryOf_def split: if_splits)
        from IH[OF this] show False by simp
      qed
    qed
    then show False by simp
  qed
  then show ?thesis unfolding retryDo_def by (cases "retryFrom env 0 ?act 1 w") blast+
qed

theorem retry_returns_in_bound_witness:
  "\<exists>r w' n. retryDo (countingEnv \<lparr>re_Cancelled = \<lambda>_. False, re_Wait = \<lambda>w. (True, w)\<rparr>) 3
     (counting (\<lambda>w::nat. (Inl (TransportError Transient ''down''), w) :: (anyError + unit) \<times> nat)) (7, 0) = Some (r, w', n) \<and> int n \<le> 3"
  by (rule retry_returns_in_bound) simp

end
