(* ===== verification/TransferStep.thy ===== *)
theory TransferStep
  imports Commit Retry
begin

text \<open>
  Copying a discovered artifact to its \<open>.partial\<close> file (\<open>core/internal/lifecycle/transfer.go\<close>; the
  names are in \<open>Commit\<close>).  A call to \<open>Transfer\<close> that never returns, because its policy retries a
  transient failure for ever, is \<open>None\<close>.
\<close>

section \<open>The collaborators\<close>

record 'w CopyTransport =
  ct_CopyToLocal :: "'w \<Rightarrow> string \<Rightarrow> string \<Rightarrow> string \<Rightarrow> (anyError + int) \<times> 'w"
  ct_RemoteHash :: "'w \<Rightarrow> string \<Rightarrow> string \<Rightarrow> (anyError + string) \<times> 'w"

record 'w TransferDeps =
  xd_Deps :: "'w Deps"
  xd_Transport :: "'w CopyTransport option"
  xd_Stat :: "'w \<Rightarrow> string \<Rightarrow> pathError + int"
  xd_Remove :: "'w \<Rightarrow> string \<Rightarrow> pathError option \<times> 'w"
  xd_Wait :: "'w \<Rightarrow> bool \<times> 'w"

record TransferParams =
  xp_Artifact :: ArtifactID
  xp_Source :: string
  xp_LocalDir :: string
  xp_AttemptKey :: string
  xp_MaxAttempts :: int

definition keyTransferringSuffix :: string where "keyTransferringSuffix = '':transferring''"
definition keyTransferredSuffix :: string where "keyTransferredSuffix = '':transferred''"
definition keyFailedCollisionSuffix :: string where "keyFailedCollisionSuffix = '':failed:collision''"
definition keyFailedCopySuffix :: string where "keyFailedCopySuffix = '':failed:copy''"
definition keyCopyUnclaimedSuffix :: string where "keyCopyUnclaimedSuffix = '':copy:unclaimed''"
definition minCopyClaimBudget :: int where "minCopyClaimBudget = 2"

definition retryEnv :: "'w TransferDeps \<Rightarrow> 'w RetryEnv" where
  "retryEnv d = \<lparr>re_Cancelled = d_Cancelled (xd_Deps d), re_Wait = xd_Wait d\<rparr>"

section \<open>Failures\<close>

datatype transferCause = FinalNameCollision string | FailedCopy anyError

datatype transferError =
    TransferStep lifecycleError
  | NeedsTransport
  | NeedsLocalDir
  | TransferLookup journalError
  | TransferPath storeError
  | CollisionUnchecked string pathError
  | NotCleared string pathError
  | TransferCancelled anyError
  | Collision ArtifactID string
  | CollisionNotRecorded ArtifactID string lifecycleError
  | CopyFailedWith anyError
  | CopyFailedNotRecorded anyError lifecycleError
  | CopyFailedNotCharged anyError lifecycleError
  | TransferSuperseded ArtifactID State "transferCause option" int int

text \<open>The text of an error, as the source renders it.\<close>

fun errorText :: "anyError \<Rightarrow> string" where
  "errorText (TransportError c s) = s"
| "errorText (OtherError s) = s"
| "errorText ContextCanceled = ''context canceled''"
| "errorText DeadlineExceeded = ''context deadline exceeded''"

definition collisionText :: "ArtifactID \<Rightarrow> string \<Rightarrow> string" where
  "collisionText artifact path =
     ''lifecycle: transfer: refusing to overwrite an existing final-name file for '' @ artifactString artifact @ '' at '' @ path"

definition journalGet :: "'w TransferDeps \<Rightarrow> 'w \<Rightarrow> ArtifactID \<Rightarrow> journalError + Record" where
  "journalGet d w a = (case d_Journal (xd_Deps d) of None \<Rightarrow> Inl JournalUnavailable | Some ops \<Rightarrow> jo_Get ops w a)"

text \<open>The record that could not be made because another attempt has the artifact; \<open>None\<close> when that is
  not what happened.\<close>

definition supersededBy :: "'w TransferDeps \<Rightarrow> 'w \<Rightarrow> ArtifactID \<Rightarrow> lifecycleError \<Rightarrow> transferCause \<Rightarrow> transferError option" where
  "supersededBy d w artifact recordErr cause =
     (let tableRefused = (case recordErr of RefusedMove _ _ _ \<Rightarrow> True | _ \<Rightarrow> False) in
      if \<not> tableRefused \<and> (case recordErr of JournalError (ErrStateMismatch _ _) \<Rightarrow> False | _ \<Rightarrow> True) then None
      else case journalGet d w artifact of
          Inl _ \<Rightarrow> None
        | Inr rec \<Rightarrow>
          if tableRefused \<and> Validate (r_State rec) Failed = None then None
          else Some (TransferSuperseded artifact (r_State rec) (Some cause) 0 0))"

definition supersededClaim :: "'w TransferDeps \<Rightarrow> 'w \<Rightarrow> ArtifactID \<Rightarrow> State \<Rightarrow> State" where
  "supersededClaim d w artifact known =
     (case journalGet d w artifact of Inr rec \<Rightarrow> r_State rec | Inl _ \<Rightarrow> known)"

definition failCollision :: "'w TransferDeps \<Rightarrow> 'w \<Rightarrow> TransferParams \<Rightarrow> State \<Rightarrow> string \<Rightarrow> (transferError + Outcome) \<times> 'w" where
  "failCollision d w p fr path =
     (case Advance (xd_Deps d) w
         ((emptyTransition (xp_Artifact p) (xp_AttemptKey p @ keyFailedCollisionSuffix) fr Failed)
            \<lparr>t_Detail := collisionText (xp_Artifact p) path\<rparr>) of
        (Inl err, w') \<Rightarrow>
          (case supersededBy d w' (xp_Artifact p) err (FinalNameCollision path) of
             Some s \<Rightarrow> (Inl s, w')
           | None \<Rightarrow> (Inl (CollisionNotRecorded (xp_Artifact p) path err), w'))
      | (Inr _, w') \<Rightarrow> (Inl (Collision (xp_Artifact p) path), w'))"

definition recordCopyFailure ::
  "'w TransferDeps \<Rightarrow> 'w \<Rightarrow> TransferParams \<Rightarrow> anyError \<Rightarrow> string \<Rightarrow> RetryUpdate option \<Rightarrow> (transferError + Outcome) \<times> 'w" where
  "recordCopyFailure d w p copyErr detail upd =
     (case Advance (xd_Deps d) w
         ((emptyTransition (xp_Artifact p) (xp_AttemptKey p @ keyFailedCopySuffix) Transferring Failed)
            \<lparr>t_Detail := detail, t_Retry := upd\<rparr>) of
        (Inl err, w') \<Rightarrow>
          (case supersededBy d w' (xp_Artifact p) err (FailedCopy copyErr) of
             Some s \<Rightarrow> (Inl s, w')
           | None \<Rightarrow> (Inl (CopyFailedNotRecorded copyErr err), w'))
      | (Inr _, w') \<Rightarrow> (Inl (CopyFailedWith copyErr), w'))"

definition chargedThisTransferring :: "'w TransferDeps \<Rightarrow> 'w \<Rightarrow> ArtifactID \<Rightarrow> bool" where
  "chargedThisTransferring d w artifact =
     (case d_Journal (xd_Deps d) of None \<Rightarrow> False
      | Some ops \<Rightarrow>
        (case jo_LastTransition ops w artifact Transferring Transferring of
           Inr (Some charged) \<Rightarrow>
             (case jo_LastEnteredAt ops w artifact Transferring of
                Inl _ \<Rightarrow> False
              | Inr None \<Rightarrow> True
              | Inr (Some since) \<Rightarrow> \<not> charged < since)
         | _ \<Rightarrow> False))"

definition copyClaimBudget :: "int \<Rightarrow> int" where
  "copyClaimBudget maxAttempts = (if maxAttempts > minCopyClaimBudget then maxAttempts else minCopyClaimBudget)"

definition chargedText :: "ArtifactID \<Rightarrow> int \<Rightarrow> int \<Rightarrow> string \<Rightarrow> string" where
  "chargedText artifact attempt budget reason =
     ''the copy failed and this attempt could not claim '' @ artifactString artifact @ '' (attempt '' @ itoa attempt @
     '' of '' @ itoa budget @ ''): '' @ reason"

definition exhaustedText :: "int \<Rightarrow> string \<Rightarrow> string" where
  "exhaustedText attempt reason =
     ''the copy failed on '' @ itoa attempt @ '' consecutive attempts and none of them could claim this artifact's TRANSFERRING record, so this is recorded as FAILED rather than left in progress with nothing counting it: '' @ reason"

definition failUnclaimedCopy ::
  "'w TransferDeps \<Rightarrow> 'w \<Rightarrow> TransferParams \<Rightarrow> anyError \<Rightarrow> Record \<Rightarrow> (transferError + Outcome) \<times> 'w" where
  "failUnclaimedCopy d w p copyErr row =
     (let attempt = r_RetryCount row + 1;
          budget = copyClaimBudget (xp_MaxAttempts p);
          reason = errorText copyErr;
          charged = chargedText (xp_Artifact p) attempt budget reason;
          upd = \<lparr>ru_Count = attempt, ru_LastError = charged, ru_NextAttempt = None\<rparr> in
      if attempt \<ge> budget \<and> chargedThisTransferring d w (xp_Artifact p)
      then recordCopyFailure d w p copyErr (exhaustedText attempt reason) (Some upd)
      else
        (case Advance (xd_Deps d) w
            ((emptyTransition (xp_Artifact p) (xp_AttemptKey p @ keyCopyUnclaimedSuffix) Transferring Transferring)
               \<lparr>t_Detail := charged, t_Retry := Some upd\<rparr>) of
           (Inl err, w') \<Rightarrow>
             (case supersededBy d w' (xp_Artifact p) err (FailedCopy copyErr) of
                Some s \<Rightarrow> (Inl s, w')
              | None \<Rightarrow> (Inl (CopyFailedNotCharged copyErr err), w'))
         | (Inr _, w') \<Rightarrow>
             (Inl (TransferSuperseded (xp_Artifact p) (supersededClaim d w' (xp_Artifact p) (r_State row))
                (Some (FailedCopy copyErr)) attempt budget), w')))"

definition failCopy ::
  "'w TransferDeps \<Rightarrow> 'w \<Rightarrow> TransferParams \<Rightarrow> anyError \<Rightarrow> bool \<Rightarrow> Record \<Rightarrow> (transferError + Outcome) \<times> 'w" where
  "failCopy d w p copyErr claimed row =
     (if \<not> claimed then failUnclaimedCopy d w p copyErr row
      else recordCopyFailure d w p copyErr (errorText copyErr) None)"

section \<open>The step\<close>

definition transferError0 :: "'w TransferDeps \<Rightarrow> 'w \<Rightarrow> TransferParams \<Rightarrow> transferError option" where
  "transferError0 d w p =
     (if d_Journal (xd_Deps d) = None then Some (TransferStep NeedsJournal)
      else if xd_Transport d = None then Some NeedsTransport
      else if xp_LocalDir p = [] then Some NeedsLocalDir
      else if xp_AttemptKey p = [] then Some (TransferStep NeedsAttemptKey)
      else if d_Cancelled (xd_Deps d) w then Some (TransferStep Cancelled)
      else None)"

fun pathErrorText :: "pathError \<Rightarrow> string" where
  "pathErrorText NotExist = ''no such file or directory''"
| "pathErrorText (PathError e) = e"

definition unmeasuredCopy :: "int \<Rightarrow> string \<Rightarrow> pathError \<Rightarrow> anyError" where
  "unmeasuredCopy reported partial e =
     TransportError IntegrityFailure (''copy_to_local: integrity_failure: the copy reported '' @ itoa reported @
       '' bytes but its destination '' @ partial @ '' cannot be measured: '' @ pathErrorText e)"

definition shortCopy :: "int \<Rightarrow> int \<Rightarrow> int \<Rightarrow> anyError" where
  "shortCopy got expected reported =
     TransportError IntegrityFailure (''copy_to_local: integrity_failure: copied '' @ itoa got @
       '' bytes of a remote object the journal records as '' @ itoa expected @ '' (the copy itself reported '' @ itoa reported @
       ''); refusing to record a short copy as transferred'')"

text \<open>After the copy: the measured file, not the copy's own report, decides.\<close>

definition transferredTo :: "TransferParams \<Rightarrow> int \<Rightarrow> Transition" where
  "transferredTo p n =
     (emptyTransition (xp_Artifact p) (xp_AttemptKey p @ keyTransferredSuffix) Transferring Transferred)
       \<lparr>t_Transfer := Some \<lparr>tr_BytesTransferred = n, tr_Checksummed = False\<rparr>\<rparr>"

definition finishTransfer ::
  "'w TransferDeps \<Rightarrow> 'w \<Rightarrow> TransferParams \<Rightarrow> Record \<Rightarrow> string \<Rightarrow> int \<Rightarrow> bool \<Rightarrow> Record \<Rightarrow> (transferError + Outcome) \<times> 'w" where
  "finishTransfer d w p rec partial reported claimed row =
     (if d_Cancelled (xd_Deps d) w then (Inl (TransferStep Cancelled), w)
      else
        let ok = (\<lambda>got. map_prod (mapErr TransferStep) id (Advance (xd_Deps d) w (transferredTo p got))) in
        (case xd_Stat d w partial of
           Inl e \<Rightarrow> failCopy d w p (unmeasuredCopy reported partial e) claimed row
         | Inr got \<Rightarrow>
           (case rf_Size (r_Remote rec) of
              Some n \<Rightarrow> if got \<noteq> n then failCopy d w p (shortCopy got n reported) claimed row else ok got
            | None \<Rightarrow> ok got)))"

definition copyAttempt :: "'w CopyTransport \<Rightarrow> TransferParams \<Rightarrow> Record \<Rightarrow> string \<Rightarrow> 'w \<Rightarrow> (anyError + int) \<times> 'w" where
  "copyAttempt tr p rec partial w = ct_CopyToLocal tr w (xp_Source p) (r_RemotePath rec) partial"

text \<open>From the TRANSFERRING record on: clear the partial file, copy with retries, measure.\<close>

definition copyStarted ::
  "'w TransferDeps \<Rightarrow> 'w \<Rightarrow> TransferParams \<Rightarrow> Record \<Rightarrow> string \<Rightarrow> Outcome \<Rightarrow> ((transferError + Outcome) \<times> 'w) option" where
  "copyStarted d w p rec partial started =
     (let claimed = (o_Applied started \<and> r_State rec \<noteq> Transferring); row = o_Record started;
          (gone, w2) = xd_Remove d w partial in
      case gone of
        Some (PathError e) \<Rightarrow> Some (Inl (NotCleared partial (PathError e)), w2)
      | _ \<Rightarrow>
        (case xd_Transport d of None \<Rightarrow> Some (Inl NeedsTransport, w2)
         | Some tr \<Rightarrow>
           (case retryDo (retryEnv d) (xp_MaxAttempts p) (copyAttempt tr p rec partial) w2 of
              None \<Rightarrow> None
            | Some (Inl copyErr, w3) \<Rightarrow>
              Some (if CategoryOf copyErr = Some CategoryCancelled then (Inl (TransferCancelled copyErr), w3)
                    else failCopy d w3 p copyErr claimed row)
            | Some (Inr reported, w3) \<Rightarrow> Some (finishTransfer d w3 p rec partial reported claimed row))))"

definition Transfer :: "'w TransferDeps \<Rightarrow> 'w \<Rightarrow> TransferParams \<Rightarrow> ((transferError + Outcome) \<times> 'w) option" where
  "Transfer d w p =
     (case transferError0 d w p of Some err \<Rightarrow> Some (Inl err, w)
      | None \<Rightarrow>
        (case journalGet d w (xp_Artifact p) of
           Inl err \<Rightarrow> Some (Inl (TransferLookup err), w)
         | Inr rec \<Rightarrow>
           (case (finalPath (xp_LocalDir p) (xp_Artifact p), partialPath (xp_LocalDir p) (xp_Artifact p)) of
              (Inl err, _) \<Rightarrow> Some (Inl (TransferPath err), w)
            | (_, Inl err) \<Rightarrow> Some (Inl (TransferPath err), w)
            | (Inr final, Inr partial) \<Rightarrow>
              (case xd_Stat d w final of
                 Inr _ \<Rightarrow> Some (failCollision d w p (r_State rec) final)
               | Inl (PathError e) \<Rightarrow> Some (Inl (CollisionUnchecked final (PathError e)), w)
               | Inl NotExist \<Rightarrow>
                 (case Advance (xd_Deps d) w
                     ((emptyTransition (xp_Artifact p) (xp_AttemptKey p @ keyTransferringSuffix) (r_State rec) Transferring)
                        \<lparr>t_LocalPath := Some partial\<rparr>) of
                    (Inl err, w1) \<Rightarrow> Some (Inl (TransferStep err), w1)
                  | (Inr started, w1) \<Rightarrow>
                    if r_State (o_Record started) \<noteq> Transferring
                    then Some (Inl (TransferSuperseded (xp_Artifact p) (r_State (o_Record started)) None 0 0), w1)
                    else copyStarted d w1 p rec partial started)))))"

end
