(* ===== verification/VerifyStep.thy ===== *)
theory VerifyStep
  imports TransferStep
begin

text \<open>
  The step that decides whether a transferred copy is a good one (\<open>core/internal/lifecycle/verify.go\<close>,
  \<open>ResolvedCommand\<close> of \<open>config/config.go\<close>).  Running the operator's program is a call: what came of the process,
  what it wrote and which of the two contexts ended are its result.  The sentences that go into
  the journal are constructors, rendered by an argument.
\<close>

section \<open>The policy of a backup set\<close>

record Command =
  cmd_Executable :: string
  cmd_Timeout :: int

record Validation =
  va_Hash :: string
  va_ValidatorID :: string
  va_Command :: "Command option"

definition ResolvedCommand :: "Validation \<Rightarrow> string + Command option" where
  "ResolvedCommand v =
     (case va_Command v of
        None \<Rightarrow> if va_ValidatorID v \<noteq> [] then Inl (va_ValidatorID v) else Inr None
      | Some c \<Rightarrow> Inr (Some c))"

section \<open>Running the validator\<close>

text \<open>How the process ended, the error of the caller's context and of the one with the validator's own
  timeout, and what was written.\<close>

datatype runError = ExitError | StartError string

record ValidatorRun =
  vr_Error :: "runError option"
  vr_CallerEnded :: "anyError option"
  vr_TimedOut :: bool
  vr_Writes :: "string list"

definition maxValidatorOutput :: nat where "maxValidatorOutput = 16 * 2 ^ 10"

definition boundedWrite :: "nat \<Rightarrow> string \<Rightarrow> string \<Rightarrow> string" where
  "boundedWrite limit buf p = (if limit > length buf then buf @ take (limit - length buf) p else buf)"

definition boundedString :: "nat \<Rightarrow> string \<Rightarrow> string" where
  "boundedString limit buf = (if length buf \<ge> limit then buf @ ''... (truncated)'' else buf)"

definition validatorOutput :: "string list \<Rightarrow> string" where
  "validatorOutput ws = boundedString maxValidatorOutput (foldl (boundedWrite maxValidatorOutput) [] ws)"

datatype verifyDetail =
    LocalUnreadable string
  | NoSizeToCheck
  | LocalSizeDiffers int string int
  | NoComparableHash anyError
  | HashesDiffer string string
  | UnsupportedPolicy string
  | UnresolvedValidator string
  | ChecksPassed
  | ValidatorUnusable string anyError
  | ValidatorRejected
  | ValidatorKilled int
  | HeldForOperator int int anyError
  | Unfinished int int anyError
  | LastStall anyError

record 'w VerifyDeps =
  vd_Common :: "'w TransferDeps"
  vd_ReadLocal :: "'w \<Rightarrow> string \<Rightarrow> string + string"
  vd_Digest :: "string \<Rightarrow> string"
  vd_Run :: "'w \<Rightarrow> Command \<Rightarrow> string \<Rightarrow> ValidatorRun \<times> 'w"
  vd_Fold :: "string \<Rightarrow> string \<Rightarrow> bool"
  vd_Text :: "verifyDetail \<Rightarrow> string"

definition runValidator :: "'w VerifyDeps \<Rightarrow> 'w \<Rightarrow> Command \<Rightarrow> string \<Rightarrow> (anyError + bool \<times> string) \<times> 'w" where
  "runValidator d w cmd localPath =
     (if cmd_Timeout cmd \<le> 0 then (Inl (OtherError (''timeout must be positive, got '' @ itoa (cmd_Timeout cmd))), w)
      else case vd_Run d w cmd localPath of (run, w') \<Rightarrow>
        let detail = validatorOutput (vr_Writes run) in
        (case vr_Error run of
           None \<Rightarrow> (Inr (True, detail), w')
         | Some err \<Rightarrow>
           (case vr_CallerEnded run of
              Some e \<Rightarrow> (Inl e, w')
            | None \<Rightarrow>
              if vr_TimedOut run then (Inr (False, detail @ vd_Text d (ValidatorKilled (cmd_Timeout cmd))), w')
              else (case err of
                      ExitError \<Rightarrow> (Inr (False, detail), w')
                    | StartError e \<Rightarrow> (Inl (OtherError (''could not start: '' @ e)), w')))))"

section \<open>The checks\<close>

record verifyOutcome =
  vo_To :: State
  vo_Detail :: verifyDetail
  vo_Hashes :: "HashUpdate option"
  vo_Validation :: "ValidationUpdate option"

text \<open>A verdict, a check that could not be finished, or the caller's own stop.\<close>

datatype decision = Verdict verifyOutcome | UnfinishedCheck anyError | Halted anyError

definition isCancellation :: "anyError \<Rightarrow> bool" where
  "isCancellation e =
     (case CategoryOf e of Some c \<Rightarrow> c = CategoryCancelled | None \<Rightarrow> e = ContextCanceled \<or> e = DeadlineExceeded)"

definition expectedSize :: "Record \<Rightarrow> int option" where
  "expectedSize rec = (case r_Transfer rec of Some t \<Rightarrow> Some (tr_BytesTransferred t) | None \<Rightarrow> rf_Size (r_Remote rec))"

definition remoteHashMaxAttempts :: int where "remoteHashMaxAttempts = 3"

definition remoteHashWithRetry ::
  "'w VerifyDeps \<Rightarrow> 'w CopyTransport \<Rightarrow> 'w \<Rightarrow> string \<Rightarrow> string \<Rightarrow> ((anyError + string) \<times> 'w) option" where
  "remoteHashWithRetry d tr w source remotePath =
     retryDo (retryEnv (vd_Common d)) remoteHashMaxAttempts (\<lambda>v. ct_RemoteHash tr v source remotePath) w"

definition failedWith :: "verifyDetail \<Rightarrow> HashUpdate option \<Rightarrow> decision" where
  "failedWith why hashes = Verdict \<lparr>vo_To = Failed, vo_Detail = why, vo_Hashes = hashes, vo_Validation = None\<rparr>"

definition emptyRemoteHash :: anyError where
  "emptyRemoteHash = OtherError ''backend returned an empty hash with no error''"

text \<open>The remote's hash against the local one: the decision it forces, if it forces one.\<close>

definition checkRemoteHash :: "'w VerifyDeps \<Rightarrow> HashUpdate \<Rightarrow> anyError + string \<Rightarrow> decision option" where
  "checkRemoteHash d hashes answer =
     (case (case answer of Inr h \<Rightarrow> if h = [] then Inl emptyRemoteHash else Inr h | Inl e \<Rightarrow> Inl e) of
        Inl e \<Rightarrow>
          Some (if isCancellation e then Halted e
                else if (case CategoryOf e of Some c \<Rightarrow> Retryable c | None \<Rightarrow> False) then UnfinishedCheck e
                else failedWith (NoComparableHash e) (Some hashes))
      | Inr h \<Rightarrow>
          if \<not> equalFold (vd_Fold d) h (hu_Hash hashes)
          then Some (Verdict \<lparr>vo_To = Quarantined, vo_Detail = HashesDiffer (hu_Hash hashes) h,
                              vo_Hashes = Some hashes, vo_Validation = None\<rparr>)
          else None)"

text \<open>\<open>Verify\<close> has checked that there is a transport; without one the source would panic.\<close>

definition hashLayer ::
  "'w VerifyDeps \<Rightarrow> 'w \<Rightarrow> string \<Rightarrow> Record \<Rightarrow> Validation \<Rightarrow> HashUpdate \<Rightarrow> (decision option \<times> 'w) option" where
  "hashLayer d w source rec cfg hashes =
     (if va_Hash cfg = [] then Some (None, w)
      else if va_Hash cfg = SHA256Alg then
        (case xd_Transport (vd_Common d) of
           None \<Rightarrow> None
         | Some tr \<Rightarrow>
           (case remoteHashWithRetry d tr w source (r_RemotePath rec) of
              None \<Rightarrow> None
            | Some (answer, w') \<Rightarrow> Some (checkRemoteHash d hashes answer, w')))
      else Some (Some (failedWith (UnsupportedPolicy (va_Hash cfg)) (Some hashes)), w))"

definition validatorLayer :: "'w VerifyDeps \<Rightarrow> 'w \<Rightarrow> Record \<Rightarrow> Validation \<Rightarrow> HashUpdate \<Rightarrow> decision \<times> 'w" where
  "validatorLayer d w rec cfg hashes =
     (let verified = (\<lambda>v. Verdict \<lparr>vo_To = Verified, vo_Detail = ChecksPassed, vo_Hashes = Some hashes, vo_Validation = v\<rparr>) in
      case ResolvedCommand cfg of
        Inl i \<Rightarrow> (failedWith (UnresolvedValidator i) (Some hashes), w)
      | Inr None \<Rightarrow> (verified None, w)
      | Inr (Some command) \<Rightarrow>
        (case runValidator d w command (r_LocalPath rec) of
           (Inl err, w') \<Rightarrow>
             (if isCancellation err then Halted err
              else failedWith (ValidatorUnusable (cmd_Executable command) err) (Some hashes), w')
         | (Inr (passed, detail), w') \<Rightarrow>
             let validation = Some \<lparr>vu_Passed = passed, vu_Detail = detail\<rparr> in
             (if \<not> passed
              then Verdict \<lparr>vo_To = Quarantined, vo_Detail = ValidatorRejected, vo_Hashes = Some hashes, vo_Validation = validation\<rparr>
              else verified validation, w')))"

definition decide :: "'w VerifyDeps \<Rightarrow> 'w \<Rightarrow> string \<Rightarrow> Record \<Rightarrow> Validation \<Rightarrow> (decision \<times> 'w) option" where
  "decide d w source rec cfg =
     (case vd_ReadLocal d w (r_LocalPath rec) of
        Inl e \<Rightarrow> Some (failedWith (LocalUnreadable e) None, w)
      | Inr content \<Rightarrow>
        (case expectedSize rec of
           None \<Rightarrow> Some (failedWith NoSizeToCheck None, w)
         | Some expected \<Rightarrow>
           if int (length content) \<noteq> expected
           then Some (failedWith (LocalSizeDiffers expected (r_LocalPath rec) (int (length content))) None, w)
           else
             let hashes = \<lparr>hu_Hash = vd_Digest d content, hu_Alg = SHA256Alg\<rparr> in
             (case hashLayer d w source rec cfg hashes of
                None \<Rightarrow> None
              | Some (Some forced, w1) \<Rightarrow> Some (forced, w1)
              | Some (None, w1) \<Rightarrow> Some (validatorLayer d w1 rec cfg hashes))))"

section \<open>The step\<close>

record VerifyParams =
  vp_Artifact :: ArtifactID
  vp_Source :: string
  vp_Validation :: Validation
  vp_AttemptKey :: string
  vp_StallBudget :: int

datatype verifyError =
    VerifyStep lifecycleError
  | VerifyNeedsTransport
  | VerifyLookup journalError
  | VerifyHalted anyError
  | VerdictNotRecorded State lifecycleError
  | StallNotRecorded State lifecycleError
  | VerificationStalled ArtifactID int int anyError

definition keyVerifySuffix :: string where "keyVerifySuffix = '':verify''"
definition keyVerifyStallSuffix :: string where "keyVerifyStallSuffix = '':verify-stall''"

definition recordStall :: "'w VerifyDeps \<Rightarrow> 'w \<Rightarrow> VerifyParams \<Rightarrow> Record \<Rightarrow> anyError \<Rightarrow> (verifyError + Outcome) \<times> 'w" where
  "recordStall d w p rec cause =
     (let attempt = r_RetryCount rec + 1;
          stalled = (\<lambda>to why. (emptyTransition (r_Artifact rec) (vp_AttemptKey p @ keyVerifyStallSuffix) (r_State rec) to)
            \<lparr>t_Detail := vd_Text d why,
             t_Retry := Some \<lparr>ru_Count = attempt, ru_LastError = vd_Text d (LastStall cause), ru_NextAttempt = None\<rparr>\<rparr>) in
      if attempt \<ge> vp_StallBudget p then
        map_prod (mapErr (StallNotRecorded Quarantined)) id
          (Advance (xd_Deps (vd_Common d)) w
             (stalled Quarantined (HeldForOperator attempt (max attempt (vp_StallBudget p)) cause)))
      else
        (case Advance (xd_Deps (vd_Common d)) w (stalled (r_State rec) (Unfinished attempt (vp_StallBudget p) cause)) of
           (Inl e, w') \<Rightarrow> (Inl (StallNotRecorded (r_State rec) e), w')
         | (Inr _, w') \<Rightarrow> (Inl (VerificationStalled (r_Artifact rec) attempt (vp_StallBudget p) cause), w')))"

definition verdictTransition :: "'w VerifyDeps \<Rightarrow> VerifyParams \<Rightarrow> Record \<Rightarrow> verifyOutcome \<Rightarrow> Transition" where
  "verdictTransition d p rec v =
     (emptyTransition (r_Artifact rec) (vp_AttemptKey p @ keyVerifySuffix) (r_State rec) (vo_To v))
       \<lparr>t_Detail := vd_Text d (vo_Detail v), t_Hashes := vo_Hashes v, t_Validation := vo_Validation v\<rparr>"

definition verifyRefusal :: "'w VerifyDeps \<Rightarrow> 'w \<Rightarrow> VerifyParams \<Rightarrow> verifyError option" where
  "verifyRefusal d w p =
     (if d_Journal (xd_Deps (vd_Common d)) = None then Some (VerifyStep NeedsJournal)
      else if xd_Transport (vd_Common d) = None then Some VerifyNeedsTransport
      else if vp_AttemptKey p = [] then Some (VerifyStep NeedsAttemptKey)
      else if d_Cancelled (xd_Deps (vd_Common d)) w then Some (VerifyStep Cancelled)
      else None)"

definition Verify :: "'w VerifyDeps \<Rightarrow> 'w \<Rightarrow> VerifyParams \<Rightarrow> ((verifyError + Outcome) \<times> 'w) option" where
  "Verify d w p =
     (case verifyRefusal d w p of Some err \<Rightarrow> Some (Inl err, w)
      | None \<Rightarrow>
        (case journalGet (vd_Common d) w (vp_Artifact p) of
           Inl err \<Rightarrow> Some (Inl (VerifyLookup err), w)
         | Inr rec \<Rightarrow>
           (case decide d w (vp_Source p) rec (vp_Validation p) of
              None \<Rightarrow> None
            | Some (UnfinishedCheck cause, w') \<Rightarrow> Some (recordStall d w' p rec cause)
            | Some (Halted err, w') \<Rightarrow> Some (Inl (VerifyHalted err), w')
            | Some (Verdict v, w') \<Rightarrow>
                Some (map_prod (mapErr (VerdictNotRecorded (vo_To v))) id
                  (Advance (xd_Deps (vd_Common d)) w' (verdictTransition d p rec v))))))"

end
