(* ===== verification/TransferProps.thy ===== *)
theory TransferProps
  imports TransferStep
begin

text \<open>
  What \<open>Transfer\<close> keeps and when it succeeds.  The first locale says that the journal, the clearing of the
  partial file, the copy onto it and the waits keep a property of the world; then \<open>Transfer\<close> keeps
  it.  The second relates the calls to a view of the files.
\<close>

section \<open>What every collaborator keeps, a transfer keeps\<close>

locale copying =
  fixes d :: "'w TransferDeps" and partial :: string and P :: "'w \<Rightarrow> bool"
  assumes record_law: "d_Journal (xd_Deps d) = Some ops \<Longrightarrow> P w \<Longrightarrow> jo_RecordTransition ops w t = (jr, w') \<Longrightarrow> P w'"
    and remove_law: "P w \<Longrightarrow> xd_Remove d w partial = (rr, w') \<Longrightarrow> P w'"
    and copy_law: "xd_Transport d = Some tr \<Longrightarrow> P w \<Longrightarrow> ct_CopyToLocal tr w s r partial = (cr, w') \<Longrightarrow> P w'"
    and wait_law: "P w \<Longrightarrow> xd_Wait d w = (b, w') \<Longrightarrow> P w'"
begin

lemma Advance_keeps: "P w \<Longrightarrow> Advance (xd_Deps d) w t = (jr, w') \<Longrightarrow> P w'"
  by (auto simp: Advance_def Let_def split: option.splits prod.splits if_splits dest: record_law)

lemma recordCopyFailure_keeps: "P w \<Longrightarrow> P (snd (recordCopyFailure d w p err detail upd))"
  by (auto simp: recordCopyFailure_def split: sum.split prod.split option.split dest: Advance_keeps)

lemma failUnclaimedCopy_keeps: "P w \<Longrightarrow> P (snd (failUnclaimedCopy d w p err row))"
  by (auto simp: failUnclaimedCopy_def Let_def recordCopyFailure_keeps split: sum.split prod.split option.split dest: Advance_keeps)

lemma failCopy_keeps: "P w \<Longrightarrow> P (snd (failCopy d w p err claimed row))"
  by (simp add: failCopy_def recordCopyFailure_keeps failUnclaimedCopy_keeps)

lemma failCollision_keeps: "P w \<Longrightarrow> P (snd (failCollision d w p fr path))"
  by (auto simp: failCollision_def split: sum.split prod.split option.split dest: Advance_keeps)

lemma finishTransfer_keeps:
  assumes "P w"
  shows "P (snd (finishTransfer d w p rec q n claimed row))"
proof -
  have "P (snd (Advance (xd_Deps d) w t))" for t
    using Advance_keeps[OF assms] by (metis prod.collapse)
  with assms show ?thesis
    by (auto simp: finishTransfer_def Let_def failCopy_keeps split: sum.split option.split)
qed

lemma retry_keeps:
  assumes tr: "xd_Transport d = Some tr" and w: "P w"
    and r: "retryDo (retryEnv d) n (copyAttempt tr p rec partial) w = Some (r, w')"
  shows "P w'"
proof -
  have 1: "P (snd (copyAttempt tr p rec partial v))" if "P v" for v
    using copy_law[OF tr that] unfolding copyAttempt_def by (metis prod.collapse)
  have 2: "P (snd (re_Wait (retryEnv d) v))" if "P v" for v
    using wait_law[OF that] unfolding retryEnv_def by (metis prod.collapse RetryEnv.select_convs(2))
  from retryFrom_keeps[where P = P, OF 1 2 w r[unfolded retryDo_def]] show ?thesis by simp
qed

lemma copyStarted_keeps:
  assumes w: "P w" and c: "copyStarted d w p rec partial started = Some (r, w')"
  shows "P w'"
proof -
  obtain gone w2 where g: "xd_Remove d w partial = (gone, w2)" by (meson surj_pair)
  have 1: "P w2" using remove_law[OF w g] .
  show ?thesis
  proof (cases "xd_Transport d")
    case None
    with c g 1 show ?thesis by (auto simp: copyStarted_def Let_def split: option.splits pathError.splits)
  next
    case tr: (Some tr)
    show ?thesis
    proof (cases "retryDo (retryEnv d) (xp_MaxAttempts p) (copyAttempt tr p rec partial) w2")
      case None
      with c g tr 1 show ?thesis by (auto simp: copyStarted_def Let_def split: option.splits pathError.splits)
    next
      case (Some xw)
      obtain x w3 where xw: "xw = (x, w3)" by (meson surj_pair)
      have 3: "P w3" using retry_keeps[OF tr 1] Some xw by blast
      note fc = failCopy_keeps[OF 3, of p] and fin = finishTransfer_keeps[OF 3, of p rec partial]
      from c g tr Some xw 1 3 fc fin show ?thesis
        by (cases x) (auto simp: copyStarted_def Let_def split: option.splits pathError.splits if_splits;
          metis snd_conv)+
    qed
  qed
qed

lemma Transfer_keeps:
  assumes w: "P w" and t: "Transfer d w p = Some (r, w')"
    and part: "partialPath (xp_LocalDir p) (xp_Artifact p) = Inr partial"
  shows "P w'"
proof (cases "transferError0 d w p")
  case (Some err)
  with t w show ?thesis by (simp add: Transfer_def)
next
  case e0: None
  show ?thesis
  proof (cases "journalGet d w (xp_Artifact p)")
    case (Inl err)
    with t e0 w show ?thesis by (simp add: Transfer_def)
  next
    case rec: (Inr rec)
    obtain final where final: "finalPath (xp_LocalDir p) (xp_Artifact p) = Inr final"
      using part by (auto simp: partialPath_def bindE_Inr_iff)
    let ?t = "(emptyTransition (xp_Artifact p) (xp_AttemptKey p @ keyTransferringSuffix) (r_State rec) Transferring)\<lparr>t_LocalPath := Some partial\<rparr>"
    obtain x w1 where x: "Advance (xd_Deps d) w ?t = (x, w1)" by (meson surj_pair)
    have w1: "P w1" using Advance_keeps[OF w x] .
    show ?thesis
    proof (cases "xd_Stat d w final")
      case (Inr n)
      with t e0 rec final part have "(r, w') = failCollision d w p (r_State rec) final"
        by (simp add: Transfer_def)
      with failCollision_keeps[OF w, of p "r_State rec" final] show ?thesis by (metis snd_conv)
    next
      case (Inl pe)
      show ?thesis
      proof (cases pe)
        case (PathError e)
        with t e0 rec Inl final part w show ?thesis by (simp add: Transfer_def)
      next
        case NotExist
        with t e0 rec Inl final part x have "w' = w1 \<or> (\<exists>started. copyStarted d w1 p rec partial started = Some (r, w'))"
          by (auto simp: Transfer_def split: sum.splits if_splits)
        with w1 copyStarted_keeps show ?thesis by blast
      qed
    qed
  qed
qed

end

text \<open>When the paths cannot be formed nothing is called but the journal's lookup.\<close>

lemma Transfer_no_path:
  assumes "partialPath (xp_LocalDir p) (xp_Artifact p) = Inl e" "Transfer d w p = Some (r, w')"
  shows "w' = w"
  using assms by (auto simp: Transfer_def split: option.splits sum.splits)

section \<open>Only a whole copy is recorded\<close>

lemma failing_never_succeeds:
  "fst (recordCopyFailure d w p err detail upd) \<noteq> Inr out" "fst (failCopy d w p err claimed row) \<noteq> Inr out"
  "fst (failCollision d w p fr path) \<noteq> Inr out"
  by (auto simp: recordCopyFailure_def failCopy_def failUnclaimedCopy_def failCollision_def Let_def
      split: sum.splits prod.splits option.splits if_splits)

locale measured =
  fixes d :: "'w TransferDeps" and fileAt :: "'w \<Rightarrow> string \<Rightarrow> string option"
  assumes stat_law: "xd_Stat d w q = Inr n \<Longrightarrow> \<exists>b. fileAt w q = Some b \<and> n = int (length b)"
    and journal_law: "d_Journal (xd_Deps d) = Some ops \<Longrightarrow> jo_RecordTransition ops w t = (jr, w') \<Longrightarrow> fileAt w' = fileAt w"
begin

lemma Advance_files: "Advance (xd_Deps d) w t = (jr, w') \<Longrightarrow> fileAt w' = fileAt w"
  by (auto simp: Advance_def Let_def split: option.splits prod.splits if_splits dest: journal_law)

definition whole :: "TransferParams \<Rightarrow> Record \<Rightarrow> string \<Rightarrow> Outcome \<Rightarrow> 'w \<Rightarrow> bool" where
  "whole p rec partial out w' \<longleftrightarrow>
     (\<exists>b v. fileAt w' partial = Some b \<and>
       (case rf_Size (r_Remote rec) of None \<Rightarrow> True | Some n \<Rightarrow> n = int (length b)) \<and>
       Advance (xd_Deps d) v (transferredTo p (int (length b))) = (Inr out, w'))"

lemma finishTransfer_whole:
  assumes "finishTransfer d w p rec partial n claimed row = (Inr out, w')"
  shows "whole p rec partial out w'"
proof -
  have nf: "failCopy d w p err claimed row \<noteq> (Inr out, w')" for err
    using failing_never_succeeds(2)[of d w p err claimed row out] by auto
  from assms nf obtain m where m: "xd_Stat d w partial = Inr m" "case rf_Size (r_Remote rec) of None \<Rightarrow> True | Some n \<Rightarrow> n = m"
    "Advance (xd_Deps d) w (transferredTo p m) = (Inr out, w')"
    by (cases "xd_Stat d w partial"; cases "rf_Size (r_Remote rec)";
        cases "Advance (xd_Deps d) w (transferredTo p (projr (xd_Stat d w partial)))")
      (auto simp: finishTransfer_def transferredTo_def Let_def mapErr_Inr_iff split: if_splits)
  obtain b where b: "fileAt w partial = Some b" "m = int (length b)" using stat_law[OF m(1)] by blast
  with m Advance_files[OF m(3)] show ?thesis unfolding whole_def by auto
qed

lemma copyStarted_whole:
  assumes "copyStarted d w p rec partial started = Some (Inr out, w')"
  shows "whole p rec partial out w'"
proof -
  obtain gone w2 where g: "xd_Remove d w partial = (gone, w2)" by (meson surj_pair)
  have nf: "failCopy d v p err c row \<noteq> (Inr out, w')" for v err c row
    using failing_never_succeeds(2)[of d v p err c row out] by (metis fst_conv)
  from assms g nf obtain v n where
    "finishTransfer d v p rec partial n (o_Applied started \<and> r_State rec \<noteq> Transferring) (o_Record started) = (Inr out, w')"
    by (cases "xd_Transport d") (auto simp: copyStarted_def Let_def split: option.splits sum.splits pathError.splits if_splits)
  then show ?thesis using finishTransfer_whole by metis
qed

lemma Transfer_whole:
  assumes t: "Transfer d w p = Some (Inr out, w')" and part: "partialPath (xp_LocalDir p) (xp_Artifact p) = Inr partial"
    and rec: "journalGet d w (xp_Artifact p) = Inr rec"
  shows "whole p rec partial out w'"
proof -
  obtain final where final: "finalPath (xp_LocalDir p) (xp_Artifact p) = Inr final"
    using part by (auto simp: partialPath_def bindE_Inr_iff)
  have nf: "failCollision d w p fr path \<noteq> (Inr out, w')" for fr path
    using failing_never_succeeds(3)[of d w p fr path out] by (metis fst_conv)
  from t rec final part nf obtain v started where "copyStarted d v p rec partial started = Some (Inr out, w')"
    by (auto simp: Transfer_def split: option.splits sum.splits prod.splits pathError.splits if_splits)
  then show ?thesis by (rule copyStarted_whole)
qed

end

end
