(* ===== verification/VerifyProps.thy ===== *)
theory VerifyProps
  imports VerifyStep TransferProps
begin

text \<open>
  What \<open>Verify\<close> keeps, that it returns, and what stands behind its verdicts.
\<close>

section \<open>It returns\<close>

lemma hashLayer_returns:
  assumes "xd_Transport (vd_Common d) \<noteq> None"
  shows "\<exists>f w'. hashLayer d w s rec cfg hashes = Some (f, w')"
proof -
  obtain tr where tr: "xd_Transport (vd_Common d) = Some tr" using assms by blast
  obtain r w' where "remoteHashWithRetry d tr w s (r_RemotePath rec) = Some (r, w')"
    using retryFrom_returns[of remoteHashMaxAttempts 1 "retryEnv (vd_Common d)"
        "\<lambda>v. ct_RemoteHash tr v s (r_RemotePath rec)" w]
    unfolding remoteHashWithRetry_def retryDo_def remoteHashMaxAttempts_def by force
  with tr show ?thesis by (simp add: hashLayer_def)
qed

lemma decide_returns:
  assumes "xd_Transport (vd_Common d) \<noteq> None"
  shows "\<exists>r w'. decide d w s rec cfg = Some (r, w')"
proof -
  have h: "hashLayer d w s rec cfg hashes \<noteq> None" for hashes
    using hashLayer_returns[OF assms, of w s rec cfg hashes] by (metis option.distinct(1))
  have "decide d w s rec cfg \<noteq> None"
    unfolding decide_def Let_def by (simp add: h split: sum.split option.split)
  then show ?thesis by (metis option.exhaust surj_pair)
qed

lemma Verify_returns: "\<exists>r w'. Verify d w p = Some (r, w')"
proof (cases "verifyRefusal d w p")
  case None
  then have "xd_Transport (vd_Common d) \<noteq> None" by (auto simp: verifyRefusal_def split: if_splits)
  note dr = decide_returns[OF this]
  show ?thesis
  proof (cases "journalGet (vd_Common d) w (vp_Artifact p)")
    case (Inl e)
    with None show ?thesis by (simp add: Verify_def)
  next
    case (Inr rec)
    obtain x w1 where "decide d w (vp_Source p) rec (vp_Validation p) = Some (x, w1)"
      using dr[of w "vp_Source p" rec "vp_Validation p"] by blast
    with None Inr have "Verify d w p \<noteq> None" by (simp add: Verify_def split: decision.split)
    then show ?thesis by (metis option.exhaust surj_pair)
  qed
qed (simp add: Verify_def)

section \<open>What every collaborator keeps, a verification keeps\<close>

locale verifying =
  fixes d :: "'w VerifyDeps" and P :: "'w \<Rightarrow> bool"
  assumes record_law: "d_Journal (xd_Deps (vd_Common d)) = Some ops \<Longrightarrow> P w \<Longrightarrow> jo_RecordTransition ops w t = (jr, w') \<Longrightarrow> P w'"
    and hash_law: "xd_Transport (vd_Common d) = Some tr \<Longrightarrow> P w \<Longrightarrow> ct_RemoteHash tr w s r = (hr, w') \<Longrightarrow> P w'"
    and wait_law: "P w \<Longrightarrow> xd_Wait (vd_Common d) w = (b, w') \<Longrightarrow> P w'"
    and run_law: "P w \<Longrightarrow> vd_Run d w cmd q = (vr, w') \<Longrightarrow> P w'"
begin

lemma Advance_keeps: "P w \<Longrightarrow> Advance (xd_Deps (vd_Common d)) w t = (jr, w') \<Longrightarrow> P w'"
  by (auto simp: Advance_def Let_def split: option.splits prod.splits if_splits dest: record_law)

lemma Advance_keeps_snd: "P w \<Longrightarrow> P (snd (Advance (xd_Deps (vd_Common d)) w t))"
  using Advance_keeps by (metis prod.collapse)

lemma recordStall_keeps: "P w \<Longrightarrow> P (snd (recordStall d w p rec cause))"
  by (auto simp: recordStall_def Let_def split: sum.split prod.split dest: Advance_keeps intro: Advance_keeps_snd)

lemma remoteHash_keeps:
  assumes tr: "xd_Transport (vd_Common d) = Some tr" and w: "P w" and r: "remoteHashWithRetry d tr w s q = Some (r, w')"
  shows "P w' \<and> (\<forall>h. r = Inr h \<longrightarrow> (\<exists>v. P v \<and> ct_RemoteHash tr v s q = (Inr h, w')))"
proof -
  have 1: "P (snd (ct_RemoteHash tr v s q))" if "P v" for v using hash_law[OF tr that] by (metis prod.collapse)
  have 2: "P (snd (re_Wait (retryEnv (vd_Common d)) v))" if "P v" for v
    using wait_law[OF that] unfolding retryEnv_def by (metis prod.collapse RetryEnv.select_convs(2))
  show ?thesis
    by (rule retryFrom_keeps[where P = P, OF 1 2 w r[unfolded remoteHashWithRetry_def retryDo_def]])
qed

lemma hashLayer_keeps: "P w \<Longrightarrow> hashLayer d w s rec cfg hashes = Some (f, w') \<Longrightarrow> P w'"
  by (auto simp: hashLayer_def split: if_splits option.splits dest: remoteHash_keeps)

lemma runValidator_keeps: "P w \<Longrightarrow> runValidator d w cmd q = (r, w') \<Longrightarrow> P w'"
  by (auto simp: runValidator_def Let_def split: if_splits option.splits prod.splits runError.splits dest: run_law)

lemma validatorLayer_keeps: "P w \<Longrightarrow> validatorLayer d w rec cfg hashes = (r, w') \<Longrightarrow> P w'"
  by (auto simp: validatorLayer_def Let_def split: if_splits sum.splits option.splits prod.splits dest: runValidator_keeps)

lemma decide_keeps: "P w \<Longrightarrow> decide d w s rec cfg = Some (r, w') \<Longrightarrow> P w'"
  by (auto simp: decide_def Let_def split: if_splits sum.splits option.splits)
    (metis hashLayer_keeps validatorLayer_keeps)+

lemma Verify_keeps:
  assumes w: "P w" and v: "Verify d w p = Some (r, w')"
  shows "P w'"
proof (cases "verifyRefusal d w p")
  case (Some err)
  with v w show ?thesis by (simp add: Verify_def)
next
  case n: None
  show ?thesis
  proof (cases "journalGet (vd_Common d) w (vp_Artifact p)")
    case (Inl err)
    with v w n show ?thesis by (simp add: Verify_def)
  next
    case (Inr rec)
    show ?thesis
    proof (cases "decide d w (vp_Source p) rec (vp_Validation p)")
      case None
      with v n Inr show ?thesis by (simp add: Verify_def)
    next
      case (Some dw)
      obtain x w1 where x: "dw = (x, w1)" by (meson surj_pair)
      have 1: "P w1" using decide_keeps[OF w] Some x by blast
      from v n Inr Some x 1 recordStall_keeps[OF 1] Advance_keeps_snd[OF 1] show ?thesis
        by (cases x) (auto simp: Verify_def map_prod_def split: prod.splits; metis snd_conv)+
    qed
  qed
qed

end

section \<open>What stands behind a verdict\<close>

text \<open>The copy is whole, its digest is the one recorded, the remote's hash is that digest where the policy
  asks for it, and the validator, where there is one, ended without an error; the world was still a \<open>P\<close> one
  when either was called.\<close>

definition passed :: "'w VerifyDeps \<Rightarrow> ('w \<Rightarrow> bool) \<Rightarrow> 'w \<Rightarrow> string \<Rightarrow> Record \<Rightarrow> Validation \<Rightarrow> verifyOutcome \<Rightarrow> bool" where
  "passed d P w s rec cfg v \<longleftrightarrow>
     (\<exists>content. vd_ReadLocal d w (r_LocalPath rec) = Inr content \<and> expectedSize rec = Some (int (length content)) \<and>
        vo_Hashes v = Some \<lparr>hu_Hash = vd_Digest d content, hu_Alg = SHA256Alg\<rparr> \<and>
        (va_Hash cfg = [] \<or> va_Hash cfg = SHA256Alg \<and>
           (\<exists>tr v0 v1 h. xd_Transport (vd_Common d) = Some tr \<and> P v0 \<and> ct_RemoteHash tr v0 s (r_RemotePath rec) = (Inr h, v1) \<and>
              h \<noteq> [] \<and> equalFold (vd_Fold d) h (vd_Digest d content))) \<and>
        (case va_Command cfg of
           None \<Rightarrow> va_ValidatorID cfg = []
         | Some cmd \<Rightarrow> \<exists>v0 run v1. P v0 \<and> vd_Run d v0 cmd (r_LocalPath rec) = (run, v1) \<and> vr_Error run = None))"

lemma checkRemoteHash_None:
  "checkRemoteHash d hashes answer = None \<longleftrightarrow> (\<exists>h. answer = Inr h \<and> h \<noteq> [] \<and> equalFold (vd_Fold d) h (hu_Hash hashes))"
  by (auto simp: checkRemoteHash_def split: sum.splits if_splits)

lemma checkRemoteHash_Verified:
  "checkRemoteHash d hashes answer = Some (Verdict v) \<Longrightarrow> vo_To v \<noteq> Verified"
  by (auto simp: checkRemoteHash_def failedWith_def split: sum.splits if_splits)

lemma hashLayer_forced: "hashLayer d w s rec cfg hashes = Some (Some (Verdict v), w') \<Longrightarrow> vo_To v \<noteq> Verified"
  by (auto simp: hashLayer_def failedWith_def split: if_splits option.splits dest: checkRemoteHash_Verified)

context verifying begin

lemma hashLayer_passed:
  assumes w: "P w" and "hashLayer d w s rec cfg hashes = Some (None, w')"
  shows "va_Hash cfg = [] \<or> va_Hash cfg = SHA256Alg \<and>
     (\<exists>tr v0 v1 h. xd_Transport (vd_Common d) = Some tr \<and> P v0 \<and> ct_RemoteHash tr v0 s (r_RemotePath rec) = (Inr h, v1) \<and>
        h \<noteq> [] \<and> equalFold (vd_Fold d) h (hu_Hash hashes))"
proof (cases "va_Hash cfg = []")
  case False
  with assms(2) obtain tr h where h: "va_Hash cfg = SHA256Alg" "xd_Transport (vd_Common d) = Some tr"
    "remoteHashWithRetry d tr w s (r_RemotePath rec) = Some (Inr h, w')" "h \<noteq> []" "equalFold (vd_Fold d) h (hu_Hash hashes)"
    by (auto simp: hashLayer_def checkRemoteHash_None split: if_splits option.splits)
  from remoteHash_keeps[OF h(2) w h(3)] obtain v where "P v" "ct_RemoteHash tr v s (r_RemotePath rec) = (Inr h, w')" by blast
  with h show ?thesis by blast
qed simp

lemma validatorLayer_Verified:
  assumes w: "P w" and "validatorLayer d w rec cfg hashes = (Verdict v, w')" "vo_To v = Verified"
  shows "vo_Hashes v = Some hashes \<and>
    (case va_Command cfg of None \<Rightarrow> va_ValidatorID cfg = []
     | Some cmd \<Rightarrow> \<exists>v0 run v1. P v0 \<and> vd_Run d v0 cmd (r_LocalPath rec) = (run, v1) \<and> vr_Error run = None)"
proof (cases "va_Command cfg")
  case None
  with assms show ?thesis
    by (auto simp: validatorLayer_def ResolvedCommand_def failedWith_def Let_def split: if_splits)
next
  case (Some cmd)
  obtain r w1 where r: "runValidator d w cmd (r_LocalPath rec) = (r, w1)" by (meson surj_pair)
  with assms Some obtain detail where "r = Inr (True, detail)" and h: "vo_Hashes v = Some hashes"
    by (cases r) (auto simp: validatorLayer_def ResolvedCommand_def failedWith_def Let_def split: if_splits)
  with r have "\<exists>run v1. vd_Run d w cmd (r_LocalPath rec) = (run, v1) \<and> vr_Error run = None"
    by (auto simp: runValidator_def Let_def split: if_splits prod.splits option.splits runError.splits)
  with h Some w show ?thesis by auto
qed

lemma decide_Verified:
  assumes w: "P w" and "decide d w s rec cfg = Some (Verdict v, w')" "vo_To v = Verified"
  shows "passed d P w s rec cfg v"
proof -
  obtain content where c: "vd_ReadLocal d w (r_LocalPath rec) = Inr content"
    using assms by (cases "vd_ReadLocal d w (r_LocalPath rec)") (auto simp: decide_def failedWith_def)
  with assms have e: "expectedSize rec = Some (int (length content))"
    by (auto simp: decide_def failedWith_def split: option.splits if_splits)
  let ?h = "\<lparr>hu_Hash = vd_Digest d content, hu_Alg = SHA256Alg\<rparr>"
  from assms c e obtain w1 where w1: "hashLayer d w s rec cfg ?h = Some (None, w1)"
    "validatorLayer d w1 rec cfg ?h = (Verdict v, w')"
    by (auto simp: decide_def Let_def split: option.splits dest: hashLayer_forced)
  from hashLayer_passed[OF w w1(1)] validatorLayer_Verified[OF hashLayer_keeps[OF w w1(1)] w1(2) assms(3)] c e show ?thesis
    unfolding passed_def by simp
qed

end

lemma Verify_Inr:
  assumes "Verify d w p = Some (Inr out, w')"
  obtains rec w1 v where "journalGet (vd_Common d) w (vp_Artifact p) = Inr rec"
      "decide d w (vp_Source p) rec (vp_Validation p) = Some (Verdict v, w1)"
      "Advance (xd_Deps (vd_Common d)) w1 (verdictTransition d p rec v) = (Inr out, w')"
  | rec w1 cause t where "journalGet (vd_Common d) w (vp_Artifact p) = Inr rec"
      "decide d w (vp_Source p) rec (vp_Validation p) = Some (UnfinishedCheck cause, w1)"
      "vp_StallBudget p \<le> r_RetryCount rec + 1" "t_To t = Quarantined" "t_Artifact t = r_Artifact rec" "t_From t = r_State rec"
      "Advance (xd_Deps (vd_Common d)) w1 t = (Inr out, w')"
proof -
  have n: "verifyRefusal d w p = None" using assms by (cases "verifyRefusal d w p") (simp_all add: Verify_def)
  obtain rec where rec: "journalGet (vd_Common d) w (vp_Artifact p) = Inr rec"
    using assms n by (cases "journalGet (vd_Common d) w (vp_Artifact p)") (simp_all add: Verify_def)
  obtain x w1 where x: "decide d w (vp_Source p) rec (vp_Validation p) = Some (x, w1)"
    using assms n rec by (cases "decide d w (vp_Source p) rec (vp_Validation p)") (auto simp: Verify_def)
  show thesis
  proof (cases x)
    case (Verdict v)
    with assms n rec x have "Advance (xd_Deps (vd_Common d)) w1 (verdictTransition d p rec v) = (Inr out, w')"
      by (cases "Advance (xd_Deps (vd_Common d)) w1 (verdictTransition d p rec v)")
        (auto simp: Verify_def mapErr_Inr_iff)
    with that(1) rec x Verdict show thesis by blast
  next
    case (UnfinishedCheck cause)
    with assms n rec x have s: "recordStall d w1 p rec cause = (Inr out, w')" by (simp add: Verify_def)
    show thesis
    proof (cases "vp_StallBudget p \<le> r_RetryCount rec + 1")
      case True
      from s True obtain t where "Advance (xd_Deps (vd_Common d)) w1 t = (Inr out, w')"
        "t_To t = Quarantined" "t_Artifact t = r_Artifact rec" "t_From t = r_State rec"
        by (fastforce simp: recordStall_def Let_def map_prod_def emptyTransition_def mapErr_Inr_iff split: prod.splits)
      with that(2) rec x UnfinishedCheck True show thesis by blast
    next
      case False
      with s show thesis by (auto simp: recordStall_def Let_def split: sum.splits prod.splits)
    qed
  next
    case (Halted e)
    with assms n rec x show thesis by (simp add: Verify_def)
  qed
qed

end
