(* ===== verification/Capacity.thy ===== *)
theory Capacity
  imports JournalQueries "HOL-Library.Word"
begin

text \<open>
  The guard against filling the disk (\<open>core/internal/capacity/capacity.go\<close>, \<open>statfs_unix.go\<close>) and the usage a
  configured cap is held against (\<open>app/usage.go\<close>; the sum itself is in \<open>JournalQueries\<close>).  A \<open>uint64\<close> is a
  \<^typ>\<open>64 word\<close>, whose addition and subtraction wrap; an \<open>int64\<close> is an integer within its bounds.
  \<open>statfs\<close> is an argument.
\<close>

section \<open>Assessing\<close>

record Stat =
  sf_TotalBytes :: "64 word"
  sf_FreeBytes :: "64 word"
  sf_AvailableBytes :: "64 word"

record Thresholds =
  th_CapBytes :: "64 word"
  th_WarningFreeBytes :: "64 word"
  th_CriticalFreeBytes :: "64 word"
  th_SafetyMarginBytes :: "64 word"

record Usage =
  us_Bytes :: "64 word"
  us_Known :: bool

record Statfs =
  fs_Bsize :: int
  fs_Blocks :: "64 word"
  fs_Bfree :: "64 word"
  fs_Bavail :: "64 word"

datatype Constraint = ConstraintDisk | ConstraintCap
datatype Level = LevelOK | LevelWarning | LevelCritical

fun constraintString :: "Constraint \<Rightarrow> string" where
  "constraintString ConstraintDisk = ''disk''"
| "constraintString ConstraintCap = ''cap''"

fun levelString :: "Level \<Rightarrow> string" where
  "levelString LevelOK = ''OK''"
| "levelString LevelWarning = ''WARNING''"
| "levelString LevelCritical = ''CRITICAL''"

record Assessment =
  as_Stat :: Stat
  as_Usage :: Usage
  as_ArtifactSizeBytes :: int
  as_Thresholds :: Thresholds
  as_CapConfigured :: bool
  as_CapHeadroomBytes :: "64 word"
  as_HeadroomBytes :: "64 word"
  as_Binding :: Constraint
  as_LimitBytes :: "64 word"
  as_UsedBytes :: "64 word"
  as_RequiredBytes :: "64 word"
  as_Fits :: bool
  as_ProjectedHeadroomBytes :: "64 word"
  as_ShortfallBytes :: "64 word"
  as_Level :: Level

datatype capacityError =
    NegativeArtifactSize int
  | ThresholdsInvalid Thresholds
  | UsageUnknown "64 word"
  | RequiredOverflows int "64 word"
  | InsufficientCapacity Assessment
  | CapacityUnread string string

definition validateThresholds :: "Thresholds \<Rightarrow> capacityError option" where
  "validateThresholds t =
     (if th_WarningFreeBytes t < th_CriticalFreeBytes t then Some (ThresholdsInvalid t) else None)"

definition saturatingSub :: "64 word \<Rightarrow> 64 word \<Rightarrow> 64 word" where
  "saturatingSub a b = (if b \<ge> a then 0 else a - b)"

text \<open>The assessment before it is known whether the artifact fits.\<close>

definition unassessed :: "Stat \<Rightarrow> Usage \<Rightarrow> int \<Rightarrow> Thresholds \<Rightarrow> Assessment" where
  "unassessed stat usage n th =
     \<lparr>as_Stat = stat, as_Usage = usage, as_ArtifactSizeBytes = n, as_Thresholds = th,
      as_CapConfigured = (th_CapBytes th > 0), as_CapHeadroomBytes = 0, as_HeadroomBytes = sf_AvailableBytes stat,
      as_Binding = ConstraintDisk, as_LimitBytes = sf_TotalBytes stat,
      as_UsedBytes = saturatingSub (sf_TotalBytes stat) (sf_FreeBytes stat),
      as_RequiredBytes = word_of_int n + th_SafetyMarginBytes th, as_Fits = False,
      as_ProjectedHeadroomBytes = 0, as_ShortfallBytes = 0, as_Level = LevelOK\<rparr>"

definition underCap :: "Assessment \<Rightarrow> Assessment" where
  "underCap a =
     (if \<not> as_CapConfigured a then a
      else
        let allowance = saturatingSub (th_CapBytes (as_Thresholds a)) (us_Bytes (as_Usage a));
            a1 = a\<lparr>as_CapHeadroomBytes := allowance, as_LimitBytes := th_CapBytes (as_Thresholds a),
                   as_UsedBytes := us_Bytes (as_Usage a)\<rparr> in
        if allowance < as_HeadroomBytes a then a1\<lparr>as_HeadroomBytes := allowance, as_Binding := ConstraintCap\<rparr> else a1)"

definition levelled :: "Assessment \<Rightarrow> Assessment" where
  "levelled a =
     (let headroom = as_HeadroomBytes a; required = as_RequiredBytes a; th = as_Thresholds a in
      if headroom \<ge> required then
        a\<lparr>as_Fits := True, as_ProjectedHeadroomBytes := headroom - required,
          as_Level := (if headroom - required \<le> th_CriticalFreeBytes th then LevelCritical
                       else if headroom - required \<le> th_WarningFreeBytes th then LevelWarning else LevelOK)\<rparr>
      else a\<lparr>as_Fits := False, as_ShortfallBytes := required - headroom, as_Level := LevelCritical\<rparr>)"

definition Assess :: "Stat \<Rightarrow> Usage \<Rightarrow> int \<Rightarrow> Thresholds \<Rightarrow> capacityError + Assessment" where
  "Assess stat usage artifactSizeBytes th =
     (if artifactSizeBytes < 0 then Inl (NegativeArtifactSize artifactSizeBytes)
      else case validateThresholds th of Some e \<Rightarrow> Inl e
      | None \<Rightarrow>
        if th_CapBytes th > 0 \<and> \<not> us_Known usage then Inl (UsageUnknown (th_CapBytes th))
        else
          let n = word_of_int artifactSizeBytes :: 64 word; required = n + th_SafetyMarginBytes th in
          if required < n then Inl (RequiredOverflows artifactSizeBytes (th_SafetyMarginBytes th))
          else Inr (levelled (underCap (unassessed stat usage artifactSizeBytes th))))"

definition AssessCurrent :: "Stat \<Rightarrow> Usage \<Rightarrow> Thresholds \<Rightarrow> capacityError + Assessment" where
  "AssessCurrent stat usage th = Assess stat usage 0 th"

text \<open>A refusal comes back with its assessment.\<close>

definition Admit :: "Stat \<Rightarrow> Usage \<Rightarrow> int \<Rightarrow> Thresholds \<Rightarrow> capacityError + Assessment" where
  "Admit stat usage artifactSizeBytes th =
     bindE (Assess stat usage artifactSizeBytes th) (\<lambda>a.
       if as_Level a = LevelCritical then Inl (InsufficientCapacity a) else Inr a)"

text \<open>The products wrap, as the source's do.\<close>

definition StatPath :: "(string \<Rightarrow> string + Statfs) \<Rightarrow> string \<Rightarrow> string + Stat" where
  "StatPath statfs path =
     bindE (statfs path) (\<lambda>st.
       let blockSize = word_of_int (fs_Bsize st) in
       Inr \<lparr>sf_TotalBytes = blockSize * fs_Blocks st, sf_FreeBytes = blockSize * fs_Bfree st,
            sf_AvailableBytes = blockSize * fs_Bavail st\<rparr>)"

definition CheckBeforeTransfer ::
  "(string \<Rightarrow> string + Statfs) \<Rightarrow> string \<Rightarrow> Usage \<Rightarrow> int \<Rightarrow> Thresholds \<Rightarrow> capacityError + Assessment" where
  "CheckBeforeTransfer statfs localDir usage artifactSizeBytes th =
     (case StatPath statfs localDir of
        Inl e \<Rightarrow> Inl (CapacityUnread localDir e)
      | Inr stat \<Rightarrow> Admit stat usage artifactSizeBytes th)"

section \<open>The bytes in use\<close>

definition maxInt64 :: int where "maxInt64 = 2 ^ 63 - 1"

definition LocalUsage :: "(State list \<Rightarrow> journalError + int) \<Rightarrow> journalError + Usage" where
  "LocalUsage localBytesInUse =
     bindE (localBytesInUse StatesHoldingLocalCopy) (\<lambda>n. Inr \<lparr>us_Bytes = word_of_int n, us_Known = True\<rparr>)"

section \<open>What the guard decides\<close>

text \<open>The room there is, over the unbounded naturals.\<close>

definition roomFor :: "Stat \<Rightarrow> Usage \<Rightarrow> Thresholds \<Rightarrow> nat" where
  "roomFor stat usage th =
     (if th_CapBytes th = 0 then unat (sf_AvailableBytes stat)
      else min (unat (sf_AvailableBytes stat)) (unat (th_CapBytes th) - unat (us_Bytes usage)))"

lemma unat_saturatingSub: "unat (saturatingSub a b) = unat a - unat b"
  by (auto simp: saturatingSub_def word_le_nat_alt unat_sub)

lemma add_no_overflow:
  fixes a b :: "64 word"
  assumes "\<not> a + b < a"
  shows "unat (a + b) = unat a + unat b"
  using assms by (metis no_olen_add_nat not_less unat_add_lem word_le_nat_alt)

lemma as_underCap [simp]:
  "as_RequiredBytes (underCap a) = as_RequiredBytes a" "as_Thresholds (underCap a) = as_Thresholds a"
  by (simp_all add: underCap_def Let_def)

lemma headroom_is_room:
  "unat (as_HeadroomBytes (underCap (unassessed stat usage n th))) = roomFor stat usage th"
  by (auto simp: underCap_def unassessed_def roomFor_def Let_def unat_saturatingSub word_less_nat_alt unat_eq_zero)

lemma level_critical_iff:
  "as_Level (levelled a) = LevelCritical \<longleftrightarrow>
     unat (as_HeadroomBytes a) \<le> unat (as_RequiredBytes a) + unat (th_CriticalFreeBytes (as_Thresholds a))"
proof (cases "as_HeadroomBytes a \<ge> as_RequiredBytes a")
  case True
  then have "unat (as_HeadroomBytes a - as_RequiredBytes a) = unat (as_HeadroomBytes a) - unat (as_RequiredBytes a)"
    by (rule unat_sub)
  with True show ?thesis by (auto simp: levelled_def Let_def word_le_nat_alt)
next
  case False
  then show ?thesis by (auto simp: levelled_def Let_def word_le_nat_alt)
qed

lemma unat_size: "0 \<le> n \<Longrightarrow> n \<le> maxInt64 \<Longrightarrow> unat (word_of_int n :: 64 word) = nat n"
  by (simp add: maxInt64_def unat_eq_nat_uint uint_word_of_int)

text \<open>C16: the guard admits an artifact exactly when, in unbounded arithmetic, its size, the safety
  margin and the critical reserve are together less than the room there is, which with a cap configured is the
  smaller of the filesystem's available bytes and what the cap leaves of the measured usage; so no sum or difference of
  64-bit byte counts ever turns a refusal into an admission.\<close>

theorem admit_iff:
  assumes "0 \<le> n" "n \<le> maxInt64"
  shows "isOk (Admit stat usage n th) \<longleftrightarrow>
    unat (th_CriticalFreeBytes th) \<le> unat (th_WarningFreeBytes th) \<and> (th_CapBytes th = 0 \<or> us_Known usage) \<and>
    nat n + unat (th_SafetyMarginBytes th) + unat (th_CriticalFreeBytes th) < roomFor stat usage th"
proof (cases "(word_of_int n :: 64 word) + th_SafetyMarginBytes th < word_of_int n")
  case True
  have "\<not> nat n + unat (th_SafetyMarginBytes th) < 2 ^ 64"
    using True unat_size[OF assms] no_olen_add_nat[of "word_of_int n :: 64 word" "th_SafetyMarginBytes th"] by auto
  moreover have "roomFor stat usage th < 2 ^ 64"
    using unsigned_less[of "sf_AvailableBytes stat"] by (auto simp: roomFor_def min_less_iff_disj)
  ultimately show ?thesis using True by (auto simp: Admit_def Assess_def Let_def bindE_def split: option.split)
next
  case False
  let ?a = "underCap (unassessed stat usage n th)"
  have r: "unat (as_RequiredBytes ?a) = nat n + unat (th_SafetyMarginBytes th)" "as_Thresholds ?a = th"
    using add_no_overflow[OF False] unat_size[OF assms] by (simp_all add: unassessed_def)
  have "isOk (Admit stat usage n th) \<longleftrightarrow>
      validateThresholds th = None \<and> (th_CapBytes th = 0 \<or> us_Known usage) \<and> as_Level (levelled ?a) \<noteq> LevelCritical"
    using False assms(1) by (auto simp: Admit_def Assess_def Let_def bindE_def word_gt_0 split: option.split)
  moreover have "validateThresholds th = None \<longleftrightarrow> unat (th_CriticalFreeBytes th) \<le> unat (th_WarningFreeBytes th)"
    by (auto simp: validateThresholds_def word_less_nat_alt)
  ultimately show ?thesis unfolding level_critical_iff headroom_is_room r by auto
qed

definition capExample :: Thresholds where
  "capExample = \<lparr>th_CapBytes = 1000, th_WarningFreeBytes = 100, th_CriticalFreeBytes = 50, th_SafetyMarginBytes = 10\<rparr>"

theorem admit_iff_witness:
  "isOk (Admit \<lparr>sf_TotalBytes = 5000, sf_FreeBytes = 4000, sf_AvailableBytes = 3000\<rparr> \<lparr>us_Bytes = 700, us_Known = True\<rparr> 239 capExample) \<and>
   \<not> isOk (Admit \<lparr>sf_TotalBytes = 5000, sf_FreeBytes = 4000, sf_AvailableBytes = 3000\<rparr> \<lparr>us_Bytes = 700, us_Known = True\<rparr> 240 capExample)"
  using admit_iff[of 239 "\<lparr>sf_TotalBytes = 5000, sf_FreeBytes = 4000, sf_AvailableBytes = 3000\<rparr>" "\<lparr>us_Bytes = 700, us_Known = True\<rparr>" capExample]
    admit_iff[of 240 "\<lparr>sf_TotalBytes = 5000, sf_FreeBytes = 4000, sf_AvailableBytes = 3000\<rparr>" "\<lparr>us_Bytes = 700, us_Known = True\<rparr>" capExample]
  by (simp add: capExample_def roomFor_def maxInt64_def)

end
