(* ===== verification/Pipeline.thy ===== *)
theory Pipeline
  imports VerifyProps Capacity RemoteDeleteProps
begin

text \<open>
  One artifact driven through the lifecycle (\<open>core/internal/app/pipeline.go\<close>): the capacity guard,
  \<open>Transfer\<close>, the move to VERIFYING, \<open>Verify\<close>, \<open>Commit\<close>, and then the end of the source's life, \<open>DeleteRemote\<close>
  or \<open>RetainRemote\<close>.  The context is looked at before every step.  Logging and the live progress are not modelled.
\<close>

section \<open>The service\<close>

text \<open>The journal, the transport and the clock are the same for every step.\<close>

record 'w Service =
  sv_Verify :: "'w VerifyDeps"
  sv_FS :: "'w CommitFS"
  sv_Delete :: "'w RemoteDeps"
  sv_MaxAttempts :: int
  sv_Capacity :: Thresholds
  sv_Statfs :: "'w \<Rightarrow> string \<Rightarrow> string + Statfs"
  sv_MkdirAll :: "'w \<Rightarrow> string \<Rightarrow> string option \<times> 'w"
  sv_LocalBytesInUse :: "'w \<Rightarrow> State list \<Rightarrow> journalError + int"

record BackupSet =
  bk_LocalPath :: string
  bk_Validation :: Validation
  bk_Strategy :: string
  bk_DeleteSafetyDelay :: int
  bk_ReadOnly :: bool

definition svTransfer :: "'w Service \<Rightarrow> 'w TransferDeps" where "svTransfer sv = vd_Common (sv_Verify sv)"

definition lifecycleDeps :: "'w Service \<Rightarrow> 'w Deps" where "lifecycleDeps sv = xd_Deps (svTransfer sv)"

definition cancelled :: "'w Service \<Rightarrow> 'w \<Rightarrow> bool" where "cancelled sv w = d_Cancelled (lifecycleDeps sv) w"

definition attemptKey :: "Record \<Rightarrow> string" where
  "attemptKey rec = ''app:'' @ artifactString (r_Artifact rec) @ '':attempt-'' @ itoa (r_RetryCount rec)"

section \<open>The steps\<close>

definition admitCapacity :: "'w Service \<Rightarrow> 'w \<Rightarrow> BackupSet \<Rightarrow> Record \<Rightarrow> bool \<times> 'w" where
  "admitCapacity sv w bs rec =
     (case sv_MkdirAll sv w (bk_LocalPath bs) of
        (Some _, w1) \<Rightarrow> (False, w1)
      | (None, w1) \<Rightarrow>
        let n = (case rf_Size (r_Remote rec) of Some n \<Rightarrow> n | None \<Rightarrow> 0) in
        (case LocalUsage (sv_LocalBytesInUse sv w1) of
           Inl _ \<Rightarrow> (False, w1)
         | Inr usage \<Rightarrow> (isOk (CheckBeforeTransfer (sv_Statfs sv w1) (bk_LocalPath bs) usage n (sv_Capacity sv)), w1)))"

definition transferOne ::
  "'w Service \<Rightarrow> 'w \<Rightarrow> string \<Rightarrow> BackupSet \<Rightarrow> Record \<Rightarrow> string \<Rightarrow> ((transferError + Outcome) \<times> 'w) option" where
  "transferOne sv w source bs rec base =
     Transfer (svTransfer sv) w
       \<lparr>xp_Artifact = r_Artifact rec, xp_Source = source, xp_LocalDir = bk_LocalPath bs,
        xp_AttemptKey = base @ '':transfer'', xp_MaxAttempts = sv_MaxAttempts sv\<rparr>"

definition verifyOne ::
  "'w Service \<Rightarrow> 'w \<Rightarrow> string \<Rightarrow> BackupSet \<Rightarrow> Record \<Rightarrow> string \<Rightarrow> ((verifyError + Outcome) \<times> 'w) option" where
  "verifyOne sv w source bs rec base =
     Verify (sv_Verify sv) w
       \<lparr>vp_Artifact = r_Artifact rec, vp_Source = source, vp_Validation = bk_Validation bs,
        vp_AttemptKey = base @ '':verify'', vp_StallBudget = sv_MaxAttempts sv\<rparr>"

definition commitOne :: "'w Service \<Rightarrow> 'w \<Rightarrow> BackupSet \<Rightarrow> Record \<Rightarrow> string \<Rightarrow> (commitError + Outcome) \<times> 'w" where
  "commitOne sv w bs rec base =
     Commit (lifecycleDeps sv) (sv_FS sv) w
       \<lparr>ci_Artifact = r_Artifact rec, ci_LocalDir = bk_LocalPath bs,
        ci_CommittingKey = base @ '':committing'', ci_CommittedKey = base @ '':committed''\<rparr>"

definition deleteRemoteOne ::
  "'w Service \<Rightarrow> 'w \<Rightarrow> string \<Rightarrow> BackupSet \<Rightarrow> Record \<Rightarrow> string \<Rightarrow> 'w deleteResult" where
  "deleteRemoteOne sv w source bs rec base =
     DeleteRemote ((sv_Delete sv)\<lparr>rd_Deps := lifecycleDeps sv\<rparr>) w
       \<lparr>dq_Source = source, dq_Artifact = r_Artifact rec, dq_AttemptKey = base @ '':delete'',
        dq_CompletionStrategy = bk_Strategy bs, dq_DeleteSafetyDelay = bk_DeleteSafetyDelay bs\<rparr>"

definition retainRemoteOne :: "'w Service \<Rightarrow> 'w \<Rightarrow> Record \<Rightarrow> string \<Rightarrow> 'w stepResult" where
  "retainRemoteOne sv w rec base =
     RetainRemote (lifecycleDeps sv) w \<lparr>rq_Artifact = r_Artifact rec, rq_AttemptKey = base @ '':retain''\<rparr>"

section \<open>The walk\<close>

text \<open>The row as last observed, and whether the walk goes on with it; \<open>None\<close> is a step that never returns.\<close>

datatype walked = Goes Record | Stops Record

fun observed :: "walked \<Rightarrow> Record" where
  "observed (Goes rec) = rec"
| "observed (Stops rec) = rec"

type_synonym 'w walkResult = "(walked \<times> 'w) option"

definition afterStep :: "Record \<Rightarrow> ('e + Outcome) \<times> 'w \<Rightarrow> walked \<times> 'w" where
  "afterStep rec r = (case r of (Inl _, w) \<Rightarrow> (Stops rec, w) | (Inr out, w) \<Rightarrow> (Goes (o_Record out), w))"

definition inStates :: "State list \<Rightarrow> 'w Service \<Rightarrow> 'w \<Rightarrow> Record \<Rightarrow> 'w walkResult \<Rightarrow> 'w walkResult" where
  "inStates states sv w rec act =
     (if \<not> List.member states (r_State rec) then Some (Goes rec, w)
      else if cancelled sv w then Some (Stops rec, w) else act)"

definition thenStage :: "'w walkResult \<Rightarrow> ('w \<Rightarrow> Record \<Rightarrow> 'w walkResult) \<Rightarrow> 'w walkResult" where
  "thenStage r f = (case r of Some (Goes rec, w) \<Rightarrow> f w rec | _ \<Rightarrow> r)"

definition stageTransfer :: "'w Service \<Rightarrow> string \<Rightarrow> BackupSet \<Rightarrow> string \<Rightarrow> 'w \<Rightarrow> Record \<Rightarrow> 'w walkResult" where
  "stageTransfer sv source bs base w rec =
     inStates [Discovered, Transferring] sv w rec
       (case admitCapacity sv w bs rec of
          (False, w1) \<Rightarrow> Some (Stops rec, w1)
        | (True, w1) \<Rightarrow> map_option (afterStep rec) (transferOne sv w1 source bs rec base))"

definition stageVerifying :: "'w Service \<Rightarrow> ArtifactID \<Rightarrow> string \<Rightarrow> 'w \<Rightarrow> Record \<Rightarrow> 'w walkResult" where
  "stageVerifying sv artifact base w rec =
     inStates [Transferred] sv w rec
       (Some (afterStep rec (Advance (lifecycleDeps sv) w (emptyTransition artifact (base @ '':verifying'') Transferred Verifying))))"

definition stageVerify :: "'w Service \<Rightarrow> string \<Rightarrow> BackupSet \<Rightarrow> string \<Rightarrow> 'w \<Rightarrow> Record \<Rightarrow> 'w walkResult" where
  "stageVerify sv source bs base w rec =
     inStates [Verifying] sv w rec (map_option (afterStep rec) (verifyOne sv w source bs rec base))"

definition stageCommit :: "'w Service \<Rightarrow> BackupSet \<Rightarrow> string \<Rightarrow> 'w \<Rightarrow> Record \<Rightarrow> 'w walkResult" where
  "stageCommit sv bs base w rec =
     inStates [Verified, Committing] sv w rec (Some (afterStep rec (commitOne sv w bs rec base)))"

text \<open>The last stage: whatever comes of it, the walk ends with the row it was given.\<close>

definition stageSource :: "'w Service \<Rightarrow> string \<Rightarrow> BackupSet \<Rightarrow> string \<Rightarrow> 'w \<Rightarrow> Record \<Rightarrow> 'w walkResult" where
  "stageSource sv source bs base w rec =
     inStates [Committed, RemoteDeletePending] sv w rec
       (Some (Stops rec,
          if bk_ReadOnly bs then snd (retainRemoteOne sv w rec base)
          else snd (deleteRemoteOne sv w source bs rec base)))"

definition acquireStages :: "'w Service \<Rightarrow> string \<Rightarrow> BackupSet \<Rightarrow> 'w \<Rightarrow> Record \<Rightarrow> 'w walkResult" where
  "acquireStages sv source bs w rec =
     (let artifact = r_Artifact rec; base = attemptKey rec in
      thenStage (thenStage (thenStage
        (stageTransfer sv source bs base w rec)
        (stageVerifying sv artifact base))
        (stageVerify sv source bs base))
        (stageCommit sv bs base))"

definition stages :: "'w Service \<Rightarrow> string \<Rightarrow> BackupSet \<Rightarrow> 'w \<Rightarrow> Record \<Rightarrow> 'w walkResult" where
  "stages sv source bs w rec =
     thenStage (acquireStages sv source bs w rec) (stageSource sv source bs (attemptKey rec))"

text \<open>The state it reports is read back from the journal; the row last observed stands in where that fails.\<close>

definition processArtifact :: "'w Service \<Rightarrow> string \<Rightarrow> BackupSet \<Rightarrow> 'w \<Rightarrow> Record \<Rightarrow> (State \<times> 'w) option" where
  "processArtifact sv source bs w rec =
     map_option (\<lambda>(x, w').
       (case journalGet (svTransfer sv) w' (r_Artifact rec) of
          Inl _ \<Rightarrow> r_State (observed x) | Inr current \<Rightarrow> r_State current, w'))
       (stages sv source bs w rec)"

section \<open>A pass over the rows of a set\<close>

definition terminalFailure :: "State \<Rightarrow> bool" where
  "terminalFailure st = List.member [Failed, Quarantined, QuarantinedLost] st"

definition durableState :: "State \<Rightarrow> bool" where
  "durableState st = List.member [Committed, RemoteDeletePending, RemoteRetained, Complete] st"

definition acquiring :: "State \<Rightarrow> bool" where
  "acquiring st = List.member [Discovered, Transferring, Transferred, Verifying, Verified, Committing] st"

record artifactWalk =
  aw_Failed :: nat
  aw_Walked :: nat
  aw_Durable :: nat
  aw_coveredPaths :: "string list"

definition countRow :: "artifactWalk \<Rightarrow> Record \<Rightarrow> State \<Rightarrow> artifactWalk" where
  "countRow aw rec st =
     (let a1 = (if terminalFailure st then aw\<lparr>aw_Failed := Suc (aw_Failed aw)\<rparr> else aw);
          a2 = a1\<lparr>aw_coveredPaths := aw_coveredPaths a1 @ [r_RemotePath rec]\<rparr> in
      if \<not> acquiring (r_State rec) then a2
      else
        let a3 = a2\<lparr>aw_Walked := Suc (aw_Walked a2)\<rparr> in
        if durableState st then a3\<lparr>aw_Durable := Suc (aw_Durable a3)\<rparr> else a3)"

fun processRows :: "'w Service \<Rightarrow> string \<Rightarrow> BackupSet \<Rightarrow> artifactWalk \<Rightarrow> 'w \<Rightarrow> Record list \<Rightarrow> (artifactWalk \<times> 'w) option" where
  "processRows sv source bs aw w [] = Some (aw, w)"
| "processRows sv source bs aw w (rec # recs) =
     (if cancelled sv w then Some (aw, w)
      else case processArtifact sv source bs w rec of
          None \<Rightarrow> None
        | Some (st, w') \<Rightarrow> processRows sv source bs (countRow aw rec st) w' recs)"

definition processArtifacts :: "'w Service \<Rightarrow> string \<Rightarrow> BackupSet \<Rightarrow> 'w \<Rightarrow> Record list \<Rightarrow> (artifactWalk \<times> 'w) option" where
  "processArtifacts sv source bs w recs =
     processRows sv source bs \<lparr>aw_Failed = 0, aw_Walked = 0, aw_Durable = 0, aw_coveredPaths = []\<rparr> w recs"

end
