(* ===== verification/PipelineProps.thy ===== *)
theory PipelineProps
  imports Pipeline
begin

text \<open>
  What every step of the pipeline keeps, the pipeline keeps: the delete of the source is the one step that
  is treated apart.
\<close>

section \<open>A commit\<close>

locale committing =
  fixes d :: "'w Deps" and fs :: "'w CommitFS" and P :: "'w \<Rightarrow> bool"
  assumes record_law: "d_Journal d = Some ops \<Longrightarrow> P w \<Longrightarrow> jo_RecordTransition ops w t = (jr, w') \<Longrightarrow> P w'"
    and file_laws: "P w \<Longrightarrow> cf_SyncFile fs w q = (se, w') \<Longrightarrow> P w'"
      "P w \<Longrightarrow> cf_Link fs w q q' = (le, w') \<Longrightarrow> P w'"
      "P w \<Longrightarrow> cf_Remove fs w q = (re, w') \<Longrightarrow> P w'"
      "P w \<Longrightarrow> cf_SyncDir fs w q = (de, w') \<Longrightarrow> P w'"
      "P w \<Longrightarrow> cf_WriteFile fs w q content = (we, w') \<Longrightarrow> P w'"
      "P w \<Longrightarrow> cf_Rename fs w q q' = (ne, w') \<Longrightarrow> P w'"
begin

lemma Advance_keeps: "Advance d w t = (jr, w') \<Longrightarrow> P w \<Longrightarrow> P w'"
  by (auto simp: Advance_def Let_def split: option.splits prod.splits if_splits dest: record_law)

lemma WriteManifest_keeps: "WriteManifest fs w dir m = (e, w') \<Longrightarrow> P w \<Longrightarrow> P w'"
  by (auto simp: WriteManifest_def Let_def split: option.splits prod.splits dest: file_laws(5,6))

lemma removeIfExists_keeps: "removeIfExists fs w q = (e, w') \<Longrightarrow> P w \<Longrightarrow> P w'"
  by (auto simp: removeIfExists_def split: prod.splits option.splits pathError.splits dest: file_laws(3))

lemma link_keeps: "linkWithoutClobbering fs w q q' = (e, w') \<Longrightarrow> P w \<Longrightarrow> P w'"
  by (auto simp: linkWithoutClobbering_def split: prod.splits option.splits linkError.splits sum.splits if_splits dest: file_laws(2))

lemma placeFile_keeps:
  assumes "placeFile fs w q q' = (e, w')" "P w"
  shows "P w'"
proof -
  obtain se w1 where s: "cf_SyncFile fs w q = (se, w1)" by (meson surj_pair)
  obtain le w2 where l: "linkWithoutClobbering fs w1 q q' = (le, w2)" by (meson surj_pair)
  obtain e3 w3 where r: "removeIfExists fs w2 q = (e3, w3)" by (meson surj_pair)
  obtain e4 w4 where r4: "removeIfExists fs w q = (e4, w4)" by (meson surj_pair)
  have "P w1" using file_laws(1)[OF assms(2) s] .
  then have "P w2" using link_keeps[OF l] by blast
  then have "P w3" using removeIfExists_keeps[OF r] by blast
  moreover have "P w4" using removeIfExists_keeps[OF r4 assms(2)] .
  moreover have "w' \<in> {w, w1, w2, w3, w4}"
    using assms(1) s l r r4
    by (auto simp: placeFile_def split: sum.splits pathError.splits if_splits option.splits)
  ultimately show ?thesis using assms(2) \<open>P w1\<close> \<open>P w2\<close> by auto
qed

lemma commitFile_keeps: "commitFile fs w q q' = (e, w') \<Longrightarrow> P w \<Longrightarrow> P w'"
  by (auto simp: commitFile_def split: prod.splits option.splits dest: placeFile_keeps file_laws(4))

lemma manifest_keeps: "writeRecoveryManifest fs w dir rec m = (e, w') \<Longrightarrow> P w \<Longrightarrow> P w'"
  unfolding writeRecoveryManifest_def by (rule WriteManifest_keeps)

lemma converge_keeps: "converge fs w inp final out = (r, w') \<Longrightarrow> P w \<Longrightarrow> P w'"
  by (auto simp: converge_def Let_def split: if_splits sum.splits prod.splits option.splits dest: manifest_keeps)

lemma finishCommit_keeps:
  assumes "finishCommit d fs w inp q q' rec = (r, w')" "P w"
  shows "P w'"
proof -
  obtain e w1 where c: "commitFile fs w q q' = (e, w1)" by (meson surj_pair)
  have 1: "P w1" using commitFile_keeps[OF c assms(2)] .
  show ?thesis
  proof (cases "measureCommitted fs w1 q' rec")
    case (Inl err)
    with assms c 1 show ?thesis by (auto simp: finishCommit_def split: if_splits option.splits)
  next
    case (Inr m)
    let ?t = "committedTransition m ((emptyTransition (ci_Artifact inp) (ci_CommittedKey inp) Committing Committed)
       \<lparr>t_LocalPath := Some q', t_Placement := Some (localPlacementFor m q')\<rparr>) rec"
    obtain x w2 where x: "Advance d w1 ?t = (x, w2)" by (meson surj_pair)
    have "P w2" using Advance_keeps[OF x 1] .
    with assms c Inr x 1 show ?thesis
      by (auto simp: finishCommit_def split: if_splits option.splits sum.splits prod.splits dest: manifest_keeps)
  qed
qed

lemma Commit_keeps: "Commit d fs w inp = (r, w') \<Longrightarrow> P w \<Longrightarrow> P w'"
  by (auto simp: Commit_def split: option.splits sum.splits prod.splits if_splits
      dest: Advance_keeps finishCommit_keeps converge_keeps)

lemma RetainRemote_keeps: "RetainRemote d w req = (r, w') \<Longrightarrow> P w \<Longrightarrow> P w'"
  by (auto simp: RetainRemote_def split: option.splits sum.splits if_splits dest: Advance_keeps)

end

section \<open>The pipeline\<close>

locale pipelined =
  fixes sv :: "'w Service" and P :: "'w \<Rightarrow> bool"
  assumes record_law: "d_Journal (lifecycleDeps sv) = Some ops \<Longrightarrow> P w \<Longrightarrow> jo_RecordTransition ops w t = (jr, w') \<Longrightarrow> P w'"
    and file_laws: "P w \<Longrightarrow> cf_SyncFile (sv_FS sv) w q = (se, w') \<Longrightarrow> P w'"
      "P w \<Longrightarrow> cf_Link (sv_FS sv) w q q' = (le, w') \<Longrightarrow> P w'"
      "P w \<Longrightarrow> cf_Remove (sv_FS sv) w q = (re, w') \<Longrightarrow> P w'"
      "P w \<Longrightarrow> cf_SyncDir (sv_FS sv) w q = (de, w') \<Longrightarrow> P w'"
      "P w \<Longrightarrow> cf_WriteFile (sv_FS sv) w q content = (we, w') \<Longrightarrow> P w'"
      "P w \<Longrightarrow> cf_Rename (sv_FS sv) w q q' = (ne, w') \<Longrightarrow> P w'"
    and copy_laws: "P w \<Longrightarrow> xd_Remove (svTransfer sv) w q = (rr, w') \<Longrightarrow> P w'"
      "xd_Transport (svTransfer sv) = Some tr \<Longrightarrow> P w \<Longrightarrow> ct_CopyToLocal tr w s r q = (cr, w') \<Longrightarrow> P w'"
      "P w \<Longrightarrow> xd_Wait (svTransfer sv) w = (b, w') \<Longrightarrow> P w'"
    and verify_laws: "xd_Transport (svTransfer sv) = Some tr \<Longrightarrow> P w \<Longrightarrow> ct_RemoteHash tr w s r = (hr, w') \<Longrightarrow> P w'"
      "P w \<Longrightarrow> vd_Run (sv_Verify sv) w cmd q = (vr, w') \<Longrightarrow> P w'"
    and mkdir_law: "P w \<Longrightarrow> sv_MkdirAll sv w q = (me, w') \<Longrightarrow> P w'"

sublocale pipelined < cm: committing "lifecycleDeps sv" "sv_FS sv" P
  by unfold_locales (rule record_law file_laws; assumption)+

sublocale pipelined < vf: verifying "sv_Verify sv" P
  by unfold_locales (rule record_law[unfolded lifecycleDeps_def svTransfer_def] copy_laws[unfolded svTransfer_def]
      verify_laws[unfolded svTransfer_def]; assumption)+

sublocale pipelined < cp: copying "svTransfer sv" partial P for partial
  by unfold_locales (rule record_law[unfolded lifecycleDeps_def] copy_laws; assumption)+

context pipelined begin

lemma admit_keeps: "admitCapacity sv w bs rec = (b, w') \<Longrightarrow> P w \<Longrightarrow> P w'"
  by (auto simp: admitCapacity_def Let_def split: prod.splits option.splits sum.splits dest: mkdir_law)

lemma transferOne_keeps:
  assumes "transferOne sv w source bs rec base = Some (r, w')" "P w"
  shows "P w'"
proof (cases "partialPath (bk_LocalPath bs) (r_Artifact rec)")
  case (Inl e)
  from Transfer_no_path[OF _ assms(1)[unfolded transferOne_def]] Inl assms(2) show ?thesis by simp
next
  case (Inr partial)
  from cp.Transfer_keeps[OF assms(2) assms(1)[unfolded transferOne_def], of partial] Inr show ?thesis by simp
qed

lemma afterStep_world: "snd (afterStep rec r) = snd r"
  by (auto simp: afterStep_def split: prod.split sum.split)

lemma inStates_keeps:
  assumes "inStates ss sv w rec act = Some (x, w')" "P w" "\<And>y w''. act = Some (y, w'') \<Longrightarrow> P w''"
  shows "P w'"
  using assms by (auto simp: inStates_def split: if_splits)

lemma stageTransfer_keeps:
  assumes "stageTransfer sv source bs base w rec = Some (x, w')" "P w"
  shows "P w'"
  using assms(1) unfolding stageTransfer_def
proof (rule inStates_keeps[OF _ assms(2)])
  fix y w''
  obtain b w1 where b: "admitCapacity sv w bs rec = (b, w1)" by (meson surj_pair)
  have w1: "P w1" using admit_keeps[OF b assms(2)] .
  assume "(case admitCapacity sv w bs rec of (True, w1) \<Rightarrow> map_option (afterStep rec) (transferOne sv w1 source bs rec base)
      | (False, w1) \<Rightarrow> Some (Stops rec, w1)) = Some (y, w'')"
  then consider "w'' = w1" | r where "transferOne sv w1 source bs rec base = Some r" "w'' = snd r"
    using b by (cases b) (auto, metis afterStep_world snd_conv)
  then show "P w''" using w1 transferOne_keeps[of w1 source bs rec base] by (metis prod.collapse)
qed

lemma stageVerifying_keeps: "stageVerifying sv a base w rec = Some (x, w') \<Longrightarrow> P w \<Longrightarrow> P w'"
  unfolding stageVerifying_def by (erule inStates_keeps) (auto, metis afterStep_world cm.Advance_keeps prod.collapse snd_conv)

lemma stageVerify_keeps: "stageVerify sv source bs base w rec = Some (x, w') \<Longrightarrow> P w \<Longrightarrow> P w'"
  unfolding stageVerify_def
  by (erule inStates_keeps) (auto simp: verifyOne_def, metis afterStep_world vf.Verify_keeps prod.collapse snd_conv)

lemma stageCommit_keeps: "stageCommit sv bs base w rec = Some (x, w') \<Longrightarrow> P w \<Longrightarrow> P w'"
  unfolding stageCommit_def commitOne_def
  by (erule inStates_keeps) (auto, metis afterStep_world cm.Commit_keeps prod.collapse snd_conv)

lemma thenStage_keeps:
  assumes "thenStage r f = Some (y, v')" "\<And>z u. r = Some (z, u) \<Longrightarrow> P u"
    and "\<And>u q z u'. f u q = Some (z, u') \<Longrightarrow> P u \<Longrightarrow> P u'"
  shows "P v'"
  using assms by (auto simp: thenStage_def split: option.splits walked.splits)

lemma acquireStages_keep:
  assumes "acquireStages sv source bs w rec = Some (x, w')" "P w"
  shows "P w'"
  by (rule thenStage_keeps[OF assms(1)[unfolded acquireStages_def Let_def]
      thenStage_keeps[OF _ thenStage_keeps[OF _ stageTransfer_keeps[OF _ assms(2)] stageVerifying_keeps] stageVerify_keeps]
      stageCommit_keeps])

text \<open>A set that is read-only has no other step.\<close>

lemma stageSource_keeps:
  assumes "stageSource sv source bs base w rec = Some (x, w')" "P w" "bk_ReadOnly bs"
  shows "P w'"
  using assms(1) unfolding stageSource_def
proof (rule inStates_keeps[OF _ assms(2)])
  fix y w''
  assume "Some (Stops rec, if bk_ReadOnly bs then snd (retainRemoteOne sv w rec base) else snd (deleteRemoteOne sv w source bs rec base))
    = Some (y, w'')"
  then have "w'' = snd (retainRemoteOne sv w rec base)" using assms(3) by simp
  then show "P w''" using cm.RetainRemote_keeps[OF _ assms(2)] unfolding retainRemoteOne_def by (metis prod.collapse)
qed

lemma stages_keep:
  assumes "stages sv source bs w rec = Some (x, w')" "P w" "bk_ReadOnly bs"
  shows "P w'"
  by (rule thenStage_keeps[OF assms(1)[unfolded stages_def] acquireStages_keep[OF _ assms(2)] stageSource_keeps[OF _ _ assms(3)]])

lemma processArtifact_keeps:
  "processArtifact sv source bs w rec = Some (st, w') \<Longrightarrow> P w \<Longrightarrow> bk_ReadOnly bs \<Longrightarrow> P w'"
  by (auto simp: processArtifact_def dest: stages_keep)

lemma processRows_keeps:
  "processRows sv source bs aw w recs = Some (aw', w') \<Longrightarrow> P w \<Longrightarrow> bk_ReadOnly bs \<Longrightarrow> P w'"
  by (induction recs arbitrary: aw w) (auto split: if_splits option.splits dest: processArtifact_keeps)

end

section \<open>A pass returns\<close>

lemma copyStarted_returns:
  assumes "0 < xp_MaxAttempts p"
  shows "copyStarted d w p rec partial started \<noteq> None"
proof -
  obtain gone w2 where g: "xd_Remove d w partial = (gone, w2)" by (meson surj_pair)
  have r: "retryDo (retryEnv d) (xp_MaxAttempts p) act w2 \<noteq> None" for act :: "'a \<Rightarrow> (anyError + int) \<times> 'a"
    using retryFrom_returns[of "xp_MaxAttempts p" 1 "retryEnv d" act w2] assms unfolding retryDo_def by force
  show ?thesis
  proof (cases "xd_Transport d")
    case None
    with g show ?thesis by (simp add: copyStarted_def Let_def del: not_None_eq split: option.split pathError.split)
  next
    case (Some tr)
    obtain x w3 where "retryDo (retryEnv d) (xp_MaxAttempts p) (copyAttempt tr p rec partial) w2 = Some (x, w3)"
      using r[of "copyAttempt tr p rec partial"] by (metis option.exhaust surj_pair)
    with g Some show ?thesis by (simp add: copyStarted_def Let_def del: not_None_eq split: option.split pathError.split sum.split)
  qed
qed

lemma Transfer_returns:
  assumes "0 < xp_MaxAttempts p"
  shows "\<exists>r w'. Transfer d w p = Some (r, w')"
proof -
  have "Transfer d w p \<noteq> None"
    unfolding Transfer_def
    by (simp add: copyStarted_returns[OF assms] del: not_None_eq split: option.split sum.split pathError.split prod.split)
  then show ?thesis by (metis option.exhaust surj_pair)
qed

lemma inStates_returns: "act \<noteq> None \<Longrightarrow> inStates ss sv w rec act \<noteq> None"
  by (simp add: inStates_def)

lemma thenStage_returns: "r \<noteq> None \<Longrightarrow> (\<And>w rec. f w rec \<noteq> None) \<Longrightarrow> thenStage r f \<noteq> None"
  by (auto simp: thenStage_def split: walked.split)

lemma stages_return:
  assumes "0 < sv_MaxAttempts sv"
  shows "stages sv source bs w rec \<noteq> None"
proof -
  have t: "transferOne sv w source bs rec base \<noteq> None" for w rec base
    using Transfer_returns[of "\<lparr>xp_Artifact = r_Artifact rec, xp_Source = source, xp_LocalDir = bk_LocalPath bs,
        xp_AttemptKey = base @ '':transfer'', xp_MaxAttempts = sv_MaxAttempts sv\<rparr>" "svTransfer sv" w] assms
    unfolding transferOne_def by force
  have v: "verifyOne sv w source bs rec base \<noteq> None" for w rec base
    using Verify_returns[of "sv_Verify sv" w] unfolding verifyOne_def by force
  have "stageTransfer sv source bs base w rec \<noteq> None" for base w rec
    unfolding stageTransfer_def
    by (rule inStates_returns) (simp add: t del: not_None_eq split: prod.split bool.split)
  moreover have "stageVerify sv source bs base w rec \<noteq> None" for base w rec
    unfolding stageVerify_def by (rule inStates_returns) (simp add: v del: not_None_eq)
  moreover have "stageVerifying sv a base w rec \<noteq> None" "stageCommit sv bs base w rec \<noteq> None"
    "stageSource sv source bs base w rec \<noteq> None" for a base w rec
    unfolding stageVerifying_def stageCommit_def stageSource_def by (rule inStates_returns, simp)+
  ultimately show ?thesis
    unfolding stages_def acquireStages_def Let_def by (intro thenStage_returns)
qed

lemma processRows_return:
  assumes "0 < sv_MaxAttempts sv"
  shows "processRows sv source bs aw w recs \<noteq> None"
proof (induction recs arbitrary: aw w)
  case (Cons rec recs)
  obtain x where "processArtifact sv source bs w rec = Some x"
    using stages_return[OF assms, of source bs w rec] by (auto simp: processArtifact_def)
  with Cons show ?case by (cases x) simp
qed simp

lemma processRows_counts:
  assumes "processRows sv source bs aw w recs = Some (aw', w')" "aw_Durable aw \<le> aw_Walked aw"
  shows "aw_Durable aw' \<le> aw_Walked aw' \<and> aw_Walked aw' \<le> aw_Walked aw + length (filter (acquiring \<circ> r_State) recs)"
  using assms
proof (induction recs arbitrary: aw w)
  case (Cons rec recs)
  show ?case
  proof (cases "cancelled sv w")
    case False
    with Cons.prems(1) obtain st w1 where p: "processRows sv source bs (countRow aw rec st) w1 recs = Some (aw', w')"
      by (auto split: option.splits)
    have "aw_Durable (countRow aw rec st) \<le> aw_Walked (countRow aw rec st)"
      "aw_Walked (countRow aw rec st) = aw_Walked aw + (if acquiring (r_State rec) then 1 else 0)"
      using Cons.prems(2) by (simp_all add: countRow_def Let_def)
    with Cons.IH[OF p] show ?thesis by auto
  qed (use Cons.prems in auto)
qed auto

text \<open>With a bound on the attempts of a copy, a pass over the rows of a set always returns, whatever the
  copies, hashes, validators, commits and deletes of it answer; it counts no more rows as durable than it walked,
  and walks no row twice.\<close>

theorem pass_returns:
  assumes "0 < sv_MaxAttempts sv"
  shows "\<exists>aw w'. processArtifacts sv source bs w recs = Some (aw, w') \<and>
    aw_Durable aw \<le> aw_Walked aw \<and> aw_Walked aw \<le> length (filter (acquiring \<circ> r_State) recs)"
proof -
  obtain aw w' where r: "processArtifacts sv source bs w recs = Some (aw, w')"
    using processRows_return[OF assms] unfolding processArtifacts_def by (metis option.exhaust surj_pair)
  from processRows_counts[OF r[unfolded processArtifacts_def]] r show ?thesis by simp
qed

end
