(* ===== verification/PipelineWorld.thy ===== *)
theory PipelineWorld
  imports PipelineProps DeleteWorld
begin

text \<open>
  The whole pipeline over one world: the journal of package \<open>state\<close>, a disk of names and inodes, the remote objects, the trail of
  the transport's deletes, the context's end, and one script that decides for every effect whether it
  happens, fails before or fails after it took place, and which bytes a copy leaves.
\<close>

section \<open>The world\<close>

record PWorld =
  pw_db :: JournalDB
  pw_dir :: "string \<Rightarrow> nat option"
  pw_data :: "nat \<Rightarrow> string"
  pw_next :: nat
  pw_remote :: "string \<times> string \<Rightarrow> (RemoteArtifact \<times> string) option"
  pw_calls :: "(string \<times> string) list"
  pw_clock :: instant
  pw_steps :: nat
  pw_stopAt :: "nat option"
  pw_script :: "(fault \<times> string option) list"

text \<open>What does not change: the digest, the renderings, the validator's judgement, and the capacity of the filesystem.\<close>

record PSetup =
  ps_Digest :: "string \<Rightarrow> string"
  ps_Encode :: "Manifest \<Rightarrow> string"
  ps_Fold :: "string \<Rightarrow> string \<Rightarrow> bool"
  ps_Refusal :: "ArtifactID \<Rightarrow> refusalReason \<Rightarrow> string"
  ps_Verdict :: "verifyDetail \<Rightarrow> string"
  ps_Statfs :: Statfs
  ps_Accepts :: "Command \<Rightarrow> string option \<Rightarrow> bool"
  ps_Capacity :: Thresholds
  ps_MaxAttempts :: int

definition pNext :: "PWorld \<Rightarrow> fault \<times> string option" where
  "pNext w = (case pw_script w of [] \<Rightarrow> (Works, None) | c # _ \<Rightarrow> c)"

definition pTick :: "PWorld \<Rightarrow> PWorld" where
  "pTick w = w\<lparr>pw_script := tl (pw_script w), pw_steps := Suc (pw_steps w)\<rparr>"

definition pEffect :: "PWorld \<Rightarrow> (PWorld \<Rightarrow> PWorld) \<Rightarrow> 'e \<Rightarrow> 'e option \<times> PWorld" where
  "pEffect w change failure =
     (case fst (pNext w) of
        Works \<Rightarrow> (None, change (pTick w))
      | FailsBefore \<Rightarrow> (Some failure, pTick w)
      | FailsAfter \<Rightarrow> (Some failure, change (pTick w)))"

definition pCancelled :: "PWorld \<Rightarrow> bool" where
  "pCancelled w = (case pw_stopAt w of None \<Rightarrow> False | Some n \<Rightarrow> n \<le> pw_steps w)"

definition fileAt :: "PWorld \<Rightarrow> string \<Rightarrow> string option" where
  "fileAt w q = map_option (pw_data w) (pw_dir w q)"

definition ioFailed :: string where "ioFailed = ''input/output error''"
definition noFile :: string where "noFile = ''no such file or directory''"
definition lostConnection :: anyError where "lostConnection = TransportError Transient ''connection lost''"
definition noObject :: anyError where "noObject = TransportError NotFound ''object not found''"

section \<open>The calls\<close>

definition pRecord :: "PWorld \<Rightarrow> Transition \<Rightarrow> (journalError + Outcome) \<times> PWorld" where
  "pRecord w t =
     (case RecordTransition (pw_db w) t of (res, j) \<Rightarrow>
       (case pEffect w (\<lambda>v. v\<lparr>pw_db := j\<rparr>) JournalUnavailable of
          (None, w') \<Rightarrow> (res, w') | (Some e, w') \<Rightarrow> (Inl e, w')))"

definition pJournal :: "PWorld JournalOps" where
  "pJournal =
     \<lparr>jo_Get = (\<lambda>w a. Get (pw_db w) a), jo_RecordTransition = pRecord,
      jo_LastEnteredAt = (\<lambda>w a st. Inr (LastEnteredAt (pw_db w) a st)),
      jo_LastTransition = (\<lambda>w a f t. Inr (LastTransition (pw_db w) a f t))\<rparr>"

definition pDeps :: "PWorld Deps" where
  "pDeps = \<lparr>d_Journal = Some pJournal, d_Now = pw_clock, d_Cancelled = pCancelled\<rparr>"

text \<open>A new file is a new inode: a copy never writes through a name it did not make.\<close>

definition pNewFile :: "string \<Rightarrow> string \<Rightarrow> PWorld \<Rightarrow> PWorld" where
  "pNewFile q content w =
     w\<lparr>pw_dir := (pw_dir w)(q := Some (pw_next w)), pw_data := (pw_data w)(pw_next w := content), pw_next := Suc (pw_next w)\<rparr>"

definition pSetName :: "string \<Rightarrow> nat option \<Rightarrow> PWorld \<Rightarrow> PWorld" where
  "pSetName q i w = w\<lparr>pw_dir := (pw_dir w)(q := i)\<rparr>"

definition pOverwrite :: "nat \<Rightarrow> string \<Rightarrow> PWorld \<Rightarrow> PWorld" where
  "pOverwrite i content w = w\<lparr>pw_data := (pw_data w)(i := content)\<rparr>"

definition pRename :: "string \<Rightarrow> string \<Rightarrow> PWorld \<Rightarrow> PWorld" where
  "pRename q q' w = w\<lparr>pw_dir := (pw_dir w)(q' := pw_dir w q, q := None)\<rparr>"

definition pRemove :: "PWorld \<Rightarrow> string \<Rightarrow> pathError option \<times> PWorld" where
  "pRemove w q =
     (case pw_dir w q of None \<Rightarrow> (Some NotExist, w) | Some _ \<Rightarrow> pEffect w (pSetName q None) (PathError ioFailed))"

definition pCopy :: "PWorld \<Rightarrow> string \<Rightarrow> string \<Rightarrow> string \<Rightarrow> (anyError + int) \<times> PWorld" where
  "pCopy w s r q =
     (if pCancelled w then (Inl (TransportError CategoryCancelled ''copy''), w)
      else case pw_remote w (s, r) of
          None \<Rightarrow> (Inl noObject, w)
        | Some (_, b) \<Rightarrow>
          let written = (case snd (pNext w) of None \<Rightarrow> b | Some other \<Rightarrow> other) in
          (case pEffect w (pNewFile q written) lostConnection of
             (None, w') \<Rightarrow> (Inr (int (length b)), w') | (Some e, w') \<Rightarrow> (Inl e, w')))"

definition pHash :: "PSetup \<Rightarrow> PWorld \<Rightarrow> string \<Rightarrow> string \<Rightarrow> (anyError + string) \<times> PWorld" where
  "pHash su w s r =
     (case pw_remote w (s, r) of
        None \<Rightarrow> (Inl noObject, w)
      | Some (_, b) \<Rightarrow>
        (case pEffect w id lostConnection of
           (None, w') \<Rightarrow> (Inr (ps_Digest su b), w') | (Some e, w') \<Rightarrow> (Inl e, w')))"

text \<open>The validator judges the file it is given, unless the script keeps it from starting or kills it.\<close>

definition pRun :: "PSetup \<Rightarrow> PWorld \<Rightarrow> Command \<Rightarrow> string \<Rightarrow> ValidatorRun \<times> PWorld" where
  "pRun su w cmd q =
     (\<lparr>vr_Error = (case fst (pNext w) of
           Works \<Rightarrow> if ps_Accepts su cmd (fileAt w q) then None else Some ExitError
         | FailsBefore \<Rightarrow> Some (StartError ioFailed) | FailsAfter \<Rightarrow> Some ExitError),
       vr_CallerEnded = (if pCancelled w then Some ContextCanceled else None), vr_TimedOut = False, vr_Writes = []\<rparr>, pTick w)"

definition pDelete :: "PWorld \<Rightarrow> string \<Rightarrow> string \<Rightarrow> string option \<times> PWorld" where
  "pDelete w s r =
     pEffect (w\<lparr>pw_calls := pw_calls w @ [(s, r)]\<rparr>) (\<lambda>v. v\<lparr>pw_remote := (pw_remote v)((s, r) := None)\<rparr>) ''connection lost''"

definition pStatLocal :: "PWorld \<Rightarrow> string \<Rightarrow> pathError + int" where
  "pStatLocal w q = (case fileAt w q of None \<Rightarrow> Inl NotExist | Some b \<Rightarrow> Inr (int (length b)))"

definition pDisk :: "PSetup \<Rightarrow> PWorld CommitFS" where
  "pDisk su =
     \<lparr>cf_Stat = (\<lambda>w q. case pw_dir w q of None \<Rightarrow> Inl NotExist
         | Some i \<Rightarrow> Inr \<lparr>fst_Size = int (length (pw_data w i)), fst_Inode = i\<rparr>),
      cf_SyncFile = (\<lambda>w q. case pw_dir w q of None \<Rightarrow> (Some noFile, w) | Some _ \<Rightarrow> pEffect w id ioFailed),
      cf_Link = (\<lambda>w q q'. case (pw_dir w q', pw_dir w q) of
           (Some _, _) \<Rightarrow> (Some LinkExists, w)
         | (None, None) \<Rightarrow> (Some (LinkError noFile), w)
         | (None, Some i) \<Rightarrow> pEffect w (pSetName q' (Some i)) (LinkError ioFailed)),
      cf_Remove = pRemove,
      cf_SyncDir = (\<lambda>w q. pEffect w id ioFailed),
      cf_HashLocal = (\<lambda>w q. case fileAt w q of None \<Rightarrow> Inl noFile | Some b \<Rightarrow> Inr (int (length b), ps_Digest su b)),
      cf_WriteFile = (\<lambda>w q content. pEffect w
         (case pw_dir w q of None \<Rightarrow> pNewFile q content | Some i \<Rightarrow> pOverwrite i content) ioFailed),
      cf_Rename = (\<lambda>w q q'. case pw_dir w q of None \<Rightarrow> (Some noFile, w) | Some _ \<Rightarrow> pEffect w (pRename q q') ioFailed),
      cf_Encode = ps_Encode su\<rparr>"

definition pTransfer :: "PSetup \<Rightarrow> PWorld TransferDeps" where
  "pTransfer su =
     \<lparr>xd_Deps = pDeps, xd_Transport = Some \<lparr>ct_CopyToLocal = pCopy, ct_RemoteHash = pHash su\<rparr>,
      xd_Stat = pStatLocal, xd_Remove = pRemove, xd_Wait = (\<lambda>w. (\<not> pCancelled w, w\<lparr>pw_clock := pw_clock w + 1\<rparr>))\<rparr>"

definition pVerify :: "PSetup \<Rightarrow> PWorld VerifyDeps" where
  "pVerify su =
     \<lparr>vd_Common = pTransfer su, vd_ReadLocal = (\<lambda>w q. case fileAt w q of None \<Rightarrow> Inl noFile | Some b \<Rightarrow> Inr b),
      vd_Digest = ps_Digest su, vd_Run = pRun su, vd_Fold = ps_Fold su, vd_Text = ps_Verdict su\<rparr>"

definition pTransport :: "PWorld Transport" where
  "pTransport =
     \<lparr>tp_Stat = (\<lambda>w s r. case pw_remote w (s, r) of None \<Rightarrow> Inl ''object not found'' | Some (a, _) \<Rightarrow> Inr a),
      tp_DeleteRemote = pDelete\<rparr>"

definition pRemoteDeps :: "PSetup \<Rightarrow> PWorld RemoteDeps" where
  "pRemoteDeps su =
     \<lparr>rd_Deps = pDeps, rd_Transport = Some pTransport,
      rd_Stat = (\<lambda>w q. case fileAt w q of None \<Rightarrow> Inl noFile | Some b \<Rightarrow> Inr \<lparr>fi_Size = int (length b), fi_IsDir = False\<rparr>),
      rd_SHA256File = (\<lambda>w q. case fileAt w q of None \<Rightarrow> Inl noFile | Some b \<Rightarrow> Inr (ps_Digest su b)),
      rd_Fold = ps_Fold su, rd_Text = ps_Refusal su\<rparr>"

definition pService :: "PSetup \<Rightarrow> PWorld Service" where
  "pService su =
     \<lparr>sv_Verify = pVerify su, sv_FS = pDisk su, sv_Delete = pRemoteDeps su, sv_MaxAttempts = ps_MaxAttempts su,
      sv_Capacity = ps_Capacity su, sv_Statfs = (\<lambda>w q. Inr (ps_Statfs su)), sv_MkdirAll = (\<lambda>w q. pEffect w id ioFailed),
      sv_LocalBytesInUse = (\<lambda>w. LocalBytesInUse (pw_db w))\<rparr>"

section \<open>The frames of the calls\<close>

lemma pDeps_sel [simp]:
  "d_Journal pDeps = Some pJournal" "d_Now pDeps = pw_clock" "d_Cancelled pDeps = pCancelled"
  "xd_Deps (pTransfer su) = pDeps" "vd_Common (pVerify su) = pTransfer su" "lifecycleDeps (pService su) = pDeps"
  "svTransfer (pService su) = pTransfer su" "sv_Verify (pService su) = pVerify su" "sv_FS (pService su) = pDisk su"
  "rd_Transport (pRemoteDeps su) = Some pTransport" "sv_Delete (pService su) = pRemoteDeps su"
  "(pRemoteDeps su)\<lparr>rd_Deps := pDeps\<rparr> = pRemoteDeps su" "rd_Deps (pRemoteDeps su) = pDeps"
  by (simp_all add: pDeps_def pTransfer_def pVerify_def pService_def pRemoteDeps_def lifecycleDeps_def svTransfer_def)

lemma pJournal_sel [simp]:
  "jo_Get pJournal w a = Get (pw_db w) a" "jo_RecordTransition pJournal = pRecord"
  "jo_LastEnteredAt pJournal w a st = Inr (LastEnteredAt (pw_db w) a st)"
  "jo_LastTransition pJournal w a f t = Inr (LastTransition (pw_db w) a f t)"
  by (simp_all add: pJournal_def)

text \<open>A property of everything but the script, the counter of effects and the clock.\<close>

definition pStable :: "(PWorld \<Rightarrow> bool) \<Rightarrow> bool" where
  "pStable P = (\<forall>w s n c. P (w\<lparr>pw_script := s, pw_steps := n, pw_clock := c\<rparr>) = P w)"

lemma pStable_tick: "pStable P \<Longrightarrow> P (pTick w) = P w"
  unfolding pStable_def pTick_def
  by (metis PWorld.surjective PWorld.update_convs(7,8,10))

lemma pEffect_keeps:
  assumes "pEffect w change e = (r, w')" "pStable P" "P w" "\<And>v. P v \<Longrightarrow> P (change v)"
  shows "P w'"
  using assms(1,3,4) pStable_tick[OF assms(2), of w] by (auto simp: pEffect_def split: fault.splits)

lemma pRecord_db:
  assumes "pRecord w t = (res, w')"
  shows "pw_calls w' = pw_calls w \<and> pw_remote w' = pw_remote w \<and> pw_dir w' = pw_dir w \<and> pw_data w' = pw_data w \<and>
    (pw_db w' = pw_db w \<and> isl res \<or> pw_db w' = snd (RecordTransition (pw_db w) t) \<and>
       (isOk res \<longrightarrow> res = fst (RecordTransition (pw_db w) t)))"
  using assms by (auto simp: pRecord_def pEffect_def pTick_def split: fault.splits prod.splits)

section \<open>The contracts\<close>

definition pInv :: "PWorld \<Rightarrow> bool" where "pInv w = wfJournal (pw_db w)"
definition pHist :: "PWorld \<Rightarrow> ArtifactID \<Rightarrow> (State \<times> State) list" where "pHist w = history (pw_db w)"

lemma pDelete_frame:
  assumes "pDelete w s r = (e, w')"
  shows "pw_db w' = pw_db w \<and> pw_calls w' = pw_calls w @ [(s, r)]"
  using assms by (auto simp: pDelete_def pEffect_def pTick_def split: fault.splits)

interpretation pd: source_deleter pJournal pInv pHist pTransport pw_calls
proof unfold_locales
  fix w a rec assume "pInv w" "jo_Get pJournal w a = Inr rec"
  then show "r_Artifact rec = a \<and> pHist w a \<noteq> [] \<and> r_State rec = endState noState (pHist w a)"
    using Get_Inr by (simp add: pInv_def pHist_def)
next
  fix w a assume "pInv w" then show "chained noState (pHist w a)"
    by (simp add: pInv_def pHist_def wf_chained)
next
  fix w t res w' assume a: "pInv w" "jo_RecordTransition pJournal w t = (res, w')"
  have r: "pRecord w t = (res, w')" using a(2) by simp
  obtain res2 j2 where j: "RecordTransition (pw_db w) t = (res2, j2)" by fastforce
  note f = record_transition_facts[OF a(1)[unfolded pInv_def] j]
  show "pInv w'" using pRecord_db[OF r] f a(1) j by (auto simp: pInv_def)
  have "stepOf history (pw_db w) j2 (t_Artifact t) {(t_From t, t_To t)}" using f by (auto simp: stepOf_def)
  then show "stepOf pHist w w' (t_Artifact t) {(t_From t, t_To t)}"
    using pRecord_db[OF r] j by (auto simp: stepOf_def pHist_def)
next
  fix w t out w' assume a: "pInv w" "jo_RecordTransition pJournal w t = (Inr out, w')"
  then have "pw_db w' = snd (RecordTransition (pw_db w) t)" "fst (RecordTransition (pw_db w) t) = Inr out"
    using pRecord_db[of w t "Inr out" w'] by auto
  then have "RecordTransition (pw_db w) t = (Inr out, pw_db w')" by (cases "RecordTransition (pw_db w) t") auto
  then show "t_To t \<in> set (map snd (pHist w' (t_Artifact t)))"
    using a(1) sql.record_ok[of "pw_db w" t out "pw_db w'"] by (simp add: pInv_def pHist_def sqlJournal_def)
next
  fix w a f t assume "pInv w" "jo_LastTransition pJournal w a f t = Inr None"
  then show "(f, t) \<notin> set (pHist w a)"
    using sql.last_none[of "pw_db w" a f t] by (simp add: pInv_def pHist_def sqlJournal_def)
next
  fix w a f t at assume "pInv w" "jo_LastTransition pJournal w a f t = Inr (Some at)"
  then show "(f, t) \<in> set (pHist w a)"
    using sql.last_some[of "pw_db w" a f t at] by (simp add: pInv_def pHist_def sqlJournal_def)
next
  fix w t res w' assume "jo_RecordTransition pJournal w t = (res, w')"
  then show "pw_calls w' = pw_calls w" using pRecord_db[of w t res w'] by simp
next
  fix w s p err w' assume "tp_DeleteRemote pTransport w s p = (err, w')"
  then have f: "pw_db w' = pw_db w \<and> pw_calls w' = pw_calls w @ [(s, p)]"
    using pDelete_frame by (simp add: pTransport_def)
  then show "pw_calls w' = pw_calls w @ [(s, p)]" "pHist w' = pHist w" by (simp_all add: pHist_def)
  show "pInv w \<Longrightarrow> pInv w'" using f by (simp add: pInv_def)
qed

text \<open>The journal stays well formed and keeps its rows and edges, and no source is touched.\<close>

definition sourceKept :: "JournalDB \<Rightarrow> (string \<times> string) list \<Rightarrow> (string \<times> string \<Rightarrow> (RemoteArtifact \<times> string) option) \<Rightarrow> PWorld \<Rightarrow> bool" where
  "sourceKept j0 cs rm w \<longleftrightarrow>
     pInv w \<and> rowsKept j0 (pw_db w) \<and> historiesGrow j0 (pw_db w) \<and> pw_calls w = cs \<and> pw_remote w = rm"

lemma sourceKept_frame:
  "pw_db w' = pw_db w \<Longrightarrow> pw_calls w' = pw_calls w \<Longrightarrow> pw_remote w' = pw_remote w \<Longrightarrow>
   sourceKept j0 cs rm w \<Longrightarrow> sourceKept j0 cs rm w'"
  by (simp add: sourceKept_def pInv_def)

lemma sourceKept_record:
  assumes "pRecord w t = (res, w')" "sourceKept j0 cs rm w"
  shows "sourceKept j0 cs rm w'"
proof -
  have i: "pInv w" using assms(2) by (simp add: sourceKept_def)
  have "pInv w'" using pd.record_inv[of w t res w'] i assms(1) by simp
  moreover have "rowsKept (pw_db w) (pw_db w')"
    using pRecord_db[OF assms(1)] rowsKept_record[of "pw_db w" t] i by (auto simp: pInv_def)
  moreover have "historiesGrow (pw_db w) (pw_db w')"
    using pd.record_hist[of w t res w'] i assms(1) unfolding historiesGrow_def stepOf_def pHist_def
    by (metis Un_upper1 pJournal_sel(2) set_append subset_refl)
  ultimately show ?thesis
    using assms(2) pRecord_db[OF assms(1)] rowsKept_trans[of j0 "pw_db w" "pw_db w'"]
    unfolding sourceKept_def historiesGrow_def by blast
qed

lemma effect_frame:
  assumes "pEffect w change e = (r, w')" "\<And>v. pw_db (change v) = pw_db v" "\<And>v. pw_calls (change v) = pw_calls v"
    "\<And>v. pw_remote (change v) = pw_remote v"
  shows "sourceKept j0 cs rm w \<Longrightarrow> sourceKept j0 cs rm w'"
  using assms by (auto simp: pEffect_def pTick_def sourceKept_def pInv_def split: fault.splits)

lemma changes_frame [simp]:
  "pw_db (pNewFile q c v) = pw_db v" "pw_calls (pNewFile q c v) = pw_calls v" "pw_remote (pNewFile q c v) = pw_remote v"
  "pw_db (pSetName q i v) = pw_db v" "pw_calls (pSetName q i v) = pw_calls v" "pw_remote (pSetName q i v) = pw_remote v"
  "pw_db (pRename q q' v) = pw_db v" "pw_calls (pRename q q' v) = pw_calls v" "pw_remote (pRename q q' v) = pw_remote v"
  "pw_db (pOverwrite n c v) = pw_db v" "pw_calls (pOverwrite n c v) = pw_calls v" "pw_remote (pOverwrite n c v) = pw_remote v"
  by (simp_all add: pNewFile_def pSetName_def pRename_def pOverwrite_def)

interpretation ps: pipelined "pService su" "sourceKept j0 cs rm" for su j0 cs rm
proof unfold_locales
  fix ops :: "PWorld JournalOps" and w t jr w'
  assume "d_Journal (lifecycleDeps (pService su)) = Some ops" "sourceKept j0 cs rm w" "jo_RecordTransition ops w t = (jr, w')"
  then show "sourceKept j0 cs rm w'" using sourceKept_record[of w t jr w'] by simp
next
  fix w q cmd vr w' assume "sourceKept j0 cs rm w" "vd_Run (sv_Verify (pService su)) w cmd q = (vr, w')"
  then show "sourceKept j0 cs rm w'"
    by (auto simp: pVerify_def pRun_def pTick_def intro: sourceKept_frame)
next
  fix tr :: "PWorld CopyTransport" and w s r q cr w'
  assume "xd_Transport (svTransfer (pService su)) = Some tr" "sourceKept j0 cs rm w" "ct_CopyToLocal tr w s r q = (cr, w')"
  then show "sourceKept j0 cs rm w'"
    by (auto simp: pTransfer_def pCopy_def Let_def split: if_splits option.splits prod.splits dest!: effect_frame)
next
  fix tr :: "PWorld CopyTransport" and w s r hr w'
  assume "xd_Transport (svTransfer (pService su)) = Some tr" "sourceKept j0 cs rm w" "ct_RemoteHash tr w s r = (hr, w')"
  then show "sourceKept j0 cs rm w'"
    by (auto simp: pTransfer_def pHash_def split: option.splits prod.splits dest!: effect_frame)
next
  fix w b w' assume "sourceKept j0 cs rm w" "xd_Wait (svTransfer (pService su)) w = (b, w')"
  then show "sourceKept j0 cs rm w'" by (auto simp: pTransfer_def intro: sourceKept_frame)
next
  fix w q me w' assume "sourceKept j0 cs rm w" "sv_MkdirAll (pService su) w q = (me, w')"
  then show "sourceKept j0 cs rm w'" by (auto simp: pService_def dest!: effect_frame)
next
  fix w q and rr :: "pathError option" and w' assume "sourceKept j0 cs rm w" "xd_Remove (svTransfer (pService su)) w q = (rr, w')"
  then show "sourceKept j0 cs rm w'" by (auto simp: pTransfer_def pRemove_def split: option.splits dest!: effect_frame)
qed (auto simp: pDisk_def pRemove_def split: option.splits dest!: effect_frame)

section \<open>The source\<close>

lemma processArtifact_stages:
  "processArtifact sv source bs w rec = Some (st, w') \<Longrightarrow> \<exists>x. stages sv source bs w rec = Some (x, w')"
  by (auto simp: processArtifact_def)

lemma sourceKept_start: "wfJournal (pw_db w) \<Longrightarrow> sourceKept (pw_db w) (pw_calls w) (pw_remote w) w"
  by (simp add: sourceKept_def pInv_def historiesGrow_def)

text \<open>A pass over a set declared read-only never asks the transport to delete anything and leaves every
  remote object as it was, whatever fails in it and wherever the context ends.\<close>

theorem read_only_keeps_source:
  assumes "wfJournal (pw_db w)" "bk_ReadOnly bs"
    and "processArtifacts (pService su) source bs w recs = Some (aw, w')"
  shows "pw_calls w' = pw_calls w \<and> pw_remote w' = pw_remote w"
  using ps.processRows_keeps[OF assms(3)[unfolded processArtifacts_def] sourceKept_start[OF assms(1)] assms(2)]
  by (simp add: sourceKept_def)

text \<open>The one delete of a call of \<open>processArtifact\<close>.\<close>

lemma source_kept_calls: "sourceKept j cs rm v \<Longrightarrow> pw_calls v = cs"
  by (simp add: sourceKept_def)

lemma stages_split:
  assumes "stages sv source bs w rec = Some (x, w')"
  obtains "acquireStages sv source bs w rec = Some (x, w')"
    | v q where "acquireStages sv source bs w rec = Some (Goes q, v)" "stageSource sv source bs (attemptKey rec) v q = Some (x, w')"
proof (cases "acquireStages sv source bs w rec")
  case None
  with assms show thesis by (simp add: stages_def thenStage_def)
next
  case (Some yv)
  obtain y v where yv: "yv = (y, v)" by (meson surj_pair)
  show thesis
  proof (cases y)
    case (Goes q)
    with assms Some yv show thesis by (intro that(2)[of q v]) (simp_all add: stages_def thenStage_def)
  next
    case (Stops q)
    with assms Some yv show thesis by (intro that(1)) (simp add: stages_def thenStage_def)
  qed
qed

lemma stageSource_split:
  assumes "stageSource sv source bs base v q = Some (x, w')" "\<not> bk_ReadOnly bs"
  obtains "w' = v" | "\<not> cancelled sv v" "w' = snd (deleteRemoteOne sv v source bs q base)"
proof (cases "r_State q \<in> {Committed, RemoteDeletePending} \<and> \<not> cancelled sv v")
  case True
  from assms True have "w' = snd (deleteRemoteOne sv v source bs q base)"
    unfolding stageSource_def inStates_def by (cases "r_State q = Committed") simp_all
  with that(2) True show thesis by blast
next
  case False
  from assms(1) False have "w' = v" unfolding stageSource_def inStates_def by (simp split: if_splits)
  with that(1) show thesis .
qed

lemma stages_delete:
  assumes "stages (pService su) source bs w rec = Some (x, w')" "wfJournal (pw_db w)" "pw_calls w' \<noteq> pw_calls w"
  obtains v q where "sourceKept (pw_db w) (pw_calls w) (pw_remote w) v" "\<not> pCancelled v" "\<not> bk_ReadOnly bs"
    "snd (deleteRemoteOne (pService su) v source bs q (attemptKey rec)) = w'"
proof -
  note k = sourceKept_start[OF assms(2)]
  have nro: "\<not> bk_ReadOnly bs"
    using source_kept_calls[OF ps.stages_keep[OF assms(1) k]] assms(3) by blast
  from assms(1) show thesis
  proof (cases rule: stages_split)
    case 1
    from source_kept_calls[OF ps.acquireStages_keep[OF 1 k]] assms(3) show thesis by blast
  next
    case (2 v q)
    note v = ps.acquireStages_keep[OF 2(1) k]
    from 2(2) nro show thesis
    proof (cases rule: stageSource_split)
      case 1
      with source_kept_calls[OF v] assms(3) show thesis by blast
    next
      case 2
      have "\<not> pCancelled v" using 2(1) unfolding cancelled_def pDeps_sel .
      from that[OF v this nro 2(2)[symmetric]] show thesis .
    qed
  qed
qed

lemma pRemote_wired [simp]: "pd.wired (pRemoteDeps su)"
  by (simp add: pd.wired_def pd.usedBy_def)

lemma pIntent_remote:
  assumes "recordIntent (pRemoteDeps su) w req current = (err, w')"
  shows "pw_remote w' = pw_remote w"
  using assms pRecord_db
  by (fastforce simp: recordIntent_def Advance_def Let_def split: if_splits option.splits prod.splits sum.splits)

text \<open>Whatever fails, one call of \<open>processArtifact\<close> makes at most one delete call, never for a read-only
  set and never once the context has ended, and only from a moment at which the row read COMMITTED or
  REMOTE_DELETE_PENDING with no reinstatement behind it, its local file passed the check, its completion gate
  was open and the object was still the one discovered; the intent is then on record.\<close>

theorem pipeline_delete_guarded:
  assumes "wfJournal (pw_db w)" "processArtifact (pService su) source bs w rec = Some (st, w')" "pw_calls w' \<noteq> pw_calls w"
  shows "\<not> bk_ReadOnly bs \<and> (\<exists>v req row discovered remote.
    \<not> pCancelled v \<and> Get (pw_db v) (dq_Artifact req) = Inr row \<and> r_State row \<in> {Committed, RemoteDeletePending} \<and>
    set reinstatementEdges \<inter> set (history (pw_db v) (dq_Artifact req)) = {} \<and>
    verifyLocalFinal (pRemoteDeps su) v row = None \<and> checkCompletion (pRemoteDeps su) pJournal v req = None \<and>
    discoveredIdentity row = Inr discovered \<and> pw_remote w (source, r_RemotePath row) = Some remote \<and>
    \<not> Preserve (CompareIdentity discovered (currentIdentity (fst remote))) \<and>
    pw_calls w' = pw_calls w @ [(source, r_RemotePath row)] \<and>
    LastEnteredAt (pw_db w') (dq_Artifact req) RemoteDeletePending \<noteq> None)"
proof -
  obtain x where x: "stages (pService su) source bs w rec = Some (x, w')"
    using processArtifact_stages[OF assms(2)] by blast
  obtain v q where v: "sourceKept (pw_db w) (pw_calls w) (pw_remote w) v" "\<not> pCancelled v" "\<not> bk_ReadOnly bs"
    "snd (deleteRemoteOne (pService su) v source bs q (attemptKey rec)) = w'"
    by (rule stages_delete[OF x assms(1,3)])
  define req where "req = \<lparr>dq_Source = source, dq_Artifact = r_Artifact q, dq_AttemptKey = attemptKey rec @ '':delete'',
        dq_CompletionStrategy = bk_Strategy bs, dq_DeleteSafetyDelay = bk_DeleteSafetyDelay bs\<rparr>"
  obtain res where d: "DeleteRemote (pRemoteDeps su) v req = (res, w')"
    using v(4) unfolding deleteRemoteOne_def req_def[symmetric] pDeps_sel by (metis prod.collapse)
  have src: "dq_Source req = source" by (simp add: req_def)
  have inv: "pInv v" and c0: "pw_calls v = pw_calls w" "pw_remote v = pw_remote w" using v(1) by (simp_all add: sourceKept_def)
  note st = pd.DeleteRemote_step[OF inv pRemote_wired d]
  from st assms(3) c0 obtain row w1 where
    r: "revalidate (pRemoteDeps su) pJournal v req = Inr row"
    and i: "recordIntent (pRemoteDeps su) v req (r_State row) = (None, w1)"
    and c: "confirmed pTransport w1 req row"
    and calls: "pw_calls w' = pw_calls w @ [(source, r_RemotePath row)]"
    and p: "RemoteDeletePending \<in> set (map snd (pHist w1 (dq_Artifact req)))"
    and g: "grows pHist w1 w' (dq_Artifact req) deleteEdges"
    by (auto simp: src)
  from c obtain discovered remote where c': "discoveredIdentity row = Inr discovered"
    "pw_remote w (source, r_RemotePath row) = Some remote"
    "\<not> Preserve (CompareIdentity discovered (currentIdentity (fst remote)))"
    by (auto simp: confirmed_def pTransport_def pIntent_remote[OF i] c0 src split: option.splits)
  have "LastEnteredAt (pw_db w') (dq_Artifact req) RemoteDeletePending \<noteq> None"
    using st grows_mem[OF g p] by (intro entered_LastEnteredAt) (simp_all add: pInv_def pHist_def)
  moreover have "set reinstatementEdges \<inter> set (history (pw_db v) (dq_Artifact req)) = {}"
    using pd.reinstated_never_cleared[OF inv r] by (simp add: pHist_def)
  moreover from r have "Get (pw_db v) (dq_Artifact req) = Inr row" "r_State row \<in> {Committed, RemoteDeletePending}"
    "verifyLocalFinal (pRemoteDeps su) v row = None" "checkCompletion (pRemoteDeps su) pJournal v req = None"
    by (simp_all add: revalidate_Inr_iff)
  ultimately show ?thesis using v(2,3) calls c' by blast
qed

section \<open>A copy\<close>

text \<open>Names point to inodes already made.\<close>

definition namesOld :: "PWorld \<Rightarrow> bool" where
  "namesOld w \<longleftrightarrow> (\<forall>q i. pw_dir w q = Some i \<longrightarrow> i < pw_next w)"

definition othersKept :: "string \<Rightarrow> (string \<Rightarrow> string option) \<Rightarrow> PWorld \<Rightarrow> bool" where
  "othersKept partial files w \<longleftrightarrow> namesOld w \<and> (\<forall>q. q \<noteq> partial \<longrightarrow> fileAt w q = files q)"

lemma othersKept_stable: "pStable (othersKept partial files)"
  by (simp add: pStable_def othersKept_def namesOld_def fileAt_def)

lemma othersKept_new: "othersKept partial files v \<Longrightarrow> othersKept partial files (pNewFile partial b v)"
  by (auto simp: othersKept_def namesOld_def fileAt_def pNewFile_def less_SucI split: option.splits)
    (metis (mono_tags, lifting) fun_upd_other less_irrefl option.map_cong option.set_cases)+

lemma othersKept_copied:
  "pEffect w (pNewFile partial b) e = (r, w') \<Longrightarrow> othersKept partial files w \<Longrightarrow> othersKept partial files w'"
  by (rule pEffect_keeps[OF _ othersKept_stable _ othersKept_new])

lemma othersKept_gone: "othersKept partial files v \<Longrightarrow> othersKept partial files (pSetName partial None v)"
  by (auto simp: othersKept_def namesOld_def fileAt_def pSetName_def)

interpretation px: copying "pTransfer su" partial "othersKept partial files" for su partial files
proof unfold_locales
  fix ops :: "PWorld JournalOps" and w t jr w'
  assume "d_Journal (xd_Deps (pTransfer su)) = Some ops" "othersKept partial files w" "jo_RecordTransition ops w t = (jr, w')"
  then have "pRecord w t = (jr, w')" "othersKept partial files w" by auto
  then show "othersKept partial files w'"
    by (auto simp: pRecord_def othersKept_def namesOld_def fileAt_def pEffect_def pTick_def split: prod.splits fault.splits)
next
  fix w and rr :: "pathError option" and w' assume "othersKept partial files w" "xd_Remove (pTransfer su) w partial = (rr, w')"
  then show "othersKept partial files w'"
    by (auto simp: pTransfer_def pRemove_def split: option.splits dest: pEffect_keeps[OF _ othersKept_stable] intro: othersKept_gone)
next
  fix tr :: "PWorld CopyTransport" and w s r cr w'
  assume "xd_Transport (pTransfer su) = Some tr" "othersKept partial files w" "ct_CopyToLocal tr w s r partial = (cr, w')"
  then show "othersKept partial files w'"
    by (auto simp: pTransfer_def pCopy_def Let_def split: if_splits option.splits prod.splits
        dest: othersKept_copied)
next
  fix w b w' assume "othersKept partial files w" "xd_Wait (pTransfer su) w = (b, w')"
  then show "othersKept partial files w'" by (auto simp: pTransfer_def othersKept_def namesOld_def fileAt_def)
qed

text \<open>A transfer writes nothing but the artifact's own \<open>.partial\<close> file: every other file of the disk, the
  committed artifacts and other artifacts' partial files among them, is as it was, however the copy,
  its retries and the journal fail.\<close>

theorem transfer_touches_only_partial:
  assumes "namesOld w" "Transfer (pTransfer su) w p = Some (r, w')"
    and "partialPath (xp_LocalDir p) (xp_Artifact p) = Inr partial" "q \<noteq> partial"
  shows "fileAt w' q = fileAt w q"
proof -
  have "othersKept partial (fileAt w) w" using assms(1) by (simp add: othersKept_def)
  from px.Transfer_keeps[OF this assms(2,3)] assms(4) show ?thesis by (simp add: othersKept_def)
qed

interpretation pm: measured "pTransfer su" fileAt for su
proof unfold_locales
  fix ops :: "PWorld JournalOps" and w t jr w'
  assume "d_Journal (xd_Deps (pTransfer su)) = Some ops" "jo_RecordTransition ops w t = (jr, w')"
  then have "pRecord w t = (jr, w')" by auto
  from pRecord_db[OF this] show "fileAt w' = fileAt w" by (auto simp: fileAt_def)
qed (auto simp: pTransfer_def pStatLocal_def split: option.splits)


section \<open>A verdict\<close>

text \<open>A verification reads the disk and the remote and writes neither.\<close>

definition sameBytes :: "(string \<Rightarrow> string option) \<Rightarrow> (string \<times> string \<Rightarrow> (RemoteArtifact \<times> string) option) \<Rightarrow> PWorld \<Rightarrow> bool" where
  "sameBytes files rm w \<longleftrightarrow> fileAt w = files \<and> pw_remote w = rm"

lemma sameBytes_tick [simp]: "sameBytes files rm (pTick w) = sameBytes files rm w"
  by (simp add: sameBytes_def fileAt_def[abs_def] pTick_def)

interpretation pv: verifying "pVerify su" "sameBytes files rm" for su files rm
proof unfold_locales
  fix ops :: "PWorld JournalOps" and w t jr w'
  assume "d_Journal (xd_Deps (vd_Common (pVerify su))) = Some ops" "sameBytes files rm w" "jo_RecordTransition ops w t = (jr, w')"
  then have "pRecord w t = (jr, w')" "sameBytes files rm w" by auto
  with pRecord_db show "sameBytes files rm w'" by (auto simp: sameBytes_def fileAt_def[abs_def])
next
  fix tr :: "PWorld CopyTransport" and w s r hr w'
  assume "xd_Transport (vd_Common (pVerify su)) = Some tr" "sameBytes files rm w" "ct_RemoteHash tr w s r = (hr, w')"
  then show "sameBytes files rm w'"
    by (auto simp: pTransfer_def pHash_def pEffect_def split: option.splits prod.splits fault.splits)
next
  fix w b w' assume "sameBytes files rm w" "xd_Wait (vd_Common (pVerify su)) w = (b, w')"
  then show "sameBytes files rm w'" by (auto simp: pTransfer_def sameBytes_def fileAt_def[abs_def])
next
  fix w cmd q vr w' assume "sameBytes files rm w" "vd_Run (pVerify su) w cmd q = (vr, w')"
  then show "sameBytes files rm w'" by (auto simp: pVerify_def pRun_def)
qed

lemma RecordTransition_state:
  assumes wf: "wfJournal j" and r: "RecordTransition j t = (Inr out, j')" and a: "o_Applied out"
  shows "r_State (o_Record out) = t_To t"
  using r
proof (cases rule: RecordTransition_cases)
  case same
  with a show ?thesis by simp
next
  case (new out')
  have to: "t_To t \<noteq> noState" using validateTransition_None[OF new(1)] by simp
  from applyTransition_Inr[OF wf new(2) to new(3)] obtain row j1 where
    g: "(if t_From t = noState then insertArtifact j t else updateArtifact j t) = Inr (row, j1)"
    and j: "j_artifacts j' = j_artifacts j1" "j_log j' = j_log (appendLog j1 row t)" "wfJournal j'"
    and o: "getByRowID j' row = Inr (o_Record out')" by metis
  from logged_history[OF wf g j(1,2)] obtain r where r: "findArtifact j' (t_Artifact t) = Some (row, r)" "r_State r = t_To t" by blast
  from o obtain r0 where r0: "find (\<lambda>ar. fst ar = row) (j_artifacts j') = Some (row, r0)"
    "o_Record out' = withPlacements j' row r0" by (rule getByRowID_scan)
  have "(row, r) \<in> set (j_artifacts j')" "(row, r0) \<in> set (j_artifacts j')"
    using findArtifact_Some[OF r(1)] find_SomeD[OF r0(1)] by simp_all
  moreover have "distinct (map fst (j_artifacts j'))" using j(3) by (simp add: wfJournal_def)
  ultimately have "r0 = r" by (metis eq_key_imp_eq_value)
  with r(2) r0(2) new(4) show ?thesis by (simp add: withPlacements_def)
qed

lemma pHash_value:
  "pHash su w s r = (Inr h, w') \<Longrightarrow> \<exists>a b. pw_remote w (s, r) = Some (a, b) \<and> h = ps_Digest su b"
  by (auto simp: pHash_def split: option.splits prod.splits)

lemma pRun_accepted:
  "pRun su w cmd q = (run, w') \<Longrightarrow> vr_Error run = None \<Longrightarrow> ps_Accepts su cmd (fileAt w q)"
  by (auto simp: pRun_def split: fault.splits if_splits)

lemma pVerify_sel [simp]:
  "vd_Run (pVerify su) = pRun su" "vd_Digest (pVerify su) = ps_Digest su" "vd_Fold (pVerify su) = ps_Fold su"
  "xd_Transport (pTransfer su) = Some \<lparr>ct_CopyToLocal = pCopy, ct_RemoteHash = pHash su\<rparr>"
  "xd_Stat (pTransfer su) = pStatLocal"
  by (simp_all add: pVerify_def pTransfer_def)

lemma passed_world:
  assumes p: "passed (pVerify su) (sameBytes (fileAt w) (pw_remote w)) w s rec cfg v"
  shows "\<exists>content. fileAt w (r_LocalPath rec) = Some content \<and> expectedSize rec = Some (int (length content)) \<and>
    (va_Hash cfg = [] \<or> va_Hash cfg = SHA256Alg \<and>
       (\<exists>a b. pw_remote w (s, r_RemotePath rec) = Some (a, b) \<and> ps_Digest su b \<noteq> [] \<and>
          equalFold (ps_Fold su) (ps_Digest su b) (ps_Digest su content))) \<and>
    (case va_Command cfg of
       None \<Rightarrow> va_ValidatorID cfg = [] | Some cmd \<Rightarrow> ps_Accepts su cmd (Some content))"
proof -
  from p obtain content where c: "vd_ReadLocal (pVerify su) w (r_LocalPath rec) = Inr content" "expectedSize rec = Some (int (length content))"
    and h: "va_Hash cfg = [] \<or> va_Hash cfg = SHA256Alg \<and>
       (\<exists>tr v0 v1 h. xd_Transport (pTransfer su) = Some tr \<and> sameBytes (fileAt w) (pw_remote w) v0 \<and>
          ct_RemoteHash tr v0 s (r_RemotePath rec) = (Inr h, v1) \<and> h \<noteq> [] \<and> equalFold (ps_Fold su) h (ps_Digest su content))"
    and k: "case va_Command cfg of None \<Rightarrow> va_ValidatorID cfg = []
       | Some cmd \<Rightarrow> \<exists>v0 run v1. sameBytes (fileAt w) (pw_remote w) v0 \<and> pRun su v0 cmd (r_LocalPath rec) = (run, v1) \<and> vr_Error run = None"
    unfolding passed_def pVerify_sel pDeps_sel by blast
  have f: "fileAt w (r_LocalPath rec) = Some content" using c(1) by (auto simp: pVerify_def split: option.splits)
  from h have "va_Hash cfg = [] \<or> va_Hash cfg = SHA256Alg \<and>
       (\<exists>a b. pw_remote w (s, r_RemotePath rec) = Some (a, b) \<and> ps_Digest su b \<noteq> [] \<and>
          equalFold (ps_Fold su) (ps_Digest su b) (ps_Digest su content))"
    by (auto simp: sameBytes_def dest!: pHash_value)
  moreover from k f have "case va_Command cfg of None \<Rightarrow> va_ValidatorID cfg = [] | Some cmd \<Rightarrow> ps_Accepts su cmd (Some content)"
    by (cases "va_Command cfg") (auto simp: sameBytes_def dest: pRun_accepted)
  ultimately show ?thesis using c(2) f by blast
qed

text \<open>C6: VERIFIED is earned.  When a verification applies VERIFIED to an artifact's row, then at that moment the
  local file had the size the transfer recorded; if the set asks for sha256, the remote object's bytes
  had a digest, the local file's own; a configured validator accepted those very bytes, and a validator
  that is named but was never resolved is not taken for none; an unknown hash policy never passes.\<close>

theorem verified_passed_every_check:
  assumes wf: "wfJournal (pw_db w)" and rec: "Get (pw_db w) (vp_Artifact p) = Inr rec"
    and v: "Verify (pVerify su) w p = Some (Inr out, w')" "o_Applied out" "r_State (o_Record out) = Verified"
  shows "\<exists>content. fileAt w (r_LocalPath rec) = Some content \<and> expectedSize rec = Some (int (length content)) \<and>
    (va_Hash (vp_Validation p) = [] \<or> va_Hash (vp_Validation p) = SHA256Alg \<and>
       (\<exists>a b. pw_remote w (vp_Source p, r_RemotePath rec) = Some (a, b) \<and> ps_Digest su b \<noteq> [] \<and>
          equalFold (ps_Fold su) (ps_Digest su b) (ps_Digest su content))) \<and>
    (case va_Command (vp_Validation p) of
       None \<Rightarrow> va_ValidatorID (vp_Validation p) = [] | Some cmd \<Rightarrow> ps_Accepts su cmd (Some content))"
proof -
  let ?d = "pVerify su" and ?P = "sameBytes (fileAt w) (pw_remote w)"
  have P: "?P w" by (simp add: sameBytes_def)
  have K: "sourceKept (pw_db w) (pw_calls w) (pw_remote w) w" using sourceKept_start[OF wf] .
  have applied: "t_To t = Verified" if A: "Advance pDeps w1 t = (Inr out, w')" and i: "wfJournal (pw_db w1)" for w1 t
  proof -
    from A obtain t' where r: "pRecord w1 t' = (Inr out, w')" "t_To t' = t_To t"
      by (auto simp: Advance_def Let_def mapErr_Inr_iff split: if_splits option.splits prod.splits)
    then obtain j' where "RecordTransition (pw_db w1) t' = (Inr out, j')"
      using pRecord_db[OF r(1)] by (metis Inl_not_Inr isl_def prod.collapse sum.collapse(2) sum.disc(2))
    from RecordTransition_state[OF i this v(2)] v(3) r(2) show ?thesis by simp
  qed
  from v(1) show ?thesis
  proof (cases rule: Verify_Inr)
    case (1 rec' w1 vo)
    have rec': "rec' = rec" using 1(1) rec by (simp add: journalGet_def)
    have "wfJournal (pw_db w1)" using ps.vf.decide_keeps[of _ _ _ _ su, OF K] 1(2) by (simp add: sourceKept_def pInv_def)
    with applied[of w1 "verdictTransition ?d p rec' vo"] 1(3) have "vo_To vo = Verified"
      by (simp add: verdictTransition_def emptyTransition_def)
    from passed_world[OF pv.decide_Verified[OF P 1(2) this]] rec' show ?thesis by simp
  next
    case (2 rec' w1 cause t)
    have "wfJournal (pw_db w1)" using ps.vf.decide_keeps[of _ _ _ _ su, OF K] 2(2) by (simp add: sourceKept_def pInv_def)
    with applied[of w1 t] 2(7,4) show ?thesis by simp
  qed
qed

end
