(* ===== verification/PipelineRuns.thy ===== *)
theory PipelineRuns
  imports PipelineWorld
begin

text \<open>
  Concrete passes over one artifact: the script interrupts a copy, corrupts one, or lets everything
  work, and the code runs to its end; the properties of the pipeline are applied to these runs.
\<close>

section \<open>The runs\<close>

definition itemID :: ArtifactID where
  "itemID = \<lparr>ar_Set = \<lparr>bs_Source = ''s'', bs_Set = ''b''\<rparr>, ar_Name = ''d''\<rparr>"

definition itemObject :: RemoteArtifact where
  "itemObject =
     \<lparr>ra_Path = ''/r/d'', ra_Size = 5, ra_ModTime = 1000, ra_Hash = ''c0de'', ra_HashAlg = ''sha1'', ra_ID = [], ra_Kind = []\<rparr>"

definition passSetup :: PSetup where
  "passSetup =
     \<lparr>ps_Digest = id, ps_Encode = mf_ArtifactName, ps_Fold = (\<lambda>_ _. False), ps_Refusal = (\<lambda>_ _. ''refused''),
      ps_Verdict = (\<lambda>_. ''verdict''), ps_Statfs = \<lparr>fs_Bsize = 1, fs_Blocks = 5000, fs_Bfree = 4000, fs_Bavail = 3000\<rparr>,
      ps_Accepts = (\<lambda>_ b. b = Some ''bytes''), ps_Capacity = capExample, ps_MaxAttempts = 3\<rparr>"

definition passStart :: "(fault \<times> string option) list \<Rightarrow> PWorld" where
  "passStart script =
     \<lparr>pw_db = snd (Discover (emptyJournal id) itemID ''k'' ''/r/d''
         (emptyRemote\<lparr>rf_Size := Some 5, rf_Hash := ''c0de'', rf_HashAlg := ''sha1''\<rparr>) 1),
      pw_dir = (\<lambda>q. if q = ''/b/other'' then Some 0 else None), pw_data = (\<lambda>_. ''other''), pw_next = 1,
      pw_remote = (\<lambda>_. Some (itemObject, ''bytes'')), pw_calls = [], pw_clock = 10, pw_steps = 0, pw_stopAt = None,
      pw_script = script\<rparr>"

text \<open>The first copy is lost after two bytes.\<close>

definition interrupted :: PWorld where
  "interrupted = passStart [(Works, None), (Works, None), (FailsAfter, Some ''by'')]"

text \<open>The same where only the transfer runs.\<close>

definition cutShort :: PWorld where "cutShort = passStart [(Works, None), (FailsAfter, Some ''by'')]"

text \<open>The copy has the right size and the wrong bytes.\<close>

definition corrupted :: PWorld where
  "corrupted = passStart [(Works, None), (Works, None), (Works, Some ''other'')]"

definition passSet :: "bool \<Rightarrow> BackupSet" where
  "passSet ro =
     \<lparr>bk_LocalPath = ''/b'', bk_Validation = \<lparr>va_Hash = ''sha256'', va_ValidatorID = [], va_Command = None\<rparr>,
      bk_Strategy = ''rename'', bk_DeleteSafetyDelay = 0, bk_ReadOnly = ro\<rparr>"

definition itemRecord :: "PWorld \<Rightarrow> Record" where
  "itemRecord w = projr (Get (pw_db w) itemID)"

definition validatedSet :: BackupSet where
  "validatedSet = (passSet False)\<lparr>bk_Validation := \<lparr>va_Hash = [], va_ValidatorID = ''v'',
     va_Command = Some \<lparr>cmd_Executable = ''v'', cmd_Timeout = 1\<rparr>\<rparr>\<rparr>"

definition process :: "BackupSet \<Rightarrow> PWorld \<Rightarrow> (State \<times> PWorld) option" where
  "process bs w = processArtifact (pService passSetup) ''s'' bs w (itemRecord w)"

definition onePass :: "bool \<Rightarrow> PWorld \<Rightarrow> (artifactWalk \<times> PWorld) option" where
  "onePass ro w = processArtifacts (pService passSetup) ''s'' (passSet ro) w [itemRecord w]"

definition itemEnd :: "PWorld \<Rightarrow> State option \<times> string option \<times> string option \<times> bool \<times> (string \<times> string) list" where
  "itemEnd w =
     ((case Get (pw_db w) itemID of Inr rec \<Rightarrow> Some (r_State rec) | Inl _ \<Rightarrow> None),
      fileAt w ''/b/d'', fileAt w ''/b/d.partial'', pw_remote w (''s'', ''/r/d'') = None, pw_calls w)"

declare retryFrom.simps [code]

lemma wf_passStart: "wfJournal (pw_db (passStart script))"
  unfolding passStart_def using Discover_step[OF wfJournal_empty] by (metis PWorld.select_convs(1) prod.collapse)

text \<open>Every copy is lost after two bytes.\<close>

definition gaveUp :: PWorld where
  "gaveUp = passStart [(Works, None), (Works, None), (FailsAfter, Some ''by''), (FailsAfter, Some ''by''), (FailsAfter, Some ''by'')]"

text \<open>The sixth effect would have started the validator.\<close>

definition unstartable :: PWorld where
  "unstartable = passStart (replicate 5 (Works, None) @ [(FailsBefore, None)])"

definition transferItem :: TransferParams where
  "transferItem = \<lparr>xp_Artifact = itemID, xp_Source = ''s'', xp_LocalDir = ''/b'', xp_AttemptKey = ''t'', xp_MaxAttempts = 3\<rparr>"

definition verifyItem :: VerifyParams where
  "verifyItem = \<lparr>vp_Artifact = itemID, vp_Source = ''s'',
     vp_Validation = \<lparr>va_Hash = ''sha256'', va_ValidatorID = ''v'', va_Command = Some \<lparr>cmd_Executable = ''v'', cmd_Timeout = 1\<rparr>\<rparr>,
     vp_AttemptKey = ''v'', vp_StallBudget = 3\<rparr>"

definition copied :: "PWorld \<Rightarrow> bool \<times> PWorld" where
  "copied w = (case Transfer (pTransfer passSetup) w transferItem of Some (r, w') \<Rightarrow> (isOk r, w') | None \<Rightarrow> (False, w))"

definition toVerify :: "PWorld \<Rightarrow> PWorld" where
  "toVerify w = snd (Advance pDeps (snd (copied w)) (emptyTransition itemID ''y'' Transferred Verifying))"



text \<open>What is evaluated of a run.\<close>

definition processed :: "BackupSet \<Rightarrow> PWorld \<Rightarrow>
    ((State option \<times> string option \<times> string option \<times> bool \<times> (string \<times> string) list) \<times> (journalError + int)) option" where
  "processed bs w = map_option (\<lambda>(_, w'). (itemEnd w', LocalBytesInUse (pw_db w') StatesHoldingLocalCopy)) (process bs w)"

lemma interrupted_done:
  "processed (passSet False) interrupted = Some ((Some Complete, Some ''bytes'', None, True, [(''s'', ''/r/d'')]), Inr 5)"
  by code_simp

lemma interrupted_retained:
  "map_option (\<lambda>(aw, w'). (aw_Durable aw, itemEnd w')) (onePass True interrupted) =
     Some (1, Some RemoteRetained, Some ''bytes'', None, False, [])"
  by code_simp

lemma cut_copied: "fst (copied cutShort) \<and> itemEnd (snd (copied cutShort)) = (Some Transferred, None, Some ''bytes'', False, [])"
  by code_simp

lemma cut_verified:
  "map_option (\<lambda>(r, w'). case r of Inl _ \<Rightarrow> None | Inr out \<Rightarrow> Some (o_Applied out, r_State (o_Record out)))
     (Verify (pVerify passSetup) (toVerify cutShort) verifyItem) = Some (Some (True, Verified)) \<and>
   isOk (Get (pw_db (toVerify cutShort)) itemID) \<and> isOk (Get (pw_db cutShort) itemID)"
  by code_simp

section \<open>The properties at the runs\<close>

theorem pass_returns_witness:
  "\<exists>aw w'. processArtifacts (pService passSetup) ''s'' (passSet True) interrupted [itemRecord interrupted] = Some (aw, w') \<and>
    aw_Durable aw = 1 \<and> aw_Durable aw \<le> aw_Walked aw \<and>
    aw_Walked aw \<le> length (filter (acquiring \<circ> r_State) [itemRecord interrupted])"
proof -
  have "0 < sv_MaxAttempts (pService passSetup)" by (simp add: pService_def passSetup_def)
  from pass_returns[OF this, of "''s''" "passSet True" interrupted "[itemRecord interrupted]"] interrupted_retained
  show ?thesis by (auto simp: onePass_def)
qed

theorem read_only_keeps_source_witness:
  "\<exists>aw w'. onePass True interrupted = Some (aw, w') \<and> aw_Durable aw = 1 \<and>
    pw_calls w' = pw_calls interrupted \<and> pw_remote w' = pw_remote interrupted"
proof -
  obtain aw w' where r: "onePass True interrupted = Some (aw, w')" "aw_Durable aw = 1" using interrupted_retained by auto
  have "wfJournal (pw_db interrupted)" "bk_ReadOnly (passSet True)" by (simp_all add: interrupted_def wf_passStart passSet_def)
  from read_only_keeps_source[OF this r(1)[unfolded onePass_def]] r show ?thesis by blast
qed

theorem pipeline_delete_guarded_witness:
  "\<exists>st w' artifact (row :: Record). process (passSet False) interrupted = Some (st, w') \<and> pw_calls w' = [(''s'', r_RemotePath row)] \<and>
    r_State row \<in> {Committed, RemoteDeletePending} \<and> LastEnteredAt (pw_db w') artifact RemoteDeletePending \<noteq> None"
proof -
  obtain st w' where r: "process (passSet False) interrupted = Some (st, w')" "pw_calls w' = [(''s'', ''/r/d'')]"
    using interrupted_done by (auto simp: processed_def itemEnd_def)
  have c: "pw_calls interrupted = []" by (simp add: interrupted_def passStart_def)
  have w: "wfJournal (pw_db interrupted)" by (simp add: interrupted_def wf_passStart)
  have "pw_calls w' \<noteq> pw_calls interrupted" using r(2) c by simp
  from pipeline_delete_guarded[OF w r(1)[unfolded process_def] this, unfolded c append_Nil] r(1)
  show ?thesis by blast
qed

lemma cut_transfer:
  obtains out w' where "Transfer (pTransfer passSetup) cutShort transferItem = Some (Inr out, w')" "w' = snd (copied cutShort)"
  using cut_copied that by (auto simp: copied_def isl_def split: option.splits prod.splits) (metis Inl_not_Inr sum.exhaust)?

lemma transferItem_partial: "partialPath (xp_LocalDir transferItem) (xp_Artifact transferItem) = Inr ''/b/d.partial''"
  by code_simp

theorem transfer_touches_only_partial_witness:
  "fileAt (snd (copied cutShort)) ''/b/other'' = Some ''other'' \<and> fileAt (snd (copied cutShort)) ''/b/d.partial'' = Some ''bytes''"
proof -
  obtain r w' where t: "Transfer (pTransfer passSetup) cutShort transferItem = Some (Inr r, w')" "w' = snd (copied cutShort)"
    by (rule cut_transfer)
  have n: "namesOld cutShort" by (simp add: namesOld_def cutShort_def passStart_def)
  have "fileAt w' ''/b/other'' = fileAt cutShort ''/b/other''"
    by (rule transfer_touches_only_partial[OF n t(1) transferItem_partial]) simp
  moreover have "fileAt cutShort ''/b/other'' = Some ''other''" by (simp add: fileAt_def cutShort_def passStart_def)
  ultimately show ?thesis using t(2) cut_copied by (simp add: itemEnd_def)
qed


lemma toVerify_wf: "wfJournal (pw_db (toVerify cutShort))"
proof -
  let ?P = "sourceKept (pw_db cutShort) (pw_calls cutShort) (pw_remote cutShort)"
  have P: "?P cutShort" by (rule sourceKept_start) (simp add: cutShort_def wf_passStart)
  have "?P (snd (copied cutShort))" unfolding copied_def
    using ps.cp.Transfer_keeps[OF P _ transferItem_partial, unfolded pDeps_sel] P
    by (auto split: option.split prod.split)
  then have "?P (toVerify cutShort)" unfolding toVerify_def
    using ps.vf.Advance_keeps[unfolded pDeps_sel] by (metis prod.collapse)
  then show ?thesis by (simp add: sourceKept_def pInv_def)
qed

theorem verified_passed_every_check_witness:
  "\<exists>rec a b. Get (pw_db (toVerify cutShort)) itemID = Inr rec \<and>
    fileAt (toVerify cutShort) (r_LocalPath rec) = Some ''bytes'' \<and>
    pw_remote (toVerify cutShort) (''s'', r_RemotePath rec) = Some (a, b) \<and>
    equalFold (ps_Fold passSetup) (ps_Digest passSetup b) (ps_Digest passSetup ''bytes'')"
proof -
  obtain rec where rec: "Get (pw_db (toVerify cutShort)) itemID = Inr rec"
    using cut_verified by (cases "Get (pw_db (toVerify cutShort)) itemID") auto
  obtain out w' where v: "Verify (pVerify passSetup) (toVerify cutShort) verifyItem = Some (Inr out, w')"
      "o_Applied out" "r_State (o_Record out) = Verified"
  proof (cases "Verify (pVerify passSetup) (toVerify cutShort) verifyItem")
    case (Some x)
    with cut_verified that show ?thesis by (cases "fst x") (cases x; simp)+
  qed (use cut_verified in simp)
  have "Get (pw_db (toVerify cutShort)) (vp_Artifact verifyItem) = Inr rec" using rec by (simp add: verifyItem_def)
  from verified_passed_every_check[OF toVerify_wf this v] rec show ?thesis
    by (auto simp: verifyItem_def passSetup_def)
qed

text \<open>FAILED rows keep bytes the cap does not see.  A copy whose every attempt was cut short is FAILED with
  its \<open>.partial\<close> on the disk (the file is cleared once before the attempts and not after them), a whole copy
  whose validator could not be started is FAILED with all of it on the disk; FAILED is classed as holding
  no local copy, so the usage the capacity guard works with is zero in both.\<close>

lemma failed_copy_run:
  "(processed (passSet False) gaveUp, processed validatedSet unstartable) =
     (Some ((Some Failed, None, Some ''by'', False, []), Inr 0),
      Some ((Some Failed, None, Some ''bytes'', False, []), Inr 0))"
  by code_simp

end
