(* ===== verification/Glob.thy ===== *)
theory Glob
  imports Prelude
begin

text \<open>
  \<open>path.Match\<close> of the standard library, which decides what a backup set includes
  (\<open>core/internal/discovery/complete.go\<close>, \<open>includeMatches\<close>): chunks of single-character operators between
  stars, matched greedily from the left over UTF-8 runes.  A malformed pattern is \<open>None\<close>.
\<close>

section \<open>Runes\<close>

definition runeError :: nat where "runeError = 0xFFFD"

definition continuation :: "nat \<Rightarrow> bool" where "continuation b = (0x80 \<le> b \<and> b \<le> 0xBF)"

text \<open>The bytes that may follow the first one: overlong forms, surrogates and what is above U+10FFFF are excluded here.\<close>

definition secondByte :: "nat \<Rightarrow> nat \<Rightarrow> bool" where
  "secondByte b0 b =
     (if b0 = 0xE0 then 0xA0 \<le> b \<and> b \<le> 0xBF
      else if b0 = 0xED then 0x80 \<le> b \<and> b \<le> 0x9F
      else if b0 = 0xF0 then 0x90 \<le> b \<and> b \<le> 0xBF
      else if b0 = 0xF4 then 0x80 \<le> b \<and> b \<le> 0x8F
      else continuation b)"

fun decodeBytes :: "nat list \<Rightarrow> nat \<times> nat" where
  "decodeBytes [] = (runeError, 0)"
| "decodeBytes (b0 # bs) =
     (if b0 < 0x80 then (b0, 1)
      else if 0xC2 \<le> b0 \<and> b0 \<le> 0xDF then
        (case bs of
           b1 # _ \<Rightarrow> if secondByte b0 b1 then ((b0 - 0xC0) * 64 + (b1 - 0x80), 2) else (runeError, 1)
         | _ \<Rightarrow> (runeError, 1))
      else if 0xE0 \<le> b0 \<and> b0 \<le> 0xEF then
        (case bs of
           b1 # b2 # _ \<Rightarrow>
             if secondByte b0 b1 \<and> continuation b2
             then ((b0 - 0xE0) * 4096 + (b1 - 0x80) * 64 + (b2 - 0x80), 3) else (runeError, 1)
         | _ \<Rightarrow> (runeError, 1))
      else if 0xF0 \<le> b0 \<and> b0 \<le> 0xF4 then
        (case bs of
           b1 # b2 # b3 # _ \<Rightarrow>
             if secondByte b0 b1 \<and> continuation b2 \<and> continuation b3
             then ((b0 - 0xF0) * 262144 + (b1 - 0x80) * 4096 + (b2 - 0x80) * 64 + (b3 - 0x80), 4) else (runeError, 1)
         | _ \<Rightarrow> (runeError, 1))
      else (runeError, 1))"

definition decodeRune :: "string \<Rightarrow> nat \<times> nat" where
  "decodeRune s = decodeBytes (map of_char (take 4 s))"

lemma decodeRune_step: "s \<noteq> [] \<Longrightarrow> 0 < snd (decodeRune s)"
  by (cases s) (auto simp: decodeRune_def split: list.split)

section \<open>One chunk\<close>

definition getEsc :: "string \<Rightarrow> (nat \<times> string) option" where
  "getEsc chunk =
     (if chunk = [] \<or> hd chunk = CHR ''-'' \<or> hd chunk = CHR '']'' then None
      else
        let c = (if hd chunk = CHR 0x5C then tl chunk else chunk) in
        if c = [] then None
        else
          let (r, n) = decodeRune c; rest = drop n c in
          if r = runeError \<and> n = 1 \<or> rest = [] then None else Some (r, rest))"

lemma getEsc_shorter: "getEsc chunk = Some (r, rest) \<Longrightarrow> length rest < length chunk \<and> rest \<noteq> []"
  using decodeRune_step[of chunk] decodeRune_step[of "tl chunk"]
  by (cases chunk) (auto simp: getEsc_def Let_def split: if_splits prod.splits)

text \<open>The ranges of a class up to its closing bracket: whether one holds the rune, and the rest of the chunk.\<close>

function classRanges :: "nat \<Rightarrow> string \<Rightarrow> bool \<Rightarrow> nat \<Rightarrow> (bool \<times> string) option" where
  "classRanges r chunk hit n =
     (if chunk \<noteq> [] \<and> hd chunk = CHR '']'' \<and> 0 < n then Some (hit, tl chunk)
      else (case getEsc chunk of
          None \<Rightarrow> None
        | Some (lo, c1) \<Rightarrow>
          (case (if hd c1 = CHR ''-'' then getEsc (tl c1) else Some (lo, c1)) of
             None \<Rightarrow> None
           | Some (hi, c2) \<Rightarrow> classRanges r c2 (hit \<or> lo \<le> r \<and> r \<le> hi) (Suc n))))"
  by pat_completeness auto
termination
proof (relation "measure (\<lambda>(_, chunk, _). length chunk)")
  fix chunk r hit n p lo c1 q hi c2
  assume e: "getEsc chunk = Some p" "(lo, c1) = p"
    and h: "(if hd c1 = CHR ''-'' then getEsc (tl c1) else Some (lo, c1)) = Some q" "(hi, c2) = q"
  from getEsc_shorter[of chunk lo c1] e have "length c1 < length chunk" by simp
  moreover have "length c2 \<le> length c1" using h getEsc_shorter[of "tl c1" hi c2] by (auto split: if_splits)
  ultimately show "((r, c2, hit \<or> lo \<le> r \<and> r \<le> hi, Suc n), r, chunk, hit, n) \<in> measure (\<lambda>(_, chunk, _). length chunk)" by simp
qed simp

declare classRanges.simps [simp del]

lemma classRanges_shorter: "classRanges r chunk hit n = Some (h, rest) \<Longrightarrow> length rest < length chunk"
proof (induction r chunk hit n rule: classRanges.induct)
  case (1 r chunk hit n)
  show ?case
  proof (cases "chunk \<noteq> [] \<and> hd chunk = CHR '']'' \<and> 0 < n")
    case True
    with 1(2) show ?thesis by (cases chunk) (simp_all add: classRanges.simps)
  next
    case False
    with 1(2) obtain lo c1 where e: "getEsc chunk = Some (lo, c1)"
      by (subst (asm) classRanges.simps) (auto split: option.splits)
    with False 1(2) obtain hi c2 where h: "(if hd c1 = CHR ''-'' then getEsc (tl c1) else Some (lo, c1)) = Some (hi, c2)"
      and r: "classRanges r c2 (hit \<or> lo \<le> r \<and> r \<le> hi) (Suc n) = Some (h, rest)"
      by (subst (asm) classRanges.simps) (auto split: option.splits)
    have "length rest < length c2" by (rule 1(1)[OF False e refl h refl r])
    moreover have "length c2 \<le> length c1" using h getEsc_shorter[of "tl c1" hi c2] by (auto split: if_splits)
    ultimately show ?thesis using getEsc_shorter[OF e] by linarith
  qed
qed

text \<open>
  A chunk against the beginning of a name: \<open>None\<close> is a malformed pattern, \<open>Some None\<close> no match, and otherwise
  what is left of the name.  After a mismatch the rest of the chunk is still read for its syntax.
\<close>

function matchChunk :: "string \<Rightarrow> string \<Rightarrow> bool \<Rightarrow> string option option" where
  "matchChunk [] s missed = Some (if missed then None else Some s)"
| "matchChunk (c # cs) s missed0 =
     (let missed = missed0 \<or> s = [] in
      if c = CHR ''['' then
        (let r = (if missed then 0 else fst (decodeRune s));
             s' = (if missed then s else drop (snd (decodeRune s)) s);
             negated = (cs \<noteq> [] \<and> hd cs = CHR ''^'') in
         (case classRanges r (if negated then tl cs else cs) False 0 of
            None \<Rightarrow> None
          | Some (hit, rest) \<Rightarrow> matchChunk rest s' (missed \<or> hit = negated)))
      else if c = CHR ''?'' then
        (if missed then matchChunk cs s True else matchChunk cs (drop (snd (decodeRune s)) s) (hd s = CHR ''/''))
      else if c = CHR 0x5C then
        (case cs of
           [] \<Rightarrow> None
         | d # ds \<Rightarrow> if missed then matchChunk ds s True else matchChunk ds (tl s) (d \<noteq> hd s))
      else if missed then matchChunk cs s True
      else matchChunk cs (tl s) (c \<noteq> hd s))"
  by pat_completeness auto
termination
  by (relation "measure (\<lambda>(chunk, _). length chunk)") (auto dest!: classRanges_shorter split: if_splits)

section \<open>The pattern\<close>

fun chunkOf :: "bool \<Rightarrow> string \<Rightarrow> string \<times> string" where
  "chunkOf inrange [] = ([], [])"
| "chunkOf inrange (c # cs) =
     (if c = CHR 0x5C then
        (case cs of
           [] \<Rightarrow> ([c], [])
         | d # ds \<Rightarrow> (case chunkOf inrange ds of (chunk, rest) \<Rightarrow> (c # d # chunk, rest)))
      else if c = CHR ''*'' \<and> \<not> inrange then ([], c # cs)
      else (case chunkOf (if c = CHR ''['' then True else if c = CHR '']'' then False else inrange) cs of
              (chunk, rest) \<Rightarrow> (c # chunk, rest)))"

definition scanChunk :: "string \<Rightarrow> bool \<times> string \<times> string" where
  "scanChunk pattern =
     (let p = dropWhile (\<lambda>c. c = CHR ''*'') pattern in (p \<noteq> pattern, chunkOf False p))"

lemma chunkOf_length: "length (snd (chunkOf b p)) \<le> length p"
proof (induction b p rule: chunkOf.induct)
  case (2 b c cs)
  then show ?case by (cases cs) (auto simp: split_beta le_SucI)
qed simp

lemma chunkOf_shorter: "c \<noteq> CHR ''*'' \<Longrightarrow> length (snd (chunkOf False (c # cs))) \<le> length cs"
  using chunkOf_length[of False "tl cs"] chunkOf_length[of _ cs] by (cases cs) (auto simp: split_beta)

lemma scanChunk_shorter:
  assumes "pattern \<noteq> []" "scanChunk pattern = (star, chunk, rest)"
  shows "length rest < length pattern"
proof (cases "hd pattern = CHR ''*''")
  case True
  then obtain cs where p: "pattern = CHR ''*'' # cs" using assms(1) by (cases pattern) auto
  have "rest = snd (chunkOf False (dropWhile (\<lambda>c. c = CHR ''*'') cs))" using assms(2) p by (simp add: scanChunk_def Let_def)
  then have "length rest \<le> length (dropWhile (\<lambda>c. c = CHR ''*'') cs)" by (simp add: chunkOf_length)
  also have "\<dots> \<le> length cs" by (rule length_dropWhile_le)
  finally show ?thesis using p by simp
next
  case False
  then obtain c cs where p: "pattern = c # cs" "c \<noteq> CHR ''*''" using assms(1) by (cases pattern) auto
  then have "rest = snd (chunkOf False (c # cs))" using assms(2) by (simp add: scanChunk_def Let_def)
  with chunkOf_shorter[OF p(2), of cs] p(1) show ?thesis by (simp del: chunkOf.simps)
qed

text \<open>The rest of a pattern that did not match is still read for its syntax.\<close>

function wellFormed :: "string \<Rightarrow> bool" where
  "wellFormed pattern =
     (if pattern = [] then True
      else (case scanChunk pattern of (_, chunk, rest) \<Rightarrow> matchChunk chunk [] False \<noteq> None \<and> wellFormed rest))"
  by pat_completeness auto
termination
  by (relation "measure length") (auto dest: scanChunk_shorter[OF _ sym])

text \<open>A star before a chunk: the first place further on where the chunk matches, the end of the name if nothing follows.\<close>

fun skipTo :: "string \<Rightarrow> bool \<Rightarrow> string \<Rightarrow> string option option" where
  "skipTo chunk final [] = Some None"
| "skipTo chunk final (c # cs) =
     (if c = CHR ''/'' then Some None
      else (case matchChunk chunk cs False of
          None \<Rightarrow> None
        | Some None \<Rightarrow> skipTo chunk final cs
        | Some (Some t) \<Rightarrow> if final \<and> t \<noteq> [] then skipTo chunk final cs else Some (Some t)))"

function pathMatch :: "string \<Rightarrow> string \<Rightarrow> bool option" where
  "pathMatch pattern name =
     (if pattern = [] then Some (name = [])
      else (case scanChunk pattern of (star, chunk, rest) \<Rightarrow>
        if star \<and> chunk = [] then Some (CHR ''/'' \<notin> set name)
        else (case matchChunk chunk name False of
            None \<Rightarrow> None
          | Some found \<Rightarrow>
            (case (case found of Some t \<Rightarrow> if t = [] \<or> rest \<noteq> [] then Some t else None | None \<Rightarrow> None) of
               Some t \<Rightarrow> pathMatch rest t
             | None \<Rightarrow>
               (case (if star then skipTo chunk (rest = []) name else Some None) of
                  None \<Rightarrow> None
                | Some (Some t) \<Rightarrow> pathMatch rest t
                | Some None \<Rightarrow> if wellFormed rest then Some False else None)))))"
  by pat_completeness auto
termination
  by (relation "measure (\<lambda>(pattern, _). length pattern)") (auto dest: scanChunk_shorter[OF _ sym])

declare wellFormed.simps [simp del] pathMatch.simps [simp del]

lemma pathMatch_star: "pathMatch ''*'' name = Some (CHR ''/'' \<notin> set name)"
  by (simp add: pathMatch.simps scanChunk_def)

end
