(* ===== verification/Discovery.thy ===== *)
theory Discovery
  imports Pipeline Glob
begin

text \<open>
  Turning a remote listing into journal rows (\<open>core/internal/discovery/discovery.go\<close>, \<open>complete.go\<close>):
  which names are candidates, which candidates are proven complete by the strategy of their set, and what one
  pass records and reports.  The transport's calls are over an arbitrary world; texts of reasons and of
  errors are constructors.
\<close>

section \<open>What a pass is given and what it reports\<close>

record Completion =
  co_Strategy :: string
  co_StableFor :: int
  co_ManifestMarker :: string

record DiscoverySet =
  sn_ID :: BackupSetID
  sn_Include :: "string list"
  sn_Completion :: Completion

record 'w ScanTransport =
  ls_List :: "'w \<Rightarrow> string \<Rightarrow> (anyError + RemoteArtifact list) \<times> 'w"
  ls_Stat :: "'w \<Rightarrow> string \<Rightarrow> string \<Rightarrow> (anyError + RemoteArtifact) \<times> 'w"
  ls_RemoteHash :: "'w \<Rightarrow> string \<Rightarrow> string \<Rightarrow> (anyError + string) \<times> 'w"

record 'w DiscoveryDeps =
  ds_Deps :: "'w Deps"
  ds_Transport :: "'w ScanTransport option"

datatype pendingReason =
    NoMarkerYet string string
  | NoModTimeReported
  | ModifiedAgo int int
  | UnknownCompletion string

datatype rejection = TraversalShaped | BadArtifactName artifactIDError

datatype candidateFailure =
    CapturingIdentity anyError
  | RereadFailed ArtifactID journalError
  | RecordingDiscovered lifecycleError

record Conflict =
  cn_Artifact :: ArtifactID
  cn_RemotePath :: string
  cn_RecordedPath :: string

record DiscoveryResult =
  dr_Discovered :: "Record list"
  dr_AlreadyKnown :: "Record list"
  dr_Pending :: "(string \<times> pendingReason) list"
  dr_Rejected :: "(string \<times> rejection) list"
  dr_Conflicts :: "Conflict list"
  dr_Errors :: "(string \<times> candidateFailure) list"

definition noResult :: DiscoveryResult where
  "noResult = \<lparr>dr_Discovered = [], dr_AlreadyKnown = [], dr_Pending = [], dr_Rejected = [], dr_Conflicts = [], dr_Errors = []\<rparr>"

datatype discoveryError =
    ScanNeedsTransport
  | ScanNeedsJournal
  | ScanNeedsSetID
  | ListingFailed anyError

section \<open>Which names are candidates\<close>

definition markerSuffix :: string where "markerSuffix = ''.complete''"
definition DefaultManifestMarker :: string where "DefaultManifestMarker = ''_SUCCESS''"
definition ProbeObjectPrefix :: string where "ProbeObjectPrefix = ''.backupd-write-probe-''"

definition inProgressSuffixes :: "string list" where
  "inProgressSuffixes = [''.tmp'', ''.partial'', ''.inprogress'']"

definition effectiveManifestMarker :: "Completion \<Rightarrow> string" where
  "effectiveManifestMarker c = (if co_ManifestMarker c = [] then DefaultManifestMarker else co_ManifestMarker c)"

definition isMarkerObject :: "string \<Rightarrow> Completion \<Rightarrow> bool" where
  "isMarkerObject base c = (base = effectiveManifestMarker c \<or> hasSuffix base markerSuffix)"

definition isProducerTempName :: "string \<Rightarrow> bool" where
  "isProducerTempName base = list_ex (hasSuffix base) inProgressSuffixes"

definition isOwnWriteProbe :: "string \<Rightarrow> bool" where
  "isOwnWriteProbe base = hasPrefix base ProbeObjectPrefix"

definition includeMatches :: "string list \<Rightarrow> string \<Rightarrow> bool" where
  "includeMatches patterns base = (patterns = [] \<or> list_ex (\<lambda>p. pathMatch p base = Some True) patterns)"

definition isCleanRelativePath :: "string \<Rightarrow> bool" where
  "isCleanRelativePath p =
     (p \<noteq> [] \<and> \<not> hasPrefix p ''/'' \<and> \<not> containsAny p [CHR 0x00, CHR 0x0A, CHR 0x0D] \<and>
      list_all (\<lambda>seg. seg \<noteq> [] \<and> seg \<noteq> ''.'' \<and> seg \<noteq> ''..'') (splitOn (CHR ''/'') p))"

text \<open>\<open>path.Base\<close>.\<close>

definition lastElement :: "string \<Rightarrow> string" where
  "lastElement p =
     (if p = [] then ''.''
      else
        let base = rev (takeWhile (\<lambda>c. c \<noteq> CHR ''/'') (dropWhile (\<lambda>c. c = CHR ''/'') (rev p))) in
        if base = [] then ''/'' else base)"

definition discoverKey :: "BackupSetID \<Rightarrow> string \<Rightarrow> string" where
  "discoverKey st relPath =
     ''discover'' @ [CHR 0x00] @ bs_Source st @ [CHR 0x00] @ bs_Set st @ [CHR 0x00] @ relPath"

section \<open>Which candidates are complete\<close>

text \<open>\<open>time.Unix\<close> of a number of seconds, as nanoseconds since year 1.\<close>

definition fromUnix :: "int \<Rightarrow> instant" where
  "fromUnix s = (s + 62135596800) * 1000000000"

text \<open>\<open>None\<close> is complete; of the listing only which paths it has is looked at.\<close>

definition isComplete :: "RemoteArtifact \<Rightarrow> Completion \<Rightarrow> string list \<Rightarrow> instant \<Rightarrow> pendingReason option" where
  "isComplete a c known now =
     (if co_Strategy c = ''rename'' then None
      else if co_Strategy c = ''marker'' then
        (if List.member known (ra_Path a @ markerSuffix) then None
         else if List.member known (pathJoin (pathDir (ra_Path a)) (effectiveManifestMarker c)) then None
         else Some (NoMarkerYet (ra_Path a @ markerSuffix) (effectiveManifestMarker c)))
      else if co_Strategy c = ''stable'' then
        (if ra_ModTime a = 0 then Some NoModTimeReported
         else
           let age = timeSub now (fromUnix (ra_ModTime a)) in
           if age < co_StableFor c then Some (ModifiedAgo age (co_StableFor c)) else None)
      else Some (UnknownCompletion (co_Strategy c)))"

definition captureRemoteIdentity ::
  "'w ScanTransport \<Rightarrow> 'w \<Rightarrow> string \<Rightarrow> string \<Rightarrow> (anyError + RemoteFacts) \<times> 'w" where
  "captureRemoteIdentity tr w source relPath =
     (case ls_Stat tr w source relPath of
        (Inl e, w1) \<Rightarrow> (Inl e, w1)
      | (Inr art, w1) \<Rightarrow>
        let facts = \<lparr>rf_Size = Some (ra_Size art),
                     rf_ModTime = (if ra_ModTime art \<noteq> 0 then Some (fromUnix (ra_ModTime art)) else None),
                     rf_Hash = [], rf_HashAlg = [], rf_BackendID = ra_ID art\<rparr> in
        (case ls_RemoteHash tr w1 source relPath of
           (Inl _, w2) \<Rightarrow> (Inr facts, w2)
         | (Inr hash, w2) \<Rightarrow>
           (Inr (if hash \<noteq> [] then facts\<lparr>rf_Hash := hash, rf_HashAlg := SHA256Alg\<rparr> else facts), w2)))"

section \<open>One candidate\<close>

definition discoveredTransition :: "ArtifactID \<Rightarrow> BackupSetID \<Rightarrow> string \<Rightarrow> RemoteFacts \<Rightarrow> instant \<Rightarrow> Transition" where
  "discoveredTransition a st relPath facts now =
     (emptyTransition a (discoverKey st relPath) noState Discovered)
       \<lparr>t_OccurredAt := now, t_RemotePath := relPath, t_Remote := Some facts\<rparr>"

definition withError :: "DiscoveryResult \<Rightarrow> string \<Rightarrow> candidateFailure \<Rightarrow> DiscoveryResult" where
  "withError res relPath e = res\<lparr>dr_Errors := dr_Errors res @ [(relPath, e)]\<rparr>"

text \<open>What recording answered; a refused duplicate is read back to tell a known path from a collision.\<close>

definition recordedAs ::
  "'w JournalOps \<Rightarrow> ArtifactID \<Rightarrow> string \<Rightarrow> DiscoveryResult \<Rightarrow> lifecycleError + Outcome \<Rightarrow> 'w \<Rightarrow> DiscoveryResult" where
  "recordedAs ops a relPath res answer w =
     (case answer of
        Inr out \<Rightarrow>
          if o_Applied out then res\<lparr>dr_Discovered := dr_Discovered res @ [o_Record out]\<rparr>
          else res\<lparr>dr_AlreadyKnown := dr_AlreadyKnown res @ [o_Record out]\<rparr>
      | Inl (JournalError (ErrAlreadyDiscovered _)) \<Rightarrow>
          (case jo_Get ops w a of
             Inl e \<Rightarrow> withError res relPath (RereadFailed a e)
           | Inr existing \<Rightarrow>
             if r_RemotePath existing = relPath
             then res\<lparr>dr_AlreadyKnown := dr_AlreadyKnown res @ [existing]\<rparr>
             else res\<lparr>dr_Conflicts := dr_Conflicts res @
                    [\<lparr>cn_Artifact = a, cn_RemotePath = relPath, cn_RecordedPath = r_RemotePath existing\<rparr>]\<rparr>)
      | Inl e \<Rightarrow> withError res relPath (RecordingDiscovered e))"

definition journalCandidate ::
  "'w DiscoveryDeps \<Rightarrow> 'w JournalOps \<Rightarrow> 'w ScanTransport \<Rightarrow> string \<Rightarrow> DiscoverySet \<Rightarrow> instant \<Rightarrow> ArtifactID \<Rightarrow> string \<Rightarrow>
   DiscoveryResult \<Rightarrow> 'w \<Rightarrow> DiscoveryResult \<times> 'w" where
  "journalCandidate d ops tr source st now a relPath res w =
     (case captureRemoteIdentity tr w source relPath of
        (Inl e, w1) \<Rightarrow> (withError res relPath (CapturingIdentity e), w1)
      | (Inr facts, w1) \<Rightarrow>
        (case Advance (ds_Deps d) w1 (discoveredTransition a (sn_ID st) relPath facts now) of
           (answer, w2) \<Rightarrow> (recordedAs ops a relPath res answer w2, w2)))"

text \<open>The name of a candidate: skipped without a word, rejected, or an artifact to look at.\<close>

datatype candidacy = Skipped | Reject rejection | Candidate ArtifactID

definition candidacyOf :: "DiscoverySet \<Rightarrow> string \<Rightarrow> candidacy" where
  "candidacyOf st relPath =
     (if \<not> isCleanRelativePath relPath then Reject TraversalShaped
      else
        let base = lastElement relPath in
        (case NewArtifactID (sn_ID st) base of
           Inl e \<Rightarrow> Reject (BadArtifactName e)
         | Inr a \<Rightarrow>
           if isMarkerObject base (sn_Completion st) then Skipped
           else if isProducerTempName base then Skipped
           else if isOwnWriteProbe base then Skipped
           else if \<not> includeMatches (sn_Include st) base then Skipped
           else Candidate a))"

definition discoverOneObject ::
  "'w DiscoveryDeps \<Rightarrow> 'w JournalOps \<Rightarrow> 'w ScanTransport \<Rightarrow> string \<Rightarrow> DiscoverySet \<Rightarrow> string list \<Rightarrow> instant \<Rightarrow>
   RemoteArtifact \<Rightarrow> DiscoveryResult \<Rightarrow> 'w \<Rightarrow> DiscoveryResult \<times> 'w" where
  "discoverOneObject d ops tr source st known now a res w =
     (case candidacyOf st (ra_Path a) of
        Skipped \<Rightarrow> (res, w)
      | Reject why \<Rightarrow> (res\<lparr>dr_Rejected := dr_Rejected res @ [(ra_Path a, why)]\<rparr>, w)
      | Candidate artifact \<Rightarrow>
        (case isComplete a (sn_Completion st) known now of
           Some why \<Rightarrow> (res\<lparr>dr_Pending := dr_Pending res @ [(ra_Path a, why)]\<rparr>, w)
         | None \<Rightarrow> journalCandidate d ops tr source st now artifact (ra_Path a) res w))"

section \<open>A pass\<close>

fun discoverLoop ::
  "'w DiscoveryDeps \<Rightarrow> 'w JournalOps \<Rightarrow> 'w ScanTransport \<Rightarrow> string \<Rightarrow> DiscoverySet \<Rightarrow> string list \<Rightarrow> instant \<Rightarrow>
   RemoteArtifact list \<Rightarrow> DiscoveryResult \<Rightarrow> 'w \<Rightarrow> DiscoveryResult \<times> 'w" where
  "discoverLoop d ops tr source st known now [] res w = (res, w)"
| "discoverLoop d ops tr source st known now (a # rest) res w =
     (case discoverOneObject d ops tr source st known now a res w of
        (res', w') \<Rightarrow> discoverLoop d ops tr source st known now rest res' w')"

definition DiscoverSet :: "'w DiscoveryDeps \<Rightarrow> 'w \<Rightarrow> string \<Rightarrow> DiscoverySet \<Rightarrow> (discoveryError + DiscoveryResult) \<times> 'w" where
  "DiscoverSet d w source st =
     (case ds_Transport d of
        None \<Rightarrow> (Inl ScanNeedsTransport, w)
      | Some tr \<Rightarrow>
        (case d_Journal (ds_Deps d) of
           None \<Rightarrow> (Inl ScanNeedsJournal, w)
         | Some ops \<Rightarrow>
           if setIsZero (sn_ID st) then (Inl ScanNeedsSetID, w)
           else
             (case ls_List tr w source of
                (Inl e, w1) \<Rightarrow> (Inl (ListingFailed e), w1)
              | (Inr artifacts, w1) \<Rightarrow>
                (case discoverLoop d ops tr source st (map ra_Path artifacts) (d_Now (ds_Deps d) w1) artifacts noResult w1 of
                   (res, w2) \<Rightarrow> (Inr res, w2)))))"

end
