(* ===== verification/Rfc3339.thy ===== *)
theory Rfc3339
  imports Civil Journal
begin

text \<open>How the journal and its keys write an instant down (\<open>timeLayout\<close> of \<open>core/internal/state/journal.go\<close>).\<close>

section \<open>The rendering of an instant\<close>

text \<open>\<open>time.RFC3339Nano\<close> in UTC.\<close>

definition padded :: "nat \<Rightarrow> int \<Rightarrow> string" where
  "padded k n = (let s = itoa n in replicate (k - length s) (CHR ''0'') @ s)"

definition fraction :: "int \<Rightarrow> string" where
  "fraction n =
     (if n = 0 then []
      else CHR ''.'' # rev (dropWhile (\<lambda>c. c = CHR ''0'') (rev (padded 9 n))))"

definition rfc3339Nano :: "instant \<Rightarrow> string" where
  "rfc3339Nano t =
     (let c = dateOfDay (t div nsPerDay); ns = t mod nsPerDay; s = ns div 1000000000 in
      (if Year c < 0 then ''-'' @ padded 4 (- Year c) else padded 4 (Year c)) @ ''-'' @ padded 2 (Month c) @ ''-'' @ padded 2 (Day c) @
      ''T'' @ padded 2 (s div 3600) @ '':'' @ padded 2 (s div 60 mod 60) @ '':'' @ padded 2 (s mod 60) @
      fraction (ns mod 1000000000) @ ''Z'')"

end
