(* ===== verification/Reconcile.thy ===== *)
theory Reconcile
  imports Pipeline Rfc3339
begin

text \<open>
  Startup reconciliation (\<open>core/internal/reconcile/reconcile.go\<close>, \<open>localcheck.go\<close>, \<open>remote.go\<close>): every row of a
  backup set against its local file and, for a pending delete, against the remote object, with the journal brought
  back in line where they disagree.  The file system and the remote are reads of an arbitrary world; sentences are
  constructors, and their rendering, which the journal keeps as the detail of a transition, is an argument.
\<close>

section \<open>What a pass is given and what it reports\<close>

datatype contradictedSizes = ContradictedSizes int int

datatype localReason =
    OnStorageMediums "(string \<times> string) list"
  | NoActiveCopyAnywhere
  | NoFinalPath
  | FinalMissing string
  | FinalUnstattable string string
  | FinalIsDirectory string
  | FinalWrongSize string int int
  | UnsupportedRecordedAlg string
  | FinalUnhashable string string
  | FinalHashDiffers string string string
  | OnlyContradiction contradictedSizes
  | UnsettledContradiction contradictedSizes string string
  | SizeNotTheRemotes string int string int contradictedSizes
  | SettledBySize string int contradictedSizes
  | SettledBySizeAlg string int string contradictedSizes
  | SettledBySizeUnhashable string int string contradictedSizes
  | ContentNotTheRemotes string int string string contradictedSizes
  | SettledByContent string int string contradictedSizes

datatype localVerdict = LocalValid | LocalInvalid | LocalOnMedium

record localValidity =
  lv_Verdict :: localVerdict
  lv_Reason :: "localReason option"

datatype findingReason =
    ReadyForTransfer
  | NoDurableCopyYet State
  | OutsideScope State
  | LocalVerified "localReason option"
  | CopyLeftOnMedium "localReason option"
  | LocalCopyInvalid "localReason option"
  | RemoteAlreadyAbsent "localReason option"
  | RemoteIdentityChanged identityReason
  | RemoteStillPresent identityReason "localReason option"
  | NoCopyRemains "localReason option"

record Finding =
  fn_Artifact :: ArtifactID
  fn_From :: State
  fn_To :: State
  fn_NeedsInvestigation :: bool
  fn_Reason :: findingReason

datatype artifactFailure =
    StateNotHandled State
  | RemoteUnanswered anyError
  | IdentityIncomparable refusalReason
  | TransitionRefused lifecycleError

datatype reconcileError = ReconcileNeedsJournal | ReconcileNeedsTransport | ReconcileNeedsSetID | ReconcileListing journalError

record Report =
  rp_Findings :: "Finding list"
  rp_Errors :: "(ArtifactID \<times> artifactFailure) list"

record 'w ReconcileDeps =
  rc_Deps :: "'w Deps"
  rc_ListByBackupSet :: "'w \<Rightarrow> BackupSetID \<Rightarrow> journalError + Record list"
  rc_RemoteStat :: "('w \<Rightarrow> string \<Rightarrow> string \<Rightarrow> (anyError + RemoteArtifact) \<times> 'w) option"
  rc_Stat :: "'w \<Rightarrow> string \<Rightarrow> pathError + FileInfo"
  rc_SHA256File :: "'w \<Rightarrow> string \<Rightarrow> string + string"
  rc_Fold :: "string \<Rightarrow> string \<Rightarrow> bool"
  rc_Text :: "localReason option \<Rightarrow> string"

type_synonym 'w findingResult = "(artifactFailure + Finding) \<times> 'w"

section \<open>The local copy\<close>

definition invalid :: "localReason \<Rightarrow> localValidity" where
  "invalid r = \<lparr>lv_Verdict = LocalInvalid, lv_Reason = Some r\<rparr>"

definition recordFault :: "localValidity \<Rightarrow> bool" where
  "recordFault v = (lv_Verdict v = LocalValid \<and> lv_Reason v \<noteq> None)"

definition describeMediumPlacements :: "Placement list \<Rightarrow> (string \<times> string) list" where
  "describeMediumPlacements ps =
     map (\<lambda>p. (p_Medium p, if p_VerificationClass p = [] then ''unverified'' else p_VerificationClass p)) ps"

text \<open>The size the file must have, nothing when no size is recorded, or the two records against each other.\<close>

definition sizeOnRecord :: "Record \<Rightarrow> contradictedSizes + int option" where
  "sizeOnRecord rec =
     (case (rf_Size (r_Remote rec), r_Transfer rec) of
        (Some n, Some t) \<Rightarrow>
          if n \<noteq> tr_BytesTransferred t then Inl (ContradictedSizes n (tr_BytesTransferred t)) else Inr (Some n)
      | (Some n, None) \<Rightarrow> Inr (Some n)
      | (None, Some t) \<Rightarrow> Inr (Some (tr_BytesTransferred t))
      | (None, None) \<Rightarrow> Inr None)"

definition settleRecordContradiction ::
  "'w ReconcileDeps \<Rightarrow> 'w \<Rightarrow> Record \<Rightarrow> string \<Rightarrow> int \<Rightarrow> contradictedSizes \<Rightarrow> localValidity" where
  "settleRecordContradiction d w rec path onDisk c =
     (case rf_Size (r_Remote rec) of
        None \<Rightarrow> invalid (OnlyContradiction c)
      | Some remote \<Rightarrow>
        if onDisk \<noteq> remote then
          (case rc_SHA256File d w path of
             Inl e \<Rightarrow> invalid (UnsettledContradiction c path e)
           | Inr digest \<Rightarrow> invalid (SizeNotTheRemotes path onDisk digest remote c))
        else if rf_Hash (r_Remote rec) = [] then
          \<lparr>lv_Verdict = LocalValid, lv_Reason = Some (SettledBySize path onDisk c)\<rparr>
        else if \<not> equalFold (rc_Fold d) (rf_HashAlg (r_Remote rec)) SHA256Alg then
          \<lparr>lv_Verdict = LocalValid, lv_Reason = Some (SettledBySizeAlg path onDisk (rf_HashAlg (r_Remote rec)) c)\<rparr>
        else
          (case rc_SHA256File d w path of
             Inl e \<Rightarrow> \<lparr>lv_Verdict = LocalValid, lv_Reason = Some (SettledBySizeUnhashable path onDisk e c)\<rparr>
           | Inr digest \<Rightarrow>
             if \<not> equalFold (rc_Fold d) digest (rf_Hash (r_Remote rec))
             then invalid (ContentNotTheRemotes path onDisk digest (rf_Hash (r_Remote rec)) c)
             else \<lparr>lv_Verdict = LocalValid, lv_Reason = Some (SettledByContent path onDisk digest c)\<rparr>))"

definition checkHash :: "'w ReconcileDeps \<Rightarrow> 'w \<Rightarrow> Record \<Rightarrow> string \<Rightarrow> localValidity" where
  "checkHash d w rec path =
     (if r_LocalHashAlg rec = [] then \<lparr>lv_Verdict = LocalValid, lv_Reason = None\<rparr>
      else if \<not> equalFold (rc_Fold d) (r_LocalHashAlg rec) SHA256Alg then invalid (UnsupportedRecordedAlg (r_LocalHashAlg rec))
      else
        (case rc_SHA256File d w path of
           Inl e \<Rightarrow> invalid (FinalUnhashable path e)
         | Inr digest \<Rightarrow>
           if \<not> equalFold (rc_Fold d) digest (r_LocalHash rec) then invalid (FinalHashDiffers path digest (r_LocalHash rec))
           else \<lparr>lv_Verdict = LocalValid, lv_Reason = None\<rparr>))"

definition checkLocalFinal :: "'w ReconcileDeps \<Rightarrow> 'w \<Rightarrow> Record \<Rightarrow> localValidity" where
  "checkLocalFinal d w rec =
     (case ReadableLocalPath rec of
        None \<Rightarrow>
          let mediums = ActiveMediumPlacements rec in
          if length mediums > 0
          then \<lparr>lv_Verdict = LocalOnMedium, lv_Reason = Some (OnStorageMediums (describeMediumPlacements mediums))\<rparr>
          else if length (r_Placements rec) > 0 then invalid NoActiveCopyAnywhere
          else invalid NoFinalPath
      | Some path \<Rightarrow>
        (case rc_Stat d w path of
           Inl NotExist \<Rightarrow> invalid (FinalMissing path)
         | Inl (PathError e) \<Rightarrow> invalid (FinalUnstattable path e)
         | Inr info \<Rightarrow>
           if fi_IsDir info then invalid (FinalIsDirectory path)
           else
             (case sizeOnRecord rec of
                Inl c \<Rightarrow> settleRecordContradiction d w rec path (fi_Size info) c
              | Inr expected \<Rightarrow>
                if expected \<noteq> None \<and> fi_Size info \<noteq> the expected
                then invalid (FinalWrongSize path (fi_Size info) (the expected))
                else checkHash d w rec path)))"

section \<open>One row\<close>

definition noAction :: "ArtifactID \<Rightarrow> State \<Rightarrow> findingReason \<Rightarrow> Finding" where
  "noAction a st why = \<lparr>fn_Artifact = a, fn_From = st, fn_To = st, fn_NeedsInvestigation = False, fn_Reason = why\<rparr>"

definition flagRecordFault :: "Finding \<Rightarrow> localValidity \<Rightarrow> Finding" where
  "flagRecordFault f v = (if recordFault v then f\<lparr>fn_NeedsInvestigation := True\<rparr> else f)"

definition leftOnMedium :: "Record \<Rightarrow> State \<Rightarrow> localValidity \<Rightarrow> Finding" where
  "leftOnMedium rec st v = noAction (r_Artifact rec) st (CopyLeftOnMedium (lv_Reason v))"

definition reconcileKey :: "ArtifactID \<Rightarrow> State \<Rightarrow> State \<Rightarrow> instant \<Rightarrow> string" where
  "reconcileKey a from to updatedAt =
     ''reconcile:'' @ artifactString a @ '':'' @ stateString from @ ''->'' @ stateString to @ ''@'' @ rfc3339Nano updatedAt"

definition moved :: "Record \<Rightarrow> State \<Rightarrow> Outcome \<Rightarrow> findingReason \<Rightarrow> Finding" where
  "moved rec from out why =
     \<lparr>fn_Artifact = r_Artifact rec, fn_From = from, fn_To = r_State (o_Record out), fn_NeedsInvestigation = False, fn_Reason = why\<rparr>"

definition reconcileMove :: "Record \<Rightarrow> State \<Rightarrow> State \<Rightarrow> string \<Rightarrow> Transition" where
  "reconcileMove rec from to detail =
     (emptyTransition (r_Artifact rec) (reconcileKey (r_Artifact rec) from to (r_UpdatedAt rec)) from to)\<lparr>t_Detail := detail\<rparr>"

text \<open>A local copy that does not count: the row is moved, and what comes back is where it ended.\<close>

definition condemn ::
  "'w ReconcileDeps \<Rightarrow> 'w \<Rightarrow> Record \<Rightarrow> State \<Rightarrow> State \<Rightarrow> string \<Rightarrow> findingReason \<Rightarrow> 'w findingResult" where
  "condemn d w rec from to detail why =
     (case Advance (rc_Deps d) w (reconcileMove rec from to detail) of
        (Inl e, w') \<Rightarrow> (Inl (TransitionRefused e), w')
      | (Inr out, w') \<Rightarrow> (Inr (moved rec from out why), w'))"

definition reconcileRemoteRetained :: "'w ReconcileDeps \<Rightarrow> 'w \<Rightarrow> Record \<Rightarrow> 'w findingResult" where
  "reconcileRemoteRetained d w rec =
     (let local = checkLocalFinal d w rec in
      case lv_Verdict local of
        LocalValid \<Rightarrow> (Inr (flagRecordFault (noAction (r_Artifact rec) RemoteRetained (LocalVerified (lv_Reason local))) local), w)
      | LocalOnMedium \<Rightarrow> (Inr (leftOnMedium rec RemoteRetained local), w)
      | LocalInvalid \<Rightarrow>
        condemn d w rec RemoteRetained Quarantined
          (''FR-17 / issue #315: reconciliation found the durable local copy of a retained (read-only-source) artifact invalid: ''
             @ rc_Text d (lv_Reason local))
          (LocalCopyInvalid (lv_Reason local)))"

definition reconcileCommitted :: "'w ReconcileDeps \<Rightarrow> 'w \<Rightarrow> Record \<Rightarrow> 'w findingResult" where
  "reconcileCommitted d w rec =
     (let local = checkLocalFinal d w rec in
      case lv_Verdict local of
        LocalValid \<Rightarrow> (Inr (flagRecordFault (noAction (r_Artifact rec) Committed (LocalVerified (lv_Reason local))) local), w)
      | LocalOnMedium \<Rightarrow> (Inr (leftOnMedium rec Committed local), w)
      | LocalInvalid \<Rightarrow>
        condemn d w rec Committed Quarantined
          (''FR-17: reconciliation found the durable local copy invalid: '' @ rc_Text d (lv_Reason local))
          (LocalCopyInvalid (lv_Reason local)))"

definition reconcileComplete :: "'w ReconcileDeps \<Rightarrow> 'w \<Rightarrow> Record \<Rightarrow> 'w findingResult" where
  "reconcileComplete d w rec =
     (let local = checkLocalFinal d w rec in
      case lv_Verdict local of
        LocalValid \<Rightarrow> (Inr (flagRecordFault (noAction (r_Artifact rec) Complete (LocalVerified (lv_Reason local))) local), w)
      | LocalOnMedium \<Rightarrow> (Inr (leftOnMedium rec Complete local), w)
      | LocalInvalid \<Rightarrow>
        condemn d w rec Complete QuarantinedLost
          (''FR-17: the remote source is already confirmed gone and the durable local copy is now invalid: ''
             @ rc_Text d (lv_Reason local))
          (NoCopyRemains (lv_Reason local)))"

definition reconcileToComplete :: "'w ReconcileDeps \<Rightarrow> 'w \<Rightarrow> Record \<Rightarrow> (lifecycleError + Record) \<times> 'w" where
  "reconcileToComplete d w rec =
     (let now = d_Now (rc_Deps d) w in
      case Advance (rc_Deps d) w
             ((reconcileMove rec RemoteDeletePending Complete ''FR-17: reconciliation confirmed the remote object was already absent'')
                \<lparr>t_Deletion := Some \<lparr>du_DeletedAt = Some now, du_Error = []\<rparr>\<rparr>) of
        (Inl e, w') \<Rightarrow> (Inl e, w')
      | (Inr out, w') \<Rightarrow> (Inr (o_Record out), w'))"

definition reconcileToLost :: "'w ReconcileDeps \<Rightarrow> 'w \<Rightarrow> Record \<Rightarrow> localReason option \<Rightarrow> 'w findingResult" where
  "reconcileToLost d w rec why =
     (case reconcileToComplete d w rec of
        (Inl e, w1) \<Rightarrow> (Inl (TransitionRefused e), w1)
      | (Inr completed, w1) \<Rightarrow>
        (case Advance (rc_Deps d) w1
                ((emptyTransition (r_Artifact rec)
                    (reconcileKey (r_Artifact rec) Complete QuarantinedLost (r_UpdatedAt completed)) Complete QuarantinedLost)
                   \<lparr>t_Detail := ''FR-17: the remote source is confirmed gone and the durable local copy is invalid: '' @ rc_Text d why\<rparr>) of
           (Inl e, w2) \<Rightarrow> (Inl (TransitionRefused e), w2)
         | (Inr out, w2) \<Rightarrow> (Inr (moved rec RemoteDeletePending out (NoCopyRemains why)), w2)))"

text \<open>Only a confirmed absence is an absence.\<close>

definition statRemote ::
  "('w \<Rightarrow> string \<Rightarrow> string \<Rightarrow> (anyError + RemoteArtifact) \<times> 'w) \<Rightarrow> 'w \<Rightarrow> string \<Rightarrow> string \<Rightarrow> (anyError + RemoteArtifact option) \<times> 'w" where
  "statRemote stat w source path =
     (case stat w source path of
        (Inr art, w1) \<Rightarrow> (Inr (Some art), w1)
      | (Inl e, w1) \<Rightarrow> ((if CategoryOf e = Some NotFound then Inr None else Inl e), w1))"

definition pendingStillThere :: "Record \<Rightarrow> localValidity \<Rightarrow> RemoteArtifact \<Rightarrow> artifactFailure + Finding" where
  "pendingStillThere rec local art =
     (case discoveredIdentity rec of
        Inl e \<Rightarrow> Inl (IdentityIncomparable e)
      | Inr discovered \<Rightarrow>
        let comparison = CompareIdentity discovered (currentIdentity art) in
        if ic_Verdict comparison = VerdictChanged
        then Inr \<lparr>fn_Artifact = r_Artifact rec, fn_From = RemoteDeletePending, fn_To = RemoteDeletePending,
                  fn_NeedsInvestigation = True, fn_Reason = RemoteIdentityChanged (ic_Reason comparison)\<rparr>
        else Inr (flagRecordFault (noAction (r_Artifact rec) RemoteDeletePending
               (RemoteStillPresent (ic_Reason comparison) (lv_Reason local))) local))"

definition reconcileDeletePending ::
  "'w ReconcileDeps \<Rightarrow> ('w \<Rightarrow> string \<Rightarrow> string \<Rightarrow> (anyError + RemoteArtifact) \<times> 'w) \<Rightarrow> 'w \<Rightarrow> string \<Rightarrow> Record \<Rightarrow> 'w findingResult" where
  "reconcileDeletePending d stat w source rec =
     (let local = checkLocalFinal d w rec in
      if lv_Verdict local = LocalOnMedium then (Inr (leftOnMedium rec RemoteDeletePending local), w)
      else
        (case statRemote stat w source (r_RemotePath rec) of
           (Inl e, w1) \<Rightarrow> (Inl (RemoteUnanswered e), w1)
         | (Inr remote, w1) \<Rightarrow>
           if lv_Verdict local \<noteq> LocalValid then
             (case remote of
                None \<Rightarrow> reconcileToLost d w1 rec (lv_Reason local)
              | Some _ \<Rightarrow>
                condemn d w1 rec RemoteDeletePending Quarantined
                  (''FR-17: reconciliation found the durable local copy invalid while the remote object is still present: ''
                     @ rc_Text d (lv_Reason local))
                  (LocalCopyInvalid (lv_Reason local)))
           else
             (case remote of
                None \<Rightarrow>
                  (case reconcileToComplete d w1 rec of
                     (Inl e, w2) \<Rightarrow> (Inl (TransitionRefused e), w2)
                   | (Inr completed, w2) \<Rightarrow>
                     (Inr (flagRecordFault
                        \<lparr>fn_Artifact = r_Artifact rec, fn_From = RemoteDeletePending, fn_To = r_State completed,
                         fn_NeedsInvestigation = False, fn_Reason = RemoteAlreadyAbsent (lv_Reason local)\<rparr> local), w2))
              | Some art \<Rightarrow> (pendingStillThere rec local art, w1))))"

definition reconcileOne ::
  "'w ReconcileDeps \<Rightarrow> ('w \<Rightarrow> string \<Rightarrow> string \<Rightarrow> (anyError + RemoteArtifact) \<times> 'w) \<Rightarrow> 'w \<Rightarrow> string \<Rightarrow> Record \<Rightarrow> 'w findingResult" where
  "reconcileOne d stat w source rec =
     (let st = r_State rec; a = r_Artifact rec in
      if st = Discovered then (Inr (noAction a st ReadyForTransfer), w)
      else if List.member [Transferring, Transferred, Verifying, Verified, Committing] st
      then (Inr (noAction a st (NoDurableCopyYet st)), w)
      else if st = Committed then reconcileCommitted d w rec
      else if st = RemoteDeletePending then reconcileDeletePending d stat w source rec
      else if st = Complete then reconcileComplete d w rec
      else if st = RemoteRetained then reconcileRemoteRetained d w rec
      else if List.member [Failed, Quarantined, QuarantinedLost] st then (Inr (noAction a st (OutsideScope st)), w)
      else (Inl (StateNotHandled st), w))"

section \<open>A pass\<close>

fun reconcileLoop ::
  "'w ReconcileDeps \<Rightarrow> ('w \<Rightarrow> string \<Rightarrow> string \<Rightarrow> (anyError + RemoteArtifact) \<times> 'w) \<Rightarrow> string \<Rightarrow> Record list \<Rightarrow> Report \<Rightarrow> 'w \<Rightarrow>
   Report \<times> 'w" where
  "reconcileLoop d stat source [] report w = (report, w)"
| "reconcileLoop d stat source (rec # recs) report w =
     (case reconcileOne d stat w source rec of
        (Inl e, w') \<Rightarrow> reconcileLoop d stat source recs (report\<lparr>rp_Errors := rp_Errors report @ [(r_Artifact rec, e)]\<rparr>) w'
      | (Inr f, w') \<Rightarrow> reconcileLoop d stat source recs (report\<lparr>rp_Findings := rp_Findings report @ [f]\<rparr>) w')"

definition Reconcile :: "'w ReconcileDeps \<Rightarrow> 'w \<Rightarrow> string \<Rightarrow> BackupSetID \<Rightarrow> (reconcileError + Report) \<times> 'w" where
  "Reconcile d w source st =
     (case d_Journal (rc_Deps d) of
        None \<Rightarrow> (Inl ReconcileNeedsJournal, w)
      | Some _ \<Rightarrow>
        (case rc_RemoteStat d of
           None \<Rightarrow> (Inl ReconcileNeedsTransport, w)
         | Some stat \<Rightarrow>
           if setIsZero st then (Inl ReconcileNeedsSetID, w)
           else
             (case rc_ListByBackupSet d w st of
                Inl e \<Rightarrow> (Inl (ReconcileListing e), w)
              | Inr records \<Rightarrow>
                (case reconcileLoop d stat source records \<lparr>rp_Findings = [], rp_Errors = []\<rparr> w of
                   (report, w') \<Rightarrow> (Inr report, w')))))"

end
