(* ===== verification/FetchPass.thy ===== *)
theory FetchPass
  imports Pipeline Discovery Reconcile
begin

text \<open>
  One pass over one backup set (\<open>core/internal/app/fetch.go\<close>, with the retries of \<open>app/reconcile.go\<close> and
  \<open>app/pipeline.go\<close> and the count of \<open>app/cycleoutcome.go\<close>): reconcile, discover, list the rows, walk each
  of them.  Progress reporting and logging are left out.
\<close>

record 'w FetchService =
  fv_Service :: "'w Service"
  fv_Discovery :: "'w DiscoveryDeps"
  fv_Reconcile :: "'w ReconcileDeps"

text \<open>What the retry loop sees of a failure: the transport's error behind it, if there is one.\<close>

definition reconcileCause :: "reconcileError \<Rightarrow> anyError" where
  "reconcileCause e =
     (case e of
        ReconcileNeedsJournal \<Rightarrow> OtherError ''reconcile: Deps needs a Journal''
      | ReconcileNeedsTransport \<Rightarrow> OtherError ''reconcile: Deps needs a Transport''
      | ReconcileNeedsSetID \<Rightarrow> OtherError ''reconcile: needs a backup set id''
      | ReconcileListing _ \<Rightarrow> OtherError ''reconcile: listing'')"

definition discoveryCause :: "discoveryError \<Rightarrow> anyError" where
  "discoveryCause e =
     (case e of
        ScanNeedsTransport \<Rightarrow> OtherError ''discovery: Deps needs a Transport''
      | ScanNeedsJournal \<Rightarrow> OtherError ''discovery: Deps needs a Journal''
      | ScanNeedsSetID \<Rightarrow> OtherError ''discovery: backup set has no id''
      | ListingFailed cause \<Rightarrow> cause)"

definition reconcileSet :: "'w FetchService \<Rightarrow> 'w \<Rightarrow> string \<Rightarrow> BackupSetID \<Rightarrow> ((anyError + Report) \<times> 'w) option" where
  "reconcileSet sv w source st =
     retryDo (retryEnv (svTransfer (fv_Service sv))) (sv_MaxAttempts (fv_Service sv))
       (\<lambda>v. map_prod (mapErr reconcileCause) id (Reconcile (fv_Reconcile sv) v source st)) w"

definition discoverOne :: "'w FetchService \<Rightarrow> 'w \<Rightarrow> string \<Rightarrow> DiscoverySet \<Rightarrow> ((anyError + DiscoveryResult) \<times> 'w) option" where
  "discoverOne sv w source st =
     retryDo (retryEnv (svTransfer (fv_Service sv))) (sv_MaxAttempts (fv_Service sv))
       (\<lambda>v. map_prod (mapErr discoveryCause) id (DiscoverSet (fv_Discovery sv) v source st)) w"

record FetchResult =
  fe_Reconcile :: Report
  fe_Discovery :: DiscoveryResult
  fe_FailedArtifacts :: nat
  fe_Walked :: nat
  fe_Durable :: nat

datatype fetchError = FetchReconcile anyError | FetchDiscover anyError | FetchListing journalError

text \<open>A candidate that could not be recorded counts as walked unless a walked row covers its path.\<close>

definition foldDiscoveryErrors :: "artifactWalk \<Rightarrow> DiscoveryResult \<Rightarrow> nat" where
  "foldDiscoveryErrors aw res =
     aw_Walked aw + length (filter (\<lambda>e. \<not> List.member (aw_coveredPaths aw) (fst e)) (dr_Errors res))"

definition fetchPass ::
  "'w FetchService \<Rightarrow> 'w \<Rightarrow> string \<Rightarrow> BackupSet \<Rightarrow> DiscoverySet \<Rightarrow> ((fetchError + FetchResult) \<times> 'w) option" where
  "fetchPass sv w source bs st =
     (case reconcileSet sv w source (sn_ID st) of
        None \<Rightarrow> None
      | Some (Inl e, w1) \<Rightarrow> Some (Inl (FetchReconcile e), w1)
      | Some (Inr report, w1) \<Rightarrow>
        (case discoverOne sv w1 source st of
           None \<Rightarrow> None
         | Some (Inl e, w2) \<Rightarrow> Some (Inl (FetchDiscover e), w2)
         | Some (Inr found, w2) \<Rightarrow>
           (case rc_ListByBackupSet (fv_Reconcile sv) w2 (sn_ID st) of
              Inl e \<Rightarrow> Some (Inl (FetchListing e), w2)
            | Inr records \<Rightarrow>
              (case processArtifacts (fv_Service sv) source bs w2 records of
                 None \<Rightarrow> None
               | Some (aw, w3) \<Rightarrow>
                 Some (Inr \<lparr>fe_Reconcile = report, fe_Discovery = found, fe_FailedArtifacts = aw_Failed aw,
                            fe_Walked = foldDiscoveryErrors aw found, fe_Durable = aw_Durable aw\<rparr>, w3)))))"

section \<open>The preview\<close>

record FetchPreviewEntry =
  fp_RemotePath :: string
  fp_Size :: int
  fp_Known :: bool
  fp_State :: State

datatype dryRunError = DryRunNeedsTransport | DryRunListing anyError | DryRunJournal journalError

text \<open>Of several rows with one remote path the last one listed is shown.\<close>

definition previewEntry :: "Record list \<Rightarrow> RemoteArtifact \<Rightarrow> FetchPreviewEntry" where
  "previewEntry known a =
     (let found = map_of (rev (map (\<lambda>rec. (r_RemotePath rec, r_State rec)) known)) (ra_Path a) in
      \<lparr>fp_RemotePath = ra_Path a, fp_Size = ra_Size a, fp_Known = (found \<noteq> None),
       fp_State = (case found of None \<Rightarrow> noState | Some st \<Rightarrow> st)\<rparr>)"

definition fetchDryRun ::
  "'w FetchService \<Rightarrow> 'w \<Rightarrow> string \<Rightarrow> BackupSetID \<Rightarrow> (dryRunError + FetchPreviewEntry list) \<times> 'w" where
  "fetchDryRun sv w source st =
     (case ds_Transport (fv_Discovery sv) of
        None \<Rightarrow> (Inl DryRunNeedsTransport, w)
      | Some tr \<Rightarrow>
        (case ls_List tr w source of
           (Inl e, w1) \<Rightarrow> (Inl (DryRunListing e), w1)
         | (Inr listed, w1) \<Rightarrow>
           (case rc_ListByBackupSet (fv_Reconcile sv) w1 st of
              Inl e \<Rightarrow> (Inl (DryRunJournal e), w1)
            | Inr known \<Rightarrow> (Inr (map (previewEntry known) listed), w1))))"

end
