(* ===== verification/ReconcileProps.thy ===== *)
theory ReconcileProps
  imports Reconcile
begin

text \<open>
  What a reconciliation keeps: the locale says that reading the remote keeps a property and that recording
  an edge for which there is a cause does; a pass whose every row has the causes the code asks for keeps it.
\<close>

lemma Advance_writes:
  assumes "Advance ld w t = (r, w')"
  shows "w' = w \<or> (\<exists>ops jr at. d_Journal ld = Some ops \<and> jo_RecordTransition ops w (t\<lparr>t_OccurredAt := at\<rparr>) = (jr, w'))"
proof (cases "d_Journal ld")
  case (Some ops)
  have t: "t = t\<lparr>t_OccurredAt := t_OccurredAt t\<rparr>" by simp
  from assms Some show ?thesis
    by (auto simp: Advance_def Let_def split: option.splits if_splits prod.splits) (metis t)+
qed (use assms in \<open>simp add: Advance_def\<close>)

locale reconciling =
  fixes d :: "'w ReconcileDeps" and P :: "'w \<Rightarrow> bool" and cause :: "ArtifactID \<Rightarrow> State \<times> State \<Rightarrow> bool"
  assumes stat_law: "rc_RemoteStat d = Some stat \<Longrightarrow> P w \<Longrightarrow> stat w s p = (r, w') \<Longrightarrow> P w'"
    and record_law: "d_Journal (rc_Deps d) = Some ops \<Longrightarrow> P w \<Longrightarrow> cause (t_Artifact t) (t_From t, t_To t) \<Longrightarrow>
      jo_RecordTransition ops w t = (jr, w') \<Longrightarrow> P w'"
begin

text \<open>The causes of the moves a row may be given, on what the code reads.\<close>

definition warranted ::
  "('w \<Rightarrow> string \<Rightarrow> string \<Rightarrow> (anyError + RemoteArtifact) \<times> 'w) \<Rightarrow> string \<Rightarrow> Record \<Rightarrow> 'w \<Rightarrow> bool" where
  "warranted stat source rec w \<longleftrightarrow>
     (let a = r_Artifact rec; bad = (lv_Verdict (checkLocalFinal d w rec) = LocalInvalid) in
      (bad \<longrightarrow>
         (r_State rec = Committed \<longrightarrow> cause a (Committed, Quarantined)) \<and>
         (r_State rec = RemoteRetained \<longrightarrow> cause a (RemoteRetained, Quarantined)) \<and>
         (r_State rec = Complete \<longrightarrow> cause a (Complete, QuarantinedLost))) \<and>
      (r_State rec = RemoteDeletePending \<longrightarrow>
         (\<forall>remote w1. statRemote stat w source (r_RemotePath rec) = (Inr remote, w1) \<longrightarrow>
            (if remote = None
             then cause a (RemoteDeletePending, Complete) \<and> (bad \<longrightarrow> cause a (Complete, QuarantinedLost))
             else bad \<longrightarrow> cause a (RemoteDeletePending, Quarantined)))))"

lemma Advance_keeps:
  "Advance (rc_Deps d) w t = (r, w') \<Longrightarrow> P w \<Longrightarrow> cause (t_Artifact t) (t_From t, t_To t) \<Longrightarrow> P w'"
  using Advance_writes record_law[of _ w "t\<lparr>t_OccurredAt := _\<rparr>"] by fastforce

lemma condemn_keeps:
  assumes "condemn d w rec from to detail why = (r, w')" "P w" "cause (r_Artifact rec) (from, to)"
  shows "P w'"
  using assms(1) Advance_keeps[of w "reconcileMove rec from to detail"] assms(2,3)
  by (auto simp: condemn_def reconcileMove_def split: prod.splits sum.splits)

lemma toComplete_keeps:
  assumes "reconcileToComplete d w rec = (r, w')" "P w" "cause (r_Artifact rec) (RemoteDeletePending, Complete)"
  shows "P w'"
  using assms(1) Advance_keeps[of w] assms(2,3)
  by (fastforce simp: reconcileToComplete_def reconcileMove_def Let_def split: prod.splits sum.splits)

lemma toLost_keeps:
  assumes "reconcileToLost d w rec why = (r, w')" "P w" "cause (r_Artifact rec) (RemoteDeletePending, Complete)"
    and "cause (r_Artifact rec) (Complete, QuarantinedLost)"
  shows "P w'"
proof -
  obtain cr w1 where c: "reconcileToComplete d w rec = (cr, w1)" by (meson surj_pair)
  have 1: "P w1" using toComplete_keeps[OF c assms(2,3)] .
  show ?thesis
  proof (cases cr)
    case (Inl e)
    with assms(1) c 1 show ?thesis by (simp add: reconcileToLost_def)
  next
    case (Inr completed)
    with assms(1) c 1 assms(4) show ?thesis
      by (auto simp: reconcileToLost_def split: prod.splits sum.splits dest: Advance_keeps)
  qed
qed

lemma statRemote_keeps:
  "statRemote stat w source p = (r, w') \<Longrightarrow> rc_RemoteStat d = Some stat \<Longrightarrow> P w \<Longrightarrow> P w'"
  by (auto simp: statRemote_def split: prod.splits sum.splits dest: stat_law)

lemma pending_keeps:
  assumes r: "reconcileDeletePending d stat w source rec = (r, w')" and stat: "rc_RemoteStat d = Some stat"
    and w: "P w" "warranted stat source rec w" "r_State rec = RemoteDeletePending"
  shows "P w'"
proof (cases "lv_Verdict (checkLocalFinal d w rec) = LocalOnMedium")
  case True
  with r w(1) show ?thesis by (simp add: reconcileDeletePending_def)
next
  case False
  obtain sr w1 where s: "statRemote stat w source (r_RemotePath rec) = (sr, w1)" by (meson surj_pair)
  have 1: "P w1" using statRemote_keeps[OF s stat w(1)] .
  show ?thesis
  proof (cases sr)
    case (Inl e)
    with r False s 1 show ?thesis by (simp add: reconcileDeletePending_def Let_def)
  next
    case (Inr remote)
    have warrant: "if remote = None
        then cause (r_Artifact rec) (RemoteDeletePending, Complete) \<and>
          (lv_Verdict (checkLocalFinal d w rec) = LocalInvalid \<longrightarrow> cause (r_Artifact rec) (Complete, QuarantinedLost))
        else lv_Verdict (checkLocalFinal d w rec) = LocalInvalid \<longrightarrow> cause (r_Artifact rec) (RemoteDeletePending, Quarantined)"
      using w(2,3) s Inr by (simp add: warranted_def Let_def)
    show ?thesis
    proof (cases "lv_Verdict (checkLocalFinal d w rec)")
      case LocalValid
      with r s Inr 1 warrant show ?thesis
        by (auto simp: reconcileDeletePending_def Let_def split: option.splits prod.splits sum.splits dest: toComplete_keeps)
    next
      case LocalInvalid
      with r s Inr 1 warrant show ?thesis
        by (auto simp: reconcileDeletePending_def Let_def split: option.splits dest: toLost_keeps condemn_keeps)
    next
      case LocalOnMedium
      with False show ?thesis by simp
    qed
  qed
qed

lemma one_keeps:
  assumes r: "reconcileOne d stat w source rec = (r, w')" and stat: "rc_RemoteStat d = Some stat"
    and w: "P w" "warranted stat source rec w"
  shows "P w'"
proof (cases "r_State rec = RemoteDeletePending")
  case True
  with r pending_keeps[OF _ stat w True] show ?thesis by (simp add: reconcileOne_def)
next
  case False
  with r w show ?thesis
    by (cases "lv_Verdict (checkLocalFinal d w rec)")
      (auto simp: reconcileOne_def reconcileCommitted_def reconcileComplete_def reconcileRemoteRetained_def warranted_def Let_def
        split: if_splits dest: condemn_keeps)
qed

lemma loop_keeps:
  assumes stat: "rc_RemoteStat d = Some stat" and warrant: "\<And>v rec. P v \<Longrightarrow> rec \<in> set recs \<Longrightarrow> warranted stat source rec v"
    and "P w" "reconcileLoop d stat source recs report w = (report', w')"
  shows "P w'"
  using assms(2-4)
proof (induction recs arbitrary: report w)
  case (Cons rec recs)
  obtain r w1 where o1: "reconcileOne d stat w source rec = (r, w1)" by (meson surj_pair)
  have 1: "P w1" using one_keeps[OF o1 stat Cons.prems(2)] Cons.prems(1,2) by simp
  show ?case
  proof (rule Cons.IH[OF _ 1])
    show "warranted stat source rec' v" if "P v" "rec' \<in> set recs" for v rec' using Cons.prems(1) that by simp
    show "reconcileLoop d stat source recs
        (case r of Inl e \<Rightarrow> report\<lparr>rp_Errors := rp_Errors report @ [(r_Artifact rec, e)]\<rparr>
           | Inr f \<Rightarrow> report\<lparr>rp_Findings := rp_Findings report @ [f]\<rparr>) w1 = (report', w')"
      using Cons.prems(3) o1 by (cases r) simp_all
  qed
qed simp

lemma Reconcile_keeps:
  assumes "Reconcile d w source st = (res, w')" "P w"
    and "\<And>stat recs v rec. rc_RemoteStat d = Some stat \<Longrightarrow> rc_ListByBackupSet d w st = Inr recs \<Longrightarrow> P v \<Longrightarrow>
      rec \<in> set recs \<Longrightarrow> warranted stat source rec v"
  shows "P w'"
proof -
  have "P v'" if "rc_RemoteStat d = Some stat" "rc_ListByBackupSet d w st = Inr recs" "reconcileLoop d stat source recs rep w = (rep', v')"
    for stat recs rep rep' v'
    using loop_keeps[OF that(1) _ assms(2) that(3)] assms(3)[OF that(1,2)] by blast
  with assms(1,2) show ?thesis by (auto simp: Reconcile_def split: option.splits if_splits sum.splits prod.splits)
qed

end

end
