(* ===== verification/DiscoveryProps.thy ===== *)
theory DiscoveryProps
  imports Discovery "HOL-Library.Multiset"
begin

text \<open>
  What a discovery pass keeps and reports: the locale \<open>scanning\<close> says that the calls of the transport keep
  a property and that recording a candidate does, and a pass then keeps it; the account of a listing is
  complete; and the rows a pass adds to the journal are rows of complete candidates, after the ones there were.
\<close>

section \<open>What a pass keeps\<close>

locale scanning =
  fixes d :: "'w DiscoveryDeps" and source :: string and P :: "'w \<Rightarrow> bool"
    and F :: "string \<Rightarrow> RemoteFacts \<Rightarrow> bool" and T :: "Transition \<Rightarrow> bool"
  assumes capture_law: "ds_Transport d = Some tr \<Longrightarrow> P w \<Longrightarrow> captureRemoteIdentity tr w source p = (fr, w') \<Longrightarrow>
      P w' \<and> (\<forall>facts. fr = Inr facts \<longrightarrow> F p facts)"
    and record_law: "d_Journal (ds_Deps d) = Some ops \<Longrightarrow> P w \<Longrightarrow> T t \<Longrightarrow> jo_RecordTransition ops w t = (jr, w') \<Longrightarrow> P w'"
begin

definition mayRecord :: "DiscoverySet \<Rightarrow> string list \<Rightarrow> instant \<Rightarrow> RemoteArtifact \<Rightarrow> bool" where
  "mayRecord st known now o1 \<longleftrightarrow>
     (\<forall>a facts at. candidacyOf st (ra_Path o1) = Candidate a \<and> isComplete o1 (sn_Completion st) known now = None \<and>
        F (ra_Path o1) facts \<longrightarrow> T (discoveredTransition a (sn_ID st) (ra_Path o1) facts at))"

lemma Advance_keeps:
  assumes "P w" "\<And>at. T (discoveredTransition a st p facts at)" "Advance (ds_Deps d) w (discoveredTransition a st p facts now) = (r, w')"
  shows "P w'"
proof -
  have t: "(discoveredTransition a st p facts now)\<lparr>t_OccurredAt := at\<rparr> = discoveredTransition a st p facts at" for at
    by (simp add: discoveredTransition_def)
  show ?thesis using assms
    by (auto simp: Advance_def Let_def t split: option.splits if_splits prod.splits dest: record_law)
qed

lemma object_keeps:
  assumes "P w" "mayRecord st known now o1" "ds_Transport d = Some tr"
    and "discoverOneObject d ops tr source st known now o1 res w = (res', w')"
  shows "P w'"
proof (cases "candidacyOf st (ra_Path o1)")
  case (Candidate a)
  show ?thesis
  proof (cases "isComplete o1 (sn_Completion st) known now")
    case None
    obtain fr w1 where c: "captureRemoteIdentity tr w source (ra_Path o1) = (fr, w1)" by (meson surj_pair)
    note k = capture_law[OF assms(3,1) c]
    show ?thesis
    proof (cases fr)
      case (Inl e)
      with assms(4) Candidate None c k show ?thesis by (simp add: discoverOneObject_def journalCandidate_def)
    next
      case (Inr facts)
      then have "T (discoveredTransition a (sn_ID st) (ra_Path o1) facts at)" for at
        using assms(2) Candidate None k by (simp add: mayRecord_def)
      moreover obtain ar w2 where "Advance (ds_Deps d) w1 (discoveredTransition a (sn_ID st) (ra_Path o1) facts now) = (ar, w2)"
        by (meson surj_pair)
      moreover from this have "w2 = w'" using assms(4) Candidate None c Inr
        by (simp add: discoverOneObject_def journalCandidate_def)
      ultimately show ?thesis using Advance_keeps k by blast
    qed
  qed (use assms Candidate in \<open>simp add: discoverOneObject_def\<close>)
qed (use assms in \<open>simp_all add: discoverOneObject_def\<close>)

lemma loop_keeps:
  assumes "P w" "\<forall>o1 \<in> set objects. mayRecord st known now o1" "ds_Transport d = Some tr"
    and "discoverLoop d ops tr source st known now objects res w = (res', w')"
  shows "P w'"
  using assms(1,2,4)
proof (induction objects arbitrary: res w)
  case (Cons o1 objects)
  obtain r1 w1 where s: "discoverOneObject d ops tr source st known now o1 res w = (r1, w1)" by (meson surj_pair)
  have "P w1" using object_keeps[OF Cons.prems(1) _ assms(3) s] Cons.prems(2) by simp
  with Cons.IH[of w1 r1] Cons.prems s show ?case by simp
qed simp

end

section \<open>The account of a listing\<close>

text \<open>What a recording journal promises a scan: a recorded discovery answers with a row of the
  artifact asked for, carrying the path asked for when the row is new, and a row read back is the row
  of the artifact asked for.\<close>

definition answersScan :: "'w JournalOps \<Rightarrow> bool" where
  "answersScan ops =
     ((\<forall>w t out w'. t_From t = noState \<longrightarrow> jo_RecordTransition ops w t = (Inr out, w') \<longrightarrow>
         r_Artifact (o_Record out) = t_Artifact t \<and> (o_Applied out \<longrightarrow> r_RemotePath (o_Record out) = t_RemotePath t)) \<and>
      (\<forall>w a rec. jo_Get ops w a = Inr rec \<longrightarrow> r_Artifact rec = a))"

text \<open>A path names an artifact when it is clean and its last element is a valid name; such a name is
  passed over when it is a marker, a producer's temporary name, a write probe of this deployment or
  outside the include patterns.\<close>

definition namesArtifact :: "DiscoverySet \<Rightarrow> string \<Rightarrow> bool" where
  "namesArtifact st p = (isCleanRelativePath p \<and> NewArtifactID (sn_ID st) (lastElement p) = Inr \<lparr>ar_Set = sn_ID st, ar_Name = lastElement p\<rparr>)"

definition passedOver :: "DiscoverySet \<Rightarrow> string \<Rightarrow> bool" where
  "passedOver st p =
     (isMarkerObject (lastElement p) (sn_Completion st) \<or> isProducerTempName (lastElement p) \<or>
      isOwnWriteProbe (lastElement p) \<or> \<not> includeMatches (sn_Include st) (lastElement p))"

definition artifactAt :: "DiscoverySet \<Rightarrow> string \<Rightarrow> ArtifactID" where
  "artifactAt st p = \<lparr>ar_Set = sn_ID st, ar_Name = lastElement p\<rparr>"

definition candidateAt :: "DiscoverySet \<Rightarrow> RemoteArtifact \<Rightarrow> bool" where
  "candidateAt st o1 = (namesArtifact st (ra_Path o1) \<and> \<not> passedOver st (ra_Path o1))"

text \<open>What becomes of the listed objects between two reports: the rejected and the pending ones exactly
  and in order, and the complete ones split into the four other lists, none twice and none left out.\<close>

definition accounted ::
  "DiscoverySet \<Rightarrow> (RemoteArtifact \<Rightarrow> pendingReason option) \<Rightarrow> RemoteArtifact list \<Rightarrow> DiscoveryResult \<Rightarrow> DiscoveryResult \<Rightarrow> bool" where
  "accounted st waits os res res' =
     (\<exists>rejected new known conflicting failed.
        dr_Rejected res' = dr_Rejected res @ rejected \<and>
        map fst rejected = map ra_Path (filter (\<lambda>o1. \<not> namesArtifact st (ra_Path o1)) os) \<and>
        dr_Pending res' = dr_Pending res @
          List.map_filter (\<lambda>o1. map_option (Pair (ra_Path o1)) (waits o1)) (filter (candidateAt st) os) \<and>
        mset (filter (\<lambda>o1. candidateAt st o1 \<and> waits o1 = None) os) = mset new + mset known + mset conflicting + mset failed \<and>
        (\<exists>rows. dr_Discovered res' = dr_Discovered res @ rows \<and>
           map r_RemotePath rows = map ra_Path new \<and> map r_Artifact rows = map (artifactAt st \<circ> ra_Path) new) \<and>
        (\<exists>rows. dr_AlreadyKnown res' = dr_AlreadyKnown res @ rows \<and> map r_Artifact rows = map (artifactAt st \<circ> ra_Path) known) \<and>
        (\<exists>cs. dr_Conflicts res' = dr_Conflicts res @ cs \<and> map cn_RemotePath cs = map ra_Path conflicting \<and>
           map cn_Artifact cs = map (artifactAt st \<circ> ra_Path) conflicting) \<and>
        (\<exists>es. dr_Errors res' = dr_Errors res @ es \<and> map fst es = map ra_Path failed))"

lemma NewArtifactID_names: "NewArtifactID st n = Inr a \<Longrightarrow> a = \<lparr>ar_Set = st, ar_Name = n\<rparr>"
  by (auto simp: NewArtifactID_def split: if_splits)

lemma candidacyOf_names:
  "candidacyOf st p = (if \<not> isCleanRelativePath p then Reject TraversalShaped
     else case NewArtifactID (sn_ID st) (lastElement p) of Inl e \<Rightarrow> Reject (BadArtifactName e)
     | Inr a \<Rightarrow> if passedOver st p then Skipped else Candidate (artifactAt st p))"
  by (auto simp: candidacyOf_def passedOver_def artifactAt_def Let_def dest: NewArtifactID_names split: sum.split)

lemma accounted_rejected:
  "\<not> namesArtifact st (ra_Path o1) \<Longrightarrow>
     accounted st waits [o1] res (res\<lparr>dr_Rejected := dr_Rejected res @ [(ra_Path o1, why)]\<rparr>)"
  by (simp add: accounted_def candidateAt_def List.map_filter_simps)

lemma accounted_skipped:
  "namesArtifact st (ra_Path o1) \<Longrightarrow> passedOver st (ra_Path o1) \<Longrightarrow> accounted st waits [o1] res res"
  by (simp add: accounted_def candidateAt_def List.map_filter_simps)

lemma accounted_pending:
  "candidateAt st o1 \<Longrightarrow> waits o1 = Some why \<Longrightarrow>
     accounted st waits [o1] res (res\<lparr>dr_Pending := dr_Pending res @ [(ra_Path o1, why)]\<rparr>)"
  by (simp add: accounted_def candidateAt_def List.map_filter_simps)

lemma accounted_complete:
  assumes "candidateAt st o1" "waits o1 = None"
  shows "r_Artifact rec = artifactAt st (ra_Path o1) \<Longrightarrow> r_RemotePath rec = ra_Path o1 \<Longrightarrow>
      accounted st waits [o1] res (res\<lparr>dr_Discovered := dr_Discovered res @ [rec]\<rparr>)"
    "r_Artifact rec = artifactAt st (ra_Path o1) \<Longrightarrow>
      accounted st waits [o1] res (res\<lparr>dr_AlreadyKnown := dr_AlreadyKnown res @ [rec]\<rparr>)"
    "cn_Artifact c = artifactAt st (ra_Path o1) \<Longrightarrow> cn_RemotePath c = ra_Path o1 \<Longrightarrow>
      accounted st waits [o1] res (res\<lparr>dr_Conflicts := dr_Conflicts res @ [c]\<rparr>)"
    "accounted st waits [o1] res (withError res (ra_Path o1) e)"
proof -
  have s: "mset (filter (\<lambda>o1. candidateAt st o1 \<and> waits o1 = None) [o1]) = {#o1#}"
    "filter (\<lambda>o1. \<not> namesArtifact st (ra_Path o1)) [o1] = []"
    "List.map_filter (\<lambda>o1. map_option (Pair (ra_Path o1)) (waits o1)) (filter (candidateAt st) [o1]) = []"
    using assms by (simp_all add: candidateAt_def List.map_filter_simps)
  show "r_Artifact rec = artifactAt st (ra_Path o1) \<Longrightarrow> r_RemotePath rec = ra_Path o1 \<Longrightarrow>
      accounted st waits [o1] res (res\<lparr>dr_Discovered := dr_Discovered res @ [rec]\<rparr>)"
    unfolding accounted_def s by (rule exI[of _ "[]"], rule exI[of _ "[o1]"]) simp
  show "r_Artifact rec = artifactAt st (ra_Path o1) \<Longrightarrow>
      accounted st waits [o1] res (res\<lparr>dr_AlreadyKnown := dr_AlreadyKnown res @ [rec]\<rparr>)"
    unfolding accounted_def s by (rule exI[of _ "[]"], rule exI[of _ "[]"], rule exI[of _ "[o1]"]) simp
  show "cn_Artifact c = artifactAt st (ra_Path o1) \<Longrightarrow> cn_RemotePath c = ra_Path o1 \<Longrightarrow>
      accounted st waits [o1] res (res\<lparr>dr_Conflicts := dr_Conflicts res @ [c]\<rparr>)"
    unfolding accounted_def s by (rule exI[of _ "[]"], rule exI[of _ "[]"], rule exI[of _ "[]"], rule exI[of _ "[o1]"]) simp
  show "accounted st waits [o1] res (withError res (ra_Path o1) e)"
    unfolding accounted_def s withError_def
    by (rule exI[of _ "[]"], rule exI[of _ "[]"], rule exI[of _ "[]"], rule exI[of _ "[]"], rule exI[of _ "[o1]"]) simp
qed

lemma accounted_Nil: "accounted st waits [] res res"
  by (simp add: accounted_def List.map_filter_simps)

lemma map_filter_append: "List.map_filter f (xs @ ys) = List.map_filter f xs @ List.map_filter f ys"
  by (simp add: List.map_filter_def)

lemma accounted_append:
  assumes "accounted st waits os1 res res1" "accounted st waits os2 res1 res2"
  shows "accounted st waits (os1 @ os2) res res2"
proof -
  let ?take = "\<lambda>os. filter (\<lambda>o1. candidateAt st o1 \<and> waits o1 = None) os"
  let ?wait = "\<lambda>os. List.map_filter (\<lambda>o1. map_option (Pair (ra_Path o1)) (waits o1)) (filter (candidateAt st) os)"
  let ?bad = "\<lambda>os. map ra_Path (filter (\<lambda>o1. \<not> namesArtifact st (ra_Path o1)) os)"
  from assms(1) obtain r1 n1 k1 c1 f1 n1' k1' c1' f1' where 1:
    "dr_Rejected res1 = dr_Rejected res @ r1" "map fst r1 = ?bad os1" "dr_Pending res1 = dr_Pending res @ ?wait os1"
    "mset (?take os1) = mset n1 + mset k1 + mset c1 + mset f1"
    "dr_Discovered res1 = dr_Discovered res @ n1'" "map r_RemotePath n1' = map ra_Path n1" "map r_Artifact n1' = map (artifactAt st \<circ> ra_Path) n1"
    "dr_AlreadyKnown res1 = dr_AlreadyKnown res @ k1'" "map r_Artifact k1' = map (artifactAt st \<circ> ra_Path) k1"
    "dr_Conflicts res1 = dr_Conflicts res @ c1'" "map cn_RemotePath c1' = map ra_Path c1" "map cn_Artifact c1' = map (artifactAt st \<circ> ra_Path) c1"
    "dr_Errors res1 = dr_Errors res @ f1'" "map fst f1' = map ra_Path f1"
    unfolding accounted_def by blast
  from assms(2) obtain r2 n2 k2 c2 f2 n2' k2' c2' f2' where 2:
    "dr_Rejected res2 = dr_Rejected res1 @ r2" "map fst r2 = ?bad os2" "dr_Pending res2 = dr_Pending res1 @ ?wait os2"
    "mset (?take os2) = mset n2 + mset k2 + mset c2 + mset f2"
    "dr_Discovered res2 = dr_Discovered res1 @ n2'" "map r_RemotePath n2' = map ra_Path n2" "map r_Artifact n2' = map (artifactAt st \<circ> ra_Path) n2"
    "dr_AlreadyKnown res2 = dr_AlreadyKnown res1 @ k2'" "map r_Artifact k2' = map (artifactAt st \<circ> ra_Path) k2"
    "dr_Conflicts res2 = dr_Conflicts res1 @ c2'" "map cn_RemotePath c2' = map ra_Path c2" "map cn_Artifact c2' = map (artifactAt st \<circ> ra_Path) c2"
    "dr_Errors res2 = dr_Errors res1 @ f2'" "map fst f2' = map ra_Path f2"
    unfolding accounted_def by blast
  show ?thesis
    unfolding accounted_def
    by (rule exI[of _ "r1 @ r2"], rule exI[of _ "n1 @ n2"], rule exI[of _ "k1 @ k2"], rule exI[of _ "c1 @ c2"],
        rule exI[of _ "f1 @ f2"])
      (use 1 2 in \<open>simp add: map_filter_append ac_simps flip: mset_filter\<close>)
qed

lemma accounted_object:
  assumes "discoverOneObject d ops tr source st known now o1 res w = (res', w')" "answersScan ops"
    "d_Journal (ds_Deps d) = Some ops"
  shows "accounted st (\<lambda>o1. isComplete o1 (sn_Completion st) known now) [o1] res res'"
proof (cases "namesArtifact st (ra_Path o1)")
  case False
  then have "\<exists>why. candidacyOf st (ra_Path o1) = Reject why"
    unfolding candidacyOf_names by (auto simp: namesArtifact_def dest: NewArtifactID_names split: sum.split)
  with assms(1) accounted_rejected[OF False] show ?thesis by (auto simp: discoverOneObject_def)
next
  case named: True
  then have c: "candidacyOf st (ra_Path o1) = (if passedOver st (ra_Path o1) then Skipped else Candidate (artifactAt st (ra_Path o1)))"
    unfolding candidacyOf_names namesArtifact_def by simp
  show ?thesis
  proof (cases "passedOver st (ra_Path o1)")
    case True
    with assms(1) c accounted_skipped[OF named True] show ?thesis by (simp add: discoverOneObject_def)
  next
    case False
    have cand: "candidateAt st o1" using named False by (simp add: candidateAt_def)
    show ?thesis
    proof (cases "isComplete o1 (sn_Completion st) known now")
      case (Some why)
      with assms(1) c False accounted_pending[of st o1 "\<lambda>o1. isComplete o1 (sn_Completion st) known now", OF cand Some] show ?thesis by (auto simp: discoverOneObject_def)
    next
      case None
      note acc = accounted_complete[of st o1 "\<lambda>o1. isComplete o1 (sn_Completion st) known now", OF cand None]
      let ?a = "artifactAt st (ra_Path o1)"
      from assms(1) c False None have j: "journalCandidate d ops tr source st now ?a (ra_Path o1) res w = (res', w')"
        by (simp add: discoverOneObject_def)
      obtain fr w1 where cap: "captureRemoteIdentity tr w source (ra_Path o1) = (fr, w1)" by (meson surj_pair)
      show ?thesis
      proof (cases fr)
        case (Inl e)
        with j cap acc(4) show ?thesis by (auto simp: journalCandidate_def)
      next
        case (Inr facts)
        obtain answer w2 where adv: "Advance (ds_Deps d) w1 (discoveredTransition ?a (sn_ID st) (ra_Path o1) facts now) = (answer, w2)"
          by (meson surj_pair)
        have res': "res' = recordedAs ops ?a (ra_Path o1) res answer w2"
          using j cap Inr adv by (auto simp: journalCandidate_def)
        show ?thesis
        proof (cases answer)
          case (Inr out)
          have "r_Artifact (o_Record out) = ?a \<and> (o_Applied out \<longrightarrow> r_RemotePath (o_Record out) = ra_Path o1)"
          proof -
            let ?t = "discoveredTransition ?a (sn_ID st) (ra_Path o1) facts now"
            from adv assms(3) Inr obtain t w3 where "jo_RecordTransition ops w1 t = (Inr out, w3)"
              "t_From t = noState \<and> t_Artifact t = ?a \<and> t_RemotePath t = ra_Path o1"
              by (auto simp: Advance_def Let_def mapErr_def discoveredTransition_def emptyTransition_def
                split: if_splits prod.splits sum.splits)
            then show ?thesis using assms(2) unfolding answersScan_def by metis
          qed
          with acc(1,2) show ?thesis by (simp add: res' recordedAs_def Inr)
        next
          case (Inl e)
          have g: "r_Artifact rec = ?a" if "jo_Get ops w2 ?a = Inr rec" for rec
            using assms(2) that by (simp add: answersScan_def)
          show ?thesis
            unfolding res' Inl using acc g
            by (auto simp: recordedAs_def split: lifecycleError.split journalError.split sum.split)
        qed
      qed
    qed
  qed
qed

lemma accounted_loop:
  assumes "discoverLoop d ops tr source st known now os res w = (res', w')" "answersScan ops" "d_Journal (ds_Deps d) = Some ops"
  shows "accounted st (\<lambda>o1. isComplete o1 (sn_Completion st) known now) os res res'"
  using assms(1)
proof (induction os arbitrary: res w)
  case Nil
  then show ?case by (simp add: accounted_Nil)
next
  case (Cons o1 os)
  obtain r1 v1 where s: "discoverOneObject d ops tr source st known now o1 res w = (r1, v1)" by (meson surj_pair)
  with Cons.prems have "discoverLoop d ops tr source st known now os r1 v1 = (res', w')" by simp
  from accounted_append[OF accounted_object[OF s assms(2,3)] Cons.IH[OF this]] show ?case by simp
qed

text \<open>C31: Nothing a listing returned disappears, and nothing is reported twice.  The objects whose path is
  not clean or names no artifact are rejected, each under its path and in their order; of the others, those
  whose names are markers, producers' temporary names, this deployment's own probes or outside the include
  patterns are passed over; of the rest, those not proven complete are pending, with the reason; and those
  proven complete are split, each exactly once, into discovered, already known, conflicting and failed, under
  their own paths and artifacts.\<close>

theorem listing_accounted_for:
  assumes "DiscoverSet d w source st = (Inr res, w')" "ds_Transport d = Some tr" "ls_List tr w source = (Inr objects, w1)"
    "d_Journal (ds_Deps d) = Some ops" "answersScan ops"
  defines "waits \<equiv> \<lambda>o1. isComplete o1 (sn_Completion st) (map ra_Path objects) (d_Now (ds_Deps d) w1)"
  shows "map fst (dr_Rejected res) = map ra_Path (filter (\<lambda>o1. \<not> namesArtifact st (ra_Path o1)) objects) \<and>
    dr_Pending res = List.map_filter (\<lambda>o1. map_option (Pair (ra_Path o1)) (waits o1)) (filter (candidateAt st) objects) \<and>
    (\<exists>new known conflicting failed.
       mset (filter (\<lambda>o1. candidateAt st o1 \<and> waits o1 = None) objects) = mset new + mset known + mset conflicting + mset failed \<and>
       map r_RemotePath (dr_Discovered res) = map ra_Path new \<and>
       map r_Artifact (dr_Discovered res) = map (artifactAt st \<circ> ra_Path) new \<and>
       map r_Artifact (dr_AlreadyKnown res) = map (artifactAt st \<circ> ra_Path) known \<and>
       map cn_RemotePath (dr_Conflicts res) = map ra_Path conflicting \<and>
       map cn_Artifact (dr_Conflicts res) = map (artifactAt st \<circ> ra_Path) conflicting \<and>
       map fst (dr_Errors res) = map ra_Path failed)"
proof -
  from assms(1-4) obtain w2 where "discoverLoop d ops tr source st (map ra_Path objects) (d_Now (ds_Deps d) w1) objects noResult w1 = (res, w2)"
    by (auto simp: DiscoverSet_def split: if_splits prod.splits)
  from accounted_loop[OF this assms(5,4)] show ?thesis
    unfolding accounted_def waits_def noResult_def by fastforce
qed

text \<open>What a candidate's path and name have passed.\<close>

lemma candidacyOf_Candidate:
  assumes "candidacyOf st p = Candidate a"
  shows "isCleanRelativePath p \<and> NewArtifactID (sn_ID st) (lastElement p) = Inr a \<and>
    \<not> isMarkerObject (lastElement p) (sn_Completion st) \<and> \<not> isProducerTempName (lastElement p) \<and>
    \<not> isOwnWriteProbe (lastElement p) \<and> includeMatches (sn_Include st) (lastElement p)"
  using assms by (auto simp: candidacyOf_def Let_def split: if_splits sum.splits)

section \<open>The rows a pass adds\<close>

definition grownBy :: "(Record \<Rightarrow> bool) \<Rightarrow> JournalDB \<Rightarrow> JournalDB \<Rightarrow> bool" where
  "grownBy Q j j' \<longleftrightarrow> wfJournal j' \<and>
     (\<exists>new. j_artifacts j' = j_artifacts j @ new \<and> (\<forall>ar \<in> set new. Q (snd ar)))"

lemma grownBy_refl: "wfJournal j \<Longrightarrow> grownBy Q j j" by (simp add: grownBy_def)

lemma grownBy_discover:
  assumes "grownBy Q j0 j" "t_From t = noState" "Q (newRecord t)" "RecordTransition j t = (res, j')"
  shows "grownBy Q j0 j'"
  using assms(4)
proof (cases rule: RecordTransition_cases)
  case same
  with assms(1) show ?thesis by simp
next
  case (new out)
  have wf: "wfJournal j" using assms(1) by (simp add: grownBy_def)
  have to: "t_To t \<noteq> noState" using validateTransition_None[OF new(1)] by simp
  from applyTransition_Inr[OF wf new(2) to new(3)] obtain row j1 where
    "(if t_From t = noState then insertArtifact j t else updateArtifact j t) = Inr (row, j1)"
    "wfJournal j'" "j_artifacts j' = j_artifacts j1" by metis
  with insertArtifact_Inr[of j t row j1] assms(1,2,3) show ?thesis by (auto simp: grownBy_def)
qed

lemma grownBy_old:
  assumes "grownBy Q j j'" "findArtifact j a = Some x"
  shows "findArtifact j' a = Some x"
  using assms by (auto simp: grownBy_def findArtifact_def find_append)

lemma grownBy_new:
  assumes "grownBy Q j j'" "findArtifact j a = None" "findArtifact j' a = Some (row, r)"
  shows "Q r"
proof -
  from assms(1) obtain new where n: "j_artifacts j' = j_artifacts j @ new" "\<forall>ar \<in> set new. Q (snd ar)"
    by (auto simp: grownBy_def)
  from assms(2,3) n(1) have "find (\<lambda>ar. r_Artifact (snd ar) = a) new = Some (row, r)" by (simp add: findArtifact_def find_append)
  with n(2) find_SomeD show ?thesis by fastforce
qed

end
