(* ===== verification/FetchWorld.thy ===== *)
theory FetchWorld
  imports FetchPass ReconcileProps DiscoveryProps PipelineWorld
begin

text \<open>
  A whole pass over the world of the pipeline: its remote is listed and asked about, its disk is checked against
  the journal, and either may not answer.
\<close>

section \<open>The reads\<close>

text \<open>The paths a listing of the remote visits, when the remote does not answer, and which local files cannot be read.\<close>

record ScanSetup =
  ss_Names :: "string list"
  ss_Down :: "PWorld \<Rightarrow> bool"
  ss_Unreadable :: "string \<Rightarrow> bool"
  ss_Text :: "localReason option \<Rightarrow> string"

definition pListing :: "ScanSetup \<Rightarrow> PWorld \<Rightarrow> string \<Rightarrow> RemoteArtifact list" where
  "pListing ss w s =
     map (\<lambda>q. (fst (the (pw_remote w (s, q))))\<lparr>ra_Path := q\<rparr>) (filter (\<lambda>q. pw_remote w (s, q) \<noteq> None) (ss_Names ss))"

definition pRemoteStat :: "ScanSetup \<Rightarrow> PWorld \<Rightarrow> string \<Rightarrow> string \<Rightarrow> (anyError + RemoteArtifact) \<times> PWorld" where
  "pRemoteStat ss w s r =
     (if ss_Down ss w then Inl lostConnection
      else case pw_remote w (s, r) of None \<Rightarrow> Inl noObject | Some (a, _) \<Rightarrow> Inr a, w)"

definition pDiscovery :: "PSetup \<Rightarrow> ScanSetup \<Rightarrow> PWorld DiscoveryDeps" where
  "pDiscovery su ss =
     \<lparr>ds_Deps = pDeps,
      ds_Transport = Some
        \<lparr>ls_List = (\<lambda>w s. (if ss_Down ss w then Inl lostConnection else Inr (pListing ss w s), w)),
         ls_Stat = pRemoteStat ss, ls_RemoteHash = pHash su\<rparr>\<rparr>"

definition pReconcile :: "PSetup \<Rightarrow> ScanSetup \<Rightarrow> PWorld ReconcileDeps" where
  "pReconcile su ss =
     \<lparr>rc_Deps = pDeps, rc_ListByBackupSet = (\<lambda>w. ListByBackupSet (pw_db w)), rc_RemoteStat = Some (pRemoteStat ss),
      rc_Stat = (\<lambda>w q.
        if ss_Unreadable ss q then Inl (PathError ioFailed)
        else case fileAt w q of None \<Rightarrow> Inl NotExist | Some b \<Rightarrow> Inr \<lparr>fi_Size = int (length b), fi_IsDir = False\<rparr>),
      rc_SHA256File = (\<lambda>w q. case fileAt w q of None \<Rightarrow> Inl noFile | Some b \<Rightarrow> Inr (ps_Digest su b)),
      rc_Fold = ps_Fold su, rc_Text = ss_Text ss\<rparr>"

definition pFetch :: "PSetup \<Rightarrow> ScanSetup \<Rightarrow> PWorld FetchService" where
  "pFetch su ss = \<lparr>fv_Service = pService su, fv_Discovery = pDiscovery su ss, fv_Reconcile = pReconcile su ss\<rparr>"

lemma pFetch_sel [simp]:
  "fv_Service (pFetch su ss) = pService su" "fv_Discovery (pFetch su ss) = pDiscovery su ss"
  "fv_Reconcile (pFetch su ss) = pReconcile su ss"
  "rc_Deps (pReconcile su ss) = pDeps" "rc_RemoteStat (pReconcile su ss) = Some (pRemoteStat ss)"
  "rc_ListByBackupSet (pReconcile su ss) w = ListByBackupSet (pw_db w)" "ds_Deps (pDiscovery su ss) = pDeps"
  by (simp_all add: pFetch_def pReconcile_def pDiscovery_def)

lemma pRemoteStat_world [simp]: "snd (pRemoteStat ss w s r) = w"
  by (simp add: pRemoteStat_def)

lemma checkLocalFinal_world:
  assumes "fileAt v = fileAt w"
  shows "checkLocalFinal (pReconcile su ss) v rec = checkLocalFinal (pReconcile su ss) w rec"
proof -
  have e: "rc_Stat (pReconcile su ss) v = rc_Stat (pReconcile su ss) w" "rc_SHA256File (pReconcile su ss) v = rc_SHA256File (pReconcile su ss) w"
    using assms by (simp_all add: pReconcile_def cong: if_cong)
  show ?thesis unfolding checkLocalFinal_def checkHash_def settleRecordContradiction_def e ..
qed

lemma listed_records:
  assumes "wfJournal j" "ListByBackupSet j st = Inr recs" "rec \<in> set recs"
  shows "Get j (r_Artifact rec) = Inr rec \<and> ar_Set (r_Artifact rec) = st"
proof -
  let ?f = "\<lambda>(row, r). bindE (scanRecord r) (\<lambda>rec. Inr (withPlacements j row rec))"
  let ?xs = "filter (\<lambda>ar. ar_Set (r_Artifact (snd ar)) = st) (j_artifacts j)"
  have m: "mapResult ?f ?xs = Inr recs" using assms(2) by (simp add: ListByBackupSet_def listRecords_def)
  obtain i where i: "i < length recs" "recs ! i = rec" using assms(3) by (auto simp: in_set_conv_nth)
  with mapResult_Inr[OF m] have f: "?f (?xs ! i) = Inr rec" "?xs ! i \<in> set ?xs" by (metis nth_mem)+
  obtain row r where x: "?xs ! i = (row, r)" by (meson surj_pair)
  have mem: "(row, r) \<in> set (j_artifacts j)" "ar_Set (r_Artifact r) = st" using f(2) x by auto
  have fa: "findArtifact j (r_Artifact r) = Some (row, r)"
    using wf_findArtifact[OF assms(1) mem(1)] by simp
  from f(1) x have "rec = withPlacements j row r"
    using wf_row[OF assms(1) mem(1)] by (auto simp: wfRow_def)
  with Get_wf[OF assms(1) fa] mem(2) show ?thesis by (simp add: withPlacements_def)
qed

section \<open>Reconciliation\<close>

text \<open>When a row of a journal may be given an edge, judged on the world the pass started from.\<close>

definition edgeCause :: "PSetup \<Rightarrow> ScanSetup \<Rightarrow> PWorld \<Rightarrow> string \<Rightarrow> BackupSetID \<Rightarrow> ArtifactID \<Rightarrow> State \<times> State \<Rightarrow> bool" where
  "edgeCause su ss w source st a e \<longleftrightarrow>
     ar_Set a = st \<and>
     (\<exists>rec. Get (pw_db w) a = Inr rec \<and>
        (let bad = (lv_Verdict (checkLocalFinal (pReconcile su ss) w rec) = LocalInvalid);
             gone = (pw_remote w (source, r_RemotePath rec) = None) in
         (case e of
            (from, to) \<Rightarrow>
              from \<in> {Committed, RemoteRetained} \<and> to = Quarantined \<and> r_State rec = from \<and> bad \<or>
              from = RemoteDeletePending \<and> to = Quarantined \<and> r_State rec = from \<and> bad \<and> \<not> gone \<or>
              from = RemoteDeletePending \<and> to = Complete \<and> r_State rec = from \<and> gone \<or>
              from = Complete \<and> to = QuarantinedLost \<and> bad \<and> (r_State rec = Complete \<or> r_State rec = RemoteDeletePending \<and> gone))))"

definition reconciled ::
  "(ArtifactID \<Rightarrow> State \<times> State \<Rightarrow> bool) \<Rightarrow> PWorld \<Rightarrow> PWorld \<Rightarrow> bool" where
  "reconciled cause w v \<longleftrightarrow>
     pInv v \<and> fileAt v = fileAt w \<and> pw_remote v = pw_remote w \<and> pw_calls v = pw_calls w \<and>
     (\<forall>a. \<exists>es. history (pw_db v) a = history (pw_db w) a @ es \<and> (\<forall>e \<in> set es. cause a e))"

lemma reconciled_record:
  assumes "reconciled cause w v" "cause (t_Artifact t) (t_From t, t_To t)" "pRecord v t = (jr, v')"
  shows "reconciled cause w v'"
proof -
  have i: "wfJournal (pw_db v)" using assms(1) by (simp add: reconciled_def pInv_def)
  obtain res j where r: "RecordTransition (pw_db v) t = (res, j)" by (meson surj_pair)
  note f = record_transition_facts[OF i r]
  have grow: "\<exists>es. history j a = history (pw_db w) a @ es \<and> (\<forall>e \<in> set es. cause a e)" for a
  proof -
    obtain es where es: "history (pw_db v) a = history (pw_db w) a @ es" "\<forall>e \<in> set es. cause a e"
      using assms(1) unfolding reconciled_def by blast
    let ?es = "es @ (if applied res \<and> a = t_Artifact t then [(t_From t, t_To t)] else [])"
    have "history j a = history (pw_db w) a @ ?es" using f es(1) by simp
    moreover have "\<forall>e \<in> set ?es. cause a e" using es(2) assms(2) by auto
    ultimately show ?thesis by blast
  qed
  from pRecord_db[OF assms(3)] r f grow assms(1) show ?thesis
    by (auto simp: reconciled_def pInv_def fileAt_def[abs_def])
qed

interpretation pr: reconciling "pReconcile su ss" "reconciled cause w" cause for su ss cause w
proof unfold_locales
  fix stat v s p r v' assume "rc_RemoteStat (pReconcile su ss) = Some stat" "reconciled cause w v" "stat v s p = (r, v')"
  then show "reconciled cause w v'" using pRemoteStat_world[of ss v s p] by simp
next
  fix ops :: "PWorld JournalOps" and v t jr v'
  assume "d_Journal (rc_Deps (pReconcile su ss)) = Some ops" "reconciled cause w v" "cause (t_Artifact t) (t_From t, t_To t)"
    "jo_RecordTransition ops v t = (jr, v')"
  then show "reconciled cause w v'" using reconciled_record by auto
qed


lemma unstattable_invalid:
  "ReadableLocalPath rec = Some p \<Longrightarrow> ss_Unreadable ss p \<Longrightarrow>
     checkLocalFinal (pReconcile su ss) w rec = invalid (FinalUnstattable p ioFailed)"
  by (simp add: checkLocalFinal_def pReconcile_def)

section \<open>Discovery\<close>

definition capturedFacts :: "PSetup \<Rightarrow> PWorld \<Rightarrow> string \<Rightarrow> string \<Rightarrow> RemoteFacts \<Rightarrow> bool" where
  "capturedFacts su w source p facts \<longleftrightarrow>
     (\<exists>art b. pw_remote w (source, p) = Some (art, b) \<and> rf_Size facts = Some (ra_Size art) \<and>
        rf_BackendID facts = ra_ID art \<and> rf_Hash facts \<in> {[], ps_Digest su b})"

text \<open>What may be a new row: the row of an object that was listed, whose name makes it a candidate and whose
  completion was proven, with the facts of the remote object itself.\<close>

definition candidateRow :: "PSetup \<Rightarrow> ScanSetup \<Rightarrow> PWorld \<Rightarrow> string \<Rightarrow> DiscoverySet \<Rightarrow> Record \<Rightarrow> bool" where
  "candidateRow su ss w source st r \<longleftrightarrow>
     r_State r = Discovered \<and>
     (\<exists>o1 \<in> set (pListing ss w source).
        isCleanRelativePath (ra_Path o1) \<and> NewArtifactID (sn_ID st) (lastElement (ra_Path o1)) = Inr (r_Artifact r) \<and>
        \<not> isMarkerObject (lastElement (ra_Path o1)) (sn_Completion st) \<and> \<not> isProducerTempName (lastElement (ra_Path o1)) \<and>
        \<not> isOwnWriteProbe (lastElement (ra_Path o1)) \<and> includeMatches (sn_Include st) (lastElement (ra_Path o1)) \<and>
        isComplete o1 (sn_Completion st) (map ra_Path (pListing ss w source)) (pw_clock w) = None \<and>
        r_RemotePath r = ra_Path o1 \<and> capturedFacts su w source (ra_Path o1) (r_Remote r))"

definition scanned :: "(Record \<Rightarrow> bool) \<Rightarrow> PWorld \<Rightarrow> PWorld \<Rightarrow> bool" where
  "scanned Q w v \<longleftrightarrow>
     fileAt v = fileAt w \<and> pw_remote v = pw_remote w \<and> pw_calls v = pw_calls w \<and> grownBy Q (pw_db w) (pw_db v)"

lemma scanned_tick: "scanned Q w v \<Longrightarrow> scanned Q w (pTick v)"
  by (simp add: scanned_def pTick_def fileAt_def[abs_def])

lemma scanned_capture:
  assumes "scanned Q w v" "captureRemoteIdentity \<lparr>ls_List = l, ls_Stat = pRemoteStat ss, ls_RemoteHash = pHash su\<rparr> v source p = (fr, v')"
  shows "scanned Q w v' \<and> (\<forall>facts. fr = Inr facts \<longrightarrow> capturedFacts su w source p facts)"
proof -
  have rm: "pw_remote v = pw_remote w" using assms(1) by (simp add: scanned_def)
  show ?thesis
  proof (cases "ss_Down ss v \<or> pw_remote w (source, p) = None")
    case True
    with rm obtain e where "pRemoteStat ss v source p = (Inl e, v)"
      by (cases "ss_Down ss v") (auto simp: pRemoteStat_def)
    with assms show ?thesis by (auto simp: captureRemoteIdentity_def)
  next
    case False
    then obtain art b where a: "pw_remote w (source, p) = Some (art, b)" by auto
    have st: "pRemoteStat ss v source p = (Inr art, v)" using False a rm by (simp add: pRemoteStat_def)
    obtain hr v2 where h: "pHash su v source p = (hr, v2)" by (meson surj_pair)
    have v2: "v2 = pTick v" "\<And>x. hr = Inr x \<Longrightarrow> x = ps_Digest su b"
      using h a rm by (auto simp: pHash_def pEffect_def split: prod.splits option.splits fault.splits)
    from assms(2) st h v2 a scanned_tick[OF assms(1)] show ?thesis
      by (auto simp: captureRemoteIdentity_def capturedFacts_def Let_def split: sum.splits if_splits)
  qed
qed

lemma scanned_record:
  assumes "scanned Q w v" "t_From t = noState" "Q (newRecord t)" "pRecord v t = (jr, v')"
  shows "scanned Q w v'"
proof -
  obtain res j where r: "RecordTransition (pw_db v) t = (res, j)" by (meson surj_pair)
  have "grownBy Q (pw_db w) j" using grownBy_discover[of Q "pw_db w" "pw_db v" t res j] r assms(1-3) by (simp add: scanned_def)
  with pRecord_db[OF assms(4)] r assms(1) show ?thesis by (auto simp: scanned_def fileAt_def[abs_def])
qed

interpretation pc: scanning "pDiscovery su ss" source "scanned Q w" "capturedFacts su w source"
    "\<lambda>t. t_From t = noState \<and> Q (newRecord t)" for su ss source Q w
proof unfold_locales
  fix tr :: "PWorld ScanTransport" and v p fr v'
  assume "ds_Transport (pDiscovery su ss) = Some tr" "scanned Q w v" "captureRemoteIdentity tr v source p = (fr, v')"
  then show "scanned Q w v' \<and> (\<forall>facts. fr = Inr facts \<longrightarrow> capturedFacts su w source p facts)"
    using scanned_capture by (auto simp: pDiscovery_def)
next
  fix ops :: "PWorld JournalOps" and v t jr v'
  assume "d_Journal (ds_Deps (pDiscovery su ss)) = Some ops" "scanned Q w v" "t_From t = noState \<and> Q (newRecord t)"
    "jo_RecordTransition ops v t = (jr, v')"
  then show "scanned Q w v'" using scanned_record by auto
qed

text \<open>The journal of the world keeps what a scan relies on.\<close>

lemma pJournal_answersScan: "answersScan pJournal"
proof -
  have "r_Artifact rec = a" if "Get j a = Inr rec" for j a rec
    using Get_found[OF that] findArtifact_Some by (fastforce simp: withPlacements_def)
  moreover have "r_Artifact (o_Record out) = t_Artifact t \<and> (o_Applied out \<longrightarrow> r_RemotePath (o_Record out) = t_RemotePath t)"
    if "t_From t = noState" "pRecord w t = (Inr out, w')" for w t out w'
  proof -
    from that(2) obtain j where "RecordTransition (pw_db w) t = (Inr out, j)"
      by (auto simp: pRecord_def split: prod.splits option.splits)
    from discovery_row[OF this that(1)] show ?thesis .
  qed
  ultimately show ?thesis by (simp add: answersScan_def)
qed

text \<open>C24: discovery only adds rows, and only rows of complete candidates.  Whatever fails in a pass, no file and
  no remote object changes, nothing is deleted, every row there was stays as it was, and every new row is DISCOVERED
  and stands for an object that was listed, has a clean path and the name of a candidate, was proven complete by the
  set's strategy, with the size and the identifier the remote reported and no hash but the object's own.\<close>

theorem discovery_adds_candidates:
  assumes wf: "wfJournal (pw_db w)" and r: "DiscoverSet (pDiscovery su ss) w source st = (res, w')"
  shows "fileAt w' = fileAt w \<and> pw_remote w' = pw_remote w \<and> pw_calls w' = pw_calls w \<and> wfJournal (pw_db w') \<and>
    (\<exists>new. j_artifacts (pw_db w') = j_artifacts (pw_db w) @ new \<and> (\<forall>ar \<in> set new. candidateRow su ss w source st (snd ar)))"
proof -
  let ?Q = "candidateRow su ss w source st" and ?os = "pListing ss w source"
  let ?tr = "\<lparr>ls_List = (\<lambda>w s. (if ss_Down ss w then Inl lostConnection else Inr (pListing ss w s), w)),
    ls_Stat = pRemoteStat ss, ls_RemoteHash = pHash su\<rparr>"
  have tr: "ds_Transport (pDiscovery su ss) = Some ?tr" by (simp add: pDiscovery_def)
  have start: "scanned ?Q w w" using wf by (simp add: scanned_def grownBy_refl)
  have may: "\<forall>o1 \<in> set ?os. pc.mayRecord su w source ?Q st (map ra_Path ?os) (pw_clock w) o1"
    unfolding pc.mayRecord_def
    by (auto simp: candidateRow_def discoveredTransition_def emptyTransition_def newRecord_def dest!: candidacyOf_Candidate intro!: bexI)
  have "scanned ?Q w w'"
  proof (cases "setIsZero (sn_ID st) \<or> ss_Down ss w")
    case True
    with r start show ?thesis by (auto simp: DiscoverSet_def pDiscovery_def split: if_splits)
  next
    case False
    obtain res1 w1 where l: "discoverLoop (pDiscovery su ss) pJournal ?tr source st (map ra_Path ?os) (pw_clock w) ?os noResult w = (res1, w1)"
      by (meson surj_pair)
    have "w' = w1" using r False l by (simp add: DiscoverSet_def pDiscovery_def)
    with pc.loop_keeps[OF start may tr l] show ?thesis by simp
  qed
  then show ?thesis by (auto simp: scanned_def grownBy_def)
qed

section \<open>A whole pass\<close>

interpretation pk: reconciling "pReconcile su ss" "sourceKept j0 cs rm" "\<lambda>_ _. True" for su ss j0 cs rm
proof unfold_locales
  fix stat v s p r v' assume "rc_RemoteStat (pReconcile su ss) = Some stat" "sourceKept j0 cs rm v" "stat v s p = (r, v')"
  then show "sourceKept j0 cs rm v'" using pRemoteStat_world[of ss v s p] by simp
next
  fix ops :: "PWorld JournalOps" and v t jr v'
  assume "d_Journal (rc_Deps (pReconcile su ss)) = Some ops" "sourceKept j0 cs rm v" "jo_RecordTransition ops v t = (jr, v')"
  then show "sourceKept j0 cs rm v'" using sourceKept_record[of v t jr v'] by auto
qed

interpretation pz: scanning "pDiscovery su ss" source "sourceKept j0 cs rm" "\<lambda>_ _. True" "\<lambda>_. True" for su ss source j0 cs rm
proof unfold_locales
  fix tr :: "PWorld ScanTransport" and v p fr v'
  assume "ds_Transport (pDiscovery su ss) = Some tr" "sourceKept j0 cs rm v" "captureRemoteIdentity tr v source p = (fr, v')"
  moreover obtain a b where "pRemoteStat ss v source p = (a, v)" "pHash su v source p = b"
    by (metis pRemoteStat_world prod.collapse)
  ultimately show "sourceKept j0 cs rm v' \<and> (\<forall>facts. fr = Inr facts \<longrightarrow> True)"
    by (auto simp: pDiscovery_def captureRemoteIdentity_def Let_def pHash_def
        split: sum.splits prod.splits option.splits dest!: effect_frame)
next
  fix ops :: "PWorld JournalOps" and v t jr v'
  assume "d_Journal (ds_Deps (pDiscovery su ss)) = Some ops" "sourceKept j0 cs rm v" "jo_RecordTransition ops v t = (jr, v')"
  then show "sourceKept j0 cs rm v'" using sourceKept_record[of v t jr v'] by auto
qed

lemma reconcile_source:
  "Reconcile (pReconcile su ss) v source st = (r, v') \<Longrightarrow> sourceKept j0 cs rm v \<Longrightarrow> sourceKept j0 cs rm v'"
  by (rule pk.Reconcile_keeps) (simp_all add: pk.warranted_def)

lemma discover_source:
  assumes "DiscoverSet (pDiscovery su ss) v source st = (r, v')" "sourceKept j0 cs rm v"
  shows "sourceKept j0 cs rm v'"
proof -
  have "sourceKept j0 cs rm v2"
    if "ds_Transport (pDiscovery su ss) = Some tr" "discoverLoop (pDiscovery su ss) ops tr source st known now os res v = (res', v2)"
    for tr ops known now os res res' v2
    using pz.loop_keeps[OF assms(2) _ that] by (simp add: pz.mayRecord_def)
  with assms show ?thesis
    by (auto simp: DiscoverSet_def split: option.splits if_splits prod.splits sum.splits)
      (auto simp: pDiscovery_def split: if_splits)
qed

lemma wait_source: "sourceKept j0 cs rm v \<Longrightarrow> sourceKept j0 cs rm (snd (re_Wait (retryEnv (pTransfer su)) v))"
  by (auto simp: retryEnv_def pTransfer_def intro: sourceKept_frame)

lemma reconcileSet_source:
  assumes "reconcileSet (pFetch su ss) w source st = Some (r, w')" "sourceKept j0 cs rm w"
  shows "sourceKept j0 cs rm w'"
  using retryFrom_keeps[of "sourceKept j0 cs rm", OF _ _ assms(2) assms(1)[unfolded reconcileSet_def retryDo_def]] wait_source reconcile_source
  by (fastforce simp: map_prod_def split: prod.splits)

lemma discoverOne_source:
  assumes "discoverOne (pFetch su ss) w source st = Some (r, w')" "sourceKept j0 cs rm w"
  shows "sourceKept j0 cs rm w'"
  using retryFrom_keeps[of "sourceKept j0 cs rm", OF _ _ assms(2) assms(1)[unfolded discoverOne_def retryDo_def]] wait_source discover_source
  by (fastforce simp: map_prod_def split: prod.splits)

text \<open>A pass either stops before its rows are walked, or walks them.\<close>

lemma fetchPass_cases:
  assumes "fetchPass sv w source bs st = Some (r, w')"
  obtains (unreconciled) e where "reconcileSet sv w source (sn_ID st) = Some (Inl e, w')" "r = Inl (FetchReconcile e)"
    | (undiscovered) report w1 e where "reconcileSet sv w source (sn_ID st) = Some (Inr report, w1)"
        "discoverOne sv w1 source st = Some (Inl e, w')" "r = Inl (FetchDiscover e)"
    | (unlisted) report w1 found e where "reconcileSet sv w source (sn_ID st) = Some (Inr report, w1)"
        "discoverOne sv w1 source st = Some (Inr found, w')" "r = Inl (FetchListing e)"
    | (walked) report w1 found w2 records aw where "reconcileSet sv w source (sn_ID st) = Some (Inr report, w1)"
        "discoverOne sv w1 source st = Some (Inr found, w2)" "rc_ListByBackupSet (fv_Reconcile sv) w2 (sn_ID st) = Inr records"
        "processArtifacts (fv_Service sv) source bs w2 records = Some (aw, w')"
        "r = Inr \<lparr>fe_Reconcile = report, fe_Discovery = found, fe_FailedArtifacts = aw_Failed aw,
                            fe_Walked = foldDiscoveryErrors aw found, fe_Durable = aw_Durable aw\<rparr>"
proof -
  obtain rr w1 where 1: "reconcileSet sv w source (sn_ID st) = Some (rr, w1)"
    using assms by (cases "reconcileSet sv w source (sn_ID st)") (auto simp: fetchPass_def)
  show thesis
  proof (cases rr)
    case (Inl e)
    with assms 1 show thesis by (intro unreconciled[of e]) (simp_all add: fetchPass_def)
  next
    case (Inr report)
    obtain dr w2 where 2: "discoverOne sv w1 source st = Some (dr, w2)"
      using assms 1 Inr by (cases "discoverOne sv w1 source st") (auto simp: fetchPass_def)
    show thesis
    proof (cases dr)
      case (Inl e)
      with assms 1 2 Inr show thesis by (intro undiscovered[of report w1 e]) (simp_all add: fetchPass_def \<open>rr = Inr report\<close>)
    next
      case found: (Inr found)
      show thesis
      proof (cases "rc_ListByBackupSet (fv_Reconcile sv) w2 (sn_ID st)")
        case (Inl e)
        with assms 1 2 Inr found show thesis
          by (intro unlisted[of report w1 found e]) (simp_all add: fetchPass_def \<open>rr = Inr report\<close>)
      next
        case records: (Inr records)
        obtain aw w3 where 3: "processArtifacts (fv_Service sv) source bs w2 records = Some (aw, w3)"
          using assms 1 2 \<open>rr = Inr report\<close> found records
          by (cases "processArtifacts (fv_Service sv) source bs w2 records") (auto simp: fetchPass_def)
        with assms 1 2 \<open>rr = Inr report\<close> found records show thesis
          by (intro walked[of report w1 found w2 records aw]) (simp_all add: fetchPass_def)
      qed
    qed
  qed
qed

text \<open>C8: a whole pass over a set declared read-only (reconciliation, discovery, and every stage of every row)
  never asks the transport to delete anything and leaves every remote object as it was, whatever fails in it
  and wherever the context ends.\<close>

theorem fetch_read_only:
  assumes "wfJournal (pw_db w)" "bk_ReadOnly bs" "fetchPass (pFetch su ss) w source bs st = Some (r, w')"
  shows "pw_calls w' = pw_calls w \<and> pw_remote w' = pw_remote w \<and> wfJournal (pw_db w')"
proof -
  let ?K = "sourceKept (pw_db w) (pw_calls w) (pw_remote w)"
  have K: "?K w" using sourceKept_start[OF assms(1)] .
  have "?K w'" using assms(3)
  proof (cases rule: fetchPass_cases)
    case unreconciled
    with reconcileSet_source[OF _ K] show ?thesis by blast
  next
    case undiscovered
    with reconcileSet_source[OF _ K] discoverOne_source show ?thesis by blast
  next
    case unlisted
    with reconcileSet_source[OF _ K] discoverOne_source show ?thesis by blast
  next
    case (walked report w1 found w2 records aw)
    have "?K w2" using discoverOne_source[OF walked(2) reconcileSet_source[OF walked(1) K]] .
    from ps.processRows_keeps[OF walked(4)[unfolded processArtifacts_def pFetch_sel] this assms(2)] show ?thesis .
  qed
  then show ?thesis by (simp add: sourceKept_def pInv_def)
qed

section \<open>The deletes of a pass\<close>

text \<open>A moment at which deleting a source object is allowed: everything the code asks for, at once.\<close>

definition guardedDelete :: "PSetup \<Rightarrow> BackupSet \<Rightarrow> string \<Rightarrow> PWorld \<Rightarrow> ArtifactID \<Rightarrow> string \<times> string \<Rightarrow> bool" where
  "guardedDelete su bs source v a c \<longleftrightarrow>
     \<not> bk_ReadOnly bs \<and> \<not> pCancelled v \<and>
     (\<exists>key row discovered art b.
        Get (pw_db v) a = Inr row \<and> r_State row \<in> {Committed, RemoteDeletePending} \<and> c = (source, r_RemotePath row) \<and>
        set reinstatementEdges \<inter> set (history (pw_db v) a) = {} \<and>
        verifyLocalFinal (pRemoteDeps su) v row = None \<and>
        checkCompletion (pRemoteDeps su) pJournal v
          \<lparr>dq_Source = source, dq_Artifact = a, dq_AttemptKey = key, dq_CompletionStrategy = bk_Strategy bs,
           dq_DeleteSafetyDelay = bk_DeleteSafetyDelay bs\<rparr> = None \<and>
        discoveredIdentity row = Inr discovered \<and> pw_remote v c = Some (art, b) \<and>
        \<not> Preserve (CompareIdentity discovered (currentIdentity art)))"

lemma deleteOne_calls:
  assumes inv: "pInv v" and ro: "\<not> bk_ReadOnly bs" "\<not> pCancelled v"
    and d: "snd (deleteRemoteOne (pService su) v source bs q base) = w'"
  shows "pInv w' \<and> historiesGrow (pw_db v) (pw_db w') \<and>
    (pw_calls w' = pw_calls v \<or>
     (\<exists>c. pw_calls w' = pw_calls v @ [c] \<and> guardedDelete su bs source v (r_Artifact q) c \<and>
        RemoteDeletePending \<in> set (map snd (history (pw_db w') (r_Artifact q)))))"
proof -
  define req where "req = \<lparr>dq_Source = source, dq_Artifact = r_Artifact q, dq_AttemptKey = base @ '':delete'',
        dq_CompletionStrategy = bk_Strategy bs, dq_DeleteSafetyDelay = bk_DeleteSafetyDelay bs\<rparr>"
  have sel: "dq_Source req = source" "dq_Artifact req = r_Artifact q" by (simp_all add: req_def)
  obtain res where r: "DeleteRemote (pRemoteDeps su) v req = (res, w')"
    using d unfolding deleteRemoteOne_def req_def[symmetric] pDeps_sel by (metis prod.collapse)
  note st = pd.DeleteRemote_step[OF inv pRemote_wired r]
  then have hg: "historiesGrow (pw_db v) (pw_db w')"
    unfolding grows_def historiesGrow_def pHist_def by (metis Un_upper1 set_append)
  show ?thesis
  proof (cases "pw_calls w' = pw_calls v")
    case False
    with st obtain row w1 where rv: "revalidate (pRemoteDeps su) pJournal v req = Inr row"
      and i: "recordIntent (pRemoteDeps su) v req (r_State row) = (None, w1)" and c: "confirmed pTransport w1 req row"
      and calls: "pw_calls w' = pw_calls v @ [(source, r_RemotePath row)]"
      and p: "RemoteDeletePending \<in> set (map snd (pHist w1 (r_Artifact q)))" and g: "grows pHist w1 w' (r_Artifact q) deleteEdges"
      by (auto simp: sel)
    from c obtain discovered art b where c': "discoveredIdentity row = Inr discovered"
      "pw_remote v (source, r_RemotePath row) = Some (art, b)"
      "\<not> Preserve (CompareIdentity discovered (currentIdentity art))"
      by (auto simp: confirmed_def pTransport_def pIntent_remote[OF i] sel split: option.splits)
    have rdp: "RemoteDeletePending \<in> set (map snd (history (pw_db w') (r_Artifact q)))"
      using grows_mem[OF g p] by (simp add: pHist_def)
    have "set reinstatementEdges \<inter> set (history (pw_db v) (r_Artifact q)) = {}"
      using pd.reinstated_never_cleared[OF inv rv] by (simp add: pHist_def sel)
    moreover from rv have "Get (pw_db v) (r_Artifact q) = Inr row" "r_State row \<in> {Committed, RemoteDeletePending}"
      "verifyLocalFinal (pRemoteDeps su) v row = None" "checkCompletion (pRemoteDeps su) pJournal v req = None"
      by (simp_all add: revalidate_Inr_iff sel)
    ultimately have "guardedDelete su bs source v (r_Artifact q) (source, r_RemotePath row)"
      using ro c' unfolding guardedDelete_def req_def by blast
    with st hg calls rdp show ?thesis by blast
  qed (use st hg in simp)
qed

lemma processArtifact_calls:
  assumes inv: "pInv w" and p: "processArtifact (pService su) source bs w rec = Some (st, w')"
  shows "pInv w' \<and> historiesGrow (pw_db w) (pw_db w') \<and>
    (pw_calls w' = pw_calls w \<or>
     (\<exists>v a c. pw_calls w' = pw_calls w @ [c] \<and> guardedDelete su bs source v a c \<and>
        RemoteDeletePending \<in> set (map snd (history (pw_db w') a))))"
proof -
  have k: "sourceKept (pw_db w) (pw_calls w) (pw_remote w) w" using inv sourceKept_start by (simp add: pInv_def)
  obtain x where x: "stages (pService su) source bs w rec = Some (x, w')" using processArtifact_stages[OF p] by blast
  show ?thesis
  proof (cases "bk_ReadOnly bs")
    case True
    from ps.stages_keep[OF x k True] show ?thesis by (simp add: sourceKept_def)
  next
    case ro: False
    from x show ?thesis
    proof (cases rule: stages_split)
      case 1
      from ps.acquireStages_keep[OF 1 k] show ?thesis by (simp add: sourceKept_def)
    next
      case (2 v q)
      have v: "pInv v" "historiesGrow (pw_db w) (pw_db v)" "pw_calls v = pw_calls w"
        using ps.acquireStages_keep[OF 2(1) k] by (simp_all add: sourceKept_def)
      from 2(2) ro show ?thesis
      proof (cases rule: stageSource_split)
        case 1
        with v show ?thesis by simp
      next
        case d: 2
        have "\<not> pCancelled v" using d(1) unfolding cancelled_def pDeps_sel .
        from deleteOne_calls[OF v(1) ro this d(2)[symmetric]] v(2,3) show ?thesis
          unfolding historiesGrow_def by (metis (no_types, lifting) order_trans)
      qed
    qed
  qed
qed

lemma entered_grows:
  "historiesGrow j j' \<Longrightarrow> st \<in> set (map snd (history j a)) \<Longrightarrow> st \<in> set (map snd (history j' a))"
  unfolding historiesGrow_def by fastforce

definition deletesBacked :: "PSetup \<Rightarrow> BackupSet \<Rightarrow> string \<Rightarrow> PWorld \<Rightarrow> (string \<times> string) list \<Rightarrow> bool" where
  "deletesBacked su bs source w' cs \<longleftrightarrow>
     (\<forall>c \<in> set cs. \<exists>v a. guardedDelete su bs source v a c \<and> RemoteDeletePending \<in> set (map snd (history (pw_db w') a)))"

lemma processRows_calls:
  assumes "processRows (pService su) source bs aw w recs = Some (aw', w')" "pInv w"
  shows "\<exists>cs. pInv w' \<and> historiesGrow (pw_db w) (pw_db w') \<and> pw_calls w' = pw_calls w @ cs \<and>
    length cs \<le> length recs \<and> deletesBacked su bs source w' cs"
  using assms
proof (induction recs arbitrary: aw w)
  case (Cons rec recs)
  show ?case
  proof (cases "cancelled (pService su) w")
    case True
    with Cons.prems show ?thesis by (auto simp: deletesBacked_def historiesGrow_def)
  next
    case False
    with Cons.prems(1) obtain st w1 where 1: "processArtifact (pService su) source bs w rec = Some (st, w1)"
      and 2: "processRows (pService su) source bs (countRow aw rec st) w1 recs = Some (aw', w')"
      by (auto split: option.splits)
    note a = processArtifact_calls[OF Cons.prems(2) 1]
    then obtain cs where cs: "pInv w'" "historiesGrow (pw_db w1) (pw_db w')" "pw_calls w' = pw_calls w1 @ cs"
      "length cs \<le> length recs" "deletesBacked su bs source w' cs" using Cons.IH[OF 2] by blast
    have g: "historiesGrow (pw_db w) (pw_db w')" using a cs(2) unfolding historiesGrow_def by blast
    show ?thesis
    proof (cases "pw_calls w1 = pw_calls w")
      case True
      with cs g show ?thesis by (intro exI[of _ cs]) simp
    next
      case False
      with a obtain v x c where c: "pw_calls w1 = pw_calls w @ [c]" "guardedDelete su bs source v x c"
        "RemoteDeletePending \<in> set (map snd (history (pw_db w1) x))" by blast
      have "deletesBacked su bs source w' (c # cs)"
        using cs(5) c(2) entered_grows[OF cs(2) c(3)] unfolding deletesBacked_def by auto
      with cs g c(1) show ?thesis by (intro exI[of _ "c # cs"]) simp
    qed
  qed
qed (auto simp: deletesBacked_def historiesGrow_def)

text \<open>C5: whatever fails in a whole pass over a set, every delete call it makes comes from a moment at which the
  set is not read-only, the context had not ended, the artifact's row read COMMITTED or REMOTE\<open>_\<close>DELETE\<open>_\<close>PENDING with
  no reinstatement behind it, its local file passed the check, its completion gate was open and the object at the
  row's path was still the one discovered; and at the end of the pass the intent is on record.\<close>

theorem fetch_deletes_guarded:
  assumes wf: "wfJournal (pw_db w)" and f: "fetchPass (pFetch su ss) w source bs st = Some (r, w')"
  shows "\<exists>cs. pw_calls w' = pw_calls w @ cs \<and>
    (\<forall>c \<in> set cs. \<exists>v a. guardedDelete su bs source v a c \<and> LastEnteredAt (pw_db w') a RemoteDeletePending \<noteq> None)"
proof -
  let ?K = "sourceKept (pw_db w) (pw_calls w) (pw_remote w)"
  have K: "?K w" using sourceKept_start[OF wf] .
  from f show ?thesis
  proof (cases rule: fetchPass_cases)
    case unreconciled
    from source_kept_calls[OF reconcileSet_source[OF this(1) K]] show ?thesis by simp
  next
    case undiscovered
    from source_kept_calls[OF discoverOne_source[OF this(2) reconcileSet_source[OF this(1) K]]] show ?thesis by simp
  next
    case unlisted
    from source_kept_calls[OF discoverOne_source[OF this(2) reconcileSet_source[OF this(1) K]]] show ?thesis by simp
  next
    case (walked report w1 found w2 records aw)
    have 2: "?K w2" using discoverOne_source[OF walked(2) reconcileSet_source[OF walked(1) K]] .
    then have "pInv w2" by (simp add: sourceKept_def)
    from processRows_calls[OF walked(4)[unfolded processArtifacts_def pFetch_sel] this] obtain cs where
      cs: "pInv w'" "pw_calls w' = pw_calls w2 @ cs" "deletesBacked su bs source w' cs" by blast
    then have "\<forall>c \<in> set cs. \<exists>v a. guardedDelete su bs source v a c \<and> LastEnteredAt (pw_db w') a RemoteDeletePending \<noteq> None"
      using entered_LastEnteredAt[of "pw_db w'" RemoteDeletePending] unfolding deletesBacked_def pInv_def by fastforce
    with cs(2) source_kept_calls[OF 2] show ?thesis by auto
  qed
qed

section \<open>A pass returns\<close>

text \<open>C14: with a bound on the attempts a whole pass returns, whatever the listing, the reads, the copies, the validators
  and the deletes of it answer; and when it got to its rows, it counts no more of them durable than it walked.\<close>

theorem fetch_pass_returns:
  assumes "0 < sv_MaxAttempts (fv_Service sv)"
  shows "\<exists>r w'. fetchPass sv w source bs st = Some (r, w') \<and> (\<forall>fr. r = Inr fr \<longrightarrow> fe_Durable fr \<le> fe_Walked fr)"
proof -
  have 1: "reconcileSet sv v source st' \<noteq> None" for v st'
    unfolding reconcileSet_def using retryFrom_returns[of "sv_MaxAttempts (fv_Service sv)" 1] assms unfolding retryDo_def by force
  have 2: "discoverOne sv v source st \<noteq> None" for v
    unfolding discoverOne_def using retryFrom_returns[of "sv_MaxAttempts (fv_Service sv)" 1] assms unfolding retryDo_def by force
  have 3: "processArtifacts (fv_Service sv) source bs v recs \<noteq> None" for v recs
    using processRows_return[OF assms] unfolding processArtifacts_def .
  have "fetchPass sv w source bs st \<noteq> None"
    unfolding fetchPass_def using 1 2 3
    by (simp del: not_None_eq split: option.split sum.split prod.split)
  then obtain r w' where f: "fetchPass sv w source bs st = Some (r, w')" by auto
  have "fe_Durable fr \<le> fe_Walked fr" if "r = Inr fr" for fr
    using f
  proof (cases rule: fetchPass_cases)
    case (walked report w1 found w2 records aw)
    have "aw_Durable aw \<le> aw_Walked aw"
      using processRows_counts[OF walked(4)[unfolded processArtifacts_def]] by simp
    with that walked(5) show ?thesis by (auto simp: foldDiscoveryErrors_def)
  qed (use that in simp_all)
  with f show ?thesis by blast
qed

end
