(* ===== verification/FetchRuns.thy ===== *)
theory FetchRuns
  imports FetchWorld
begin

text \<open>
  Concrete passes: one from an empty journal over a remote with a complete artifact, its marker, one still being
  written, a crafted path, a second object of the same name and a temporary file; and passes over the rows it leaves.
\<close>

section \<open>The remote\<close>

definition remoteNames :: "string list" where
  "remoteNames = [''run/d'', ''run/d.complete'', ''y'', ''../e'', ''other/d'', ''other/d.complete'', ''t.tmp'', ''gone'']"

definition remoteObject :: "string \<Rightarrow> RemoteArtifact" where
  "remoteObject q =
     \<lparr>ra_Path = q, ra_Size = 5, ra_ModTime = 1000, ra_Hash = ''bytes'', ra_HashAlg = ''sha256'', ra_ID = [], ra_Kind = []\<rparr>"

definition fetchSetup :: PSetup where
  "fetchSetup =
     \<lparr>ps_Digest = id, ps_Encode = mf_ArtifactName, ps_Fold = (\<lambda>_ _. False), ps_Refusal = (\<lambda>_ _. ''refused''),
      ps_Verdict = (\<lambda>_. ''verdict''), ps_Statfs = \<lparr>fs_Bsize = 1, fs_Blocks = 5000, fs_Bfree = 4000, fs_Bavail = 3000\<rparr>,
      ps_Accepts = (\<lambda>_ b. b = Some ''bytes''), ps_Capacity = capExample, ps_MaxAttempts = 3\<rparr>"

definition scanSetup :: "string list \<Rightarrow> ScanSetup" where
  "scanSetup unreadable =
     \<lparr>ss_Names = remoteNames, ss_Down = (\<lambda>w. pw_clock w < 11), ss_Unreadable = (\<lambda>q. List.member unreadable q),
      ss_Text = (\<lambda>_. ''why'')\<rparr>"

definition fetchStart :: PWorld where
  "fetchStart =
     \<lparr>pw_db = emptyJournal id, pw_dir = (\<lambda>_. None), pw_data = (\<lambda>_. []), pw_next = 0,
      pw_remote = (\<lambda>(_, q). if List.member (butlast remoteNames) q then Some (remoteObject q, ''bytes'') else None),
      pw_calls = [], pw_clock = 10, pw_steps = 0, pw_stopAt = None, pw_script = []\<rparr>"

definition fetchSet :: "bool \<Rightarrow> BackupSet" where
  "fetchSet ro =
     \<lparr>bk_LocalPath = ''/b'', bk_Validation = \<lparr>va_Hash = ''sha256'', va_ValidatorID = [], va_Command = None\<rparr>,
      bk_Strategy = ''marker'', bk_DeleteSafetyDelay = 0, bk_ReadOnly = ro\<rparr>"

definition fetchScan :: DiscoverySet where
  "fetchScan = \<lparr>sn_ID = \<lparr>bs_Source = ''s'', bs_Set = ''b''\<rparr>, sn_Include = [],
     sn_Completion = \<lparr>co_Strategy = ''marker'', co_StableFor = 0, co_ManifestMarker = []\<rparr>\<rparr>"

definition fetched :: "bool \<Rightarrow> string list \<Rightarrow> PWorld \<Rightarrow> ((fetchError + FetchResult) \<times> PWorld) option" where
  "fetched ro unreadable w = fetchPass (pFetch fetchSetup (scanSetup unreadable)) w ''s'' (fetchSet ro) fetchScan"

definition reportOf :: "DiscoveryResult \<Rightarrow> nat list" where
  "reportOf res =
     [length (dr_Discovered res), length (dr_AlreadyKnown res), length (dr_Pending res), length (dr_Rejected res),
      length (dr_Conflicts res), length (dr_Errors res)]"

definition fetchEnd :: "((fetchError + FetchResult) \<times> PWorld) option \<Rightarrow>
    (nat list \<times> (State \<times> State) list \<times> nat \<times> nat) \<times> (ArtifactID \<times> State) list \<times> (string \<times> string) list" where
  "fetchEnd r =
     (case r of
        Some (Inr fr, w) \<Rightarrow>
          ((reportOf (fe_Discovery fr), map (\<lambda>f. (fn_From f, fn_To f)) (rp_Findings (fe_Reconcile fr)), fe_Walked fr, fe_Durable fr),
           map (\<lambda>ar. (r_Artifact (snd ar), r_State (snd ar))) (j_artifacts (pw_db w)), pw_calls w)
      | _ \<Rightarrow> (([], [], 0, 0), [], []))"

definition afterPass :: "((fetchError + FetchResult) \<times> PWorld) option \<Rightarrow> PWorld" where
  "afterPass r = (case r of Some (_, w) \<Rightarrow> w | None \<Rightarrow> fetchStart)"

declare retryFrom.simps [code]

text \<open>The disk cannot be read in the pass after the backup was made.\<close>

definition backedUp :: PWorld where "backedUp = afterPass (fetched False [] fetchStart)"

definition kept :: PWorld where "kept = afterPass (fetched True [] fetchStart)"

lemma fetch_run:
  "fetchEnd (fetched False [] fetchStart) =
     (([1, 0, 1, 1, 1, 0], [], 1, 1), [(\<lparr>ar_Set = \<lparr>bs_Source = ''s'', bs_Set = ''b''\<rparr>, ar_Name = ''d''\<rparr>, Complete)], [(''s'', ''run/d'')])"
  by code_simp

lemma fetch_kept:
  "fetchEnd (fetched True [] fetchStart) =
     (([1, 0, 1, 1, 1, 0], [], 1, 1), [(\<lparr>ar_Set = \<lparr>bs_Source = ''s'', bs_Set = ''b''\<rparr>, ar_Name = ''d''\<rparr>, RemoteRetained)], [])"
  by code_simp

lemma fetchStart_wf: "wfJournal (pw_db fetchStart)" by (simp add: fetchStart_def)

section \<open>The properties at the runs\<close>

theorem fetch_pass_returns_witness:
  "\<exists>fr w'. fetched False [] fetchStart = Some (Inr fr, w') \<and> fe_Durable fr = 1 \<and> fe_Durable fr \<le> fe_Walked fr"
proof -
  have "0 < sv_MaxAttempts (fv_Service (pFetch fetchSetup (scanSetup [])))" by (simp add: pService_def fetchSetup_def)
  from fetch_pass_returns[OF this, of fetchStart "''s''" "fetchSet False" fetchScan] fetch_run show ?thesis
    by (auto simp: fetched_def fetchEnd_def split: sum.splits)
qed

theorem fetch_read_only_witness:
  "\<exists>r w'. fetched True [] fetchStart = Some (r, w') \<and> map snd (fst (snd (fetchEnd (Some (r, w'))))) = [RemoteRetained] \<and>
    pw_calls w' = [] \<and> pw_remote w' = pw_remote fetchStart"
proof -
  obtain r w' where f: "fetched True [] fetchStart = Some (r, w')"
    using fetch_kept by (auto simp: fetchEnd_def split: option.splits)
  have "bk_ReadOnly (fetchSet True)" by (simp add: fetchSet_def)
  from fetch_read_only[OF fetchStart_wf this f[unfolded fetched_def]] f fetch_kept show ?thesis
    by (simp add: fetchStart_def)
qed

theorem fetch_deletes_guarded_witness:
  "\<exists>r w' v a. fetched False [] fetchStart = Some (r, w') \<and> pw_calls w' = [(''s'', ''run/d'')] \<and>
    guardedDelete fetchSetup (fetchSet False) ''s'' v a (''s'', ''run/d'') \<and> LastEnteredAt (pw_db w') a RemoteDeletePending \<noteq> None"
proof -
  obtain fr w' where f: "fetched False [] fetchStart = Some (Inr fr, w')" "pw_calls w' = [(''s'', ''run/d'')]"
    using fetch_run by (auto simp: fetchEnd_def split: option.splits sum.splits)
  have "pw_calls fetchStart = []" by (simp add: fetchStart_def)
  with fetch_deletes_guarded[OF fetchStart_wf f(1)[unfolded fetched_def]] f show ?thesis by auto
qed

definition scanOnce :: "(discoveryError + DiscoveryResult) \<times> PWorld" where
  "scanOnce = DiscoverSet (pDiscovery fetchSetup (scanSetup [])) (fetchStart\<lparr>pw_clock := 11\<rparr>) ''s'' fetchScan"

lemma scanOnce_run:
  "(case fst scanOnce of Inr res \<Rightarrow> reportOf res | Inl _ \<Rightarrow> []) = [1, 0, 1, 1, 1, 0] \<and>
   map (\<lambda>ar. (r_RemotePath (snd ar), r_State (snd ar))) (j_artifacts (pw_db (snd scanOnce))) = [(''run/d'', Discovered)]"
  by code_simp

theorem discovery_adds_candidates_witness:
  "\<exists>r. j_artifacts (pw_db (snd scanOnce)) = [r] \<and> r_RemotePath (snd r) = ''run/d'' \<and>
    candidateRow fetchSetup (scanSetup []) (fetchStart\<lparr>pw_clock := 11\<rparr>) ''s'' fetchScan (snd r)"
proof -
  let ?w = "fetchStart\<lparr>pw_clock := 11\<rparr>"
  have wf: "wfJournal (pw_db ?w)" "j_artifacts (pw_db ?w) = []"
    using fetchStart_wf by (simp_all add: fetchStart_def emptyJournal_def)
  have s: "DiscoverSet (pDiscovery fetchSetup (scanSetup [])) ?w ''s'' fetchScan = (fst scanOnce, snd scanOnce)" by (simp add: scanOnce_def)
  from discovery_adds_candidates[OF wf(1) s] wf(2) scanOnce_run show ?thesis by (auto simp: map_eq_Cons_conv)
qed

lemma scanOnce_report:
  "(case fst scanOnce of Inr res \<Rightarrow> (map r_RemotePath (dr_Discovered res), map fst (dr_Pending res), map fst (dr_Rejected res),
      map cn_RemotePath (dr_Conflicts res)) | Inl _ \<Rightarrow> ([], [], [], [])) = ([''run/d''], [''y''], [''../e''], [''other/d''])"
  by code_simp

theorem listing_accounted_for_witness:
  "\<exists>res. fst scanOnce = Inr res \<and> map r_RemotePath (dr_Discovered res) = [''run/d''] \<and> map fst (dr_Rejected res) = [''../e''] \<and>
    map fst (dr_Rejected res) =
      map ra_Path (filter (\<lambda>o1. \<not> namesArtifact fetchScan (ra_Path o1)) (pListing (scanSetup []) fetchStart ''s''))"
proof -
  let ?w = "fetchStart\<lparr>pw_clock := 11\<rparr>"
  let ?tr = "the (ds_Transport (pDiscovery fetchSetup (scanSetup [])))"
  obtain res where r: "fst scanOnce = Inr res" "map r_RemotePath (dr_Discovered res) = [''run/d'']" "map fst (dr_Rejected res) = [''../e'']"
    using scanOnce_report by (cases "fst scanOnce") auto
  have d: "DiscoverSet (pDiscovery fetchSetup (scanSetup [])) ?w ''s'' fetchScan = (Inr res, snd scanOnce)"
    using r(1) by (simp add: scanOnce_def prod_eq_iff)
  have t: "ds_Transport (pDiscovery fetchSetup (scanSetup [])) = Some ?tr" by (simp add: pDiscovery_def)
  have l: "ls_List ?tr ?w ''s'' = (Inr (pListing (scanSetup []) fetchStart ''s''), ?w)"
    by (simp add: pDiscovery_def scanSetup_def pListing_def)
  have j: "d_Journal (ds_Deps (pDiscovery fetchSetup (scanSetup []))) = Some pJournal" by (simp add: pDiscovery_def pDeps_def)
  from listing_accounted_for[OF d t l j pJournal_answersScan] r show ?thesis by simp
qed
definition reconcileOnce :: "string list \<Rightarrow> (reconcileError + Report) \<times> PWorld" where
  "reconcileOnce unreadable = Reconcile (pReconcile fetchSetup (scanSetup unreadable)) backedUp ''s'' (sn_ID fetchScan)"

lemma backedUp_wf: "wfJournal (pw_db backedUp)"
proof -
  have K: "sourceKept (pw_db fetchStart) (pw_calls fetchStart) (pw_remote fetchStart) fetchStart" by (rule sourceKept_start[OF fetchStart_wf])
  obtain fr w' where f: "fetched False [] fetchStart = Some (Inr fr, w')"
    using fetch_run by (auto simp: fetchEnd_def split: option.splits sum.splits)
  from f[unfolded fetched_def] have "pInv w'"
  proof (cases rule: fetchPass_cases)
    case (walked report w1 found w2 records aw)
    have "pInv w2" using discoverOne_source[OF walked(2) reconcileSet_source[OF walked(1) K]] by (simp add: sourceKept_def)
    from processRows_calls[OF walked(4)[unfolded processArtifacts_def pFetch_sel] this] show ?thesis by blast
  qed simp_all
  with f show ?thesis by (simp add: backedUp_def afterPass_def pInv_def)
qed

lemma reconcileOnce_run:
  "history (pw_db (snd (reconcileOnce [''/b/d'']))) \<lparr>ar_Set = sn_ID fetchScan, ar_Name = ''d''\<rparr> =
     history (pw_db backedUp) \<lparr>ar_Set = sn_ID fetchScan, ar_Name = ''d''\<rparr> @ [(Complete, QuarantinedLost)]"
  by code_simp


text \<open>The whole file of a backup: a pass that can look at it leaves the row alone.\<close>

lemma readable_disk_run:
  "fileAt backedUp ''/b/d'' = Some ''bytes'' \<and>
   map (\<lambda>f. (fn_From f, fn_To f)) (rp_Findings (projr (fst (reconcileOnce [])))) = [(Complete, Complete)]"
  by code_simp

abbreviation backedUpID :: ArtifactID where "backedUpID \<equiv> \<lparr>ar_Set = sn_ID fetchScan, ar_Name = ''d''\<rparr>"

lemma backedUp_row:
  "map_sum id (\<lambda>r. (r_State r, ReadableLocalPath r)) (Get (pw_db backedUp) backedUpID) = Inr (Complete, Some ''/b/d'')"
  "(case Get (pw_db backedUp) backedUpID of Inl _ \<Rightarrow> Some (0, Complete)
    | Inr r \<Rightarrow> findByIdempotencyKey (pw_db backedUp) (reconcileKey backedUpID Complete QuarantinedLost (r_UpdatedAt r))) = None"
  "pw_script backedUp = []" "0 < pw_clock backedUp"
  by code_simp+


end
