(* ===== verification/Revalidate.thy ===== *)
theory Revalidate
  imports VerifyStep Reconcile Ladder
begin

text \<open>
  Scheduled revalidation (\<open>core/internal/revalidate\<close>, \<open>lifecycle/restorecheck.go\<close>): which durable copies are due
  for another look, what one look finds out, on a local file or on storage mediums, and what of it the journal is told.
  The disk, the mediums and the operator's hook are calls on an arbitrary world; sentences are constructors, rendered
  by an argument.  Which failures of a medium or of the journal come from the pass's own context is an argument too.
\<close>

section \<open>The restore-test hook\<close>

definition maxRestoreCheckOutput :: nat where "maxRestoreCheckOutput = 16 * 2 ^ 10"

record RestoreCheckResult =
  rk_Passed :: bool
  rk_Detail :: string

definition RunRestoreCheck ::
  "('w \<Rightarrow> Command \<Rightarrow> string \<Rightarrow> ValidatorRun \<times> 'w) \<Rightarrow> (int \<Rightarrow> string) \<Rightarrow> 'w \<Rightarrow> Command \<Rightarrow> string \<Rightarrow>
   (anyError + RestoreCheckResult) \<times> 'w" where
  "RunRestoreCheck run killed w cmd localPath =
     (if cmd_Timeout cmd \<le> 0
      then (Inl (OtherError (''lifecycle: RunRestoreCheck: timeout must be positive, got '' @ itoa (cmd_Timeout cmd))), w)
      else case run w cmd localPath of (r, w') \<Rightarrow>
        let detail = boundedString maxRestoreCheckOutput (foldl (boundedWrite maxRestoreCheckOutput) [] (vr_Writes r)) in
        (case vr_Error r of
           None \<Rightarrow> (Inr \<lparr>rk_Passed = True, rk_Detail = detail\<rparr>, w')
         | Some err \<Rightarrow>
           (case vr_CallerEnded r of
              Some e \<Rightarrow> (Inl e, w')
            | None \<Rightarrow>
              if vr_TimedOut r then (Inr \<lparr>rk_Passed = False, rk_Detail = detail @ killed (cmd_Timeout cmd)\<rparr>, w')
              else (case err of
                      ExitError \<Rightarrow> (Inr \<lparr>rk_Passed = False, rk_Detail = detail\<rparr>, w')
                    | StartError e \<Rightarrow> (Inl (OtherError (''lifecycle: RunRestoreCheck: could not start '' @ cmd_Executable cmd @ '': '' @ e)), w')))))"

section \<open>What is due\<close>

record Revalidation =
  rl_Interval :: int
  rl_MaxPerCycle :: int
  rl_Hash :: bool
  rl_Command :: "Command option"

definition eligibleStates :: "State list" where
  "eligibleStates = [Committed, RemoteDeletePending, RemoteRetained, Complete]"

definition isDue :: "Revalidation \<Rightarrow> instant \<Rightarrow> Record \<Rightarrow> bool" where
  "isDue cfg now rec =
     (List.member eligibleStates (r_State rec) \<and> \<not> timeSub now (r_UpdatedAt rec) < rl_Interval cfg)"

text \<open>A stable sort by the rendered name under a stable sort by age is the sort by age with its tie-break.\<close>

definition oldestFirst :: "Record list \<Rightarrow> Record list" where
  "oldestFirst recs = sort_key r_UpdatedAt (sort_key (\<lambda>rec. artifactString (r_Artifact rec)) recs)"

definition SelectDue :: "Record list \<Rightarrow> Revalidation \<Rightarrow> instant \<Rightarrow> Record list" where
  "SelectDue records cfg now =
     (if rl_MaxPerCycle cfg \<le> 0 then []
      else
        let due = oldestFirst (filter (isDue cfg now) records) in
        if int (length due) > rl_MaxPerCycle cfg then take (nat (rl_MaxPerCycle cfg)) due else due)"

section \<open>What a look finds out\<close>

datatype lookReason =
    NoLocalCopyRecorded
  | LocalNowUnreadable string string
  | LocalNowHashes string string string string
  | HashStillMatches
  | HookFailed string
  | HookPassed

datatype checkReason =
    NoWayToReach "string list"
  | NoneConfigured "string list"
  | NothingEnabled string
  | OnMediums "string list" "(string \<times> ladderError) option" string bool
  | OnDisk "lookReason list"

datatype checkFailure =
    EgressRefused Class
  | StoreFailed ladderError
  | MediumSilent string ladderError
  | NotEveryCopyAsked "string list" "(string \<times> ladderError) option" string
  | HookUnusable anyError
  | PassUnrecorded lifecycleError
  | QuarantineUnrecorded lifecycleError

record checkAnswer =
  ca_Checked :: bool
  ca_Passed :: bool
  ca_Class :: "Class option"
  ca_Reason :: checkReason

record 'w RevalidateDeps =
  rv_Deps :: "'w Deps"
  rv_ListByBackupSet :: "'w \<Rightarrow> BackupSetID \<Rightarrow> journalError + Record list"
  rv_Store :: "'w MediumStore option"
  rv_Mediums :: "(string \<Rightarrow> Medium option) option"
  rv_ReadFile :: "'w \<Rightarrow> string \<Rightarrow> string + string"
  rv_Run :: "'w \<Rightarrow> Command \<Rightarrow> string \<Rightarrow> ValidatorRun \<times> 'w"
  rv_ContextError :: "'w \<Rightarrow> anyError option"
  rv_Digest :: "string \<Rightarrow> string"
  rv_Fold :: "string \<Rightarrow> string \<Rightarrow> bool"
  rv_Text :: "checkReason \<Rightarrow> string"
  rv_Killed :: "int \<Rightarrow> string"
  rv_StoreStopped :: "ladderError \<Rightarrow> bool"
  rv_JournalStopped :: "lifecycleError \<Rightarrow> bool"

definition isCancelled :: "anyError \<Rightarrow> bool" where
  "isCancelled e =
     (case CategoryOf e of Some c \<Rightarrow> c = CategoryCancelled | None \<Rightarrow> e = ContextCanceled \<or> e = DeadlineExceeded)"

fun failureCancelled :: "'w RevalidateDeps \<Rightarrow> checkFailure \<Rightarrow> bool" where
  "failureCancelled d (EgressRefused c) = False"
| "failureCancelled d (StoreFailed e) = rv_StoreStopped d e"
| "failureCancelled d (MediumSilent m e) = rv_StoreStopped d e"
| "failureCancelled d (NotEveryCopyAsked details silent missing) = False"
| "failureCancelled d (HookUnusable e) = isCancelled e"
| "failureCancelled d (PassUnrecorded e) = rv_JournalStopped d e"
| "failureCancelled d (QuarantineUnrecorded e) = rv_JournalStopped d e"

section \<open>Copies on storage mediums\<close>

definition automaticMediumClass :: Class where "automaticMediumClass = Existence"

definition mediumIDs :: "Placement list \<Rightarrow> string list" where "mediumIDs ps = map p_Medium ps"

text \<open>What the loop over the placements has gathered; the empty string is no medium.\<close>

record askedSoFar =
  ak_Details :: "string list"
  ak_AnyPassed :: bool
  ak_DidNotAnswer :: "(string \<times> ladderError) option"
  ak_NotConfigured :: string

fun askMediums ::
  "'w RevalidateDeps \<Rightarrow> 'w MediumStore option \<Rightarrow> (string \<Rightarrow> Medium option) \<Rightarrow> 'w \<Rightarrow> Placement list \<Rightarrow> askedSoFar \<Rightarrow>
   checkFailure + askedSoFar" where
  "askMediums d store mediums w [] s = Inr s"
| "askMediums d store mediums w (p # ps) s =
     (case mediums (p_Medium p) of
        None \<Rightarrow>
          askMediums d store mediums w ps (if ak_NotConfigured s = [] then s\<lparr>ak_NotConfigured := p_Medium p\<rparr> else s)
      | Some medium \<Rightarrow>
        (case ladderVerify (rv_Fold d) (rv_Digest d) store w medium p automaticMediumClass (d_Now (rv_Deps d) w) of
           Inl e \<Rightarrow>
             if rv_StoreStopped d e then Inl (StoreFailed e)
             else askMediums d store mediums w ps
               (if ak_DidNotAnswer s = None then s\<lparr>ak_DidNotAnswer := Some (p_Medium p, e)\<rparr> else s)
         | Inr result \<Rightarrow>
             askMediums d store mediums w ps
               (s\<lparr>ak_Details := ak_Details s @ [rt_Detail result], ak_AnyPassed := (ak_AnyPassed s \<or> rt_Passed result)\<rparr>)))"

definition mediumVerdict :: "Revalidation \<Rightarrow> Placement list \<Rightarrow> askedSoFar \<Rightarrow> checkFailure + checkAnswer" where
  "mediumVerdict cfg ps s =
     (if \<not> ak_AnyPassed s \<and> ak_Details s \<noteq> [] \<and> (ak_DidNotAnswer s \<noteq> None \<or> ak_NotConfigured s \<noteq> [])
      then Inl (NotEveryCopyAsked (ak_Details s) (ak_DidNotAnswer s) (ak_NotConfigured s))
      else if \<not> ak_AnyPassed s \<and> ak_DidNotAnswer s \<noteq> None
      then Inl (MediumSilent (fst (the (ak_DidNotAnswer s))) (snd (the (ak_DidNotAnswer s))))
      else if \<not> ak_AnyPassed s \<and> ak_NotConfigured s \<noteq> []
      then Inr \<lparr>ca_Checked = False, ca_Passed = True, ca_Class = None, ca_Reason = NoneConfigured (mediumIDs ps)\<rparr>
      else Inr \<lparr>ca_Checked = True, ca_Passed = ak_AnyPassed s, ca_Class = Some automaticMediumClass,
             ca_Reason = OnMediums (ak_Details s) (ak_DidNotAnswer s) (ak_NotConfigured s) (rl_Command cfg \<noteq> None)\<rparr>)"

definition checkMediumPlacements ::
  "'w RevalidateDeps \<Rightarrow> Revalidation \<Rightarrow> 'w \<Rightarrow> Placement list \<Rightarrow> checkFailure + checkAnswer" where
  "checkMediumPlacements d cfg w ps =
     (if rv_Store d = None \<or> rv_Mediums d = None
      then Inr \<lparr>ca_Checked = False, ca_Passed = True, ca_Class = None, ca_Reason = NoWayToReach (mediumIDs ps)\<rparr>
      else if CostsEgress automaticMediumClass then Inl (EgressRefused automaticMediumClass)
      else
        (case askMediums d (rv_Store d) (the (rv_Mediums d)) w ps
                \<lparr>ak_Details = [], ak_AnyPassed = False, ak_DidNotAnswer = None, ak_NotConfigured = []\<rparr> of
           Inl e \<Rightarrow> Inl e
         | Inr s \<Rightarrow> mediumVerdict cfg ps s))"

section \<open>A copy on the disk\<close>

definition recomputeLocalHash :: "'w RevalidateDeps \<Rightarrow> 'w \<Rightarrow> string \<Rightarrow> string + string" where
  "recomputeLocalHash d w path = (case rv_ReadFile d w path of Inl e \<Rightarrow> Inl e | Inr bytes \<Rightarrow> Inr (rv_Digest d bytes))"

text \<open>The hash tier: its verdict and what it says, nothing when it does not apply.\<close>

definition hashTier :: "'w RevalidateDeps \<Rightarrow> Revalidation \<Rightarrow> 'w \<Rightarrow> Record \<Rightarrow> (bool \<times> lookReason) option" where
  "hashTier d cfg w rec =
     (if rl_Hash cfg \<and> r_LocalHashAlg rec = SHA256Alg \<and> r_LocalHash rec \<noteq> [] then
        Some (case ReadableLocalPath rec of
            None \<Rightarrow> (False, NoLocalCopyRecorded)
          | Some path \<Rightarrow>
            (case recomputeLocalHash d w path of
               Inl e \<Rightarrow> (False, LocalNowUnreadable path e)
             | Inr digest \<Rightarrow>
               if \<not> equalFold (rv_Fold d) digest (r_LocalHash rec)
               then (False, LocalNowHashes path digest (r_LocalHashAlg rec) (r_LocalHash rec))
               else (True, HashStillMatches)))
      else None)"

definition onDisk :: "bool \<Rightarrow> lookReason list \<Rightarrow> checkAnswer" where
  "onDisk ok why = \<lparr>ca_Checked = True, ca_Passed = ok, ca_Class = Some Content, ca_Reason = OnDisk why\<rparr>"

definition checkLocalCopy ::
  "'w RevalidateDeps \<Rightarrow> Revalidation \<Rightarrow> 'w \<Rightarrow> Record \<Rightarrow> (checkFailure + checkAnswer) \<times> 'w" where
  "checkLocalCopy d cfg w rec =
     (let hashed = hashTier d cfg w rec;
          passed = (case hashed of None \<Rightarrow> True | Some (ok, _) \<Rightarrow> ok);
          why = (case hashed of None \<Rightarrow> [] | Some (_, r) \<Rightarrow> [r]) in
      case rl_Command cfg of
        Some cmd \<Rightarrow>
          (case RunRestoreCheck (rv_Run d) (rv_Killed d) w cmd
                  (case ReadableLocalPath rec of None \<Rightarrow> [] | Some path \<Rightarrow> path) of
             (Inl e, w') \<Rightarrow> (Inl (HookUnusable e), w')
           | (Inr result, w') \<Rightarrow>
             (Inr (if \<not> rk_Passed result then onDisk False (why @ [HookFailed (rk_Detail result)])
                   else onDisk passed (why @ [HookPassed])), w'))
      | None \<Rightarrow>
          (Inr (if hashed = None
                then \<lparr>ca_Checked = False, ca_Passed = True, ca_Class = None, ca_Reason = NothingEnabled (r_LocalHashAlg rec)\<rparr>
                else onDisk passed why), w))"

definition runChecks ::
  "'w RevalidateDeps \<Rightarrow> Revalidation \<Rightarrow> 'w \<Rightarrow> Record \<Rightarrow> (checkFailure + checkAnswer) \<times> 'w" where
  "runChecks d cfg w rec =
     (if LocalPlacement rec = None \<and> length (ActiveMediumPlacements rec) > 0
      then (checkMediumPlacements d cfg w (ActiveMediumPlacements rec), w)
      else checkLocalCopy d cfg w rec)"

section \<open>One artifact\<close>

record revalFinding =
  rvf_Artifact :: ArtifactID
  rvf_From :: State
  rvf_To :: State
  rvf_Checked :: bool
  rvf_Passed :: bool
  rvf_Reason :: checkReason
  rvf_Class :: "Class option"

definition revalidateKey :: "ArtifactID \<Rightarrow> string \<Rightarrow> State \<Rightarrow> State \<Rightarrow> instant \<Rightarrow> string" where
  "revalidateKey a tag from to updatedAt =
     ''revalidate:'' @ artifactString a @ '':'' @ tag @ '':'' @ stateString from @ ''->'' @ stateString to @ ''@'' @ rfc3339Nano updatedAt"

definition classText :: "Class option \<Rightarrow> string" where
  "classText c = (case c of None \<Rightarrow> [] | Some c' \<Rightarrow> classString c')"

definition passTransition :: "'w RevalidateDeps \<Rightarrow> Record \<Rightarrow> checkAnswer \<Rightarrow> Transition" where
  "passTransition d rec ans =
     (let cur = r_State rec in
      (emptyTransition (r_Artifact rec) (revalidateKey (r_Artifact rec) ''pass'' cur cur (r_UpdatedAt rec)) cur cur)
        \<lparr>t_Detail := ''Phase 4: scheduled revalidation passed at '' @ classText (ca_Class ans) @ '' class: '' @
           rv_Text d (ca_Reason ans)\<rparr>)"

definition failTarget :: "State \<Rightarrow> State" where
  "failTarget cur = (if cur = Complete then QuarantinedLost else Quarantined)"

definition failTransition :: "'w RevalidateDeps \<Rightarrow> Record \<Rightarrow> checkAnswer \<Rightarrow> Transition" where
  "failTransition d rec ans =
     (let cur = r_State rec; to = failTarget cur in
      (emptyTransition (r_Artifact rec) (revalidateKey (r_Artifact rec) ''fail'' cur to (r_UpdatedAt rec)) cur to)
        \<lparr>t_Detail := ''Phase 4: scheduled revalidation at '' @ classText (ca_Class ans) @
           '' class found the artifact's durable copy invalid: '' @ rv_Text d (ca_Reason ans)\<rparr>)"

definition revalFound :: "Record \<Rightarrow> State \<Rightarrow> checkAnswer \<Rightarrow> revalFinding" where
  "revalFound rec to ans =
     \<lparr>rvf_Artifact = r_Artifact rec, rvf_From = r_State rec, rvf_To = to, rvf_Checked = ca_Checked ans,
      rvf_Passed = (ca_Checked ans \<and> ca_Passed ans), rvf_Reason = ca_Reason ans, rvf_Class = ca_Class ans\<rparr>"

definition checkArtifact ::
  "'w RevalidateDeps \<Rightarrow> Revalidation \<Rightarrow> 'w \<Rightarrow> Record \<Rightarrow> (checkFailure + revalFinding) \<times> 'w" where
  "checkArtifact d cfg w rec =
     (case runChecks d cfg w rec of
        (Inl e, w1) \<Rightarrow> (Inl e, w1)
      | (Inr ans, w1) \<Rightarrow>
        if \<not> ca_Checked ans then (Inr (revalFound rec (r_State rec) ans), w1)
        else if ca_Passed ans then
          (case Advance (rv_Deps d) w1 (passTransition d rec ans) of
             (Inl e, w2) \<Rightarrow> (Inl (PassUnrecorded e), w2)
           | (Inr _, w2) \<Rightarrow> (Inr (revalFound rec (r_State rec) ans), w2))
        else
          (case Advance (rv_Deps d) w1 (failTransition d rec ans) of
             (Inl e, w2) \<Rightarrow> (Inl (QuarantineUnrecorded e), w2)
           | (Inr out, w2) \<Rightarrow> (Inr (revalFound rec (r_State (o_Record out)) ans), w2)))"

section \<open>A pass\<close>

record revalReport =
  rr_Findings :: "revalFinding list"
  rr_Errors :: "(ArtifactID \<times> checkFailure) list"

datatype revalError =
    RevalidateNeedsJournal
  | RevalidateNeedsSetID
  | RevalidateListing journalError
  | PassStopped anyError
  | CheckStopped checkFailure

definition emptyReport :: revalReport where "emptyReport = \<lparr>rr_Findings = [], rr_Errors = []\<rparr>"

fun revalidateLoop ::
  "'w RevalidateDeps \<Rightarrow> Revalidation \<Rightarrow> Record list \<Rightarrow> revalReport \<Rightarrow> 'w \<Rightarrow> (revalReport \<times> revalError option) \<times> 'w" where
  "revalidateLoop d cfg [] report w = ((report, None), w)"
| "revalidateLoop d cfg (rec # recs) report w =
     (case rv_ContextError d w of
        Some e \<Rightarrow> ((report, Some (PassStopped e)), w)
      | None \<Rightarrow>
        (case checkArtifact d cfg w rec of
           (Inl e, w1) \<Rightarrow>
             if failureCancelled d e then ((report, Some (CheckStopped e)), w1)
             else revalidateLoop d cfg recs (report\<lparr>rr_Errors := rr_Errors report @ [(r_Artifact rec, e)]\<rparr>) w1
         | (Inr f, w1) \<Rightarrow> revalidateLoop d cfg recs (report\<lparr>rr_Findings := rr_Findings report @ [f]\<rparr>) w1))"

definition revalidateRun ::
  "'w RevalidateDeps \<Rightarrow> 'w \<Rightarrow> BackupSetID \<Rightarrow> Revalidation \<Rightarrow> (revalReport \<times> revalError option) \<times> 'w" where
  "revalidateRun d w st cfg =
     (case d_Journal (rv_Deps d) of
        None \<Rightarrow> ((emptyReport, Some RevalidateNeedsJournal), w)
      | Some _ \<Rightarrow>
        if setIsZero st then ((emptyReport, Some RevalidateNeedsSetID), w)
        else if rl_MaxPerCycle cfg \<le> 0 then ((emptyReport, None), w)
        else
          (case rv_ListByBackupSet d w st of
             Inl e \<Rightarrow> ((emptyReport, Some (RevalidateListing e)), w)
           | Inr records \<Rightarrow> revalidateLoop d cfg (SelectDue records cfg (d_Now (rv_Deps d) w)) emptyReport w))"

end
