(* ===== verification/RevalidateProps.thy ===== *)
theory RevalidateProps
  imports Revalidate ReconcileProps "HOL-Library.Multiset"
begin

text \<open>
  What revalidation promises: which rows are looked at, what a failed look rests on, what it costs, and what a
  pass keeps (locale \<open>revalidating\<close>).
\<close>

section \<open>The selection\<close>

lemma sorted_wrt_class:
  "(\<And>k. sorted_wrt R (filter (\<lambda>x. f x = k) xs)) \<Longrightarrow> sorted_wrt (\<lambda>x y. f x = f y \<longrightarrow> R x y) xs"
proof (induction xs)
  case (Cons x xs)
  have "sorted_wrt R (filter (\<lambda>y. f y = k) xs)" for k using Cons.prems[of k] by (simp split: if_splits)
  with Cons.IH Cons.prems[of "f x"] show ?case by auto
qed simp

lemma sort_key_tie_break:
  fixes f :: "'a \<Rightarrow> 'b::linorder" and g :: "'a \<Rightarrow> 'c::linorder"
  shows "sorted_wrt (\<lambda>x y. f x < f y \<or> f x = f y \<and> g x \<le> g y) (sort_key f (sort_key g xs))"
proof -
  let ?ys = "sort_key f (sort_key g xs)"
  have "sorted_wrt (\<lambda>x y. g x \<le> g y) (filter (\<lambda>x. f x = k) ?ys)" for k
    using sorted_filter[OF sorted_sort_key[of g xs]] by (simp add: sort_key_stable sorted_map)
  then have c: "sorted_wrt (\<lambda>x y. f x = f y \<longrightarrow> g x \<le> g y) ?ys" by (rule sorted_wrt_class)
  have m: "sorted_wrt (\<lambda>x y. f x \<le> f y) ?ys" using sorted_sort_key[of f "sort_key g xs"] by (simp add: sorted_map)
  have "sorted_wrt (\<lambda>x y. f x \<le> f y \<and> (f x = f y \<longrightarrow> g x \<le> g y)) ?ys"
    using c m by (simp add: sorted_wrt_iff_nth_less)
  then show ?thesis by (rule sorted_wrt_mono_rel[rotated]) auto
qed

definition moreOverdue :: "Record \<Rightarrow> Record \<Rightarrow> bool" where
  "moreOverdue a b \<longleftrightarrow> r_UpdatedAt a < r_UpdatedAt b \<or>
     r_UpdatedAt a = r_UpdatedAt b \<and> artifactString (r_Artifact a) \<le> artifactString (r_Artifact b)"

lemma oldestFirst_sorted: "sorted_wrt moreOverdue (oldestFirst recs)"
  using sort_key_tie_break unfolding oldestFirst_def moreOverdue_def[abs_def] .

text \<open>C34: a revalidation pass takes the most overdue artifacts, within its bound.  What \<open>SelectDue\<close> returns is in
  order of age with ties by name, no longer than \<open>MaxPerCycle\<close>; together with what it leaves out it is exactly the
  rows in an eligible state that have not been looked at for the interval; nothing is left out while there is room,
  and nothing left out is more overdue than anything taken.\<close>

theorem select_due_most_overdue:
  "sorted_wrt moreOverdue (SelectDue records cfg now) \<and> int (length (SelectDue records cfg now)) \<le> max 0 (rl_MaxPerCycle cfg) \<and>
   (\<exists>left. mset (SelectDue records cfg now) + mset left = mset (filter (isDue cfg now) records) \<and>
      (\<forall>a \<in> set (SelectDue records cfg now). \<forall>b \<in> set left. moreOverdue a b) \<and>
      (left = [] \<or> int (length (SelectDue records cfg now)) = max 0 (rl_MaxPerCycle cfg)))"
proof -
  let ?all = "oldestFirst (filter (isDue cfg now) records)"
  define n where "n = (if rl_MaxPerCycle cfg \<le> 0 then 0 else nat (rl_MaxPerCycle cfg))"
  have s: "SelectDue records cfg now = take n ?all" by (auto simp: SelectDue_def n_def Let_def)
  have all: "mset ?all = mset (filter (isDue cfg now) records)" by (simp add: oldestFirst_def)
  have o: "sorted_wrt moreOverdue (take n ?all @ drop n ?all)" using oldestFirst_sorted by simp
  show ?thesis unfolding s
  proof (intro conjI exI[of _ "drop n ?all"])
    show "sorted_wrt moreOverdue (take n ?all)" "\<forall>a \<in> set (take n ?all). \<forall>b \<in> set (drop n ?all). moreOverdue a b"
      using o unfolding sorted_wrt_append by blast+
    show "int (length (take n ?all)) \<le> max 0 (rl_MaxPerCycle cfg)" by (auto simp: n_def min_def)
    show "mset (take n ?all) + mset (drop n ?all) = mset (filter (isDue cfg now) records)"
      using all by (metis append_take_drop_id mset_append)
    show "drop n ?all = [] \<or> int (length (take n ?all)) = max 0 (rl_MaxPerCycle cfg)" by (simp add: n_def min_def)
  qed
qed

lemma SelectDue_member: "rec \<in> set (SelectDue records cfg now) \<Longrightarrow> rec \<in> set records \<and> isDue cfg now rec"
  by (auto simp: SelectDue_def oldestFirst_def Let_def split: if_splits dest: in_set_takeD)

lemma SelectDue_length: "length (SelectDue records cfg now) \<le> nat (rl_MaxPerCycle cfg)"
  by (auto simp: SelectDue_def Let_def)

section \<open>What a failed look rests on\<close>

text \<open>Every active copy on a medium was asked about, and its object is missing or has another size; the journal
  refuses a placement that names no medium.\<close>

definition goneFromMedium :: "'w MediumStore \<Rightarrow> 'w \<Rightarrow> Medium \<Rightarrow> Placement \<Rightarrow> bool" where
  "goneFromMedium store w medium p \<longleftrightarrow>
     ms_StatObject store w medium (p_Location p) = Inl ObjectNotFound \<or>
     (\<exists>info n. ms_StatObject store w medium (p_Location p) = Inr info \<and> p_Size p = Some n \<and> oi_Size info \<noteq> n)"

definition failsOnMediums :: "'w RevalidateDeps \<Rightarrow> 'w \<Rightarrow> Record \<Rightarrow> bool" where
  "failsOnMediums d w rec \<longleftrightarrow>
     LocalPlacement rec = None \<and> ActiveMediumPlacements rec \<noteq> [] \<and>
     (\<exists>store mediums. rv_Store d = Some store \<and> rv_Mediums d = Some mediums \<and>
        (\<forall>p \<in> set (ActiveMediumPlacements rec). p_Medium p \<noteq> [] \<longrightarrow>
           (\<exists>medium. mediums (p_Medium p) = Some medium \<and> goneFromMedium store w medium p)))"

text \<open>The hash tier fails on a local copy for one of three reasons, and only the first says anything about its
  bytes: they have another digest, reading them failed, or the row names no copy at all.\<close>

definition hashAsked :: "Revalidation \<Rightarrow> Record \<Rightarrow> bool" where
  "hashAsked cfg rec \<longleftrightarrow> rl_Hash cfg \<and> r_LocalHashAlg rec = SHA256Alg \<and> r_LocalHash rec \<noteq> []"

definition contentDiffers :: "'w RevalidateDeps \<Rightarrow> Revalidation \<Rightarrow> 'w \<Rightarrow> Record \<Rightarrow> bool" where
  "contentDiffers d cfg w rec \<longleftrightarrow>
     hashAsked cfg rec \<and>
     (\<exists>path bytes. ReadableLocalPath rec = Some path \<and> rv_ReadFile d w path = Inr bytes \<and>
        \<not> equalFold (rv_Fold d) (rv_Digest d bytes) (r_LocalHash rec))"

definition copyUnreadable :: "'w RevalidateDeps \<Rightarrow> Revalidation \<Rightarrow> 'w \<Rightarrow> Record \<Rightarrow> bool" where
  "copyUnreadable d cfg w rec \<longleftrightarrow>
     hashAsked cfg rec \<and> (\<exists>path e. ReadableLocalPath rec = Some path \<and> rv_ReadFile d w path = Inl e)"

definition noCopyNamed :: "Revalidation \<Rightarrow> Record \<Rightarrow> bool" where
  "noCopyNamed cfg rec \<longleftrightarrow> hashAsked cfg rec \<and> ReadableLocalPath rec = None"

text \<open>The hook failed to accept the copy: it exited with an error, or its time ran out; the pass itself had not
  been ended.\<close>

definition hookAnswer :: "'w RevalidateDeps \<Rightarrow> Revalidation \<Rightarrow> 'w \<Rightarrow> Record \<Rightarrow> ValidatorRun option" where
  "hookAnswer d cfg w rec =
     (case rl_Command cfg of None \<Rightarrow> None
      | Some cmd \<Rightarrow> if cmd_Timeout cmd \<le> 0 then None
          else Some (fst (rv_Run d w cmd (case ReadableLocalPath rec of None \<Rightarrow> [] | Some path \<Rightarrow> path))))"

definition hookRefused :: "'w RevalidateDeps \<Rightarrow> Revalidation \<Rightarrow> 'w \<Rightarrow> Record \<Rightarrow> bool" where
  "hookRefused d cfg w rec \<longleftrightarrow>
     (\<exists>r. hookAnswer d cfg w rec = Some r \<and> vr_CallerEnded r = None \<and> \<not> vr_TimedOut r \<and> vr_Error r = Some ExitError)"

definition hookTimedOut :: "'w RevalidateDeps \<Rightarrow> Revalidation \<Rightarrow> 'w \<Rightarrow> Record \<Rightarrow> bool" where
  "hookTimedOut d cfg w rec \<longleftrightarrow>
     (\<exists>r. hookAnswer d cfg w rec = Some r \<and> vr_CallerEnded r = None \<and> vr_TimedOut r \<and> vr_Error r \<noteq> None)"

definition failedLook :: "'w RevalidateDeps \<Rightarrow> Revalidation \<Rightarrow> 'w \<Rightarrow> Record \<Rightarrow> bool" where
  "failedLook d cfg w rec \<longleftrightarrow>
     failsOnMediums d w rec \<or> contentDiffers d cfg w rec \<or> copyUnreadable d cfg w rec \<or> noCopyNamed cfg rec \<or>
     hookRefused d cfg w rec \<or> hookTimedOut d cfg w rec"

lemma RunRestoreCheck_failed:
  "RunRestoreCheck run killed w cmd path = (Inr res, w') \<Longrightarrow> \<not> rk_Passed res \<Longrightarrow>
   0 < cmd_Timeout cmd \<and> vr_CallerEnded (fst (run w cmd path)) = None \<and>
   (if vr_TimedOut (fst (run w cmd path)) then vr_Error (fst (run w cmd path)) \<noteq> None
    else vr_Error (fst (run w cmd path)) = Some ExitError)"
  by (auto simp: RunRestoreCheck_def Let_def split: if_splits prod.splits option.splits runError.splits)

lemma existence_failed:
  "ladderVerify uni sha (Some store) w medium p Existence now = Inr res \<Longrightarrow> \<not> rt_Passed res \<Longrightarrow> goneFromMedium store w medium p"
  by (auto simp: ladderVerify_def verifyExistence_def goneFromMedium_def split: if_splits sum.splits storeFault.splits option.splits)

lemma asked_grows:
  assumes "askMediums d store mediums w ps s = Inr s'"
  shows "(ak_AnyPassed s \<longrightarrow> ak_AnyPassed s') \<and> (ak_DidNotAnswer s \<noteq> None \<longrightarrow> ak_DidNotAnswer s' \<noteq> None) \<and>
    (ak_NotConfigured s \<noteq> [] \<longrightarrow> ak_NotConfigured s' \<noteq> [])"
  using assms
proof (induction ps arbitrary: s)
  case (Cons p ps)
  show ?case
  proof (cases "mediums (p_Medium p)")
    case None
    with Cons.IH[OF Cons.prems[simplified None askMediums.simps option.case]] show ?thesis by (auto split: if_splits)
  next
    case (Some medium)
    with Cons.prems show ?thesis
      by (cases "ladderVerify (rv_Fold d) (rv_Digest d) store w medium p automaticMediumClass (d_Now (rv_Deps d) w)")
        (auto split: if_splits dest!: Cons.IH)
  qed
qed simp

lemma asked_all_failed:
  assumes "askMediums d (Some store) mediums w ps s = Inr s'"
    and "\<not> ak_AnyPassed s'" "ak_DidNotAnswer s' = None" "ak_NotConfigured s' = []" "p \<in> set ps" "p_Medium p \<noteq> []"
  shows "\<exists>medium. mediums (p_Medium p) = Some medium \<and> goneFromMedium store w medium p"
  using assms
proof (induction ps arbitrary: s)
  case (Cons q ps)
  note prems = Cons.prems
  show ?case
  proof (cases "mediums (p_Medium q)")
    case None
    with prems(1) have a: "askMediums d (Some store) mediums w ps
        (if ak_NotConfigured s = [] then s\<lparr>ak_NotConfigured := p_Medium q\<rparr> else s) = Inr s'" by simp
    have "p_Medium q = []" using asked_grows[OF a] prems(4) by (auto split: if_splits)
    with prems(5,6) Cons.IH[OF a prems(2-4)] show ?thesis by auto
  next
    case (Some medium)
    show ?thesis
    proof (cases "ladderVerify (rv_Fold d) (rv_Digest d) (Some store) w medium q automaticMediumClass (d_Now (rv_Deps d) w)")
      case (Inl e)
      with prems(1) Some have "askMediums d (Some store) mediums w ps
          (if ak_DidNotAnswer s = None then s\<lparr>ak_DidNotAnswer := Some (p_Medium q, e)\<rparr> else s) = Inr s'"
        by (auto simp del: not_None_eq split: if_split_asm)
      from asked_grows[OF this] prems(3) show ?thesis by (auto split: if_splits)
    next
      case (Inr res)
      with prems(1) Some have a: "askMediums d (Some store) mediums w ps
          (s\<lparr>ak_Details := ak_Details s @ [rt_Detail res], ak_AnyPassed := (ak_AnyPassed s \<or> rt_Passed res)\<rparr>) = Inr s'" by simp
      have "goneFromMedium store w medium q"
        using asked_grows[OF a] prems(2) existence_failed[of _ _ store w medium q _ res] Inr by (auto simp: automaticMediumClass_def)
      with prems(5,6) Some Cons.IH[OF a prems(2-4)] show ?thesis by auto
    qed
  qed
qed simp

lemma failed_check_evidence:
  assumes r: "runChecks d cfg w rec = (Inr ans, w')" and c: "ca_Checked ans" "\<not> ca_Passed ans"
  shows "failedLook d cfg w rec"
proof (cases "LocalPlacement rec = None \<and> length (ActiveMediumPlacements rec) > 0")
  case True
  let ?ps = "ActiveMediumPlacements rec"
  have m: "checkMediumPlacements d cfg w ?ps = Inr ans" using r True by (auto simp: runChecks_def)
  with c(1) obtain store mediums where d: "rv_Store d = Some store" "rv_Mediums d = Some mediums"
    by (auto simp: checkMediumPlacements_def split: if_splits)
  let ?s0 = "\<lparr>ak_Details = [], ak_AnyPassed = False, ak_DidNotAnswer = None, ak_NotConfigured = []\<rparr>"
  obtain s where s: "askMediums d (Some store) mediums w ?ps ?s0 = Inr s" "mediumVerdict cfg ?ps s = Inr ans"
    using m d by (auto simp: checkMediumPlacements_def automaticMediumClass_def CostsEgress_def split: sum.splits)
  have "\<not> ak_AnyPassed s" "ak_DidNotAnswer s = None" "ak_NotConfigured s = []"
    using s(2) c by (auto simp: mediumVerdict_def simp del: not_None_eq split: if_splits)
  from asked_all_failed[OF s(1) this] True d show ?thesis by (auto simp: failsOnMediums_def failedLook_def)
next
  case False
  with r have l: "checkLocalCopy d cfg w rec = (Inr ans, w')" by (auto simp: runChecks_def)
  have h: "failedLook d cfg w rec" if "hashTier d cfg w rec = Some (False, why)" for why
    using that
    by (auto simp: hashTier_def failedLook_def hashAsked_def contentDiffers_def copyUnreadable_def noCopyNamed_def recomputeLocalHash_def
      split: if_splits option.splits sum.splits)
  show ?thesis
  proof (cases "rl_Command cfg")
    case None
    with l c h show ?thesis by (auto simp: checkLocalCopy_def onDisk_def Let_def split: option.splits if_splits)
  next
    case (Some cmd)
    let ?path = "case ReadableLocalPath rec of None \<Rightarrow> [] | Some path \<Rightarrow> path"
    obtain rr w1 where k: "RunRestoreCheck (rv_Run d) (rv_Killed d) w cmd ?path = (rr, w1)" by (meson surj_pair)
    with l Some obtain res where rr: "rr = Inr res" by (cases rr) (auto simp: checkLocalCopy_def Let_def)
    show ?thesis
    proof (cases "rk_Passed res")
      case True
      with l c k rr Some h show ?thesis by (auto simp: checkLocalCopy_def onDisk_def Let_def split: option.splits)
    next
      case False
      from RunRestoreCheck_failed[OF k[unfolded rr] this] Some have "hookRefused d cfg w rec \<or> hookTimedOut d cfg w rec"
        by (auto simp: hookRefused_def hookTimedOut_def hookAnswer_def split: if_splits)
      then show ?thesis by (auto simp: failedLook_def)
    qed
  qed
qed

lemma RunRestoreCheck_world:
  "RunRestoreCheck run killed w cmd path = (res, w') \<Longrightarrow> w' = w \<or> w' = snd (run w cmd path)"
  unfolding RunRestoreCheck_def by (cases "run w cmd path") (auto simp: Let_def split: if_splits option.splits runError.splits)

lemma runChecks_world:
  assumes "runChecks d cfg w rec = (res, w')"
  shows "w' = w \<or> (\<exists>cmd path. w' = snd (rv_Run d w cmd path))"
proof (cases "LocalPlacement rec = None \<and> length (ActiveMediumPlacements rec) > 0")
  case True
  with assms show ?thesis by (auto simp: runChecks_def)
next
  case False
  then have l: "checkLocalCopy d cfg w rec = (res, w')" using assms by (simp add: runChecks_def split: if_split_asm)
  show ?thesis
  proof (cases "rl_Command cfg")
    case None
    with l show ?thesis by (simp add: checkLocalCopy_def Let_def)
  next
    case (Some cmd)
    let ?path = "case ReadableLocalPath rec of None \<Rightarrow> [] | Some path \<Rightarrow> path"
    obtain rr w1 where k: "RunRestoreCheck (rv_Run d) (rv_Killed d) w cmd ?path = (rr, w1)" by (meson surj_pair)
    with l Some have "w1 = w'" by (cases rr) (simp_all add: checkLocalCopy_def Let_def)
    with RunRestoreCheck_world[OF k] show ?thesis by blast
  qed
qed

section \<open>What a pass asks of a medium\<close>

text \<open>A store that answers for an object the same way, whatever else its calls do.\<close>

lemma askMediums_only_stat:
  assumes "ms_StatObject store = ms_StatObject store'" "rv_Fold d = rv_Fold d'" "rv_Digest d = rv_Digest d'"
    and "rv_Deps d = rv_Deps d'" "rv_StoreStopped d = rv_StoreStopped d'"
  shows "askMediums d (Some store) mediums w ps s = askMediums d' (Some store') mediums w ps s"
proof (induction ps arbitrary: s)
  case (Cons p ps)
  have "ladderVerify (rv_Fold d) (rv_Digest d) (Some store) w m p automaticMediumClass now =
      ladderVerify (rv_Fold d') (rv_Digest d') (Some store') w m p automaticMediumClass now" for m now
    using assms by (simp add: ladderVerify_def automaticMediumClass_def verifyExistence_def)
  with Cons.IH assms(4,5) show ?case by (simp cong: option.case_cong sum.case_cong if_cong)
qed simp

lemma other_store_sel:
  fixes d :: "'w RevalidateDeps"
  shows "rv_Deps (d\<lparr>rv_Store := x\<rparr>) = rv_Deps d" "rv_ListByBackupSet (d\<lparr>rv_Store := x\<rparr>) = rv_ListByBackupSet d"
    "rv_ReadFile (d\<lparr>rv_Store := x\<rparr>) = rv_ReadFile d" "rv_Run (d\<lparr>rv_Store := x\<rparr>) = rv_Run d"
    "rv_ContextError (d\<lparr>rv_Store := x\<rparr>) = rv_ContextError d" "rv_Digest (d\<lparr>rv_Store := x\<rparr>) = rv_Digest d"
    "rv_Fold (d\<lparr>rv_Store := x\<rparr>) = rv_Fold d" "rv_Text (d\<lparr>rv_Store := x\<rparr>) = rv_Text d"
    "rv_Killed (d\<lparr>rv_Store := x\<rparr>) = rv_Killed d"
  by simp_all

lemma runChecks_only_stat:
  assumes "rv_Store d = Some store" "ms_StatObject store = ms_StatObject store'"
  shows "runChecks (d\<lparr>rv_Store := Some store'\<rparr>) cfg w rec = runChecks d cfg w rec"
proof -
  have "askMediums (d\<lparr>rv_Store := Some store'\<rparr>) (Some store') m v ps s = askMediums d (Some store) m v ps s" for m v ps s
    using askMediums_only_stat[of store' store "d\<lparr>rv_Store := Some store'\<rparr>" d] assms(2) by simp
  then have "checkMediumPlacements (d\<lparr>rv_Store := Some store'\<rparr>) cfg v ps = checkMediumPlacements d cfg v ps" for v ps
    using assms(1) by (simp add: checkMediumPlacements_def)
  moreover have "checkLocalCopy (d\<lparr>rv_Store := Some store'\<rparr>) cfg w rec = checkLocalCopy d cfg w rec"
    unfolding checkLocalCopy_def hashTier_def recomputeLocalHash_def other_store_sel ..
  ultimately show ?thesis by (simp add: runChecks_def)
qed

lemma loop_only_stat:
  assumes "rv_Store d = Some store" "ms_StatObject store = ms_StatObject store'"
  shows "revalidateLoop (d\<lparr>rv_Store := Some store'\<rparr>) cfg recs report w = revalidateLoop d cfg recs report w"
proof (induction recs arbitrary: report w)
  case (Cons rec recs)
  have c: "checkArtifact (d\<lparr>rv_Store := Some store'\<rparr>) cfg w rec = checkArtifact d cfg w rec"
    unfolding checkArtifact_def runChecks_only_stat[OF assms] passTransition_def failTransition_def other_store_sel ..
  have e: "failureCancelled (d\<lparr>rv_Store := Some store'\<rparr>) f = failureCancelled d f" for f by (cases f) simp_all
  show ?case by (simp only: revalidateLoop.simps c e Cons.IH) simp
qed simp

text \<open>C33: a scheduled pass downloads nothing.  Of a medium's calls it uses the one that asks about an object; whatever
  opening an object, asking for its checksum, uploading, deleting or restoring would do, with any other such calls
  in their place the pass, its report and its journal writes are the same.\<close>

theorem revalidation_downloads_nothing:
  assumes "rv_Store d = Some store" "ms_StatObject store = ms_StatObject store'"
  shows "revalidateRun (d\<lparr>rv_Store := Some store'\<rparr>) w st cfg = revalidateRun d w st cfg"
  unfolding revalidateRun_def loop_only_stat[OF assms] other_store_sel ..

section \<open>What a pass keeps\<close>

locale revalidating =
  fixes d :: "'w RevalidateDeps" and cfg :: Revalidation and P :: "'w \<Rightarrow> bool" and cause :: "ArtifactID \<Rightarrow> State \<times> State \<Rightarrow> bool"
  assumes hook_law: "P w \<Longrightarrow> P (snd (rv_Run d w cmd path))"
    and record_law: "d_Journal (rv_Deps d) = Some ops \<Longrightarrow> P w \<Longrightarrow> cause (t_Artifact t) (t_From t, t_To t) \<Longrightarrow>
      jo_RecordTransition ops w t = (jr, w') \<Longrightarrow> P w'"
begin

definition warranted :: "Record \<Rightarrow> 'w \<Rightarrow> bool" where
  "warranted rec w \<longleftrightarrow>
     cause (r_Artifact rec) (r_State rec, r_State rec) \<and>
     (failedLook d cfg w rec \<longrightarrow>
        cause (r_Artifact rec) (r_State rec, failTarget (r_State rec)))"

lemma Advance_keeps:
  "Advance (rv_Deps d) w t = (r, w') \<Longrightarrow> P w \<Longrightarrow> cause (t_Artifact t) (t_From t, t_To t) \<Longrightarrow> P w'"
  using Advance_writes record_law[of _ w "t\<lparr>t_OccurredAt := _\<rparr>"] by fastforce

lemma artifact_keeps:
  assumes r: "checkArtifact d cfg w rec = (res, w')" and w: "P w" "warranted rec w"
  shows "P w'"
proof -
  obtain cr w1 where c: "runChecks d cfg w rec = (cr, w1)" by (meson surj_pair)
  have 1: "P w1" using runChecks_world[OF c] w(1) hook_law by metis
  show ?thesis
  proof (cases cr)
    case (Inl e)
    with r c 1 show ?thesis by (simp add: checkArtifact_def)
  next
    case (Inr ans)
    consider "\<not> ca_Checked ans" | "ca_Checked ans" "ca_Passed ans" | "ca_Checked ans" "\<not> ca_Passed ans" by blast
    then show ?thesis
    proof cases
      case 1
      with r c Inr \<open>P w1\<close> show ?thesis by (simp add: checkArtifact_def)
    next
      case 2
      obtain ar w2 where a: "Advance (rv_Deps d) w1 (passTransition d rec ans) = (ar, w2)" by (meson surj_pair)
      have "P w2" using Advance_keeps[OF a 1] w(2) by (simp add: warranted_def passTransition_def Let_def emptyTransition_def)
      with r c Inr 2 a show ?thesis by (simp add: checkArtifact_def split: sum.splits)
    next
      case 3
      obtain ar w2 where a: "Advance (rv_Deps d) w1 (failTransition d rec ans) = (ar, w2)" by (meson surj_pair)
      have "P w2" using Advance_keeps[OF a 1] failed_check_evidence[OF c[unfolded Inr] 3] w(2)
        by (simp add: warranted_def failTransition_def Let_def emptyTransition_def)
      with r c Inr 3 a show ?thesis by (simp add: checkArtifact_def split: sum.splits)
    qed
  qed
qed

lemma loop_keeps:
  assumes "\<And>v rec. P v \<Longrightarrow> rec \<in> set recs \<Longrightarrow> warranted rec v" "P w" "revalidateLoop d cfg recs report w = (res, w')"
  shows "P w'"
  using assms
proof (induction recs arbitrary: report w)
  case (Cons rec recs)
  show ?case
  proof (cases "rv_ContextError d w")
    case (Some e)
    with Cons.prems show ?thesis by simp
  next
    case None
    obtain cr w1 where c: "checkArtifact d cfg w rec = (cr, w1)" by (meson surj_pair)
    have 1: "P w1" using artifact_keeps[OF c Cons.prems(2)] Cons.prems(1,2) by simp
    have more: "warranted rec' v" if "P v" "rec' \<in> set recs" for v rec' using that Cons.prems(1) by simp
    show ?thesis
    proof (cases cr)
      case (Inl e)
      with Cons.prems(3) None c 1 Cons.IH[OF more 1] show ?thesis by (simp split: if_split_asm)
    next
      case (Inr f)
      with Cons.prems(3) None c Cons.IH[OF more 1] show ?thesis by simp
    qed
  qed
qed simp

lemma Run_keeps:
  assumes "revalidateRun d w st cfg = (res, w')" "P w"
    and "\<And>recs v rec. rv_ListByBackupSet d w st = Inr recs \<Longrightarrow> P v \<Longrightarrow>
      rec \<in> set (SelectDue recs cfg (d_Now (rv_Deps d) w)) \<Longrightarrow> warranted rec v"
  shows "P w'"
  using assms(1,2) loop_keeps[OF assms(3) assms(2)]
  by (auto simp: revalidateRun_def split: option.splits if_splits sum.splits)

end

end
