(* ===== verification/RevalidateWorld.thy ===== *)
theory RevalidateWorld
  imports RevalidateProps FetchWorld
begin

text \<open>
  Revalidation over the world of the pipeline, with mediums that answer, or fail to, about their objects.
\<close>

section \<open>The reads\<close>

text \<open>Which mediums are configured, what each says of an object, which local files cannot be read, and which
  failures of a medium are the end of the pass's context.\<close>

record RevalSetup =
  rs_Mediums :: "(string \<Rightarrow> Medium option) option"
  rs_Stat :: "(Medium \<Rightarrow> string \<Rightarrow> storeFault + ObjectInfo) option"
  rs_Unreadable :: "string \<Rightarrow> bool"
  rs_Text :: "checkReason \<Rightarrow> string"
  rs_Stopped :: "ladderError \<Rightarrow> bool"

definition statOnly :: "(Medium \<Rightarrow> string \<Rightarrow> storeFault + ObjectInfo) \<Rightarrow> PWorld MediumStore" where
  "statOnly stat =
     (let no = StoreFault ''not supported'' in
      \<lparr>ms_StatObject = (\<lambda>w. stat), ms_OpenObject = (\<lambda>w m k. Inl no), ms_ObjectChecksum = (\<lambda>w m k. Inl no),
       ms_UploadFromLocal = (\<lambda>w m q k. (Inl no, w)), ms_DeleteObject = (\<lambda>w m k. (Some no, w)),
       ms_RestoreStatus = (\<lambda>w m k. Inl no)\<rparr>)"

definition pRevalidate :: "PSetup \<Rightarrow> RevalSetup \<Rightarrow> PWorld RevalidateDeps" where
  "pRevalidate su rs =
     \<lparr>rv_Deps = pDeps, rv_ListByBackupSet = (\<lambda>w. ListByBackupSet (pw_db w)),
      rv_Store = map_option statOnly (rs_Stat rs), rv_Mediums = rs_Mediums rs,
      rv_ReadFile = (\<lambda>w q.
        if rs_Unreadable rs q then Inl ioFailed else case fileAt w q of None \<Rightarrow> Inl noFile | Some b \<Rightarrow> Inr b),
      rv_Run = pRun su, rv_ContextError = (\<lambda>w. if pCancelled w then Some ContextCanceled else None),
      rv_Digest = ps_Digest su, rv_Fold = ps_Fold su, rv_Text = rs_Text rs, rv_Killed = itoa,
      rv_StoreStopped = rs_Stopped rs, rv_JournalStopped = (\<lambda>e. False)\<rparr>"

lemma pRevalidate_sel [simp]:
  "rv_Deps (pRevalidate su rs) = pDeps" "rv_ListByBackupSet (pRevalidate su rs) w = ListByBackupSet (pw_db w)"
  "rv_Run (pRevalidate su rs) = pRun su" "rv_Mediums (pRevalidate su rs) = rs_Mediums rs"
  by (simp_all add: pRevalidate_def)

lemma failsOnMediums_world:
  "failsOnMediums (pRevalidate su rs) v rec = failsOnMediums (pRevalidate su rs) w rec"
  by (auto simp: failsOnMediums_def pRevalidate_def goneFromMedium_def statOnly_def Let_def)

lemma localFailures_world:
  assumes "fileAt v = fileAt w"
  shows "contentDiffers (pRevalidate su rs) cfg v rec = contentDiffers (pRevalidate su rs) cfg w rec"
    "copyUnreadable (pRevalidate su rs) cfg v rec = copyUnreadable (pRevalidate su rs) cfg w rec"
proof -
  have "rv_ReadFile (pRevalidate su rs) v = rv_ReadFile (pRevalidate su rs) w"
    using assms by (simp add: pRevalidate_def cong: if_cong)
  then show "contentDiffers (pRevalidate su rs) cfg v rec = contentDiffers (pRevalidate su rs) cfg w rec"
    "copyUnreadable (pRevalidate su rs) cfg v rec = copyUnreadable (pRevalidate su rs) cfg w rec"
    unfolding contentDiffers_def copyUnreadable_def by (simp_all only:)
qed

section \<open>What a pass does\<close>

text \<open>When a row may be given an edge: it is among the most overdue, and it either stays in its state or is
  condemned.  A row is condemned when every medium holding it answered that its object is gone or of another
  size, when its local file has another digest, cannot be read, or is not named by the row, or when the operator's
  hook exited with an error or ran out of its time on the same files.\<close>

definition condemnedOn :: "PSetup \<Rightarrow> RevalSetup \<Rightarrow> Revalidation \<Rightarrow> PWorld \<Rightarrow> Record \<Rightarrow> bool" where
  "condemnedOn su rs cfg w rec \<longleftrightarrow>
     failsOnMediums (pRevalidate su rs) w rec \<or> contentDiffers (pRevalidate su rs) cfg w rec \<or>
     copyUnreadable (pRevalidate su rs) cfg w rec \<or> noCopyNamed cfg rec \<or>
     (\<exists>v. fileAt v = fileAt w \<and> hookRefused (pRevalidate su rs) cfg v rec) \<or>
     (\<exists>v. fileAt v = fileAt w \<and> hookTimedOut (pRevalidate su rs) cfg v rec)"

definition revalCause ::
  "PSetup \<Rightarrow> RevalSetup \<Rightarrow> Revalidation \<Rightarrow> PWorld \<Rightarrow> BackupSetID \<Rightarrow> ArtifactID \<Rightarrow> State \<times> State \<Rightarrow> bool" where
  "revalCause su rs cfg w st a e \<longleftrightarrow>
     (\<exists>recs rec. ListByBackupSet (pw_db w) st = Inr recs \<and> rec \<in> set (SelectDue recs cfg (pw_clock w)) \<and>
        r_Artifact rec = a \<and> fst e = r_State rec \<and>
        (snd e = fst e \<or> snd e = failTarget (fst e) \<and> condemnedOn su rs cfg w rec))"

interpretation pq: revalidating "pRevalidate su rs" cfg "reconciled cause w" cause for su rs cfg cause w
proof unfold_locales
  fix v cmd path assume "reconciled cause w v"
  then show "reconciled cause w (snd (rv_Run (pRevalidate su rs) v cmd path))"
    by (simp add: reconciled_def pInv_def pRun_def pTick_def fileAt_def[abs_def])
next
  fix ops :: "PWorld JournalOps" and v t jr v'
  assume "d_Journal (rv_Deps (pRevalidate su rs)) = Some ops" "reconciled cause w v" "cause (t_Artifact t) (t_From t, t_To t)"
    "jo_RecordTransition ops v t = (jr, v')"
  then show "reconciled cause w v'" using reconciled_record by auto
qed

text \<open>C32: Revalidation condemns a copy only for a cause it has met in that pass.  Whatever fails in a pass, it touches
  no file, no remote object and deletes nothing; it gives edges to no more artifacts than \<open>MaxPerCycle\<close>, all of them
  among the most overdue of the set in an eligible state; and an edge that is not a recorded pass goes to QUARANTINED,
  or from COMPLETE to QUARANTINED\<open>_\<close>LOST, and only when every medium that holds an active copy was asked and answered
  that its object is gone or of another size, or the local file's digest is not the recorded one, or reading the file
  failed, or the row names no copy to read, or the hook exited with an error, or the hook's time ran out.  A failed
  read says nothing of the bytes, and neither does a hook that is killed: the code condemns on them all the same.\<close>

theorem revalidation_needs_evidence:
  assumes wf: "wfJournal (pw_db w)" and r: "revalidateRun (pRevalidate su rs) w st cfg = (res, w')"
  shows "fileAt w' = fileAt w \<and> pw_remote w' = pw_remote w \<and> pw_calls w' = pw_calls w \<and> wfJournal (pw_db w') \<and>
    (\<forall>a. \<exists>es. history (pw_db w') a = history (pw_db w) a @ es \<and> (\<forall>e \<in> set es. revalCause su rs cfg w st a e)) \<and>
    card {a. history (pw_db w') a \<noteq> history (pw_db w) a} \<le> nat (rl_MaxPerCycle cfg)"
proof -
  let ?c = "revalCause su rs cfg w st"
  have start: "reconciled ?c w w" using wf by (simp add: reconciled_def pInv_def)
  have k: "reconciled ?c w w'"
  proof (rule pq.Run_keeps[OF r start])
    fix recs v rec
    assume l: "rv_ListByBackupSet (pRevalidate su rs) w st = Inr recs" and v: "reconciled ?c w v"
      and rec: "rec \<in> set (SelectDue recs cfg (d_Now (rv_Deps (pRevalidate su rs)) w))"
    have f: "fileAt v = fileAt w" using v by (simp add: reconciled_def)
    show "pq.warranted su rs cfg ?c rec v"
      unfolding pq.warranted_def failedLook_def failsOnMediums_world[of su rs v rec w] localFailures_world[OF f]
      using l rec f by (auto simp: revalCause_def condemnedOn_def)
  qed
  have es: "\<forall>a. \<exists>es. history (pw_db w') a = history (pw_db w) a @ es \<and> (\<forall>e \<in> set es. ?c a e)"
    using k unfolding reconciled_def by blast
  have "card {a. history (pw_db w') a \<noteq> history (pw_db w) a} \<le> nat (rl_MaxPerCycle cfg)"
  proof (cases "ListByBackupSet (pw_db w) st")
    case (Inl e)
    have "{a. history (pw_db w') a \<noteq> history (pw_db w) a} = {}"
    proof (intro equals0I)
      fix a assume "a \<in> {a. history (pw_db w') a \<noteq> history (pw_db w) a}"
      moreover obtain xs where "history (pw_db w') a = history (pw_db w) a @ xs" "\<forall>e \<in> set xs. ?c a e" using es by blast
      ultimately obtain e' where "?c a e'" by (cases xs) auto
      with Inl show False by (simp add: revalCause_def)
    qed
    then show ?thesis by simp
  next
    case (Inr recs)
    let ?due = "SelectDue recs cfg (pw_clock w)"
    have "{a. history (pw_db w') a \<noteq> history (pw_db w) a} \<subseteq> set (map r_Artifact ?due)"
    proof
      fix a assume "a \<in> {a. history (pw_db w') a \<noteq> history (pw_db w) a}"
      moreover obtain xs where "history (pw_db w') a = history (pw_db w) a @ xs" "\<forall>e \<in> set xs. ?c a e" using es by blast
      ultimately obtain e' where "?c a e'" by (cases xs) auto
      with Inr show "a \<in> set (map r_Artifact ?due)" by (auto simp: revalCause_def)
    qed
    then have "card {a. history (pw_db w') a \<noteq> history (pw_db w) a} \<le> length (map r_Artifact ?due)"
      using card_mono[OF finite_set] card_length order_trans by blast
    with SelectDue_length[of recs cfg "pw_clock w"] show ?thesis by simp
  qed
  with k es show ?thesis by (simp add: reconciled_def pInv_def)
qed

end
