(* ===== verification/RevalidateRuns.thy ===== *)
theory RevalidateRuns
  imports RevalidateWorld
begin

text \<open>
  Concrete passes over one artifact that was backed up and is COMPLETE: with its file whole, with
  other bytes in it, and moved to mediums that answer, do not answer, or no longer hold it.
\<close>

section \<open>The passes\<close>

definition yearly :: Revalidation where
  "yearly = \<lparr>rl_Interval = 1, rl_MaxPerCycle = 1, rl_Hash = True, rl_Command = None\<rparr>"

definition bucket :: "string \<Rightarrow> Medium" where
  "bucket m = \<lparr>me_ID = m, me_Bucket = m, me_Prefix = [], me_StorageClass = []\<rparr>"

text \<open>Medium \<open>a\<close> still holds the object, \<open>b\<close> has lost it, \<open>c\<close> does not answer; \<open>x\<close> is not configured.\<close>

definition mediumsSetup :: RevalSetup where
  "mediumsSetup =
     \<lparr>rs_Mediums = Some (\<lambda>m. if List.member [''a'', ''b'', ''c''] m then Some (bucket m) else None),
      rs_Stat = Some (\<lambda>m k. if me_ID m = ''a'' then Inr \<lparr>oi_Size = 5, oi_ModTime = 0, oi_StorageClass = []\<rparr>
        else if me_ID m = ''b'' then Inl ObjectNotFound else Inl (StoreFault ''timeout'')),
      rs_Unreadable = (\<lambda>q. False), rs_Text = (\<lambda>r. ''why''), rs_Stopped = (\<lambda>e. False)\<rparr>"

definition restSet :: BackupSetID where "restSet = \<lparr>bs_Source = ''s'', bs_Set = ''b''\<rparr>"
definition restArtifact :: ArtifactID where "restArtifact = \<lparr>ar_Set = restSet, ar_Name = ''d''\<rparr>"

definition restRow :: Record where
  "restRow =
     \<lparr>r_Artifact = restArtifact, r_RemotePath = ''run/d'', r_LocalPath = ''/b/d'', r_State = Complete, r_DiscoveredAt = 11,
      r_UpdatedAt = 11, r_Remote = \<lparr>rf_Size = Some 5, rf_ModTime = None, rf_Hash = ''bytes'', rf_HashAlg = ''sha256'', rf_BackendID = []\<rparr>,
      r_Transfer = Some \<lparr>tr_BytesTransferred = 5, tr_Checksummed = False\<rparr>, r_LocalHash = ''bytes'', r_LocalHashAlg = ''sha256'',
      r_ValidationPassed = None, r_ValidationDetail = [], r_RetryCount = 0, r_LastError = [], r_NextRetryAt = None,
      r_RemoteDeletedAt = Some 11, r_RemoteDeleteError = [], r_RetentionTier = [], r_RetentionExpiresAt = None, r_Placements = []\<rparr>"

definition restLog :: "LogRow list" where
  "restLog = map2 (\<lambda>i (k, f, t). \<lparr>lg_ID = i, lg_Artifact = 1, lg_Key = [k], lg_From = f, lg_To = t, lg_OccurredAt = 11, lg_Detail = []\<rparr>)
     [1 ..< 10]
     [(CHR ''1'', noState, Discovered), (CHR ''2'', Discovered, Transferring), (CHR ''3'', Transferring, Transferred),
      (CHR ''4'', Transferred, Verifying), (CHR ''5'', Verifying, Verified), (CHR ''6'', Verified, Committing),
      (CHR ''7'', Committing, Committed), (CHR ''8'', Committed, RemoteDeletePending), (CHR ''9'', RemoteDeletePending, Complete)]"

definition placedAt :: "nat \<Rightarrow> string \<Rightarrow> PlacementRow" where
  "placedAt n m =
     \<lparr>plr_ID = n, plr_Artifact = 1, plr_Placement =
        \<lparr>p_Medium = m, p_Location = (if m = MediumLocal then ''/b/d'' else ''k''), p_Size = Some 5, p_Hash = ''bytes'',
         p_HashAlg = ''sha256'', p_VerificationClass = VerificationContent, p_VerifiedAt = None, p_Status = PlacementActive,
         p_CreatedAt = 11, p_UpdatedAt = 11\<rparr>\<rparr>"

definition heldOn :: "string list \<Rightarrow> string \<Rightarrow> PWorld" where
  "heldOn ms content =
     \<lparr>pw_db = \<lparr>j_artifacts = [(1, restRow)], j_log = restLog, j_placements = map2 placedAt [1 ..< Suc (length ms)] ms,
                j_addresses = [], j_moves = [], j_redact = id\<rparr>,
      pw_dir = (\<lambda>q. if q = ''/b/d'' then Some 0 else None), pw_data = (\<lambda>i. content), pw_next = 1, pw_remote = (\<lambda>_. None),
      pw_calls = [], pw_clock = 100, pw_steps = 0, pw_stopAt = None, pw_script = []\<rparr>"

definition restSetup :: PSetup where
  "restSetup =
     \<lparr>ps_Digest = id, ps_Encode = mf_ArtifactName, ps_Fold = (\<lambda>_ _. False), ps_Refusal = (\<lambda>_ _. ''refused''),
      ps_Verdict = (\<lambda>_. ''verdict''), ps_Statfs = \<lparr>fs_Bsize = 1, fs_Blocks = 5000, fs_Bfree = 4000, fs_Bavail = 3000\<rparr>,
      ps_Accepts = (\<lambda>_ b. b = Some ''bytes''), ps_Capacity = capExample, ps_MaxAttempts = 3\<rparr>"

definition revalidated :: "PWorld \<Rightarrow> (revalReport \<times> revalError option) \<times> PWorld" where
  "revalidated w = revalidateRun (pRevalidate restSetup mediumsSetup) w restSet yearly"

definition revalEnd ::
  "(revalReport \<times> revalError option) \<times> PWorld \<Rightarrow> (State \<times> State \<times> bool \<times> bool) list \<times> checkFailure list \<times> State list" where
  "revalEnd r =
     (map (\<lambda>f. (rvf_From f, rvf_To f, rvf_Checked f, rvf_Passed f)) (rr_Findings (fst (fst r))), map snd (rr_Errors (fst (fst r))),
      map (\<lambda>ar. r_State (snd ar)) (j_artifacts (pw_db (snd r))))"

text \<open>Medium \<open>b\<close> alone condemns; with a medium that holds the object it does not, and with one that did not answer
  or is not configured the pass is an error that writes nothing.\<close>

theorem medium_passes_run:
  "revalEnd (revalidated (heldOn [''a'', ''b''] ''bytes'')) = ([(Complete, Complete, True, True)], [], [Complete])"
  "revalEnd (revalidated (heldOn [''b''] ''bytes'')) = ([(Complete, QuarantinedLost, True, False)], [], [QuarantinedLost])"
  "revalEnd (revalidated (heldOn [''b'', ''c''] ''bytes'')) =
     ([], [NotEveryCopyAsked [''k is not present on b''] (Some (''c'', NotAskable ''c'' ''k'' (StoreFault ''timeout''))) []], [Complete])"
  "revalEnd (revalidated (heldOn [''b'', ''x''] ''bytes'')) =
     ([], [NotEveryCopyAsked [''k is not present on b''] None ''x''], [Complete])"
  "revalEnd (revalidated (heldOn [''x''] ''bytes'')) = ([(Complete, Complete, False, False)], [], [Complete])"
  by code_simp+

lemma disk_passes_run:
  "revalEnd (revalidated (heldOn [MediumLocal, ''b''] ''bytes'')) = ([(Complete, Complete, True, True)], [], [Complete])"
  "history (pw_db (snd (revalidated (heldOn [MediumLocal] ''xytes'')))) restArtifact =
     history (pw_db (heldOn [MediumLocal] ''xytes'')) restArtifact @ [(Complete, QuarantinedLost)]"
  by code_simp+

lemma heldOn_wf: "wfJournal (pw_db (heldOn [MediumLocal] ''xytes''))"
  by code_simp

section \<open>The theorems at these inputs\<close>

theorem revalidation_needs_evidence_witness:
  "revalCause restSetup mediumsSetup yearly (heldOn [MediumLocal] ''xytes'') restSet restArtifact (Complete, QuarantinedLost)"
proof -
  have r: "revalidateRun (pRevalidate restSetup mediumsSetup) (heldOn [MediumLocal] ''xytes'') restSet yearly =
      (fst (revalidated (heldOn [MediumLocal] ''xytes'')), snd (revalidated (heldOn [MediumLocal] ''xytes'')))" by (simp add: revalidated_def)
  from revalidation_needs_evidence[OF heldOn_wf r] disk_passes_run(2) show ?thesis by fastforce
qed

definition noOtherCalls :: "PWorld MediumStore" where
  "noOtherCalls = (statOnly (the (rs_Stat mediumsSetup)))\<lparr>ms_OpenObject := (\<lambda>w m k. Inr ''bytes''), ms_DeleteObject := (\<lambda>w m k. (None, heldOn [] []))\<rparr>"

theorem revalidation_downloads_nothing_witness:
  "revalidateRun ((pRevalidate restSetup mediumsSetup)\<lparr>rv_Store := Some noOtherCalls\<rparr>) (heldOn [''a''] ''bytes'') restSet yearly =
   revalidated (heldOn [''a''] ''bytes'')"
proof -
  have "rv_Store (pRevalidate restSetup mediumsSetup) = Some (statOnly (the (rs_Stat mediumsSetup)))"
    by (simp add: pRevalidate_def mediumsSetup_def)
  moreover have "ms_StatObject (statOnly (the (rs_Stat mediumsSetup))) = ms_StatObject noOtherCalls"
    by (simp add: noOtherCalls_def)
  ultimately show ?thesis unfolding revalidated_def by (rule revalidation_downloads_nothing)
qed

definition rowAt :: "string \<Rightarrow> instant \<Rightarrow> Record" where
  "rowAt name at =
     (newRecord ((emptyTransition \<lparr>ar_Set = restSet, ar_Name = name\<rparr> ''k'' noState Complete)\<lparr>t_OccurredAt := at\<rparr>))"

lemma selected_run:
  "SelectDue [rowAt ''b'' 7, rowAt ''c'' 3, rowAt ''a'' 7, rowAt ''z'' 100] (yearly\<lparr>rl_MaxPerCycle := 2\<rparr>) 100 = [rowAt ''c'' 3, rowAt ''a'' 7]"
  "filter (isDue (yearly\<lparr>rl_MaxPerCycle := 2\<rparr>) 100) [rowAt ''b'' 7, rowAt ''c'' 3, rowAt ''a'' 7, rowAt ''z'' 100] =
     [rowAt ''b'' 7, rowAt ''c'' 3, rowAt ''a'' 7]"
  by code_simp+

theorem select_due_most_overdue_witness:
  "moreOverdue (rowAt ''c'' 3) (rowAt ''b'' 7) \<and> moreOverdue (rowAt ''a'' 7) (rowAt ''b'' 7)"
proof -
  from select_due_most_overdue[of "[rowAt ''b'' 7, rowAt ''c'' 3, rowAt ''a'' 7, rowAt ''z'' 100]" "yearly\<lparr>rl_MaxPerCycle := 2\<rparr>" 100]
  obtain left where l: "mset [rowAt ''c'' 3, rowAt ''a'' 7] + mset left = mset [rowAt ''b'' 7, rowAt ''c'' 3, rowAt ''a'' 7]"
    "\<forall>a \<in> set [rowAt ''c'' 3, rowAt ''a'' 7]. \<forall>b \<in> set left. moreOverdue a b"
    unfolding selected_run by blast
  have "mset left = {#rowAt ''b'' 7#}" using l(1) by (simp add: add_mset_commute)
  then have "left = [rowAt ''b'' 7]" by simp
  with l(2) show ?thesis by simp
qed

end
