(* ===== verification/Spec2Isabelle.thy ===== *)
theory Spec2Isabelle
  imports Vocabulary CommitRetry GfsSpec GfsWindow PruneDisk MoveRuns PipelineRuns FetchRuns RevalidateRuns
begin

text \<open>
  A verification development for backupd, a backup manager written in Go that runs on a NAS.  It copies
  finished backup files (\<^emph>\<open>artifacts\<close>) from remote sources, verifies them, commits them to its own disk,
  deletes the source once that is safe, keeps what its retention chain selects, moves kept artifacts to
  storage mediums, and looks at its copies again from time to time.  Everything it knows is a journal in
  SQLite; every step writes the journal before and after what it does to the world.  All paths below are
  relative to \<open>src/core/internal\<close>.

  \<^bold>\<open>The program's parts and the theories that model them.\<close>

  \<^item> \<^emph>\<open>Prelude\<close>: strings as byte lists, \<open>strings\<close> and \<open>path\<close> functions of the standard library, sums as results
    (\<open>bindE\<close>, \<open>mapErr\<close>), saturating time differences.  \<^emph>\<open>Ids\<close>, \<^emph>\<open>Vocabulary\<close> (\<open>model\<close>): identities and their parsers,
    the comparison of remote identities, the closed vocabularies.
  \<^item> \<^emph>\<open>Machine\<close> (\<open>lifecycle/state.go\<close>, \<open>machine.go\<close>): the thirteen states and the table of legal edges.
    \<^emph>\<open>Journal\<close>, \<^emph>\<open>JournalQueries\<close> (\<open>state/journal.go\<close>, \<open>placements.go\<close>, \<open>query.go\<close>, \<open>addresses.go\<close>): the tables as
    lists of rows with their constraints, \<open>RecordTransition\<close> and every query.  \<^emph>\<open>MovePhase\<close>, \<^emph>\<open>MoveJournal\<close>
    (\<open>placement/phases.go\<close>, \<open>state/moves.go\<close>): the rows of placement moves.  \<^emph>\<open>Rfc3339\<close>: the text of an instant.
  \<^item> \<^emph>\<open>Lifecycle\<close> (\<open>lifecycle/engine.go\<close>, \<open>retainremote.go\<close>, \<open>retryfailed.go\<close>, \<open>quarantine.go\<close>): \<open>Advance\<close> and the steps
    that only write the journal.  \<^emph>\<open>TransferStep\<close>, \<^emph>\<open>VerifyStep\<close>, \<^emph>\<open>Commit\<close>, \<^emph>\<open>RemoteDelete\<close> (\<open>transfer.go\<close>, \<open>verify.go\<close>,
    \<open>commit.go\<close> with \<open>recovery/manifest.go\<close>, \<open>remotedelete.go\<close>): the steps that touch the world.  \<^emph>\<open>Retry\<close>
    (\<open>transport/errors.go\<close>, \<open>transport/retry\<close>), \<^emph>\<open>Capacity\<close> (\<open>capacity\<close>), \<^emph>\<open>Pipeline\<close> (\<open>app/pipeline.go\<close>): one artifact
    through all of them.
  \<^item> \<^emph>\<open>Glob\<close> (\<open>path.Match\<close>), \<^emph>\<open>Discovery\<close> (\<open>discovery\<close>): a listing into rows.  \<^emph>\<open>Reconcile\<close> (\<open>reconcile\<close>): the journal against
    disk and remote.  \<^emph>\<open>FetchPass\<close> (\<open>app/fetch.go\<close>): reconciliation, discovery and the pipeline over one set.
    \<^emph>\<open>Revalidate\<close> (\<open>revalidate\<close>, \<open>lifecycle/restorecheck.go\<close>): the scheduled second look.
  \<^item> \<^emph>\<open>Civil\<close>, \<^emph>\<open>Gfs\<close>, \<^emph>\<open>LastKnownGood\<close>, \<^emph>\<open>HomeMedium\<close>, \<^emph>\<open>Store\<close>, \<^emph>\<open>Paths\<close>, \<^emph>\<open>Prune\<close> (\<open>retention\<close>, \<open>artifactstore/local.go\<close>):
    the calendar, the retention chain, the protected restore point, where an artifact belongs, and the
    deletion of local files.
  \<^item> \<^emph>\<open>Archive\<close> (\<open>archive\<close>), \<^emph>\<open>Ladder\<close>, \<^emph>\<open>MoveGuard\<close>, \<^emph>\<open>MoveEngine\<close> (\<open>placement/ladder.go\<close>, \<open>gate.go\<close>, \<open>predelete.go\<close>,
    \<open>sourcedelete.go\<close>, \<open>staging.go\<close>, \<open>engine.go\<close>): the verification classes, the guards before a source is deleted
    and the walk of a move through its phases.

  Definitions keep the names of the Go functions and types they translate; record fields carry a prefix of the
  type.  A struct is a record, an enumeration a datatype, a fallible function answers a sum with the error on
  the left.  Texts of errors and reasons are constructors that carry what the code puts into the text; where a
  text is written to the journal the rendering is an argument.

  \<^bold>\<open>State and failure.\<close>  The steps are written over records of calls on a world of any type: \<open>JournalOps\<close>, \<open>Deps\<close>,
  \<open>Transport\<close>, \<open>CommitFS\<close>, \<open>PruneFS\<close>, \<open>MediumStore\<close>, \<open>LocalStore\<close> and others, in the order the code makes the calls.
  The theories named \<^emph>\<open>World\<close> give such worlds, in which every changing call may work, fail before it takes effect or
  take effect and lose its answer, as a script says: \<open>World\<close> (DeleteWorld), the disk that can lose power
  (CommitWorld), \<open>PWorld\<close> (PipelineWorld, used by the passes), \<open>MoveWorld\<close> with one address space of files and
  objects, \<open>Disk\<close> with symbolic links (PruneDisk).  The theories named \<^emph>\<open>Runs\<close> hold concrete runs and the witnesses.

  \<^bold>\<open>Contracts.\<close>  A locale states what a component relies on and its lemmas are proved inside: \<open>lifecycle_journal\<close>
  (a journal keeps its invariant and histories; interpreted by the SQL journal as \<open>sql\<close>), \<open>source_deleter\<close> (\<open>wd\<close>),
  \<open>newest\<close> (two orders, one fold: \<open>gfs\<close>, \<open>lkg\<close>), \<open>quiet_disk\<close> (\<open>disk\<close>), \<open>move_journal\<close> and \<open>move_world\<close> (\<open>wb\<close>, \<open>wm\<close>),
  \<open>copying\<close>, \<open>measured\<close>, \<open>verifying\<close>, \<open>committing\<close>, \<open>pipelined\<close> (the steps of the pipeline keep a property),
  \<open>scanning\<close>, \<open>reconciling\<close>, \<open>revalidating\<close> (the passes keep a property).  Each is interpreted on the model's own
  journal, disk and stores.

  \<^bold>\<open>What the lemmas show.\<close>  JournalInv: the rows of a journal are the ends of their histories in the
  append-only log, every write keeps that, a key is applied once.  LifecycleProps, RemoteDeleteProps, DeleteWorld:
  no source is deleted before its commit and the intent are on record.  TransferProps, VerifyProps, PipelineProps,
  PipelineWorld: what success of a step means.  CommitWorld, CommitRetry: committed bytes survive, retries end.
  DiscoveryProps, ReconcileProps, FetchWorld: what a pass may add, change and delete, and that it returns.
  RevalidateProps, RevalidateWorld: what is looked at, at what cost and what condemns a copy.  GfsProps, GfsOrder, GfsSpec,
  GfsWindow: the loops of the chain against a specification without loops.  PruneProps, PruneDisk: what an unlink
  hits.  MoveSafe, MoveBound, MoveWorld: a move keeps the bytes and ends.

  \<^bold>\<open>Bounds.\<close>  Loops over lists are structural recursion.  The retry loop may run for ever in the code and is a
  partial function into an option; with a bound on the attempts it is proved to return.  The driver of a move
  has the code's own bound of 32 steps, proved to be more than any walk with five copies needs.  Sizes in the
  capacity guard are 64-bit words, saturating and wrapping as written; instants are nanoseconds in \<open>int\<close>, and the
  differences Go saturates are saturated.

  \<^bold>\<open>Not modelled.\<close>  Configuration loading and validation; the snapshot engine (Kopia) with its catalog, retention
  and workflows; recovery scans; reclaiming of placements; health and alerts; the transports and backends behind
  the transport's calls (rclone, SSH, S3); the host runner, live checks, command line, API and user interface;
  migrations and driver failures of SQLite.  The zone database, the Unicode case tables, the hash functions, the
  JSON encoding and the operator's programs are arguments.  Two answers are narrower than the code's:
  \<open>WriteManifest\<close> has no branch for a failure of the JSON encoding, which cannot fail on the manifest's fields, and a
  \<open>fetchPass\<close> that fails answers its error without the partial counts the code returns beside it.
\<close>

end
